(* ===== verification/Tos_Prelude.thy ===== *)
theory Tos_Prelude
  imports Main "HOL-Library.Word" "HOL-Library.AList"
begin

text \<open>
  Shared vocabulary of the development: the machine integers of the sources, the string
  helpers of \<^verbatim>\<open>src/src/util/status.cpp\<close> and \<^verbatim>\<open>src/src/util/bytes.cpp\<close>, the result types of
  \<^verbatim>\<open>src/include/tos/util/status.hpp\<close>, the identities and generation counters of
  \<^verbatim>\<open>src/include/tos/core/identities.hpp\<close>, and the lemmas on association lists (the model of
  \<^verbatim>\<open>std::unordered_map\<close>) that every component uses.

  Conventions. A \<^verbatim>\<open>std::uint64_t\<close>, an identity (\<^verbatim>\<open>StrongId<Tag>\<close>) and a generation
  (\<^verbatim>\<open>Generation<Tag>\<close>) are 64-bit words, so arithmetic on them wraps exactly where the
  source's does. A \<^verbatim>\<open>std::unordered_map<std::uint64_t, V>\<close> is an association list with
  distinct keys; a \<^verbatim>\<open>std::vector\<close> is a list; \<^verbatim>\<open>std::size_t\<close> container sizes are naturals.
\<close>

unbundle bit_operations_syntax

type_synonym u8 = "8 word"
type_synonym u32 = "32 word"
type_synonym u64 = "64 word"
type_synonym 'v umap = "(u64 \<times> 'v) list"

named_theorems tos_defs \<open>unfolding equations of the operations\<close>
named_theorems status_simps \<open>facts about success and failure values\<close>

section \<open>Strings\<close>

text \<open>The bounds of \<^verbatim>\<open>status.hpp\<close>.\<close>

definition kMaxTextLength :: nat where "kMaxTextLength = 512"
definition kMaxNameLength :: nat where "kMaxNameLength = 96"
definition kMaxLabelLength :: nat where "kMaxLabelLength = 128"

lemmas text_bounds = kMaxTextLength_def kMaxNameLength_def kMaxLabelLength_def

text \<open>\<^verbatim>\<open>bounded_text\<close>: truncate to a hard bound, then replace control characters.\<close>

definition bounded_char :: "char \<Rightarrow> char" where
  "bounded_char c =
     (if (of_char c :: nat) < 32 \<or> (of_char c :: nat) = 127 then CHR ''?'' else c)"

definition bounded_text :: "string \<Rightarrow> nat \<Rightarrow> string" where
  "bounded_text text limit = map bounded_char (take limit text)"

text \<open>\<^verbatim>\<open>is_valid_name\<close>: a non-empty bounded name over letters, digits and \<^verbatim>\<open>_ . - :\<close>.\<close>

definition valid_name_char :: "char \<Rightarrow> bool" where
  "valid_name_char c =
     (let uc = (of_char c :: nat) in
        (65 \<le> uc \<and> uc \<le> 90) \<or> (97 \<le> uc \<and> uc \<le> 122) \<or> (48 \<le> uc \<and> uc \<le> 57)
        \<or> c = CHR ''_'' \<or> c = CHR ''.'' \<or> c = CHR ''-'' \<or> c = CHR '':'')"

definition is_valid_name :: "string \<Rightarrow> bool" where
  "is_valid_name text =
     (if text = [] \<or> length text > kMaxNameLength then False
      else list_all valid_name_char text)"

definition printable_char :: "char \<Rightarrow> bool" where
  "printable_char c = (let uc = (of_char c :: nat) in \<not> (uc < 32 \<or> uc > 126))"

definition is_printable_ascii :: "string \<Rightarrow> nat \<Rightarrow> bool" where
  "is_printable_ascii text limit =
     (if length text > limit then False else list_all printable_char text)"

text \<open>\<^verbatim>\<open>std::to_string\<close> on unsigned integers: decimal digits, most significant first.\<close>

definition digit_char :: "nat \<Rightarrow> char" where
  "digit_char d = char_of (48 + d)"

fun decimal :: "nat \<Rightarrow> string" where
  "decimal n = (if n < 10 then [digit_char n] else decimal (n div 10) @ [digit_char (n mod 10)])"

declare decimal.simps [simp del]

definition to_string_u64 :: "u64 \<Rightarrow> string" where
  "to_string_u64 w = decimal (unat w)"

lemma length_bounded_text [simp]: "length (bounded_text text limit) = min limit (length text)"
  by (simp add: bounded_text_def)

lemma bounded_char_idem [simp]: "bounded_char (bounded_char c) = bounded_char c"
  by (simp add: bounded_char_def)

lemma bounded_text_idem [simp]: "bounded_text (bounded_text text limit) limit = bounded_text text limit"
  by (simp add: bounded_text_def take_map)

lemma bounded_text_Nil [simp]: "bounded_text [] limit = []"
  by (simp add: bounded_text_def)

lemma bounded_char_printable: "printable_char c \<Longrightarrow> bounded_char c = c"
  by (auto simp: bounded_char_def printable_char_def Let_def)

lemma bounded_text_printable:
  "list_all printable_char t \<Longrightarrow> length t \<le> limit \<Longrightarrow> bounded_text t limit = t"
  by (auto simp: bounded_text_def list_all_iff bounded_char_printable intro!: map_idI)

section \<open>Status and Checked\<close>

record Status =
  st_ok :: bool
  st_code :: string
  st_message :: string

definition success :: Status where
  "success = \<lparr>st_ok = True, st_code = [], st_message = []\<rparr>"

definition failure :: "string \<Rightarrow> string \<Rightarrow> Status" where
  "failure code_in message_in =
     \<lparr>st_ok = False, st_code = bounded_text code_in kMaxNameLength,
      st_message = bounded_text message_in kMaxTextLength\<rparr>"

text \<open>\<^verbatim>\<open>Checked<T>\<close> carries a value exactly when its status is a success.\<close>

datatype 'a Checked = Good 'a | Bad Status

definition bad :: "string \<Rightarrow> string \<Rightarrow> 'a Checked" where
  "bad code_in message_in = Bad (failure code_in message_in)"

fun checked_ok :: "'a Checked \<Rightarrow> bool" where
  "checked_ok (Good _) = True"
| "checked_ok (Bad _) = False"

lemma success_ok [simp, status_simps]: "st_ok success"
  by (simp add: success_def)

lemma failure_not_ok [simp, status_simps]: "\<not> st_ok (failure c m)"
  by (simp add: failure_def)

lemma success_neq_failure [simp, status_simps]: "success \<noteq> failure c m" "failure c m \<noteq> success"
  by (simp_all add: success_def failure_def)

lemma bad_not_good [simp]: "bad c m \<noteq> Good v" "Good v \<noteq> bad c m" "\<not> checked_ok (bad c m)"
  by (simp_all add: bad_def)

lemma st_code_failure: "st_code (failure c m) = bounded_text c kMaxNameLength"
  by (simp add: failure_def)

section \<open>Identities and generations\<close>

text \<open>\<^verbatim>\<open>StrongId::valid\<close> and \<^verbatim>\<open>Generation::published\<close>: zero is reserved.\<close>

definition valid :: "u64 \<Rightarrow> bool" where
  "valid v = (v \<noteq> 0)"

abbreviation (input) published :: "u64 \<Rightarrow> bool" where
  "published \<equiv> valid"

text \<open>\<^verbatim>\<open>StrongIdHash\<close>: the splitmix64 finalizer, bit for bit.\<close>

definition strong_id_hash :: "u64 \<Rightarrow> u64" where
  "strong_id_hash v =
     (let x = v + 0x9E3779B97F4A7C15;
          x = (x XOR drop_bit 30 x) * 0xBF58476D1CE4E5B9;
          x = (x XOR drop_bit 27 x) * 0x94D049BB133111EB
      in x XOR drop_bit 31 x)"

definition gen_first :: u64 where "gen_first = 1"

definition kSaturated :: u64 where "kSaturated = 0xFFFFFFFFFFFFFFFF"

text \<open>\<^verbatim>\<open>Generation::next\<close>: saturates instead of wrapping.\<close>

definition gen_next :: "u64 \<Rightarrow> u64" where
  "gen_next v = (if v = kSaturated then v else v + 1)"

lemma unat_kSaturated [simp]: "unat kSaturated = 2 ^ 64 - 1"
  by (simp add: kSaturated_def)

lemma unat_lt_u64: "unat (v :: u64) < 2 ^ 64"
  using unsigned_less [of v] by simp

lemma unat_Suc_u64: "unat (v + 1 :: u64) = (if unat v = 2 ^ 64 - 1 then 0 else Suc (unat v))"
proof -
  have "unat (v + 1) = (unat v + 1) mod 2 ^ 64"
    by (simp add: unat_word_ariths)
  moreover note unat_lt_u64 [of v]
  ultimately show ?thesis by (auto simp: mod_if)
qed

lemma unat_gen_next: "unat (gen_next v) = min (Suc (unat v)) (2 ^ 64 - 1)"
proof (cases "v = kSaturated")
  case True
  then show ?thesis by (simp add: gen_next_def)
next
  case False
  then have "unat v \<noteq> 2 ^ 64 - 1"
    using unat_kSaturated by (metis word_unat_eq_iff)
  with False show ?thesis
    using unat_lt_u64 [of v] by (simp add: gen_next_def unat_Suc_u64 min_def)
qed

lemma gen_next_published [simp]: "published (gen_next v)"
proof -
  have "unat (gen_next v) \<noteq> 0" by (simp add: unat_gen_next)
  then show ?thesis by (auto simp: valid_def)
qed

lemma gen_next_ge: "v \<le> gen_next v"
  using unat_lt_u64 [of v] by (simp add: word_le_nat_alt unat_gen_next)

lemma gen_next_gt: "v \<noteq> kSaturated \<Longrightarrow> v < gen_next v"
  using unat_lt_u64 [of v] unat_kSaturated
  by (metis gen_next_def gen_next_ge order_le_less add_cancel_right_right one_neq_zero)

section \<open>Association lists\<close>

text \<open>
  A map of the sources is an association list with distinct keys. Reading is
  \<^const>\<open>map_of\<close>, \<^verbatim>\<open>m[k] = v\<close> is \<^const>\<open>AList.update\<close>, \<^verbatim>\<open>m.erase(k)\<close> is \<^const>\<open>AList.delete\<close>, and
  \<^verbatim>\<open>m[k]\<close> on a missing key reads a default.
\<close>

abbreviation dkeys :: "('k \<times> 'v) list \<Rightarrow> bool" where
  "dkeys m \<equiv> distinct (map fst m)"

definition get_or :: "'v \<Rightarrow> ('k \<times> 'v) list \<Rightarrow> 'k \<Rightarrow> 'v" where
  "get_or d m k = (case map_of m k of None \<Rightarrow> d | Some v \<Rightarrow> v)"

lemma map_of_update [simp]: "map_of (AList.update k v m) = (map_of m)(k \<mapsto> v)"
  by (rule update_conv')

lemma map_of_delete [simp]: "map_of (AList.delete k m) = (map_of m)(k := None)"
  by (simp add: delete_conv')

lemma dkeys_update [simp]: "dkeys m \<Longrightarrow> dkeys (AList.update k v m)"
  by (rule distinct_update)

lemma dkeys_delete [simp]: "dkeys m \<Longrightarrow> dkeys (AList.delete k m)"
  by (rule distinct_delete)

lemma set_update_distinct:
  "dkeys m \<Longrightarrow> set (AList.update k v m) = insert (k, v) {e \<in> set m. fst e \<noteq> k}"
  by (induction m) (auto split: if_splits intro: rev_image_eqI)

lemma set_delete_eq: "set (AList.delete k m) = {e \<in> set m. fst e \<noteq> k}"
  by (auto simp: AList.delete_eq)

lemma in_set_map_of: "dkeys m \<Longrightarrow> (k, v) \<in> set m \<longleftrightarrow> map_of m k = Some v"
  by simp

text \<open>Summing a weight over the entries of a map, across an update.\<close>

definition asum :: "('k \<times> 'v \<Rightarrow> nat) \<Rightarrow> ('k \<times> 'v) list \<Rightarrow> nat" where
  "asum f m = sum_list (map f m)"

lemma asum_Nil [simp]: "asum f [] = 0"
  and asum_Cons [simp]: "asum f (e # m) = f e + asum f m"
  by (simp_all add: asum_def)

lemma asum_update_new:
  "map_of m k = None \<Longrightarrow> asum f (AList.update k v m) = asum f m + f (k, v)"
  by (induction m) (auto split: if_splits)

lemma asum_update_old:
  "dkeys m \<Longrightarrow> map_of m k = Some w \<Longrightarrow>
     asum f (AList.update k v m) + f (k, w) = asum f m + f (k, v)"
  by (induction m) (auto split: if_splits)

lemma asum_ge: "map_of m k = Some v \<Longrightarrow> f (k, v) \<le> asum f m"
  by (induction m) (auto split: if_splits)

lemma asum_cong: "(\<And>e. e \<in> set m \<Longrightarrow> f e = g e) \<Longrightarrow> asum f m = asum g m"
  by (simp add: asum_def cong: map_cong)

section \<open>Sorting by an identity\<close>

text \<open>\<^verbatim>\<open>std::sort\<close> with the comparator \<^verbatim>\<open>a.id < b.id\<close>: the identities are distinct, so the
  sorted sequence is unique and a stable sort gives it.\<close>

abbreviation sort_by :: "('a \<Rightarrow> 'k::linorder) \<Rightarrow> 'a list \<Rightarrow> 'a list" where
  "sort_by f \<equiv> sort_key f"

section \<open>Records with a life cycle\<close>

text \<open>
  The contract the reservation ledger and the attempt ledger give their clients: an entry, once
  present, is never forgotten by a step and changes only along \<open>evolves\<close>. A client relies on an
  entry that cannot evolve any further to stay exactly as it is for the rest of the run.
\<close>

locale lifecycle =
  fixes inv :: "'l \<Rightarrow> bool" and step :: "'l \<Rightarrow> 'l \<Rightarrow> bool"
    and entry :: "'l \<Rightarrow> 'k \<Rightarrow> 'e option" and evolves :: "'e \<Rightarrow> 'e \<Rightarrow> bool"
  assumes step_inv: "inv l \<Longrightarrow> step l l' \<Longrightarrow> inv l'"
    and step_entry: "inv l \<Longrightarrow> step l l' \<Longrightarrow> entry l k = Some e \<Longrightarrow>
      \<exists>e'. entry l' k = Some e' \<and> (e' = e \<or> evolves e e')"
begin

lemma steps_inv: "step\<^sup>*\<^sup>* l l' \<Longrightarrow> inv l \<Longrightarrow> inv l'"
  by (induction rule: rtranclp_induct) (auto intro: step_inv)

lemma steps_entry:
  assumes "step\<^sup>*\<^sup>* l l'" and "inv l" and "entry l k = Some e"
  shows "\<exists>e'. entry l' k = Some e' \<and> evolves\<^sup>*\<^sup>* e e'"
  using assms
proof (induction rule: rtranclp_induct)
  case (step y z)
  then obtain e' where e': "entry y k = Some e'" "evolves\<^sup>*\<^sup>* e e'" by blast
  have "inv y" using step.hyps(1) step.prems(1) by (rule steps_inv)
  from step_entry [OF this step.hyps(2) e'(1)] e'(2) show ?case
    by (meson rtranclp.rtrancl_into_rtrancl)
qed auto

lemma settled_stays:
  assumes "step\<^sup>*\<^sup>* l l'" and "inv l" and "entry l k = Some e" and "\<And>e'. \<not> evolves e e'"
  shows "entry l' k = Some e"
  using steps_entry [OF assms(1-3)] assms(4) by (metis converse_rtranclpE)

end

end
