(* ===== verification/Tos_Enums.thy ===== *)
theory Tos_Enums
  imports Tos_Prelude
begin

text \<open>
  The enumerations of the decision model (\<^verbatim>\<open>src/include/tos/core/enums.hpp\<close> and the headers of
  the components), with the enumerators of the source as constructors, their underlying
  values, and the naming and parsing functions of \<^verbatim>\<open>src/src/core/enums.cpp\<close>. Enumerators that
  several enumerations share (\<^verbatim>\<open>kUnknown\<close>, \<^verbatim>\<open>kNone\<close>) are written with their type, as in the
  source. Enumerations that the code compares with \<^verbatim>\<open><\<close> are instances of \<^verbatim>\<open>linorder\<close> through
  their underlying value; those that index a \<^verbatim>\<open>std::array\<close> are instances of \<^verbatim>\<open>enum\<close>, so an
  array indexed by them is a function. The theorem at the end is that parsing inverts naming.
\<close>

section \<open>Enumerations\<close>

datatype GenerationRelation =
    kEqual
  | kAdvanced
  | kRegressed
  | kUnset

datatype ExecutionDomainType =
    kCpu
  | kAccelerator
  | kNic
  | kSmartNic
  | kDpu
  | kOtherRegisteredOffloadEngine

datatype Provenance =
    kReal
  | kSynthetic
  | kUnsupported

datatype MemoryDomain =
    kHost
  | kPinnedHost
  | kDeviceLocal
  | kPeerDevice
  | kNicOnboard
  | kSmartNicOnboard
  | kDpuOnboard
  | kUnknown

datatype IsolationClass =
    kUnknown
  | kSharedProcess
  | kSeparateProcess
  | kSeparateDeviceFunction
  | kSeparateQueue
  | kSeparateAddressSpace
  | kSeparateExecutionContext
  | kTenantIsolated
  | kDedicatedDeviceService

datatype SideEffectClass =
    kPure
  | kIdempotent
  | kAtMostOnceRequired
  | kNonRepeatable
  | kUnknown

datatype TransportClass =
    kNone
  | kRawFrames
  | kStreamBytes
  | kDatagramBytes
  | kRdmaMessage
  | kControlPlane

datatype PayloadClass =
    kOpaqueBytes
  | kStructuredHeader
  | kScatterGatherList
  | kSegmentedFrames

datatype SelectionOutcome =
    kOffloadSelected
  | kCpuSelected
  | kAcceleratorSelected
  | kNicSelected
  | kSmartNicSelected
  | kDpuSelected
  | kFallbackSelected
  | kDeferred
  | kNoEligibleDomain
  | kPolicyRejected
  | kCapabilityUnsupported
  | kStaleEvidence
  | kRevalidationRequired
  | kCapacityUnavailable
  | kCompatibilityRejected
  | kIsolationRejected
  | kDispatched
  | kFailed
  | kOutcomeUnknown
  | kCancelled

datatype OffloadRequirement =
    kAny
  | kPreferOffload
  | kOffloadRequired
  | kHostRequired

datatype AttemptState =
    kPlanned
  | kReserved
  | kDispatching
  | kDispatched
  | kCompleted
  | kFailed
  | kOutcomeUnknown
  | kCancelled
  | kRejectedStale
  | kFenced

datatype AttemptResolution =
    kNone
  | kAuthoritativeSuccess
  | kAuthoritativeFailure
  | kAmbiguous
  | kCancelledBeforeDispatch
  | kCancelledAmbiguous
  | kFencedNoEffect
  | kFencedMayHaveEffect

datatype IneligibilityReason =
    kNone
  | kUnknownOperationClass
  | kOperationNotSupported
  | kMemoryDomainUnsupported
  | kAddressabilityUnsupported
  | kPayloadTooLarge
  | kPayloadTooSmall
  | kAlignmentUnsatisfied
  | kIsolationInsufficient
  | kCompatibilityMismatch
  | kBackendUnsupported
  | kPolicyForbidden
  | kDomainNotAllowed
  | kHealthNotReady
  | kStaleCapability
  | kCapabilityUnproven
  | kLocalityViolation
  | kCapacityUnavailable
  | kDomainFenced
  | kWorkerBootStale
  | kCoordinatorEpochStale
  | kProvenanceDisallowed
  | kGenerationRegressed
  | kTransportClassUnsupported
  | kPayloadClassUnsupported
  | kDmaRequired
  | kScatterGatherRequired
  | kConcurrencyExhausted
  | kReservationConflict
  | kDomainNotRegistered
  | kBackendGenerationStale
  | kAuthorityInvalidated

datatype CompletionRejection =
    kAccepted
  | kDuplicateIdentical
  | kConflictingDuplicate
  | kUnknownAttempt
  | kStaleWorkerBoot
  | kStaleCoordinatorEpoch
  | kStaleDomainGeneration
  | kAttemptGenerationMismatch
  | kDispatchIdMismatch
  | kOperationMismatch
  | kNotDispatched
  | kAlreadyTerminal
  | kIntegrityMismatch
  | kDomainFenced
  | kResultTooLarge
  | kProvenanceMismatch
  | kStaleCapabilityGeneration

datatype DispatchRejection =
    kNone
  | kPlanNotFound
  | kPlanConsumed
  | kAuthorityStale
  | kReservationInvalid
  | kShutdownInProgress
  | kAttemptRegistrationFailed
  | kTransportFailure
  | kCancelled
  | kCapacityExhausted

datatype ReservationRejection =
    kNone
  | kUnknownResource
  | kInsufficientCapacity
  | kStaleDomainGeneration
  | kStaleCapabilityGeneration
  | kStalePolicyGeneration
  | kAlreadyCommitted
  | kAlreadyReleased
  | kNotFound
  | kLimitExceeded
  | kShutdownInProgress
  | kConflict

datatype RetryRejection =
    kNone
  | kAttemptLimitReached
  | kNonRepeatableOperation
  | kAmbiguousOutcome
  | kFailureNotRetryable
  | kPolicyDisallowsRetry
  | kDomainUnavailable
  | kOperationNotRetryable
  | kUnknownSideEffectClass

datatype FallbackRejection =
    kNone
  | kNoFallbackRegistered
  | kFallbackDepthExceeded
  | kHostFallbackForbidden
  | kFallbackTargetIneligible
  | kFallbackCycleDetected
  | kPolicyDisallowsFallback
  | kOriginalAttemptStillAuthoritative

datatype DiscrepancyKind =
    kDomainMissing
  | kDomainGenerationChanged
  | kWorkerReplaced
  | kCapabilityChanged
  | kOperationNoLongerSupported
  | kQueueSupportChanged
  | kBackendVersionChanged
  | kFirmwareGenerationChanged
  | kCompletedAttemptEngineGone
  | kInFlightAttemptAmbiguous
  | kUnregisteredLiveDomain
  | kGenerationRegressed

datatype ResourceKind =
    kExecutionSlot
  | kQueueDepth
  | kDescriptorRing
  | kProcessingContext
  | kOffloadEngine
  | kDeviceMemoryBytes
  | kScratchMemoryBytes
  | kDmaChannel
  | kQueuePair
  | kVendorExecutionContext

datatype CapabilityFlag =
    kNone
  | kChecksum
  | kCompression
  | kDecompression
  | kEncryption
  | kDecryption
  | kDma
  | kScatterGather
  | kRdma
  | kGpudirectAddressable
  | kPacketProcessing
  | kHeaderProcessing
  | kProtocolTransform
  | kIntegrityVerify
  | kSegmentation
  | kReassembly
  | kStagingCopy
  | kSideEffectSink

datatype LocalityClass =
    kUnknown
  | kRemoteHost
  | kSameHost
  | kSameNic
  | kAcceleratorLocalNic
  | kSamePcieSwitch
  | kSameRootComplex
  | kSameNumaNode
  | kDomainLocal

datatype FailureKind =
    kNone
  | kTransportFailure
  | kPreDispatchRejection
  | kPostDispatchRejection
  | kWorkerDeath
  | kDomainUnavailable
  | kCapacityExhausted
  | kBackendRejection
  | kIntegrityFailure
  | kExecutionFailure
  | kAmbiguousOutcome
  | kCancelled
  | kCoordinatorRestart

datatype RankingFactor =
    kDataLocality
  | kMemoryLocality
  | kNicLocality
  | kAcceleratorLocality
  | kPcieAffinity
  | kAvoidedHostCopies
  | kTransferCost
  | kSetupCost
  | kQueueDelay
  | kExecutionThroughput
  | kCompletionLatency
  | kOffloadOverhead
  | kCpuPreservation
  | kAcceleratorPreservation
  | kPowerEfficiency
  | kUtilizationHeadroom
  | kCongestionAvoidance
  | kFailureDomainDiversity
  | kIsolationQuality
  | kReconfigurationPenalty
  | kFallbackCost
  | kPolicyPreference

datatype ReservationState =
    kActive
  | kCommitted
  | kReleased
  | kRolledBack
  | kInvalidated

datatype PlanState =
    kCreated
  | kReserved
  | kDispatched
  | kConsumed
  | kCancelled
  | kRejected

datatype DomainUpdateKind =
    kRegistered
  | kCapabilityChanged
  | kLoadChanged
  | kHealthChanged
  | kLocalityChanged
  | kTopologyChanged
  | kCompatibilityChanged
  | kIsolationChanged
  | kCapacityChanged
  | kBackendGenerationChanged
  | kFenced
  | kRemoved
  | kUnchanged

section \<open>Underlying values\<close>

text \<open>\<^verbatim>\<open>static_cast\<close> of an enumerator to its underlying integer.\<close>

primrec ord_GenerationRelation :: "GenerationRelation \<Rightarrow> nat" where
  "ord_GenerationRelation GenerationRelation.kEqual = 0"
| "ord_GenerationRelation GenerationRelation.kAdvanced = 1"
| "ord_GenerationRelation GenerationRelation.kRegressed = 2"
| "ord_GenerationRelation GenerationRelation.kUnset = 3"

primrec ord_ExecutionDomainType :: "ExecutionDomainType \<Rightarrow> nat" where
  "ord_ExecutionDomainType ExecutionDomainType.kCpu = 0"
| "ord_ExecutionDomainType ExecutionDomainType.kAccelerator = 1"
| "ord_ExecutionDomainType ExecutionDomainType.kNic = 2"
| "ord_ExecutionDomainType ExecutionDomainType.kSmartNic = 3"
| "ord_ExecutionDomainType ExecutionDomainType.kDpu = 4"
| "ord_ExecutionDomainType ExecutionDomainType.kOtherRegisteredOffloadEngine = 5"

primrec ord_Provenance :: "Provenance \<Rightarrow> nat" where
  "ord_Provenance Provenance.kReal = 0"
| "ord_Provenance Provenance.kSynthetic = 1"
| "ord_Provenance Provenance.kUnsupported = 2"

primrec ord_MemoryDomain :: "MemoryDomain \<Rightarrow> nat" where
  "ord_MemoryDomain MemoryDomain.kHost = 0"
| "ord_MemoryDomain MemoryDomain.kPinnedHost = 1"
| "ord_MemoryDomain MemoryDomain.kDeviceLocal = 2"
| "ord_MemoryDomain MemoryDomain.kPeerDevice = 3"
| "ord_MemoryDomain MemoryDomain.kNicOnboard = 4"
| "ord_MemoryDomain MemoryDomain.kSmartNicOnboard = 5"
| "ord_MemoryDomain MemoryDomain.kDpuOnboard = 6"
| "ord_MemoryDomain MemoryDomain.kUnknown = 7"

primrec ord_IsolationClass :: "IsolationClass \<Rightarrow> nat" where
  "ord_IsolationClass IsolationClass.kUnknown = 0"
| "ord_IsolationClass IsolationClass.kSharedProcess = 1"
| "ord_IsolationClass IsolationClass.kSeparateProcess = 2"
| "ord_IsolationClass IsolationClass.kSeparateDeviceFunction = 3"
| "ord_IsolationClass IsolationClass.kSeparateQueue = 4"
| "ord_IsolationClass IsolationClass.kSeparateAddressSpace = 5"
| "ord_IsolationClass IsolationClass.kSeparateExecutionContext = 6"
| "ord_IsolationClass IsolationClass.kTenantIsolated = 7"
| "ord_IsolationClass IsolationClass.kDedicatedDeviceService = 8"

primrec ord_SideEffectClass :: "SideEffectClass \<Rightarrow> nat" where
  "ord_SideEffectClass SideEffectClass.kPure = 0"
| "ord_SideEffectClass SideEffectClass.kIdempotent = 1"
| "ord_SideEffectClass SideEffectClass.kAtMostOnceRequired = 2"
| "ord_SideEffectClass SideEffectClass.kNonRepeatable = 3"
| "ord_SideEffectClass SideEffectClass.kUnknown = 4"

primrec ord_TransportClass :: "TransportClass \<Rightarrow> nat" where
  "ord_TransportClass TransportClass.kNone = 0"
| "ord_TransportClass TransportClass.kRawFrames = 1"
| "ord_TransportClass TransportClass.kStreamBytes = 2"
| "ord_TransportClass TransportClass.kDatagramBytes = 3"
| "ord_TransportClass TransportClass.kRdmaMessage = 4"
| "ord_TransportClass TransportClass.kControlPlane = 5"

primrec ord_PayloadClass :: "PayloadClass \<Rightarrow> nat" where
  "ord_PayloadClass PayloadClass.kOpaqueBytes = 0"
| "ord_PayloadClass PayloadClass.kStructuredHeader = 1"
| "ord_PayloadClass PayloadClass.kScatterGatherList = 2"
| "ord_PayloadClass PayloadClass.kSegmentedFrames = 3"

primrec ord_SelectionOutcome :: "SelectionOutcome \<Rightarrow> nat" where
  "ord_SelectionOutcome SelectionOutcome.kOffloadSelected = 0"
| "ord_SelectionOutcome SelectionOutcome.kCpuSelected = 1"
| "ord_SelectionOutcome SelectionOutcome.kAcceleratorSelected = 2"
| "ord_SelectionOutcome SelectionOutcome.kNicSelected = 3"
| "ord_SelectionOutcome SelectionOutcome.kSmartNicSelected = 4"
| "ord_SelectionOutcome SelectionOutcome.kDpuSelected = 5"
| "ord_SelectionOutcome SelectionOutcome.kFallbackSelected = 6"
| "ord_SelectionOutcome SelectionOutcome.kDeferred = 7"
| "ord_SelectionOutcome SelectionOutcome.kNoEligibleDomain = 8"
| "ord_SelectionOutcome SelectionOutcome.kPolicyRejected = 9"
| "ord_SelectionOutcome SelectionOutcome.kCapabilityUnsupported = 10"
| "ord_SelectionOutcome SelectionOutcome.kStaleEvidence = 11"
| "ord_SelectionOutcome SelectionOutcome.kRevalidationRequired = 12"
| "ord_SelectionOutcome SelectionOutcome.kCapacityUnavailable = 13"
| "ord_SelectionOutcome SelectionOutcome.kCompatibilityRejected = 14"
| "ord_SelectionOutcome SelectionOutcome.kIsolationRejected = 15"
| "ord_SelectionOutcome SelectionOutcome.kDispatched = 16"
| "ord_SelectionOutcome SelectionOutcome.kFailed = 17"
| "ord_SelectionOutcome SelectionOutcome.kOutcomeUnknown = 18"
| "ord_SelectionOutcome SelectionOutcome.kCancelled = 19"

primrec ord_OffloadRequirement :: "OffloadRequirement \<Rightarrow> nat" where
  "ord_OffloadRequirement OffloadRequirement.kAny = 0"
| "ord_OffloadRequirement OffloadRequirement.kPreferOffload = 1"
| "ord_OffloadRequirement OffloadRequirement.kOffloadRequired = 2"
| "ord_OffloadRequirement OffloadRequirement.kHostRequired = 3"

primrec ord_AttemptState :: "AttemptState \<Rightarrow> nat" where
  "ord_AttemptState AttemptState.kPlanned = 0"
| "ord_AttemptState AttemptState.kReserved = 1"
| "ord_AttemptState AttemptState.kDispatching = 2"
| "ord_AttemptState AttemptState.kDispatched = 3"
| "ord_AttemptState AttemptState.kCompleted = 4"
| "ord_AttemptState AttemptState.kFailed = 5"
| "ord_AttemptState AttemptState.kOutcomeUnknown = 6"
| "ord_AttemptState AttemptState.kCancelled = 7"
| "ord_AttemptState AttemptState.kRejectedStale = 8"
| "ord_AttemptState AttemptState.kFenced = 9"

primrec ord_AttemptResolution :: "AttemptResolution \<Rightarrow> nat" where
  "ord_AttemptResolution AttemptResolution.kNone = 0"
| "ord_AttemptResolution AttemptResolution.kAuthoritativeSuccess = 1"
| "ord_AttemptResolution AttemptResolution.kAuthoritativeFailure = 2"
| "ord_AttemptResolution AttemptResolution.kAmbiguous = 3"
| "ord_AttemptResolution AttemptResolution.kCancelledBeforeDispatch = 4"
| "ord_AttemptResolution AttemptResolution.kCancelledAmbiguous = 5"
| "ord_AttemptResolution AttemptResolution.kFencedNoEffect = 6"
| "ord_AttemptResolution AttemptResolution.kFencedMayHaveEffect = 7"

primrec ord_IneligibilityReason :: "IneligibilityReason \<Rightarrow> nat" where
  "ord_IneligibilityReason IneligibilityReason.kNone = 0"
| "ord_IneligibilityReason IneligibilityReason.kUnknownOperationClass = 1"
| "ord_IneligibilityReason IneligibilityReason.kOperationNotSupported = 2"
| "ord_IneligibilityReason IneligibilityReason.kMemoryDomainUnsupported = 3"
| "ord_IneligibilityReason IneligibilityReason.kAddressabilityUnsupported = 4"
| "ord_IneligibilityReason IneligibilityReason.kPayloadTooLarge = 5"
| "ord_IneligibilityReason IneligibilityReason.kPayloadTooSmall = 6"
| "ord_IneligibilityReason IneligibilityReason.kAlignmentUnsatisfied = 7"
| "ord_IneligibilityReason IneligibilityReason.kIsolationInsufficient = 8"
| "ord_IneligibilityReason IneligibilityReason.kCompatibilityMismatch = 9"
| "ord_IneligibilityReason IneligibilityReason.kBackendUnsupported = 10"
| "ord_IneligibilityReason IneligibilityReason.kPolicyForbidden = 11"
| "ord_IneligibilityReason IneligibilityReason.kDomainNotAllowed = 12"
| "ord_IneligibilityReason IneligibilityReason.kHealthNotReady = 13"
| "ord_IneligibilityReason IneligibilityReason.kStaleCapability = 14"
| "ord_IneligibilityReason IneligibilityReason.kCapabilityUnproven = 15"
| "ord_IneligibilityReason IneligibilityReason.kLocalityViolation = 16"
| "ord_IneligibilityReason IneligibilityReason.kCapacityUnavailable = 18"
| "ord_IneligibilityReason IneligibilityReason.kDomainFenced = 19"
| "ord_IneligibilityReason IneligibilityReason.kWorkerBootStale = 20"
| "ord_IneligibilityReason IneligibilityReason.kCoordinatorEpochStale = 21"
| "ord_IneligibilityReason IneligibilityReason.kProvenanceDisallowed = 22"
| "ord_IneligibilityReason IneligibilityReason.kGenerationRegressed = 23"
| "ord_IneligibilityReason IneligibilityReason.kTransportClassUnsupported = 24"
| "ord_IneligibilityReason IneligibilityReason.kPayloadClassUnsupported = 25"
| "ord_IneligibilityReason IneligibilityReason.kDmaRequired = 26"
| "ord_IneligibilityReason IneligibilityReason.kScatterGatherRequired = 27"
| "ord_IneligibilityReason IneligibilityReason.kConcurrencyExhausted = 28"
| "ord_IneligibilityReason IneligibilityReason.kReservationConflict = 29"
| "ord_IneligibilityReason IneligibilityReason.kDomainNotRegistered = 30"
| "ord_IneligibilityReason IneligibilityReason.kBackendGenerationStale = 31"
| "ord_IneligibilityReason IneligibilityReason.kAuthorityInvalidated = 32"

primrec ord_CompletionRejection :: "CompletionRejection \<Rightarrow> nat" where
  "ord_CompletionRejection CompletionRejection.kAccepted = 0"
| "ord_CompletionRejection CompletionRejection.kDuplicateIdentical = 1"
| "ord_CompletionRejection CompletionRejection.kConflictingDuplicate = 2"
| "ord_CompletionRejection CompletionRejection.kUnknownAttempt = 3"
| "ord_CompletionRejection CompletionRejection.kStaleWorkerBoot = 4"
| "ord_CompletionRejection CompletionRejection.kStaleCoordinatorEpoch = 5"
| "ord_CompletionRejection CompletionRejection.kStaleDomainGeneration = 6"
| "ord_CompletionRejection CompletionRejection.kAttemptGenerationMismatch = 7"
| "ord_CompletionRejection CompletionRejection.kDispatchIdMismatch = 8"
| "ord_CompletionRejection CompletionRejection.kOperationMismatch = 9"
| "ord_CompletionRejection CompletionRejection.kNotDispatched = 10"
| "ord_CompletionRejection CompletionRejection.kAlreadyTerminal = 11"
| "ord_CompletionRejection CompletionRejection.kIntegrityMismatch = 12"
| "ord_CompletionRejection CompletionRejection.kDomainFenced = 13"
| "ord_CompletionRejection CompletionRejection.kResultTooLarge = 14"
| "ord_CompletionRejection CompletionRejection.kProvenanceMismatch = 15"
| "ord_CompletionRejection CompletionRejection.kStaleCapabilityGeneration = 16"

primrec ord_DispatchRejection :: "DispatchRejection \<Rightarrow> nat" where
  "ord_DispatchRejection DispatchRejection.kNone = 0"
| "ord_DispatchRejection DispatchRejection.kPlanNotFound = 1"
| "ord_DispatchRejection DispatchRejection.kPlanConsumed = 2"
| "ord_DispatchRejection DispatchRejection.kAuthorityStale = 3"
| "ord_DispatchRejection DispatchRejection.kReservationInvalid = 4"
| "ord_DispatchRejection DispatchRejection.kShutdownInProgress = 5"
| "ord_DispatchRejection DispatchRejection.kAttemptRegistrationFailed = 6"
| "ord_DispatchRejection DispatchRejection.kTransportFailure = 7"
| "ord_DispatchRejection DispatchRejection.kCancelled = 8"
| "ord_DispatchRejection DispatchRejection.kCapacityExhausted = 9"

primrec ord_ReservationRejection :: "ReservationRejection \<Rightarrow> nat" where
  "ord_ReservationRejection ReservationRejection.kNone = 0"
| "ord_ReservationRejection ReservationRejection.kUnknownResource = 1"
| "ord_ReservationRejection ReservationRejection.kInsufficientCapacity = 2"
| "ord_ReservationRejection ReservationRejection.kStaleDomainGeneration = 3"
| "ord_ReservationRejection ReservationRejection.kStaleCapabilityGeneration = 4"
| "ord_ReservationRejection ReservationRejection.kStalePolicyGeneration = 5"
| "ord_ReservationRejection ReservationRejection.kAlreadyCommitted = 6"
| "ord_ReservationRejection ReservationRejection.kAlreadyReleased = 7"
| "ord_ReservationRejection ReservationRejection.kNotFound = 8"
| "ord_ReservationRejection ReservationRejection.kLimitExceeded = 9"
| "ord_ReservationRejection ReservationRejection.kShutdownInProgress = 10"
| "ord_ReservationRejection ReservationRejection.kConflict = 11"

primrec ord_RetryRejection :: "RetryRejection \<Rightarrow> nat" where
  "ord_RetryRejection RetryRejection.kNone = 0"
| "ord_RetryRejection RetryRejection.kAttemptLimitReached = 1"
| "ord_RetryRejection RetryRejection.kNonRepeatableOperation = 2"
| "ord_RetryRejection RetryRejection.kAmbiguousOutcome = 3"
| "ord_RetryRejection RetryRejection.kFailureNotRetryable = 4"
| "ord_RetryRejection RetryRejection.kPolicyDisallowsRetry = 5"
| "ord_RetryRejection RetryRejection.kDomainUnavailable = 6"
| "ord_RetryRejection RetryRejection.kOperationNotRetryable = 7"
| "ord_RetryRejection RetryRejection.kUnknownSideEffectClass = 8"

primrec ord_FallbackRejection :: "FallbackRejection \<Rightarrow> nat" where
  "ord_FallbackRejection FallbackRejection.kNone = 0"
| "ord_FallbackRejection FallbackRejection.kNoFallbackRegistered = 1"
| "ord_FallbackRejection FallbackRejection.kFallbackDepthExceeded = 2"
| "ord_FallbackRejection FallbackRejection.kHostFallbackForbidden = 3"
| "ord_FallbackRejection FallbackRejection.kFallbackTargetIneligible = 4"
| "ord_FallbackRejection FallbackRejection.kFallbackCycleDetected = 5"
| "ord_FallbackRejection FallbackRejection.kPolicyDisallowsFallback = 6"
| "ord_FallbackRejection FallbackRejection.kOriginalAttemptStillAuthoritative = 7"

primrec ord_DiscrepancyKind :: "DiscrepancyKind \<Rightarrow> nat" where
  "ord_DiscrepancyKind DiscrepancyKind.kDomainMissing = 0"
| "ord_DiscrepancyKind DiscrepancyKind.kDomainGenerationChanged = 1"
| "ord_DiscrepancyKind DiscrepancyKind.kWorkerReplaced = 2"
| "ord_DiscrepancyKind DiscrepancyKind.kCapabilityChanged = 3"
| "ord_DiscrepancyKind DiscrepancyKind.kOperationNoLongerSupported = 4"
| "ord_DiscrepancyKind DiscrepancyKind.kQueueSupportChanged = 5"
| "ord_DiscrepancyKind DiscrepancyKind.kBackendVersionChanged = 6"
| "ord_DiscrepancyKind DiscrepancyKind.kFirmwareGenerationChanged = 7"
| "ord_DiscrepancyKind DiscrepancyKind.kCompletedAttemptEngineGone = 8"
| "ord_DiscrepancyKind DiscrepancyKind.kInFlightAttemptAmbiguous = 9"
| "ord_DiscrepancyKind DiscrepancyKind.kUnregisteredLiveDomain = 10"
| "ord_DiscrepancyKind DiscrepancyKind.kGenerationRegressed = 11"

primrec ord_ResourceKind :: "ResourceKind \<Rightarrow> nat" where
  "ord_ResourceKind ResourceKind.kExecutionSlot = 0"
| "ord_ResourceKind ResourceKind.kQueueDepth = 1"
| "ord_ResourceKind ResourceKind.kDescriptorRing = 2"
| "ord_ResourceKind ResourceKind.kProcessingContext = 3"
| "ord_ResourceKind ResourceKind.kOffloadEngine = 4"
| "ord_ResourceKind ResourceKind.kDeviceMemoryBytes = 5"
| "ord_ResourceKind ResourceKind.kScratchMemoryBytes = 6"
| "ord_ResourceKind ResourceKind.kDmaChannel = 7"
| "ord_ResourceKind ResourceKind.kQueuePair = 8"
| "ord_ResourceKind ResourceKind.kVendorExecutionContext = 9"

primrec flag_bit :: "CapabilityFlag \<Rightarrow> u32" where
  "flag_bit CapabilityFlag.kNone = 0"
| "flag_bit CapabilityFlag.kChecksum = 1"
| "flag_bit CapabilityFlag.kCompression = 2"
| "flag_bit CapabilityFlag.kDecompression = 4"
| "flag_bit CapabilityFlag.kEncryption = 8"
| "flag_bit CapabilityFlag.kDecryption = 16"
| "flag_bit CapabilityFlag.kDma = 32"
| "flag_bit CapabilityFlag.kScatterGather = 64"
| "flag_bit CapabilityFlag.kRdma = 128"
| "flag_bit CapabilityFlag.kGpudirectAddressable = 256"
| "flag_bit CapabilityFlag.kPacketProcessing = 512"
| "flag_bit CapabilityFlag.kHeaderProcessing = 1024"
| "flag_bit CapabilityFlag.kProtocolTransform = 2048"
| "flag_bit CapabilityFlag.kIntegrityVerify = 4096"
| "flag_bit CapabilityFlag.kSegmentation = 8192"
| "flag_bit CapabilityFlag.kReassembly = 16384"
| "flag_bit CapabilityFlag.kStagingCopy = 32768"
| "flag_bit CapabilityFlag.kSideEffectSink = 65536"

primrec ord_LocalityClass :: "LocalityClass \<Rightarrow> nat" where
  "ord_LocalityClass LocalityClass.kUnknown = 0"
| "ord_LocalityClass LocalityClass.kRemoteHost = 1"
| "ord_LocalityClass LocalityClass.kSameHost = 2"
| "ord_LocalityClass LocalityClass.kSameNic = 3"
| "ord_LocalityClass LocalityClass.kAcceleratorLocalNic = 4"
| "ord_LocalityClass LocalityClass.kSamePcieSwitch = 5"
| "ord_LocalityClass LocalityClass.kSameRootComplex = 6"
| "ord_LocalityClass LocalityClass.kSameNumaNode = 7"
| "ord_LocalityClass LocalityClass.kDomainLocal = 8"

primrec ord_FailureKind :: "FailureKind \<Rightarrow> nat" where
  "ord_FailureKind FailureKind.kNone = 0"
| "ord_FailureKind FailureKind.kTransportFailure = 1"
| "ord_FailureKind FailureKind.kPreDispatchRejection = 2"
| "ord_FailureKind FailureKind.kPostDispatchRejection = 3"
| "ord_FailureKind FailureKind.kWorkerDeath = 4"
| "ord_FailureKind FailureKind.kDomainUnavailable = 5"
| "ord_FailureKind FailureKind.kCapacityExhausted = 6"
| "ord_FailureKind FailureKind.kBackendRejection = 7"
| "ord_FailureKind FailureKind.kIntegrityFailure = 8"
| "ord_FailureKind FailureKind.kExecutionFailure = 9"
| "ord_FailureKind FailureKind.kAmbiguousOutcome = 10"
| "ord_FailureKind FailureKind.kCancelled = 11"
| "ord_FailureKind FailureKind.kCoordinatorRestart = 12"

primrec ord_RankingFactor :: "RankingFactor \<Rightarrow> nat" where
  "ord_RankingFactor RankingFactor.kDataLocality = 0"
| "ord_RankingFactor RankingFactor.kMemoryLocality = 1"
| "ord_RankingFactor RankingFactor.kNicLocality = 2"
| "ord_RankingFactor RankingFactor.kAcceleratorLocality = 3"
| "ord_RankingFactor RankingFactor.kPcieAffinity = 4"
| "ord_RankingFactor RankingFactor.kAvoidedHostCopies = 5"
| "ord_RankingFactor RankingFactor.kTransferCost = 6"
| "ord_RankingFactor RankingFactor.kSetupCost = 7"
| "ord_RankingFactor RankingFactor.kQueueDelay = 8"
| "ord_RankingFactor RankingFactor.kExecutionThroughput = 9"
| "ord_RankingFactor RankingFactor.kCompletionLatency = 10"
| "ord_RankingFactor RankingFactor.kOffloadOverhead = 11"
| "ord_RankingFactor RankingFactor.kCpuPreservation = 12"
| "ord_RankingFactor RankingFactor.kAcceleratorPreservation = 13"
| "ord_RankingFactor RankingFactor.kPowerEfficiency = 14"
| "ord_RankingFactor RankingFactor.kUtilizationHeadroom = 15"
| "ord_RankingFactor RankingFactor.kCongestionAvoidance = 16"
| "ord_RankingFactor RankingFactor.kFailureDomainDiversity = 17"
| "ord_RankingFactor RankingFactor.kIsolationQuality = 18"
| "ord_RankingFactor RankingFactor.kReconfigurationPenalty = 19"
| "ord_RankingFactor RankingFactor.kFallbackCost = 20"
| "ord_RankingFactor RankingFactor.kPolicyPreference = 21"

primrec ord_ReservationState :: "ReservationState \<Rightarrow> nat" where
  "ord_ReservationState ReservationState.kActive = 0"
| "ord_ReservationState ReservationState.kCommitted = 1"
| "ord_ReservationState ReservationState.kReleased = 2"
| "ord_ReservationState ReservationState.kRolledBack = 3"
| "ord_ReservationState ReservationState.kInvalidated = 4"

primrec ord_PlanState :: "PlanState \<Rightarrow> nat" where
  "ord_PlanState PlanState.kCreated = 0"
| "ord_PlanState PlanState.kReserved = 1"
| "ord_PlanState PlanState.kDispatched = 2"
| "ord_PlanState PlanState.kConsumed = 3"
| "ord_PlanState PlanState.kCancelled = 4"
| "ord_PlanState PlanState.kRejected = 5"

primrec ord_DomainUpdateKind :: "DomainUpdateKind \<Rightarrow> nat" where
  "ord_DomainUpdateKind DomainUpdateKind.kRegistered = 0"
| "ord_DomainUpdateKind DomainUpdateKind.kCapabilityChanged = 1"
| "ord_DomainUpdateKind DomainUpdateKind.kLoadChanged = 2"
| "ord_DomainUpdateKind DomainUpdateKind.kHealthChanged = 3"
| "ord_DomainUpdateKind DomainUpdateKind.kLocalityChanged = 4"
| "ord_DomainUpdateKind DomainUpdateKind.kTopologyChanged = 5"
| "ord_DomainUpdateKind DomainUpdateKind.kCompatibilityChanged = 6"
| "ord_DomainUpdateKind DomainUpdateKind.kIsolationChanged = 7"
| "ord_DomainUpdateKind DomainUpdateKind.kCapacityChanged = 8"
| "ord_DomainUpdateKind DomainUpdateKind.kBackendGenerationChanged = 9"
| "ord_DomainUpdateKind DomainUpdateKind.kFenced = 10"
| "ord_DomainUpdateKind DomainUpdateKind.kRemoved = 11"
| "ord_DomainUpdateKind DomainUpdateKind.kUnchanged = 12"

section \<open>Names\<close>

primrec to_string_GenerationRelation :: "GenerationRelation \<Rightarrow> string" where
  "to_string_GenerationRelation GenerationRelation.kEqual = ''equal''"
| "to_string_GenerationRelation GenerationRelation.kAdvanced = ''advanced''"
| "to_string_GenerationRelation GenerationRelation.kRegressed = ''regressed''"
| "to_string_GenerationRelation GenerationRelation.kUnset = ''unset''"

primrec to_string_ExecutionDomainType :: "ExecutionDomainType \<Rightarrow> string" where
  "to_string_ExecutionDomainType ExecutionDomainType.kCpu = ''cpu''"
| "to_string_ExecutionDomainType ExecutionDomainType.kAccelerator = ''accelerator''"
| "to_string_ExecutionDomainType ExecutionDomainType.kNic = ''nic''"
| "to_string_ExecutionDomainType ExecutionDomainType.kSmartNic = ''smartnic''"
| "to_string_ExecutionDomainType ExecutionDomainType.kDpu = ''dpu''"
| "to_string_ExecutionDomainType ExecutionDomainType.kOtherRegisteredOffloadEngine = ''other_registered_offload_engine''"

primrec to_string_Provenance :: "Provenance \<Rightarrow> string" where
  "to_string_Provenance Provenance.kReal = ''REAL''"
| "to_string_Provenance Provenance.kSynthetic = ''SYNTHETIC''"
| "to_string_Provenance Provenance.kUnsupported = ''UNSUPPORTED''"

primrec to_string_MemoryDomain :: "MemoryDomain \<Rightarrow> string" where
  "to_string_MemoryDomain MemoryDomain.kHost = ''host''"
| "to_string_MemoryDomain MemoryDomain.kPinnedHost = ''pinned_host''"
| "to_string_MemoryDomain MemoryDomain.kDeviceLocal = ''device_local''"
| "to_string_MemoryDomain MemoryDomain.kPeerDevice = ''peer_device''"
| "to_string_MemoryDomain MemoryDomain.kNicOnboard = ''nic_onboard''"
| "to_string_MemoryDomain MemoryDomain.kSmartNicOnboard = ''smartnic_onboard''"
| "to_string_MemoryDomain MemoryDomain.kDpuOnboard = ''dpu_onboard''"
| "to_string_MemoryDomain MemoryDomain.kUnknown = ''unknown''"

primrec to_string_IsolationClass :: "IsolationClass \<Rightarrow> string" where
  "to_string_IsolationClass IsolationClass.kUnknown = ''unknown''"
| "to_string_IsolationClass IsolationClass.kSharedProcess = ''shared_process''"
| "to_string_IsolationClass IsolationClass.kSeparateProcess = ''separate_process''"
| "to_string_IsolationClass IsolationClass.kSeparateDeviceFunction = ''separate_device_function''"
| "to_string_IsolationClass IsolationClass.kSeparateQueue = ''separate_queue''"
| "to_string_IsolationClass IsolationClass.kSeparateAddressSpace = ''separate_address_space''"
| "to_string_IsolationClass IsolationClass.kSeparateExecutionContext = ''separate_execution_context''"
| "to_string_IsolationClass IsolationClass.kTenantIsolated = ''tenant_isolated''"
| "to_string_IsolationClass IsolationClass.kDedicatedDeviceService = ''dedicated_device_service''"

primrec to_string_SideEffectClass :: "SideEffectClass \<Rightarrow> string" where
  "to_string_SideEffectClass SideEffectClass.kPure = ''PURE''"
| "to_string_SideEffectClass SideEffectClass.kIdempotent = ''IDEMPOTENT''"
| "to_string_SideEffectClass SideEffectClass.kAtMostOnceRequired = ''AT_MOST_ONCE_REQUIRED''"
| "to_string_SideEffectClass SideEffectClass.kNonRepeatable = ''NON_REPEATABLE''"
| "to_string_SideEffectClass SideEffectClass.kUnknown = ''UNKNOWN''"

primrec to_string_TransportClass :: "TransportClass \<Rightarrow> string" where
  "to_string_TransportClass TransportClass.kNone = ''none''"
| "to_string_TransportClass TransportClass.kRawFrames = ''raw_frames''"
| "to_string_TransportClass TransportClass.kStreamBytes = ''stream_bytes''"
| "to_string_TransportClass TransportClass.kDatagramBytes = ''datagram_bytes''"
| "to_string_TransportClass TransportClass.kRdmaMessage = ''rdma_message''"
| "to_string_TransportClass TransportClass.kControlPlane = ''control_plane''"

primrec to_string_PayloadClass :: "PayloadClass \<Rightarrow> string" where
  "to_string_PayloadClass PayloadClass.kOpaqueBytes = ''opaque_bytes''"
| "to_string_PayloadClass PayloadClass.kStructuredHeader = ''structured_header''"
| "to_string_PayloadClass PayloadClass.kScatterGatherList = ''scatter_gather_list''"
| "to_string_PayloadClass PayloadClass.kSegmentedFrames = ''segmented_frames''"

primrec to_string_SelectionOutcome :: "SelectionOutcome \<Rightarrow> string" where
  "to_string_SelectionOutcome SelectionOutcome.kOffloadSelected = ''OFFLOAD_SELECTED''"
| "to_string_SelectionOutcome SelectionOutcome.kCpuSelected = ''CPU_SELECTED''"
| "to_string_SelectionOutcome SelectionOutcome.kAcceleratorSelected = ''ACCELERATOR_SELECTED''"
| "to_string_SelectionOutcome SelectionOutcome.kNicSelected = ''NIC_SELECTED''"
| "to_string_SelectionOutcome SelectionOutcome.kSmartNicSelected = ''SMARTNIC_SELECTED''"
| "to_string_SelectionOutcome SelectionOutcome.kDpuSelected = ''DPU_SELECTED''"
| "to_string_SelectionOutcome SelectionOutcome.kFallbackSelected = ''FALLBACK_SELECTED''"
| "to_string_SelectionOutcome SelectionOutcome.kDeferred = ''DEFERRED''"
| "to_string_SelectionOutcome SelectionOutcome.kNoEligibleDomain = ''NO_ELIGIBLE_DOMAIN''"
| "to_string_SelectionOutcome SelectionOutcome.kPolicyRejected = ''POLICY_REJECTED''"
| "to_string_SelectionOutcome SelectionOutcome.kCapabilityUnsupported = ''CAPABILITY_UNSUPPORTED''"
| "to_string_SelectionOutcome SelectionOutcome.kStaleEvidence = ''STALE_EVIDENCE''"
| "to_string_SelectionOutcome SelectionOutcome.kRevalidationRequired = ''REVALIDATION_REQUIRED''"
| "to_string_SelectionOutcome SelectionOutcome.kCapacityUnavailable = ''CAPACITY_UNAVAILABLE''"
| "to_string_SelectionOutcome SelectionOutcome.kCompatibilityRejected = ''COMPATIBILITY_REJECTED''"
| "to_string_SelectionOutcome SelectionOutcome.kIsolationRejected = ''ISOLATION_REJECTED''"
| "to_string_SelectionOutcome SelectionOutcome.kDispatched = ''DISPATCHED''"
| "to_string_SelectionOutcome SelectionOutcome.kFailed = ''FAILED''"
| "to_string_SelectionOutcome SelectionOutcome.kOutcomeUnknown = ''OUTCOME_UNKNOWN''"
| "to_string_SelectionOutcome SelectionOutcome.kCancelled = ''CANCELLED''"

primrec to_string_OffloadRequirement :: "OffloadRequirement \<Rightarrow> string" where
  "to_string_OffloadRequirement OffloadRequirement.kAny = ''any''"
| "to_string_OffloadRequirement OffloadRequirement.kPreferOffload = ''prefer_offload''"
| "to_string_OffloadRequirement OffloadRequirement.kOffloadRequired = ''offload_required''"
| "to_string_OffloadRequirement OffloadRequirement.kHostRequired = ''host_required''"

primrec to_string_AttemptState :: "AttemptState \<Rightarrow> string" where
  "to_string_AttemptState AttemptState.kPlanned = ''PLANNED''"
| "to_string_AttemptState AttemptState.kReserved = ''RESERVED''"
| "to_string_AttemptState AttemptState.kDispatching = ''DISPATCHING''"
| "to_string_AttemptState AttemptState.kDispatched = ''DISPATCHED''"
| "to_string_AttemptState AttemptState.kCompleted = ''COMPLETED''"
| "to_string_AttemptState AttemptState.kFailed = ''FAILED''"
| "to_string_AttemptState AttemptState.kOutcomeUnknown = ''OUTCOME_UNKNOWN''"
| "to_string_AttemptState AttemptState.kCancelled = ''CANCELLED''"
| "to_string_AttemptState AttemptState.kRejectedStale = ''REJECTED_STALE''"
| "to_string_AttemptState AttemptState.kFenced = ''FENCED''"

primrec to_string_AttemptResolution :: "AttemptResolution \<Rightarrow> string" where
  "to_string_AttemptResolution AttemptResolution.kNone = ''NONE''"
| "to_string_AttemptResolution AttemptResolution.kAuthoritativeSuccess = ''AUTHORITATIVE_SUCCESS''"
| "to_string_AttemptResolution AttemptResolution.kAuthoritativeFailure = ''AUTHORITATIVE_FAILURE''"
| "to_string_AttemptResolution AttemptResolution.kAmbiguous = ''AMBIGUOUS''"
| "to_string_AttemptResolution AttemptResolution.kCancelledBeforeDispatch = ''CANCELLED_BEFORE_DISPATCH''"
| "to_string_AttemptResolution AttemptResolution.kCancelledAmbiguous = ''CANCELLED_AMBIGUOUS''"
| "to_string_AttemptResolution AttemptResolution.kFencedNoEffect = ''FENCED_NO_EFFECT''"
| "to_string_AttemptResolution AttemptResolution.kFencedMayHaveEffect = ''FENCED_MAY_HAVE_EFFECT''"

primrec to_string_IneligibilityReason :: "IneligibilityReason \<Rightarrow> string" where
  "to_string_IneligibilityReason IneligibilityReason.kNone = ''none''"
| "to_string_IneligibilityReason IneligibilityReason.kUnknownOperationClass = ''unknown_operation_class''"
| "to_string_IneligibilityReason IneligibilityReason.kOperationNotSupported = ''operation_not_supported''"
| "to_string_IneligibilityReason IneligibilityReason.kMemoryDomainUnsupported = ''memory_domain_unsupported''"
| "to_string_IneligibilityReason IneligibilityReason.kAddressabilityUnsupported = ''addressability_unsupported''"
| "to_string_IneligibilityReason IneligibilityReason.kPayloadTooLarge = ''payload_too_large''"
| "to_string_IneligibilityReason IneligibilityReason.kPayloadTooSmall = ''payload_too_small''"
| "to_string_IneligibilityReason IneligibilityReason.kAlignmentUnsatisfied = ''alignment_unsatisfied''"
| "to_string_IneligibilityReason IneligibilityReason.kIsolationInsufficient = ''isolation_insufficient''"
| "to_string_IneligibilityReason IneligibilityReason.kCompatibilityMismatch = ''compatibility_mismatch''"
| "to_string_IneligibilityReason IneligibilityReason.kBackendUnsupported = ''backend_unsupported''"
| "to_string_IneligibilityReason IneligibilityReason.kPolicyForbidden = ''policy_forbidden''"
| "to_string_IneligibilityReason IneligibilityReason.kDomainNotAllowed = ''domain_not_allowed''"
| "to_string_IneligibilityReason IneligibilityReason.kHealthNotReady = ''health_not_ready''"
| "to_string_IneligibilityReason IneligibilityReason.kStaleCapability = ''stale_capability''"
| "to_string_IneligibilityReason IneligibilityReason.kCapabilityUnproven = ''capability_unproven''"
| "to_string_IneligibilityReason IneligibilityReason.kLocalityViolation = ''locality_violation''"
| "to_string_IneligibilityReason IneligibilityReason.kCapacityUnavailable = ''capacity_unavailable''"
| "to_string_IneligibilityReason IneligibilityReason.kDomainFenced = ''domain_fenced''"
| "to_string_IneligibilityReason IneligibilityReason.kWorkerBootStale = ''worker_boot_stale''"
| "to_string_IneligibilityReason IneligibilityReason.kCoordinatorEpochStale = ''coordinator_epoch_stale''"
| "to_string_IneligibilityReason IneligibilityReason.kProvenanceDisallowed = ''provenance_disallowed''"
| "to_string_IneligibilityReason IneligibilityReason.kGenerationRegressed = ''generation_regressed''"
| "to_string_IneligibilityReason IneligibilityReason.kTransportClassUnsupported = ''transport_class_unsupported''"
| "to_string_IneligibilityReason IneligibilityReason.kPayloadClassUnsupported = ''payload_class_unsupported''"
| "to_string_IneligibilityReason IneligibilityReason.kDmaRequired = ''dma_required''"
| "to_string_IneligibilityReason IneligibilityReason.kScatterGatherRequired = ''scatter_gather_required''"
| "to_string_IneligibilityReason IneligibilityReason.kConcurrencyExhausted = ''concurrency_exhausted''"
| "to_string_IneligibilityReason IneligibilityReason.kReservationConflict = ''reservation_conflict''"
| "to_string_IneligibilityReason IneligibilityReason.kDomainNotRegistered = ''domain_not_registered''"
| "to_string_IneligibilityReason IneligibilityReason.kBackendGenerationStale = ''backend_generation_stale''"
| "to_string_IneligibilityReason IneligibilityReason.kAuthorityInvalidated = ''authority_invalidated''"

primrec to_string_CompletionRejection :: "CompletionRejection \<Rightarrow> string" where
  "to_string_CompletionRejection CompletionRejection.kAccepted = ''accepted''"
| "to_string_CompletionRejection CompletionRejection.kDuplicateIdentical = ''duplicate_identical''"
| "to_string_CompletionRejection CompletionRejection.kConflictingDuplicate = ''conflicting_duplicate''"
| "to_string_CompletionRejection CompletionRejection.kUnknownAttempt = ''unknown_attempt''"
| "to_string_CompletionRejection CompletionRejection.kStaleWorkerBoot = ''stale_worker_boot''"
| "to_string_CompletionRejection CompletionRejection.kStaleCoordinatorEpoch = ''stale_coordinator_epoch''"
| "to_string_CompletionRejection CompletionRejection.kStaleDomainGeneration = ''stale_domain_generation''"
| "to_string_CompletionRejection CompletionRejection.kAttemptGenerationMismatch = ''attempt_generation_mismatch''"
| "to_string_CompletionRejection CompletionRejection.kDispatchIdMismatch = ''dispatch_id_mismatch''"
| "to_string_CompletionRejection CompletionRejection.kOperationMismatch = ''operation_mismatch''"
| "to_string_CompletionRejection CompletionRejection.kNotDispatched = ''not_dispatched''"
| "to_string_CompletionRejection CompletionRejection.kAlreadyTerminal = ''already_terminal''"
| "to_string_CompletionRejection CompletionRejection.kIntegrityMismatch = ''integrity_mismatch''"
| "to_string_CompletionRejection CompletionRejection.kDomainFenced = ''domain_fenced''"
| "to_string_CompletionRejection CompletionRejection.kResultTooLarge = ''result_too_large''"
| "to_string_CompletionRejection CompletionRejection.kProvenanceMismatch = ''provenance_mismatch''"
| "to_string_CompletionRejection CompletionRejection.kStaleCapabilityGeneration = ''stale_capability_generation''"

primrec to_string_DispatchRejection :: "DispatchRejection \<Rightarrow> string" where
  "to_string_DispatchRejection DispatchRejection.kNone = ''none''"
| "to_string_DispatchRejection DispatchRejection.kPlanNotFound = ''plan_not_found''"
| "to_string_DispatchRejection DispatchRejection.kPlanConsumed = ''plan_consumed''"
| "to_string_DispatchRejection DispatchRejection.kAuthorityStale = ''authority_stale''"
| "to_string_DispatchRejection DispatchRejection.kReservationInvalid = ''reservation_invalid''"
| "to_string_DispatchRejection DispatchRejection.kShutdownInProgress = ''shutdown_in_progress''"
| "to_string_DispatchRejection DispatchRejection.kAttemptRegistrationFailed = ''attempt_registration_failed''"
| "to_string_DispatchRejection DispatchRejection.kTransportFailure = ''transport_failure''"
| "to_string_DispatchRejection DispatchRejection.kCancelled = ''cancelled''"
| "to_string_DispatchRejection DispatchRejection.kCapacityExhausted = ''capacity_exhausted''"

primrec to_string_ReservationRejection :: "ReservationRejection \<Rightarrow> string" where
  "to_string_ReservationRejection ReservationRejection.kNone = ''none''"
| "to_string_ReservationRejection ReservationRejection.kUnknownResource = ''unknown_resource''"
| "to_string_ReservationRejection ReservationRejection.kInsufficientCapacity = ''insufficient_capacity''"
| "to_string_ReservationRejection ReservationRejection.kStaleDomainGeneration = ''stale_domain_generation''"
| "to_string_ReservationRejection ReservationRejection.kStaleCapabilityGeneration = ''stale_capability_generation''"
| "to_string_ReservationRejection ReservationRejection.kStalePolicyGeneration = ''stale_policy_generation''"
| "to_string_ReservationRejection ReservationRejection.kAlreadyCommitted = ''already_committed''"
| "to_string_ReservationRejection ReservationRejection.kAlreadyReleased = ''already_released''"
| "to_string_ReservationRejection ReservationRejection.kNotFound = ''not_found''"
| "to_string_ReservationRejection ReservationRejection.kLimitExceeded = ''limit_exceeded''"
| "to_string_ReservationRejection ReservationRejection.kShutdownInProgress = ''shutdown_in_progress''"
| "to_string_ReservationRejection ReservationRejection.kConflict = ''conflict''"

primrec to_string_RetryRejection :: "RetryRejection \<Rightarrow> string" where
  "to_string_RetryRejection RetryRejection.kNone = ''none''"
| "to_string_RetryRejection RetryRejection.kAttemptLimitReached = ''attempt_limit_reached''"
| "to_string_RetryRejection RetryRejection.kNonRepeatableOperation = ''non_repeatable_operation''"
| "to_string_RetryRejection RetryRejection.kAmbiguousOutcome = ''ambiguous_outcome''"
| "to_string_RetryRejection RetryRejection.kFailureNotRetryable = ''failure_not_retryable''"
| "to_string_RetryRejection RetryRejection.kPolicyDisallowsRetry = ''policy_disallows_retry''"
| "to_string_RetryRejection RetryRejection.kDomainUnavailable = ''domain_unavailable''"
| "to_string_RetryRejection RetryRejection.kOperationNotRetryable = ''operation_not_retryable''"
| "to_string_RetryRejection RetryRejection.kUnknownSideEffectClass = ''unknown_side_effect_class''"

primrec to_string_FallbackRejection :: "FallbackRejection \<Rightarrow> string" where
  "to_string_FallbackRejection FallbackRejection.kNone = ''none''"
| "to_string_FallbackRejection FallbackRejection.kNoFallbackRegistered = ''no_fallback_registered''"
| "to_string_FallbackRejection FallbackRejection.kFallbackDepthExceeded = ''fallback_depth_exceeded''"
| "to_string_FallbackRejection FallbackRejection.kHostFallbackForbidden = ''host_fallback_forbidden''"
| "to_string_FallbackRejection FallbackRejection.kFallbackTargetIneligible = ''fallback_target_ineligible''"
| "to_string_FallbackRejection FallbackRejection.kFallbackCycleDetected = ''fallback_cycle_detected''"
| "to_string_FallbackRejection FallbackRejection.kPolicyDisallowsFallback = ''policy_disallows_fallback''"
| "to_string_FallbackRejection FallbackRejection.kOriginalAttemptStillAuthoritative = ''original_attempt_still_authoritative''"

primrec to_string_DiscrepancyKind :: "DiscrepancyKind \<Rightarrow> string" where
  "to_string_DiscrepancyKind DiscrepancyKind.kDomainMissing = ''domain_missing''"
| "to_string_DiscrepancyKind DiscrepancyKind.kDomainGenerationChanged = ''domain_generation_changed''"
| "to_string_DiscrepancyKind DiscrepancyKind.kWorkerReplaced = ''worker_replaced''"
| "to_string_DiscrepancyKind DiscrepancyKind.kCapabilityChanged = ''capability_changed''"
| "to_string_DiscrepancyKind DiscrepancyKind.kOperationNoLongerSupported = ''operation_no_longer_supported''"
| "to_string_DiscrepancyKind DiscrepancyKind.kQueueSupportChanged = ''queue_support_changed''"
| "to_string_DiscrepancyKind DiscrepancyKind.kBackendVersionChanged = ''backend_version_changed''"
| "to_string_DiscrepancyKind DiscrepancyKind.kFirmwareGenerationChanged = ''firmware_generation_changed''"
| "to_string_DiscrepancyKind DiscrepancyKind.kCompletedAttemptEngineGone = ''completed_attempt_engine_gone''"
| "to_string_DiscrepancyKind DiscrepancyKind.kInFlightAttemptAmbiguous = ''in_flight_attempt_ambiguous''"
| "to_string_DiscrepancyKind DiscrepancyKind.kUnregisteredLiveDomain = ''unregistered_live_domain''"
| "to_string_DiscrepancyKind DiscrepancyKind.kGenerationRegressed = ''generation_regressed''"

primrec to_string_ResourceKind :: "ResourceKind \<Rightarrow> string" where
  "to_string_ResourceKind ResourceKind.kExecutionSlot = ''execution_slot''"
| "to_string_ResourceKind ResourceKind.kQueueDepth = ''queue_depth''"
| "to_string_ResourceKind ResourceKind.kDescriptorRing = ''descriptor_ring''"
| "to_string_ResourceKind ResourceKind.kProcessingContext = ''processing_context''"
| "to_string_ResourceKind ResourceKind.kOffloadEngine = ''offload_engine''"
| "to_string_ResourceKind ResourceKind.kDeviceMemoryBytes = ''device_memory_bytes''"
| "to_string_ResourceKind ResourceKind.kScratchMemoryBytes = ''scratch_memory_bytes''"
| "to_string_ResourceKind ResourceKind.kDmaChannel = ''dma_channel''"
| "to_string_ResourceKind ResourceKind.kQueuePair = ''queue_pair''"
| "to_string_ResourceKind ResourceKind.kVendorExecutionContext = ''vendor_execution_context''"

primrec to_string_CapabilityFlag :: "CapabilityFlag \<Rightarrow> string" where
  "to_string_CapabilityFlag CapabilityFlag.kNone = ''none''"
| "to_string_CapabilityFlag CapabilityFlag.kChecksum = ''checksum''"
| "to_string_CapabilityFlag CapabilityFlag.kCompression = ''compression''"
| "to_string_CapabilityFlag CapabilityFlag.kDecompression = ''decompression''"
| "to_string_CapabilityFlag CapabilityFlag.kEncryption = ''encryption''"
| "to_string_CapabilityFlag CapabilityFlag.kDecryption = ''decryption''"
| "to_string_CapabilityFlag CapabilityFlag.kDma = ''dma''"
| "to_string_CapabilityFlag CapabilityFlag.kScatterGather = ''scatter_gather''"
| "to_string_CapabilityFlag CapabilityFlag.kRdma = ''rdma''"
| "to_string_CapabilityFlag CapabilityFlag.kGpudirectAddressable = ''gpudirect_addressable''"
| "to_string_CapabilityFlag CapabilityFlag.kPacketProcessing = ''packet_processing''"
| "to_string_CapabilityFlag CapabilityFlag.kHeaderProcessing = ''header_processing''"
| "to_string_CapabilityFlag CapabilityFlag.kProtocolTransform = ''protocol_transform''"
| "to_string_CapabilityFlag CapabilityFlag.kIntegrityVerify = ''integrity_verify''"
| "to_string_CapabilityFlag CapabilityFlag.kSegmentation = ''segmentation''"
| "to_string_CapabilityFlag CapabilityFlag.kReassembly = ''reassembly''"
| "to_string_CapabilityFlag CapabilityFlag.kStagingCopy = ''staging_copy''"
| "to_string_CapabilityFlag CapabilityFlag.kSideEffectSink = ''side_effect_sink''"

primrec to_string_LocalityClass :: "LocalityClass \<Rightarrow> string" where
  "to_string_LocalityClass LocalityClass.kUnknown = ''unknown''"
| "to_string_LocalityClass LocalityClass.kRemoteHost = ''remote_host''"
| "to_string_LocalityClass LocalityClass.kSameHost = ''same_host''"
| "to_string_LocalityClass LocalityClass.kSameNic = ''same_nic''"
| "to_string_LocalityClass LocalityClass.kAcceleratorLocalNic = ''accelerator_local_nic''"
| "to_string_LocalityClass LocalityClass.kSamePcieSwitch = ''same_pcie_switch''"
| "to_string_LocalityClass LocalityClass.kSameRootComplex = ''same_root_complex''"
| "to_string_LocalityClass LocalityClass.kSameNumaNode = ''same_numa_node''"
| "to_string_LocalityClass LocalityClass.kDomainLocal = ''domain_local''"

primrec to_string_FailureKind :: "FailureKind \<Rightarrow> string" where
  "to_string_FailureKind FailureKind.kNone = ''none''"
| "to_string_FailureKind FailureKind.kTransportFailure = ''transport_failure''"
| "to_string_FailureKind FailureKind.kPreDispatchRejection = ''pre_dispatch_rejection''"
| "to_string_FailureKind FailureKind.kPostDispatchRejection = ''post_dispatch_rejection''"
| "to_string_FailureKind FailureKind.kWorkerDeath = ''worker_death''"
| "to_string_FailureKind FailureKind.kDomainUnavailable = ''domain_unavailable''"
| "to_string_FailureKind FailureKind.kCapacityExhausted = ''capacity_exhausted''"
| "to_string_FailureKind FailureKind.kBackendRejection = ''backend_rejection''"
| "to_string_FailureKind FailureKind.kIntegrityFailure = ''integrity_failure''"
| "to_string_FailureKind FailureKind.kExecutionFailure = ''execution_failure''"
| "to_string_FailureKind FailureKind.kAmbiguousOutcome = ''ambiguous_outcome''"
| "to_string_FailureKind FailureKind.kCancelled = ''cancelled''"
| "to_string_FailureKind FailureKind.kCoordinatorRestart = ''coordinator_restart''"

primrec to_string_RankingFactor :: "RankingFactor \<Rightarrow> string" where
  "to_string_RankingFactor RankingFactor.kDataLocality = ''data_locality''"
| "to_string_RankingFactor RankingFactor.kMemoryLocality = ''memory_locality''"
| "to_string_RankingFactor RankingFactor.kNicLocality = ''nic_locality''"
| "to_string_RankingFactor RankingFactor.kAcceleratorLocality = ''accelerator_locality''"
| "to_string_RankingFactor RankingFactor.kPcieAffinity = ''pcie_affinity''"
| "to_string_RankingFactor RankingFactor.kAvoidedHostCopies = ''avoided_host_copies''"
| "to_string_RankingFactor RankingFactor.kTransferCost = ''transfer_cost''"
| "to_string_RankingFactor RankingFactor.kSetupCost = ''setup_cost''"
| "to_string_RankingFactor RankingFactor.kQueueDelay = ''queue_delay''"
| "to_string_RankingFactor RankingFactor.kExecutionThroughput = ''execution_throughput''"
| "to_string_RankingFactor RankingFactor.kCompletionLatency = ''completion_latency''"
| "to_string_RankingFactor RankingFactor.kOffloadOverhead = ''offload_overhead''"
| "to_string_RankingFactor RankingFactor.kCpuPreservation = ''cpu_preservation''"
| "to_string_RankingFactor RankingFactor.kAcceleratorPreservation = ''accelerator_preservation''"
| "to_string_RankingFactor RankingFactor.kPowerEfficiency = ''power_efficiency''"
| "to_string_RankingFactor RankingFactor.kUtilizationHeadroom = ''utilization_headroom''"
| "to_string_RankingFactor RankingFactor.kCongestionAvoidance = ''congestion_avoidance''"
| "to_string_RankingFactor RankingFactor.kFailureDomainDiversity = ''failure_domain_diversity''"
| "to_string_RankingFactor RankingFactor.kIsolationQuality = ''isolation_quality''"
| "to_string_RankingFactor RankingFactor.kReconfigurationPenalty = ''reconfiguration_penalty''"
| "to_string_RankingFactor RankingFactor.kFallbackCost = ''fallback_cost''"
| "to_string_RankingFactor RankingFactor.kPolicyPreference = ''policy_preference''"

primrec to_string_ReservationState :: "ReservationState \<Rightarrow> string" where
  "to_string_ReservationState ReservationState.kActive = ''ACTIVE''"
| "to_string_ReservationState ReservationState.kCommitted = ''COMMITTED''"
| "to_string_ReservationState ReservationState.kReleased = ''RELEASED''"
| "to_string_ReservationState ReservationState.kRolledBack = ''ROLLED_BACK''"
| "to_string_ReservationState ReservationState.kInvalidated = ''INVALIDATED''"

primrec to_string_PlanState :: "PlanState \<Rightarrow> string" where
  "to_string_PlanState PlanState.kCreated = ''CREATED''"
| "to_string_PlanState PlanState.kReserved = ''RESERVED''"
| "to_string_PlanState PlanState.kDispatched = ''DISPATCHED''"
| "to_string_PlanState PlanState.kConsumed = ''CONSUMED''"
| "to_string_PlanState PlanState.kCancelled = ''CANCELLED''"
| "to_string_PlanState PlanState.kRejected = ''REJECTED''"

primrec to_string_DomainUpdateKind :: "DomainUpdateKind \<Rightarrow> string" where
  "to_string_DomainUpdateKind DomainUpdateKind.kRegistered = ''registered''"
| "to_string_DomainUpdateKind DomainUpdateKind.kCapabilityChanged = ''capability_changed''"
| "to_string_DomainUpdateKind DomainUpdateKind.kLoadChanged = ''load_changed''"
| "to_string_DomainUpdateKind DomainUpdateKind.kHealthChanged = ''health_changed''"
| "to_string_DomainUpdateKind DomainUpdateKind.kLocalityChanged = ''locality_changed''"
| "to_string_DomainUpdateKind DomainUpdateKind.kTopologyChanged = ''topology_changed''"
| "to_string_DomainUpdateKind DomainUpdateKind.kCompatibilityChanged = ''compatibility_changed''"
| "to_string_DomainUpdateKind DomainUpdateKind.kIsolationChanged = ''isolation_changed''"
| "to_string_DomainUpdateKind DomainUpdateKind.kCapacityChanged = ''capacity_changed''"
| "to_string_DomainUpdateKind DomainUpdateKind.kBackendGenerationChanged = ''backend_generation_changed''"
| "to_string_DomainUpdateKind DomainUpdateKind.kFenced = ''fenced''"
| "to_string_DomainUpdateKind DomainUpdateKind.kRemoved = ''removed''"
| "to_string_DomainUpdateKind DomainUpdateKind.kUnchanged = ''unchanged''"

section \<open>Parsing\<close>

text \<open>\<^verbatim>\<open>parse_from\<close>: the first table entry whose name equals the text up to ASCII case.\<close>

definition lower_char :: "char \<Rightarrow> char" where
  "lower_char c =
     (if 65 \<le> (of_char c :: nat) \<and> (of_char c :: nat) \<le> 90 then char_of ((of_char c :: nat) - 65 + 97) else c)"

fun parse_from :: "string \<Rightarrow> (string \<times> 'e) list \<Rightarrow> 'e option" where
  "parse_from s [] = None"
| "parse_from s ((name, v) # table) =
     (if length name \<noteq> length s then parse_from s table
      else if map lower_char s = map lower_char name then Some v
      else parse_from s table)"

definition kTable_ExecutionDomainType :: "(string \<times> ExecutionDomainType) list" where
  "kTable_ExecutionDomainType =
     [(''cpu'', ExecutionDomainType.kCpu),
      (''accelerator'', ExecutionDomainType.kAccelerator),
      (''gpu'', ExecutionDomainType.kAccelerator),
      (''nic'', ExecutionDomainType.kNic),
      (''smartnic'', ExecutionDomainType.kSmartNic),
      (''dpu'', ExecutionDomainType.kDpu),
      (''other'', ExecutionDomainType.kOtherRegisteredOffloadEngine),
      (''other_registered_offload_engine'', ExecutionDomainType.kOtherRegisteredOffloadEngine)]"

definition parse_enum_ExecutionDomainType :: "string \<Rightarrow> ExecutionDomainType option" where
  "parse_enum_ExecutionDomainType s = parse_from s kTable_ExecutionDomainType"

definition kTable_Provenance :: "(string \<times> Provenance) list" where
  "kTable_Provenance =
     [(''real'', Provenance.kReal),
      (''synthetic'', Provenance.kSynthetic),
      (''unsupported'', Provenance.kUnsupported)]"

definition parse_enum_Provenance :: "string \<Rightarrow> Provenance option" where
  "parse_enum_Provenance s = parse_from s kTable_Provenance"

definition kTable_MemoryDomain :: "(string \<times> MemoryDomain) list" where
  "kTable_MemoryDomain =
     [(''host'', MemoryDomain.kHost),
      (''pinned_host'', MemoryDomain.kPinnedHost),
      (''device_local'', MemoryDomain.kDeviceLocal),
      (''peer_device'', MemoryDomain.kPeerDevice),
      (''nic_onboard'', MemoryDomain.kNicOnboard),
      (''smartnic_onboard'', MemoryDomain.kSmartNicOnboard),
      (''dpu_onboard'', MemoryDomain.kDpuOnboard),
      (''unknown'', MemoryDomain.kUnknown)]"

definition parse_enum_MemoryDomain :: "string \<Rightarrow> MemoryDomain option" where
  "parse_enum_MemoryDomain s = parse_from s kTable_MemoryDomain"

definition kTable_IsolationClass :: "(string \<times> IsolationClass) list" where
  "kTable_IsolationClass =
     [(''unknown'', IsolationClass.kUnknown),
      (''shared_process'', IsolationClass.kSharedProcess),
      (''separate_process'', IsolationClass.kSeparateProcess),
      (''separate_device_function'', IsolationClass.kSeparateDeviceFunction),
      (''separate_queue'', IsolationClass.kSeparateQueue),
      (''separate_address_space'', IsolationClass.kSeparateAddressSpace),
      (''separate_execution_context'', IsolationClass.kSeparateExecutionContext),
      (''tenant_isolated'', IsolationClass.kTenantIsolated),
      (''dedicated_device_service'', IsolationClass.kDedicatedDeviceService)]"

definition parse_enum_IsolationClass :: "string \<Rightarrow> IsolationClass option" where
  "parse_enum_IsolationClass s = parse_from s kTable_IsolationClass"

definition kTable_SideEffectClass :: "(string \<times> SideEffectClass) list" where
  "kTable_SideEffectClass =
     [(''pure'', SideEffectClass.kPure),
      (''idempotent'', SideEffectClass.kIdempotent),
      (''at_most_once_required'', SideEffectClass.kAtMostOnceRequired),
      (''non_repeatable'', SideEffectClass.kNonRepeatable),
      (''unknown'', SideEffectClass.kUnknown)]"

definition parse_enum_SideEffectClass :: "string \<Rightarrow> SideEffectClass option" where
  "parse_enum_SideEffectClass s = parse_from s kTable_SideEffectClass"

definition kTable_TransportClass :: "(string \<times> TransportClass) list" where
  "kTable_TransportClass =
     [(''none'', TransportClass.kNone),
      (''raw_frames'', TransportClass.kRawFrames),
      (''stream_bytes'', TransportClass.kStreamBytes),
      (''datagram_bytes'', TransportClass.kDatagramBytes),
      (''rdma_message'', TransportClass.kRdmaMessage),
      (''control_plane'', TransportClass.kControlPlane)]"

definition parse_enum_TransportClass :: "string \<Rightarrow> TransportClass option" where
  "parse_enum_TransportClass s = parse_from s kTable_TransportClass"

definition kTable_PayloadClass :: "(string \<times> PayloadClass) list" where
  "kTable_PayloadClass =
     [(''opaque_bytes'', PayloadClass.kOpaqueBytes),
      (''structured_header'', PayloadClass.kStructuredHeader),
      (''scatter_gather_list'', PayloadClass.kScatterGatherList),
      (''segmented_frames'', PayloadClass.kSegmentedFrames)]"

definition parse_enum_PayloadClass :: "string \<Rightarrow> PayloadClass option" where
  "parse_enum_PayloadClass s = parse_from s kTable_PayloadClass"

definition kTable_SelectionOutcome :: "(string \<times> SelectionOutcome) list" where
  "kTable_SelectionOutcome =
     [(''offload_selected'', SelectionOutcome.kOffloadSelected),
      (''cpu_selected'', SelectionOutcome.kCpuSelected),
      (''accelerator_selected'', SelectionOutcome.kAcceleratorSelected),
      (''nic_selected'', SelectionOutcome.kNicSelected),
      (''smartnic_selected'', SelectionOutcome.kSmartNicSelected),
      (''dpu_selected'', SelectionOutcome.kDpuSelected),
      (''fallback_selected'', SelectionOutcome.kFallbackSelected),
      (''deferred'', SelectionOutcome.kDeferred),
      (''no_eligible_domain'', SelectionOutcome.kNoEligibleDomain),
      (''policy_rejected'', SelectionOutcome.kPolicyRejected),
      (''capability_unsupported'', SelectionOutcome.kCapabilityUnsupported),
      (''stale_evidence'', SelectionOutcome.kStaleEvidence),
      (''revalidation_required'', SelectionOutcome.kRevalidationRequired),
      (''capacity_unavailable'', SelectionOutcome.kCapacityUnavailable),
      (''compatibility_rejected'', SelectionOutcome.kCompatibilityRejected),
      (''isolation_rejected'', SelectionOutcome.kIsolationRejected),
      (''dispatched'', SelectionOutcome.kDispatched),
      (''failed'', SelectionOutcome.kFailed),
      (''outcome_unknown'', SelectionOutcome.kOutcomeUnknown),
      (''cancelled'', SelectionOutcome.kCancelled)]"

definition parse_enum_SelectionOutcome :: "string \<Rightarrow> SelectionOutcome option" where
  "parse_enum_SelectionOutcome s = parse_from s kTable_SelectionOutcome"

definition kTable_OffloadRequirement :: "(string \<times> OffloadRequirement) list" where
  "kTable_OffloadRequirement =
     [(''any'', OffloadRequirement.kAny),
      (''prefer_offload'', OffloadRequirement.kPreferOffload),
      (''offload_required'', OffloadRequirement.kOffloadRequired),
      (''host_required'', OffloadRequirement.kHostRequired)]"

definition parse_enum_OffloadRequirement :: "string \<Rightarrow> OffloadRequirement option" where
  "parse_enum_OffloadRequirement s = parse_from s kTable_OffloadRequirement"

definition kTable_AttemptState :: "(string \<times> AttemptState) list" where
  "kTable_AttemptState =
     [(''planned'', AttemptState.kPlanned),
      (''reserved'', AttemptState.kReserved),
      (''dispatching'', AttemptState.kDispatching),
      (''dispatched'', AttemptState.kDispatched),
      (''completed'', AttemptState.kCompleted),
      (''failed'', AttemptState.kFailed),
      (''outcome_unknown'', AttemptState.kOutcomeUnknown),
      (''cancelled'', AttemptState.kCancelled),
      (''rejected_stale'', AttemptState.kRejectedStale),
      (''fenced'', AttemptState.kFenced)]"

definition parse_enum_AttemptState :: "string \<Rightarrow> AttemptState option" where
  "parse_enum_AttemptState s = parse_from s kTable_AttemptState"

definition kTable_AttemptResolution :: "(string \<times> AttemptResolution) list" where
  "kTable_AttemptResolution =
     [(''none'', AttemptResolution.kNone),
      (''authoritative_success'', AttemptResolution.kAuthoritativeSuccess),
      (''authoritative_failure'', AttemptResolution.kAuthoritativeFailure),
      (''ambiguous'', AttemptResolution.kAmbiguous),
      (''cancelled_before_dispatch'', AttemptResolution.kCancelledBeforeDispatch),
      (''cancelled_ambiguous'', AttemptResolution.kCancelledAmbiguous),
      (''fenced_no_effect'', AttemptResolution.kFencedNoEffect),
      (''fenced_may_have_effect'', AttemptResolution.kFencedMayHaveEffect)]"

definition parse_enum_AttemptResolution :: "string \<Rightarrow> AttemptResolution option" where
  "parse_enum_AttemptResolution s = parse_from s kTable_AttemptResolution"

definition kTable_IneligibilityReason :: "(string \<times> IneligibilityReason) list" where
  "kTable_IneligibilityReason =
     [(''none'', IneligibilityReason.kNone),
      (''unknown_operation_class'', IneligibilityReason.kUnknownOperationClass),
      (''operation_not_supported'', IneligibilityReason.kOperationNotSupported),
      (''memory_domain_unsupported'', IneligibilityReason.kMemoryDomainUnsupported),
      (''addressability_unsupported'', IneligibilityReason.kAddressabilityUnsupported),
      (''payload_too_large'', IneligibilityReason.kPayloadTooLarge),
      (''payload_too_small'', IneligibilityReason.kPayloadTooSmall),
      (''alignment_unsatisfied'', IneligibilityReason.kAlignmentUnsatisfied),
      (''isolation_insufficient'', IneligibilityReason.kIsolationInsufficient),
      (''compatibility_mismatch'', IneligibilityReason.kCompatibilityMismatch),
      (''backend_unsupported'', IneligibilityReason.kBackendUnsupported),
      (''policy_forbidden'', IneligibilityReason.kPolicyForbidden),
      (''domain_not_allowed'', IneligibilityReason.kDomainNotAllowed),
      (''health_not_ready'', IneligibilityReason.kHealthNotReady),
      (''stale_capability'', IneligibilityReason.kStaleCapability),
      (''capability_unproven'', IneligibilityReason.kCapabilityUnproven),
      (''locality_violation'', IneligibilityReason.kLocalityViolation),
      (''capacity_unavailable'', IneligibilityReason.kCapacityUnavailable),
      (''domain_fenced'', IneligibilityReason.kDomainFenced),
      (''worker_boot_stale'', IneligibilityReason.kWorkerBootStale),
      (''coordinator_epoch_stale'', IneligibilityReason.kCoordinatorEpochStale),
      (''provenance_disallowed'', IneligibilityReason.kProvenanceDisallowed),
      (''generation_regressed'', IneligibilityReason.kGenerationRegressed),
      (''transport_class_unsupported'', IneligibilityReason.kTransportClassUnsupported),
      (''payload_class_unsupported'', IneligibilityReason.kPayloadClassUnsupported),
      (''dma_required'', IneligibilityReason.kDmaRequired),
      (''scatter_gather_required'', IneligibilityReason.kScatterGatherRequired),
      (''concurrency_exhausted'', IneligibilityReason.kConcurrencyExhausted),
      (''reservation_conflict'', IneligibilityReason.kReservationConflict),
      (''domain_not_registered'', IneligibilityReason.kDomainNotRegistered),
      (''backend_generation_stale'', IneligibilityReason.kBackendGenerationStale),
      (''authority_invalidated'', IneligibilityReason.kAuthorityInvalidated)]"

definition parse_enum_IneligibilityReason :: "string \<Rightarrow> IneligibilityReason option" where
  "parse_enum_IneligibilityReason s = parse_from s kTable_IneligibilityReason"

definition kTable_DiscrepancyKind :: "(string \<times> DiscrepancyKind) list" where
  "kTable_DiscrepancyKind =
     [(''domain_missing'', DiscrepancyKind.kDomainMissing),
      (''domain_generation_changed'', DiscrepancyKind.kDomainGenerationChanged),
      (''worker_replaced'', DiscrepancyKind.kWorkerReplaced),
      (''capability_changed'', DiscrepancyKind.kCapabilityChanged),
      (''operation_no_longer_supported'', DiscrepancyKind.kOperationNoLongerSupported),
      (''queue_support_changed'', DiscrepancyKind.kQueueSupportChanged),
      (''backend_version_changed'', DiscrepancyKind.kBackendVersionChanged),
      (''firmware_generation_changed'', DiscrepancyKind.kFirmwareGenerationChanged),
      (''completed_attempt_engine_gone'', DiscrepancyKind.kCompletedAttemptEngineGone),
      (''in_flight_attempt_ambiguous'', DiscrepancyKind.kInFlightAttemptAmbiguous),
      (''unregistered_live_domain'', DiscrepancyKind.kUnregisteredLiveDomain),
      (''generation_regressed'', DiscrepancyKind.kGenerationRegressed)]"

definition parse_enum_DiscrepancyKind :: "string \<Rightarrow> DiscrepancyKind option" where
  "parse_enum_DiscrepancyKind s = parse_from s kTable_DiscrepancyKind"

definition kTable_ResourceKind :: "(string \<times> ResourceKind) list" where
  "kTable_ResourceKind =
     [(''execution_slot'', ResourceKind.kExecutionSlot),
      (''queue_depth'', ResourceKind.kQueueDepth),
      (''descriptor_ring'', ResourceKind.kDescriptorRing),
      (''processing_context'', ResourceKind.kProcessingContext),
      (''offload_engine'', ResourceKind.kOffloadEngine),
      (''device_memory_bytes'', ResourceKind.kDeviceMemoryBytes),
      (''scratch_memory_bytes'', ResourceKind.kScratchMemoryBytes),
      (''dma_channel'', ResourceKind.kDmaChannel),
      (''queue_pair'', ResourceKind.kQueuePair),
      (''vendor_execution_context'', ResourceKind.kVendorExecutionContext)]"

definition parse_enum_ResourceKind :: "string \<Rightarrow> ResourceKind option" where
  "parse_enum_ResourceKind s = parse_from s kTable_ResourceKind"

definition kTable_CapabilityFlag :: "(string \<times> CapabilityFlag) list" where
  "kTable_CapabilityFlag =
     [(''checksum'', CapabilityFlag.kChecksum),
      (''compression'', CapabilityFlag.kCompression),
      (''decompression'', CapabilityFlag.kDecompression),
      (''encryption'', CapabilityFlag.kEncryption),
      (''decryption'', CapabilityFlag.kDecryption),
      (''dma'', CapabilityFlag.kDma),
      (''scatter_gather'', CapabilityFlag.kScatterGather),
      (''rdma'', CapabilityFlag.kRdma),
      (''gpudirect_addressable'', CapabilityFlag.kGpudirectAddressable),
      (''packet_processing'', CapabilityFlag.kPacketProcessing),
      (''header_processing'', CapabilityFlag.kHeaderProcessing),
      (''protocol_transform'', CapabilityFlag.kProtocolTransform),
      (''integrity_verify'', CapabilityFlag.kIntegrityVerify),
      (''segmentation'', CapabilityFlag.kSegmentation),
      (''reassembly'', CapabilityFlag.kReassembly),
      (''staging_copy'', CapabilityFlag.kStagingCopy),
      (''side_effect_sink'', CapabilityFlag.kSideEffectSink)]"

definition parse_enum_CapabilityFlag :: "string \<Rightarrow> CapabilityFlag option" where
  "parse_enum_CapabilityFlag s = parse_from s kTable_CapabilityFlag"

definition kTable_LocalityClass :: "(string \<times> LocalityClass) list" where
  "kTable_LocalityClass =
     [(''unknown'', LocalityClass.kUnknown),
      (''remote_host'', LocalityClass.kRemoteHost),
      (''same_host'', LocalityClass.kSameHost),
      (''same_nic'', LocalityClass.kSameNic),
      (''accelerator_local_nic'', LocalityClass.kAcceleratorLocalNic),
      (''same_pcie_switch'', LocalityClass.kSamePcieSwitch),
      (''same_root_complex'', LocalityClass.kSameRootComplex),
      (''same_numa_node'', LocalityClass.kSameNumaNode),
      (''domain_local'', LocalityClass.kDomainLocal)]"

definition parse_enum_LocalityClass :: "string \<Rightarrow> LocalityClass option" where
  "parse_enum_LocalityClass s = parse_from s kTable_LocalityClass"

definition kTable_FailureKind :: "(string \<times> FailureKind) list" where
  "kTable_FailureKind =
     [(''none'', FailureKind.kNone),
      (''transport_failure'', FailureKind.kTransportFailure),
      (''pre_dispatch_rejection'', FailureKind.kPreDispatchRejection),
      (''post_dispatch_rejection'', FailureKind.kPostDispatchRejection),
      (''worker_death'', FailureKind.kWorkerDeath),
      (''domain_unavailable'', FailureKind.kDomainUnavailable),
      (''capacity_exhausted'', FailureKind.kCapacityExhausted),
      (''backend_rejection'', FailureKind.kBackendRejection),
      (''integrity_failure'', FailureKind.kIntegrityFailure),
      (''execution_failure'', FailureKind.kExecutionFailure),
      (''ambiguous_outcome'', FailureKind.kAmbiguousOutcome),
      (''cancelled'', FailureKind.kCancelled),
      (''coordinator_restart'', FailureKind.kCoordinatorRestart)]"

definition parse_enum_FailureKind :: "string \<Rightarrow> FailureKind option" where
  "parse_enum_FailureKind s = parse_from s kTable_FailureKind"

definition kTable_RankingFactor :: "(string \<times> RankingFactor) list" where
  "kTable_RankingFactor =
     [(''data_locality'', RankingFactor.kDataLocality),
      (''memory_locality'', RankingFactor.kMemoryLocality),
      (''nic_locality'', RankingFactor.kNicLocality),
      (''accelerator_locality'', RankingFactor.kAcceleratorLocality),
      (''pcie_affinity'', RankingFactor.kPcieAffinity),
      (''avoided_host_copies'', RankingFactor.kAvoidedHostCopies),
      (''transfer_cost'', RankingFactor.kTransferCost),
      (''setup_cost'', RankingFactor.kSetupCost),
      (''queue_delay'', RankingFactor.kQueueDelay),
      (''execution_throughput'', RankingFactor.kExecutionThroughput),
      (''completion_latency'', RankingFactor.kCompletionLatency),
      (''offload_overhead'', RankingFactor.kOffloadOverhead),
      (''cpu_preservation'', RankingFactor.kCpuPreservation),
      (''accelerator_preservation'', RankingFactor.kAcceleratorPreservation),
      (''power_efficiency'', RankingFactor.kPowerEfficiency),
      (''utilization_headroom'', RankingFactor.kUtilizationHeadroom),
      (''congestion_avoidance'', RankingFactor.kCongestionAvoidance),
      (''failure_domain_diversity'', RankingFactor.kFailureDomainDiversity),
      (''isolation_quality'', RankingFactor.kIsolationQuality),
      (''reconfiguration_penalty'', RankingFactor.kReconfigurationPenalty),
      (''fallback_cost'', RankingFactor.kFallbackCost),
      (''policy_preference'', RankingFactor.kPolicyPreference)]"

definition parse_enum_RankingFactor :: "string \<Rightarrow> RankingFactor option" where
  "parse_enum_RankingFactor s = parse_from s kTable_RankingFactor"

definition kTable_ReservationState :: "(string \<times> ReservationState) list" where
  "kTable_ReservationState =
     [(''active'', ReservationState.kActive),
      (''committed'', ReservationState.kCommitted),
      (''released'', ReservationState.kReleased),
      (''rolled_back'', ReservationState.kRolledBack),
      (''invalidated'', ReservationState.kInvalidated)]"

definition parse_enum_ReservationState :: "string \<Rightarrow> ReservationState option" where
  "parse_enum_ReservationState s = parse_from s kTable_ReservationState"

definition kTable_PlanState :: "(string \<times> PlanState) list" where
  "kTable_PlanState =
     [(''created'', PlanState.kCreated),
      (''reserved'', PlanState.kReserved),
      (''dispatched'', PlanState.kDispatched),
      (''consumed'', PlanState.kConsumed),
      (''cancelled'', PlanState.kCancelled),
      (''rejected'', PlanState.kRejected)]"

definition parse_enum_PlanState :: "string \<Rightarrow> PlanState option" where
  "parse_enum_PlanState s = parse_from s kTable_PlanState"

definition kTable_DomainUpdateKind :: "(string \<times> DomainUpdateKind) list" where
  "kTable_DomainUpdateKind =
     [(''registered'', DomainUpdateKind.kRegistered),
      (''capability_changed'', DomainUpdateKind.kCapabilityChanged),
      (''load_changed'', DomainUpdateKind.kLoadChanged),
      (''health_changed'', DomainUpdateKind.kHealthChanged),
      (''locality_changed'', DomainUpdateKind.kLocalityChanged),
      (''topology_changed'', DomainUpdateKind.kTopologyChanged),
      (''compatibility_changed'', DomainUpdateKind.kCompatibilityChanged),
      (''isolation_changed'', DomainUpdateKind.kIsolationChanged),
      (''capacity_changed'', DomainUpdateKind.kCapacityChanged),
      (''backend_generation_changed'', DomainUpdateKind.kBackendGenerationChanged),
      (''fenced'', DomainUpdateKind.kFenced),
      (''removed'', DomainUpdateKind.kRemoved),
      (''unchanged'', DomainUpdateKind.kUnchanged)]"

definition parse_enum_DomainUpdateKind :: "string \<Rightarrow> DomainUpdateKind option" where
  "parse_enum_DomainUpdateKind s = parse_from s kTable_DomainUpdateKind"

section \<open>Generation relation\<close>

definition relate_generations :: "u64 \<Rightarrow> u64 \<Rightarrow> GenerationRelation" where
  "relate_generations bound observed =
     (if bound = 0 \<or> observed = 0 then GenerationRelation.kUnset
      else if observed = bound then GenerationRelation.kEqual
      else if observed > bound then GenerationRelation.kAdvanced
      else GenerationRelation.kRegressed)"

lemma relate_generations_equal:
  "relate_generations b v = GenerationRelation.kEqual \<longleftrightarrow> published b \<and> v = b"
  by (auto simp: relate_generations_def valid_def)

section \<open>Orders and finite index types\<close>

lemma ord_IsolationClass_inject: "ord_IsolationClass a = ord_IsolationClass b \<Longrightarrow> a = b"
  by (cases a; cases b) simp_all

instantiation IsolationClass :: linorder
begin

definition less_eq_IsolationClass :: "IsolationClass \<Rightarrow> IsolationClass \<Rightarrow> bool" where
  "less_eq_IsolationClass a b = (ord_IsolationClass a \<le> ord_IsolationClass b)"

definition less_IsolationClass :: "IsolationClass \<Rightarrow> IsolationClass \<Rightarrow> bool" where
  "less_IsolationClass a b = (ord_IsolationClass a < ord_IsolationClass b)"

instance
  by standard (auto simp: less_eq_IsolationClass_def less_IsolationClass_def dest: ord_IsolationClass_inject)

end

lemma ord_LocalityClass_inject: "ord_LocalityClass a = ord_LocalityClass b \<Longrightarrow> a = b"
  by (cases a; cases b) simp_all

instantiation LocalityClass :: linorder
begin

definition less_eq_LocalityClass :: "LocalityClass \<Rightarrow> LocalityClass \<Rightarrow> bool" where
  "less_eq_LocalityClass a b = (ord_LocalityClass a \<le> ord_LocalityClass b)"

definition less_LocalityClass :: "LocalityClass \<Rightarrow> LocalityClass \<Rightarrow> bool" where
  "less_LocalityClass a b = (ord_LocalityClass a < ord_LocalityClass b)"

instance
  by standard (auto simp: less_eq_LocalityClass_def less_LocalityClass_def dest: ord_LocalityClass_inject)

end

definition all_ResourceKind :: "ResourceKind list" where
  "all_ResourceKind =
     [ResourceKind.kExecutionSlot,
      ResourceKind.kQueueDepth,
      ResourceKind.kDescriptorRing,
      ResourceKind.kProcessingContext,
      ResourceKind.kOffloadEngine,
      ResourceKind.kDeviceMemoryBytes,
      ResourceKind.kScratchMemoryBytes,
      ResourceKind.kDmaChannel,
      ResourceKind.kQueuePair,
      ResourceKind.kVendorExecutionContext]"

lemma all_ResourceKind_UNIV: "set all_ResourceKind = UNIV"
proof -
  have "x \<in> set all_ResourceKind" for x
    by (cases x) (simp_all add: all_ResourceKind_def)
  then show ?thesis by auto
qed

lemma in_all_ResourceKind [simp]: "x \<in> set all_ResourceKind"
  by (simp add: all_ResourceKind_UNIV)

lemma distinct_all_ResourceKind: "distinct all_ResourceKind"
  by (simp add: all_ResourceKind_def)

instantiation ResourceKind :: enum
begin

definition enum_ResourceKind :: "ResourceKind list" where
  "enum_ResourceKind = all_ResourceKind"

definition enum_all_ResourceKind :: "(ResourceKind \<Rightarrow> bool) \<Rightarrow> bool" where
  "enum_all_ResourceKind P = list_all P all_ResourceKind"

definition enum_ex_ResourceKind :: "(ResourceKind \<Rightarrow> bool) \<Rightarrow> bool" where
  "enum_ex_ResourceKind P = list_ex P all_ResourceKind"

instance
  by standard
     (simp_all add: enum_ResourceKind_def enum_all_ResourceKind_def enum_ex_ResourceKind_def all_ResourceKind_UNIV
        distinct_all_ResourceKind list_all_iff list_ex_iff)

end

definition all_ExecutionDomainType :: "ExecutionDomainType list" where
  "all_ExecutionDomainType =
     [ExecutionDomainType.kCpu,
      ExecutionDomainType.kAccelerator,
      ExecutionDomainType.kNic,
      ExecutionDomainType.kSmartNic,
      ExecutionDomainType.kDpu,
      ExecutionDomainType.kOtherRegisteredOffloadEngine]"

lemma all_ExecutionDomainType_UNIV: "set all_ExecutionDomainType = UNIV"
proof -
  have "x \<in> set all_ExecutionDomainType" for x
    by (cases x) (simp_all add: all_ExecutionDomainType_def)
  then show ?thesis by auto
qed

lemma in_all_ExecutionDomainType [simp]: "x \<in> set all_ExecutionDomainType"
  by (simp add: all_ExecutionDomainType_UNIV)

lemma distinct_all_ExecutionDomainType: "distinct all_ExecutionDomainType"
  by (simp add: all_ExecutionDomainType_def)

instantiation ExecutionDomainType :: enum
begin

definition enum_ExecutionDomainType :: "ExecutionDomainType list" where
  "enum_ExecutionDomainType = all_ExecutionDomainType"

definition enum_all_ExecutionDomainType :: "(ExecutionDomainType \<Rightarrow> bool) \<Rightarrow> bool" where
  "enum_all_ExecutionDomainType P = list_all P all_ExecutionDomainType"

definition enum_ex_ExecutionDomainType :: "(ExecutionDomainType \<Rightarrow> bool) \<Rightarrow> bool" where
  "enum_ex_ExecutionDomainType P = list_ex P all_ExecutionDomainType"

instance
  by standard
     (simp_all add: enum_ExecutionDomainType_def enum_all_ExecutionDomainType_def enum_ex_ExecutionDomainType_def all_ExecutionDomainType_UNIV
        distinct_all_ExecutionDomainType list_all_iff list_ex_iff)

end

definition all_FailureKind :: "FailureKind list" where
  "all_FailureKind =
     [FailureKind.kNone,
      FailureKind.kTransportFailure,
      FailureKind.kPreDispatchRejection,
      FailureKind.kPostDispatchRejection,
      FailureKind.kWorkerDeath,
      FailureKind.kDomainUnavailable,
      FailureKind.kCapacityExhausted,
      FailureKind.kBackendRejection,
      FailureKind.kIntegrityFailure,
      FailureKind.kExecutionFailure,
      FailureKind.kAmbiguousOutcome,
      FailureKind.kCancelled,
      FailureKind.kCoordinatorRestart]"

lemma all_FailureKind_UNIV: "set all_FailureKind = UNIV"
proof -
  have "x \<in> set all_FailureKind" for x
    by (cases x) (simp_all add: all_FailureKind_def)
  then show ?thesis by auto
qed

lemma in_all_FailureKind [simp]: "x \<in> set all_FailureKind"
  by (simp add: all_FailureKind_UNIV)

lemma distinct_all_FailureKind: "distinct all_FailureKind"
  by (simp add: all_FailureKind_def)

instantiation FailureKind :: enum
begin

definition enum_FailureKind :: "FailureKind list" where
  "enum_FailureKind = all_FailureKind"

definition enum_all_FailureKind :: "(FailureKind \<Rightarrow> bool) \<Rightarrow> bool" where
  "enum_all_FailureKind P = list_all P all_FailureKind"

definition enum_ex_FailureKind :: "(FailureKind \<Rightarrow> bool) \<Rightarrow> bool" where
  "enum_ex_FailureKind P = list_ex P all_FailureKind"

instance
  by standard
     (simp_all add: enum_FailureKind_def enum_all_FailureKind_def enum_ex_FailureKind_def all_FailureKind_UNIV
        distinct_all_FailureKind list_all_iff list_ex_iff)

end

definition all_RankingFactor :: "RankingFactor list" where
  "all_RankingFactor =
     [RankingFactor.kDataLocality,
      RankingFactor.kMemoryLocality,
      RankingFactor.kNicLocality,
      RankingFactor.kAcceleratorLocality,
      RankingFactor.kPcieAffinity,
      RankingFactor.kAvoidedHostCopies,
      RankingFactor.kTransferCost,
      RankingFactor.kSetupCost,
      RankingFactor.kQueueDelay,
      RankingFactor.kExecutionThroughput,
      RankingFactor.kCompletionLatency,
      RankingFactor.kOffloadOverhead,
      RankingFactor.kCpuPreservation,
      RankingFactor.kAcceleratorPreservation,
      RankingFactor.kPowerEfficiency,
      RankingFactor.kUtilizationHeadroom,
      RankingFactor.kCongestionAvoidance,
      RankingFactor.kFailureDomainDiversity,
      RankingFactor.kIsolationQuality,
      RankingFactor.kReconfigurationPenalty,
      RankingFactor.kFallbackCost,
      RankingFactor.kPolicyPreference]"

lemma all_RankingFactor_UNIV: "set all_RankingFactor = UNIV"
proof -
  have "x \<in> set all_RankingFactor" for x
    by (cases x) (simp_all add: all_RankingFactor_def)
  then show ?thesis by auto
qed

lemma in_all_RankingFactor [simp]: "x \<in> set all_RankingFactor"
  by (simp add: all_RankingFactor_UNIV)

lemma distinct_all_RankingFactor: "distinct all_RankingFactor"
  by (simp add: all_RankingFactor_def)

instantiation RankingFactor :: enum
begin

definition enum_RankingFactor :: "RankingFactor list" where
  "enum_RankingFactor = all_RankingFactor"

definition enum_all_RankingFactor :: "(RankingFactor \<Rightarrow> bool) \<Rightarrow> bool" where
  "enum_all_RankingFactor P = list_all P all_RankingFactor"

definition enum_ex_RankingFactor :: "(RankingFactor \<Rightarrow> bool) \<Rightarrow> bool" where
  "enum_ex_RankingFactor P = list_ex P all_RankingFactor"

instance
  by standard
     (simp_all add: enum_RankingFactor_def enum_all_RankingFactor_def enum_ex_RankingFactor_def all_RankingFactor_UNIV
        distinct_all_RankingFactor list_all_iff list_ex_iff)

end

section \<open>Parsing inverts naming\<close>

lemma lower_char_letters:
  "lower_char CHR ''a'' = CHR ''a''"
  "lower_char CHR ''b'' = CHR ''b''"
  "lower_char CHR ''c'' = CHR ''c''"
  "lower_char CHR ''d'' = CHR ''d''"
  "lower_char CHR ''e'' = CHR ''e''"
  "lower_char CHR ''f'' = CHR ''f''"
  "lower_char CHR ''g'' = CHR ''g''"
  "lower_char CHR ''h'' = CHR ''h''"
  "lower_char CHR ''i'' = CHR ''i''"
  "lower_char CHR ''j'' = CHR ''j''"
  "lower_char CHR ''k'' = CHR ''k''"
  "lower_char CHR ''l'' = CHR ''l''"
  "lower_char CHR ''m'' = CHR ''m''"
  "lower_char CHR ''n'' = CHR ''n''"
  "lower_char CHR ''o'' = CHR ''o''"
  "lower_char CHR ''p'' = CHR ''p''"
  "lower_char CHR ''q'' = CHR ''q''"
  "lower_char CHR ''r'' = CHR ''r''"
  "lower_char CHR ''s'' = CHR ''s''"
  "lower_char CHR ''t'' = CHR ''t''"
  "lower_char CHR ''u'' = CHR ''u''"
  "lower_char CHR ''v'' = CHR ''v''"
  "lower_char CHR ''w'' = CHR ''w''"
  "lower_char CHR ''x'' = CHR ''x''"
  "lower_char CHR ''y'' = CHR ''y''"
  "lower_char CHR ''z'' = CHR ''z''"
  "lower_char CHR ''A'' = CHR ''a''"
  "lower_char CHR ''B'' = CHR ''b''"
  "lower_char CHR ''C'' = CHR ''c''"
  "lower_char CHR ''D'' = CHR ''d''"
  "lower_char CHR ''E'' = CHR ''e''"
  "lower_char CHR ''F'' = CHR ''f''"
  "lower_char CHR ''G'' = CHR ''g''"
  "lower_char CHR ''H'' = CHR ''h''"
  "lower_char CHR ''I'' = CHR ''i''"
  "lower_char CHR ''J'' = CHR ''j''"
  "lower_char CHR ''K'' = CHR ''k''"
  "lower_char CHR ''L'' = CHR ''l''"
  "lower_char CHR ''M'' = CHR ''m''"
  "lower_char CHR ''N'' = CHR ''n''"
  "lower_char CHR ''O'' = CHR ''o''"
  "lower_char CHR ''P'' = CHR ''p''"
  "lower_char CHR ''Q'' = CHR ''q''"
  "lower_char CHR ''R'' = CHR ''r''"
  "lower_char CHR ''S'' = CHR ''s''"
  "lower_char CHR ''T'' = CHR ''t''"
  "lower_char CHR ''U'' = CHR ''u''"
  "lower_char CHR ''V'' = CHR ''v''"
  "lower_char CHR ''W'' = CHR ''w''"
  "lower_char CHR ''X'' = CHR ''x''"
  "lower_char CHR ''Y'' = CHR ''y''"
  "lower_char CHR ''Z'' = CHR ''z''"
  "lower_char CHR ''_'' = CHR ''_''"
  by (simp_all add: lower_char_def char_of_def bit_Suc_0_iff)

lemma parse_from_map_of:
  "parse_from s table = map_of (map (apfst (map lower_char)) table) (map lower_char s)"
  by (induction table rule: parse_from.induct [of _ s])
     (auto dest: map_eq_imp_length_eq)

lemma lowered_ExecutionDomainType: "map (apfst (map lower_char)) kTable_ExecutionDomainType = kTable_ExecutionDomainType"
  by (simp add: kTable_ExecutionDomainType_def lower_char_letters)

lemma parse_to_string_ExecutionDomainType:
  "parse_enum_ExecutionDomainType (to_string_ExecutionDomainType v) = Some v"
  unfolding parse_enum_ExecutionDomainType_def parse_from_map_of lowered_ExecutionDomainType
  by (cases v) (simp_all add: lower_char_letters kTable_ExecutionDomainType_def)

lemma lowered_Provenance: "map (apfst (map lower_char)) kTable_Provenance = kTable_Provenance"
  by (simp add: kTable_Provenance_def lower_char_letters)

lemma parse_to_string_Provenance:
  "parse_enum_Provenance (to_string_Provenance v) = Some v"
  unfolding parse_enum_Provenance_def parse_from_map_of lowered_Provenance
  by (cases v) (simp_all add: lower_char_letters kTable_Provenance_def)

lemma lowered_MemoryDomain: "map (apfst (map lower_char)) kTable_MemoryDomain = kTable_MemoryDomain"
  by (simp add: kTable_MemoryDomain_def lower_char_letters)

lemma parse_to_string_MemoryDomain:
  "parse_enum_MemoryDomain (to_string_MemoryDomain v) = Some v"
  unfolding parse_enum_MemoryDomain_def parse_from_map_of lowered_MemoryDomain
  by (cases v) (simp_all add: lower_char_letters kTable_MemoryDomain_def)

lemma lowered_IsolationClass: "map (apfst (map lower_char)) kTable_IsolationClass = kTable_IsolationClass"
  by (simp add: kTable_IsolationClass_def lower_char_letters)

lemma parse_to_string_IsolationClass:
  "parse_enum_IsolationClass (to_string_IsolationClass v) = Some v"
  unfolding parse_enum_IsolationClass_def parse_from_map_of lowered_IsolationClass
  by (cases v) (simp_all add: lower_char_letters kTable_IsolationClass_def)

lemma lowered_SideEffectClass: "map (apfst (map lower_char)) kTable_SideEffectClass = kTable_SideEffectClass"
  by (simp add: kTable_SideEffectClass_def lower_char_letters)

lemma parse_to_string_SideEffectClass:
  "parse_enum_SideEffectClass (to_string_SideEffectClass v) = Some v"
  unfolding parse_enum_SideEffectClass_def parse_from_map_of lowered_SideEffectClass
  by (cases v) (simp_all add: lower_char_letters kTable_SideEffectClass_def)

lemma lowered_TransportClass: "map (apfst (map lower_char)) kTable_TransportClass = kTable_TransportClass"
  by (simp add: kTable_TransportClass_def lower_char_letters)

lemma parse_to_string_TransportClass:
  "parse_enum_TransportClass (to_string_TransportClass v) = Some v"
  unfolding parse_enum_TransportClass_def parse_from_map_of lowered_TransportClass
  by (cases v) (simp_all add: lower_char_letters kTable_TransportClass_def)

lemma lowered_PayloadClass: "map (apfst (map lower_char)) kTable_PayloadClass = kTable_PayloadClass"
  by (simp add: kTable_PayloadClass_def lower_char_letters)

lemma parse_to_string_PayloadClass:
  "parse_enum_PayloadClass (to_string_PayloadClass v) = Some v"
  unfolding parse_enum_PayloadClass_def parse_from_map_of lowered_PayloadClass
  by (cases v) (simp_all add: lower_char_letters kTable_PayloadClass_def)

lemma lowered_SelectionOutcome: "map (apfst (map lower_char)) kTable_SelectionOutcome = kTable_SelectionOutcome"
  by (simp add: kTable_SelectionOutcome_def lower_char_letters)

lemma parse_to_string_SelectionOutcome:
  "parse_enum_SelectionOutcome (to_string_SelectionOutcome v) = Some v"
  unfolding parse_enum_SelectionOutcome_def parse_from_map_of lowered_SelectionOutcome
  by (cases v) (simp_all add: lower_char_letters kTable_SelectionOutcome_def)

lemma lowered_OffloadRequirement: "map (apfst (map lower_char)) kTable_OffloadRequirement = kTable_OffloadRequirement"
  by (simp add: kTable_OffloadRequirement_def lower_char_letters)

lemma parse_to_string_OffloadRequirement:
  "parse_enum_OffloadRequirement (to_string_OffloadRequirement v) = Some v"
  unfolding parse_enum_OffloadRequirement_def parse_from_map_of lowered_OffloadRequirement
  by (cases v) (simp_all add: lower_char_letters kTable_OffloadRequirement_def)

lemma lowered_AttemptState: "map (apfst (map lower_char)) kTable_AttemptState = kTable_AttemptState"
  by (simp add: kTable_AttemptState_def lower_char_letters)

lemma parse_to_string_AttemptState:
  "parse_enum_AttemptState (to_string_AttemptState v) = Some v"
  unfolding parse_enum_AttemptState_def parse_from_map_of lowered_AttemptState
  by (cases v) (simp_all add: lower_char_letters kTable_AttemptState_def)

lemma lowered_AttemptResolution: "map (apfst (map lower_char)) kTable_AttemptResolution = kTable_AttemptResolution"
  by (simp add: kTable_AttemptResolution_def lower_char_letters)

lemma parse_to_string_AttemptResolution:
  "parse_enum_AttemptResolution (to_string_AttemptResolution v) = Some v"
  unfolding parse_enum_AttemptResolution_def parse_from_map_of lowered_AttemptResolution
  by (cases v) (simp_all add: lower_char_letters kTable_AttemptResolution_def)

lemma lowered_IneligibilityReason: "map (apfst (map lower_char)) kTable_IneligibilityReason = kTable_IneligibilityReason"
  by (simp add: kTable_IneligibilityReason_def lower_char_letters)

lemma parse_to_string_IneligibilityReason:
  "parse_enum_IneligibilityReason (to_string_IneligibilityReason v) = Some v"
  unfolding parse_enum_IneligibilityReason_def parse_from_map_of lowered_IneligibilityReason
  by (cases v) (simp_all add: lower_char_letters kTable_IneligibilityReason_def)

lemma lowered_DiscrepancyKind: "map (apfst (map lower_char)) kTable_DiscrepancyKind = kTable_DiscrepancyKind"
  by (simp add: kTable_DiscrepancyKind_def lower_char_letters)

lemma parse_to_string_DiscrepancyKind:
  "parse_enum_DiscrepancyKind (to_string_DiscrepancyKind v) = Some v"
  unfolding parse_enum_DiscrepancyKind_def parse_from_map_of lowered_DiscrepancyKind
  by (cases v) (simp_all add: lower_char_letters kTable_DiscrepancyKind_def)

lemma lowered_ResourceKind: "map (apfst (map lower_char)) kTable_ResourceKind = kTable_ResourceKind"
  by (simp add: kTable_ResourceKind_def lower_char_letters)

lemma parse_to_string_ResourceKind:
  "parse_enum_ResourceKind (to_string_ResourceKind v) = Some v"
  unfolding parse_enum_ResourceKind_def parse_from_map_of lowered_ResourceKind
  by (cases v) (simp_all add: lower_char_letters kTable_ResourceKind_def)

lemma lowered_CapabilityFlag: "map (apfst (map lower_char)) kTable_CapabilityFlag = kTable_CapabilityFlag"
  by (simp add: kTable_CapabilityFlag_def lower_char_letters)

lemma parse_to_string_CapabilityFlag:
  "v \<noteq> CapabilityFlag.kNone \<Longrightarrow> parse_enum_CapabilityFlag (to_string_CapabilityFlag v) = Some v"
  unfolding parse_enum_CapabilityFlag_def parse_from_map_of lowered_CapabilityFlag
  by (cases v) (simp_all add: lower_char_letters kTable_CapabilityFlag_def)

lemma lowered_LocalityClass: "map (apfst (map lower_char)) kTable_LocalityClass = kTable_LocalityClass"
  by (simp add: kTable_LocalityClass_def lower_char_letters)

lemma parse_to_string_LocalityClass:
  "parse_enum_LocalityClass (to_string_LocalityClass v) = Some v"
  unfolding parse_enum_LocalityClass_def parse_from_map_of lowered_LocalityClass
  by (cases v) (simp_all add: lower_char_letters kTable_LocalityClass_def)

lemma lowered_FailureKind: "map (apfst (map lower_char)) kTable_FailureKind = kTable_FailureKind"
  by (simp add: kTable_FailureKind_def lower_char_letters)

lemma parse_to_string_FailureKind:
  "parse_enum_FailureKind (to_string_FailureKind v) = Some v"
  unfolding parse_enum_FailureKind_def parse_from_map_of lowered_FailureKind
  by (cases v) (simp_all add: lower_char_letters kTable_FailureKind_def)

lemma lowered_RankingFactor: "map (apfst (map lower_char)) kTable_RankingFactor = kTable_RankingFactor"
  by (simp add: kTable_RankingFactor_def lower_char_letters)

lemma parse_to_string_RankingFactor:
  "parse_enum_RankingFactor (to_string_RankingFactor v) = Some v"
  unfolding parse_enum_RankingFactor_def parse_from_map_of lowered_RankingFactor
  by (cases v) (simp_all add: lower_char_letters kTable_RankingFactor_def)

lemma lowered_ReservationState: "map (apfst (map lower_char)) kTable_ReservationState = kTable_ReservationState"
  by (simp add: kTable_ReservationState_def lower_char_letters)

lemma parse_to_string_ReservationState:
  "parse_enum_ReservationState (to_string_ReservationState v) = Some v"
  unfolding parse_enum_ReservationState_def parse_from_map_of lowered_ReservationState
  by (cases v) (simp_all add: lower_char_letters kTable_ReservationState_def)

lemma lowered_PlanState: "map (apfst (map lower_char)) kTable_PlanState = kTable_PlanState"
  by (simp add: kTable_PlanState_def lower_char_letters)

lemma parse_to_string_PlanState:
  "parse_enum_PlanState (to_string_PlanState v) = Some v"
  unfolding parse_enum_PlanState_def parse_from_map_of lowered_PlanState
  by (cases v) (simp_all add: lower_char_letters kTable_PlanState_def)

lemma lowered_DomainUpdateKind: "map (apfst (map lower_char)) kTable_DomainUpdateKind = kTable_DomainUpdateKind"
  by (simp add: kTable_DomainUpdateKind_def lower_char_letters)

lemma parse_to_string_DomainUpdateKind:
  "parse_enum_DomainUpdateKind (to_string_DomainUpdateKind v) = Some v"
  unfolding parse_enum_DomainUpdateKind_def parse_from_map_of lowered_DomainUpdateKind
  by (cases v) (simp_all add: lower_char_letters kTable_DomainUpdateKind_def)

section \<open>Property\<close>

text \<open>
  For every enumeration that crosses the public interface as text, parsing the name of a value
  gives the value back.
\<close>

theorem enum_names_round_trip:
  "(\<forall>v. parse_enum_ExecutionDomainType (to_string_ExecutionDomainType v) = Some v)
   \<and> (\<forall>v. parse_enum_Provenance (to_string_Provenance v) = Some v)
   \<and> (\<forall>v. parse_enum_MemoryDomain (to_string_MemoryDomain v) = Some v)
   \<and> (\<forall>v. parse_enum_IsolationClass (to_string_IsolationClass v) = Some v)
   \<and> (\<forall>v. parse_enum_SideEffectClass (to_string_SideEffectClass v) = Some v)
   \<and> (\<forall>v. parse_enum_TransportClass (to_string_TransportClass v) = Some v)
   \<and> (\<forall>v. parse_enum_PayloadClass (to_string_PayloadClass v) = Some v)
   \<and> (\<forall>v. parse_enum_SelectionOutcome (to_string_SelectionOutcome v) = Some v)
   \<and> (\<forall>v. parse_enum_OffloadRequirement (to_string_OffloadRequirement v) = Some v)
   \<and> (\<forall>v. parse_enum_AttemptState (to_string_AttemptState v) = Some v)
   \<and> (\<forall>v. parse_enum_AttemptResolution (to_string_AttemptResolution v) = Some v)
   \<and> (\<forall>v. parse_enum_IneligibilityReason (to_string_IneligibilityReason v) = Some v)
   \<and> (\<forall>v. parse_enum_DiscrepancyKind (to_string_DiscrepancyKind v) = Some v)
   \<and> (\<forall>v. parse_enum_ResourceKind (to_string_ResourceKind v) = Some v)
   \<and> (\<forall>v. parse_enum_LocalityClass (to_string_LocalityClass v) = Some v)
   \<and> (\<forall>v. parse_enum_FailureKind (to_string_FailureKind v) = Some v)
   \<and> (\<forall>v. parse_enum_RankingFactor (to_string_RankingFactor v) = Some v)
   \<and> (\<forall>v. parse_enum_ReservationState (to_string_ReservationState v) = Some v)
   \<and> (\<forall>v. parse_enum_PlanState (to_string_PlanState v) = Some v)
   \<and> (\<forall>v. parse_enum_DomainUpdateKind (to_string_DomainUpdateKind v) = Some v)"
  by (simp add: parse_to_string_ExecutionDomainType
      parse_to_string_Provenance
      parse_to_string_MemoryDomain
      parse_to_string_IsolationClass
      parse_to_string_SideEffectClass
      parse_to_string_TransportClass
      parse_to_string_PayloadClass
      parse_to_string_SelectionOutcome
      parse_to_string_OffloadRequirement
      parse_to_string_AttemptState
      parse_to_string_AttemptResolution
      parse_to_string_IneligibilityReason
      parse_to_string_DiscrepancyKind
      parse_to_string_ResourceKind
      parse_to_string_LocalityClass
      parse_to_string_FailureKind
      parse_to_string_RankingFactor
      parse_to_string_ReservationState
      parse_to_string_PlanState
      parse_to_string_DomainUpdateKind)

end
