(* ===== verification/Tos_Bytes.thy ===== *)
theory Tos_Bytes
  imports Tos_Enums
begin

text \<open>
  Little-endian integers and checksums (\<^verbatim>\<open>src/src/util/crc32c.cpp\<close>, the byte loops of
  \<^verbatim>\<open>src/src/backends/backend.cpp\<close>). The table-driven CRC-32C is proved equal to the bit-serial division
  by the Castagnoli polynomial, and both checksums are streaming: extending over the parts of a
  buffer gives the checksum of the whole.
\<close>

unbundle bit_operations_syntax

section \<open>Little-endian integers\<close>

text \<open>The cast to a byte keeps the low eight bits, which is what the mask of the loops does.\<close>

definition le_bytes :: "nat \<Rightarrow> 'a::len word \<Rightarrow> u8 list" where
  "le_bytes n w = map (\<lambda>i. ucast (drop_bit (8 * i) w)) [0..<n]"

text \<open>The loop that reads a value back, one byte at a time.\<close>

definition of_le_bytes :: "u8 list \<Rightarrow> 'a::len word" where
  "of_le_bytes bs = foldl (\<lambda>v (i, b). v OR push_bit (8 * i) (ucast b)) 0 (enumerate 0 bs)"

lemma length_le_bytes [simp]: "length (le_bytes n w) = n"
  by (simp add: le_bytes_def)

lemma bit_foldl_or:
  "bit (foldl (\<lambda>v (i, b). v OR push_bit (8 * i) (ucast b)) v xs) n \<longleftrightarrow>
     bit (v :: 'a::len word) n \<or> (\<exists>(i, b) \<in> set xs. bit (push_bit (8 * i) (ucast (b :: u8)) :: 'a word) n)"
  by (induction xs arbitrary: v) (auto simp: bit_or_iff)

lemma bit_shifted_byte:
  assumes "n < LENGTH('a)"
  shows "bit (push_bit k (ucast (b :: u8)) :: 'a::len word) n \<longleftrightarrow> k \<le> n \<and> n - k < 8 \<and> bit b (n - k)"
  using assms bit_imp_le_length [of b "n - k"] by (auto simp: bit_push_bit_iff bit_unsigned_iff)

lemma bit_of_le_bytes:
  assumes "n < LENGTH('a)"
  shows "bit (of_le_bytes bs :: 'a::len word) n \<longleftrightarrow> n div 8 < length bs \<and> bit (bs ! (n div 8)) (n mod 8)"
proof -
  have "bit (of_le_bytes bs :: 'a word) n \<longleftrightarrow>
      (\<exists>(i, b) \<in> set (enumerate 0 bs). 8 * i \<le> n \<and> n - 8 * i < 8 \<and> bit b (n - 8 * i))"
    using assms unfolding of_le_bytes_def bit_foldl_or by (simp add: bit_shifted_byte)
  also have "\<dots> \<longleftrightarrow> n div 8 < length bs \<and> bit (bs ! (n div 8)) (n mod 8)"
  proof safe
    fix i b assume *: "(i, b) \<in> set (enumerate 0 bs)" "8 * i \<le> n" "n - 8 * i < 8" "bit b (n - 8 * i)"
    then have "i = n div 8" by auto
    moreover from this have "n - 8 * i = n mod 8" by (simp add: modulo_nat_def)
    ultimately show "n div 8 < length bs" "bit (bs ! (n div 8)) (n mod 8)"
      using * by (auto simp: in_set_enumerate_eq)
  next
    assume "n div 8 < length bs" "bit (bs ! (n div 8)) (n mod 8)"
    then show "\<exists>(i, b) \<in> set (enumerate 0 bs). 8 * i \<le> n \<and> n - 8 * i < 8 \<and> bit b (n - 8 * i)"
      by (intro bexI [of _ "(n div 8, bs ! (n div 8))"])
         (auto simp: in_set_enumerate_eq minus_mult_div_eq_mod)
  qed
  finally show ?thesis .
qed

lemma of_le_le_bytes:
  assumes "LENGTH('a) \<le> 8 * n"
  shows "of_le_bytes (le_bytes n (w :: 'a::len word)) = w"
proof (rule bit_word_eqI)
  fix k assume "k < LENGTH('a)"
  then have "k div 8 < n" using assms by (simp add: less_mult_imp_div_less)
  then show "bit (of_le_bytes (le_bytes n w) :: 'a word) k = bit w k"
    using \<open>k < LENGTH('a)\<close> by (simp add: bit_of_le_bytes le_bytes_def bit_unsigned_iff bit_drop_bit_eq)
qed

lemma le_of_le_bytes:
  assumes "8 * length bs \<le> LENGTH('a)"
  shows "le_bytes (length bs) (of_le_bytes bs :: 'a::len word) = bs"
proof (rule nth_equalityI)
  fix i assume "i < length (le_bytes (length bs) (of_le_bytes bs :: 'a word))"
  then have i: "i < length bs" by simp
  show "le_bytes (length bs) (of_le_bytes bs :: 'a word) ! i = bs ! i"
  proof (rule bit_word_eqI)
    fix k assume k: "k < LENGTH(8)"
    then have "8 * i + k < LENGTH('a)" using assms i by simp
    moreover have "(8 * i + k) div 8 = i" "(8 * i + k) mod 8 = k" using k by simp_all
    ultimately show "bit (le_bytes (length bs) (of_le_bytes bs :: 'a word) ! i) k = bit (bs ! i) k"
      using i k by (simp add: le_bytes_def bit_unsigned_iff bit_drop_bit_eq bit_of_le_bytes)
  qed
qed simp

abbreviation le32 :: "u32 \<Rightarrow> u8 list" where "le32 \<equiv> le_bytes 4"

lemma of_le_bytes_inj:
  assumes "(of_le_bytes xs :: 'a::len word) = of_le_bytes ys" and "length xs = length ys"
    and "8 * length xs \<le> LENGTH('a)"
  shows "xs = ys"
  using assms le_of_le_bytes [of xs, where 'a = 'a] le_of_le_bytes [of ys, where 'a = 'a] by metis

lemma of_le_le32 [simp]: "of_le_bytes (le32 w) = w"
  by (rule of_le_le_bytes) simp

section \<open>CRC-32C\<close>

definition kPolynomial :: u32 where "kPolynomial = 0x82F63B78"

text \<open>One round of the inner loop of \<^verbatim>\<open>make_table\<close>, and the table.\<close>

definition crc_bit :: "u32 \<Rightarrow> u32" where
  "crc_bit crc = (if crc AND 1 \<noteq> 0 then drop_bit 1 crc XOR kPolynomial else drop_bit 1 crc)"

definition make_table :: "u32 list" where
  "make_table = map (\<lambda>i. (crc_bit ^^ 8) (of_nat i)) [0..<256]"

definition crc32c_extend :: "u32 \<Rightarrow> u8 list \<Rightarrow> u32" where
  "crc32c_extend previous bytes =
     NOT (foldl (\<lambda>crc byte. make_table ! unat ((crc XOR ucast byte) AND 0xFF) XOR drop_bit 8 crc)
            (NOT previous) bytes)"

definition crc32c :: "u8 list \<Rightarrow> u32" where
  "crc32c bytes = crc32c_extend 0 bytes"

definition fnv1a64_extend :: "u64 \<Rightarrow> u8 list \<Rightarrow> u64" where
  "fnv1a64_extend previous bytes =
     foldl (\<lambda>hash byte. (hash XOR ucast byte) * 0x100000001B3) previous bytes"

definition fnv1a64 :: "u8 list \<Rightarrow> u64" where
  "fnv1a64 bytes = fnv1a64_extend 0xCBF29CE484222325 bytes"

text \<open>The reference: polynomial division one bit at a time, without a table.\<close>

definition crc32c_serial :: "u8 list \<Rightarrow> u32" where
  "crc32c_serial bytes = NOT (foldl (\<lambda>crc byte. (crc_bit ^^ 8) (crc XOR ucast byte)) (NOT 0) bytes)"

lemma crc_bit_alt: "crc_bit c = drop_bit 1 c XOR (if bit c 0 then kPolynomial else 0)"
  by (simp add: crc_bit_def and_one_eq mod_2_eq_odd bit_0)

lemma crc_bit_xor: "crc_bit (a XOR b) = crc_bit a XOR crc_bit b"
  by (rule bit_word_eqI) (auto simp: crc_bit_alt bit_xor_iff bit_drop_bit_eq)

lemma crc_bits_xor: "(crc_bit ^^ n) (a XOR b) = (crc_bit ^^ n) a XOR (crc_bit ^^ n) b"
  by (induction n) (simp_all add: crc_bit_xor)

lemma crc_bits_shift: "n \<le> m \<Longrightarrow> (crc_bit ^^ n) (push_bit m a) = drop_bit n (push_bit m a)"
proof (induction n)
  case (Suc n)
  then have "\<not> bit (drop_bit n (push_bit m a)) 0" by (simp add: bit_drop_bit_eq bit_push_bit_iff)
  with Suc show ?case by (simp add: crc_bit_alt drop_bit_drop_bit ac_simps)
qed simp

lemma byte_split: "c = (c AND 0xFF) XOR push_bit 8 (drop_bit 8 (c :: u32))"
proof (rule bit_word_eqI)
  fix n assume "n < LENGTH(32)"
  moreover have "c AND 0xFF = take_bit 8 c" by (simp add: take_bit_eq_mask mask_eq_exp_minus_1)
  ultimately show "bit c n = bit ((c AND 0xFF) XOR push_bit 8 (drop_bit 8 c)) n"
    by (auto simp: bit_xor_iff bit_take_bit_iff bit_push_bit_iff bit_drop_bit_eq)
qed

lemma table_entry: "make_table ! unat (c AND 0xFF) = (crc_bit ^^ 8) (c AND 0xFF)"
proof -
  have "unat (c AND 0xFF) < 256"
    using word_and_le1 [of c "0xFF"] by (simp add: word_le_nat_alt)
  then show ?thesis by (simp add: make_table_def)
qed

lemma table_step: "make_table ! unat (c AND 0xFF) XOR drop_bit 8 c = (crc_bit ^^ 8) c"
proof -
  have "(crc_bit ^^ 8) c = (crc_bit ^^ 8) (c AND 0xFF) XOR (crc_bit ^^ 8) (push_bit 8 (drop_bit 8 c))"
    by (metis byte_split crc_bits_xor)
  moreover have "(crc_bit ^^ 8) (push_bit 8 (drop_bit 8 c)) = drop_bit 8 c"
    by (rule bit_word_eqI) (auto simp: crc_bits_shift bit_push_bit_iff bit_drop_bit_eq dest: bit_imp_le_length)
  ultimately show ?thesis by (simp add: table_entry)
qed

lemma crc_byte_step:
  "make_table ! unat ((c XOR ucast b) AND 0xFF) XOR drop_bit 8 c = (crc_bit ^^ 8) (c XOR ucast (b :: u8))"
proof -
  have "drop_bit 8 (c XOR ucast b) = drop_bit 8 c"
    by (rule bit_word_eqI) (auto simp: bit_xor_iff bit_drop_bit_eq bit_unsigned_iff dest: bit_imp_le_length)
  then show ?thesis using table_step [of "c XOR ucast b"] by simp
qed

text \<open>No step of the division loses information, so buffers that differ in one byte have different
  checksums.\<close>

lemma crc_bit_inj: "crc_bit a = crc_bit b \<longleftrightarrow> a = b"
proof
  have top: "bit kPolynomial 31" by (simp add: kPolynomial_def)
  have kernel: "c = 0" if "crc_bit c = 0" for c
  proof -
    have low: "\<not> bit c 0"
    proof
      assume "bit c 0"
      then have "bit (crc_bit c) 31"
        using top bit_imp_le_length [of c 32] by (auto simp: crc_bit_alt bit_xor_iff bit_drop_bit_eq)
      with that show False by simp
    qed
    with that have zero: "drop_bit 1 c = 0" by (simp add: crc_bit_alt)
    show "c = 0"
    proof (rule bit_word_eqI)
      fix n assume "n < LENGTH(32)"
      show "bit c n = bit 0 n"
      proof (cases n)
        case 0
        then show ?thesis using low by simp
      next
        case (Suc m)
        then have "bit c n = bit (drop_bit 1 c) m" by (simp add: bit_drop_bit_eq)
        then show ?thesis using zero by simp
      qed
    qed
  qed
  assume "crc_bit a = crc_bit b"
  then have "crc_bit (a XOR b) = 0" by (simp add: crc_bit_xor)
  then have "a XOR b = 0" by (rule kernel)
  then have "(a XOR b) XOR b = 0 XOR b" by (simp only:)
  then show "a = b" by (simp only: xor.assoc xor_self_eq xor.right_neutral xor.left_neutral)
qed simp

lemma crc_bits_inj: "(crc_bit ^^ n) a = (crc_bit ^^ n) b \<longleftrightarrow> a = b"
  by (induction n) (simp_all add: crc_bit_inj)

lemma crc_serial: "crc32c bytes = crc32c_serial bytes"
  by (simp add: crc32c_def crc32c_serial_def crc32c_extend_def crc_byte_step)

lemma crc_fold_inj:
  "foldl (\<lambda>crc byte. (crc_bit ^^ 8) (crc XOR ucast byte)) c bytes =
   foldl (\<lambda>crc byte. (crc_bit ^^ 8) (crc XOR ucast byte)) d bytes \<longleftrightarrow> c = (d :: u32)"
proof (induction bytes arbitrary: c d)
  case (Cons b bs)
  have "c XOR ucast b = d XOR ucast b \<longleftrightarrow> c = d"
    by (metis xor.assoc xor_self_eq xor.right_neutral)
  then show ?case by (simp add: Cons.IH crc_bits_inj)
qed simp

lemma unsigned_ucast_eq_u8: "unat (ucast (b :: u8) :: u32) = unat b"
  using unsigned_less [of b, where ?'a = nat] by (simp add: unsigned_ucast_eq take_bit_nat_eq_self)

lemma crc32c_detects_byte:
  assumes "i < length bytes" and "b \<noteq> bytes ! i"
  shows "crc32c (bytes[i := b]) \<noteq> crc32c bytes"
proof
  assume eq: "crc32c (bytes[i := b]) = crc32c bytes"
  let ?f = "\<lambda>crc byte. (crc_bit ^^ 8) (crc XOR ucast (byte :: u8)) :: u32"
  let ?c = "foldl ?f (NOT 0) (take i bytes)"
  have split: "bytes = take i bytes @ bytes ! i # drop (Suc i) bytes"
    using assms(1) by (rule id_take_nth_drop)
  have "bytes[i := b] = take i bytes @ b # drop (Suc i) bytes"
    using assms(1) by (rule upd_conv_take_nth_drop)
  then have "foldl ?f (?f ?c b) (drop (Suc i) bytes) = foldl ?f (NOT 0) bytes"
    using eq by (simp add: crc_serial crc32c_serial_def)
  also have "\<dots> = foldl ?f (?f ?c (bytes ! i)) (drop (Suc i) bytes)"
    by (subst split) simp
  finally have "?c XOR ucast b = ?c XOR ucast (bytes ! i)"
    by (simp only: crc_fold_inj crc_bits_inj)
  then have "?c XOR (?c XOR ucast b) = ?c XOR (?c XOR ucast (bytes ! i))" by (simp only:)
  then have "(ucast b :: u32) = ucast (bytes ! i)" by (simp only: xor.assoc [symmetric] xor_self_eq xor.left_neutral)
  then have "unat b = unat (bytes ! i)" by (metis unsigned_ucast_eq_u8)
  then show False using assms(2) by (simp add: word_unat_eq_iff)
qed

text \<open>
  C35. The table-driven CRC-32C of a buffer is the bit-serial division by the Castagnoli polynomial,
  and both checksums are streaming: a buffer may be fed in any two parts.
\<close>

theorem checksums_are_correct_and_streaming:
  "crc32c bytes = crc32c_serial bytes
   \<and> crc32c_extend (crc32c_extend c xs) ys = crc32c_extend c (xs @ ys)
   \<and> fnv1a64_extend (fnv1a64_extend h xs) ys = fnv1a64_extend h (xs @ ys)"
  by (simp add: crc_serial crc32c_extend_def fnv1a64_extend_def)

end
