(* ===== verification/Tos_Operation.thy ===== *)
theory Tos_Operation
  imports Tos_Enums
begin

text \<open>
  Operation classes and requests (\<^verbatim>\<open>src/include/tos/core/operation.hpp\<close>,
  \<^verbatim>\<open>src/src/core/operation.cpp\<close>): the registry of operation classes, the request record the
  scheduler decides about, its structural validation, and the side-effect classification that
  decides whether an operation may be replayed.
\<close>

section \<open>Bounds\<close>

definition kMaxOperationClasses :: nat where "kMaxOperationClasses = 128"
definition kMaxExecutionDomains :: nat where "kMaxExecutionDomains = 100000"
definition kMaxLiveAttempts :: nat where "kMaxLiveAttempts = 200000"
definition kMaxHistoricalAttempts :: nat where "kMaxHistoricalAttempts = 200000"
definition kMaxReportedCandidates :: nat where "kMaxReportedCandidates = 4096"
definition kMaxPayloadBytes :: u64 where "kMaxPayloadBytes = push_bit 40 1"
definition kMaxRetryAttempts :: u32 where "kMaxRetryAttempts = 8"
definition kExecutionDomainTypeCount :: nat where "kExecutionDomainTypeCount = 6"

section \<open>Capability flags\<close>

definition has_flag :: "u32 \<Rightarrow> CapabilityFlag \<Rightarrow> bool" where
  "has_flag bits f = (bits AND flag_bit f \<noteq> 0)"

definition all_capability_flags :: "CapabilityFlag list" where
  "all_capability_flags =
     [CapabilityFlag.kChecksum, CapabilityFlag.kCompression, CapabilityFlag.kDecompression,
      CapabilityFlag.kEncryption, CapabilityFlag.kDecryption, CapabilityFlag.kDma,
      CapabilityFlag.kScatterGather, CapabilityFlag.kRdma, CapabilityFlag.kGpudirectAddressable,
      CapabilityFlag.kPacketProcessing, CapabilityFlag.kHeaderProcessing,
      CapabilityFlag.kProtocolTransform, CapabilityFlag.kIntegrityVerify,
      CapabilityFlag.kSegmentation, CapabilityFlag.kReassembly, CapabilityFlag.kStagingCopy,
      CapabilityFlag.kSideEffectSink]"

definition describe_flags :: "u32 \<Rightarrow> string list" where
  "describe_flags bits = map to_string_CapabilityFlag (filter (has_flag bits) all_capability_flags)"

section \<open>Requests\<close>

record OperationClassDescriptor =
  ocd_id :: u64
  ocd_name :: string
  ocd_category :: string
  ocd_side_effect_class :: SideEffectClass
  ocd_transport_class :: TransportClass
  ocd_payload_class :: PayloadClass
  ocd_required_flag :: CapabilityFlag

record PayloadDescriptor =
  pd_size_bytes :: u64
  pd_source_memory :: MemoryDomain
  pd_destination_memory :: MemoryDomain
  pd_source_handle :: u64
  pd_destination_handle :: u64
  pd_alignment_bytes :: u32
  pd_segment_count :: u32
  pd_payload_class :: PayloadClass
  pd_transport_class :: TransportClass
  pd_scatter_gather :: bool

record LocalityConstraints =
  lc_minimum_class :: LocalityClass
  lc_required_numa_node :: u32
  lc_require_same_host :: bool
  lc_require_local_nic :: bool

record CompatibilityRequirements =
  cr_minimum_driver_backend_version :: u32
  cr_minimum_firmware_generation :: u32
  cr_required_protocol_version :: u32
  cr_required_accelerator_arch :: u32
  cr_required_backend_family :: string

record ExecutionEconomics =
  ee_setup_cost_units :: u64
  ee_per_byte_cost_micro_units :: u64
  ee_maximum_total_cost_units :: u64
  ee_estimated_transfer_bytes :: u64

record RetryPermission =
  rt_allowed :: bool
  rt_max_attempts :: u32

record OperationRequest =
  or_operation_class :: u64
  or_payload :: PayloadDescriptor
  or_allowed_domains :: "ExecutionDomainType list"
  or_forbidden_domains :: "ExecutionDomainType list"
  or_allowed_domain_ids :: "u64 list"
  or_required_capability_flags :: u32
  or_required_isolation :: IsolationClass
  or_require_dma :: bool
  or_require_scatter_gather :: bool
  or_locality :: LocalityConstraints
  or_compatibility :: CompatibilityRequirements
  or_economics :: "ExecutionEconomics option"
  or_latency_slo_ns :: "u64 option"
  or_retry :: RetryPermission
  or_fallback_allowed :: bool
  or_side_effect_override :: SideEffectClass
  or_completion_may_produce_side_effects :: bool
  or_operation_id :: u64
  or_correlation_label :: string
  or_provenance_hint :: Provenance

definition default_payload :: PayloadDescriptor where
  "default_payload =
     \<lparr>pd_size_bytes = 0, pd_source_memory = MemoryDomain.kHost,
      pd_destination_memory = MemoryDomain.kHost, pd_source_handle = 0, pd_destination_handle = 0,
      pd_alignment_bytes = 1, pd_segment_count = 1, pd_payload_class = PayloadClass.kOpaqueBytes,
      pd_transport_class = TransportClass.kRawFrames, pd_scatter_gather = False\<rparr>"

definition default_request :: OperationRequest where
  "default_request =
     \<lparr>or_operation_class = 0, or_payload = default_payload, or_allowed_domains = [],
      or_forbidden_domains = [], or_allowed_domain_ids = [], or_required_capability_flags = 0,
      or_required_isolation = IsolationClass.kUnknown, or_require_dma = False,
      or_require_scatter_gather = False,
      or_locality = \<lparr>lc_minimum_class = LocalityClass.kUnknown, lc_required_numa_node = 0,
                     lc_require_same_host = False, lc_require_local_nic = False\<rparr>,
      or_compatibility = \<lparr>cr_minimum_driver_backend_version = 0,
                          cr_minimum_firmware_generation = 0, cr_required_protocol_version = 0,
                          cr_required_accelerator_arch = 0, cr_required_backend_family = []\<rparr>,
      or_economics = None, or_latency_slo_ns = None,
      or_retry = \<lparr>rt_allowed = False, rt_max_attempts = 1\<rparr>, or_fallback_allowed = True,
      or_side_effect_override = SideEffectClass.kUnknown,
      or_completion_may_produce_side_effects = False, or_operation_id = 0,
      or_correlation_label = [], or_provenance_hint = Provenance.kReal\<rparr>"

section \<open>The registry\<close>

text \<open>\<^verbatim>\<open>OperationClassRegistry\<close> is its vector of descriptors.\<close>

type_synonym OperationClassRegistry = "OperationClassDescriptor list"

definition canonical_token_char :: "char \<Rightarrow> bool" where
  "canonical_token_char c =
     (let uc = (of_char c :: nat)
      in (65 \<le> uc \<and> uc \<le> 90) \<or> (48 \<le> uc \<and> uc \<le> 57) \<or> c = CHR ''_'')"

definition is_canonical_token :: "string \<Rightarrow> bool" where
  "is_canonical_token name =
     (if name = [] \<or> length name > kMaxNameLength then False
      else if \<not> list_all canonical_token_char name then False
      else hd name \<noteq> CHR ''_'' \<and> last name \<noteq> CHR ''_'')"

definition is_power_of_two :: "u32 \<Rightarrow> bool" where
  "is_power_of_two value = (value \<noteq> 0 \<and> value AND (value - 1) = 0)"

definition descriptor ::
    "u64 \<Rightarrow> string \<Rightarrow> string \<Rightarrow> SideEffectClass \<Rightarrow> CapabilityFlag \<Rightarrow> TransportClass \<Rightarrow> PayloadClass \<Rightarrow>
       OperationClassDescriptor" where
  "descriptor i name category side_effect flag transport payload =
     \<lparr>ocd_id = i, ocd_name = name, ocd_category = category, ocd_side_effect_class = side_effect,
      ocd_transport_class = transport, ocd_payload_class = payload, ocd_required_flag = flag\<rparr>"

definition builtin_descriptors :: OperationClassRegistry where
  "builtin_descriptors =
     [descriptor 1 ''CHECKSUM_CRC32C'' ''integrity'' SideEffectClass.kPure CapabilityFlag.kChecksum
        TransportClass.kRawFrames PayloadClass.kOpaqueBytes,
      descriptor 2 ''COMPRESS_RLE'' ''transform'' SideEffectClass.kPure CapabilityFlag.kCompression
        TransportClass.kStreamBytes PayloadClass.kOpaqueBytes,
      descriptor 3 ''DECOMPRESS_RLE'' ''transform'' SideEffectClass.kPure
        CapabilityFlag.kDecompression TransportClass.kStreamBytes PayloadClass.kOpaqueBytes,
      descriptor 4 ''COPY_STAGE'' ''staging'' SideEffectClass.kIdempotent CapabilityFlag.kStagingCopy
        TransportClass.kRawFrames PayloadClass.kOpaqueBytes,
      descriptor 5 ''SEGMENT_SPLIT'' ''framing'' SideEffectClass.kPure CapabilityFlag.kSegmentation
        TransportClass.kStreamBytes PayloadClass.kOpaqueBytes,
      descriptor 6 ''REASSEMBLE_JOIN'' ''framing'' SideEffectClass.kPure CapabilityFlag.kReassembly
        TransportClass.kStreamBytes PayloadClass.kSegmentedFrames,
      descriptor 7 ''VALIDATE_INTEGRITY'' ''integrity'' SideEffectClass.kPure
        CapabilityFlag.kIntegrityVerify TransportClass.kRawFrames PayloadClass.kOpaqueBytes,
      descriptor 8 ''SIDE_EFFECT_EMIT'' ''telemetry'' SideEffectClass.kNonRepeatable
        CapabilityFlag.kSideEffectSink TransportClass.kControlPlane PayloadClass.kOpaqueBytes,
      descriptor 9 ''NOOP_PROBE'' ''probe'' SideEffectClass.kPure CapabilityFlag.kNone
        TransportClass.kControlPlane PayloadClass.kOpaqueBytes]"

definition find_class :: "OperationClassRegistry \<Rightarrow> u64 \<Rightarrow> OperationClassDescriptor option" where
  "find_class classes i = find (\<lambda>d. ocd_id d = i) classes"

definition find_class_name :: "OperationClassRegistry \<Rightarrow> string \<Rightarrow> OperationClassDescriptor option" where
  "find_class_name classes name = find (\<lambda>d. ocd_name d = name) classes"

definition next_class_id :: "OperationClassRegistry \<Rightarrow> u64" where
  "next_class_id classes = foldl (\<lambda>next existing. max next (ocd_id existing + 1)) 1 classes"

definition register_class ::
    "OperationClassRegistry \<Rightarrow> OperationClassDescriptor \<Rightarrow> u64 Checked \<times> OperationClassRegistry" where
  "register_class classes d =
     (if length classes \<ge> kMaxOperationClasses then (bad ''operation.class_limit'' [], classes)
      else if \<not> is_canonical_token (ocd_name d)
      then (bad ''operation.invalid_name'' (ocd_name d), classes)
      else if find_class_name classes (ocd_name d) \<noteq> None
      then (bad ''operation.duplicate_name'' (ocd_name d), classes)
      else if valid (ocd_id d) \<and> find_class classes (ocd_id d) \<noteq> None
      then (bad ''operation.duplicate_id'' [], classes)
      else
        let i = (if valid (ocd_id d) then ocd_id d else next_class_id classes);
            d' = d\<lparr>ocd_id := i,
                   ocd_category := (if length (ocd_category d) > kMaxNameLength
                                    then take kMaxNameLength (ocd_category d)
                                    else ocd_category d)\<rparr>
        in (Good i, classes @ [d']))"

section \<open>Side effects\<close>

fun severity :: "SideEffectClass \<Rightarrow> nat" where
  "severity SideEffectClass.kPure = 0"
| "severity SideEffectClass.kIdempotent = 1"
| "severity SideEffectClass.kAtMostOnceRequired = 2"
| "severity SideEffectClass.kUnknown = 2"
| "severity SideEffectClass.kNonRepeatable = 3"

definition more_conservative :: "SideEffectClass \<Rightarrow> SideEffectClass \<Rightarrow> SideEffectClass" where
  "more_conservative a b = (if severity a \<ge> severity b then a else b)"

definition effective_side_effect :: "SideEffectClass \<Rightarrow> SideEffectClass \<Rightarrow> SideEffectClass" where
  "effective_side_effect registered override_value =
     (if override_value = SideEffectClass.kUnknown then registered
      else more_conservative registered override_value)"

definition is_replay_safe :: "SideEffectClass \<Rightarrow> bool" where
  "is_replay_safe value = (value = SideEffectClass.kPure \<or> value = SideEffectClass.kIdempotent)"

section \<open>Validation\<close>

definition validate_request :: "OperationRequest \<Rightarrow> OperationClassRegistry \<Rightarrow> Status" where
  "validate_request request registry =
     (let payload = or_payload request in
      if find_class registry (or_operation_class request) = None
      then failure ''request.unknown_operation_class'' []
      else if pd_size_bytes payload > kMaxPayloadBytes then failure ''request.payload_too_large'' []
      else if pd_alignment_bytes payload = 0 \<or> \<not> is_power_of_two (pd_alignment_bytes payload)
      then failure ''request.invalid_alignment'' []
      else if pd_segment_count payload = 0 \<or> pd_segment_count payload > push_bit 20 1
      then failure ''request.invalid_segment_count'' []
      else if pd_scatter_gather payload \<and> pd_segment_count payload < 2
      then failure ''request.scatter_gather_needs_segments'' []
      else if list_ex (\<lambda>t. t \<in> set (or_allowed_domains request)) (or_forbidden_domains request)
      then failure ''request.contradictory_domain_filter'' []
      else if rt_max_attempts (or_retry request) = 0
              \<or> rt_max_attempts (or_retry request) > kMaxRetryAttempts
      then failure ''request.invalid_retry_bound'' []
      else if or_correlation_label request \<noteq> []
              \<and> \<not> is_printable_ascii (or_correlation_label request) kMaxLabelLength
      then failure ''request.invalid_label'' []
      else if length (or_allowed_domains request) > kExecutionDomainTypeCount
              \<or> length (or_forbidden_domains request) > kExecutionDomainTypeCount
      then failure ''request.domain_filter_too_large'' []
      else if length (or_allowed_domain_ids request) > kMaxExecutionDomains
      then failure ''request.domain_id_filter_too_large'' []
      else if (case or_economics request of None \<Rightarrow> False
               | Some e \<Rightarrow> ee_maximum_total_cost_units e > 0
                           \<and> ee_setup_cost_units e > ee_maximum_total_cost_units e)
      then failure ''request.cost_ceiling_below_setup'' []
      else success)"

section \<open>Lemmas\<close>

lemma effective_side_effect_ge: "severity registered \<le> severity (effective_side_effect registered o')"
  by (simp add: effective_side_effect_def more_conservative_def)

lemma is_replay_safe_severity: "is_replay_safe s \<longleftrightarrow> severity s \<le> 1"
  by (cases s) (simp_all add: is_replay_safe_def)

lemma find_class_Some: "find_class classes i = Some d \<Longrightarrow> d \<in> set classes \<and> ocd_id d = i"
  by (auto simp: find_class_def find_Some_iff)

lemma next_class_id_gt:
  assumes "\<forall>d \<in> set classes. ocd_id d \<noteq> kSaturated"
  shows "0 < next_class_id classes \<and> (\<forall>d \<in> set classes. ocd_id d < next_class_id classes)"
proof -
  have step: "x < x + 1" if "x \<noteq> kSaturated" for x :: u64
    using gen_next_gt [OF that] that by (simp add: gen_next_def)
  have "n \<le> foldl (\<lambda>next existing. max next (ocd_id existing + 1)) n classes
        \<and> (\<forall>d \<in> set classes. ocd_id d < foldl (\<lambda>next existing. max next (ocd_id existing + 1)) n classes)"
    for n using assms
  proof (induction classes arbitrary: n)
    case (Cons d classes)
    let ?n = "max n (ocd_id d + 1)"
    from Cons have "?n \<le> foldl (\<lambda>next existing. max next (ocd_id existing + 1)) ?n classes" by simp
    moreover have "ocd_id d < ?n" using step [of "ocd_id d"] Cons.prems by (simp add: less_max_iff_disj)
    ultimately show ?case using Cons by (fastforce simp: max_def split: if_splits)
  qed simp
  from this [of 1] show ?thesis unfolding next_class_id_def by (auto simp: word_gt_0)
qed

definition registry_ok :: "OperationClassRegistry \<Rightarrow> bool" where
  "registry_ok classes \<longleftrightarrow>
     distinct (map ocd_id classes) \<and> distinct (map ocd_name classes)
     \<and> (\<forall>d \<in> set classes. valid (ocd_id d) \<and> is_canonical_token (ocd_name d))
     \<and> length classes \<le> kMaxOperationClasses"

lemma find_class_name_None: "find_class_name classes n = None \<longleftrightarrow> n \<notin> ocd_name ` set classes"
  by (auto simp: find_class_name_def find_None_iff)

lemma find_class_None: "find_class classes i = None \<longleftrightarrow> i \<notin> ocd_id ` set classes"
  by (auto simp: find_class_def find_None_iff)

lemma find_class_append:
  "find_class (xs @ ys) i = (case find_class xs i of None \<Rightarrow> find_class ys i | Some d \<Rightarrow> Some d)"
  by (induction xs) (simp_all add: find_class_def)

text \<open>
  Registering an operation class keeps the registry well formed (distinct valid identities,
  distinct canonical names, at most the bound of classes), also when the identity is chosen by the
  registry, unless the last 64-bit identity is taken; an accepted class is found under the returned
  identity and a refused one changes nothing.\<close>

theorem register_class_keeps_registry_ok:
  assumes "registry_ok classes" and "\<forall>d \<in> set classes. ocd_id d \<noteq> kSaturated"
    and "register_class classes d = (res, classes')"
  shows "registry_ok classes'
         \<and> (case res of
              Good i \<Rightarrow> \<exists>d'. find_class classes' i = Some d' \<and> ocd_name d' = ocd_name d
                          \<and> length classes' = Suc (length classes)
            | Bad st \<Rightarrow> classes' = classes)"
proof (cases res)
  case (Bad st)
  then have "classes' = classes" using assms(3) by (auto simp: register_class_def Let_def split: if_splits)
  then show ?thesis using assms(1) Bad by simp
next
  case (Good i)
  define d' where "d' = d\<lparr>ocd_id := i, ocd_category := (if length (ocd_category d) > kMaxNameLength
      then take kMaxNameLength (ocd_category d) else ocd_category d)\<rparr>"
  have reg: "length classes < kMaxOperationClasses" "is_canonical_token (ocd_name d)"
      "find_class_name classes (ocd_name d) = None"
      "valid (ocd_id d) \<longrightarrow> find_class classes (ocd_id d) = None"
      "i = (if valid (ocd_id d) then ocd_id d else next_class_id classes)"
      "classes' = classes @ [d']"
    using assms(3) Good by (auto simp: register_class_def Let_def d'_def split: if_splits)
  have fresh: "valid i \<and> i \<notin> ocd_id ` set classes"
    using reg(4,5) next_class_id_gt [OF assms(2)] find_class_None
    by (auto simp: valid_def split: if_splits)
  then have "find_class classes' i = Some d'"
    using find_class_None [of classes i] by (simp add: reg(6) find_class_append) (simp add: find_class_def d'_def)
  moreover have "registry_ok classes'"
    using assms(1) reg(1-3) fresh find_class_name_None
    by (auto simp: registry_ok_def reg(6) d'_def)
  ultimately show ?thesis using Good reg(6) by (auto simp: d'_def)
qed

theorem register_class_keeps_registry_ok_witness:
  "\<exists>classes'. register_class builtin_descriptors (descriptor 0 ''HASH_SHA'' ''integrity''
       SideEffectClass.kPure CapabilityFlag.kNone TransportClass.kRawFrames PayloadClass.kOpaqueBytes)
     = (Good 10, classes') \<and> registry_ok classes' \<and> length classes' = 10"
proof -
  let ?d = "descriptor 0 ''HASH_SHA'' ''integrity'' SideEffectClass.kPure CapabilityFlag.kNone
      TransportClass.kRawFrames PayloadClass.kOpaqueBytes"
  have ok: "registry_ok builtin_descriptors" by code_simp
  have sat: "\<forall>d \<in> set builtin_descriptors. ocd_id d \<noteq> kSaturated" by code_simp
  have "fst (register_class builtin_descriptors ?d) = Good 10" by code_simp
  then obtain c' where r: "register_class builtin_descriptors ?d = (Good 10, c')" by (metis prod.collapse)
  have "length builtin_descriptors = 9" by (simp add: builtin_descriptors_def)
  with register_class_keeps_registry_ok [OF ok sat r] r show ?thesis by auto
qed

end
