(* ===== verification/Tos_Ranking.thy ===== *)
theory Tos_Ranking
  imports Tos_Enums "HOL-Library.Multiset"
begin

text \<open>
  Ranking (\<^verbatim>\<open>src/include/tos/core/ranking.hpp\<close>, \<^verbatim>\<open>src/src/core/ranking.cpp\<close>): factor vectors, the
  integer-exact weighted score, and the order on ranked candidates. A \<^verbatim>\<open>std::int32_t\<close> factor or
  weight and the \<^verbatim>\<open>std::int64_t\<close> sums over the 22 factors are integers: with weights up to 100000
  and factors clamped to a million a sum stays below \<open>2^62\<close> (\<open>weighted_sum_bounds\<close>).
\<close>

type_synonym FactorVector = "RankingFactor \<Rightarrow> int"

definition kFactorScale :: int where "kFactorScale = 1000000"

primrec default_ranking_weights :: "RankingFactor \<Rightarrow> int" where
  "default_ranking_weights RankingFactor.kDataLocality = 150"
| "default_ranking_weights RankingFactor.kMemoryLocality = 100"
| "default_ranking_weights RankingFactor.kNicLocality = 60"
| "default_ranking_weights RankingFactor.kAcceleratorLocality = 60"
| "default_ranking_weights RankingFactor.kPcieAffinity = 40"
| "default_ranking_weights RankingFactor.kAvoidedHostCopies = 100"
| "default_ranking_weights RankingFactor.kTransferCost = 90"
| "default_ranking_weights RankingFactor.kSetupCost = 120"
| "default_ranking_weights RankingFactor.kQueueDelay = 50"
| "default_ranking_weights RankingFactor.kExecutionThroughput = 70"
| "default_ranking_weights RankingFactor.kCompletionLatency = 40"
| "default_ranking_weights RankingFactor.kOffloadOverhead = 60"
| "default_ranking_weights RankingFactor.kCpuPreservation = 90"
| "default_ranking_weights RankingFactor.kAcceleratorPreservation = 30"
| "default_ranking_weights RankingFactor.kPowerEfficiency = 20"
| "default_ranking_weights RankingFactor.kUtilizationHeadroom = 50"
| "default_ranking_weights RankingFactor.kCongestionAvoidance = 40"
| "default_ranking_weights RankingFactor.kFailureDomainDiversity = 30"
| "default_ranking_weights RankingFactor.kIsolationQuality = 60"
| "default_ranking_weights RankingFactor.kReconfigurationPenalty = 40"
| "default_ranking_weights RankingFactor.kFallbackCost = 30"
| "default_ranking_weights RankingFactor.kPolicyPreference = 200"

record RankedCandidate =
  rc_domain_id :: u64
  rc_domain_type :: ExecutionDomainType
  rc_weighted_score :: int
  rc_total_weight :: int
  rc_factors :: FactorVector
  rc_rank :: u32

definition clamp :: "int \<Rightarrow> int \<Rightarrow> int \<Rightarrow> int" where
  "clamp v lo hi = (if v < lo then lo else if hi < v then hi else v)"

text \<open>The loop of \<^verbatim>\<open>weighted_score\<close>: numerator and denominator.\<close>

fun score_loop :: "FactorVector \<Rightarrow> (RankingFactor \<Rightarrow> int) \<Rightarrow> RankingFactor list \<Rightarrow> int \<times> int \<Rightarrow> int \<times> int" where
  "score_loop factors weights [] acc = acc"
| "score_loop factors weights (i # rest) (numerator, denominator) =
     (if weights i \<le> 0 then score_loop factors weights rest (numerator, denominator)
      else score_loop factors weights rest
             (numerator + weights i * clamp (factors i) 0 kFactorScale, denominator + weights i))"

text \<open>The score and the total weight; both sums are non-negative, so \<^verbatim>\<open>/\<close> is \<open>div\<close>.\<close>

definition weighted_score :: "FactorVector \<Rightarrow> (RankingFactor \<Rightarrow> int) \<Rightarrow> int \<times> int" where
  "weighted_score factors weights =
     (case score_loop factors weights all_RankingFactor (0, 0) of
        (numerator, denominator) \<Rightarrow>
          (if denominator = 0 then 0 else numerator div denominator, denominator))"

fun factors_decide :: "FactorVector \<Rightarrow> FactorVector \<Rightarrow> RankingFactor list \<Rightarrow> bool option" where
  "factors_decide a b [] = None"
| "factors_decide a b (i # rest) = (if a i \<noteq> b i then Some (a i > b i) else factors_decide a b rest)"

definition candidate_better :: "RankedCandidate \<Rightarrow> RankedCandidate \<Rightarrow> bool" where
  "candidate_better a b =
     (if rc_weighted_score a \<noteq> rc_weighted_score b then rc_weighted_score a > rc_weighted_score b
      else case factors_decide (rc_factors a) (rc_factors b) all_RankingFactor of
             Some d \<Rightarrow> d
           | None \<Rightarrow>
               if rc_domain_type a \<noteq> rc_domain_type b
               then ord_ExecutionDomainType (rc_domain_type a) < ord_ExecutionDomainType (rc_domain_type b)
               else rc_domain_id a < rc_domain_id b)"

section \<open>The score\<close>

lemma clamp_bounds: "lo \<le> hi \<Longrightarrow> lo \<le> clamp v lo hi \<and> clamp v lo hi \<le> hi"
  by (simp add: clamp_def)

lemma score_loop_sum:
  "score_loop f w is (n, d) =
     (n + (\<Sum>i \<leftarrow> is. if w i \<le> 0 then 0 else w i * clamp (f i) 0 kFactorScale),
      d + (\<Sum>i \<leftarrow> is. if w i \<le> 0 then 0 else w i))"
  by (induction "is" arbitrary: n d) auto

text \<open>The sums of \<^verbatim>\<open>weighted_score\<close> fit 64 bits whenever the weights passed validation.\<close>

lemma sum_list_le: "(\<And>x. x \<in> set xs \<Longrightarrow> f x \<le> g x) \<Longrightarrow> (\<Sum>x \<leftarrow> xs. f x) \<le> (\<Sum>x \<leftarrow> xs. g x :: int)"
  by (rule sum_list_mono)

lemma weighted_sum_bounds:
  "0 \<le> fst (score_loop f w is (0, 0))"
  "0 \<le> snd (score_loop f w is (0, 0))"
  "fst (score_loop f w is (0, 0)) \<le> kFactorScale * snd (score_loop f w is (0, 0))"
proof -
  let ?num = "\<lambda>i. if w i \<le> 0 then 0 else w i * clamp (f i) 0 kFactorScale"
  let ?den = "\<lambda>i. if w i \<le> 0 then 0 else w i"
  have c: "0 \<le> clamp (f i) 0 kFactorScale" "clamp (f i) 0 kFactorScale \<le> kFactorScale" for i
    using clamp_bounds [of 0 kFactorScale "f i"] by (simp_all add: kFactorScale_def)
  show "0 \<le> fst (score_loop f w is (0, 0))" "0 \<le> snd (score_loop f w is (0, 0))"
    using c by (auto simp: score_loop_sum intro!: sum_list_nonneg)
  have "?num i \<le> kFactorScale * ?den i" for i
    using c(2) [of i] by (simp add: mult.commute mult_right_mono)
  then have "(\<Sum>i \<leftarrow> is. ?num i) \<le> (\<Sum>i \<leftarrow> is. kFactorScale * ?den i)" by (intro sum_list_le) auto
  then show "fst (score_loop f w is (0, 0)) \<le> kFactorScale * snd (score_loop f w is (0, 0))"
    by (simp add: score_loop_sum sum_list_const_mult)
qed

lemma weighted_score_bounds: "0 \<le> fst (weighted_score f w) \<and> fst (weighted_score f w) \<le> kFactorScale"
proof -
  let ?p = "score_loop f w all_RankingFactor (0, 0)"
  note b = weighted_sum_bounds [of f w all_RankingFactor]
  have "fst ?p div snd ?p \<le> kFactorScale" if "snd ?p \<noteq> 0"
  proof -
    have "fst ?p div snd ?p \<le> (kFactorScale * snd ?p) div snd ?p"
      using b that by (intro zdiv_mono1) auto
    with that show ?thesis by simp
  qed
  moreover have "0 \<le> fst ?p div snd ?p" using b by (simp add: div_int_pos_iff)
  ultimately show ?thesis
    by (auto simp: weighted_score_def kFactorScale_def split: prod.split)
qed

section \<open>The order\<close>

lemma factors_decide_irrefl [simp]: "factors_decide a a is = None"
  by (induction "is") auto

lemma factors_decide_None: "factors_decide a b is = None \<longleftrightarrow> (\<forall>i \<in> set is. a i = b i)"
  by (induction "is") auto

lemma factors_decide_flip:
  "factors_decide b a is = map_option Not (factors_decide a b is)"
  by (induction "is") auto

lemma factors_decide_trans:
  assumes "factors_decide a b is \<noteq> Some False" and "factors_decide b c is \<noteq> Some False"
  shows "factors_decide a c is =
           (if factors_decide a b is = None \<and> factors_decide b c is = None then None else Some True)"
  using assms by (induction "is") (auto split: if_splits)

lemma ord_ExecutionDomainType_inj: "ord_ExecutionDomainType a = ord_ExecutionDomainType b \<longleftrightarrow> a = b"
  by (cases a; cases b) simp_all

lemma candidate_better_irrefl: "\<not> candidate_better a a"
  by (simp add: candidate_better_def)

lemma candidate_better_asym: "candidate_better a b \<Longrightarrow> \<not> candidate_better b a"
  using factors_decide_flip [of "rc_factors a" "rc_factors b" all_RankingFactor]
  by (auto simp: candidate_better_def split: if_splits option.splits)

lemma candidate_better_trans:
  assumes "candidate_better a b" and "candidate_better b c"
  shows "candidate_better a c"
proof (cases "rc_weighted_score a = rc_weighted_score b \<and> rc_weighted_score b = rc_weighted_score c")
  case True
  let ?ab = "factors_decide (rc_factors a) (rc_factors b) all_RankingFactor"
  let ?bc = "factors_decide (rc_factors b) (rc_factors c) all_RankingFactor"
  have "?ab \<noteq> Some False" "?bc \<noteq> Some False"
    using assms True by (auto simp: candidate_better_def)
  note t = factors_decide_trans [OF this]
  show ?thesis
  proof (cases "?ab = None \<and> ?bc = None")
    case tie: True
    then show ?thesis
      using assms True t by (auto simp: candidate_better_def ord_ExecutionDomainType_inj split: if_splits)
  next
    case False
    then have "factors_decide (rc_factors a) (rc_factors c) all_RankingFactor = Some True"
      using t by argo
    then show ?thesis using True by (simp add: candidate_better_def)
  qed
next
  case False
  then show ?thesis
    using assms by (auto simp: candidate_better_def split: if_splits option.splits)
qed

lemma candidate_better_total:
  assumes "rc_domain_id a \<noteq> rc_domain_id b"
  shows "candidate_better a b \<or> candidate_better b a"
proof -
  have "ord_ExecutionDomainType (rc_domain_type a) < ord_ExecutionDomainType (rc_domain_type b)
        \<or> ord_ExecutionDomainType (rc_domain_type b) < ord_ExecutionDomainType (rc_domain_type a)"
    if "rc_domain_type a \<noteq> rc_domain_type b"
    using that ord_ExecutionDomainType_inj by (metis linorder_neqE_nat)
  then show ?thesis
    using assms factors_decide_flip [of "rc_factors a" "rc_factors b" all_RankingFactor]
    by (auto simp: candidate_better_def split: option.split)
qed

section \<open>Sorting candidates\<close>

text \<open>
  \<^verbatim>\<open>std::sort\<close> with \<^verbatim>\<open>candidate_better\<close>: the candidates have distinct domain identities, on which the
  comparison is a strict total order, so there is exactly one sorted sequence; insertion gives it.
\<close>

fun rank_insert :: "RankedCandidate \<Rightarrow> RankedCandidate list \<Rightarrow> RankedCandidate list" where
  "rank_insert c [] = [c]"
| "rank_insert c (d # ds) = (if candidate_better c d then c # d # ds else d # rank_insert c ds)"

definition rank_sort :: "RankedCandidate list \<Rightarrow> RankedCandidate list" where
  "rank_sort cs = foldr rank_insert cs []"

lemma set_rank_insert [simp]: "set (rank_insert c cs) = insert c (set cs)"
  by (induction cs) auto

lemma set_rank_sort [simp]: "set (rank_sort cs) = set cs"
  by (induction cs) (simp_all add: rank_sort_def)

lemma mset_rank_insert: "mset (rank_insert c cs) = add_mset c (mset cs)"
  by (induction cs) simp_all

lemma length_rank_insert [simp]: "length (rank_insert c cs) = Suc (length cs)"
  by (induction cs) simp_all

lemma length_rank_sort [simp]: "length (rank_sort cs) = length cs"
  by (induction cs) (simp_all add: rank_sort_def)

lemma sorted_rank_insert:
  assumes "sorted_wrt candidate_better cs" and "\<forall>d \<in> set cs. rc_domain_id d \<noteq> rc_domain_id c"
  shows "sorted_wrt candidate_better (rank_insert c cs)"
  using assms
proof (induction cs)
  case (Cons d ds)
  show ?case
  proof (cases "candidate_better c d")
    case True
    then show ?thesis using Cons.prems candidate_better_trans by fastforce
  next
    case False
    then have "candidate_better d c" using candidate_better_total [of d c] Cons.prems by auto
    then show ?thesis using False Cons by auto
  qed
qed simp

lemma sorted_rank_sort:
  "distinct (map rc_domain_id cs) \<Longrightarrow> sorted_wrt candidate_better (rank_sort cs)"
proof (induction cs)
  case (Cons c cs)
  then have "sorted_wrt candidate_better (rank_insert c (rank_sort cs))"
    by (intro sorted_rank_insert) (auto simp: image_iff)
  then show ?case by (simp add: rank_sort_def)
qed (simp add: rank_sort_def)

text \<open>
  Ranking candidates with distinct identities is deterministic: the result is a permutation in
  which every candidate is strictly better than all later ones, so the first one is better than
  every other, whatever the order in which they were evaluated.\<close>

theorem ranking_is_total_and_deterministic:
  assumes "distinct (map rc_domain_id cs)"
  shows "mset (rank_sort cs) = mset cs \<and> sorted_wrt candidate_better (rank_sort cs)
         \<and> (\<forall>ds. mset ds = mset cs \<and> sorted_wrt candidate_better ds \<longrightarrow> ds = rank_sort cs)"
proof -
  have m: "mset (rank_sort cs) = mset cs"
    by (induction cs) (simp_all add: rank_sort_def mset_rank_insert)
  have uniq: "xs = ys" if "mset xs = mset ys" "sorted_wrt candidate_better xs"
      "sorted_wrt candidate_better ys" for xs ys
    using that
  proof (induction xs arbitrary: ys)
    case (Cons x xs)
    then obtain y zs where ys: "ys = y # zs" by (cases ys) auto
    have "x = y"
    proof (rule ccontr)
      assume ne: "x \<noteq> y"
      have "y \<in> set xs" "x \<in> set zs"
        using mset_eq_setD [OF Cons.prems(1)] ne by (auto simp: ys)
      then show False using Cons.prems(2,3) candidate_better_asym by (auto simp: ys)
    qed
    with Cons ys show ?case by auto
  qed simp
  show ?thesis using m sorted_rank_sort [OF assms] uniq by metis
qed

theorem ranking_is_total_and_deterministic_witness:
  "let a = \<lparr>rc_domain_id = 1, rc_domain_type = ExecutionDomainType.kCpu, rc_weighted_score = 5,
           rc_total_weight = 1, rc_factors = (\<lambda>_. 0), rc_rank = 0\<rparr>;
       b = a\<lparr>rc_domain_id := 2, rc_weighted_score := 9\<rparr>
   in rank_sort [a, b] = [b, a] \<and> mset (rank_sort [a, b]) = mset [a, b]
      \<and> sorted_wrt candidate_better (rank_sort [a, b])"
proof -
  let ?a = "\<lparr>rc_domain_id = 1, rc_domain_type = ExecutionDomainType.kCpu, rc_weighted_score = 5,
           rc_total_weight = 1, rc_factors = (\<lambda>_. 0), rc_rank = 0\<rparr> :: RankedCandidate"
  let ?b = "?a\<lparr>rc_domain_id := 2, rc_weighted_score := 9\<rparr>"
  have "rank_sort [?a, ?b] = [?b, ?a]" by (simp add: rank_sort_def candidate_better_def)
  with ranking_is_total_and_deterministic [of "[?a, ?b]"] show ?thesis by (simp add: Let_def)
qed

end
