(* ===== verification/Tos_Policy.thy ===== *)
theory Tos_Policy
  imports Tos_Operation Tos_Ranking
begin

text \<open>
  Scheduling policy (\<^verbatim>\<open>src/include/tos/core/policy.hpp\<close>, \<^verbatim>\<open>src/src/core/policy.cpp\<close>): the policy
  record, its defaults, its validation, and the depth-first search that rejects a fallback graph
  with a cycle. An array indexed by a domain type, failure kind, resource kind or ranking factor is
  a function on that enumeration.

  The recursion of \<^verbatim>\<open>reaches\<close> carries a depth budget; \<open>reaches_enough\<close> shows that one more than the
  number of unvisited nodes is always enough, so the budget of \<open>fallback_graph_has_cycle\<close> (one more
  than the number of domain types) never runs out.
\<close>

section \<open>Data\<close>

definition kMaxFallbackDepth :: u32 where "kMaxFallbackDepth = 8"

record FreshnessRequirements =
  fr_capability :: bool
  fr_health :: bool
  fr_queue :: bool
  fr_load :: bool
  fr_topology :: bool
  fr_locality :: bool
  fr_compatibility :: bool
  fr_isolation :: bool
  fr_evidence :: bool

record RetryPolicy =
  rtp_enabled :: bool
  rtp_max_attempts :: u32
  rtp_retryable :: "FailureKind \<Rightarrow> bool"
  rtp_max_ambiguous_retries :: u32

record FallbackPolicy =
  fbp_enabled :: bool
  fbp_max_depth :: u32
  fbp_chains :: "ExecutionDomainType \<Rightarrow> ExecutionDomainType list"
  fbp_allow_host_fallback :: bool

record ReservationPolicy =
  rsp_enabled :: bool
  rsp_per_operation :: "ResourceKind \<Rightarrow> u64"
  rsp_require_reservation_for_offload_only :: bool

record SchedulerPolicy =
  pol_generation :: u64
  pol_isolation_generation :: u64
  pol_compatibility_generation :: u64
  pol_offload_requirement :: OffloadRequirement
  pol_minimum_isolation :: IsolationClass
  pol_require_positive_evidence :: bool
  pol_allow_unsupported_provenance :: bool
  pol_forbidden_domains :: "ExecutionDomainType list"
  pol_forbidden_domain_ids :: "u64 list"
  pol_forbidden_provenance :: "Provenance list"
  pol_weights :: "RankingFactor \<Rightarrow> int"
  pol_preference_order :: "ExecutionDomainType list"
  pol_reservation :: ReservationPolicy
  pol_retry :: RetryPolicy
  pol_fallback :: FallbackPolicy
  pol_freshness :: FreshnessRequirements
  pol_type_setup_cost_units :: "ExecutionDomainType \<Rightarrow> u64"
  pol_type_per_byte_cost_micro_units :: "ExecutionDomainType \<Rightarrow> u64"
  pol_maximum_cost_units :: u64
  pol_max_reported_candidates :: nat

definition allows :: "RetryPolicy \<Rightarrow> FailureKind \<Rightarrow> bool" where
  "allows r kind = rtp_retryable r kind"

definition domain_type_forbidden :: "SchedulerPolicy \<Rightarrow> ExecutionDomainType \<Rightarrow> bool" where
  "domain_type_forbidden p t = (t \<in> set (pol_forbidden_domains p))"

definition domain_id_forbidden :: "SchedulerPolicy \<Rightarrow> u64 \<Rightarrow> bool" where
  "domain_id_forbidden p i = (i \<in> set (pol_forbidden_domain_ids p))"

definition provenance_forbidden :: "SchedulerPolicy \<Rightarrow> Provenance \<Rightarrow> bool" where
  "provenance_forbidden p v = (v \<in> set (pol_forbidden_provenance p))"

definition fallback_chain :: "SchedulerPolicy \<Rightarrow> ExecutionDomainType \<Rightarrow> ExecutionDomainType list" where
  "fallback_chain p from =
     (if ord_ExecutionDomainType from \<ge> kExecutionDomainTypeCount then []
      else fbp_chains (pol_fallback p) from)"

section \<open>Cycle detection\<close>

text \<open>The node states of the search: 0, 1 and 2 in the source.\<close>

datatype VisitState = Unvisited | OnStack | Done

type_synonym visit = "ExecutionDomainType \<Rightarrow> VisitState"

function (sequential)
  reaches :: "nat \<Rightarrow> FallbackPolicy \<Rightarrow> visit \<Rightarrow> ExecutionDomainType \<Rightarrow> (bool \<times> visit) option" and
  reaches_any :: "nat \<Rightarrow> FallbackPolicy \<Rightarrow> visit \<Rightarrow> ExecutionDomainType list \<Rightarrow> (bool \<times> visit) option" where
  "reaches 0 policy state node = None"
| "reaches (Suc depth) policy state node =
     (if state node = OnStack then Some (True, state)
      else if state node = Done then Some (False, state)
      else case reaches_any depth policy (state(node := OnStack)) (fbp_chains policy node) of
             None \<Rightarrow> None
           | Some (found, state') \<Rightarrow>
               Some (if found then (True, state') else (False, state'(node := Done))))"
| "reaches_any depth policy state [] = Some (False, state)"
| "reaches_any depth policy state (x # xs) =
     (case reaches depth policy state x of
        None \<Rightarrow> None
      | Some (found, state') \<Rightarrow>
          if found then Some (True, state') else reaches_any depth policy state' xs)"
  by pat_completeness auto
termination
  by (relation "measures [\<lambda>s. case s of Inl (d, p, st, n) \<Rightarrow> d | Inr (d, p, st, xs) \<Rightarrow> d,
                          \<lambda>s. case s of Inl (d, p, st, n) \<Rightarrow> 0 | Inr (d, p, st, xs) \<Rightarrow> Suc (length xs)]")
     auto

definition fallback_graph_has_cycle :: "FallbackPolicy \<Rightarrow> bool" where
  "fallback_graph_has_cycle policy =
     list_ex
       (\<lambda>node. case reaches (Suc kExecutionDomainTypeCount) policy (\<lambda>_. Unvisited) node of
                 None \<Rightarrow> False | Some (found, _) \<Rightarrow> found)
       all_ExecutionDomainType"

section \<open>Defaults and validation\<close>

primrec default_chains :: "ExecutionDomainType \<Rightarrow> ExecutionDomainType list" where
  "default_chains ExecutionDomainType.kCpu = []"
| "default_chains ExecutionDomainType.kAccelerator = [ExecutionDomainType.kCpu]"
| "default_chains ExecutionDomainType.kNic =
     [ExecutionDomainType.kAccelerator, ExecutionDomainType.kCpu]"
| "default_chains ExecutionDomainType.kSmartNic =
     [ExecutionDomainType.kNic, ExecutionDomainType.kAccelerator, ExecutionDomainType.kCpu]"
| "default_chains ExecutionDomainType.kDpu =
     [ExecutionDomainType.kSmartNic, ExecutionDomainType.kNic, ExecutionDomainType.kAccelerator,
      ExecutionDomainType.kCpu]"
| "default_chains ExecutionDomainType.kOtherRegisteredOffloadEngine = [ExecutionDomainType.kCpu]"

definition default_retryable :: "FailureKind \<Rightarrow> bool" where
  "default_retryable kind =
     (kind \<in> {FailureKind.kTransportFailure, FailureKind.kPreDispatchRejection,
              FailureKind.kWorkerDeath, FailureKind.kDomainUnavailable,
              FailureKind.kCapacityExhausted, FailureKind.kCoordinatorRestart,
              FailureKind.kBackendRejection})"

primrec default_setup_cost :: "ExecutionDomainType \<Rightarrow> u64" where
  "default_setup_cost ExecutionDomainType.kCpu = 1"
| "default_setup_cost ExecutionDomainType.kAccelerator = 120"
| "default_setup_cost ExecutionDomainType.kNic = 60"
| "default_setup_cost ExecutionDomainType.kSmartNic = 80"
| "default_setup_cost ExecutionDomainType.kDpu = 100"
| "default_setup_cost ExecutionDomainType.kOtherRegisteredOffloadEngine = 70"

primrec default_per_byte_cost :: "ExecutionDomainType \<Rightarrow> u64" where
  "default_per_byte_cost ExecutionDomainType.kCpu = 40"
| "default_per_byte_cost ExecutionDomainType.kAccelerator = 8"
| "default_per_byte_cost ExecutionDomainType.kNic = 12"
| "default_per_byte_cost ExecutionDomainType.kSmartNic = 10"
| "default_per_byte_cost ExecutionDomainType.kDpu = 6"
| "default_per_byte_cost ExecutionDomainType.kOtherRegisteredOffloadEngine = 18"

definition default_freshness :: FreshnessRequirements where
  "default_freshness =
     \<lparr>fr_capability = True, fr_health = True, fr_queue = False, fr_load = False,
      fr_topology = False, fr_locality = False, fr_compatibility = True, fr_isolation = False,
      fr_evidence = True\<rparr>"

definition make_default_policy :: SchedulerPolicy where
  "make_default_policy =
     \<lparr>pol_generation = gen_first, pol_isolation_generation = gen_first,
      pol_compatibility_generation = gen_first, pol_offload_requirement = OffloadRequirement.kAny,
      pol_minimum_isolation = IsolationClass.kUnknown, pol_require_positive_evidence = True,
      pol_allow_unsupported_provenance = False, pol_forbidden_domains = [],
      pol_forbidden_domain_ids = [], pol_forbidden_provenance = [],
      pol_weights = default_ranking_weights,
      pol_preference_order =
        [ExecutionDomainType.kDpu, ExecutionDomainType.kSmartNic, ExecutionDomainType.kNic,
         ExecutionDomainType.kAccelerator, ExecutionDomainType.kCpu,
         ExecutionDomainType.kOtherRegisteredOffloadEngine],
      pol_reservation = \<lparr>rsp_enabled = False, rsp_per_operation = (\<lambda>_. 0),
                         rsp_require_reservation_for_offload_only = True\<rparr>,
      pol_retry = \<lparr>rtp_enabled = True, rtp_max_attempts = 2, rtp_retryable = default_retryable,
                   rtp_max_ambiguous_retries = 0\<rparr>,
      pol_fallback = \<lparr>fbp_enabled = True, fbp_max_depth = 3, fbp_chains = default_chains,
                      fbp_allow_host_fallback = True\<rparr>,
      pol_freshness = default_freshness,
      pol_type_setup_cost_units = default_setup_cost,
      pol_type_per_byte_cost_micro_units = default_per_byte_cost,
      pol_maximum_cost_units = 0, pol_max_reported_candidates = kMaxReportedCandidates\<rparr>"

definition validate_policy :: "SchedulerPolicy \<Rightarrow> Status" where
  "validate_policy p =
     (if \<not> published (pol_generation p) then failure ''policy.missing_generation'' []
      else if length (pol_forbidden_domains p) > kExecutionDomainTypeCount
      then failure ''policy.too_many_forbidden_domains'' []
      else if length (pol_preference_order p) > kExecutionDomainTypeCount
      then failure ''policy.preference_order_too_long'' []
      else if list_ex (\<lambda>i. pol_weights p i < 0 \<or> pol_weights p i > 100000) all_RankingFactor
      then failure ''policy.weight_out_of_range'' []
      else if rtp_max_attempts (pol_retry p) = 0 \<or> rtp_max_attempts (pol_retry p) > kMaxRetryAttempts
      then failure ''policy.retry_bound_invalid'' []
      else if fbp_max_depth (pol_fallback p) > kMaxFallbackDepth
      then failure ''policy.fallback_depth_invalid'' []
      else if fbp_enabled (pol_fallback p) \<noteq> (fbp_max_depth (pol_fallback p) > 0)
              \<and> fbp_enabled (pol_fallback p)
      then failure ''policy.fallback_depth_invalid'' []
      else if fallback_graph_has_cycle (pol_fallback p) then failure ''policy.fallback_cycle'' []
      else if list_ex (\<lambda>t. length (fbp_chains (pol_fallback p) t) > kExecutionDomainTypeCount)
                all_ExecutionDomainType
      then failure ''policy.fallback_chain_too_long'' []
      else case find (\<lambda>t. pol_type_setup_cost_units p t > push_bit 32 1
                          \<or> pol_type_per_byte_cost_micro_units p t > 1000000)
                  all_ExecutionDomainType of
             Some t \<Rightarrow>
               if pol_type_setup_cost_units p t > push_bit 32 1
               then failure ''policy.setup_cost_out_of_range'' []
               else failure ''policy.per_byte_cost_out_of_range'' []
           | None \<Rightarrow>
               if pol_max_reported_candidates p = 0
                  \<or> pol_max_reported_candidates p > kMaxReportedCandidates
               then failure ''policy.candidate_report_bound_invalid'' []
               else if rsp_enabled (pol_reservation p)
                       \<and> list_ex (\<lambda>k. rsp_per_operation (pol_reservation p) k > push_bit 32 1)
                           all_ResourceKind
               then failure ''policy.reservation_amount_out_of_range'' []
               else if pol_offload_requirement p = OffloadRequirement.kHostRequired
                       \<and> domain_type_forbidden p ExecutionDomainType.kCpu
               then failure ''policy.host_required_but_cpu_forbidden'' []
               else success)"

section \<open>Correctness of the cycle search\<close>

definition fallback_edges :: "FallbackPolicy \<Rightarrow> (ExecutionDomainType \<times> ExecutionDomainType) set" where
  "fallback_edges p = {(a, b). b \<in> set (fbp_chains p a)}"

definition on_cycle :: "FallbackPolicy \<Rightarrow> ExecutionDomainType \<Rightarrow> bool" where
  "on_cycle p a \<longleftrightarrow> (a, a) \<in> (fallback_edges p)\<^sup>+"

definition leads_to_cycle :: "FallbackPolicy \<Rightarrow> ExecutionDomainType \<Rightarrow> bool" where
  "leads_to_cycle p a \<longleftrightarrow> (\<exists>c. (a, c) \<in> (fallback_edges p)\<^sup>* \<and> on_cycle p c)"

lemma leads_to_cycle_successor:
  assumes "\<forall>b. (a, b) \<in> fallback_edges p \<longrightarrow> \<not> leads_to_cycle p b"
  shows "\<not> leads_to_cycle p a"
proof
  assume "leads_to_cycle p a"
  then obtain c where c: "(a, c) \<in> (fallback_edges p)\<^sup>*" "on_cycle p c"
    by (auto simp: leads_to_cycle_def)
  have "(a, c) \<in> (fallback_edges p)\<^sup>+"
    using c by (auto simp: on_cycle_def rtrancl_eq_or_trancl)
  then obtain b where "(a, b) \<in> fallback_edges p" "(b, c) \<in> (fallback_edges p)\<^sup>*"
    by (meson tranclD)
  with c(2) assms show False by (auto simp: leads_to_cycle_def)
qed

text \<open>A search that reports no cycle restores the stack and finishes its node.\<close>

definition done_safe :: "FallbackPolicy \<Rightarrow> visit \<Rightarrow> bool" where
  "done_safe p s \<longleftrightarrow> (\<forall>b. s b = Done \<longrightarrow> \<not> leads_to_cycle p b)"

definition search_ok :: "FallbackPolicy \<Rightarrow> visit \<Rightarrow> visit \<Rightarrow> bool" where
  "search_ok p s s' \<longleftrightarrow>
     done_safe p s' \<and> (\<forall>b. s b = Done \<longrightarrow> s' b = Done) \<and> (\<forall>b. s' b = OnStack \<longleftrightarrow> s b = OnStack)"

lemma done_safe_push: "done_safe p s \<Longrightarrow> done_safe p (s(n := OnStack))"
  by (simp add: done_safe_def)

lemma reaches_Unvisited:
  "s n = Unvisited \<Longrightarrow>
     reaches (Suc d) p s n =
       (case reaches_any d p (s(n := OnStack)) (fbp_chains p n) of
          None \<Rightarrow> None
        | Some (found, s') \<Rightarrow> Some (if found then (True, s') else (False, s'(n := Done))))"
  by simp

lemma reaches_visited:
  "s n = OnStack \<Longrightarrow> reaches (Suc d) p s n = Some (True, s)"
  "s n = Done \<Longrightarrow> reaches (Suc d) p s n = Some (False, s)"
  by simp_all

declare reaches.simps(2) [simp del]

lemma reaches_any_Cons_Some:
  assumes "reaches_any d p s (x # xs) = Some (r, s')"
  shows "(r \<and> reaches d p s x = Some (True, s')) \<or>
         (\<exists>s1. reaches d p s x = Some (False, s1) \<and> reaches_any d p s1 xs = Some (r, s'))"
  using assms by (auto split: option.splits if_splits)

lemma reaches_False:
  "reaches d p s n = Some (False, s') \<Longrightarrow> done_safe p s \<Longrightarrow> search_ok p s s' \<and> s' n = Done"
  "reaches_any d p s xs = Some (False, s') \<Longrightarrow> done_safe p s \<Longrightarrow>
     search_ok p s s' \<and> (\<forall>x \<in> set xs. s' x = Done)"
proof (induction d p s n and d p s xs arbitrary: s' and s' rule: reaches_reaches_any.induct)
  case (2 d p s n)
  show ?case
  proof (cases "s n")
    case Unvisited
    then obtain s1 where s1: "reaches_any d p (s(n := OnStack)) (fbp_chains p n) = Some (False, s1)"
      and s': "s' = s1(n := Done)"
      using 2(2) by (auto simp del: fun_upd_apply simp: reaches_Unvisited split: option.splits if_splits)
    have "s n \<noteq> OnStack" "s n \<noteq> Done" using Unvisited by simp_all
    then have ok: "search_ok p (s(n := OnStack)) s1 \<and> (\<forall>x \<in> set (fbp_chains p n). s1 x = Done)"
      using 2(1) s1 done_safe_push [OF 2(3)] by blast
    have "\<not> leads_to_cycle p n"
      using ok by (intro leads_to_cycle_successor)
        (auto simp: fallback_edges_def search_ok_def done_safe_def)
    then show ?thesis
      using ok Unvisited unfolding s' search_ok_def done_safe_def by auto
  qed (use 2 in \<open>auto simp: search_ok_def reaches_visited\<close>)
next
  case (4 d p s x xs)
  then obtain s1 where s1: "reaches d p s x = Some (False, s1)"
      "reaches_any d p s1 xs = Some (False, s')"
    using reaches_any_Cons_Some [OF 4(3)] by blast
  have 1: "search_ok p s s1" "s1 x = Done" using 4(1) [OF s1(1) 4(4)] by blast+
  then have "done_safe p s1" by (simp add: search_ok_def)
  from 4(2) [OF s1(1) refl _ s1(2) this] 1 show ?case by (auto simp: search_ok_def)
qed (auto simp: search_ok_def)

text \<open>A search that reports a cycle has found one: every node on the stack leads to the current one.\<close>

lemma reaches_True:
  "reaches d p s n = Some (True, s') \<Longrightarrow> done_safe p s \<Longrightarrow>
     (\<forall>g. s g = OnStack \<longrightarrow> (g, n) \<in> (fallback_edges p)\<^sup>+) \<Longrightarrow> \<exists>c. on_cycle p c"
  "reaches_any d p s xs = Some (True, s') \<Longrightarrow> done_safe p s \<Longrightarrow>
     (\<forall>x \<in> set xs. \<forall>g. s g = OnStack \<longrightarrow> (g, x) \<in> (fallback_edges p)\<^sup>+) \<Longrightarrow> \<exists>c. on_cycle p c"
proof (induction d p s n and d p s xs arbitrary: s' and s' rule: reaches_reaches_any.induct)
  case (2 d p s n)
  show ?case
  proof (cases "s n")
    case OnStack
    with 2(4) show ?thesis by (auto simp: on_cycle_def)
  next
    case Unvisited
    then have any: "reaches_any d p (s(n := OnStack)) (fbp_chains p n) = Some (True, s')"
      using 2(2) by (auto simp del: fun_upd_apply simp: reaches_Unvisited split: option.splits if_splits)
    have "s n \<noteq> OnStack" "s n \<noteq> Done" using Unvisited by simp_all
    moreover have "\<forall>x \<in> set (fbp_chains p n). \<forall>g. (s(n := OnStack)) g = OnStack \<longrightarrow> (g, x) \<in> (fallback_edges p)\<^sup>+"
      using 2(4) by (auto simp: fallback_edges_def intro: trancl.trancl_into_trancl)
    ultimately show ?thesis using 2(1) any done_safe_push [OF 2(3)] by blast
  qed (use 2 in \<open>simp add: reaches_visited\<close>)
next
  case (4 d p s x xs)
  show ?case
  proof (cases "\<exists>s1. reaches d p s x = Some (True, s1)")
    case True
    with 4 show ?thesis by auto
  next
    case False
    then obtain s1 where s1: "reaches d p s x = Some (False, s1)" "reaches_any d p s1 xs = Some (True, s')"
      using reaches_any_Cons_Some [OF 4(3)] by blast
    have "search_ok p s s1" using reaches_False(1) [OF s1(1) 4(4)] by blast
    then have "done_safe p s1" "\<forall>x \<in> set xs. \<forall>g. s1 g = OnStack \<longrightarrow> (g, x) \<in> (fallback_edges p)\<^sup>+"
      using 4(5) by (auto simp: search_ok_def)
    then show ?thesis using 4(2) [OF s1(1) refl _ s1(2)] by blast
  qed
qed auto

text \<open>The budget never runs out: every level of the recursion visits an unvisited node.\<close>

abbreviation unvisited :: "visit \<Rightarrow> ExecutionDomainType set" where
  "unvisited s \<equiv> {b. s b = Unvisited}"

lemma reaches_enough:
  "card (unvisited s) < d \<Longrightarrow> \<exists>r s'. reaches d p s n = Some (r, s') \<and> unvisited s' \<subseteq> unvisited s"
  "card (unvisited s) < d \<or> xs = [] \<Longrightarrow>
     \<exists>r s'. reaches_any d p s xs = Some (r, s') \<and> unvisited s' \<subseteq> unvisited s"
proof (induction d p s n and d p s xs rule: reaches_reaches_any.induct)
  case (2 d p s n)
  show ?case
  proof (cases "s n")
    case Unvisited
    have sub: "unvisited (s(n := OnStack)) \<subset> unvisited s" using Unvisited by auto
    then have "card (unvisited (s(n := OnStack))) < card (unvisited s)"
      by (intro psubset_card_mono) auto
    then have "card (unvisited (s(n := OnStack))) < d \<or> fbp_chains p n = []" using 2(2) by linarith
    moreover have "s n \<noteq> OnStack" "s n \<noteq> Done" using Unvisited by simp_all
    ultimately obtain r s1
      where s1: "reaches_any d p (s(n := OnStack)) (fbp_chains p n) = Some (r, s1)"
        "unvisited s1 \<subseteq> unvisited (s(n := OnStack))"
      using 2(1) by blast
    have "unvisited (s1(n := Done)) \<subseteq> unvisited s1" by auto
    with s1 sub show ?thesis
      by (cases r) (auto simp del: fun_upd_apply simp: reaches_Unvisited Unvisited)
  qed (auto simp: reaches_visited)
next
  case (4 d p s x xs)
  then obtain r s1 where s1: "reaches d p s x = Some (r, s1)" "unvisited s1 \<subseteq> unvisited s" by auto
  then have "card (unvisited s1) < d"
    using 4(3) card_mono [OF _ s1(2)] by (auto intro: le_less_trans)
  with s1 4(2) [OF s1(1) refl] show ?case by (cases r) auto
qed auto

lemma card_domain_types: "card (UNIV :: ExecutionDomainType set) = kExecutionDomainTypeCount"
proof -
  have "card (set all_ExecutionDomainType) = length all_ExecutionDomainType"
    by (rule distinct_card) (rule distinct_all_ExecutionDomainType)
  also have "\<dots> = kExecutionDomainTypeCount"
    by (simp add: all_ExecutionDomainType_def kExecutionDomainTypeCount_def)
  finally show ?thesis by (simp only: all_ExecutionDomainType_UNIV)
qed

lemma fallback_graph_has_cycle_iff:
  "fallback_graph_has_cycle p \<longleftrightarrow> (\<exists>c. on_cycle p c)"
proof
  assume "fallback_graph_has_cycle p"
  then obtain n s' where "reaches (Suc kExecutionDomainTypeCount) p (\<lambda>_. Unvisited) n = Some (True, s')"
    by (auto simp: fallback_graph_has_cycle_def list_ex_iff split: option.splits)
  then show "\<exists>c. on_cycle p c" by (rule reaches_True(1)) (auto simp: done_safe_def)
next
  assume "\<exists>c. on_cycle p c"
  then obtain c where c: "on_cycle p c" by blast
  have "card (unvisited (\<lambda>_. Unvisited)) < Suc kExecutionDomainTypeCount"
    using card_domain_types by simp
  then obtain r s' where r: "reaches (Suc kExecutionDomainTypeCount) p (\<lambda>_. Unvisited) c = Some (r, s')"
    using reaches_enough(1) [of "\<lambda>_. Unvisited"] by blast
  have r
  proof (rule ccontr)
    assume "\<not> r"
    then have "search_ok p (\<lambda>_. Unvisited) s'" "s' c = Done"
      using reaches_False(1) r by (auto simp: done_safe_def)
    then have "\<not> leads_to_cycle p c" by (simp add: search_ok_def done_safe_def)
    with c show False by (auto simp: leads_to_cycle_def)
  qed
  with r show "fallback_graph_has_cycle p"
    by (auto simp: fallback_graph_has_cycle_def list_ex_iff intro!: bexI [of _ c])
qed

section \<open>Properties\<close>

text \<open>
  C32. The depth-first search always terminates with an answer within one recursion level more than
  there are domain types, and it reports a cycle exactly when the fallback graph has one, that is
  when some domain type falls back, over one or more steps, to itself.\<close>

theorem fallback_cycle_search_correct:
  "(\<forall>node. reaches (Suc kExecutionDomainTypeCount) policy (\<lambda>_. Unvisited) node \<noteq> None)
   \<and> (fallback_graph_has_cycle policy \<longleftrightarrow>
        (\<exists>t. (t, t) \<in> {(a, b). b \<in> set (fbp_chains policy a)}\<^sup>+))"
proof -
  have "reaches (Suc kExecutionDomainTypeCount) policy (\<lambda>_. Unvisited) node \<noteq> None" for node
    using reaches_enough(1) [of "\<lambda>_. Unvisited" "Suc kExecutionDomainTypeCount" policy node]
      card_domain_types by auto
  then show ?thesis
    using fallback_graph_has_cycle_iff [of policy] by (simp add: on_cycle_def fallback_edges_def)
qed

lemma validate_policy_facts:
  assumes "st_ok (validate_policy p)"
  shows "published (pol_generation p)" and "\<not> fallback_graph_has_cycle (pol_fallback p)"
    and "0 \<le> pol_weights p f \<and> pol_weights p f \<le> 100000"
    and "0 < rtp_max_attempts (pol_retry p) \<and> rtp_max_attempts (pol_retry p) \<le> kMaxRetryAttempts"
    and "fbp_max_depth (pol_fallback p) \<le> kMaxFallbackDepth"
    and "pol_type_setup_cost_units p t \<le> push_bit 32 1"
    and "0 < pol_max_reported_candidates p"
proof -
  have w: "\<not> list_ex (\<lambda>i. pol_weights p i < 0 \<or> pol_weights p i > 100000) all_RankingFactor"
    using assms by (auto simp: validate_policy_def split: if_splits)
  have "f \<in> set all_RankingFactor" by (cases f) (simp_all add: all_RankingFactor_def)
  with w show "0 \<le> pol_weights p f \<and> pol_weights p f \<le> 100000"
    by (auto simp: list_ex_iff not_less)
  have "find (\<lambda>t. pol_type_setup_cost_units p t > push_bit 32 1
      \<or> pol_type_per_byte_cost_micro_units p t > 1000000) all_ExecutionDomainType = None"
    using assms by (auto simp: validate_policy_def split: if_splits option.splits)
  then show "pol_type_setup_cost_units p t \<le> push_bit 32 1" by (auto simp: find_None_iff not_less)
  show "published (pol_generation p)" "\<not> fallback_graph_has_cycle (pol_fallback p)"
    "0 < rtp_max_attempts (pol_retry p) \<and> rtp_max_attempts (pol_retry p) \<le> kMaxRetryAttempts"
    "fbp_max_depth (pol_fallback p) \<le> kMaxFallbackDepth" "0 < pol_max_reported_candidates p"
    using assms by (auto simp: validate_policy_def not_less word_gt_0 split: if_splits option.splits)
qed

text \<open>
  A policy that validation accepts cannot fall back forever: its fallback relation is
  well-founded, its weights, retry and depth bounds are within their limits, and the score of any
  candidate under it stays on the factor scale; the default policy is accepted.\<close>

theorem accepted_policy_is_safe:
  assumes "st_ok (validate_policy p)"
  shows "wf ({(a, b). b \<in> set (fbp_chains (pol_fallback p) a)}\<inverse>)
         \<and> (\<forall>f. 0 \<le> pol_weights p f \<and> pol_weights p f \<le> 100000)
         \<and> 0 < rtp_max_attempts (pol_retry p) \<and> rtp_max_attempts (pol_retry p) \<le> kMaxRetryAttempts
         \<and> fbp_max_depth (pol_fallback p) \<le> kMaxFallbackDepth
         \<and> (\<forall>factors. 0 \<le> fst (weighted_score factors (pol_weights p))
                     \<and> fst (weighted_score factors (pol_weights p)) \<le> kFactorScale)"
proof -
  let ?E = "{(a, b). b \<in> set (fbp_chains (pol_fallback p) a)}"
  have "\<not> (\<exists>t. (t, t) \<in> ?E\<^sup>+)"
    using validate_policy_facts(2) [OF assms] fallback_graph_has_cycle_iff
    by (simp add: on_cycle_def fallback_edges_def)
  then have "acyclic (?E\<inverse>)" by (simp add: acyclic_def trancl_converse)
  moreover have "finite (?E\<inverse>)" by (rule finite_subset [OF subset_UNIV]) simp
  ultimately have "wf (?E\<inverse>)" by (rule finite_acyclic_wf [rotated])
  then show ?thesis
    using validate_policy_facts [OF assms] weighted_score_bounds by blast
qed

lemma default_policy_accepted: "validate_policy make_default_policy = success"
  by code_simp

theorem accepted_policy_is_safe_witness:
  "validate_policy make_default_policy = success
   \<and> wf ({(a, b). b \<in> set (fbp_chains (pol_fallback make_default_policy) a)}\<inverse>)"
  using accepted_policy_is_safe [of make_default_policy] default_policy_accepted by simp

end
