(* ===== verification/Tos_Capability.thy ===== *)
theory Tos_Capability
  imports Tos_Operation
begin

text \<open>
  Capability records (\<^verbatim>\<open>src/include/tos/core/capability.hpp\<close>, \<^verbatim>\<open>src/src/core/capability.cpp\<close>): the
  proven properties of an execution domain, their canonical form, and the check of a request
  against them. \<^verbatim>\<open>std::binary_search\<close> is modelled as the halving search it is, on any vector; that it
  decides membership is a lemma about sorted ones, which canonicalization produces.
\<close>

section \<open>Data\<close>

definition memory_bit :: "MemoryDomain \<Rightarrow> u32" where
  "memory_bit value = push_bit (ord_MemoryDomain value) 1"

definition transport_bit :: "TransportClass \<Rightarrow> u32" where
  "transport_bit value = push_bit (ord_TransportClass value) 1"

definition payload_bit :: "PayloadClass \<Rightarrow> u32" where
  "payload_bit value = push_bit (ord_PayloadClass value) 1"

record CapabilitySet =
  cs_operations :: "u64 list"
  cs_flags :: u32
  cs_unproven_flags :: u32
  cs_memory_domains :: u32
  cs_min_payload_bytes :: u64
  cs_max_payload_bytes :: u64
  cs_alignment_bytes :: u32
  cs_max_concurrency :: u32
  cs_queue_capacity :: u32
  cs_transport_classes :: u32
  cs_payload_classes :: u32
  cs_protocol_version :: u32
  cs_driver_backend_version :: u32
  cs_firmware_generation :: u32
  cs_accelerator_arch :: u32
  cs_backend_family :: string

record CapabilityRecord =
  cap_domain :: u64
  cap_generation :: u64
  cap_evidence :: u64
  cap_publisher :: u64
  cap_provenance :: Provenance
  cap_authoritative :: bool
  cap_capability :: CapabilitySet

record CapabilityCheck =
  cc_supported :: bool
  cc_reason :: IneligibilityReason
  cc_detail :: string

definition empty_capability_set :: CapabilitySet where
  "empty_capability_set =
     \<lparr>cs_operations = [], cs_flags = 0, cs_unproven_flags = 0, cs_memory_domains = 0,
      cs_min_payload_bytes = 0, cs_max_payload_bytes = 0, cs_alignment_bytes = 1,
      cs_max_concurrency = 1, cs_queue_capacity = 0, cs_transport_classes = 0,
      cs_payload_classes = 0, cs_protocol_version = 0, cs_driver_backend_version = 0,
      cs_firmware_generation = 0, cs_accelerator_arch = 0, cs_backend_family = []\<rparr>"

definition empty_capability_record :: CapabilityRecord where
  "empty_capability_record =
     \<lparr>cap_domain = 0, cap_generation = 0, cap_evidence = 0, cap_publisher = 0,
      cap_provenance = Provenance.kUnsupported, cap_authoritative = False,
      cap_capability = empty_capability_set\<rparr>"

definition capability_published :: "CapabilityRecord \<Rightarrow> bool" where
  "capability_published r =
     (valid (cap_domain r) \<and> published (cap_generation r) \<and> published (cap_evidence r)
      \<and> cap_authoritative r)"

section \<open>Canonical form\<close>

definition kMemoryDomainCount :: nat where "kMemoryDomainCount = 8"
definition kTransportClassCount :: nat where "kTransportClassCount = 6"

text \<open>\<^verbatim>\<open>std::sort\<close> on identities followed by \<^verbatim>\<open>std::unique\<close> and \<^verbatim>\<open>erase\<close>.\<close>

definition canonicalize :: "CapabilitySet \<Rightarrow> CapabilitySet" where
  "canonicalize c =
     (let max_payload = min (cs_max_payload_bytes c) kMaxPayloadBytes
      in c\<lparr>cs_operations := remdups_adj (sort (cs_operations c)),
           cs_flags := cs_flags c AND NOT (cs_unproven_flags c),
           cs_alignment_bytes := (if cs_alignment_bytes c = 0 then 1 else cs_alignment_bytes c),
           cs_max_payload_bytes := max_payload,
           cs_min_payload_bytes := min (cs_min_payload_bytes c) max_payload,
           cs_max_concurrency := (if cs_max_concurrency c = 0 then 1 else cs_max_concurrency c),
           cs_memory_domains := cs_memory_domains c AND (push_bit kMemoryDomainCount 1 - 1),
           cs_transport_classes := cs_transport_classes c AND (push_bit kTransportClassCount 1 - 1),
           cs_payload_classes := cs_payload_classes c AND 0x0F,
           cs_backend_family := take kMaxNameLength (cs_backend_family c)\<rparr>)"

text \<open>\<^verbatim>\<open>std::lower_bound\<close>: first index and remaining count.\<close>

function lower_bound :: "'a::linorder list \<Rightarrow> 'a \<Rightarrow> nat \<Rightarrow> nat \<Rightarrow> nat" where
  "lower_bound xs v first count =
     (if count = 0 then first
      else
        let step = count div 2; it = first + step
        in if xs ! it < v then lower_bound xs v (it + 1) (count - (step + 1))
           else lower_bound xs v first step)"
  by pat_completeness auto
termination by (relation "measure (\<lambda>(xs, v, first, count). count)") auto

declare lower_bound.simps [simp del]

definition binary_search :: "'a::linorder list \<Rightarrow> 'a \<Rightarrow> bool" where
  "binary_search xs v =
     (let first = lower_bound xs v 0 (length xs)
      in first \<noteq> length xs \<and> \<not> v < xs ! first)"

definition supports_operation :: "CapabilitySet \<Rightarrow> u64 \<Rightarrow> bool" where
  "supports_operation c i = binary_search (cs_operations c) i"

definition memory_domain_supported :: "CapabilitySet \<Rightarrow> MemoryDomain \<Rightarrow> bool" where
  "memory_domain_supported c value = (cs_memory_domains c AND memory_bit value \<noteq> 0)"

section \<open>The check\<close>

definition check_fails :: "IneligibilityReason \<Rightarrow> string \<Rightarrow> CapabilityCheck" where
  "check_fails reason detail = \<lparr>cc_supported = False, cc_reason = reason, cc_detail = detail\<rparr>"

text \<open>The lambda \<^verbatim>\<open>require_flag\<close>: the failed check, or none when the flag is proven.\<close>

definition require_flag ::
    "CapabilitySet \<Rightarrow> bool \<Rightarrow> CapabilityFlag \<Rightarrow> IneligibilityReason \<Rightarrow> string \<Rightarrow> CapabilityCheck option" where
  "require_flag caps require_positive_evidence flag missing_reason what =
     (if has_flag (cs_flags caps) flag then None
      else Some (check_fails
        (if has_flag (cs_unproven_flags caps) flag \<or> require_positive_evidence
         then IneligibilityReason.kCapabilityUnproven else missing_reason)
        (''capability '' @ what @ '' is not proven by this domain'')))"

definition required_flag_checks ::
    "CapabilitySet \<Rightarrow> bool \<Rightarrow> OperationClassDescriptor \<Rightarrow> OperationRequest \<Rightarrow> CapabilityCheck option list" where
  "required_flag_checks caps require_positive_evidence d request =
     (if ocd_required_flag d \<noteq> CapabilityFlag.kNone
      then [require_flag caps require_positive_evidence (ocd_required_flag d)
              IneligibilityReason.kOperationNotSupported
              (to_string_CapabilityFlag (ocd_required_flag d))]
      else [])
     @ map (\<lambda>flag. require_flag caps require_positive_evidence flag
               IneligibilityReason.kOperationNotSupported (to_string_CapabilityFlag flag))
         (filter (has_flag (or_required_capability_flags request)) all_capability_flags)
     @ (if or_require_dma request
        then [require_flag caps require_positive_evidence CapabilityFlag.kDma
                IneligibilityReason.kDmaRequired ''dma''] else [])
     @ (if or_require_scatter_gather request
        then [require_flag caps require_positive_evidence CapabilityFlag.kScatterGather
                IneligibilityReason.kScatterGatherRequired ''scatter_gather''] else [])"

fun first_failure :: "'c option list \<Rightarrow> 'c option" where
  "first_failure [] = None"
| "first_failure (None # rest) = first_failure rest"
| "first_failure (Some c # rest) = Some c"

definition check_payload :: "CapabilitySet \<Rightarrow> PayloadDescriptor \<Rightarrow> CapabilityCheck" where
  "check_payload caps payload =
     (if \<not> memory_domain_supported caps (pd_source_memory payload)
      then check_fails IneligibilityReason.kMemoryDomainUnsupported
             (''source memory domain '' @ to_string_MemoryDomain (pd_source_memory payload)
              @ '' is not addressable'')
      else if \<not> memory_domain_supported caps (pd_destination_memory payload)
      then check_fails IneligibilityReason.kMemoryDomainUnsupported
             (''destination memory domain ''
              @ to_string_MemoryDomain (pd_destination_memory payload) @ '' is not addressable'')
      else if cs_memory_domains caps = 0
      then check_fails IneligibilityReason.kAddressabilityUnsupported
             ''domain publishes no addressable memory domains''
      else if pd_size_bytes payload > cs_max_payload_bytes caps
      then check_fails IneligibilityReason.kPayloadTooLarge ''payload exceeds declared maximum''
      else if pd_size_bytes payload < cs_min_payload_bytes caps
      then check_fails IneligibilityReason.kPayloadTooSmall ''payload below declared minimum''
      else if cs_alignment_bytes caps < pd_alignment_bytes payload
      then check_fails IneligibilityReason.kAlignmentUnsatisfied
             ''engine alignment guarantee is weaker than the payload requirement''
      else if cs_transport_classes caps AND transport_bit (pd_transport_class payload) = 0
      then check_fails IneligibilityReason.kTransportClassUnsupported
             (''transport class '' @ to_string_TransportClass (pd_transport_class payload)
              @ '' unsupported'')
      else if cs_payload_classes caps AND payload_bit (pd_payload_class payload) = 0
      then check_fails IneligibilityReason.kPayloadClassUnsupported
             (''payload class '' @ to_string_PayloadClass (pd_payload_class payload)
              @ '' unsupported'')
      else \<lparr>cc_supported = True, cc_reason = IneligibilityReason.kNone,
            cc_detail = ''capability satisfied''\<rparr>)"

definition check_capability ::
    "CapabilityRecord \<Rightarrow> OperationClassRegistry \<Rightarrow> OperationRequest \<Rightarrow> bool \<Rightarrow> CapabilityCheck" where
  "check_capability record registry request require_positive_evidence =
     (if \<not> valid (cap_domain record)
      then check_fails IneligibilityReason.kDomainNotRegistered
             ''capability record has no domain identity''
      else if cap_provenance record = Provenance.kUnsupported
      then check_fails IneligibilityReason.kBackendUnsupported ''domain provenance is UNSUPPORTED''
      else if (\<not> cap_authoritative record \<or> \<not> capability_published record) \<and> require_positive_evidence
      then check_fails IneligibilityReason.kCapabilityUnproven
             ''capability record is not authoritative and policy requires positive evidence''
      else
        case find_class registry (or_operation_class request) of
          None \<Rightarrow> check_fails IneligibilityReason.kUnknownOperationClass
                    ''operation class is not registered''
        | Some d \<Rightarrow>
            let caps = cap_capability record in
            if \<not> supports_operation caps (ocd_id d)
            then check_fails IneligibilityReason.kOperationNotSupported
                   (''domain does not publish operation class '' @ ocd_name d)
            else
              case first_failure (required_flag_checks caps require_positive_evidence d request) of
                Some c \<Rightarrow> c
              | None \<Rightarrow> check_payload caps (or_payload request))"

section \<open>Lemmas\<close>

lemma first_failure_None: "first_failure cs = None \<longleftrightarrow> (\<forall>c \<in> set cs. c = None)"
  by (induction cs rule: first_failure.induct) auto

lemma first_failure_Some: "first_failure cs = Some c \<Longrightarrow> Some c \<in> set cs"
  by (induction cs rule: first_failure.induct) auto

lemma check_fails_unsupported [simp]: "\<not> cc_supported (check_fails r d)" "cc_reason (check_fails r d) = r"
  by (simp_all add: check_fails_def)

text \<open>The halving search on a sorted vector.\<close>

lemma lower_bound_spec:
  assumes "sorted xs" and "first + count \<le> length xs"
    and "\<forall>i < first. xs ! i < v" and "\<forall>i. first + count \<le> i \<and> i < length xs \<longrightarrow> v \<le> xs ! i"
  shows "lower_bound xs v first count \<le> length xs
         \<and> (\<forall>i < lower_bound xs v first count. xs ! i < v)
         \<and> (\<forall>i. lower_bound xs v first count \<le> i \<and> i < length xs \<longrightarrow> v \<le> xs ! i)"
  using assms
proof (induction xs v first count rule: lower_bound.induct)
  case (1 xs v first count)
  show ?case
  proof (cases "count = 0")
    case False
    define it where "it = first + count div 2"
    have it: "it < first + count" using False by (simp add: it_def)
    have rest: "Suc (it + count - Suc (count div 2)) = first + count"
      using False by (simp add: it_def)
    have mono: "xs ! i \<le> xs ! j" if "i \<le> j" "j < length xs" for i j
      using 1(3) that by (simp add: sorted_nth_mono)
    show ?thesis
    proof (cases "xs ! it < v")
      case True
      have lt: "\<forall>i < it + 1. xs ! i < v"
      proof (intro allI impI)
        fix i assume "i < it + 1"
        then have "xs ! i \<le> xs ! it" using mono it 1(4) by simp
        with True show "xs ! i < v" by (rule le_less_trans [rotated])
      qed
      have eq: "lower_bound xs v first count = lower_bound xs v (it + 1) (count - (count div 2 + 1))"
        using False True by (simp add: lower_bound.simps [of xs v first count] it_def Let_def)
      have sum: "it + 1 + (count - (count div 2 + 1)) = first + count" using rest False by simp
      show ?thesis
        unfolding eq
        by (rule 1(1) [OF False refl it_def True 1(3) _ lt]) (unfold sum, rule 1(4), rule 1(6))
    next
      case le: False
      have ge: "\<forall>i. first + count div 2 \<le> i \<and> i < length xs \<longrightarrow> v \<le> xs ! i"
        using mono [of it] le by (auto simp: it_def not_less intro: order_trans)
      have eq: "lower_bound xs v first count = lower_bound xs v first (count div 2)"
        using False le by (simp add: lower_bound.simps [of xs v first count] it_def Let_def)
      have "first + count div 2 \<le> length xs" using 1(4) it it_def by linarith
      then show ?thesis
        unfolding eq by (rule 1(2) [OF False refl it_def le 1(3) _ 1(5) ge])
    qed
  next
    case True
    then show ?thesis using 1(3-6) by (simp add: lower_bound.simps [of xs v first 0])
  qed
qed

lemma binary_search_member:
  assumes "sorted xs"
  shows "binary_search xs v \<longleftrightarrow> v \<in> set xs"
proof -
  let ?f = "lower_bound xs v 0 (length xs)"
  have f: "?f \<le> length xs" "\<And>i. i < ?f \<Longrightarrow> xs ! i < v" "\<And>i. ?f \<le> i \<Longrightarrow> i < length xs \<Longrightarrow> v \<le> xs ! i"
    using lower_bound_spec [OF assms, of 0 "length xs" v] by (simp_all add: linorder_not_less [symmetric])
  show ?thesis
  proof
    assume "binary_search xs v"
    then have "?f < length xs" "xs ! ?f = v"
      using f(1,3) by (auto simp: binary_search_def Let_def intro: antisym)
    then show "v \<in> set xs" by (metis nth_mem)
  next
    assume "v \<in> set xs"
    then obtain i where i: "i < length xs" "xs ! i = v" by (auto simp: in_set_conv_nth)
    then have le: "?f \<le> i" using f(2) [of i] by force
    then have "xs ! ?f \<le> v" using assms i by (metis sorted_nth_mono)
    then show "binary_search xs v" using le i f by (auto simp: binary_search_def Let_def)
  qed
qed

lemma distinct_remdups_adj_sorted: "sorted xs \<Longrightarrow> distinct (remdups_adj xs)"
  by (induction xs rule: remdups_adj.induct) (auto simp: order_le_less)

lemma canonicalize_sorted: "sorted (cs_operations (canonicalize c))" "distinct (cs_operations (canonicalize c))"
  by (simp_all add: canonicalize_def Let_def sorted_remdups_adj distinct_remdups_adj_sorted)

lemma supports_operation_canonical:
  "supports_operation (canonicalize c) i \<longleftrightarrow> i \<in> set (cs_operations c)"
  by (simp add: supports_operation_def binary_search_member [OF canonicalize_sorted(1)])
     (simp add: canonicalize_def Let_def)

lemma canonicalize_idem: "canonicalize (canonicalize c) = canonicalize c"
  by (simp add: canonicalize_def Let_def sorted_remdups_adj sorted_sort_id remdups_adj_distinct
      distinct_remdups_adj_sorted and.assoc min.commute min.assoc min.left_commute)

lemma require_flag_None: "require_flag caps pe flag r w = None \<longleftrightarrow> has_flag (cs_flags caps) flag"
  by (simp add: require_flag_def)

lemma first_failure_parts:
  "first_failure (xs @ ys) = None \<longleftrightarrow> first_failure xs = None \<and> first_failure ys = None"
  "first_failure (if b then [c] else []) = None \<longleftrightarrow> (b \<longrightarrow> c = None)"
  "first_failure (map f zs) = None \<longleftrightarrow> list_all (\<lambda>z. f z = None) zs"
  by (auto simp: first_failure_None list_all_iff)

lemma required_flag_checks_None:
  "first_failure (required_flag_checks caps pe d request) = None \<longleftrightarrow>
     (ocd_required_flag d = CapabilityFlag.kNone \<or> has_flag (cs_flags caps) (ocd_required_flag d))
     \<and> list_all (\<lambda>f. has_flag (or_required_capability_flags request) f \<longrightarrow> has_flag (cs_flags caps) f)
         all_capability_flags
     \<and> (or_require_dma request \<longrightarrow> has_flag (cs_flags caps) CapabilityFlag.kDma)
     \<and> (or_require_scatter_gather request \<longrightarrow> has_flag (cs_flags caps) CapabilityFlag.kScatterGather)"
  unfolding required_flag_checks_def first_failure_parts require_flag_None
  by (auto simp: list_all_iff)

lemma first_failure_Some_unsupported:
  "first_failure (required_flag_checks caps pe d request) = Some c \<Longrightarrow> \<not> cc_supported c"
  by (drule first_failure_Some)
    (auto simp: required_flag_checks_def require_flag_def check_fails_def split: if_splits)

lemma check_payload_supported:
  "cc_supported (check_payload caps payload) \<Longrightarrow>
     memory_domain_supported caps (pd_source_memory payload)
     \<and> memory_domain_supported caps (pd_destination_memory payload)
     \<and> cs_min_payload_bytes caps \<le> pd_size_bytes payload
     \<and> pd_size_bytes payload \<le> cs_max_payload_bytes caps
     \<and> pd_alignment_bytes payload \<le> cs_alignment_bytes caps"
  by (auto simp: check_payload_def not_less split: if_splits)


definition demo_caps :: CapabilitySet where
  "demo_caps =
     empty_capability_set\<lparr>cs_operations := [9, 1, 9], cs_flags := flag_bit CapabilityFlag.kChecksum,
       cs_memory_domains := memory_bit MemoryDomain.kHost, cs_max_payload_bytes := 4096,
       cs_transport_classes := 63, cs_payload_classes := 15\<rparr>"

definition demo_request :: OperationRequest where
  "demo_request =
     default_request\<lparr>or_operation_class := 1, or_payload := default_payload\<lparr>pd_size_bytes := 64\<rparr>\<rparr>"

definition demo_capability :: CapabilityRecord where
  "demo_capability =
     \<lparr>cap_domain = 5, cap_generation = 1, cap_evidence = 1, cap_publisher = 7,
      cap_provenance = Provenance.kReal, cap_authoritative = True,
      cap_capability = canonicalize demo_caps\<rparr>"

lemma demo_capability_supported:
  "cc_supported (check_capability demo_capability builtin_descriptors demo_request True)"
  by code_simp


end
