(* ===== verification/Tos_Reservation.thy ===== *)
theory Tos_Reservation
  imports Tos_Enums
begin

text \<open>
  The reservation ledger (\<^verbatim>\<open>src/include/tos/core/reservation.hpp\<close>, \<^verbatim>\<open>src/src/core/reservation.cpp\<close>):
  capacity of an execution domain, per resource kind, held by reservations that are acquired,
  committed and closed exactly once. The ledger is sharded by a hash of the domain; the shard
  of a reservation is encoded in the top byte of its identity. Every operation takes one shard
  lock, so an operation is one atomic step of the ledger state.

  A \<^verbatim>\<open>std::array\<close> indexed by \<^verbatim>\<open>ResourceKind\<close> is a function on \<^typ>\<open>ResourceKind\<close>. The text of the
  close reason and of the failure details is modelled; the mutexes are not.

  The invariant \<open>ledger_inv\<close> says that the accounting rows are exactly the sums over the
  reservations of the shard and that no row is overcommitted.
\<close>

section \<open>Data\<close>

type_synonym ResourceAmounts = "ResourceKind \<Rightarrow> u64"
type_synonym CapacityVector = "ResourceKind \<Rightarrow> u64"

definition no_amounts :: ResourceAmounts where
  "no_amounts = (\<lambda>_. 0)"

record ReservationRequest =
  rq_domain :: u64
  rq_domain_generation :: u64
  rq_capability_generation :: u64
  rq_policy_generation :: u64
  rq_worker_boot :: u64
  rq_operation :: u64
  rq_amounts :: ResourceAmounts

record Reservation =
  res_id :: u64
  res_domain :: u64
  res_domain_generation :: u64
  res_capability_generation :: u64
  res_policy_generation :: u64
  res_worker_boot :: u64
  res_operation :: u64
  res_amounts :: ResourceAmounts
  res_state :: ReservationState
  res_sequence :: u64
  res_close_reason :: string

record DomainAccounting =
  ac_domain :: u64
  ac_capacity :: CapacityVector
  ac_reserved :: ResourceAmounts
  ac_committed :: ResourceAmounts
  ac_active_count :: u64
  ac_committed_count :: u64
  ac_released_count :: u64
  ac_rolled_back_count :: u64
  ac_invalidated_count :: u64

record ReservationAudit =
  au_consistent :: bool
  au_outstanding :: u64
  au_committed :: u64
  au_leaked :: u64
  au_detail :: string
  au_domains :: "DomainAccounting list"

record ReservationShard =
  sh_reservations :: "Reservation umap"
  sh_accounting :: "DomainAccounting umap"
  sh_counter :: u64

record ReservationLedger =
  rl_shard_count :: nat
  rl_shards :: "ReservationShard list"

definition empty_accounting :: DomainAccounting where
  "empty_accounting =
     \<lparr>ac_domain = 0, ac_capacity = no_amounts, ac_reserved = no_amounts, ac_committed = no_amounts,
      ac_active_count = 0, ac_committed_count = 0, ac_released_count = 0,
      ac_rolled_back_count = 0, ac_invalidated_count = 0\<rparr>"

definition empty_shard :: ReservationShard where
  "empty_shard = \<lparr>sh_reservations = [], sh_accounting = [], sh_counter = 0\<rparr>"

section \<open>Shards\<close>

definition kShardShift :: nat where "kShardShift = 56"
definition kMaxShards :: nat where "kMaxShards = 256"

definition shard_prefix :: "nat \<Rightarrow> u64" where
  "shard_prefix shard = of_nat (shard + 1)"

definition new_reservation_ledger :: "nat \<Rightarrow> ReservationLedger" where
  "new_reservation_ledger count =
     (let n = max 1 (min count kMaxShards)
      in \<lparr>rl_shard_count = n, rl_shards = replicate n empty_shard\<rparr>)"

definition shard_for_domain :: "ReservationLedger \<Rightarrow> u64 \<Rightarrow> nat" where
  "shard_for_domain l domain = unat (strong_id_hash domain) mod rl_shard_count l"

definition shard_for_id :: "ReservationLedger \<Rightarrow> u64 \<Rightarrow> nat" where
  "shard_for_id l i =
     (let index = unat (drop_bit kShardShift i)
      in if index = 0 \<or> index > rl_shard_count l then rl_shard_count l else index - 1)"

definition put_shard :: "ReservationLedger \<Rightarrow> nat \<Rightarrow> ReservationShard \<Rightarrow> ReservationLedger" where
  "put_shard l index sh = l\<lparr>rl_shards := (rl_shards l)[index := sh]\<rparr>"

definition put_row :: "ReservationShard \<Rightarrow> u64 \<Rightarrow> DomainAccounting \<Rightarrow> ReservationShard" where
  "put_row sh domain row = sh\<lparr>sh_accounting := AList.update domain row (sh_accounting sh)\<rparr>"

definition put_reservation :: "ReservationShard \<Rightarrow> u64 \<Rightarrow> Reservation \<Rightarrow> ReservationShard" where
  "put_reservation sh i r = sh\<lparr>sh_reservations := AList.update i r (sh_reservations sh)\<rparr>"

text \<open>\<^verbatim>\<open>shard.accounting[domain]\<close>: a missing row is default-constructed.\<close>

definition row_of :: "ReservationShard \<Rightarrow> u64 \<Rightarrow> DomainAccounting" where
  "row_of sh domain = get_or empty_accounting (sh_accounting sh) domain"

section \<open>Operations\<close>

definition set_capacity ::
    "ReservationLedger \<Rightarrow> u64 \<Rightarrow> CapacityVector \<Rightarrow> Status \<times> ReservationLedger" where
  "set_capacity l domain capacity =
     (let index = shard_for_domain l domain;
          shard = rl_shards l ! index;
          accounting = row_of shard domain
      in case find (\<lambda>k. ac_reserved accounting k + ac_committed accounting k > capacity k)
                all_ResourceKind of
           Some k \<Rightarrow>
             (failure ''reservation.capacity_below_outstanding''
                (''resource '' @ to_string_ResourceKind k),
              put_shard l index (put_row shard domain accounting))
         | None \<Rightarrow>
             (success,
              put_shard l index
                (put_row shard domain
                   (accounting\<lparr>ac_domain := domain, ac_capacity := capacity\<rparr>))))"

definition exceeds_row :: "DomainAccounting \<Rightarrow> ResourceAmounts \<Rightarrow> ResourceKind \<Rightarrow> bool" where
  "exceeds_row accounting amounts k =
     (let want = amounts k;
          held = ac_reserved accounting k + ac_committed accounting k;
          capacity = ac_capacity accounting k
      in want \<noteq> 0 \<and> (want > capacity \<or> held > capacity - want))"

definition new_reservation :: "ReservationRequest \<Rightarrow> u64 \<Rightarrow> Reservation" where
  "new_reservation request i =
     \<lparr>res_id = i,
      res_domain = rq_domain request,
      res_domain_generation = rq_domain_generation request,
      res_capability_generation = rq_capability_generation request,
      res_policy_generation = rq_policy_generation request,
      res_worker_boot = rq_worker_boot request,
      res_operation = rq_operation request,
      res_amounts = rq_amounts request,
      res_state = ReservationState.kActive,
      res_sequence = i,
      res_close_reason = []\<rparr>"

definition acquire ::
    "ReservationLedger \<Rightarrow> ReservationRequest \<Rightarrow> u64 Checked \<times> ReservationLedger" where
  "acquire l request =
     (if \<not> valid (rq_domain request) then (bad ''reservation.invalid_domain'' [], l)
      else
        let domain = rq_domain request;
            index = shard_for_domain l domain;
            shard = rl_shards l ! index;
            accounting = (row_of shard domain)\<lparr>ac_domain := domain\<rparr>
        in case find (exceeds_row accounting (rq_amounts request)) all_ResourceKind of
             Some k \<Rightarrow>
               (bad ''reservation.insufficient_capacity''
                  (''resource '' @ to_string_ResourceKind k @ '' requested '' @
                   to_string_u64 (rq_amounts request k) @ '' with '' @
                   to_string_u64 (ac_capacity accounting k
                                  - (ac_reserved accounting k + ac_committed accounting k)) @
                   '' available''),
                put_shard l index (put_row shard domain accounting))
           | None \<Rightarrow>
               let counter = sh_counter shard + 1;
                   shard' = (put_row shard domain accounting)\<lparr>sh_counter := counter\<rparr>
               in if counter \<ge> push_bit kShardShift 1
                  then (bad ''reservation.id_space_exhausted'' [], put_shard l index shard')
                  else
                    let i = push_bit kShardShift (shard_prefix index) OR counter;
                        row = accounting\<lparr>
                          ac_reserved := (\<lambda>k. ac_reserved accounting k + rq_amounts request k),
                          ac_active_count := ac_active_count accounting + 1\<rparr>
                    in (Good i,
                        put_shard l index
                          (put_reservation (put_row shard' domain row) i
                             (new_reservation request i))))"

definition commit ::
    "ReservationLedger \<Rightarrow> u64 \<Rightarrow> u64 \<Rightarrow> u64 \<Rightarrow> u64 \<Rightarrow> Status \<times> ReservationLedger" where
  "commit l i domain_generation capability_generation policy_generation =
     (let index = shard_for_id l i in
      if index \<ge> rl_shard_count l then (failure ''reservation.not_found'' [], l)
      else
        let shard = rl_shards l ! index in
        case map_of (sh_reservations shard) i of
          None \<Rightarrow> (failure ''reservation.not_found'' [], l)
        | Some reservation \<Rightarrow>
            (case res_state reservation of
               ReservationState.kCommitted \<Rightarrow> (failure ''reservation.already_committed'' [], l)
             | ReservationState.kReleased \<Rightarrow> (failure ''reservation.already_released'' [], l)
             | ReservationState.kRolledBack \<Rightarrow> (failure ''reservation.already_released'' [], l)
             | ReservationState.kInvalidated \<Rightarrow> (failure ''reservation.already_released'' [], l)
             | ReservationState.kActive \<Rightarrow>
                 if res_domain_generation reservation \<noteq> domain_generation
                 then (failure ''reservation.stale_domain_generation'' [], l)
                 else if res_capability_generation reservation \<noteq> capability_generation
                 then (failure ''reservation.stale_capability_generation'' [], l)
                 else if res_policy_generation reservation \<noteq> policy_generation
                 then (failure ''reservation.stale_policy_generation'' [], l)
                 else
                   let domain = res_domain reservation;
                       accounting = row_of shard domain;
                       row = accounting\<lparr>
                         ac_reserved := (\<lambda>k. ac_reserved accounting k - res_amounts reservation k),
                         ac_committed := (\<lambda>k. ac_committed accounting k + res_amounts reservation k),
                         ac_active_count := ac_active_count accounting - 1,
                         ac_committed_count := ac_committed_count accounting + 1\<rparr>
                   in (success,
                       put_shard l index
                         (put_reservation (put_row shard domain row) i
                            (reservation\<lparr>res_state := ReservationState.kCommitted\<rparr>)))))"

text \<open>Returning the amounts of a reservation that leaves the pool.\<close>

definition drop_active :: "DomainAccounting \<Rightarrow> Reservation \<Rightarrow> DomainAccounting" where
  "drop_active accounting reservation =
     accounting\<lparr>
       ac_reserved := (\<lambda>k. ac_reserved accounting k - res_amounts reservation k),
       ac_active_count := ac_active_count accounting - 1\<rparr>"

definition drop_committed :: "DomainAccounting \<Rightarrow> Reservation \<Rightarrow> DomainAccounting" where
  "drop_committed accounting reservation =
     accounting\<lparr>
       ac_committed := (\<lambda>k. ac_committed accounting k - res_amounts reservation k),
       ac_committed_count := ac_committed_count accounting - 1\<rparr>"

definition release_reservation ::
    "ReservationLedger \<Rightarrow> u64 \<Rightarrow> string \<Rightarrow> Status \<times> ReservationLedger" where
  "release_reservation l i reason =
     (let index = shard_for_id l i in
      if index \<ge> rl_shard_count l then (failure ''reservation.not_found'' [], l)
      else
        let shard = rl_shards l ! index in
        case map_of (sh_reservations shard) i of
          None \<Rightarrow> (failure ''reservation.not_found'' [], l)
        | Some reservation \<Rightarrow>
            let domain = res_domain reservation;
                accounting = row_of shard domain;
                touched = put_shard l index (put_row shard domain accounting);
                close = (\<lambda>row. (success,
                  put_shard l index
                    (put_reservation
                       (put_row shard domain
                          (row\<lparr>ac_released_count := ac_released_count row + 1\<rparr>)) i
                       (reservation\<lparr>res_state := ReservationState.kReleased,
                                    res_close_reason := bounded_text reason kMaxTextLength\<rparr>))))
            in (case res_state reservation of
                  ReservationState.kActive \<Rightarrow> close (drop_active accounting reservation)
                | ReservationState.kCommitted \<Rightarrow> close (drop_committed accounting reservation)
                | ReservationState.kReleased \<Rightarrow>
                    (failure ''reservation.already_released'' [], touched)
                | ReservationState.kRolledBack \<Rightarrow>
                    (failure ''reservation.already_rolled_back'' [], touched)
                | ReservationState.kInvalidated \<Rightarrow>
                    (failure ''reservation.already_invalidated'' [], touched)))"

definition rollback ::
    "ReservationLedger \<Rightarrow> u64 \<Rightarrow> string \<Rightarrow> Status \<times> ReservationLedger" where
  "rollback l i reason =
     (let index = shard_for_id l i in
      if index \<ge> rl_shard_count l then (failure ''reservation.not_found'' [], l)
      else
        let shard = rl_shards l ! index in
        case map_of (sh_reservations shard) i of
          None \<Rightarrow> (failure ''reservation.not_found'' [], l)
        | Some reservation \<Rightarrow>
            if res_state reservation \<noteq> ReservationState.kActive
            then (failure (if res_state reservation = ReservationState.kCommitted
                           then ''reservation.already_committed''
                           else ''reservation.already_released'') [], l)
            else
              let domain = res_domain reservation;
                  row = drop_active (row_of shard domain) reservation
              in (success,
                  put_shard l index
                    (put_reservation
                       (put_row shard domain
                          (row\<lparr>ac_rolled_back_count := ac_rolled_back_count row + 1\<rparr>)) i
                       (reservation\<lparr>res_state := ReservationState.kRolledBack,
                                    res_close_reason := bounded_text reason kMaxTextLength\<rparr>))))"

text \<open>The loop of \<^verbatim>\<open>invalidate_domain\<close>: reservations, accounting row, number affected.\<close>

fun invalidate_loop ::
    "u64 \<Rightarrow> string \<Rightarrow> Reservation umap \<Rightarrow> DomainAccounting \<Rightarrow>
       Reservation umap \<times> DomainAccounting \<times> nat" where
  "invalidate_loop domain reason [] accounting = ([], accounting, 0)"
| "invalidate_loop domain reason ((i, reservation) # rest) accounting =
     (let closed = reservation\<lparr>res_state := ReservationState.kInvalidated,
                              res_close_reason := bounded_text reason kMaxTextLength\<rparr>;
          keep = (case invalidate_loop domain reason rest accounting of
                    (rs, row, n) \<Rightarrow> ((i, reservation) # rs, row, n));
          close = (\<lambda>row. case invalidate_loop domain reason rest
                             (row\<lparr>ac_invalidated_count := ac_invalidated_count row + 1\<rparr>) of
                           (rs, row', n) \<Rightarrow> ((i, closed) # rs, row', Suc n))
      in if res_domain reservation \<noteq> domain then keep
         else if res_state reservation = ReservationState.kActive
         then close (drop_active accounting reservation)
         else if res_state reservation = ReservationState.kCommitted
         then close (drop_committed accounting reservation)
         else keep)"

definition invalidate_domain ::
    "ReservationLedger \<Rightarrow> u64 \<Rightarrow> string \<Rightarrow> nat \<times> ReservationLedger" where
  "invalidate_domain l domain reason =
     (let index = shard_for_domain l domain;
          shard = rl_shards l ! index
      in case invalidate_loop domain reason (sh_reservations shard) (row_of shard domain) of
           (rs, row, affected) \<Rightarrow>
             (affected,
              put_shard l index (put_row (shard\<lparr>sh_reservations := rs\<rparr>) domain row)))"

definition get_reservation :: "ReservationLedger \<Rightarrow> u64 \<Rightarrow> Reservation option" where
  "get_reservation l i =
     (let index = shard_for_id l i in
      if index \<ge> rl_shard_count l then None
      else map_of (sh_reservations (rl_shards l ! index)) i)"

definition list_reservations :: "ReservationLedger \<Rightarrow> nat \<Rightarrow> Reservation list" where
  "list_reservations l limit =
     take limit
       (sort_by res_id (concat (map (\<lambda>sh. map snd (sh_reservations sh)) (rl_shards l))))"

definition has_capacity :: "ReservationLedger \<Rightarrow> u64 \<Rightarrow> ResourceAmounts \<Rightarrow> bool" where
  "has_capacity l domain amounts =
     (let shard = rl_shards l ! shard_for_domain l domain in
      case map_of (sh_accounting shard) domain of
        None \<Rightarrow> list_all (\<lambda>k. amounts k = 0) all_ResourceKind
      | Some accounting \<Rightarrow> \<not> list_ex (exceeds_row accounting amounts) all_ResourceKind)"

definition outstanding :: "Reservation \<Rightarrow> bool" where
  "outstanding r =
     (res_state r = ReservationState.kActive \<or> res_state r = ReservationState.kCommitted)"

definition outstanding_count :: "ReservationLedger \<Rightarrow> u64" where
  "outstanding_count l =
     of_nat (length (filter (\<lambda>e. outstanding (snd e)) (concat (map sh_reservations (rl_shards l)))))"

text \<open>One row of \<^verbatim>\<open>audit\<close>: the sums and counts recomputed from the reservations of the shard.\<close>

definition row_members :: "ReservationState \<Rightarrow> u64 \<Rightarrow> Reservation umap \<Rightarrow> Reservation list" where
  "row_members st domain rs =
     filter (\<lambda>r. res_domain r = domain \<and> res_state r = st) (map snd rs)"

definition audit_row_ok :: "Reservation umap \<Rightarrow> u64 \<Rightarrow> DomainAccounting \<Rightarrow> bool" where
  "audit_row_ok rs domain accounting =
     (let active = row_members ReservationState.kActive domain rs;
          committed = row_members ReservationState.kCommitted domain rs
      in list_all (\<lambda>k. sum_list (map (\<lambda>r. res_amounts r k) active) = ac_reserved accounting k)
           all_ResourceKind
       \<and> list_all (\<lambda>k. sum_list (map (\<lambda>r. res_amounts r k) committed) = ac_committed accounting k)
           all_ResourceKind
       \<and> of_nat (length active) = ac_active_count accounting
       \<and> of_nat (length committed) = ac_committed_count accounting
       \<and> list_all (\<lambda>k. \<not> ac_reserved accounting k + ac_committed accounting k
                            > ac_capacity accounting k) all_ResourceKind)"

definition audit_entry ::
    "Reservation umap \<Rightarrow> ReservationAudit \<Rightarrow> u64 \<times> DomainAccounting \<Rightarrow> ReservationAudit" where
  "audit_entry rs audit e =
     (let active = of_nat (length (row_members ReservationState.kActive (fst e) rs));
          committed = of_nat (length (row_members ReservationState.kCommitted (fst e) rs));
          checked = (if audit_row_ok rs (fst e) (snd e) then audit
                     else audit\<lparr>au_consistent := False,
                                au_detail := ''reservation accounting row mismatch''\<rparr>)
      in checked\<lparr>au_domains := au_domains checked @ [snd e],
                 au_outstanding := au_outstanding checked + (active + committed),
                 au_committed := au_committed checked + committed,
                 au_leaked := au_leaked checked + active\<rparr>)"

definition audit_shard :: "ReservationAudit \<Rightarrow> ReservationShard \<Rightarrow> ReservationAudit" where
  "audit_shard audit sh = foldl (audit_entry (sh_reservations sh)) audit (sh_accounting sh)"

definition empty_audit :: ReservationAudit where
  "empty_audit =
     \<lparr>au_consistent = True, au_outstanding = 0, au_committed = 0, au_leaked = 0, au_detail = [],
      au_domains = []\<rparr>"

definition audit_reservations :: "ReservationLedger \<Rightarrow> ReservationAudit" where
  "audit_reservations l =
     (let audit = foldl audit_shard empty_audit (rl_shards l);
          sorted = audit\<lparr>au_domains := sort_by ac_domain (au_domains audit)\<rparr>
      in if au_consistent sorted
         then sorted\<lparr>au_detail := ''reservation accounting consistent''\<rparr> else sorted)"

text \<open>\<^verbatim>\<open>adopt_ids\<close>: raise the shard counters above identities that already exist.\<close>

definition adopt_id :: "ReservationLedger \<Rightarrow> u64 \<Rightarrow> ReservationLedger" where
  "adopt_id l i =
     (let index = shard_for_id l i in
      if index \<ge> rl_shard_count l then l
      else
        let shard = rl_shards l ! index;
            counter = i AND (push_bit kShardShift 1 - 1)
        in if counter > sh_counter shard
           then put_shard l index (shard\<lparr>sh_counter := counter\<rparr>) else l)"

definition adopt_reservation_ids :: "ReservationLedger \<Rightarrow> u64 list \<Rightarrow> ReservationLedger" where
  "adopt_reservation_ids l ids = foldl adopt_id l ids"

section \<open>The accounting invariant\<close>

text \<open>What a reservation contributes to the row of a domain.\<close>

definition held_as :: "ReservationState \<Rightarrow> u64 \<Rightarrow> ResourceKind \<Rightarrow> u64 \<times> Reservation \<Rightarrow> nat" where
  "held_as st d k e =
     (if res_domain (snd e) = d \<and> res_state (snd e) = st then unat (res_amounts (snd e) k) else 0)"

definition count_as :: "ReservationState \<Rightarrow> u64 \<Rightarrow> u64 \<times> Reservation \<Rightarrow> nat" where
  "count_as st d e = (if res_domain (snd e) = d \<and> res_state (snd e) = st then 1 else 0)"

abbreviation "held_active \<equiv> held_as ReservationState.kActive"
abbreviation "held_committed \<equiv> held_as ReservationState.kCommitted"

definition row_inv :: "Reservation umap \<Rightarrow> u64 \<Rightarrow> DomainAccounting \<Rightarrow> bool" where
  "row_inv rs d a \<longleftrightarrow>
     (\<forall>k. ac_reserved a k = of_nat (asum (held_active d k) rs)
        \<and> ac_committed a k = of_nat (asum (held_committed d k) rs)
        \<and> asum (held_active d k) rs + asum (held_committed d k) rs \<le> unat (ac_capacity a k))
     \<and> ac_active_count a = of_nat (asum (count_as ReservationState.kActive d) rs)
     \<and> ac_committed_count a = of_nat (asum (count_as ReservationState.kCommitted d) rs)"

definition entry_inv :: "nat \<Rightarrow> nat \<Rightarrow> ReservationShard \<Rightarrow> u64 \<times> Reservation \<Rightarrow> bool" where
  "entry_inv n i sh e \<longleftrightarrow>
     res_id (snd e) = fst e
     \<and> unat (drop_bit kShardShift (fst e)) = Suc i
     \<and> take_bit kShardShift (fst e) \<le> sh_counter sh
     \<and> unat (strong_id_hash (res_domain (snd e))) mod n = i
     \<and> res_domain (snd e) \<in> fst ` set (sh_accounting sh)"

definition shard_inv :: "nat \<Rightarrow> nat \<Rightarrow> ReservationShard \<Rightarrow> bool" where
  "shard_inv n i sh \<longleftrightarrow>
     dkeys (sh_reservations sh) \<and> dkeys (sh_accounting sh)
     \<and> (\<forall>e \<in> set (sh_reservations sh). entry_inv n i sh e)
     \<and> (\<forall>e \<in> set (sh_accounting sh).
           unat (strong_id_hash (fst e)) mod n = i \<and> row_inv (sh_reservations sh) (fst e) (snd e))"

definition ledger_inv :: "ReservationLedger \<Rightarrow> bool" where
  "ledger_inv l \<longleftrightarrow>
     0 < rl_shard_count l \<and> rl_shard_count l < kMaxShards
     \<and> length (rl_shards l) = rl_shard_count l
     \<and> (\<forall>i < rl_shard_count l. shard_inv (rl_shard_count l) i (rl_shards l ! i))"

subsection \<open>Rows\<close>

lemma asum_zero: "(\<And>e. e \<in> set m \<Longrightarrow> f e = 0) \<Longrightarrow> asum f m = 0"
  by (induction m) auto

lemma held_as_other [simp]: "res_domain r \<noteq> d \<Longrightarrow> held_as st d k (i, r) = 0"
  by (simp add: held_as_def)

lemma count_as_other [simp]: "res_domain r \<noteq> d \<Longrightarrow> count_as st d (i, r) = 0"
  by (simp add: count_as_def)

lemma row_inv_frame:
  assumes "row_inv rs d a"
    and "\<And>st k. asum (held_as st d k) rs' = asum (held_as st d k) rs"
    and "\<And>st. asum (count_as st d) rs' = asum (count_as st d) rs"
  shows "row_inv rs' d a"
  using assms by (simp add: row_inv_def)

lemma row_inv_sums:
  assumes "row_inv rs d a"
  shows "unat (ac_reserved a k) = asum (held_active d k) rs"
    and "unat (ac_committed a k) = asum (held_committed d k) rs"
    and "unat (ac_reserved a k + ac_committed a k) = unat (ac_reserved a k) + unat (ac_committed a k)"
    and "unat (ac_reserved a k) + unat (ac_committed a k) \<le> unat (ac_capacity a k)"
proof -
  let ?A = "asum (held_active d k) rs" and ?C = "asum (held_committed d k) rs"
  have eq: "ac_reserved a k = of_nat ?A" "ac_committed a k = of_nat ?C"
    and le: "?A + ?C \<le> unat (ac_capacity a k)"
    using assms by (auto simp: row_inv_def)
  have lt: "?A + ?C < 2 ^ 64" using le unat_lt_u64 [of "ac_capacity a k"] by linarith
  show A: "unat (ac_reserved a k) = ?A" and C: "unat (ac_committed a k) = ?C"
    using lt eq by (simp_all add: unat_of_nat)
  show "unat (ac_reserved a k + ac_committed a k) = unat (ac_reserved a k) + unat (ac_committed a k)"
    using lt A C by (simp add: unat_word_ariths)
  show "unat (ac_reserved a k) + unat (ac_committed a k) \<le> unat (ac_capacity a k)"
    using le A C by simp
qed

lemma shard_invD:
  assumes "shard_inv n i sh"
  shows "dkeys (sh_reservations sh)" and "dkeys (sh_accounting sh)"
    and "map_of (sh_reservations sh) j = Some r \<Longrightarrow> entry_inv n i sh (j, r)"
    and "map_of (sh_accounting sh) d = Some a \<Longrightarrow>
           unat (strong_id_hash d) mod n = i \<and> row_inv (sh_reservations sh) d a"
  using assms by (auto simp: shard_inv_def dest: map_of_SomeD)

lemma row_inv_row_of:
  assumes "shard_inv n i sh"
  shows "row_inv (sh_reservations sh) d (row_of sh d)"
proof (cases "map_of (sh_accounting sh) d")
  case (Some a)
  with shard_invD(4) [OF assms Some] show ?thesis by (simp add: row_of_def get_or_def)
next
  case None
  then have d: "d \<notin> fst ` set (sh_accounting sh)" by (simp add: map_of_eq_None_iff)
  then have other: "res_domain (snd e) \<noteq> d" if "e \<in> set (sh_reservations sh)" for e
    using assms that by (auto simp: shard_inv_def entry_inv_def)
  have "asum (held_as st d k) (sh_reservations sh) = 0" for st k
    using other by (intro asum_zero) (auto simp: held_as_def)
  moreover have "asum (count_as st d) (sh_reservations sh) = 0" for st
    using other by (intro asum_zero) (auto simp: count_as_def)
  ultimately show ?thesis
    using None by (simp add: row_inv_def row_of_def get_or_def empty_accounting_def no_amounts_def)
qed

subsection \<open>Shard updates\<close>

lemma put_simps [simp]:
  "sh_reservations (put_row sh d a) = sh_reservations sh"
  "sh_accounting (put_row sh d a) = AList.update d a (sh_accounting sh)"
  "sh_counter (put_row sh d a) = sh_counter sh"
  "sh_reservations (put_reservation sh j r) = AList.update j r (sh_reservations sh)"
  "sh_accounting (put_reservation sh j r) = sh_accounting sh"
  "sh_counter (put_reservation sh j r) = sh_counter sh"
  "rl_shard_count (put_shard l i sh) = rl_shard_count l"
  by (simp_all add: put_row_def put_reservation_def put_shard_def)

lemma entry_inv_mono:
  assumes "entry_inv n i sh e" and "sh_counter sh \<le> sh_counter sh'"
    and "fst ` set (sh_accounting sh) \<subseteq> fst ` set (sh_accounting sh')"
  shows "entry_inv n i sh' e"
  using assms by (auto simp: entry_inv_def)

lemma shard_inv_put_row:
  assumes "shard_inv n i sh" and "unat (strong_id_hash d) mod n = i"
    and "row_inv (sh_reservations sh) d a"
  shows "shard_inv n i (put_row sh d a)"
  using assms
  by (auto simp: shard_inv_def set_update_distinct entry_inv_def dom_update)

lemma put_shard_inv:
  assumes "ledger_inv l" and "i < rl_shard_count l" and "shard_inv (rl_shard_count l) i sh"
  shows "ledger_inv (put_shard l i sh)"
  using assms by (auto simp: ledger_inv_def put_shard_def nth_list_update)

lemma shard_for_domain_lt: "ledger_inv l \<Longrightarrow> shard_for_domain l d < rl_shard_count l"
  by (simp add: ledger_inv_def shard_for_domain_def)

lemma ledger_shard: "ledger_inv l \<Longrightarrow> i < rl_shard_count l \<Longrightarrow> shard_inv (rl_shard_count l) i (rl_shards l ! i)"
  by (simp add: ledger_inv_def)

text \<open>Replacing a reservation of a shard together with the row of its domain.\<close>

lemma shard_inv_put_reservation:
  assumes inv: "shard_inv n i sh" and old: "map_of (sh_reservations sh) j = Some r"
    and same: "res_id r' = res_id r" "res_domain r' = res_domain r"
    and row: "row_inv (AList.update j r' (sh_reservations sh)) (res_domain r) a"
  shows "shard_inv n i (put_reservation (put_row sh (res_domain r) a) j r')"
proof -
  let ?rs = "AList.update j r' (sh_reservations sh)"
  note dk = shard_invD(1,2) [OF inv]
  have e: "entry_inv n i sh (j, r)" using shard_invD(3) [OF inv old] .
  then have e': "entry_inv n i sh (j, r')" using same by (simp add: entry_inv_def)
  have frame: "row_inv ?rs d b" if "(d, b) \<in> set (sh_accounting sh)" "d \<noteq> res_domain r" for d b
  proof (rule row_inv_frame)
    show "row_inv (sh_reservations sh) d b" using inv that by (auto simp: shard_inv_def)
    show "asum (held_as st d k) ?rs = asum (held_as st d k) (sh_reservations sh)" for st k
      using asum_update_old [OF dk(1) old, of "held_as st d k" r'] that same by simp
    show "asum (count_as st d) ?rs = asum (count_as st d) (sh_reservations sh)" for st
      using asum_update_old [OF dk(1) old, of "count_as st d" r'] that same by simp
  qed
  have hash: "unat (strong_id_hash (res_domain r)) mod n = i"
    using e by (simp add: entry_inv_def)
  let ?sh = "put_reservation (put_row sh (res_domain r) a) j r'"
  have mono: "entry_inv n i ?sh e" if "entry_inv n i sh e" for e
    using that by (rule entry_inv_mono) (auto simp: dom_update)
  have "entry_inv n i ?sh e" if "e \<in> set (sh_reservations ?sh)" for e
    using that inv dk e' by (auto simp: set_update_distinct shard_inv_def intro: mono)
  moreover have "unat (strong_id_hash (fst e)) mod n = i \<and> row_inv ?rs (fst e) (snd e)"
    if "e \<in> set (sh_accounting ?sh)" for e
    using that inv dk row hash frame
    by (auto simp: set_update_distinct shard_inv_def)
  ultimately show ?thesis
    using dk by (simp add: shard_inv_def [of n i ?sh])
qed

subsection \<open>Row transitions\<close>

text \<open>The row after one reservation changes its state, from the sums before and after.\<close>

definition moves :: "Reservation umap \<Rightarrow> u64 \<Rightarrow> Reservation \<Rightarrow> Reservation \<Rightarrow> bool" where
  "moves rs j r r' \<longleftrightarrow>
     dkeys rs \<and> map_of rs j = Some r \<and> res_domain r' = res_domain r
     \<and> res_amounts r' = res_amounts r"

lemma moves_held:
  assumes "moves rs j r r'"
  shows "asum (held_as st (res_domain r) k) (AList.update j r' rs) =
           asum (held_as st (res_domain r) k) rs
           - (if res_state r = st then unat (res_amounts r k) else 0)
           + (if res_state r' = st then unat (res_amounts r k) else 0)"
    and "res_state r = st \<Longrightarrow> unat (res_amounts r k) \<le> asum (held_as st (res_domain r) k) rs"
  using assms asum_update_old [of rs j r "held_as st (res_domain r) k" r']
    asum_ge [of rs j r "held_as st (res_domain r) k"]
  by (auto simp: moves_def held_as_def)

lemma moves_count:
  assumes "moves rs j r r'"
  shows "asum (count_as st (res_domain r)) (AList.update j r' rs) =
           asum (count_as st (res_domain r)) rs - of_bool (res_state r = st)
           + of_bool (res_state r' = st)"
    and "res_state r = st \<Longrightarrow> 1 \<le> asum (count_as st (res_domain r)) rs"
  using assms asum_update_old [of rs j r "count_as st (res_domain r)" r']
    asum_ge [of rs j r "count_as st (res_domain r)"]
  by (auto simp: moves_def count_as_def split: if_splits)

lemma row_inv_commit:
  assumes row: "row_inv rs (res_domain r) a" and m: "moves rs j r r'"
    and st: "res_state r = ReservationState.kActive" "res_state r' = ReservationState.kCommitted"
  shows "row_inv (AList.update j r' rs) (res_domain r)
           (a\<lparr>ac_reserved := (\<lambda>k. ac_reserved a k - res_amounts r k),
              ac_committed := (\<lambda>k. ac_committed a k + res_amounts r k),
              ac_active_count := ac_active_count a - 1,
              ac_committed_count := ac_committed_count a + 1\<rparr>)"
  using row moves_held(2) [OF m st(1)] moves_count(2) [OF m st(1)]
  by (simp add: row_inv_def moves_held(1) [OF m] moves_count(1) [OF m] st of_nat_diff)

lemma row_inv_drop_active:
  assumes row: "row_inv rs (res_domain r) a" and m: "moves rs j r r'"
    and st: "res_state r = ReservationState.kActive" "\<not> outstanding r'"
  shows "row_inv (AList.update j r' rs) (res_domain r) (drop_active a r)"
proof -
  have "res_state r' \<noteq> ReservationState.kActive" "res_state r' \<noteq> ReservationState.kCommitted"
    using st(2) by (auto simp: outstanding_def)
  then show ?thesis
    using row moves_held(2) [OF m st(1)] moves_count(2) [OF m st(1)]
    by (auto simp: row_inv_def drop_active_def moves_held(1) [OF m] moves_count(1) [OF m] st
          of_nat_diff intro: le_trans [rotated])
qed

lemma row_inv_drop_committed:
  assumes row: "row_inv rs (res_domain r) a" and m: "moves rs j r r'"
    and st: "res_state r = ReservationState.kCommitted" "\<not> outstanding r'"
  shows "row_inv (AList.update j r' rs) (res_domain r) (drop_committed a r)"
proof -
  have "res_state r' \<noteq> ReservationState.kActive" "res_state r' \<noteq> ReservationState.kCommitted"
    using st(2) by (auto simp: outstanding_def)
  then show ?thesis
    using row moves_held(2) [OF m st(1)] moves_count(2) [OF m st(1)]
    by (auto simp: row_inv_def drop_committed_def moves_held(1) [OF m] moves_count(1) [OF m] st
          of_nat_diff intro: le_trans [rotated])
qed

lemma row_inv_counters [simp]:
  "row_inv rs d (a\<lparr>ac_released_count := x\<rparr>) = row_inv rs d a"
  "row_inv rs d (a\<lparr>ac_rolled_back_count := x\<rparr>) = row_inv rs d a"
  "row_inv rs d (a\<lparr>ac_invalidated_count := x\<rparr>) = row_inv rs d a"
  "row_inv rs d (a\<lparr>ac_domain := x\<rparr>) = row_inv rs d a"
  by (simp_all add: row_inv_def)

subsection \<open>Reservation identities\<close>

text \<open>
  The identity of a reservation is the shard number plus one in the top byte and the shard
  counter below; the two are recovered as long as the shard number fits the byte.
\<close>

definition shard_id :: "nat \<Rightarrow> u64 \<Rightarrow> u64" where
  "shard_id index counter = push_bit kShardShift (shard_prefix index) OR counter"

lemma unat_drop56: "unat (drop_bit kShardShift (w :: u64)) = unat w div 2 ^ 56"
  by (simp add: kShardShift_def drop_bit_eq_div unat_div)

lemma unat_take56: "unat (take_bit kShardShift (w :: u64)) = unat w mod 2 ^ 56"
  by (simp add: kShardShift_def take_bit_eq_mod unat_mod)

lemma bound56: "(w :: u64) < push_bit kShardShift 1 \<longleftrightarrow> unat w < 2 ^ 56"
  by (simp add: kShardShift_def word_less_nat_alt)

lemma shard_id_parts:
  assumes "index < 255" and "counter < push_bit kShardShift 1"
  shows "unat (drop_bit kShardShift (shard_id index counter)) = Suc index"
    and "take_bit kShardShift (shard_id index counter) = counter"
proof -
  have c: "unat counter < 2 ^ 56" using assms(2) by (simp only: bound56)
  have p: "unat (shard_prefix index) = Suc index"
    using assms(1) by (simp add: shard_prefix_def unat_of_nat del: of_nat_add of_nat_Suc)
  have hi: "drop_bit kShardShift (push_bit kShardShift (shard_prefix index)) = shard_prefix index"
  proof -
    have "unat (push_bit kShardShift (shard_prefix index)) = Suc index * 2 ^ 56"
      using assms(1) p by (simp add: kShardShift_def push_bit_eq_mult unat_word_ariths)
    then have "unat (drop_bit kShardShift (push_bit kShardShift (shard_prefix index))) = Suc index"
      by (simp only: unat_drop56) simp
    then show ?thesis using p by (metis word_unat_eq_iff)
  qed
  have lo: "drop_bit kShardShift counter = 0" "take_bit kShardShift counter = counter"
    using c unat_drop56 [of counter] unat_take56 [of counter]
    by (simp_all add: word_unat_eq_iff)
  show "unat (drop_bit kShardShift (shard_id index counter)) = Suc index"
    by (simp add: shard_id_def drop_bit_or hi lo p)
  show "take_bit kShardShift (shard_id index counter) = counter"
    by (simp add: shard_id_def take_bit_or lo take_bit_push_bit)
qed

lemma shard_for_id_entry:
  assumes "unat (drop_bit kShardShift j) = Suc i" and "i < rl_shard_count l"
  shows "shard_for_id l j = i"
  using assms by (simp add: shard_for_id_def Let_def)

subsection \<open>Operations keep the invariant\<close>

lemma not_exceeds:
  assumes "\<not> exceeds_row a amounts k" and "row_inv rs d a"
  shows "unat (ac_reserved a k) + unat (ac_committed a k) + unat (amounts k) \<le> unat (ac_capacity a k)"
proof -
  note sums = row_inv_sums(3,4) [OF assms(2), of k]
  show ?thesis
  proof (cases "amounts k = 0")
    case True
    then show ?thesis using sums by simp
  next
    case False
    then have w: "amounts k \<le> ac_capacity a k"
      and h: "ac_reserved a k + ac_committed a k \<le> ac_capacity a k - amounts k"
      using assms(1) by (auto simp: exceeds_row_def Let_def not_less)
    have "unat (ac_capacity a k - amounts k) = unat (ac_capacity a k) - unat (amounts k)"
      using w by (simp add: unat_sub)
    then show ?thesis
      using h w sums(1) by (simp add: word_le_nat_alt)
  qed
qed

lemma row_inv_acquire:
  assumes row: "row_inv rs d a" and new: "map_of rs j = None"
    and r: "res_domain r = d" "res_state r = ReservationState.kActive"
    and room: "\<And>k. unat (ac_reserved a k) + unat (ac_committed a k) + unat (res_amounts r k)
                     \<le> unat (ac_capacity a k)"
  shows "row_inv (AList.update j r rs) d
           (a\<lparr>ac_reserved := (\<lambda>k. ac_reserved a k + res_amounts r k),
              ac_active_count := ac_active_count a + 1\<rparr>)"
proof -
  have "asum (held_active d k) rs + unat (res_amounts r k) + asum (held_committed d k) rs
          \<le> unat (ac_capacity a k)" for k
    using room [of k] row_inv_sums(1,2) [OF row, of k] by simp
  then show ?thesis
    using row r by (auto simp: row_inv_def asum_update_new [OF new] held_as_def count_as_def)
qed

lemma shard_inv_acquire:
  assumes inv: "shard_inv n i sh" and hash: "unat (strong_id_hash d) mod n = i"
    and ctr: "sh_counter sh < c" and id: "unat (drop_bit kShardShift j) = Suc i"
      "take_bit kShardShift j = c"
    and r: "res_domain r = d" "res_state r = ReservationState.kActive" "res_id r = j"
    and room: "\<And>k. \<not> exceeds_row (row_of sh d) (res_amounts r) k"
    and a: "a = (row_of sh d)\<lparr>ac_domain := d\<rparr>"
  shows "shard_inv n i
           (put_reservation
              (put_row ((put_row sh d a)\<lparr>sh_counter := c\<rparr>) d
                 (a\<lparr>ac_reserved := (\<lambda>k. ac_reserved a k + res_amounts r k),
                    ac_active_count := ac_active_count a + 1\<rparr>)) j r)"
    (is "shard_inv n i ?sh")
proof -
  let ?rs = "AList.update j r (sh_reservations sh)"
  note dk = shard_invD(1,2) [OF inv]
  have new: "map_of (sh_reservations sh) j = None"
  proof (cases "map_of (sh_reservations sh) j")
    case (Some x)
    then have "take_bit kShardShift j \<le> sh_counter sh"
      using shard_invD(3) [OF inv Some] by (simp add: entry_inv_def)
    with ctr id show ?thesis by simp
  qed simp
  have row: "row_inv (sh_reservations sh) d a"
    using row_inv_row_of [OF inv, of d] a by simp
  have "unat (ac_reserved a k) + unat (ac_committed a k) + unat (res_amounts r k)
          \<le> unat (ac_capacity a k)" for k
    using not_exceeds [OF room row_inv_row_of [OF inv]] a by simp
  then have row': "row_inv ?rs d (a\<lparr>ac_reserved := (\<lambda>k. ac_reserved a k + res_amounts r k),
                                   ac_active_count := ac_active_count a + 1\<rparr>)"
    by (rule row_inv_acquire [OF row new r(1,2)])
  have frame: "row_inv ?rs e b" if "(e, b) \<in> set (sh_accounting sh)" "e \<noteq> d" for e b
  proof (rule row_inv_frame)
    show "row_inv (sh_reservations sh) e b" using inv that by (auto simp: shard_inv_def)
  qed (use that r in \<open>simp_all add: asum_update_new [OF new]\<close>)
  have mono: "entry_inv n i ?sh e" if "entry_inv n i sh e" for e
    using that by (rule entry_inv_mono) (use ctr in \<open>auto simp: dom_update\<close>)
  have "entry_inv n i ?sh (j, r)"
    using r id hash by (simp add: entry_inv_def dom_update)
  then have "entry_inv n i ?sh e" if "e \<in> set (sh_reservations ?sh)" for e
    using that inv dk by (auto simp: set_update_distinct shard_inv_def intro: mono)
  moreover have "unat (strong_id_hash (fst e)) mod n = i \<and> row_inv ?rs (fst e) (snd e)"
    if "e \<in> set (sh_accounting ?sh)" for e
    using that inv dk row' hash frame
    by (auto simp: set_update_distinct shard_inv_def)
  ultimately show ?thesis
    using dk by (simp add: shard_inv_def [of n i ?sh])
qed

lemma set_capacity_inv:
  assumes "ledger_inv l"
  shows "ledger_inv (snd (set_capacity l d cap))"
proof -
  let ?i = "shard_for_domain l d"
  let ?sh = "rl_shards l ! ?i"
  let ?a = "row_of ?sh d"
  note i = shard_for_domain_lt [OF assms, of d]
  note inv = ledger_shard [OF assms i]
  have hash: "unat (strong_id_hash d) mod rl_shard_count l = ?i"
    by (simp add: shard_for_domain_def)
  note row = row_inv_row_of [OF inv, of d]
  show ?thesis
  proof (cases "find (\<lambda>k. ac_reserved ?a k + ac_committed ?a k > cap k) all_ResourceKind")
    case None
    then have "unat (ac_reserved ?a k + ac_committed ?a k) \<le> unat (cap k)" for k
      by (auto simp: find_None_iff not_less word_le_nat_alt)
    then have "row_inv (sh_reservations ?sh) d (?a\<lparr>ac_domain := d, ac_capacity := cap\<rparr>)"
      using row row_inv_sums [OF row] by (simp add: row_inv_def)
    then show ?thesis
      using None by (simp add: set_capacity_def Let_def put_shard_inv [OF assms i]
        shard_inv_put_row [OF inv hash])
  next
    case (Some k)
    then show ?thesis
      using row by (simp add: set_capacity_def Let_def put_shard_inv [OF assms i]
        shard_inv_put_row [OF inv hash])
  qed
qed

lemma shard_inv_counter:
  "shard_inv n i sh \<Longrightarrow> sh_counter sh \<le> c \<Longrightarrow> shard_inv n i (sh\<lparr>sh_counter := c\<rparr>)"
  by (auto simp: shard_inv_def entry_inv_def)

text \<open>The four outcomes of \<^const>\<open>acquire\<close>, with the ledger each leaves.\<close>

definition acquired_row :: "ReservationShard \<Rightarrow> ReservationRequest \<Rightarrow> DomainAccounting" where
  "acquired_row sh request = (row_of sh (rq_domain request))\<lparr>ac_domain := rq_domain request\<rparr>"

definition acquired_shard :: "nat \<Rightarrow> ReservationShard \<Rightarrow> ReservationRequest \<Rightarrow> ReservationShard" where
  "acquired_shard index sh request =
     (let d = rq_domain request; a = acquired_row sh request; c = sh_counter sh + 1;
          i = shard_id index c
      in put_reservation
           (put_row ((put_row sh d a)\<lparr>sh_counter := c\<rparr>) d
              (a\<lparr>ac_reserved := (\<lambda>k. ac_reserved a k + rq_amounts request k),
                 ac_active_count := ac_active_count a + 1\<rparr>)) i
           (new_reservation request i))"

lemma acquire_cases:
  fixes l request
  defines "index \<equiv> shard_for_domain l (rq_domain request)"
  defines "sh \<equiv> rl_shards l ! index"
  obtains
    (invalid) c m where "\<not> valid (rq_domain request)" "acquire l request = (bad c m, l)"
  | (refused) k c m where "valid (rq_domain request)" "exceeds_row (row_of sh (rq_domain request)) (rq_amounts request) k"
      "acquire l request =
         (bad c m, put_shard l index (put_row sh (rq_domain request) (acquired_row sh request)))"
  | (exhausted) c m where "valid (rq_domain request)" "push_bit kShardShift 1 \<le> sh_counter sh + 1"
      "\<And>k. \<not> exceeds_row (row_of sh (rq_domain request)) (rq_amounts request) k"
      "acquire l request =
         (bad c m, put_shard l index
            ((put_row sh (rq_domain request) (acquired_row sh request))\<lparr>sh_counter := sh_counter sh + 1\<rparr>))"
  | (granted) "valid (rq_domain request)" "sh_counter sh + 1 < push_bit kShardShift 1"
      "\<And>k. \<not> exceeds_row (row_of sh (rq_domain request)) (rq_amounts request) k"
      "acquire l request =
         (Good (shard_id index (sh_counter sh + 1)), put_shard l index (acquired_shard index sh request))"
proof -
  have ex: "exceeds_row (acquired_row sh request) = exceeds_row (row_of sh (rq_domain request))"
    by (intro ext) (simp add: exceeds_row_def acquired_row_def)
  note defs = acquire_def Let_def index_def [symmetric] sh_def [symmetric] acquired_row_def [symmetric]
  show ?thesis
  proof (cases "valid (rq_domain request)")
    case False
    then show ?thesis by (intro invalid) (simp_all add: acquire_def)
  next
    case v: True
    show ?thesis
    proof (cases "find (exceeds_row (acquired_row sh request) (rq_amounts request)) all_ResourceKind")
      case (Some k)
      then have "exceeds_row (acquired_row sh request) (rq_amounts request) k"
        by (auto simp: find_Some_iff)
      with v Some show ?thesis by (intro refused [of k]) (auto simp: defs ex)
    next
      case None
      then have "\<not> exceeds_row (row_of sh (rq_domain request)) (rq_amounts request) k" for k
        by (simp add: find_None_iff ex)
      with v None show ?thesis
        by (cases "push_bit kShardShift 1 \<le> sh_counter sh + 1")
           (auto simp: defs acquired_shard_def shard_id_def not_le intro: exhausted granted)
    qed
  qed
qed

lemma acquire_inv:
  assumes l: "ledger_inv l"
    and ctr: "sh_counter (rl_shards l ! shard_for_domain l (rq_domain request)) \<noteq> kSaturated"
  shows "ledger_inv (snd (acquire l request))"
proof -
  let ?d = "rq_domain request"
  let ?i = "shard_for_domain l ?d"
  let ?sh = "rl_shards l ! ?i"
  let ?c = "sh_counter ?sh + 1"
  note i = shard_for_domain_lt [OF l, of ?d]
  note inv = ledger_shard [OF l i]
  have hash: "unat (strong_id_hash ?d) mod rl_shard_count l = ?i"
    by (simp add: shard_for_domain_def)
  have row: "row_inv (sh_reservations ?sh) ?d (acquired_row ?sh request)"
    using row_inv_row_of [OF inv, of ?d] by (simp add: acquired_row_def)
  have c: "sh_counter ?sh < ?c"
    using gen_next_gt [OF ctr] ctr by (simp add: gen_next_def)
  note put = put_shard_inv [OF l i] and put_row = shard_inv_put_row [OF inv hash row]
  show ?thesis
  proof (cases rule: acquire_cases [of request l])
    case granted
    have "?i < 255" using i l by (simp add: ledger_inv_def kMaxShards_def)
    note ids = shard_id_parts [OF this granted(2)]
    have "shard_inv (rl_shard_count l) ?i (acquired_shard ?i ?sh request)"
      using shard_inv_acquire [OF inv hash c ids, of "new_reservation request (shard_id ?i ?c)"
          "acquired_row ?sh request"] granted(3)
      by (simp add: new_reservation_def acquired_shard_def acquired_row_def Let_def)
    then show ?thesis using granted by (simp add: put)
  qed (use l c in \<open>simp_all add: put put_row shard_inv_counter\<close>)
qed

text \<open>The shard and the reservation that an identity names.\<close>

lemma found_reservation:
  assumes "ledger_inv l" and "shard_for_id l j < rl_shard_count l"
    and "map_of (sh_reservations (rl_shards l ! shard_for_id l j)) j = Some r"
  shows "shard_inv (rl_shard_count l) (shard_for_id l j) (rl_shards l ! shard_for_id l j)"
    and "row_inv (sh_reservations (rl_shards l ! shard_for_id l j)) (res_domain r)
           (row_of (rl_shards l ! shard_for_id l j) (res_domain r))"
    and "unat (strong_id_hash (res_domain r)) mod rl_shard_count l = shard_for_id l j"
    and "dkeys (sh_reservations (rl_shards l ! shard_for_id l j))"
proof -
  show inv: "shard_inv (rl_shard_count l) (shard_for_id l j) (rl_shards l ! shard_for_id l j)"
    by (rule ledger_shard [OF assms(1,2)])
  show "row_inv (sh_reservations (rl_shards l ! shard_for_id l j)) (res_domain r)
          (row_of (rl_shards l ! shard_for_id l j) (res_domain r))"
    by (rule row_inv_row_of [OF inv])
  show "unat (strong_id_hash (res_domain r)) mod rl_shard_count l = shard_for_id l j"
    using shard_invD(3) [OF inv assms(3)] by (simp add: entry_inv_def)
  show "dkeys (sh_reservations (rl_shards l ! shard_for_id l j))"
    by (rule shard_invD(1) [OF inv])
qed

lemma close_reservation_inv:
  assumes l: "ledger_inv l" and j: "shard_for_id l j < rl_shard_count l"
    and r: "map_of (sh_reservations (rl_shards l ! shard_for_id l j)) j = Some r"
    and same: "res_id r' = res_id r" "res_domain r' = res_domain r"
    and row: "row_inv (AList.update j r' (sh_reservations (rl_shards l ! shard_for_id l j)))
                (res_domain r) a"
  shows "ledger_inv (put_shard l (shard_for_id l j)
           (put_reservation (put_row (rl_shards l ! shard_for_id l j) (res_domain r) a) j r'))"
  by (rule put_shard_inv [OF l j]) (rule shard_inv_put_reservation [OF found_reservation(1) [OF l j r] r same row])

lemma commit_inv:
  assumes "ledger_inv l"
  shows "ledger_inv (snd (commit l j dg cg pg))"
proof -
  let ?i = "shard_for_id l j"
  let ?sh = "rl_shards l ! ?i"
  show ?thesis
  proof (cases "?i < rl_shard_count l \<and> (\<exists>r. map_of (sh_reservations ?sh) j = Some r
                 \<and> res_state r = ReservationState.kActive)")
    case True
    then obtain r where i: "?i < rl_shard_count l" and r: "map_of (sh_reservations ?sh) j = Some r"
      and st: "res_state r = ReservationState.kActive" by blast
    have "moves (sh_reservations ?sh) j r (r\<lparr>res_state := ReservationState.kCommitted\<rparr>)"
      using r found_reservation(4) [OF assms i r] by (simp add: moves_def)
    note row_inv_commit [OF found_reservation(2) [OF assms i r] this st]
    then show ?thesis
      using assms i r st by (auto simp: commit_def Let_def intro!: close_reservation_inv)
  next
    case False
    then show ?thesis
      using assms by (auto simp: commit_def Let_def split: option.splits ReservationState.splits)
  qed
qed

lemma release_inv:
  assumes "ledger_inv l"
  shows "ledger_inv (snd (release_reservation l j reason))"
proof -
  let ?i = "shard_for_id l j"
  let ?sh = "rl_shards l ! ?i"
  show ?thesis
  proof (cases "?i < rl_shard_count l \<and> (\<exists>r. map_of (sh_reservations ?sh) j = Some r)")
    case True
    then obtain r where i: "?i < rl_shard_count l" and r: "map_of (sh_reservations ?sh) j = Some r"
      by blast
    note found = found_reservation [OF assms i r]
    let ?r = "r\<lparr>res_state := ReservationState.kReleased,
                res_close_reason := bounded_text reason kMaxTextLength\<rparr>"
    have m: "moves (sh_reservations ?sh) j r ?r" and closed: "\<not> outstanding ?r"
      using r found(4) by (simp_all add: moves_def outstanding_def)
    have "ledger_inv (put_shard l ?i (put_row ?sh (res_domain r) (row_of ?sh (res_domain r))))"
      by (intro put_shard_inv [OF assms i] shard_inv_put_row found)
    then show ?thesis
      using i r row_inv_drop_active [OF found(2) m _ closed]
        row_inv_drop_committed [OF found(2) m _ closed]
      by (cases "res_state r")
         (auto simp: release_reservation_def Let_def intro!: close_reservation_inv assms)
  next
    case False
    then show ?thesis
      using assms by (auto simp: release_reservation_def Let_def split: option.splits)
  qed
qed

lemma rollback_inv:
  assumes "ledger_inv l"
  shows "ledger_inv (snd (rollback l j reason))"
proof -
  let ?i = "shard_for_id l j"
  let ?sh = "rl_shards l ! ?i"
  show ?thesis
  proof (cases "?i < rl_shard_count l \<and> (\<exists>r. map_of (sh_reservations ?sh) j = Some r
                 \<and> res_state r = ReservationState.kActive)")
    case True
    then obtain r where i: "?i < rl_shard_count l" and r: "map_of (sh_reservations ?sh) j = Some r"
      and st: "res_state r = ReservationState.kActive" by blast
    let ?r = "r\<lparr>res_state := ReservationState.kRolledBack,
                res_close_reason := bounded_text reason kMaxTextLength\<rparr>"
    have "moves (sh_reservations ?sh) j r ?r" "\<not> outstanding ?r"
      using r found_reservation(4) [OF assms i r] by (simp_all add: moves_def outstanding_def)
    note row_inv_drop_active [OF found_reservation(2) [OF assms i r] this(1) st this(2)]
    then show ?thesis
      using assms i r st by (auto simp: rollback_def Let_def intro!: close_reservation_inv)
  next
    case False
    then show ?thesis
      using assms by (auto simp: rollback_def Let_def split: option.splits)
  qed
qed

subsection \<open>Invalidation of a domain\<close>

definition invalidated :: "u64 \<Rightarrow> string \<Rightarrow> Reservation \<Rightarrow> Reservation" where
  "invalidated domain reason r =
     (if res_domain r = domain \<and> outstanding r
      then r\<lparr>res_state := ReservationState.kInvalidated,
             res_close_reason := bounded_text reason kMaxTextLength\<rparr>
      else r)"

lemma invalidated_simps [simp]:
  "res_id (invalidated d reason r) = res_id r"
  "res_domain (invalidated d reason r) = res_domain r"
  "res_domain r \<noteq> d \<Longrightarrow> invalidated d reason r = r"
  "\<not> outstanding r \<Longrightarrow> invalidated d reason r = r"
  by (simp_all add: invalidated_def)

abbreviation invalidate_all :: "u64 \<Rightarrow> string \<Rightarrow> Reservation umap \<Rightarrow> Reservation umap" where
  "invalidate_all d reason rs \<equiv> map (\<lambda>e. (fst e, invalidated d reason (snd e))) rs"

lemma invalidate_loop_rs: "fst (invalidate_loop d reason rs a) = invalidate_all d reason rs"
  by (induction rs arbitrary: a)
     (auto simp: Let_def invalidated_def outstanding_def case_prod_beta)

lemma invalidate_loop_row:
  "ac_capacity (fst (snd (invalidate_loop d reason rs a))) = ac_capacity a"
  "ac_reserved (fst (snd (invalidate_loop d reason rs a))) k =
     ac_reserved a k - of_nat (asum (held_active d k) rs)"
  "ac_committed (fst (snd (invalidate_loop d reason rs a))) k =
     ac_committed a k - of_nat (asum (held_committed d k) rs)"
  "ac_active_count (fst (snd (invalidate_loop d reason rs a))) =
     ac_active_count a - of_nat (asum (count_as ReservationState.kActive d) rs)"
  "ac_committed_count (fst (snd (invalidate_loop d reason rs a))) =
     ac_committed_count a - of_nat (asum (count_as ReservationState.kCommitted d) rs)"
  by (induction rs arbitrary: a)
     (auto simp: Let_def held_as_def count_as_def drop_active_def drop_committed_def
        case_prod_beta)

lemma invalidate_loop_count:
  "snd (snd (invalidate_loop d reason rs a)) =
     length (filter (\<lambda>e. res_domain (snd e) = d \<and> outstanding (snd e)) rs)"
  by (induction rs arbitrary: a) (auto simp: Let_def outstanding_def case_prod_beta)

lemma asum_invalidate_all:
  shows "d' \<noteq> d \<Longrightarrow> asum (held_as st d' k) (invalidate_all d reason rs) = asum (held_as st d' k) rs"
    and "d' \<noteq> d \<Longrightarrow> asum (count_as st d') (invalidate_all d reason rs) = asum (count_as st d') rs"
    and "st = ReservationState.kActive \<or> st = ReservationState.kCommitted \<Longrightarrow>
           asum (held_as st d k) (invalidate_all d reason rs) = 0"
    and "st = ReservationState.kActive \<or> st = ReservationState.kCommitted \<Longrightarrow>
           asum (count_as st d) (invalidate_all d reason rs) = 0"
  by (induction rs) (auto simp: held_as_def count_as_def invalidated_def outstanding_def)

lemma row_inv_invalidate:
  assumes "row_inv rs d a"
  shows "row_inv (invalidate_all d reason rs) d (fst (snd (invalidate_loop d reason rs a)))"
  using assms by (simp add: row_inv_def invalidate_loop_row asum_invalidate_all)

lemma map_of_invalidate_all:
  "map_of (invalidate_all d reason rs) j = map_option (invalidated d reason) (map_of rs j)"
  by (induction rs) auto

lemma invalidate_domain_eq:
  fixes l d
  defines "i \<equiv> shard_for_domain l d"
  defines "sh \<equiv> rl_shards l ! i"
  shows "snd (invalidate_domain l d reason) =
           put_shard l i (put_row (sh\<lparr>sh_reservations := invalidate_all d reason (sh_reservations sh)\<rparr>) d
             (fst (snd (invalidate_loop d reason (sh_reservations sh) (row_of sh d)))))"
  using invalidate_loop_rs [of d reason "sh_reservations sh" "row_of sh d"]
  by (auto simp: invalidate_domain_def Let_def i_def sh_def split: prod.splits)

lemma entry_inv_invalidated:
  "entry_inv n i sh (j, r) \<Longrightarrow>
     entry_inv n i (put_row (sh\<lparr>sh_reservations := rs\<rparr>) d a) (j, invalidated d reason r)"
  by (auto simp: entry_inv_def dom_update)

lemma invalidate_domain_inv:
  assumes l: "ledger_inv l"
  shows "ledger_inv (snd (invalidate_domain l d reason))"
proof -
  let ?i = "shard_for_domain l d"
  let ?sh = "rl_shards l ! ?i"
  let ?rs = "invalidate_all d reason (sh_reservations ?sh)"
  let ?a = "fst (snd (invalidate_loop d reason (sh_reservations ?sh) (row_of ?sh d)))"
  let ?sh' = "put_row (?sh\<lparr>sh_reservations := ?rs\<rparr>) d ?a"
  note i = shard_for_domain_lt [OF l, of d]
  note inv = ledger_shard [OF l i]
  have hash: "unat (strong_id_hash d) mod rl_shard_count l = ?i"
    by (simp add: shard_for_domain_def)
  have row: "row_inv ?rs d ?a"
    by (rule row_inv_invalidate [OF row_inv_row_of [OF inv]])
  have other: "row_inv ?rs e b" if "row_inv (sh_reservations ?sh) e b" "e \<noteq> d" for e b
    by (rule row_inv_frame [OF that(1)]) (simp_all add: asum_invalidate_all that(2))
  have "entry_inv (rl_shard_count l) ?i ?sh' e" if "e \<in> set ?rs" for e
    using that inv by (auto simp: shard_inv_def intro!: entry_inv_invalidated)
  moreover have "dkeys ?rs" "dkeys (sh_accounting ?sh')"
    using shard_invD(1,2) [OF inv] by (simp_all add: comp_def)
  moreover have "unat (strong_id_hash (fst e)) mod rl_shard_count l = ?i \<and> row_inv ?rs (fst e) (snd e)"
    if "e \<in> set (sh_accounting ?sh')" for e
    using that inv row hash shard_invD(2) [OF inv]
    by (auto simp: set_update_distinct shard_inv_def intro: other)
  ultimately have "shard_inv (rl_shard_count l) ?i ?sh'"
    by (simp add: shard_inv_def [of _ _ ?sh'])
  then show ?thesis
    by (simp add: invalidate_domain_eq put_shard_inv [OF l i])
qed

subsection \<open>Construction and adoption of identities\<close>

lemma new_reservation_ledger_inv:
  assumes "count < kMaxShards"
  shows "ledger_inv (new_reservation_ledger count)"
proof -
  have "shard_inv n i empty_shard" for n i
    by (simp add: shard_inv_def empty_shard_def)
  with assms show ?thesis
    by (simp add: ledger_inv_def new_reservation_ledger_def Let_def kMaxShards_def)
qed

lemma adopt_id_inv:
  assumes "ledger_inv l"
  shows "ledger_inv (adopt_id l j)"
  using assms ledger_shard [OF assms, of "shard_for_id l j"]
  by (auto simp: adopt_id_def Let_def not_le intro!: put_shard_inv shard_inv_counter)

lemma adopt_ids_inv: "ledger_inv l \<Longrightarrow> ledger_inv (adopt_reservation_ids l ids)"
  unfolding adopt_reservation_ids_def
  by (induction ids arbitrary: l) (simp_all add: adopt_id_inv)

lemmas ledger_invs = set_capacity_inv acquire_inv commit_inv release_inv rollback_inv
  invalidate_domain_inv adopt_ids_inv

subsection \<open>Reading back\<close>

lemma get_put_shard:
  assumes "length (rl_shards l) = rl_shard_count l" and "i < rl_shard_count l"
  shows "get_reservation (put_shard l i sh) j =
           (if shard_for_id l j = i then map_of (sh_reservations sh) j else get_reservation l j)"
  using assms by (auto simp: get_reservation_def put_shard_def Let_def shard_for_id_def)

lemma ledger_length: "ledger_inv l \<Longrightarrow> length (rl_shards l) = rl_shard_count l"
  by (simp add: ledger_inv_def)

lemma get_reservation_found:
  "get_reservation l j = Some r \<longleftrightarrow>
     shard_for_id l j < rl_shard_count l
     \<and> map_of (sh_reservations (rl_shards l ! shard_for_id l j)) j = Some r"
  by (auto simp: get_reservation_def Let_def)

lemma get_same_reservations:
  assumes "ledger_inv l" and "i < rl_shard_count l"
    and "sh_reservations sh = sh_reservations (rl_shards l ! i)"
  shows "get_reservation (put_shard l i sh) j = get_reservation l j"
  using get_put_shard [OF ledger_length [OF assms(1)] assms(2)] assms
  by (auto simp: get_reservation_def Let_def)

lemma get_put_reservation:
  assumes "ledger_inv l" and "i < rl_shard_count l" and "shard_for_id l j = i"
    and "sh_reservations sh = sh_reservations (rl_shards l ! i)"
  shows "get_reservation (put_shard l i (put_reservation sh j r)) =
           (get_reservation l)(j \<mapsto> r)"
  using get_put_shard [OF ledger_length [OF assms(1)] assms(2)] assms
  by (intro ext) (auto simp: get_reservation_def Let_def)

lemma get_set_capacity:
  assumes "ledger_inv l"
  shows "get_reservation (snd (set_capacity l d cap)) j = get_reservation l j"
  using shard_for_domain_lt [OF assms, of d]
  by (simp add: set_capacity_def Let_def get_same_reservations [OF assms] split: option.split)

lemma fresh_reservation:
  assumes "ledger_inv l" and "i < rl_shard_count l"
    and "sh_counter (rl_shards l ! i) < c" and "c < push_bit kShardShift 1"
  shows "shard_for_id l (shard_id i c) = i" and "get_reservation l (shard_id i c) = None"
proof -
  have "i < 255" using assms(1,2) by (simp add: ledger_inv_def kMaxShards_def)
  note ids = shard_id_parts [OF this assms(4)]
  show s: "shard_for_id l (shard_id i c) = i"
    by (rule shard_for_id_entry [OF ids(1) assms(2)])
  show "get_reservation l (shard_id i c) = None"
  proof (cases "get_reservation l (shard_id i c)")
    case (Some r)
    then have "entry_inv (rl_shard_count l) i (rl_shards l ! i) (shard_id i c, r)"
      using shard_invD(3) [OF ledger_shard [OF assms(1,2)]] s by (simp add: get_reservation_found)
    then have "take_bit kShardShift (shard_id i c) \<le> sh_counter (rl_shards l ! i)"
      by (simp add: entry_inv_def)
    with ids assms(3) show ?thesis by simp
  qed simp
qed

lemma get_acquire:
  assumes l: "ledger_inv l"
    and ctr: "sh_counter (rl_shards l ! shard_for_domain l (rq_domain request)) \<noteq> kSaturated"
  shows "acquire l request = (Good j, l') \<Longrightarrow>
           get_reservation l j = None
           \<and> get_reservation l' = (get_reservation l)(j \<mapsto> new_reservation request j)"
    and "acquire l request = (Bad s, l') \<Longrightarrow> get_reservation l' = get_reservation l"
proof -
  let ?i = "shard_for_domain l (rq_domain request)"
  let ?sh = "rl_shards l ! ?i"
  note i = shard_for_domain_lt [OF l, of "rq_domain request"]
  have c: "sh_counter ?sh < sh_counter ?sh + 1"
    using gen_next_gt [OF ctr] ctr by (simp add: gen_next_def)
  show "get_reservation l j = None
          \<and> get_reservation l' = (get_reservation l)(j \<mapsto> new_reservation request j)"
    if "acquire l request = (Good j, l')"
  proof (cases rule: acquire_cases [of request l])
    case granted
    note fresh = fresh_reservation [OF l i c granted(2)]
    have j: "j = shard_id ?i (sh_counter ?sh + 1)"
      and l': "l' = put_shard l ?i (acquired_shard ?i ?sh request)"
      using that granted(4) by simp_all
    have "get_reservation l' = (get_reservation l)(j \<mapsto> new_reservation request j)"
      unfolding l' j acquired_shard_def Let_def
      by (subst get_put_reservation [OF l i]) (simp_all add: fresh)
    then show ?thesis using fresh j by simp
  qed (use that in simp_all)
  show "get_reservation l' = get_reservation l" if "acquire l request = (Bad s, l')"
    by (cases rule: acquire_cases [of request l])
       (use that in \<open>auto simp: get_same_reservations [OF l i] bad_def\<close>)
qed


lemma get_close:
  assumes "ledger_inv l" and "get_reservation l j = Some r"
  shows "get_reservation (put_shard l (shard_for_id l j)
           (put_reservation (put_row (rl_shards l ! shard_for_id l j) d a) j r'))
         = (get_reservation l)(j \<mapsto> r')"
  using assms by (intro get_put_reservation) (simp_all add: get_reservation_found)

text \<open>What each closing operation does to a reservation, on every branch.\<close>

lemma commit_get:
  assumes l: "ledger_inv l"
  shows "st_ok (fst (commit l j dg cg pg)) \<longleftrightarrow>
           (\<exists>r. get_reservation l j = Some r \<and> res_state r = ReservationState.kActive
              \<and> res_domain_generation r = dg \<and> res_capability_generation r = cg
              \<and> res_policy_generation r = pg)" (is ?ok)
    and "get_reservation (snd (commit l j dg cg pg)) =
           (if st_ok (fst (commit l j dg cg pg))
            then (get_reservation l)(j \<mapsto> (the (get_reservation l j))\<lparr>res_state := ReservationState.kCommitted\<rparr>)
            else get_reservation l)" (is ?get)
proof -
  have "?ok \<and> ?get"
  proof (cases "get_reservation l j")
    case None
    then show ?thesis
      by (auto simp: commit_def Let_def get_reservation_def split: if_splits)
  next
    case (Some r)
    then show ?thesis
      using get_close [OF l Some] Some [unfolded get_reservation_found]
      by (cases "res_state r") (simp_all add: commit_def Let_def)
  qed
  then show ?ok ?get by blast+
qed

lemma get_touch:
  assumes "ledger_inv l" and "get_reservation l j = Some r"
  shows "get_reservation (put_shard l (shard_for_id l j)
           (put_row (rl_shards l ! shard_for_id l j) d a)) = get_reservation l"
  using assms by (intro ext get_same_reservations) (simp_all add: get_reservation_found)

lemma release_get:
  assumes l: "ledger_inv l"
  shows "st_ok (fst (release_reservation l j reason)) \<longleftrightarrow>
           (\<exists>r. get_reservation l j = Some r \<and> outstanding r)" (is ?ok)
    and "get_reservation (snd (release_reservation l j reason)) =
           (if st_ok (fst (release_reservation l j reason))
            then (get_reservation l)(j \<mapsto> (the (get_reservation l j))
                   \<lparr>res_state := ReservationState.kReleased,
                    res_close_reason := bounded_text reason kMaxTextLength\<rparr>)
            else get_reservation l)" (is ?get)
proof -
  have "?ok \<and> ?get"
  proof (cases "get_reservation l j")
    case None
    then show ?thesis
      by (auto simp: release_reservation_def Let_def get_reservation_def split: if_splits)
  next
    case (Some r)
    then show ?thesis
      using get_close [OF l Some] get_touch [OF l Some] Some [unfolded get_reservation_found]
      by (cases "res_state r")
         (simp_all add: release_reservation_def Let_def outstanding_def)
  qed
  then show ?ok ?get by blast+
qed

lemma rollback_get:
  assumes l: "ledger_inv l"
  shows "st_ok (fst (rollback l j reason)) \<longleftrightarrow>
           (\<exists>r. get_reservation l j = Some r \<and> res_state r = ReservationState.kActive)" (is ?ok)
    and "get_reservation (snd (rollback l j reason)) =
           (if st_ok (fst (rollback l j reason))
            then (get_reservation l)(j \<mapsto> (the (get_reservation l j))
                   \<lparr>res_state := ReservationState.kRolledBack,
                    res_close_reason := bounded_text reason kMaxTextLength\<rparr>)
            else get_reservation l)" (is ?get)
proof -
  have "?ok \<and> ?get"
  proof (cases "get_reservation l j")
    case None
    then show ?thesis
      by (auto simp: rollback_def Let_def get_reservation_def split: if_splits)
  next
    case (Some r)
    then show ?thesis
      using get_close [OF l Some] Some [unfolded get_reservation_found]
      by (cases "res_state r") (simp_all add: rollback_def Let_def)
  qed
  then show ?ok ?get by blast+
qed

lemma get_invalidate_domain:
  assumes l: "ledger_inv l"
  shows "get_reservation (snd (invalidate_domain l d reason)) j =
           map_option (invalidated d reason) (get_reservation l j)"
proof (cases "get_reservation l j")
  case None
  then show ?thesis
    using shard_for_domain_lt [OF l, of d] unfolding invalidate_domain_eq
    by (subst get_put_shard [OF ledger_length [OF l] shard_for_domain_lt [OF l]])
       (auto simp: map_of_invalidate_all get_reservation_def Let_def split: if_splits)
next
  case (Some r)
  then have j: "shard_for_id l j < rl_shard_count l"
    and r: "map_of (sh_reservations (rl_shards l ! shard_for_id l j)) j = Some r"
    by (simp_all add: get_reservation_found)
  have "shard_for_domain l (res_domain r) = shard_for_id l j"
    using found_reservation(3) [OF l j r] by (simp add: shard_for_domain_def)
  then show ?thesis
    using r Some unfolding invalidate_domain_eq
    by (subst get_put_shard [OF ledger_length [OF l] shard_for_domain_lt [OF l]])
       (auto simp: map_of_invalidate_all intro!: invalidated_simps(3) [symmetric])
qed

lemma get_adopt_ids:
  "ledger_inv l \<Longrightarrow> get_reservation (adopt_reservation_ids l ids) = get_reservation l"
  unfolding adopt_reservation_ids_def
proof (induction ids arbitrary: l)
  case (Cons j ids)
  have "get_reservation (adopt_id l j) = get_reservation l"
    using Cons.prems by (auto simp: adopt_id_def Let_def not_le intro!: get_same_reservations)
  with Cons adopt_id_inv [OF Cons.prems] show ?case by simp
qed simp

subsection \<open>Runs of the ledger\<close>

text \<open>
  One step is one call under a shard lock. A shard counter only ever grows by one per acquisition,
  so it reaches the all-ones word after \<open>2^64 - 1\<close> acquisitions; the relation stops there.
\<close>

inductive ledger_step :: "ReservationLedger \<Rightarrow> ReservationLedger \<Rightarrow> bool" where
  capacity: "ledger_step l (snd (set_capacity l d cap))"
| acquire: "sh_counter (rl_shards l ! shard_for_domain l (rq_domain request)) \<noteq> kSaturated \<Longrightarrow>
    ledger_step l (snd (acquire l request))"
| commit: "ledger_step l (snd (commit l j dg cg pg))"
| release: "ledger_step l (snd (release_reservation l j reason))"
| rollback: "ledger_step l (snd (rollback l j reason))"
| invalidate: "ledger_step l (snd (invalidate_domain l d reason))"
| adopt: "ledger_step l (adopt_reservation_ids l ids)"

inductive_cases ledger_stepE: "ledger_step l l'"

definition reachable_ledger :: "nat \<Rightarrow> ReservationLedger \<Rightarrow> bool" where
  "reachable_ledger count l \<longleftrightarrow> ledger_step\<^sup>*\<^sup>* (new_reservation_ledger count) l"

text \<open>The life cycle of a reservation.\<close>

definition reservation_evolves :: "Reservation \<Rightarrow> Reservation \<Rightarrow> bool" where
  "reservation_evolves r r' \<longleftrightarrow>
     outstanding r
     \<and> (\<exists>st reason. r' = r\<lparr>res_state := st, res_close_reason := reason\<rparr>
          \<and> st \<noteq> ReservationState.kActive
          \<and> (res_state r = ReservationState.kCommitted \<longrightarrow>
               st = ReservationState.kReleased \<or> st = ReservationState.kInvalidated))"

lemma evolves_state:
  "outstanding r \<Longrightarrow> st \<noteq> ReservationState.kActive \<Longrightarrow>
   res_state r = ReservationState.kActive \<or> st = ReservationState.kReleased
     \<or> st = ReservationState.kInvalidated \<Longrightarrow>
   reservation_evolves r (r\<lparr>res_state := st, res_close_reason := reason\<rparr>)"
  by (auto simp: reservation_evolves_def)

lemma evolves_commit:
  assumes "res_state r = ReservationState.kActive"
  shows "reservation_evolves r (r\<lparr>res_state := ReservationState.kCommitted\<rparr>)"
proof -
  have "r\<lparr>res_state := ReservationState.kCommitted\<rparr> =
        r\<lparr>res_state := ReservationState.kCommitted, res_close_reason := res_close_reason r\<rparr>"
    by simp
  then show ?thesis
    using assms evolves_state [of r ReservationState.kCommitted "res_close_reason r"]
    by (simp add: outstanding_def)
qed

lemma ledger_step_inv: "ledger_inv l \<Longrightarrow> ledger_step l l' \<Longrightarrow> ledger_inv l'"
  by (erule ledger_stepE) (simp_all add: ledger_invs)

lemma ledger_step_entry:
  assumes l: "ledger_inv l" and "ledger_step l l'" and r: "get_reservation l j = Some r"
  shows "\<exists>r'. get_reservation l' j = Some r' \<and> (r' = r \<or> reservation_evolves r r')"
  using assms(2)
proof cases
  case (acquire request)
  show ?thesis
  proof (cases "fst (Tos_Reservation.acquire l request)")
    case (Good x)
    then have "Tos_Reservation.acquire l request = (Good x, l')" using acquire by (simp add: prod_eq_iff)
    from get_acquire(1) [OF l acquire(2) this] r show ?thesis by (cases "x = j") auto
  next
    case (Bad s)
    then have "Tos_Reservation.acquire l request = (Bad s, l')" using acquire by (simp add: prod_eq_iff)
    from get_acquire(2) [OF l acquire(2) this] r show ?thesis by simp
  qed
next
  case (commit i dg cg pg)
  then show ?thesis
    using commit_get [OF l, of i dg cg pg] r evolves_commit [of r] by (cases "i = j") auto
next
  case (release i reason)
  then show ?thesis
    using release_get [OF l, of i reason] r by (auto intro!: evolves_state)
next
  case (rollback i reason)
  then show ?thesis
    using rollback_get [OF l, of i reason] r
    by (auto simp: outstanding_def intro!: evolves_state)
next
  case (invalidate d reason)
  then show ?thesis
    using get_invalidate_domain [OF l, of d reason j] r
    by (auto simp: invalidated_def intro!: evolves_state)
qed (use r l in \<open>simp_all add: get_set_capacity get_adopt_ids\<close>)

interpretation ledger: lifecycle ledger_inv ledger_step get_reservation reservation_evolves
  by unfold_locales (auto intro: ledger_step_inv ledger_step_entry)

lemma reachable_ledger_inv:
  "count < kMaxShards \<Longrightarrow> reachable_ledger count l \<Longrightarrow> ledger_inv l"
  unfolding reachable_ledger_def by (rule ledger.steps_inv) (auto intro: new_reservation_ledger_inv)

subsection \<open>The audit\<close>

lemma row_members_sums:
  "sum_list (map (\<lambda>r. res_amounts r k) (row_members st d rs)) = of_nat (asum (held_as st d k) rs)"
  "length (row_members st d rs) = asum (count_as st d) rs"
  by (induction rs) (auto simp: row_members_def held_as_def count_as_def)

lemma row_inv_audit_ok:
  assumes "row_inv rs d a"
  shows "audit_row_ok rs d a"
  using assms row_inv_sums(3,4) [OF assms]
  by (simp add: audit_row_ok_def Let_def row_members_sums row_inv_def list_all_iff not_less
        word_le_nat_alt)

lemma audit_shard_consistent:
  assumes "\<forall>e \<in> set acc. audit_row_ok rs (fst e) (snd e)"
  shows "au_consistent (foldl (audit_entry rs) audit acc) = au_consistent audit"
  using assms by (induction acc arbitrary: audit) (auto simp: audit_entry_def Let_def)

lemma audit_shards_consistent:
  assumes "\<forall>sh \<in> set shs. \<forall>e \<in> set (sh_accounting sh). audit_row_ok (sh_reservations sh) (fst e) (snd e)"
  shows "au_consistent (foldl audit_shard audit shs) = au_consistent audit"
  using assms
  by (induction shs arbitrary: audit) (simp_all add: audit_shard_def audit_shard_consistent)

lemma ledger_inv_rows:
  assumes "ledger_inv l" and "sh \<in> set (rl_shards l)" and "(d, a) \<in> set (sh_accounting sh)"
  shows "row_inv (sh_reservations sh) d a"
proof -
  obtain i where "i < rl_shard_count l" "sh = rl_shards l ! i"
    using assms(1,2) by (auto simp: in_set_conv_nth ledger_inv_def)
  then show ?thesis
    using ledger_shard [OF assms(1), of i] assms(3) by (auto simp: shard_inv_def)
qed

lemma ledger_inv_audit:
  assumes "ledger_inv l"
  shows "au_consistent (audit_reservations l)"
proof -
  have "audit_row_ok (sh_reservations sh) (fst e) (snd e)"
    if "sh \<in> set (rl_shards l)" "e \<in> set (sh_accounting sh)" for sh e
    using ledger_inv_rows [OF assms that(1), of "fst e" "snd e"] that(2)
    by (simp add: row_inv_audit_ok)
  then have "au_consistent (foldl audit_shard empty_audit (rl_shards l))"
    by (subst audit_shards_consistent) (auto simp: empty_audit_def)
  then show ?thesis by (simp add: audit_reservations_def Let_def)
qed

text \<open>The audit counts every outstanding reservation once.\<close>

definition outstanding_in :: "Reservation umap \<Rightarrow> nat" where
  "outstanding_in rs = length (filter (\<lambda>e. outstanding (snd e)) rs)"

abbreviation row_outstanding :: "Reservation umap \<Rightarrow> u64 \<Rightarrow> nat" where
  "row_outstanding rs d \<equiv>
     length (row_members ReservationState.kActive d rs)
     + length (row_members ReservationState.kCommitted d rs)"

lemma audit_shard_outstanding:
  "au_outstanding (foldl (audit_entry rs) audit acc) =
     au_outstanding audit + of_nat (\<Sum>e \<leftarrow> acc. row_outstanding rs (fst e))"
  by (induction acc arbitrary: audit) (simp_all add: audit_entry_def Let_def add_ac)

lemma row_outstanding_Cons:
  "row_outstanding ((j, r) # rs) d =
     row_outstanding rs d + of_bool (res_domain r = d \<and> outstanding r)"
  by (auto simp: row_members_def outstanding_def)

lemma one_row:
  "dkeys acc \<Longrightarrow> d \<in> fst ` set acc \<Longrightarrow> (\<Sum>e \<leftarrow> acc. of_bool (d = fst e \<and> b) :: nat) = of_bool b"
proof (induction acc)
  case (Cons e acc)
  show ?case
  proof (cases "d = fst e")
    case True
    then have "(\<Sum>e \<leftarrow> acc. of_bool (d = fst e \<and> b) :: nat) = 0"
      using Cons.prems by (auto simp: sum_list_eq_0_iff)
    with True show ?thesis by simp
  qed (use Cons in simp)
qed simp

lemma rows_outstanding:
  assumes "dkeys acc" and "\<forall>e \<in> set rs. res_domain (snd e) \<in> fst ` set acc"
  shows "(\<Sum>e \<leftarrow> acc. row_outstanding rs (fst e)) = outstanding_in rs"
  using assms(2)
proof (induction rs)
  case Nil
  show ?case by (simp add: row_members_def outstanding_in_def)
next
  case (Cons e rs)
  obtain j r where e: "e = (j, r)" by force
  have "(\<Sum>e \<leftarrow> acc. row_outstanding ((j, r) # rs) (fst e)) =
        (\<Sum>e \<leftarrow> acc. row_outstanding rs (fst e)) +
        (\<Sum>e \<leftarrow> acc. of_bool (res_domain r = fst e \<and> outstanding r))"
    by (simp only: row_outstanding_Cons sum_list_addf)
  with Cons e one_row [OF assms(1)] show ?case by (simp add: outstanding_in_def)
qed

lemma ledger_audit_outstanding:
  assumes "ledger_inv l"
  shows "au_outstanding (audit_reservations l) = outstanding_count l"
proof -
  have sh: "(\<Sum>e \<leftarrow> sh_accounting sh. row_outstanding (sh_reservations sh) (fst e))
          = outstanding_in (sh_reservations sh)" if "sh \<in> set (rl_shards l)" for sh
    using assms that
    by (intro rows_outstanding) (auto simp: ledger_inv_def shard_inv_def entry_inv_def in_set_conv_nth)
  have "au_outstanding (foldl audit_shard audit shs) =
          au_outstanding audit + of_nat (\<Sum>sh \<leftarrow> shs. outstanding_in (sh_reservations sh))"
    if "set shs \<subseteq> set (rl_shards l)" for shs audit
    using that
    by (induction shs arbitrary: audit) (simp_all add: audit_shard_def audit_shard_outstanding sh)
  then show ?thesis
    by (simp add: audit_reservations_def Let_def empty_audit_def outstanding_count_def
          outstanding_in_def filter_concat length_concat comp_def)
qed

subsection \<open>Capacity of a domain\<close>

definition all_reservations :: "ReservationLedger \<Rightarrow> Reservation umap" where
  "all_reservations l = concat (map sh_reservations (rl_shards l))"

definition domain_capacity :: "ReservationLedger \<Rightarrow> u64 \<Rightarrow> CapacityVector" where
  "domain_capacity l d = ac_capacity (row_of (rl_shards l ! shard_for_domain l d) d)"

definition domain_held :: "ReservationLedger \<Rightarrow> u64 \<Rightarrow> ResourceKind \<Rightarrow> nat" where
  "domain_held l d k =
     (\<Sum>e \<leftarrow> all_reservations l.
        if res_domain (snd e) = d \<and> outstanding (snd e) then unat (res_amounts (snd e) k) else 0)"

lemma asum_held:
  "(\<Sum>e \<leftarrow> rs. if res_domain (snd e) = d \<and> outstanding (snd e) then unat (res_amounts (snd e) k) else 0)
     = asum (held_active d k) rs + asum (held_committed d k) rs"
  by (induction rs) (auto simp: held_as_def outstanding_def)

lemma asum_concat: "asum f (concat (map g xs)) = (\<Sum>x \<leftarrow> xs. asum f (g x))"
  by (induction xs) (simp_all add: asum_def)

lemma sum_list_single:
  assumes "i < length xs" and "\<And>j. j < length xs \<Longrightarrow> j \<noteq> i \<Longrightarrow> f (xs ! j) = (0 :: nat)"
  shows "sum_list (map f xs) = f (xs ! i)"
proof -
  have "sum_list (map f xs) = (\<Sum>j \<in> {0..<length xs}. f (xs ! j))"
    by (simp add: sum_list_sum_nth)
  also have "\<dots> = (\<Sum>j \<in> {i}. f (xs ! j))"
    using assms by (intro sum.mono_neutral_right) auto
  finally show ?thesis by simp
qed

text \<open>The reservations of a domain all live in the shard of that domain.\<close>

lemma domain_held_shard:
  assumes l: "ledger_inv l"
  shows "domain_held l d k =
           asum (held_active d k) (sh_reservations (rl_shards l ! shard_for_domain l d))
           + asum (held_committed d k) (sh_reservations (rl_shards l ! shard_for_domain l d))"
proof -
  let ?f = "\<lambda>sh. asum (held_active d k) (sh_reservations sh) + asum (held_committed d k) (sh_reservations sh)"
  have "?f (rl_shards l ! i) = 0" if i: "i < rl_shard_count l" "i \<noteq> shard_for_domain l d" for i
  proof -
    have "res_domain (snd e) \<noteq> d" if "e \<in> set (sh_reservations (rl_shards l ! i))" for e
      using ledger_shard [OF l i(1)] i that
      by (auto simp: shard_inv_def entry_inv_def shard_for_domain_def)
    then show ?thesis by (simp add: asum_zero held_as_def)
  qed
  then have "sum_list (map ?f (rl_shards l)) = ?f (rl_shards l ! shard_for_domain l d)"
    using shard_for_domain_lt [OF l] ledger_length [OF l] by (intro sum_list_single) simp_all
  moreover have "domain_held l d k = sum_list (map ?f (rl_shards l))"
    by (simp add: domain_held_def all_reservations_def asum_held asum_concat sum_list_addf comp_def)
  ultimately show ?thesis by simp
qed

lemma domain_row:
  fixes l d
  assumes l: "ledger_inv l"
  defines "a \<equiv> row_of (rl_shards l ! shard_for_domain l d) d"
  shows "unat (ac_reserved a k + ac_committed a k) = domain_held l d k"
    and "domain_held l d k \<le> unat (ac_capacity a k)"
proof -
  have row: "row_inv (sh_reservations (rl_shards l ! shard_for_domain l d)) d a"
    unfolding a_def by (rule row_inv_row_of [OF ledger_shard [OF l shard_for_domain_lt [OF l]]])
  show "unat (ac_reserved a k + ac_committed a k) = domain_held l d k"
    and "domain_held l d k \<le> unat (ac_capacity a k)"
    using row_inv_sums [OF row, of k] by (simp_all add: domain_held_shard [OF l])
qed

lemma has_capacity_row:
  "has_capacity l d amounts \<longleftrightarrow>
     (\<forall>k. \<not> exceeds_row (row_of (rl_shards l ! shard_for_domain l d) d) amounts k)"
  by (auto simp: has_capacity_def Let_def row_of_def get_or_def list_all_iff list_ex_iff
        exceeds_row_def empty_accounting_def no_amounts_def word_gt_0 split: option.splits)

lemma exceeds_row_iff:
  assumes l: "ledger_inv l"
  shows "exceeds_row (row_of (rl_shards l ! shard_for_domain l d) d) amounts k \<longleftrightarrow>
           domain_held l d k + unat (amounts k) > unat (domain_capacity l d k)"
  using domain_row [OF l, of d k]
  by (auto simp: exceeds_row_def Let_def domain_capacity_def word_less_nat_alt unat_sub_if'
        unat_eq_zero)

lemma has_capacity_iff:
  assumes "ledger_inv l"
  shows "has_capacity l d amounts \<longleftrightarrow>
           (\<forall>k. domain_held l d k + unat (amounts k) \<le> unat (domain_capacity l d k))"
  by (simp add: has_capacity_row exceeds_row_iff [OF assms] not_less)

lemma acquire_ok_iff:
  assumes l: "ledger_inv l" and "valid (rq_domain request)"
    and "sh_counter (rl_shards l ! shard_for_domain l (rq_domain request)) + 1 < push_bit kShardShift 1"
  shows "checked_ok (fst (acquire l request)) \<longleftrightarrow> has_capacity l (rq_domain request) (rq_amounts request)"
  by (cases rule: acquire_cases [of request l])
     (use assms in \<open>auto simp: has_capacity_row not_le\<close>)

section \<open>Properties\<close>

text \<open>The ledger the witnesses use: one shard, one domain with ten execution slots, one request.\<close>

definition sample_request :: ReservationRequest where
  "sample_request =
     \<lparr>rq_domain = 7, rq_domain_generation = 3, rq_capability_generation = 2,
      rq_policy_generation = 1, rq_worker_boot = 9, rq_operation = 4,
      rq_amounts = (no_amounts(ResourceKind.kExecutionSlot := 6))\<rparr>"

definition sample_base :: ReservationLedger where
  "sample_base = snd (set_capacity (new_reservation_ledger 1) 7 (no_amounts(ResourceKind.kExecutionSlot := 10)))"

definition sample_held :: ReservationLedger where
  "sample_held = snd (acquire sample_base sample_request)"

lemma sample_base_eq:
  "sample_base =
     \<lparr>rl_shard_count = 1,
      rl_shards = [\<lparr>sh_reservations = [],
        sh_accounting = [(7, empty_accounting\<lparr>ac_domain := 7,
                            ac_capacity := no_amounts(ResourceKind.kExecutionSlot := 10)\<rparr>)],
        sh_counter = 0\<rparr>]\<rparr>"
  by (simp add: sample_base_def set_capacity_def new_reservation_ledger_def kMaxShards_def
      shard_for_domain_def row_of_def get_or_def empty_accounting_def all_ResourceKind_def
      no_amounts_def put_shard_def put_row_def empty_shard_def)

lemma sample_acquire:
  "fst (acquire sample_base sample_request) = Good 0x0100000000000001"
  by (simp add: sample_base_eq sample_request_def acquire_def valid_def shard_for_domain_def
      row_of_def get_or_def empty_accounting_def all_ResourceKind_def exceeds_row_def
      no_amounts_def kShardShift_def shard_prefix_def Let_def word_le_nat_alt)

lemma sample_counter:
  "sh_counter (rl_shards sample_base ! shard_for_domain sample_base (rq_domain sample_request)) = 0"
  by (simp add: sample_base_eq shard_for_domain_def)

lemma sample_shards: "(1 :: nat) < kMaxShards"
  by (simp add: kMaxShards_def)

lemma sample_reachable: "reachable_ledger 1 sample_base" "reachable_ledger 1 sample_held"
proof -
  show base: "reachable_ledger 1 sample_base"
    unfolding reachable_ledger_def sample_base_def by (rule r_into_rtranclp) (rule ledger_step.capacity)
  have "ledger_step sample_base sample_held"
    unfolding sample_held_def
    by (rule ledger_step.acquire) (simp add: sample_counter kSaturated_def)
  with base show "reachable_ledger 1 sample_held"
    by (simp add: reachable_ledger_def rtranclp.rtrancl_into_rtrancl)
qed

lemma sample_get:
  "get_reservation sample_held =
     [0x0100000000000001 \<mapsto> new_reservation sample_request 0x0100000000000001]"
proof -
  have inv: "ledger_inv sample_base"
    by (rule reachable_ledger_inv [OF sample_shards sample_reachable(1)])
  have "get_reservation sample_base = Map.empty"
    by (intro ext) (simp add: sample_base_eq get_reservation_def Let_def nth_Cons')
  then show ?thesis
    using get_acquire(1) [OF inv, of sample_request "0x0100000000000001" sample_held] sample_acquire
    by (simp add: prod_eq_iff sample_held_def sample_counter kSaturated_def)
qed

text \<open>
  C6. In every state a run of the ledger reaches, the amounts held by the active and committed
  reservations of a domain, summed over the whole ledger without wrap-around, stay within the
  capacity published for the domain, for every resource kind.
\<close>

theorem reservations_never_overcommit:
  assumes "count < kMaxShards" and "reachable_ledger count l"
  shows "domain_held l d k \<le> unat (domain_capacity l d k)"
  using domain_row(2) [OF reachable_ledger_inv [OF assms]] by (simp add: domain_capacity_def)

theorem reservations_never_overcommit_witness:
  "domain_held sample_held 7 ResourceKind.kExecutionSlot
     \<le> unat (domain_capacity sample_held 7 ResourceKind.kExecutionSlot)"
  by (rule reservations_never_overcommit [OF sample_shards sample_reachable(2)])

text \<open>
  On every reachable ledger the audit reports a consistent ledger: each accounting row equals
  the amounts and counts recomputed from the reservations, no row exceeds its capacity, and the
  outstanding total of the audit is the number of outstanding reservations.
\<close>

theorem audit_always_consistent:
  assumes "count < kMaxShards" and "reachable_ledger count l"
  shows "au_consistent (audit_reservations l)
         \<and> au_outstanding (audit_reservations l) = outstanding_count l"
  using ledger_inv_audit ledger_audit_outstanding reachable_ledger_inv [OF assms] by blast

theorem audit_always_consistent_witness:
  "au_consistent (audit_reservations sample_held)
   \<and> au_outstanding (audit_reservations sample_held) = outstanding_count sample_held"
  by (rule audit_always_consistent [OF sample_shards sample_reachable(2)])

text \<open>
  An acquisition on a reachable ledger is granted exactly when \<^verbatim>\<open>has_capacity\<close> says so, that is
  exactly when the amounts already held plus the requested ones fit the capacity of the domain for
  every resource kind (the shard still having identities to give).
\<close>

theorem acquire_granted_iff_fits:
  assumes "count < kMaxShards" and "reachable_ledger count l" and "valid (rq_domain request)"
    and "sh_counter (rl_shards l ! shard_for_domain l (rq_domain request)) + 1 < push_bit kShardShift 1"
  shows "(checked_ok (fst (acquire l request)) \<longleftrightarrow> has_capacity l (rq_domain request) (rq_amounts request))
     \<and> (has_capacity l (rq_domain request) (rq_amounts request) \<longleftrightarrow>
           (\<forall>k. domain_held l (rq_domain request) k + unat (rq_amounts request k)
                  \<le> unat (domain_capacity l (rq_domain request) k)))"
  using acquire_ok_iff has_capacity_iff reachable_ledger_inv [OF assms(1,2)] assms(3,4) by blast

theorem acquire_granted_iff_fits_witness:
  "has_capacity sample_base (rq_domain sample_request) (rq_amounts sample_request)"
proof -
  have "valid (rq_domain sample_request)"
    by (simp add: sample_request_def valid_def)
  moreover have "sh_counter (rl_shards sample_base ! shard_for_domain sample_base
      (rq_domain sample_request)) + 1 < push_bit kShardShift 1"
    by (simp add: sample_counter kShardShift_def word_less_nat_alt)
  moreover have "checked_ok (fst (acquire sample_base sample_request))"
    by (simp add: sample_acquire)
  ultimately show ?thesis
    using acquire_granted_iff_fits [OF sample_shards sample_reachable(1)] by blast
qed

text \<open>
  Acquire then get is a round trip: a granted identity was not in use, reading it back gives
  the active reservation built from the request, and every other reservation reads as before. A
  refused acquisition changes no reservation.
\<close>

theorem acquire_get_round_trip:
  assumes "count < kMaxShards" and "reachable_ledger count l"
    and "sh_counter (rl_shards l ! shard_for_domain l (rq_domain request)) \<noteq> kSaturated"
  shows "case acquire l request of
           (Good j, l') \<Rightarrow> get_reservation l j = None
             \<and> get_reservation l' = (get_reservation l)(j \<mapsto> new_reservation request j)
         | (Bad _, l') \<Rightarrow> get_reservation l' = get_reservation l"
  using get_acquire [OF reachable_ledger_inv [OF assms(1,2)] assms(3)]
  by (auto split: prod.split Checked.split)

theorem acquire_get_round_trip_witness:
  "get_reservation (snd (acquire sample_base sample_request)) 0x0100000000000001 =
     Some (new_reservation sample_request 0x0100000000000001)"
  using acquire_get_round_trip [OF sample_shards sample_reachable(1), of sample_request] sample_acquire
  by (cases "acquire sample_base sample_request") (simp add: sample_counter kSaturated_def)

text \<open>
  A reservation is closed at most once. Once released, rolled back or invalidated it stays
  exactly as it is through every later run of the ledger, and every attempt to commit, release or
  roll it back fails.
\<close>

theorem closed_reservation_is_final:
  assumes "count < kMaxShards" and "reachable_ledger count l" and "ledger_step\<^sup>*\<^sup>* l l'"
    and "get_reservation l j = Some r" and "\<not> outstanding r"
  shows "get_reservation l' j = Some r
         \<and> \<not> st_ok (fst (commit l' j dg cg pg))
         \<and> \<not> st_ok (fst (release_reservation l' j reason))
         \<and> \<not> st_ok (fst (rollback l' j reason))"
proof -
  note inv = reachable_ledger_inv [OF assms(1,2)]
  note inv' = ledger.steps_inv [OF assms(3) inv]
  have get: "get_reservation l' j = Some r"
    by (rule ledger.settled_stays [OF assms(3) inv assms(4)])
       (use assms(5) in \<open>simp add: reservation_evolves_def\<close>)
  then show ?thesis
    using assms(5) commit_get(1) [OF inv', of j dg cg pg] release_get(1) [OF inv', of j reason]
      rollback_get(1) [OF inv', of j reason]
    by (simp add: outstanding_def)
qed

definition sample_closed :: ReservationLedger where
  "sample_closed = snd (release_reservation sample_held 0x0100000000000001 ''done'')"

theorem closed_reservation_is_final_witness:
  "\<not> st_ok (fst (release_reservation sample_closed 0x0100000000000001 ''done''))"
proof -
  have inv: "ledger_inv sample_held"
    by (rule reachable_ledger_inv [OF sample_shards sample_reachable(2)])
  have "reachable_ledger 1 sample_closed"
    using sample_reachable(2) ledger_step.release
    unfolding reachable_ledger_def sample_closed_def by (rule rtranclp.rtrancl_into_rtrancl)
  moreover have "get_reservation sample_closed 0x0100000000000001 =
      Some ((new_reservation sample_request 0x0100000000000001)
        \<lparr>res_state := ReservationState.kReleased, res_close_reason := bounded_text ''done'' kMaxTextLength\<rparr>)"
    using release_get [OF inv, of "0x0100000000000001" "''done''"]
    by (simp add: sample_closed_def sample_get new_reservation_def outstanding_def)
  ultimately show ?thesis
    using closed_reservation_is_final [OF sample_shards _ rtranclp.rtrancl_refl]
    by (simp add: outstanding_def)
qed

text \<open>
  Commit is exactly once and exactly bound: it succeeds if and only if the identity names an
  active reservation whose domain, capability and policy generations are the ones presented; then
  only its state changes, to committed, and on every failure no reservation changes.
\<close>

theorem commit_exact:
  assumes "count < kMaxShards" and "reachable_ledger count l"
  shows "(st_ok (fst (commit l j dg cg pg)) \<longleftrightarrow>
            (\<exists>r. get_reservation l j = Some r \<and> res_state r = ReservationState.kActive
               \<and> res_domain_generation r = dg \<and> res_capability_generation r = cg
               \<and> res_policy_generation r = pg))
         \<and> get_reservation (snd (commit l j dg cg pg)) =
            (if st_ok (fst (commit l j dg cg pg))
             then (get_reservation l)(j \<mapsto> (the (get_reservation l j))\<lparr>res_state := ReservationState.kCommitted\<rparr>)
             else get_reservation l)"
  using commit_get [OF reachable_ledger_inv [OF assms]] by blast

theorem commit_exact_witness:
  "st_ok (fst (commit sample_held 0x0100000000000001 3 2 1))
   \<and> \<not> st_ok (fst (commit sample_held 0x0100000000000001 4 2 1))"
  using commit_exact [OF sample_shards sample_reachable(2)]
  by (simp add: sample_get new_reservation_def sample_request_def)

lemma affected_count:
  "fst (invalidate_domain l d reason) =
     length (filter (\<lambda>e. res_domain (snd e) = d \<and> outstanding (snd e))
       (sh_reservations (rl_shards l ! shard_for_domain l d)))"
  using invalidate_loop_count [of d reason "sh_reservations (rl_shards l ! shard_for_domain l d)"
      "row_of (rl_shards l ! shard_for_domain l d) d"]
  by (auto simp: invalidate_domain_def Let_def split: prod.splits)

lemma shard_for_domain_invalidate [simp]:
  "shard_for_domain (snd (invalidate_domain l d reason)) = shard_for_domain l"
  by (rule ext) (simp add: invalidate_domain_eq shard_for_domain_def)

lemma invalidate_domain_shard:
  assumes "ledger_inv l"
  shows "sh_reservations (rl_shards (snd (invalidate_domain l d reason)) ! shard_for_domain l d) =
           invalidate_all d reason (sh_reservations (rl_shards l ! shard_for_domain l d))"
    and "domain_capacity (snd (invalidate_domain l d reason)) d = domain_capacity l d"
  using shard_for_domain_lt [OF assms, of d] ledger_length [OF assms]
    arg_cong [OF invalidate_domain_eq [of l d reason], of "\<lambda>l'. rl_shards l' ! shard_for_domain l d"]
  by (simp_all add: put_shard_def domain_capacity_def row_of_def [of "put_row _ _ _"] get_or_def
      invalidate_loop_row)

lemma invalidate_domain_held:
  assumes l: "ledger_inv l"
  shows "domain_held (snd (invalidate_domain l d reason)) d k = 0"
  by (simp add: domain_held_shard [OF invalidate_domain_inv [OF l]] invalidate_domain_shard [OF l]
      asum_invalidate_all)

text \<open>
  Invalidating a domain closes exactly its outstanding reservations, reports how many there
  were, leaves the reservations of other domains alone and returns the whole capacity: afterwards
  nothing of the domain is held and any request within the published capacity fits.
\<close>

theorem invalidate_domain_returns_capacity:
  assumes "count < kMaxShards" and "reachable_ledger count l"
  shows "(\<forall>j. get_reservation (snd (invalidate_domain l d reason)) j =
                map_option (invalidated d reason) (get_reservation l j))
         \<and> fst (invalidate_domain l d reason) =
             length (filter (\<lambda>e. res_domain (snd e) = d \<and> outstanding (snd e))
               (sh_reservations (rl_shards l ! shard_for_domain l d)))
         \<and> (\<forall>k. domain_held (snd (invalidate_domain l d reason)) d k = 0)
         \<and> (has_capacity (snd (invalidate_domain l d reason)) d amounts \<longleftrightarrow>
              (\<forall>k. amounts k \<le> domain_capacity l d k))"
proof -
  note inv = reachable_ledger_inv [OF assms]
  have "has_capacity (snd (invalidate_domain l d reason)) d amounts \<longleftrightarrow>
          (\<forall>k. amounts k \<le> domain_capacity l d k)"
    by (simp add: has_capacity_iff [OF invalidate_domain_inv [OF inv]] invalidate_domain_held [OF inv]
        invalidate_domain_shard(2) [OF inv] word_le_nat_alt)
  then show ?thesis
    using get_invalidate_domain [OF inv] affected_count invalidate_domain_held [OF inv] by blast
qed

theorem invalidate_domain_returns_capacity_witness:
  "domain_held (snd (invalidate_domain sample_held 7 ''fenced'')) 7 ResourceKind.kExecutionSlot = 0"
  using invalidate_domain_returns_capacity [OF sample_shards sample_reachable(2)] by blast

text \<open>
  C38. The shard prefix does not fit the top byte for the last of 256 shards: a ledger built with the
  largest shard count the constructor admits grants reservations for domains of that shard under
  identities that no later call resolves, so they can be neither committed nor released.
\<close>

theorem last_of_256_shards_unresolvable:
  assumes "rl_shard_count l = 256" and "shard_for_domain l (rq_domain request) = 255"
    and "acquire l request = (Good j, l')"
  shows "get_reservation l' j = None \<and> commit l' j dg cg pg = (failure ''reservation.not_found'' [], l')
         \<and> release_reservation l' j reason = (failure ''reservation.not_found'' [], l')"
proof -
  have pre: "push_bit kShardShift (shard_prefix 255) = 0"
    by (simp add: kShardShift_def shard_prefix_def)
  have "drop_bit kShardShift j = 0" "rl_shard_count l' = 256"
  proof -
    show "rl_shard_count l' = 256"
      using assms by (cases rule: acquire_cases [of request l]) auto
    show "drop_bit kShardShift j = 0"
    proof (cases rule: acquire_cases [of request l])
      case granted
      then have "j < push_bit kShardShift 1"
        using assms by (simp add: shard_id_def pre)
      then have "unat j < 2 ^ 56" by (simp only: bound56)
      then have "unat (drop_bit kShardShift j) = 0" by (simp add: unat_drop56)
      then show ?thesis by (simp only: unat_eq_0)
    qed (use assms in simp_all)
  qed
  then have "shard_for_id l' j = rl_shard_count l'"
    by (simp add: shard_for_id_def)
  then show ?thesis
    by (simp add: get_reservation_def commit_def release_reservation_def)
qed

definition sample_wide :: ReservationLedger where
  "sample_wide = new_reservation_ledger 256"

theorem last_of_256_shards_unresolvable_witness:
  "\<exists>j l'. acquire sample_wide \<lparr>rq_domain = 13, rq_domain_generation = 1, rq_capability_generation = 1,
      rq_policy_generation = 1, rq_worker_boot = 1, rq_operation = 1, rq_amounts = no_amounts\<rparr> = (Good j, l')
      \<and> get_reservation l' j = None"
proof -
  let ?rq = "\<lparr>rq_domain = 13, rq_domain_generation = 1, rq_capability_generation = 1,
      rq_policy_generation = 1, rq_worker_boot = 1, rq_operation = 1, rq_amounts = no_amounts\<rparr>"
  have n: "rl_shard_count sample_wide = 256"
    by (simp add: sample_wide_def new_reservation_ledger_def kMaxShards_def)
  then have d: "shard_for_domain sample_wide (rq_domain ?rq) = 255"
    by (simp add: shard_for_domain_def strong_id_hash_def)
  have sh: "rl_shards sample_wide ! 255 = empty_shard"
    by (simp add: sample_wide_def new_reservation_ledger_def kMaxShards_def)
  obtain j l' where a: "acquire sample_wide ?rq = (Good j, l')"
    by (cases rule: acquire_cases [of ?rq sample_wide])
       (auto simp: d [simplified] sh valid_def exceeds_row_def no_amounts_def empty_shard_def
         kShardShift_def word_le_nat_alt)
  from last_of_256_shards_unresolvable [OF n d a] a show ?thesis by blast
qed

end
