(* ===== verification/Tos_Domain.thy ===== *)
theory Tos_Domain
  imports Tos_Capability Tos_Reservation
begin

text \<open>
  Execution-domain records (\<^verbatim>\<open>src/include/tos/core/domain.hpp\<close>, \<^verbatim>\<open>src/src/core/domain.cpp\<close>): the
  volatile load evidence, locality, topology and compatibility facts of a domain, the publisher's
  watermarks, and the structural validation of a record before it is admitted.
\<close>

section \<open>Data\<close>

record DomainLoadEvidence =
  ld_load_generation :: u64
  ld_queue_generation :: u64
  ld_health_generation :: u64
  ld_evidence :: u64
  ld_provenance :: Provenance
  ld_utilization_percent :: u32
  ld_congestion_percent :: u32
  ld_queue_depth :: u32
  ld_in_flight :: u32
  ld_observed_latency_ns :: u64
  ld_throughput_bytes_per_second :: u64
  ld_healthy :: bool
  ld_ready :: bool
  ld_accepting :: bool

record DomainLocality =
  lo_generation :: u64
  lo_class_to_payload :: LocalityClass
  lo_numa_node :: u32
  lo_host_index :: u32
  lo_pcie_root_complex :: u32
  lo_pcie_switch :: u32
  lo_local_nic :: u64
  lo_has_local_nic :: bool

record DomainTopology =
  to_generation :: u64
  to_host_node :: string
  to_fabric :: string
  to_rack :: u32
  to_pod :: u32

record DomainCompatibility =
  cm_generation :: u64
  cm_driver_backend_version :: u32
  cm_firmware_generation :: u32
  cm_protocol_version :: u32
  cm_accelerator_arch :: u32
  cm_backend_family :: string

record PublisherSequence =
  ps_boot :: u64
  ps_capability :: u64
  ps_load :: u64
  ps_queue :: u64
  ps_health :: u64
  ps_locality :: u64
  ps_topology :: u64
  ps_compatibility :: u64
  ps_domain :: u64

record ExecutionDomainRecord =
  dr_id :: u64
  dr_generation :: u64
  dr_type :: ExecutionDomainType
  dr_name :: string
  dr_parent_device :: string
  dr_parent_host :: string
  dr_worker :: u64
  dr_worker_boot :: u64
  dr_provenance :: Provenance
  dr_registration_sequence :: u64
  dr_capability :: CapabilityRecord
  dr_load :: DomainLoadEvidence
  dr_locality :: DomainLocality
  dr_topology :: DomainTopology
  dr_compatibility :: DomainCompatibility
  dr_isolation :: IsolationClass
  dr_capacity :: CapacityVector
  dr_backend_generation :: u64
  dr_publisher_sequence :: PublisherSequence
  dr_fenced :: bool
  dr_fence_reason :: string

definition no_load :: DomainLoadEvidence where
  "no_load =
     \<lparr>ld_load_generation = 0, ld_queue_generation = 0, ld_health_generation = 0, ld_evidence = 0,
      ld_provenance = Provenance.kUnsupported, ld_utilization_percent = 0,
      ld_congestion_percent = 0, ld_queue_depth = 0, ld_in_flight = 0, ld_observed_latency_ns = 0,
      ld_throughput_bytes_per_second = 0, ld_healthy = False, ld_ready = False,
      ld_accepting = True\<rparr>"

definition no_publisher :: PublisherSequence where
  "no_publisher =
     \<lparr>ps_boot = 0, ps_capability = 0, ps_load = 0, ps_queue = 0, ps_health = 0, ps_locality = 0,
      ps_topology = 0, ps_compatibility = 0, ps_domain = 0\<rparr>"

definition empty_domain :: ExecutionDomainRecord where
  "empty_domain =
     \<lparr>dr_id = 0, dr_generation = 0, dr_type = ExecutionDomainType.kCpu, dr_name = [],
      dr_parent_device = [], dr_parent_host = [], dr_worker = 0, dr_worker_boot = 0,
      dr_provenance = Provenance.kUnsupported, dr_registration_sequence = 0,
      dr_capability = empty_capability_record, dr_load = no_load,
      dr_locality = \<lparr>lo_generation = 0, lo_class_to_payload = LocalityClass.kUnknown,
                     lo_numa_node = 0, lo_host_index = 0, lo_pcie_root_complex = 0,
                     lo_pcie_switch = 0, lo_local_nic = 0, lo_has_local_nic = False\<rparr>,
      dr_topology = \<lparr>to_generation = 0, to_host_node = [], to_fabric = [], to_rack = 0, to_pod = 0\<rparr>,
      dr_compatibility = \<lparr>cm_generation = 0, cm_driver_backend_version = 0,
                          cm_firmware_generation = 0, cm_protocol_version = 0,
                          cm_accelerator_arch = 0, cm_backend_family = []\<rparr>,
      dr_isolation = IsolationClass.kUnknown, dr_capacity = no_amounts, dr_backend_generation = 0,
      dr_publisher_sequence = no_publisher, dr_fenced = False, dr_fence_reason = []\<rparr>"

definition load_published :: "DomainLoadEvidence \<Rightarrow> bool" where
  "load_published load =
     (published (ld_health_generation load) \<and> published (ld_load_generation load)
      \<and> published (ld_queue_generation load))"

definition is_offload_engine :: "ExecutionDomainRecord \<Rightarrow> bool" where
  "is_offload_engine r = (dr_type r \<noteq> ExecutionDomainType.kCpu)"

definition dynamic_evidence_current :: "ExecutionDomainRecord \<Rightarrow> u64 \<Rightarrow> bool" where
  "dynamic_evidence_current r live_boot =
     (load_published (dr_load r) \<and> valid (dr_worker_boot r) \<and> dr_worker_boot r = live_boot
      \<and> \<not> dr_fenced r)"

lemma no_load_unpublished [simp]: "\<not> load_published no_load"
  by (simp add: load_published_def no_load_def valid_def)

section \<open>Validation\<close>

definition kMaxCountableCapacity :: u64 where "kMaxCountableCapacity = push_bit 32 1"
definition kMaxByteCapacity :: u64 where "kMaxByteCapacity = push_bit 48 1"

definition capacity_plausible :: "ResourceKind \<Rightarrow> u64 \<Rightarrow> bool" where
  "capacity_plausible kind value =
     (case kind of
        ResourceKind.kDeviceMemoryBytes \<Rightarrow> value \<le> kMaxByteCapacity
      | ResourceKind.kScratchMemoryBytes \<Rightarrow> value \<le> kMaxByteCapacity
      | _ \<Rightarrow> value \<le> kMaxCountableCapacity)"

definition validate_domain_record :: "ExecutionDomainRecord \<Rightarrow> Status" where
  "validate_domain_record record =
     (let caps = cap_capability (dr_capability record); load = dr_load record in
      if \<not> valid (dr_id record) then failure ''domain.missing_identity'' []
      else if \<not> is_valid_name (dr_name record) then failure ''domain.invalid_name'' (dr_name record)
      else if \<not> is_printable_ascii (dr_name record) kMaxNameLength
      then failure ''domain.non_ascii_name'' (dr_name record)
      else if length (dr_name record) > kMaxNameLength then failure ''domain.name_too_long'' []
      else if dr_parent_device record \<noteq> []
              \<and> \<not> is_printable_ascii (dr_parent_device record) kMaxLabelLength
      then failure ''domain.invalid_parent_device'' []
      else if dr_parent_host record \<noteq> []
              \<and> \<not> is_printable_ascii (dr_parent_host record) kMaxLabelLength
      then failure ''domain.invalid_parent_host'' []
      else if ord_ExecutionDomainType (dr_type record) \<ge> kExecutionDomainTypeCount
      then failure ''domain.invalid_type'' []
      else if cap_domain (dr_capability record) \<noteq> dr_id record
      then failure ''domain.capability_identity_mismatch'' []
      else if cs_alignment_bytes caps = 0 \<or> \<not> is_power_of_two (cs_alignment_bytes caps)
      then failure ''domain.invalid_alignment'' []
      else if cs_max_payload_bytes caps > kMaxPayloadBytes
      then failure ''domain.payload_limit_exceeded'' []
      else if (ucast (cs_queue_capacity caps) :: u64) > kMaxCountableCapacity
      then failure ''domain.queue_capacity_exceeded'' []
      else if cs_max_concurrency caps = 0 then failure ''domain.zero_concurrency'' []
      else if \<not> is_printable_ascii (cs_backend_family caps) kMaxNameLength
      then failure ''domain.invalid_backend_family'' []
      else if \<not> is_printable_ascii (dr_fence_reason record) kMaxTextLength
      then failure ''domain.invalid_fence_reason'' []
      else if \<not> list_all (\<lambda>k. capacity_plausible k (dr_capacity record k)) all_ResourceKind
      then failure ''domain.capacity_out_of_range'' []
      else if ld_utilization_percent load > 100 \<or> ld_congestion_percent load > 100
      then failure ''domain.utilization_out_of_range'' []
      else if (ucast (ld_queue_depth load) :: u64) > kMaxCountableCapacity
              \<or> (ucast (ld_in_flight load) :: u64) > kMaxCountableCapacity
      then failure ''domain.queue_out_of_range'' []
      else if dr_provenance record = Provenance.kUnsupported
              \<and> cap_provenance (dr_capability record) \<noteq> Provenance.kUnsupported
              \<and> cap_provenance (dr_capability record) \<noteq> Provenance.kSynthetic
      then failure ''domain.provenance_mismatch'' []
      else if cap_provenance (dr_capability record) = Provenance.kReal
              \<and> dr_provenance record = Provenance.kSynthetic
      then failure ''domain.provenance_overclaim'' []
      else success)"

lemma validate_domain_record_facts:
  assumes "st_ok (validate_domain_record record)"
  shows "valid (dr_id record)" and "is_valid_name (dr_name record)"
    and "cap_domain (dr_capability record) = dr_id record"
    and "capacity_plausible k (dr_capacity record k)"
    and "ld_utilization_percent (dr_load record) \<le> 100"
    and "ld_congestion_percent (dr_load record) \<le> 100"
    and "cs_max_payload_bytes (cap_capability (dr_capability record)) \<le> kMaxPayloadBytes"
    and "cs_alignment_bytes (cap_capability (dr_capability record)) \<noteq> 0"
  using assms
  by (auto simp: validate_domain_record_def Let_def list_all_iff not_less split: if_splits)

end
