(* ===== verification/Tos_Planner.thy ===== *)
theory Tos_Planner
  imports Tos_Policy Tos_Domain
begin

text \<open>
  Factor computation (\<^verbatim>\<open>src/include/tos/core/planner.hpp\<close>, \<^verbatim>\<open>src/src/core/planner.cpp\<close>): the factor
  vector of one candidate. Unsigned 64-bit products and quotients are taken on words, so they wrap
  where the source's do; \<^verbatim>\<open>std::int32_t\<close> and \<^verbatim>\<open>std::int64_t\<close> values are integers, and a cast of a
  \<^verbatim>\<open>std::uint64_t\<close> to \<^verbatim>\<open>std::int64_t\<close> is \<^const>\<open>sint\<close>. Divisions of signed values have non-negative
  operands, where \<open>div\<close> and C++ agree. \<open>compute_factors_in_range\<close> shows that no input takes a factor
  out of its scale.
\<close>

section \<open>Tables\<close>

primrec native_memory :: "ExecutionDomainType \<Rightarrow> MemoryDomain" where
  "native_memory ExecutionDomainType.kCpu = MemoryDomain.kHost"
| "native_memory ExecutionDomainType.kAccelerator = MemoryDomain.kDeviceLocal"
| "native_memory ExecutionDomainType.kNic = MemoryDomain.kNicOnboard"
| "native_memory ExecutionDomainType.kSmartNic = MemoryDomain.kSmartNicOnboard"
| "native_memory ExecutionDomainType.kDpu = MemoryDomain.kDpuOnboard"
| "native_memory ExecutionDomainType.kOtherRegisteredOffloadEngine = MemoryDomain.kHost"

primrec locality_score :: "LocalityClass \<Rightarrow> int" where
  "locality_score LocalityClass.kDomainLocal = 1000000"
| "locality_score LocalityClass.kSameNumaNode = 900000"
| "locality_score LocalityClass.kSameRootComplex = 800000"
| "locality_score LocalityClass.kAcceleratorLocalNic = 750000"
| "locality_score LocalityClass.kSamePcieSwitch = 700000"
| "locality_score LocalityClass.kSameNic = 700000"
| "locality_score LocalityClass.kSameHost = 500000"
| "locality_score LocalityClass.kRemoteHost = 200000"
| "locality_score LocalityClass.kUnknown = 300000"

primrec throughput_rank :: "ExecutionDomainType \<Rightarrow> int" where
  "throughput_rank ExecutionDomainType.kCpu = 400000"
| "throughput_rank ExecutionDomainType.kAccelerator = 1000000"
| "throughput_rank ExecutionDomainType.kNic = 700000"
| "throughput_rank ExecutionDomainType.kSmartNic = 850000"
| "throughput_rank ExecutionDomainType.kDpu = 900000"
| "throughput_rank ExecutionDomainType.kOtherRegisteredOffloadEngine = 600000"

primrec power_rank :: "ExecutionDomainType \<Rightarrow> int" where
  "power_rank ExecutionDomainType.kCpu = 500000"
| "power_rank ExecutionDomainType.kAccelerator = 300000"
| "power_rank ExecutionDomainType.kNic = 350000"
| "power_rank ExecutionDomainType.kSmartNic = 400000"
| "power_rank ExecutionDomainType.kDpu = 700000"
| "power_rank ExecutionDomainType.kOtherRegisteredOffloadEngine = 400000"

definition isolation_rank :: "IsolationClass \<Rightarrow> int" where
  "isolation_rank value =
     (let ordinal = int (ord_IsolationClass value);
          top = int (ord_IsolationClass IsolationClass.kDedicatedDeviceService)
      in if ordinal \<le> 0 \<or> top \<le> 0 then 0 else (ordinal * kFactorScale) div top)"

definition clamp_factor :: "int \<Rightarrow> int" where
  "clamp_factor value = (if value < 0 then 0 else if value > kFactorScale then kFactorScale else value)"

text \<open>\<^verbatim>\<open>static_cast<std::uint64_t>(kFactorScale)\<close>.\<close>

definition factor_scale_u64 :: u64 where "factor_scale_u64 = of_int kFactorScale"

definition normalize_lower_is_better :: "u64 \<Rightarrow> u64 \<Rightarrow> int" where
  "normalize_lower_is_better value worst =
     (if worst = 0 then kFactorScale
      else let bounded = min value worst
           in clamp_factor (kFactorScale - sint ((bounded * factor_scale_u64) div worst)))"

definition normalize_higher_is_better :: "u64 \<Rightarrow> u64 \<Rightarrow> int" where
  "normalize_higher_is_better value best =
     (if best = 0 then 0
      else let bounded = min value best
           in clamp_factor (sint ((bounded * factor_scale_u64) div best)))"

section \<open>The factor vector\<close>

record FactorInputs =
  fi_domain :: ExecutionDomainRecord
  fi_capability :: CapabilitySet
  fi_request :: OperationRequest
  fi_policy :: SchedulerPolicy
  fi_previous :: "ExecutionDomainRecord option"
  fi_estimated_transfer_bytes :: u64
  fi_estimated_setup_cost_units :: u64
  fi_total_setup_cost_units :: u64
  fi_fallback_depth :: u32

definition source_native :: "FactorInputs \<Rightarrow> bool" where
  "source_native inp =
     (pd_source_memory (or_payload (fi_request inp)) = native_memory (dr_type (fi_domain inp)))"

definition destination_native :: "FactorInputs \<Rightarrow> bool" where
  "destination_native inp =
     (pd_destination_memory (or_payload (fi_request inp)) = native_memory (dr_type (fi_domain inp)))"

definition setup_cost_units :: "FactorInputs \<Rightarrow> u64" where
  "setup_cost_units inp =
     pol_type_setup_cost_units (fi_policy inp) (dr_type (fi_domain inp))
     + (case or_economics (fi_request inp) of Some e \<Rightarrow> ee_setup_cost_units e | None \<Rightarrow> 0)"

definition transfer_cost_units :: "FactorInputs \<Rightarrow> u64" where
  "transfer_cost_units inp =
     (let per_byte_micro =
            pol_type_per_byte_cost_micro_units (fi_policy inp) (dr_type (fi_domain inp))
            + (case or_economics (fi_request inp) of
                 Some e \<Rightarrow> ee_per_byte_cost_micro_units e | None \<Rightarrow> 0);
          transfer_bytes =
            (if source_native inp then 0 else pd_size_bytes (or_payload (fi_request inp)))
      in (transfer_bytes div 1000000) * per_byte_micro
         + ((transfer_bytes mod 1000000) * per_byte_micro) div 1000000)"

definition accelerator_locality :: "FactorInputs \<Rightarrow> int" where
  "accelerator_locality inp =
     (case dr_type (fi_domain inp) of
        ExecutionDomainType.kAccelerator \<Rightarrow>
          if pd_source_memory (or_payload (fi_request inp)) = MemoryDomain.kDeviceLocal
             \<or> pd_source_memory (or_payload (fi_request inp)) = MemoryDomain.kPeerDevice
          then kFactorScale else 600000
      | ExecutionDomainType.kDpu \<Rightarrow> 800000
      | ExecutionDomainType.kSmartNic \<Rightarrow> 800000
      | ExecutionDomainType.kCpu \<Rightarrow> 400000
      | _ \<Rightarrow> 500000)"

primrec pcie_affinity :: "LocalityClass \<Rightarrow> int" where
  "pcie_affinity LocalityClass.kDomainLocal = kFactorScale"
| "pcie_affinity LocalityClass.kSameNumaNode = 900000"
| "pcie_affinity LocalityClass.kSamePcieSwitch = 800000"
| "pcie_affinity LocalityClass.kSameRootComplex = 800000"
| "pcie_affinity LocalityClass.kSameNic = 800000"
| "pcie_affinity LocalityClass.kAcceleratorLocalNic = 800000"
| "pcie_affinity LocalityClass.kSameHost = 500000"
| "pcie_affinity LocalityClass.kRemoteHost = 200000"
| "pcie_affinity LocalityClass.kUnknown = 400000"

definition queue_delay_factor :: "FactorInputs \<Rightarrow> int" where
  "queue_delay_factor inp =
     (let load = dr_load (fi_domain inp); capacity = cs_queue_capacity (fi_capability inp)
      in if \<not> load_published load then 500000
         else if capacity = 0 then 800000
         else let bounded = min (ucast (ld_queue_depth load)) (ucast capacity) :: u64
              in clamp_factor (kFactorScale - sint ((bounded * factor_scale_u64) div ucast capacity)))"

text \<open>Evidence that was never published counts as fully loaded.\<close>

definition bounded_percent :: "FactorInputs \<Rightarrow> (DomainLoadEvidence \<Rightarrow> u32) \<Rightarrow> int" where
  "bounded_percent inp percent =
     (if load_published (dr_load (fi_domain inp))
      then uint (min (percent (dr_load (fi_domain inp))) 100) else 100)"

definition completion_latency_factor :: "FactorInputs \<Rightarrow> int" where
  "completion_latency_factor inp =
     (let load = dr_load (fi_domain inp);
          latency_ns = (if load_published load then ld_observed_latency_ns load else 0)
      in if latency_ns = 0 then 600000
         else case or_latency_slo_ns (fi_request inp) of
                Some slo \<Rightarrow>
                  if slo > 0
                  then uint (min factor_scale_u64 ((slo * factor_scale_u64) div latency_ns))
                  else clamp_factor (kFactorScale -
                         sint ((min latency_ns 10000000 * factor_scale_u64) div 10000000))
              | None \<Rightarrow> clamp_factor (kFactorScale -
                         sint ((min latency_ns 10000000 * factor_scale_u64) div 10000000)))"

definition diversity_factor :: "FactorInputs \<Rightarrow> int" where
  "diversity_factor inp =
     (case fi_previous inp of
        None \<Rightarrow> kFactorScale
      | Some previous \<Rightarrow>
          if dr_worker_boot previous \<noteq> dr_worker_boot (fi_domain inp) then kFactorScale
          else if dr_parent_host previous \<noteq> dr_parent_host (fi_domain inp) then 800000
          else 200000)"

definition fallback_cost_factor :: "FactorInputs \<Rightarrow> int" where
  "fallback_cost_factor inp =
     (let max_depth = max 1 (fbp_max_depth (pol_fallback (fi_policy inp)))
      in clamp_factor (kFactorScale - uint (fi_fallback_depth inp) * uint (of_int kFactorScale div max_depth)))"

text \<open>\<^verbatim>\<open>std::find\<close> and \<^verbatim>\<open>std::distance\<close>: the index of the first occurrence.\<close>

fun index_of :: "'a list \<Rightarrow> 'a \<Rightarrow> nat option" where
  "index_of [] x = None"
| "index_of (y # ys) x = (if y = x then Some 0 else map_option Suc (index_of ys x))"

definition preference_factor :: "FactorInputs \<Rightarrow> int" where
  "preference_factor inp =
     (let domain = fi_domain inp; order = pol_preference_order (fi_policy inp);
          preference =
            (case index_of order (dr_type domain) of
               None \<Rightarrow> 400000
             | Some i \<Rightarrow> clamp_factor (kFactorScale - int i * (800000 div int (max 1 (length order)))))
      in case pol_offload_requirement (fi_policy inp) of
           OffloadRequirement.kPreferOffload \<Rightarrow>
             if is_offload_engine domain then max preference 900000 else min preference 200000
         | OffloadRequirement.kOffloadRequired \<Rightarrow>
             if is_offload_engine domain then max preference 900000 else 0
         | OffloadRequirement.kHostRequired \<Rightarrow>
             if dr_type domain = ExecutionDomainType.kCpu then kFactorScale else 0
         | OffloadRequirement.kAny \<Rightarrow> preference)"

definition setup_cost_factor :: "FactorInputs \<Rightarrow> int" where
  "setup_cost_factor inp =
     normalize_lower_is_better (setup_cost_units inp) (max 1 (fi_total_setup_cost_units inp))"

definition nic_locality :: "ExecutionDomainRecord \<Rightarrow> int" where
  "nic_locality domain =
     (if dr_type domain = ExecutionDomainType.kNic \<or> dr_type domain = ExecutionDomainType.kSmartNic
         \<or> dr_type domain = ExecutionDomainType.kDpu
      then kFactorScale
      else if lo_has_local_nic (dr_locality domain) then 900000
      else if dr_type domain = ExecutionDomainType.kCpu then 500000 else 400000)"

definition compute_factors :: "FactorInputs \<Rightarrow> FactorVector" where
  "compute_factors inp factor =
     (let domain = fi_domain inp;
          copies = (if source_native inp then 0 else 1) + (if destination_native inp then 0 else 1) :: int;
          utilization = bounded_percent inp ld_utilization_percent;
          congestion = bounded_percent inp ld_congestion_percent
      in case factor of
           RankingFactor.kDataLocality \<Rightarrow>
             if source_native inp then kFactorScale
             else locality_score (lo_class_to_payload (dr_locality domain))
         | RankingFactor.kMemoryLocality \<Rightarrow>
             if destination_native inp then kFactorScale
             else locality_score (lo_class_to_payload (dr_locality domain))
         | RankingFactor.kNicLocality \<Rightarrow> nic_locality domain
         | RankingFactor.kAcceleratorLocality \<Rightarrow> accelerator_locality inp
         | RankingFactor.kPcieAffinity \<Rightarrow> pcie_affinity (lo_class_to_payload (dr_locality domain))
         | RankingFactor.kAvoidedHostCopies \<Rightarrow> clamp_factor (kFactorScale - copies * 400000)
         | RankingFactor.kTransferCost \<Rightarrow>
             normalize_lower_is_better (transfer_cost_units inp)
               (max 1 (transfer_cost_units inp + setup_cost_units inp))
         | RankingFactor.kSetupCost \<Rightarrow> setup_cost_factor inp
         | RankingFactor.kQueueDelay \<Rightarrow> queue_delay_factor inp
         | RankingFactor.kExecutionThroughput \<Rightarrow>
             clamp_factor ((throughput_rank (dr_type domain) * (100 - utilization)) div 100)
         | RankingFactor.kCompletionLatency \<Rightarrow> completion_latency_factor inp
         | RankingFactor.kOffloadOverhead \<Rightarrow> if is_offload_engine domain then 800000 else 300000
         | RankingFactor.kCpuPreservation \<Rightarrow>
             if dr_type domain = ExecutionDomainType.kCpu then 0 else kFactorScale
         | RankingFactor.kAcceleratorPreservation \<Rightarrow>
             if dr_type domain = ExecutionDomainType.kAccelerator then 0 else kFactorScale
         | RankingFactor.kPowerEfficiency \<Rightarrow> power_rank (dr_type domain)
         | RankingFactor.kUtilizationHeadroom \<Rightarrow>
             clamp_factor (((100 - utilization) * kFactorScale) div 100)
         | RankingFactor.kCongestionAvoidance \<Rightarrow>
             clamp_factor (((100 - congestion) * kFactorScale) div 100)
         | RankingFactor.kFailureDomainDiversity \<Rightarrow> diversity_factor inp
         | RankingFactor.kIsolationQuality \<Rightarrow> isolation_rank (dr_isolation domain)
         | RankingFactor.kReconfigurationPenalty \<Rightarrow>
             if source_native inp then kFactorScale else setup_cost_factor inp
         | RankingFactor.kFallbackCost \<Rightarrow> fallback_cost_factor inp
         | RankingFactor.kPolicyPreference \<Rightarrow> preference_factor inp)"

text \<open>\<^verbatim>\<open>std::to_string\<close> of a signed integer.\<close>

definition to_string_int :: "int \<Rightarrow> string" where
  "to_string_int v = (if v < 0 then CHR ''-'' # decimal (nat (- v)) else decimal (nat v))"

definition describe_factors :: "FactorVector \<Rightarrow> string" where
  "describe_factors factors =
     concat (map (\<lambda>f. (if ord_RankingFactor f > 0 then '' '' else [])
                      @ to_string_RankingFactor f @ ''='' @ to_string_int (factors f))
               all_RankingFactor)"

section \<open>Every factor is on the scale\<close>

definition on_scale :: "int \<Rightarrow> bool" where
  "on_scale v \<longleftrightarrow> 0 \<le> v \<and> v \<le> kFactorScale"

lemma on_scale_clamp [simp]: "on_scale (clamp_factor v)"
  by (simp add: on_scale_def clamp_factor_def kFactorScale_def)

lemma on_scale_tables [simp]:
  "on_scale (locality_score c)" "on_scale (pcie_affinity c)" "on_scale (power_rank t)"
  "on_scale (isolation_rank i)"
proof -
  show "on_scale (locality_score c)" "on_scale (pcie_affinity c)"
    by (cases c; simp add: on_scale_def kFactorScale_def)+
  show "on_scale (power_rank t)" by (cases t) (simp_all add: on_scale_def kFactorScale_def)
  show "on_scale (isolation_rank i)"
    by (cases i) (simp_all add: on_scale_def kFactorScale_def isolation_rank_def Let_def)
qed

lemma on_scale_normalize [simp]: "on_scale (normalize_lower_is_better v w)"
  by (simp add: normalize_lower_is_better_def Let_def) (simp add: on_scale_def kFactorScale_def)

lemma on_scale_latency [simp]: "on_scale (completion_latency_factor inp)"
proof -
  have "uint (min factor_scale_u64 w) \<le> uint factor_scale_u64" for w
    by (simp add: word_le_def [symmetric])
  then have "on_scale (uint (min factor_scale_u64 w))" for w
    by (simp add: on_scale_def factor_scale_u64_def kFactorScale_def)
  moreover have "on_scale 600000" by (simp add: on_scale_def kFactorScale_def)
  ultimately show ?thesis
    by (auto simp: completion_latency_factor_def Let_def split: option.split)
qed

lemma on_scale_preference [simp]: "on_scale (preference_factor inp)"
proof -
  define pref where "pref = (case index_of (pol_preference_order (fi_policy inp)) (dr_type (fi_domain inp)) of
      None \<Rightarrow> 400000
    | Some i \<Rightarrow> clamp_factor (kFactorScale - int i *
        (800000 div int (max 1 (length (pol_preference_order (fi_policy inp)))))))"
  have "on_scale pref"
    by (auto simp: pref_def on_scale_def [of 400000] kFactorScale_def split: option.split)
  then show ?thesis
    unfolding preference_factor_def Let_def pref_def [symmetric]
    by (cases "pol_offload_requirement (fi_policy inp)") (auto simp: on_scale_def kFactorScale_def)
qed

lemma on_scale_parts [simp]:
  "on_scale (queue_delay_factor inp)" "on_scale (diversity_factor inp)"
  "on_scale (fallback_cost_factor inp)" "on_scale (setup_cost_factor inp)"
  "on_scale (nic_locality d)" "on_scale (accelerator_locality inp)"
proof -
  have c: "on_scale 500000" "on_scale 800000" "on_scale 200000" "on_scale kFactorScale"
    "on_scale 900000" "on_scale 400000" "on_scale 600000"
    by (simp_all add: on_scale_def kFactorScale_def)
  show "on_scale (queue_delay_factor inp)" by (simp add: queue_delay_factor_def Let_def c)
  show "on_scale (diversity_factor inp)" by (simp add: diversity_factor_def c split: option.split)
  show "on_scale (fallback_cost_factor inp)" by (simp add: fallback_cost_factor_def Let_def)
  show "on_scale (setup_cost_factor inp)" by (simp add: setup_cost_factor_def)
  show "on_scale (nic_locality d)" by (simp add: nic_locality_def c)
  show "on_scale (accelerator_locality inp)"
    by (simp add: accelerator_locality_def c split: ExecutionDomainType.split)
qed

text \<open>
  Whatever the domain, the request, the policy and the load evidence are, every ranking factor
  computed for a candidate lies between zero and the factor scale, also when the 64-bit products
  of the cost and latency normalisations wrap around.\<close>

theorem compute_factors_in_range:
  "0 \<le> compute_factors inp factor \<and> compute_factors inp factor \<le> kFactorScale"
proof -
  have "on_scale (compute_factors inp factor)"
  proof (cases factor)
    case kExecutionThroughput
    then show ?thesis by (simp add: compute_factors_def Let_def)
  qed (simp_all add: compute_factors_def Let_def,
       simp_all add: on_scale_def kFactorScale_def)
  then show ?thesis by (simp add: on_scale_def)
qed

section \<open>Monotonicity of the normalisation\<close>

lemma uint_scaled_quotient:
  assumes "unat w * 1000000 < 2 ^ 64" and "v \<le> w"
  shows "uint ((v * factor_scale_u64) div w) = (uint v * kFactorScale) div uint w"
proof -
  have "unat v * 1000000 < 2 ^ 64"
    using assms by (meson le_less_trans mult_le_mono1 word_le_nat_alt)
  then have "unat (v * factor_scale_u64) = unat v * 1000000"
    by (simp add: factor_scale_u64_def kFactorScale_def unat_word_ariths)
  then have "int (unat (v * factor_scale_u64)) = int (unat v) * 1000000" by simp
  then have "uint (v * factor_scale_u64) = uint v * kFactorScale"
    by (simp only: uint_nat [symmetric] kFactorScale_def)
  then show ?thesis by (simp add: uint_div)
qed

lemma scaled_quotient_le: "0 \<le> (a :: int) \<Longrightarrow> a \<le> b \<Longrightarrow> (a * kFactorScale) div b \<le> kFactorScale"
proof (cases "b = 0")
  case False
  assume *: "0 \<le> a" "a \<le> b"
  then have "(a * kFactorScale) div b \<le> (b * kFactorScale) div b"
    using False by (intro zdiv_mono1) (auto simp: kFactorScale_def)
  then show ?thesis using False by simp
qed (simp add: kFactorScale_def)

lemma normalize_lower_exact:
  assumes "unat worst * 1000000 < 2 ^ 64" and "worst \<noteq> 0"
  shows "normalize_lower_is_better v worst =
           kFactorScale - (uint (min v worst) * kFactorScale) div uint worst"
proof -
  let ?q = "(min v worst * factor_scale_u64) div worst"
  have q: "uint ?q = (uint (min v worst) * kFactorScale) div uint worst"
    using uint_scaled_quotient [OF assms(1)] by simp
  have "uint (min v worst) \<le> uint worst" by (simp flip: word_le_def)
  then have le: "uint ?q \<le> kFactorScale" unfolding q by (simp add: scaled_quotient_le)
  then have "sint ?q = uint ?q"
    unfolding sint_uint
    by (intro signed_take_bit_int_eq_self) (simp_all add: kFactorScale_def order_trans [of _ 0])
  then show ?thesis
    using q le assms(2) uint_ge_0 [of ?q]
    by (simp add: normalize_lower_is_better_def Let_def clamp_factor_def del: uint_ge_0)
qed

text \<open>
  The cost normalisation ranks in the right direction: as long as the worst value times the
  factor scale fits 64 bits, a larger cost never gets a larger factor, no cost gets the full factor
  and the worst cost gets zero.\<close>

theorem normalize_lower_is_better_antitone:
  assumes "unat worst * 1000000 < 2 ^ 64" and "worst \<noteq> 0" and "v \<le> v'"
  shows "normalize_lower_is_better v' worst \<le> normalize_lower_is_better v worst
         \<and> normalize_lower_is_better 0 worst = kFactorScale
         \<and> normalize_lower_is_better worst worst = 0"
proof -
  have pos: "0 < uint worst" using assms(2) uint_0_iff [of worst] by (simp add: order_less_le)
  have "min v worst \<le> min v' worst" using assms(3) by (auto simp: min_def)
  then have "(uint (min v worst) * kFactorScale) div uint worst
      \<le> (uint (min v' worst) * kFactorScale) div uint worst"
    using pos by (intro zdiv_mono1) (simp_all add: word_le_def kFactorScale_def)
  then show ?thesis
    using normalize_lower_exact [OF assms(1,2)] pos by simp
qed

theorem normalize_lower_is_better_antitone_witness:
  "normalize_lower_is_better 75 100 \<le> normalize_lower_is_better 25 100
   \<and> normalize_lower_is_better 0 100 = kFactorScale \<and> normalize_lower_is_better 100 100 = 0"
  using normalize_lower_is_better_antitone [of 100 25 75] by simp

lemma normalize_wraps_around:
  "normalize_lower_is_better (2 ^ 63) (2 ^ 63) = kFactorScale"
  by (simp add: normalize_lower_is_better_def factor_scale_u64_def kFactorScale_def clamp_factor_def)

end
