(* ===== verification/Tos_Authority.thy ===== *)
theory Tos_Authority
  imports Tos_Policy Tos_Domain
begin

text \<open>
  Authority (\<^verbatim>\<open>src/include/tos/core/authority.hpp\<close>, \<^verbatim>\<open>src/src/core/authority.cpp\<close>): the binding a
  plan carries, its comparison with the live authority of a domain, and the registry of worker
  incarnations. \<open>validate_authority_valid_iff\<close> characterises acceptance; \<open>worker_step\<close> is the step
  relation of the worker registry.
\<close>

section \<open>Bindings\<close>

record AuthorityBinding =
  ab_coordinator_epoch :: u64
  ab_worker :: u64
  ab_worker_boot :: u64
  ab_domain :: u64
  ab_domain_generation :: u64
  ab_capability_generation :: u64
  ab_backend_generation :: u64
  ab_topology_generation :: u64
  ab_locality_generation :: u64
  ab_health_generation :: u64
  ab_queue_generation :: u64
  ab_load_generation :: u64
  ab_policy_generation :: u64
  ab_compatibility_generation :: u64
  ab_isolation_generation :: u64
  ab_evidence_generation :: u64
  ab_operation :: u64
  ab_attempt :: u64
  ab_attempt_generation :: u64
  ab_reservation :: u64

record AuthorityMismatch =
  am_field :: string
  am_bound :: u64
  am_observed :: u64
  am_detail :: string

record AuthorityValidation =
  av_valid :: bool
  av_mismatches :: "AuthorityMismatch list"
  av_code :: string

record LiveAuthority =
  la_coordinator_epoch :: u64
  la_worker :: u64
  la_worker_boot :: u64
  la_domain_generation :: u64
  la_capability_generation :: u64
  la_backend_generation :: u64
  la_topology_generation :: u64
  la_locality_generation :: u64
  la_health_generation :: u64
  la_queue_generation :: u64
  la_load_generation :: u64
  la_policy_generation :: u64
  la_compatibility_generation :: u64
  la_isolation_generation :: u64
  la_evidence_generation :: u64
  la_domain_fenced :: bool
  la_domain_present :: bool

definition empty_live_authority :: LiveAuthority where
  "empty_live_authority =
     \<lparr>la_coordinator_epoch = 0, la_worker = 0, la_worker_boot = 0, la_domain_generation = 0,
      la_capability_generation = 0, la_backend_generation = 0, la_topology_generation = 0,
      la_locality_generation = 0, la_health_generation = 0, la_queue_generation = 0,
      la_load_generation = 0, la_policy_generation = 0, la_compatibility_generation = 0,
      la_isolation_generation = 0, la_evidence_generation = 0, la_domain_fenced = False,
      la_domain_present = False\<rparr>"

definition empty_binding :: AuthorityBinding where
  "empty_binding =
     \<lparr>ab_coordinator_epoch = 0, ab_worker = 0, ab_worker_boot = 0, ab_domain = 0,
      ab_domain_generation = 0, ab_capability_generation = 0, ab_backend_generation = 0,
      ab_topology_generation = 0, ab_locality_generation = 0, ab_health_generation = 0,
      ab_queue_generation = 0, ab_load_generation = 0, ab_policy_generation = 0,
      ab_compatibility_generation = 0, ab_isolation_generation = 0, ab_evidence_generation = 0,
      ab_operation = 0, ab_attempt = 0, ab_attempt_generation = 0, ab_reservation = 0\<rparr>"

text \<open>The source's \<^verbatim>\<open>record\<close>.\<close>

definition record_mismatch ::
  "AuthorityMismatch list \<Rightarrow> string \<Rightarrow> u64 \<Rightarrow> u64 \<Rightarrow> string \<Rightarrow> AuthorityMismatch list" where
  "record_mismatch mismatches field bound observed detail =
     mismatches @ [\<lparr>am_field = field, am_bound = bound, am_observed = observed,
                     am_detail = bounded_text detail kMaxTextLength\<rparr>]"

definition compare_generation ::
  "AuthorityMismatch list \<Rightarrow> string \<Rightarrow> u64 \<Rightarrow> u64 \<Rightarrow> AuthorityMismatch list" where
  "compare_generation mismatches field bound observed =
     (case relate_generations bound observed of
        GenerationRelation.kEqual \<Rightarrow> mismatches
      | GenerationRelation.kAdvanced \<Rightarrow>
          record_mismatch mismatches field bound observed ''evidence advanced past the binding''
      | GenerationRelation.kRegressed \<Rightarrow>
          record_mismatch mismatches field bound observed ''observed generation regressed''
      | GenerationRelation.kUnset \<Rightarrow>
          record_mismatch mismatches field bound observed ''generation was never published'')"

definition has_field :: "AuthorityValidation \<Rightarrow> string \<Rightarrow> bool" where
  "has_field v name = list_ex (\<lambda>m. am_field m = name) (av_mismatches v)"

text \<open>The comparisons every plan is subject to, then those the freshness policy asks for.\<close>

definition identity_mismatches :: "AuthorityBinding \<Rightarrow> LiveAuthority \<Rightarrow> AuthorityMismatch list" where
  "identity_mismatches b live =
     (let ms = (if ab_coordinator_epoch b \<noteq> la_coordinator_epoch live
                then record_mismatch [] ''coordinator_epoch'' (ab_coordinator_epoch b)
                       (la_coordinator_epoch live) ''coordinator epoch changed''
                else []);
          ms = (if \<not> valid (ab_worker b) \<or> ab_worker b \<noteq> la_worker live
                then record_mismatch ms ''worker'' (ab_worker b) (la_worker live)
                       ''worker identity changed''
                else ms)
      in if \<not> valid (ab_worker_boot b) \<or> ab_worker_boot b \<noteq> la_worker_boot live
         then record_mismatch ms ''worker_boot'' (ab_worker_boot b) (la_worker_boot live)
                ''worker incarnation changed or was fenced''
         else ms)"

definition compare_when ::
  "bool \<Rightarrow> string \<Rightarrow> u64 \<Rightarrow> u64 \<Rightarrow> AuthorityMismatch list \<Rightarrow> AuthorityMismatch list" where
  "compare_when required field bound observed mismatches =
     (if required then compare_generation mismatches field bound observed else mismatches)"

definition generation_mismatches ::
  "AuthorityBinding \<Rightarrow> LiveAuthority \<Rightarrow> FreshnessRequirements \<Rightarrow> AuthorityMismatch list \<Rightarrow>
     AuthorityMismatch list" where
  "generation_mismatches b live f ms =
     (let ms = compare_generation ms ''domain_generation'' (ab_domain_generation b)
                 (la_domain_generation live);
          ms = compare_generation ms ''backend_generation'' (ab_backend_generation b)
                 (la_backend_generation live);
          ms = compare_generation ms ''policy_generation'' (ab_policy_generation b)
                 (la_policy_generation live);
          ms = compare_when (fr_capability f) ''capability_generation'' (ab_capability_generation b)
                 (la_capability_generation live) ms;
          ms = compare_when (fr_compatibility f) ''compatibility_generation''
                 (ab_compatibility_generation b) (la_compatibility_generation live) ms;
          ms = compare_when (fr_topology f) ''topology_generation'' (ab_topology_generation b)
                 (la_topology_generation live) ms;
          ms = compare_when (fr_locality f) ''locality_generation'' (ab_locality_generation b)
                 (la_locality_generation live) ms;
          ms = compare_when (fr_health f) ''health_generation'' (ab_health_generation b)
                 (la_health_generation live) ms;
          ms = compare_when (fr_queue f) ''queue_generation'' (ab_queue_generation b)
                 (la_queue_generation live) ms;
          ms = compare_when (fr_load f) ''load_generation'' (ab_load_generation b)
                 (la_load_generation live) ms;
          ms = compare_when (fr_isolation f) ''isolation_generation'' (ab_isolation_generation b)
                 (la_isolation_generation live) ms
      in compare_when (fr_evidence f) ''evidence_generation'' (ab_evidence_generation b)
           (la_evidence_generation live) ms)"

definition validate_authority ::
  "AuthorityBinding \<Rightarrow> LiveAuthority \<Rightarrow> FreshnessRequirements \<Rightarrow> AuthorityValidation" where
  "validate_authority b live f =
     (if \<not> la_domain_present live
      then \<lparr>av_valid = False,
            av_mismatches = record_mismatch [] ''domain_absent'' (ab_domain b) 0
              ''execution domain is not registered'',
            av_code = ''authority.domain_absent''\<rparr>
      else if la_domain_fenced live
      then \<lparr>av_valid = False,
            av_mismatches = record_mismatch [] ''domain_fenced'' (ab_domain b) 0
              ''execution domain authority was withdrawn'',
            av_code = ''authority.domain_fenced''\<rparr>
      else let ms = generation_mismatches b live f (identity_mismatches b live)
           in \<lparr>av_valid = (ms = []), av_mismatches = ms,
               av_code = (if ms = [] then ''ok'' else ''authority.stale'')\<rparr>)"

definition live_authority_of :: "ExecutionDomainRecord \<Rightarrow> u64 \<Rightarrow> u64 \<Rightarrow> u64 \<Rightarrow> LiveAuthority" where
  "live_authority_of r epoch policy_generation isolation_generation =
     \<lparr>la_coordinator_epoch = epoch, la_worker = dr_worker r, la_worker_boot = dr_worker_boot r,
      la_domain_generation = dr_generation r,
      la_capability_generation = cap_generation (dr_capability r),
      la_backend_generation = dr_backend_generation r,
      la_topology_generation = to_generation (dr_topology r),
      la_locality_generation = lo_generation (dr_locality r),
      la_health_generation = ld_health_generation (dr_load r),
      la_queue_generation = ld_queue_generation (dr_load r),
      la_load_generation = ld_load_generation (dr_load r),
      la_policy_generation = policy_generation,
      la_compatibility_generation = cm_generation (dr_compatibility r),
      la_isolation_generation = isolation_generation,
      la_evidence_generation =
        (if published (ld_evidence (dr_load r)) then ld_evidence (dr_load r)
         else cap_evidence (dr_capability r)),
      la_domain_fenced = dr_fenced r, la_domain_present = True\<rparr>"

section \<open>Worker incarnations\<close>

record WorkerAuthority =
  wa_current :: "u64 umap"
  wa_boot_owner :: "u64 umap"
  wa_fenced :: "u64 list"
  wa_labels :: "string umap"
  wa_max_fenced :: nat

definition new_worker_authority :: WorkerAuthority where
  "new_worker_authority =
     \<lparr>wa_current = [], wa_boot_owner = [], wa_fenced = [], wa_labels = [], wa_max_fenced = 4096\<rparr>"

text \<open>The loop that drops the smallest fenced boots until half the bound remains.\<close>

definition bound_fenced :: "nat \<Rightarrow> u64 list \<Rightarrow> u64 list" where
  "bound_fenced limit fenced =
     (if length fenced > limit
      then let ordered = sort fenced in drop (length ordered - limit div 2) ordered
      else fenced)"

definition register_boot ::
  "WorkerAuthority \<Rightarrow> u64 \<Rightarrow> u64 \<Rightarrow> string \<Rightarrow> Status \<times> WorkerAuthority" where
  "register_boot wa worker boot label =
     (if \<not> valid worker then (failure ''worker.invalid_identity'' [], wa)
      else if \<not> valid boot then (failure ''worker.invalid_boot_identity'' [], wa)
      else if boot \<in> set (wa_fenced wa)
      then (failure ''worker.boot_fenced'' ''this worker incarnation was fenced'', wa)
      else if (case map_of (wa_boot_owner wa) boot of None \<Rightarrow> False | Some owner \<Rightarrow> owner \<noteq> worker)
      then (failure ''worker.boot_owned'' ''boot identity already belongs to another worker'', wa)
      else if map_of (wa_current wa) worker = Some boot
      then (failure ''worker.duplicate_registration''
              ''this worker incarnation is already registered'', wa)
      else let (fenced, owners) =
             (case map_of (wa_current wa) worker of
                None \<Rightarrow> (wa_fenced wa, wa_boot_owner wa)
              | Some previous \<Rightarrow>
                  (List.insert previous (wa_fenced wa), AList.delete previous (wa_boot_owner wa)))
           in (success,
               wa\<lparr>wa_current := AList.update worker boot (wa_current wa),
                  wa_boot_owner := AList.update boot worker owners,
                  wa_fenced := bound_fenced (wa_max_fenced wa) fenced,
                  wa_labels := AList.update worker (bounded_text label kMaxLabelLength)
                    (wa_labels wa)\<rparr>))"

definition is_current :: "WorkerAuthority \<Rightarrow> u64 \<Rightarrow> u64 \<Rightarrow> bool" where
  "is_current wa worker boot =
     (if \<not> valid boot then False
      else map_of (wa_current wa) worker = Some boot \<and> boot \<notin> set (wa_fenced wa))"

definition is_fenced :: "WorkerAuthority \<Rightarrow> u64 \<Rightarrow> u64 \<Rightarrow> bool" where
  "is_fenced wa worker boot =
     (if boot \<in> set (wa_fenced wa) then True else map_of (wa_current wa) worker \<noteq> Some boot)"

definition fenced_boot_id :: "WorkerAuthority \<Rightarrow> u64 \<Rightarrow> bool" where
  "fenced_boot_id wa boot = (boot \<in> set (wa_fenced wa))"

text \<open>The member \<^verbatim>\<open>WorkerAuthority::fence\<close>.\<close>

definition fence_worker :: "WorkerAuthority \<Rightarrow> u64 \<Rightarrow> u64 \<Rightarrow> string \<Rightarrow> Status \<times> WorkerAuthority" where
  "fence_worker wa worker boot reason =
     (if \<not> valid boot then (failure ''worker.invalid_boot_identity'' [], wa)
      else (success,
            wa\<lparr>wa_fenced := List.insert boot (wa_fenced wa),
               wa_boot_owner := AList.delete boot (wa_boot_owner wa),
               wa_current := (if map_of (wa_current wa) worker = Some boot
                              then AList.delete worker (wa_current wa) else wa_current wa),
               wa_labels := AList.update worker (bounded_text reason kMaxLabelLength)
                 (wa_labels wa)\<rparr>))"

definition fence_boot :: "WorkerAuthority \<Rightarrow> u64 \<Rightarrow> string \<Rightarrow> Status \<times> WorkerAuthority" where
  "fence_boot wa boot reason =
     (let wa = wa\<lparr>wa_fenced := List.insert boot (wa_fenced wa)\<rparr>
      in (success,
          case map_of (wa_boot_owner wa) boot of
            None \<Rightarrow> wa
          | Some owner \<Rightarrow>
              (if map_of (wa_current wa) owner = Some boot
               then wa\<lparr>wa_current := AList.delete owner (wa_current wa),
                       wa_labels := AList.update owner (bounded_text reason kMaxLabelLength)
                         (wa_labels wa)\<rparr>
               else wa)\<lparr>wa_boot_owner := AList.delete boot (wa_boot_owner wa)\<rparr>))"

definition current_boot :: "WorkerAuthority \<Rightarrow> u64 \<Rightarrow> u64" where
  "current_boot wa worker = get_or 0 (wa_current wa) worker"

definition fenced_boots :: "WorkerAuthority \<Rightarrow> u64 list" where
  "fenced_boots wa = sort (wa_fenced wa)"

definition live_boots :: "WorkerAuthority \<Rightarrow> (u64 \<times> u64) list" where
  "live_boots wa = sort_by fst (wa_current wa)"

definition tracked_workers :: "WorkerAuthority \<Rightarrow> nat" where
  "tracked_workers wa = length (wa_current wa)"

section \<open>Validation accepts exactly an unchanged binding\<close>

lemma record_mismatch_not_Nil [simp]: "record_mismatch ms f b obs d \<noteq> []"
  by (simp add: record_mismatch_def)

lemma compare_generation_Nil [simp]:
  "compare_generation ms f b obs = [] \<longleftrightarrow> ms = [] \<and> published b \<and> obs = b"
proof -
  have "compare_generation ms f b obs = [] \<longleftrightarrow>
      ms = [] \<and> relate_generations b obs = GenerationRelation.kEqual"
    by (cases "relate_generations b obs") (simp_all add: compare_generation_def)
  then show ?thesis by (simp add: relate_generations_equal)
qed

lemma compare_when_Nil [simp]:
  "compare_when c f b obs ms = [] \<longleftrightarrow> ms = [] \<and> (c \<longrightarrow> published b \<and> obs = b)"
  by (simp add: compare_when_def)

lemma identity_mismatches_Nil:
  "identity_mismatches b live = [] \<longleftrightarrow>
     ab_coordinator_epoch b = la_coordinator_epoch live
     \<and> valid (ab_worker b) \<and> ab_worker b = la_worker live
     \<and> valid (ab_worker_boot b) \<and> ab_worker_boot b = la_worker_boot live"
  by (auto simp: identity_mismatches_def Let_def)

text \<open>Every generation that the freshness policy asks for is published and unchanged.\<close>

definition evidence_unchanged ::
  "AuthorityBinding \<Rightarrow> LiveAuthority \<Rightarrow> FreshnessRequirements \<Rightarrow> bool" where
  "evidence_unchanged b live f \<longleftrightarrow>
     list_all (\<lambda>(required, bound, observed). required \<longrightarrow> bound \<noteq> 0 \<and> observed = bound)
       [(True, ab_domain_generation b, la_domain_generation live),
        (True, ab_backend_generation b, la_backend_generation live),
        (True, ab_policy_generation b, la_policy_generation live),
        (fr_capability f, ab_capability_generation b, la_capability_generation live),
        (fr_compatibility f, ab_compatibility_generation b, la_compatibility_generation live),
        (fr_topology f, ab_topology_generation b, la_topology_generation live),
        (fr_locality f, ab_locality_generation b, la_locality_generation live),
        (fr_health f, ab_health_generation b, la_health_generation live),
        (fr_queue f, ab_queue_generation b, la_queue_generation live),
        (fr_load f, ab_load_generation b, la_load_generation live),
        (fr_isolation f, ab_isolation_generation b, la_isolation_generation live),
        (fr_evidence f, ab_evidence_generation b, la_evidence_generation live)]"

lemma generation_mismatches_Nil:
  "generation_mismatches b live f ms = [] \<longleftrightarrow> ms = [] \<and> evidence_unchanged b live f"
  by (auto simp: generation_mismatches_def evidence_unchanged_def Let_def valid_def)

text \<open>
  C23. A plan's binding is accepted at dispatch exactly when the domain is registered and not
  fenced, the coordinator epoch and a valid worker incarnation are those of the live domain, and
  every generation the freshness policy requires is published and equal to the live one.\<close>

theorem validate_authority_accepts_iff_unchanged:
  "av_valid (validate_authority b live f) \<longleftrightarrow>
     la_domain_present live \<and> \<not> la_domain_fenced live
     \<and> ab_coordinator_epoch b = la_coordinator_epoch live
     \<and> valid (ab_worker b) \<and> ab_worker b = la_worker live
     \<and> valid (ab_worker_boot b) \<and> ab_worker_boot b = la_worker_boot live
     \<and> evidence_unchanged b live f"
  by (auto simp: validate_authority_def Let_def generation_mismatches_Nil identity_mismatches_Nil)


section \<open>The worker registry\<close>

inductive worker_step :: "WorkerAuthority \<Rightarrow> WorkerAuthority \<Rightarrow> bool" where
  step_register_boot: "register_boot wa worker boot label = (st, wa') \<Longrightarrow> worker_step wa wa'"
| step_fence_boot: "fence_boot wa boot reason = (st, wa') \<Longrightarrow> worker_step wa wa'"


definition worker_inv :: "WorkerAuthority \<Rightarrow> bool" where
  "worker_inv wa \<longleftrightarrow>
     distinct (wa_fenced wa)
     \<and> (\<forall>w b. map_of (wa_current wa) w = Some b \<longrightarrow>
          valid b \<and> b \<notin> set (wa_fenced wa) \<and> map_of (wa_boot_owner wa) b = Some w)"

lemma worker_inv_current:
  "worker_inv wa \<Longrightarrow> map_of (wa_current wa) w = Some b \<Longrightarrow>
     valid b \<and> b \<notin> set (wa_fenced wa) \<and> map_of (wa_boot_owner wa) b = Some w"
  by (simp add: worker_inv_def)

lemma set_bound_fenced: "set (bound_fenced limit fenced) \<subseteq> set fenced"
  by (auto simp: bound_fenced_def Let_def dest: in_set_dropD)

lemma distinct_bound_fenced [simp]: "distinct fenced \<Longrightarrow> distinct (bound_fenced limit fenced)"
  by (simp add: bound_fenced_def Let_def)

lemma bound_fenced_within: "length fenced \<le> limit \<Longrightarrow> bound_fenced limit fenced = fenced"
  by (simp add: bound_fenced_def)

text \<open>What a successful registration does, branch by branch.\<close>

lemma register_boot_ok:
  assumes "register_boot wa worker boot label = (st, wa')" and "st_ok st"
  shows "valid worker" and "valid boot" and "boot \<notin> set (wa_fenced wa)"
    and "map_of (wa_boot_owner wa) boot \<in> {None, Some worker}"
    and "map_of (wa_current wa) worker \<noteq> Some boot"
    and "wa_current wa' = AList.update worker boot (wa_current wa)"
    and "wa_fenced wa' = bound_fenced (wa_max_fenced wa)
           (case map_of (wa_current wa) worker of
              None \<Rightarrow> wa_fenced wa | Some previous \<Rightarrow> List.insert previous (wa_fenced wa))"
    and "map_of (wa_boot_owner wa') =
           (case map_of (wa_current wa) worker of
              None \<Rightarrow> map_of (wa_boot_owner wa)
            | Some previous \<Rightarrow> (map_of (wa_boot_owner wa))(previous := None))(boot \<mapsto> worker)"
    and "wa_max_fenced wa' = wa_max_fenced wa"
  using assms by (auto simp: register_boot_def Let_def split: if_splits option.splits)

lemma register_boot_refused:
  "register_boot wa worker boot label = (st, wa') \<Longrightarrow> \<not> st_ok st \<Longrightarrow> wa' = wa"
  by (auto simp: register_boot_def Let_def split: if_splits option.splits)

lemma register_boot_inv:
  assumes "register_boot wa worker boot label = (st, wa')" and inv: "worker_inv wa"
  shows "worker_inv wa'"
proof (cases "st_ok st")
  case True
  note ok = register_boot_ok [OF assms(1) True]
  have fenced': "set (wa_fenced wa') \<subseteq>
      set (case map_of (wa_current wa) worker of
             None \<Rightarrow> wa_fenced wa | Some previous \<Rightarrow> List.insert previous (wa_fenced wa))"
    unfolding ok(7) by (rule set_bound_fenced)
  have "valid b \<and> b \<notin> set (wa_fenced wa') \<and> map_of (wa_boot_owner wa') b = Some w"
    if b: "map_of (wa_current wa') w = Some b" for w b
  proof (cases "w = worker")
    case True
    then have "b = boot" using b ok(6) by simp
    moreover have "boot \<notin> set (wa_fenced wa')"
      using fenced' ok(3,5) by (cases "map_of (wa_current wa) worker") auto
    ultimately show ?thesis using True ok(2,8) by simp
  next
    case False
    then have w: "map_of (wa_current wa) w = Some b" using b ok(6) by simp
    note old = worker_inv_current [OF inv w]
    have "b \<noteq> boot" using old ok(4) False by auto
    moreover have "map_of (wa_current wa) worker \<noteq> Some b"
      using worker_inv_current [OF inv] old False by fastforce
    ultimately show ?thesis
      using old ok(8) fenced' by (cases "map_of (wa_current wa) worker") auto
  qed
  moreover have "distinct (wa_fenced wa')"
    using inv ok(7) by (auto simp: worker_inv_def split: option.splits)
  ultimately show ?thesis by (simp add: worker_inv_def)
next
  case False
  then show ?thesis using register_boot_refused assms by blast
qed

lemma fence_boot_effect:
  assumes "fence_boot wa boot reason = (st, wa')"
  shows "st = success" and "wa_fenced wa' = List.insert boot (wa_fenced wa)"
    and "map_of (wa_boot_owner wa') = (map_of (wa_boot_owner wa))(boot := None)"
    and "map_of (wa_current wa') =
           (case map_of (wa_boot_owner wa) boot of
              None \<Rightarrow> map_of (wa_current wa)
            | Some owner \<Rightarrow> if map_of (wa_current wa) owner = Some boot
                            then (map_of (wa_current wa))(owner := None) else map_of (wa_current wa))"
    and "wa_max_fenced wa' = wa_max_fenced wa"
  using assms by (auto simp: fence_boot_def Let_def split: option.splits if_splits)

lemma fence_boot_inv:
  assumes "fence_boot wa boot reason = (st, wa')" and inv: "worker_inv wa"
  shows "worker_inv wa'"
proof -
  note eff = fence_boot_effect [OF assms(1)]
  have "valid b \<and> b \<notin> set (wa_fenced wa') \<and> map_of (wa_boot_owner wa') b = Some w"
    if b: "map_of (wa_current wa') w = Some b" for w b
  proof -
    have w: "map_of (wa_current wa) w = Some b"
      using b eff(4) by (auto split: option.splits if_splits)
    note old = worker_inv_current [OF inv w]
    have "b \<noteq> boot"
    proof
      assume "b = boot"
      then have "map_of (wa_current wa') w = None" using old w eff(4) by simp
      with b show False by simp
    qed
    then show ?thesis using old eff by simp
  qed
  then show ?thesis using inv eff(2) by (simp add: worker_inv_def)
qed

lemma worker_inv_new: "worker_inv new_worker_authority"
  by (simp add: worker_inv_def new_worker_authority_def)

lemma worker_step_inv: "worker_step wa wa' \<Longrightarrow> worker_inv wa \<Longrightarrow> worker_inv wa'"
  by (erule worker_step.cases) (auto intro: register_boot_inv fence_boot_inv)

lemma worker_steps_inv: "worker_step\<^sup>*\<^sup>* wa wa' \<Longrightarrow> worker_inv wa \<Longrightarrow> worker_inv wa'"
  by (induction rule: rtranclp_induct) (auto intro: worker_step_inv)

text \<open>Below the bound of the fence set, a step only adds to it.\<close>

lemma worker_step_fenced:
  assumes "worker_step wa wa'" and "length (wa_fenced wa) < wa_max_fenced wa"
  shows "set (wa_fenced wa) \<subseteq> set (wa_fenced wa') \<and> length (wa_fenced wa') \<le> Suc (length (wa_fenced wa))
         \<and> wa_max_fenced wa' = wa_max_fenced wa"
  using assms(1)
proof cases
  case (step_register_boot worker boot label st)
  show ?thesis
  proof (cases "st_ok st")
    case True
    note ok = register_boot_ok [OF step_register_boot True]
    have "length (List.insert p (wa_fenced wa)) \<le> wa_max_fenced wa" for p
      using assms(2) by (simp add: List.insert_def)
    then show ?thesis
      using ok(7,9) assms(2)
      by (auto simp: bound_fenced_within List.insert_def split: option.splits if_splits)
  next
    case False
    then show ?thesis using register_boot_refused step_register_boot by fastforce
  qed
next
  case (step_fence_boot boot reason st)
  then show ?thesis using fence_boot_effect [OF step_fence_boot] by (auto simp: List.insert_def)
qed

lemma worker_steps_fenced:
  assumes "(worker_step ^^ n) wa wa'" and "length (wa_fenced wa) + n \<le> wa_max_fenced wa"
  shows "set (wa_fenced wa) \<subseteq> set (wa_fenced wa') \<and> length (wa_fenced wa') \<le> length (wa_fenced wa) + n
         \<and> wa_max_fenced wa' = wa_max_fenced wa"
  using assms
proof (induction n arbitrary: wa')
  case (Suc n)
  then obtain mid where mid: "(worker_step ^^ n) wa mid" "worker_step mid wa'" by auto
  with Suc have *: "set (wa_fenced wa) \<subseteq> set (wa_fenced mid)"
      "length (wa_fenced mid) \<le> length (wa_fenced wa) + n" "wa_max_fenced mid = wa_max_fenced wa"
    by simp_all
  then have "length (wa_fenced mid) < wa_max_fenced mid" using Suc.prems(2) by simp
  from worker_step_fenced [OF mid(2) this] * show ?case by auto
qed simp

section \<open>Properties\<close>



text \<open>
  Registering a new incarnation of a worker makes it the current one, withdraws the previous
  incarnation from every worker, and leaves the incarnations of the other workers alone.\<close>

theorem new_incarnation_supersedes_previous:
  assumes "worker_inv wa" and "register_boot wa worker boot label = (st, wa')" and "st_ok st"
  shows "is_current wa' worker boot
         \<and> (\<forall>w. \<not> is_current wa' w (current_boot wa worker))
         \<and> (\<forall>w. w \<noteq> worker \<longrightarrow> current_boot wa' w = current_boot wa w)"
proof (intro conjI allI impI)
  note ok = register_boot_ok [OF assms(2,3)]
  have inv: "worker_inv wa'" using register_boot_inv assms by blast
  have "map_of (wa_current wa') worker = Some boot" using ok(6) by simp
  then show "is_current wa' worker boot"
    using worker_inv_current [OF inv] by (simp add: is_current_def)
  show "\<not> is_current wa' w (current_boot wa worker)" for w
  proof (cases "map_of (wa_current wa) worker")
    case None
    then show ?thesis by (simp add: is_current_def current_boot_def get_or_def valid_def)
  next
    case (Some previous)
    then have "map_of (wa_boot_owner wa') previous \<noteq> Some w" using ok(5,8) by auto
    then have "map_of (wa_current wa') w \<noteq> Some previous"
      using worker_inv_current [OF inv] by blast
    then show ?thesis using Some by (simp add: is_current_def current_boot_def get_or_def)
  qed
  show "current_boot wa' w = current_boot wa w" if "w \<noteq> worker" for w
    using that ok(6) by (simp add: current_boot_def get_or_def)
qed

theorem new_incarnation_supersedes_previous_witness:
  "let wa = snd (register_boot new_worker_authority 1 7 ''w'');
       wa' = snd (register_boot wa 1 8 ''w'')
   in is_current wa' 1 8 \<and> (\<forall>w. \<not> is_current wa' w (current_boot wa 1))
      \<and> (\<forall>w. w \<noteq> 1 \<longrightarrow> current_boot wa' w = current_boot wa w)"
proof -
  define wa where "wa = snd (register_boot new_worker_authority 1 7 ''w'')"
  have inv: "worker_inv wa"
    unfolding wa_def by (rule register_boot_inv [OF prod.collapse [symmetric] worker_inv_new])
  have ok: "st_ok (fst (register_boot wa 1 8 ''w''))"
    by (simp add: wa_def register_boot_def new_worker_authority_def valid_def bound_fenced_def)
  from new_incarnation_supersedes_previous [OF inv prod.collapse [symmetric] ok]
  show ?thesis unfolding wa_def Let_def .
qed

text \<open>
  A fenced incarnation stays without authority: as long as the fence set has room for the
  steps taken, no sequence of registrations and fencing makes the boot current again for any
  worker, and registering it again is refused as fenced.\<close>

theorem fenced_boot_never_regains_authority:
  assumes "fence_boot wa boot reason = (st, fenced_wa)" and "(worker_step ^^ n) fenced_wa wa'"
    and "length (wa_fenced fenced_wa) + n \<le> wa_max_fenced fenced_wa"
    and "valid worker" and "valid boot"
  shows "\<not> is_current wa' w boot \<and> is_fenced wa' w boot
         \<and> register_boot wa' worker boot label =
             (failure ''worker.boot_fenced'' ''this worker incarnation was fenced'', wa')"
proof -
  have "boot \<in> set (wa_fenced fenced_wa)" using fence_boot_effect(2) [OF assms(1)] by simp
  then have "boot \<in> set (wa_fenced wa')" using worker_steps_fenced [OF assms(2,3)] by blast
  with assms(4,5) show ?thesis by (simp add: is_current_def is_fenced_def register_boot_def)
qed

theorem fenced_boot_never_regains_authority_witness:
  "let wa = snd (register_boot new_worker_authority 1 7 ''w'');
       fenced_wa = snd (fence_boot wa 7 ''dead'');
       wa' = snd (register_boot fenced_wa 1 8 ''w'')
   in \<not> is_current wa' 1 7 \<and> is_fenced wa' 1 7
      \<and> register_boot wa' 2 7 ''w'' =
          (failure ''worker.boot_fenced'' ''this worker incarnation was fenced'', wa')"
proof -
  define wa where "wa = snd (register_boot new_worker_authority 1 7 ''w'')"
  define fenced_wa where "fenced_wa = snd (fence_boot wa 7 ''dead'')"
  have f: "fence_boot wa 7 ''dead'' = (fst (fence_boot wa 7 ''dead''), fenced_wa)"
    by (simp add: fenced_wa_def)
  have "worker_step fenced_wa (snd (register_boot fenced_wa 1 8 ''w''))"
    by (rule step_register_boot [OF prod.collapse [symmetric]])
  then have s: "(worker_step ^^ 1) fenced_wa (snd (register_boot fenced_wa 1 8 ''w''))"
    by (simp only: relpowp_1)
  have n: "length (wa_fenced fenced_wa) + 1 \<le> wa_max_fenced fenced_wa"
    by (simp add: fenced_wa_def wa_def register_boot_def fence_boot_def new_worker_authority_def
        valid_def bound_fenced_def Let_def List.insert_def)
  have "valid (2 :: u64)" "valid (7 :: u64)" by (simp_all add: valid_def)
  from fenced_boot_never_regains_authority [OF f s n this]
  show ?thesis unfolding fenced_wa_def wa_def Let_def by blast
qed

end
