(* ===== verification/Tos_Eligibility.thy ===== *)
theory Tos_Eligibility
  imports Tos_Planner Tos_Authority
begin

text \<open>
  Hard eligibility: the records of a decision (\<^verbatim>\<open>src/include/tos/core/decision.hpp\<close>,
  \<^verbatim>\<open>src/src/core/decision.cpp\<close>) and \<^verbatim>\<open>Impl::evaluate\<close> of \<^verbatim>\<open>src/src/core/scheduler.cpp\<close>, which decides
  whether one domain may execute one request. The early returns of \<^verbatim>\<open>evaluate\<close> are a list of
  checks, in the order of the source, of which the first that fails is the answer; the checks are
  grouped by what they are about. Eligibility reads the worker registry, the operation classes and
  the reservation ledger and changes nothing.
\<close>

section \<open>Decisions\<close>

record CandidateEvaluation =
  ce_domain :: u64
  ce_domain_type :: ExecutionDomainType
  ce_provenance :: Provenance
  ce_eligible :: bool
  ce_reason :: IneligibilityReason
  ce_detail :: string

record DecisionReason =
  dn_code :: string
  dn_detail :: string

record DecisionExplanation =
  ex_outcome :: SelectionOutcome
  ex_operation :: u64
  ex_operation_class_name :: string
  ex_selected_domain :: u64
  ex_selected_domain_type :: ExecutionDomainType
  ex_selected_provenance :: Provenance
  ex_selected_is_offload :: bool
  ex_fallback_used :: bool
  ex_fallback_depth :: u32
  ex_fallback_from :: u64
  ex_candidates :: "CandidateEvaluation list"
  ex_ranking :: "RankedCandidate list"
  ex_reasons :: "DecisionReason list"
  ex_fallback_chain_tried :: "ExecutionDomainType list"
  ex_snapshot :: u64
  ex_policy_generation :: u64
  ex_evaluated_candidates :: u64
  ex_rejected_candidates :: u64

definition empty_explanation :: DecisionExplanation where
  "empty_explanation =
     \<lparr>ex_outcome = SelectionOutcome.kNoEligibleDomain, ex_operation = 0,
      ex_operation_class_name = [], ex_selected_domain = 0,
      ex_selected_domain_type = ExecutionDomainType.kCpu,
      ex_selected_provenance = Provenance.kUnsupported, ex_selected_is_offload = False,
      ex_fallback_used = False, ex_fallback_depth = 0, ex_fallback_from = 0, ex_candidates = [],
      ex_ranking = [], ex_reasons = [], ex_fallback_chain_tried = [], ex_snapshot = 0,
      ex_policy_generation = 0, ex_evaluated_candidates = 0, ex_rejected_candidates = 0\<rparr>"

definition has_reason :: "DecisionExplanation \<Rightarrow> string \<Rightarrow> bool" where
  "has_reason e code = list_ex (\<lambda>r. dn_code r = code) (ex_reasons e)"

definition primary_reason_code :: "DecisionExplanation \<Rightarrow> string" where
  "primary_reason_code e = (case ex_reasons e of [] \<Rightarrow> ''none'' | r # _ \<Rightarrow> dn_code r)"

definition make_rejection ::
    "u64 \<Rightarrow> ExecutionDomainType \<Rightarrow> Provenance \<Rightarrow> IneligibilityReason \<Rightarrow> string \<Rightarrow> CandidateEvaluation" where
  "make_rejection domain type provenance reason detail =
     \<lparr>ce_domain = domain, ce_domain_type = type, ce_provenance = provenance, ce_eligible = False,
      ce_reason = reason, ce_detail = bounded_text detail kMaxTextLength\<rparr>"

definition add_reason :: "DecisionExplanation \<Rightarrow> string \<Rightarrow> string \<Rightarrow> DecisionExplanation" where
  "add_reason e code detail =
     e\<lparr>ex_reasons := ex_reasons e @ [\<lparr>dn_code = bounded_text code kMaxNameLength,
                                       dn_detail = bounded_text detail kMaxTextLength\<rparr>]\<rparr>"

primrec outcome_for_type :: "ExecutionDomainType \<Rightarrow> SelectionOutcome" where
  "outcome_for_type ExecutionDomainType.kCpu = SelectionOutcome.kCpuSelected"
| "outcome_for_type ExecutionDomainType.kAccelerator = SelectionOutcome.kAcceleratorSelected"
| "outcome_for_type ExecutionDomainType.kNic = SelectionOutcome.kNicSelected"
| "outcome_for_type ExecutionDomainType.kSmartNic = SelectionOutcome.kSmartNicSelected"
| "outcome_for_type ExecutionDomainType.kDpu = SelectionOutcome.kDpuSelected"
| "outcome_for_type ExecutionDomainType.kOtherRegisteredOffloadEngine = SelectionOutcome.kOffloadSelected"

text \<open>The switch of \<^verbatim>\<open>outcome_for_reason\<close>; the one value it does not list falls through to the end.\<close>

fun outcome_for_reason :: "IneligibilityReason \<Rightarrow> SelectionOutcome" where
  "outcome_for_reason IneligibilityReason.kPolicyForbidden = SelectionOutcome.kPolicyRejected"
| "outcome_for_reason IneligibilityReason.kDomainNotAllowed = SelectionOutcome.kPolicyRejected"
| "outcome_for_reason IneligibilityReason.kProvenanceDisallowed = SelectionOutcome.kPolicyRejected"
| "outcome_for_reason IneligibilityReason.kOperationNotSupported = SelectionOutcome.kCapabilityUnsupported"
| "outcome_for_reason IneligibilityReason.kUnknownOperationClass = SelectionOutcome.kCapabilityUnsupported"
| "outcome_for_reason IneligibilityReason.kMemoryDomainUnsupported = SelectionOutcome.kCapabilityUnsupported"
| "outcome_for_reason IneligibilityReason.kAddressabilityUnsupported = SelectionOutcome.kCapabilityUnsupported"
| "outcome_for_reason IneligibilityReason.kPayloadTooLarge = SelectionOutcome.kCapabilityUnsupported"
| "outcome_for_reason IneligibilityReason.kPayloadTooSmall = SelectionOutcome.kCapabilityUnsupported"
| "outcome_for_reason IneligibilityReason.kAlignmentUnsatisfied = SelectionOutcome.kCapabilityUnsupported"
| "outcome_for_reason IneligibilityReason.kCapabilityUnproven = SelectionOutcome.kCapabilityUnsupported"
| "outcome_for_reason IneligibilityReason.kBackendUnsupported = SelectionOutcome.kCapabilityUnsupported"
| "outcome_for_reason IneligibilityReason.kTransportClassUnsupported = SelectionOutcome.kCapabilityUnsupported"
| "outcome_for_reason IneligibilityReason.kPayloadClassUnsupported = SelectionOutcome.kCapabilityUnsupported"
| "outcome_for_reason IneligibilityReason.kDmaRequired = SelectionOutcome.kCapabilityUnsupported"
| "outcome_for_reason IneligibilityReason.kScatterGatherRequired = SelectionOutcome.kCapabilityUnsupported"
| "outcome_for_reason IneligibilityReason.kStaleCapability = SelectionOutcome.kStaleEvidence"
| "outcome_for_reason IneligibilityReason.kHealthNotReady = SelectionOutcome.kStaleEvidence"
| "outcome_for_reason IneligibilityReason.kWorkerBootStale = SelectionOutcome.kStaleEvidence"
| "outcome_for_reason IneligibilityReason.kDomainFenced = SelectionOutcome.kStaleEvidence"
| "outcome_for_reason IneligibilityReason.kGenerationRegressed = SelectionOutcome.kStaleEvidence"
| "outcome_for_reason IneligibilityReason.kBackendGenerationStale = SelectionOutcome.kStaleEvidence"
| "outcome_for_reason IneligibilityReason.kAuthorityInvalidated = SelectionOutcome.kStaleEvidence"
| "outcome_for_reason IneligibilityReason.kIsolationInsufficient = SelectionOutcome.kIsolationRejected"
| "outcome_for_reason IneligibilityReason.kCompatibilityMismatch = SelectionOutcome.kCompatibilityRejected"
| "outcome_for_reason IneligibilityReason.kCapacityUnavailable = SelectionOutcome.kCapacityUnavailable"
| "outcome_for_reason IneligibilityReason.kConcurrencyExhausted = SelectionOutcome.kCapacityUnavailable"
| "outcome_for_reason IneligibilityReason.kReservationConflict = SelectionOutcome.kCapacityUnavailable"
| "outcome_for_reason _ = SelectionOutcome.kNoEligibleDomain"

section \<open>Eligibility\<close>

type_synonym rejection = "IneligibilityReason \<times> string"

definition reject_if :: "bool \<Rightarrow> IneligibilityReason \<Rightarrow> string \<Rightarrow> rejection option" where
  "reject_if c reason detail = (if c then Some (reason, detail) else None)"

definition authority_checks :: "WorkerAuthority \<Rightarrow> ExecutionDomainRecord \<Rightarrow> rejection option list" where
  "authority_checks workers domain =
     [reject_if (dr_fenced domain) IneligibilityReason.kDomainFenced ''domain authority was withdrawn'',
      reject_if (\<not> is_current workers (dr_worker domain) (dr_worker_boot domain))
        IneligibilityReason.kWorkerBootStale ''no live worker incarnation owns this domain'']"

definition policy_checks :: "SchedulerPolicy \<Rightarrow> ExecutionDomainRecord \<Rightarrow> rejection option list" where
  "policy_checks policy domain =
     [reject_if (domain_type_forbidden policy (dr_type domain) \<or> domain_id_forbidden policy (dr_id domain))
        IneligibilityReason.kPolicyForbidden ''domain is forbidden by policy'',
      reject_if (pol_offload_requirement policy = OffloadRequirement.kOffloadRequired
                 \<and> dr_type domain = ExecutionDomainType.kCpu)
        IneligibilityReason.kPolicyForbidden
        ''policy requires offload execution; host CPU is not a legal fallback'',
      reject_if (pol_offload_requirement policy = OffloadRequirement.kHostRequired
                 \<and> dr_type domain \<noteq> ExecutionDomainType.kCpu)
        IneligibilityReason.kPolicyForbidden
        ''policy requires host execution; offload engines are not legal'',
      reject_if (provenance_forbidden policy (dr_provenance domain))
        IneligibilityReason.kProvenanceDisallowed ''domain provenance is forbidden'',
      reject_if (dr_provenance domain = Provenance.kUnsupported
                 \<and> \<not> pol_allow_unsupported_provenance policy)
        IneligibilityReason.kBackendUnsupported
        ''domain is UNSUPPORTED on this host and policy does not allow it'']"

definition request_checks ::
    "OperationRequest \<Rightarrow> OperationClassDescriptor option \<Rightarrow> ExecutionDomainRecord \<Rightarrow> rejection option list" where
  "request_checks request desc domain =
     [reject_if (or_allowed_domain_ids request \<noteq> [] \<and> dr_id domain \<notin> set (or_allowed_domain_ids request))
        IneligibilityReason.kDomainNotAllowed ''domain identity not in the allow list'',
      reject_if (or_allowed_domains request \<noteq> [] \<and> dr_type domain \<notin> set (or_allowed_domains request))
        IneligibilityReason.kDomainNotAllowed ''domain class not in the allow list'',
      reject_if (dr_type domain \<in> set (or_forbidden_domains request))
        IneligibilityReason.kDomainNotAllowed ''domain class is explicitly forbidden'',
      reject_if (desc = None)
        IneligibilityReason.kUnknownOperationClass ''operation class is not registered'']"

definition capability_checks ::
    "OperationClassRegistry \<Rightarrow> OperationRequest \<Rightarrow> SchedulerPolicy \<Rightarrow> ExecutionDomainRecord \<Rightarrow>
       rejection option list" where
  "capability_checks registry request policy domain =
     (let check = check_capability (dr_capability domain) registry request
                    (pol_require_positive_evidence policy);
          required = max (pol_minimum_isolation policy) (or_required_isolation request)
      in [reject_if (\<not> cc_supported check) (cc_reason check) (cc_detail check),
          reject_if (required \<noteq> IsolationClass.kUnknown \<and> dr_isolation domain < required)
            IneligibilityReason.kIsolationInsufficient
            (''domain isolation '' @ to_string_IsolationClass (dr_isolation domain)
             @ '' is below the required '' @ to_string_IsolationClass required)])"

definition compatibility_checks :: "OperationRequest \<Rightarrow> ExecutionDomainRecord \<Rightarrow> rejection option list" where
  "compatibility_checks request domain =
     (let need = or_compatibility request; caps = cap_capability (dr_capability domain);
          have' = dr_compatibility domain
      in [reject_if (cm_driver_backend_version have' < cr_minimum_driver_backend_version need
                     \<or> cs_driver_backend_version caps < cr_minimum_driver_backend_version need)
            IneligibilityReason.kCompatibilityMismatch
            ''driver/backend version is below the required minimum'',
          reject_if (cm_firmware_generation have' < cr_minimum_firmware_generation need)
            IneligibilityReason.kCompatibilityMismatch
            ''firmware generation is below the required minimum'',
          reject_if (cr_required_protocol_version need \<noteq> 0
                     \<and> cs_protocol_version caps < cr_required_protocol_version need)
            IneligibilityReason.kCompatibilityMismatch
            ''protocol version is below the required minimum'',
          reject_if (cr_required_accelerator_arch need \<noteq> 0
                     \<and> cm_accelerator_arch have' \<noteq> cr_required_accelerator_arch need)
            IneligibilityReason.kCompatibilityMismatch
            ''accelerator architecture does not match the requirement'',
          reject_if (cr_required_backend_family need \<noteq> []
                     \<and> cm_backend_family have' \<noteq> cr_required_backend_family need)
            IneligibilityReason.kCompatibilityMismatch
            ''backend family does not match the requirement''])"

definition locality_checks :: "OperationRequest \<Rightarrow> ExecutionDomainRecord \<Rightarrow> rejection option list" where
  "locality_checks request domain =
     (let need = or_locality request; have' = dr_locality domain
      in [reject_if (lc_minimum_class need \<noteq> LocalityClass.kUnknown
                     \<and> lo_class_to_payload have' < lc_minimum_class need)
            IneligibilityReason.kLocalityViolation
            (''locality '' @ to_string_LocalityClass (lo_class_to_payload have')
             @ '' is weaker than the required '' @ to_string_LocalityClass (lc_minimum_class need)),
          reject_if (lc_require_same_host need \<and> lo_class_to_payload have' < LocalityClass.kSameHost)
            IneligibilityReason.kLocalityViolation ''payload and engine are not on one host'',
          reject_if (lc_required_numa_node need \<noteq> 0 \<and> lo_numa_node have' \<noteq> lc_required_numa_node need)
            IneligibilityReason.kLocalityViolation ''domain is not on the required NUMA node'',
          reject_if (lc_require_local_nic need \<and> \<not> lo_has_local_nic have')
            IneligibilityReason.kLocalityViolation ''domain has no local NIC evidence''])"

definition health_checks :: "SchedulerPolicy \<Rightarrow> ExecutionDomainRecord \<Rightarrow> rejection option list" where
  "health_checks policy domain =
     (let load = dr_load domain; fresh = fr_health (pol_freshness policy)
      in [reject_if (fresh \<and> \<not> load_published load)
            IneligibilityReason.kHealthNotReady ''health and load evidence is not current'',
          reject_if (load_published load \<and> (\<not> ld_healthy load \<or> \<not> ld_ready load \<or> \<not> ld_accepting load))
            IneligibilityReason.kHealthNotReady ''domain is not healthy and ready'',
          reject_if (\<not> fresh \<and> load_published load \<and> \<not> ld_healthy load)
            IneligibilityReason.kHealthNotReady ''domain reports itself unhealthy''])"

definition capacity_check ::
    "SchedulerPolicy \<Rightarrow> ReservationLedger \<Rightarrow> ExecutionDomainRecord \<Rightarrow> rejection option" where
  "capacity_check policy reservations domain =
     (let rsp = pol_reservation policy
      in reject_if (rsp_enabled rsp
                    \<and> (\<not> rsp_require_reservation_for_offload_only rsp \<or> is_offload_engine domain)
                    \<and> \<not> has_capacity reservations (dr_id domain) (rsp_per_operation rsp))
           IneligibilityReason.kCapacityUnavailable ''declared execution capacity is exhausted'')"

definition eligibility_checks ::
    "WorkerAuthority \<Rightarrow> OperationClassRegistry \<Rightarrow> ReservationLedger \<Rightarrow> ExecutionDomainRecord \<Rightarrow>
       OperationRequest \<Rightarrow> SchedulerPolicy \<Rightarrow> OperationClassDescriptor option \<Rightarrow> rejection option list" where
  "eligibility_checks workers registry reservations domain request policy desc =
     authority_checks workers domain @ policy_checks policy domain
     @ request_checks request desc domain @ capability_checks registry request policy domain
     @ compatibility_checks request domain @ locality_checks request domain
     @ health_checks policy domain @ [capacity_check policy reservations domain]"

definition evaluate ::
    "WorkerAuthority \<Rightarrow> OperationClassRegistry \<Rightarrow> ReservationLedger \<Rightarrow> ExecutionDomainRecord \<Rightarrow>
       OperationRequest \<Rightarrow> SchedulerPolicy \<Rightarrow> OperationClassDescriptor option \<Rightarrow> CandidateEvaluation" where
  "evaluate workers registry reservations domain request policy desc =
     (case first_failure
             (eligibility_checks workers registry reservations domain request policy desc) of
        Some (reason, detail) \<Rightarrow>
          make_rejection (dr_id domain) (dr_type domain) (dr_provenance domain) reason detail
      | None \<Rightarrow>
          \<lparr>ce_domain = dr_id domain, ce_domain_type = dr_type domain,
           ce_provenance = dr_provenance domain, ce_eligible = True,
           ce_reason = IneligibilityReason.kNone, ce_detail = ''eligible''\<rparr>)"

section \<open>Properties\<close>

lemma reject_if_None [simp]: "reject_if c r d = None \<longleftrightarrow> \<not> c"
  by (simp add: reject_if_def)

lemma first_failure_Cons: "first_failure (x # xs) = None \<longleftrightarrow> x = None \<and> first_failure xs = None"
  by (cases x) simp_all

lemma evaluate_eligible_iff:
  "ce_eligible (evaluate workers registry reservations domain request policy desc) \<longleftrightarrow>
     first_failure (eligibility_checks workers registry reservations domain request policy desc) = None"
  by (simp add: evaluate_def make_rejection_def split: option.split prod.split)

lemma evaluate_domain [simp]:
  "ce_domain (evaluate workers registry reservations domain request policy desc) = dr_id domain"
  by (simp add: evaluate_def make_rejection_def split: option.split prod.split)

lemma eligibility_facts:
  assumes "ce_eligible (evaluate workers registry reservations domain request policy desc)"
  shows "\<not> dr_fenced domain" and "is_current workers (dr_worker domain) (dr_worker_boot domain)"
    and "\<not> domain_type_forbidden policy (dr_type domain)" and "\<not> domain_id_forbidden policy (dr_id domain)"
    and "\<not> provenance_forbidden policy (dr_provenance domain)"
    and "or_allowed_domain_ids request = [] \<or> dr_id domain \<in> set (or_allowed_domain_ids request)"
    and "dr_type domain \<notin> set (or_forbidden_domains request)"
    and "cc_supported (check_capability (dr_capability domain) registry request
           (pol_require_positive_evidence policy))"
    and "pol_minimum_isolation policy \<le> dr_isolation domain"
    and "or_required_isolation request \<le> dr_isolation domain"
    and "fr_health (pol_freshness policy) \<Longrightarrow>
           load_published (dr_load domain) \<and> ld_healthy (dr_load domain) \<and> ld_ready (dr_load domain)
           \<and> ld_accepting (dr_load domain)"
    and "rsp_enabled (pol_reservation policy) \<Longrightarrow> is_offload_engine domain \<Longrightarrow>
           has_capacity reservations (dr_id domain) (rsp_per_operation (pol_reservation policy))"
    and "pol_offload_requirement policy = OffloadRequirement.kOffloadRequired \<Longrightarrow> is_offload_engine domain"
proof -
  note parts = assms [unfolded evaluate_eligible_iff eligibility_checks_def first_failure_parts(1)]
  have "first_failure (authority_checks workers domain) = None" using parts by blast
  then show "\<not> dr_fenced domain" "is_current workers (dr_worker domain) (dr_worker_boot domain)"
    by (simp_all add: authority_checks_def first_failure_Cons)
  have "first_failure (policy_checks policy domain) = None" using parts by blast
  then show "\<not> domain_type_forbidden policy (dr_type domain)" "\<not> domain_id_forbidden policy (dr_id domain)"
    "\<not> provenance_forbidden policy (dr_provenance domain)"
    "pol_offload_requirement policy = OffloadRequirement.kOffloadRequired \<Longrightarrow> is_offload_engine domain"
    by (simp_all add: policy_checks_def first_failure_Cons is_offload_engine_def)
  have "first_failure (request_checks request desc domain) = None" using parts by blast
  then show "or_allowed_domain_ids request = [] \<or> dr_id domain \<in> set (or_allowed_domain_ids request)"
    "dr_type domain \<notin> set (or_forbidden_domains request)"
    by (auto simp: request_checks_def first_failure_Cons)
  have cap: "first_failure (capability_checks registry request policy domain) = None"
    using parts by blast
  then show "cc_supported (check_capability (dr_capability domain) registry request
           (pol_require_positive_evidence policy))"
    by (simp add: capability_checks_def first_failure_Cons Let_def)
  have iso: "max (pol_minimum_isolation policy) (or_required_isolation request) = IsolationClass.kUnknown
      \<or> \<not> dr_isolation domain < max (pol_minimum_isolation policy) (or_required_isolation request)"
    using cap by (auto simp: capability_checks_def first_failure_Cons Let_def)
  have bot: "IsolationClass.kUnknown \<le> i" for i
    by (cases i) (simp_all add: less_eq_IsolationClass_def)
  have "max (pol_minimum_isolation policy) (or_required_isolation request) \<le> dr_isolation domain"
    using iso bot by (metis not_less)
  then show "pol_minimum_isolation policy \<le> dr_isolation domain"
    "or_required_isolation request \<le> dr_isolation domain" by simp_all
  have "first_failure (health_checks policy domain) = None" using parts by blast
  then show "fr_health (pol_freshness policy) \<Longrightarrow>
           load_published (dr_load domain) \<and> ld_healthy (dr_load domain) \<and> ld_ready (dr_load domain)
           \<and> ld_accepting (dr_load domain)"
    by (auto simp: health_checks_def first_failure_Cons Let_def)
  have "first_failure [capacity_check policy reservations domain] = None" using parts by blast
  then show "rsp_enabled (pol_reservation policy) \<Longrightarrow> is_offload_engine domain \<Longrightarrow>
           has_capacity reservations (dr_id domain) (rsp_per_operation (pol_reservation policy))"
    by (auto simp: capacity_check_def first_failure_Cons Let_def)
qed

end
