(* ===== verification/Tos_Registry.thy ===== *)
theory Tos_Registry
  imports Tos_Domain
begin

text \<open>
  The registry of execution domains (\<^verbatim>\<open>src/include/tos/core/state.hpp\<close>,
  \<^verbatim>\<open>src/src/core/state.cpp\<close>): registration and replacement of records, publication of capability,
  load, locality, topology, compatibility and capacity, fencing and removal. The registry owns the
  authoritative generations; a publisher's counters only gate its own stream. Every operation runs
  under one exclusive lock and is one atomic step.
\<close>

section \<open>Comparison of content\<close>

definition same_capability :: "CapabilitySet \<Rightarrow> CapabilitySet \<Rightarrow> bool" where
  "same_capability a b =
     (cs_operations a = cs_operations b \<and> cs_flags a = cs_flags b
      \<and> cs_unproven_flags a = cs_unproven_flags b \<and> cs_memory_domains a = cs_memory_domains b
      \<and> cs_min_payload_bytes a = cs_min_payload_bytes b
      \<and> cs_max_payload_bytes a = cs_max_payload_bytes b
      \<and> cs_alignment_bytes a = cs_alignment_bytes b \<and> cs_max_concurrency a = cs_max_concurrency b
      \<and> cs_queue_capacity a = cs_queue_capacity b
      \<and> cs_transport_classes a = cs_transport_classes b
      \<and> cs_payload_classes a = cs_payload_classes b \<and> cs_protocol_version a = cs_protocol_version b
      \<and> cs_driver_backend_version a = cs_driver_backend_version b
      \<and> cs_firmware_generation a = cs_firmware_generation b
      \<and> cs_accelerator_arch a = cs_accelerator_arch b \<and> cs_backend_family a = cs_backend_family b)"

definition same_load :: "DomainLoadEvidence \<Rightarrow> DomainLoadEvidence \<Rightarrow> bool" where
  "same_load a b =
     (ld_utilization_percent a = ld_utilization_percent b
      \<and> ld_congestion_percent a = ld_congestion_percent b \<and> ld_queue_depth a = ld_queue_depth b
      \<and> ld_in_flight a = ld_in_flight b \<and> ld_observed_latency_ns a = ld_observed_latency_ns b
      \<and> ld_throughput_bytes_per_second a = ld_throughput_bytes_per_second b
      \<and> ld_healthy a = ld_healthy b \<and> ld_ready a = ld_ready b \<and> ld_accepting a = ld_accepting b)"

definition same_locality :: "DomainLocality \<Rightarrow> DomainLocality \<Rightarrow> bool" where
  "same_locality a b =
     (lo_class_to_payload a = lo_class_to_payload b \<and> lo_numa_node a = lo_numa_node b
      \<and> lo_host_index a = lo_host_index b \<and> lo_pcie_root_complex a = lo_pcie_root_complex b
      \<and> lo_pcie_switch a = lo_pcie_switch b \<and> lo_local_nic a = lo_local_nic b
      \<and> lo_has_local_nic a = lo_has_local_nic b)"

definition same_topology :: "DomainTopology \<Rightarrow> DomainTopology \<Rightarrow> bool" where
  "same_topology a b =
     (to_host_node a = to_host_node b \<and> to_fabric a = to_fabric b \<and> to_rack a = to_rack b
      \<and> to_pod a = to_pod b)"

definition same_compatibility :: "DomainCompatibility \<Rightarrow> DomainCompatibility \<Rightarrow> bool" where
  "same_compatibility a b =
     (cm_driver_backend_version a = cm_driver_backend_version b
      \<and> cm_firmware_generation a = cm_firmware_generation b
      \<and> cm_protocol_version a = cm_protocol_version b
      \<and> cm_accelerator_arch a = cm_accelerator_arch b \<and> cm_backend_family a = cm_backend_family b)"

definition same_capacity :: "CapacityVector \<Rightarrow> CapacityVector \<Rightarrow> bool" where
  "same_capacity a b = list_all (\<lambda>k. a k = b k) all_ResourceKind"

section \<open>The registry\<close>

record DomainRegistry =
  rg_domains :: "ExecutionDomainRecord umap"
  rg_by_name :: "(string \<times> u64) list"
  rg_mutation_sequence :: u64
  rg_max_domains :: nat

record DomainUpdateResult =
  dur_kind :: DomainUpdateKind
  dur_generation :: u64
  dur_accepted :: bool

definition new_registry :: DomainRegistry where
  "new_registry = \<lparr>rg_domains = [], rg_by_name = [], rg_mutation_sequence = 0,
                    rg_max_domains = kMaxExecutionDomains\<rparr>"

definition find_domain :: "DomainRegistry \<Rightarrow> u64 \<Rightarrow> ExecutionDomainRecord option" where
  "find_domain g domain = map_of (rg_domains g) domain"

definition find_by_name :: "DomainRegistry \<Rightarrow> string \<Rightarrow> ExecutionDomainRecord option" where
  "find_by_name g name = Option.bind (map_of (rg_by_name g) name) (find_domain g)"

definition all_domains :: "DomainRegistry \<Rightarrow> ExecutionDomainRecord list" where
  "all_domains g = sort_by dr_id (map snd (rg_domains g))"

definition put_domain :: "DomainRegistry \<Rightarrow> u64 \<Rightarrow> ExecutionDomainRecord \<Rightarrow> DomainRegistry" where
  "put_domain g domain r =
     g\<lparr>rg_domains := AList.update domain r (rg_domains g),
       rg_mutation_sequence := rg_mutation_sequence g + 1\<rparr>"

definition set_max_domains :: "DomainRegistry \<Rightarrow> nat \<Rightarrow> Status \<times> DomainRegistry" where
  "set_max_domains g maximum =
     (if maximum = 0 then (failure ''domain.invalid_limit'' [], g)
      else if maximum < length (rg_domains g)
      then (failure ''domain.limit_below_registered''
              ''the limit is below the number of registered domains'', g)
      else (success, g\<lparr>rg_max_domains := min maximum kMaxExecutionDomains\<rparr>))"

section \<open>Registration\<close>

definition canonical_record :: "ExecutionDomainRecord \<Rightarrow> ExecutionDomainRecord" where
  "canonical_record r =
     r\<lparr>dr_capability := (dr_capability r)
         \<lparr>cap_capability := canonicalize (cap_capability (dr_capability r))\<rparr>\<rparr>"

definition first_unless :: "u64 \<Rightarrow> u64" where
  "first_unless g = (if published g then g else gen_first)"

text \<open>The record stored for a domain that was not registered.\<close>

definition registered_record :: "DomainRegistry \<Rightarrow> ExecutionDomainRecord \<Rightarrow> ExecutionDomainRecord" where
  "registered_record g record =
     (let stored = canonical_record record; cap = dr_capability stored
      in stored\<lparr>
           dr_generation := first_unless (dr_generation stored),
           dr_capability := cap\<lparr>cap_generation := first_unless (cap_generation cap),
                               cap_evidence := first_unless (cap_evidence cap)\<rparr>,
           dr_backend_generation := first_unless (dr_backend_generation stored),
           dr_registration_sequence := rg_mutation_sequence g + 1\<rparr>)"

definition update_kind :: "ExecutionDomainRecord \<Rightarrow> ExecutionDomainRecord \<Rightarrow> DomainUpdateKind" where
  "update_kind record current =
     (if \<not> same_capability (cap_capability (dr_capability record)) (cap_capability (dr_capability current))
      then DomainUpdateKind.kCapabilityChanged
      else if \<not> same_load (dr_load record) (dr_load current) then DomainUpdateKind.kLoadChanged
      else if ld_health_generation (dr_load record) \<noteq> ld_health_generation (dr_load current)
              \<or> ld_ready (dr_load record) \<noteq> ld_ready (dr_load current)
      then DomainUpdateKind.kHealthChanged
      else if \<not> same_locality (dr_locality record) (dr_locality current)
      then DomainUpdateKind.kLocalityChanged
      else if \<not> same_topology (dr_topology record) (dr_topology current)
      then DomainUpdateKind.kTopologyChanged
      else if \<not> same_compatibility (dr_compatibility record) (dr_compatibility current)
      then DomainUpdateKind.kCompatibilityChanged
      else if dr_isolation record \<noteq> dr_isolation current then DomainUpdateKind.kIsolationChanged
      else if \<not> same_capacity (dr_capacity record) (dr_capacity current)
      then DomainUpdateKind.kCapacityChanged
      else if dr_backend_generation record \<noteq> dr_backend_generation current
      then DomainUpdateKind.kBackendGenerationChanged
      else if dr_fenced record \<and> \<not> dr_fenced current then DomainUpdateKind.kFenced
      else DomainUpdateKind.kUnchanged)"

definition incarnation_changed :: "ExecutionDomainRecord \<Rightarrow> ExecutionDomainRecord \<Rightarrow> bool" where
  "incarnation_changed record current =
     (valid (dr_worker_boot current) \<and> valid (dr_worker_boot record)
      \<and> dr_worker_boot record \<noteq> dr_worker_boot current)"

definition next_domain_generation :: "ExecutionDomainRecord \<Rightarrow> ExecutionDomainRecord \<Rightarrow> u64" where
  "next_domain_generation record current =
     (if incarnation_changed record current then gen_next (dr_generation current)
      else if published (dr_generation record) \<and> dr_generation record > dr_generation current
      then dr_generation record else dr_generation current)"

text \<open>A fresh incarnation re-bases every family of generations on the current ones.\<close>

definition rebased_record :: "ExecutionDomainRecord \<Rightarrow> ExecutionDomainRecord \<Rightarrow> ExecutionDomainRecord" where
  "rebased_record record current =
     (let stored = canonical_record record
      in stored\<lparr>
           dr_generation := next_domain_generation record current,
           dr_registration_sequence := dr_registration_sequence current,
           dr_publisher_sequence := no_publisher\<lparr>ps_boot := dr_worker_boot record\<rparr>,
           dr_capability := (dr_capability stored)
             \<lparr>cap_generation := gen_next (cap_generation (dr_capability current))\<rparr>,
           dr_backend_generation := gen_next (dr_backend_generation current),
           dr_topology := (dr_topology stored)
             \<lparr>to_generation := gen_next (to_generation (dr_topology current))\<rparr>,
           dr_locality := (dr_locality stored)
             \<lparr>lo_generation := gen_next (lo_generation (dr_locality current))\<rparr>,
           dr_compatibility := (dr_compatibility stored)
             \<lparr>cm_generation := gen_next (cm_generation (dr_compatibility current))\<rparr>,
           dr_fenced := dr_fenced record,
           dr_fence_reason := (if dr_fenced record then dr_fence_reason stored else [])\<rparr>)"

text \<open>Within one incarnation a family advances exactly when its content changed.\<close>

definition merged_record :: "ExecutionDomainRecord \<Rightarrow> ExecutionDomainRecord \<Rightarrow> ExecutionDomainRecord" where
  "merged_record record current =
     (let stored = canonical_record record;
          capability_changed = \<not> same_capability (cap_capability (dr_capability record))
                                  (cap_capability (dr_capability current));
          sequence = (if capability_changed
                      then (dr_publisher_sequence stored)
                             \<lparr>ps_capability := cap_generation (dr_capability record)\<rparr>
                      else dr_publisher_sequence stored)
      in stored\<lparr>
           dr_generation := next_domain_generation record current,
           dr_registration_sequence := dr_registration_sequence current,
           dr_capability :=
             (if capability_changed
              then (dr_capability stored)
                     \<lparr>cap_generation := gen_next (cap_generation (dr_capability current)),
                      cap_publisher := (if valid (cap_publisher (dr_capability record))
                                        then cap_publisher (dr_capability record)
                                        else dr_worker_boot record)\<rparr>
              else dr_capability current),
           dr_backend_generation :=
             (if dr_backend_generation stored < dr_backend_generation current
              then dr_backend_generation current else dr_backend_generation stored),
           dr_topology :=
             (if \<not> same_topology (dr_topology record) (dr_topology current)
              then (dr_topology stored)\<lparr>to_generation := gen_next (to_generation (dr_topology current))\<rparr>
              else dr_topology current),
           dr_locality :=
             (if \<not> same_locality (dr_locality record) (dr_locality current)
              then (dr_locality stored)\<lparr>lo_generation := gen_next (lo_generation (dr_locality current))\<rparr>
              else dr_locality current),
           dr_compatibility :=
             (if \<not> same_compatibility (dr_compatibility record) (dr_compatibility current)
              then (dr_compatibility stored)
                     \<lparr>cm_generation := gen_next (cm_generation (dr_compatibility current))\<rparr>
              else dr_compatibility current),
           dr_fenced := dr_fenced record \<or> dr_fenced current,
           dr_fence_reason := (if dr_fenced current \<and> \<not> dr_fenced record
                               then dr_fence_reason current else dr_fence_reason stored),
           dr_publisher_sequence :=
             (if ps_boot sequence \<noteq> dr_worker_boot record
              then no_publisher\<lparr>ps_boot := dr_worker_boot record\<rparr> else sequence)\<rparr>)"

definition replaced_record :: "ExecutionDomainRecord \<Rightarrow> ExecutionDomainRecord \<Rightarrow> ExecutionDomainRecord" where
  "replaced_record record current =
     (if incarnation_changed record current then rebased_record record current
      else merged_record record current)"

definition upsert ::
    "DomainRegistry \<Rightarrow> ExecutionDomainRecord \<Rightarrow> bool \<Rightarrow> DomainUpdateResult Checked \<times> DomainRegistry" where
  "upsert g record allow_generation_regression =
     (let v = validate_domain_record record in
      if \<not> st_ok v then (bad (st_code v) (st_message v), g)
      else
        case find_domain g (dr_id record) of
          None \<Rightarrow>
            if length (rg_domains g) \<ge> rg_max_domains g then (bad ''domain.limit_reached'' [], g)
            else if (case map_of (rg_by_name g) (dr_name record) of
                       None \<Rightarrow> False | Some owner \<Rightarrow> owner \<noteq> dr_id record)
            then (bad ''domain.name_conflict'' (dr_name record), g)
            else
              let stored = registered_record g record
              in (Good \<lparr>dur_kind = DomainUpdateKind.kRegistered,
                        dur_generation = dr_generation stored, dur_accepted = True\<rparr>,
                  (put_domain g (dr_id record) stored)
                    \<lparr>rg_by_name := AList.update (dr_name record) (dr_id record) (rg_by_name g)\<rparr>)
        | Some current \<Rightarrow>
            if dr_generation record < dr_generation current \<and> \<not> allow_generation_regression
               \<and> \<not> incarnation_changed record current
            then (bad ''domain.generation_regression''
                    ''domain generation would move backwards within one worker incarnation'', g)
            else if \<not> allow_generation_regression \<and> \<not> incarnation_changed record current
                    \<and> dr_generation record = dr_generation current
                    \<and> published (dr_generation record)
                    \<and> \<not> same_capability (cap_capability (dr_capability record))
                          (cap_capability (dr_capability current))
            then (bad ''domain.capability_conflict''
                    ''capability content changed without advancing the domain generation'', g)
            else
              let stored = replaced_record record current
              in (Good \<lparr>dur_kind = update_kind record current,
                        dur_generation = dr_generation stored, dur_accepted = True\<rparr>,
                  (put_domain g (dr_id record) stored)
                    \<lparr>rg_by_name := AList.update (dr_name stored) (dr_id stored)
                                    (AList.delete (dr_name current) (rg_by_name g))\<rparr>))"

section \<open>Publication\<close>

definition bump :: "ExecutionDomainRecord \<Rightarrow> ExecutionDomainRecord" where
  "bump r = r\<lparr>dr_generation := dr_generation r + 1\<rparr>"

definition publish_capability :: "DomainRegistry \<Rightarrow> CapabilityRecord \<Rightarrow> Status \<times> DomainRegistry" where
  "publish_capability g capability =
     (case find_domain g (cap_domain capability) of
        None \<Rightarrow> (failure ''domain.not_registered'' [], g)
      | Some current \<Rightarrow>
          let domain = cap_domain capability;
              publisher = (if valid (cap_publisher capability) then cap_publisher capability
                           else dr_worker_boot current);
              canonical = canonicalize (cap_capability capability);
              same_publisher = (ps_boot (dr_publisher_sequence current) = publisher);
              content_changed =
                \<not> same_capability canonical (cap_capability (dr_capability current));
              sequence = (if same_publisher then dr_publisher_sequence current
                          else no_publisher\<lparr>ps_boot := publisher\<rparr>);
              cap = dr_capability current
          in if \<not> valid publisher
             then (failure ''domain.capability_without_publisher''
                     ''a capability record must name the incarnation that proved it'', g)
             else if same_publisher
                     \<and> cap_generation capability \<le> ps_capability (dr_publisher_sequence current)
             then (if \<not> content_changed then (success, g)
                   else (failure ''domain.capability_stale_publication''
                           ''capability sequence did not advance within one incarnation'', g))
             else if same_publisher \<and> \<not> content_changed
             then (success,
                   g\<lparr>rg_domains := AList.update domain
                        (current\<lparr>dr_publisher_sequence := (dr_publisher_sequence current)
                                   \<lparr>ps_capability := cap_generation capability\<rparr>,
                                 dr_capability := cap\<lparr>cap_publisher := publisher\<rparr>\<rparr>)
                        (rg_domains g)\<rparr>)
             else
               let updated = current\<lparr>
                     dr_capability := cap\<lparr>
                       cap_capability := canonical,
                       cap_generation := gen_next (cap_generation cap),
                       cap_publisher := publisher,
                       cap_provenance := cap_provenance capability,
                       cap_authoritative := cap_authoritative capability,
                       cap_evidence := (if published (cap_evidence capability)
                                        then cap_evidence capability else cap_evidence cap)\<rparr>,
                     dr_publisher_sequence := sequence\<lparr>ps_capability := cap_generation capability\<rparr>\<rparr>
               in (success,
                   put_domain g domain (if content_changed then bump updated else updated)))"

definition publish_load ::
    "DomainRegistry \<Rightarrow> u64 \<Rightarrow> DomainLoadEvidence \<Rightarrow> Status \<times> DomainRegistry" where
  "publish_load g domain load =
     (case find_domain g domain of
        None \<Rightarrow> (failure ''domain.not_registered'' [], g)
      | Some current \<Rightarrow>
          let watermark = dr_publisher_sequence current;
              same_publisher = (ps_boot watermark = dr_worker_boot current);
              advanced = (ld_health_generation load > ps_health watermark
                          \<or> ld_queue_generation load > ps_queue watermark
                          \<or> ld_load_generation load > ps_load watermark);
              sequence = (if same_publisher then watermark
                          else no_publisher\<lparr>ps_boot := dr_worker_boot current\<rparr>)
          in if \<not> load_published load
             then (failure ''domain.load_not_published''
                     ''load evidence must carry health, load and queue generations'', g)
             else if \<not> valid (dr_worker_boot current)
             then (failure ''domain.load_without_incarnation''
                     ''load evidence requires an owning worker incarnation'', g)
             else if same_publisher \<and> \<not> advanced
             then (if same_load load (dr_load current) then (success, g)
                   else (failure ''domain.load_stale_publication''
                           ''load sequence did not advance within one incarnation'', g))
             else
               (success,
                put_domain g domain
                  (current\<lparr>dr_publisher_sequence := sequence\<lparr>ps_load := ld_load_generation load,
                                                            ps_queue := ld_queue_generation load,
                                                            ps_health := ld_health_generation load\<rparr>,
                           dr_load := load\<rparr>)))"

definition publish_locality ::
    "DomainRegistry \<Rightarrow> u64 \<Rightarrow> DomainLocality \<Rightarrow> Status \<times> DomainRegistry" where
  "publish_locality g domain locality =
     (case find_domain g domain of
        None \<Rightarrow> (failure ''domain.not_registered'' [], g)
      | Some current \<Rightarrow>
          if lo_generation locality < lo_generation (dr_locality current)
          then (failure ''domain.locality_generation_regression'' [], g)
          else if \<not> published (lo_generation locality)
          then (failure ''domain.locality_not_published'' [], g)
          else (success, put_domain g domain (bump (current\<lparr>dr_locality := locality\<rparr>))))"

definition publish_topology ::
    "DomainRegistry \<Rightarrow> u64 \<Rightarrow> DomainTopology \<Rightarrow> Status \<times> DomainRegistry" where
  "publish_topology g domain topology =
     (case find_domain g domain of
        None \<Rightarrow> (failure ''domain.not_registered'' [], g)
      | Some current \<Rightarrow>
          if to_generation topology < to_generation (dr_topology current)
          then (failure ''domain.topology_generation_regression'' [], g)
          else if \<not> published (to_generation topology)
          then (failure ''domain.topology_not_published'' [], g)
          else (success, put_domain g domain (bump (current\<lparr>dr_topology := topology\<rparr>))))"

definition publish_compatibility ::
    "DomainRegistry \<Rightarrow> u64 \<Rightarrow> DomainCompatibility \<Rightarrow> Status \<times> DomainRegistry" where
  "publish_compatibility g domain compatibility =
     (case find_domain g domain of
        None \<Rightarrow> (failure ''domain.not_registered'' [], g)
      | Some current \<Rightarrow>
          if cm_generation compatibility < cm_generation (dr_compatibility current)
          then (failure ''domain.compatibility_generation_regression'' [], g)
          else if \<not> published (cm_generation compatibility)
          then (failure ''domain.compatibility_not_published'' [], g)
          else (success, put_domain g domain (bump (current\<lparr>dr_compatibility := compatibility\<rparr>))))"

text \<open>The limit test of \<^verbatim>\<open>publish_capacity\<close> is the one of \<^const>\<open>capacity_plausible\<close>.\<close>

definition publish_capacity ::
    "DomainRegistry \<Rightarrow> u64 \<Rightarrow> CapacityVector \<Rightarrow> Status \<times> DomainRegistry" where
  "publish_capacity g domain capacity =
     (if \<not> list_all (\<lambda>k. capacity_plausible k (capacity k)) all_ResourceKind
      then (failure ''domain.capacity_out_of_range'' [], g)
      else
        case find_domain g domain of
          None \<Rightarrow> (failure ''domain.not_registered'' [], g)
        | Some current \<Rightarrow>
            (success, put_domain g domain (bump (current\<lparr>dr_capacity := capacity\<rparr>))))"

section \<open>Fencing, removal and withdrawal of evidence\<close>

definition fenced_record :: "string \<Rightarrow> ExecutionDomainRecord \<Rightarrow> ExecutionDomainRecord" where
  "fenced_record reason current =
     (bump (current\<lparr>dr_fenced := True, dr_fence_reason := bounded_text reason kMaxTextLength\<rparr>))
       \<lparr>dr_load := no_load\<rparr>"

definition fence :: "DomainRegistry \<Rightarrow> u64 \<Rightarrow> string \<Rightarrow> Status \<times> DomainRegistry" where
  "fence g domain reason =
     (case find_domain g domain of
        None \<Rightarrow> (failure ''domain.not_registered'' [], g)
      | Some current \<Rightarrow>
          (success,
           put_domain g domain (if dr_fenced current then current else fenced_record reason current)))"

definition fence_registry_boot :: "DomainRegistry \<Rightarrow> u64 \<Rightarrow> string \<Rightarrow> nat \<times> DomainRegistry" where
  "fence_registry_boot g boot reason =
     (let hit = (\<lambda>r. dr_worker_boot r = boot \<and> \<not> dr_fenced r);
          affected = length (filter (\<lambda>e. hit (snd e)) (rg_domains g))
      in (affected,
          g\<lparr>rg_domains := map (\<lambda>e. (fst e, if hit (snd e) then fenced_record reason (snd e) else snd e))
                           (rg_domains g),
            rg_mutation_sequence := (if affected > 0 then rg_mutation_sequence g + 1
                                     else rg_mutation_sequence g)\<rparr>))"

definition remove :: "DomainRegistry \<Rightarrow> u64 \<Rightarrow> Status \<times> DomainRegistry" where
  "remove g domain =
     (case find_domain g domain of
        None \<Rightarrow> (failure ''domain.not_registered'' [], g)
      | Some current \<Rightarrow>
          (success,
           g\<lparr>rg_by_name := AList.delete (dr_name current) (rg_by_name g),
             rg_domains := AList.delete domain (rg_domains g),
             rg_mutation_sequence := rg_mutation_sequence g + 1\<rparr>))"

definition mark_domain_evidence_stale :: "DomainRegistry \<Rightarrow> u64 \<Rightarrow> string \<Rightarrow> Status \<times> DomainRegistry" where
  "mark_domain_evidence_stale g domain reason =
     (case find_domain g domain of
        None \<Rightarrow> (failure ''domain.not_registered'' [], g)
      | Some record \<Rightarrow>
          let had_evidence = load_published (dr_load record);
              withdrawn = bump (record\<lparr>dr_load := no_load\<rparr>)
          in (success,
              if had_evidence
              then put_domain g domain
                     (withdrawn\<lparr>dr_fence_reason := bounded_text reason kMaxTextLength\<rparr>)
              else g\<lparr>rg_domains := AList.update domain withdrawn (rg_domains g)\<rparr>))"

definition stale_record :: "string \<Rightarrow> ExecutionDomainRecord \<Rightarrow> ExecutionDomainRecord" where
  "stale_record reason r =
     r\<lparr>dr_load := no_load,
       dr_fence_reason := (if dr_fence_reason r \<noteq> [] then bounded_text reason kMaxTextLength
                           else dr_fence_reason r)\<rparr>"

definition mark_dynamic_evidence_stale :: "DomainRegistry \<Rightarrow> string \<Rightarrow> nat \<times> DomainRegistry" where
  "mark_dynamic_evidence_stale g reason =
     (let affected = length (filter (\<lambda>e. load_published (dr_load (snd e))) (rg_domains g))
      in (affected,
          g\<lparr>rg_domains := map (\<lambda>e. (fst e, stale_record reason (snd e))) (rg_domains g),
            rg_mutation_sequence := (if affected > 0 then rg_mutation_sequence g + 1
                                     else rg_mutation_sequence g)\<rparr>))"

section \<open>Invariant and steps\<close>

definition registry_inv :: "DomainRegistry \<Rightarrow> bool" where
  "registry_inv g \<longleftrightarrow>
     dkeys (rg_domains g) \<and> (\<forall>d r. find_domain g d = Some r \<longrightarrow> dr_id r = d)"

text \<open>
  The operations that keep a domain registered. \<^const>\<open>remove\<close> is the only one that forgets a
  record, and a later registration starts over.
\<close>

inductive registry_step :: "DomainRegistry \<Rightarrow> DomainRegistry \<Rightarrow> bool" where
  step_upsert: "upsert g record allow = (res, g') \<Longrightarrow> registry_step g g'"
| step_capability: "publish_capability g capability = (st, g') \<Longrightarrow> registry_step g g'"
| step_load: "publish_load g domain load = (st, g') \<Longrightarrow> registry_step g g'"
| step_locality: "publish_locality g domain locality = (st, g') \<Longrightarrow> registry_step g g'"
| step_topology: "publish_topology g domain topology = (st, g') \<Longrightarrow> registry_step g g'"
| step_compatibility: "publish_compatibility g domain compatibility = (st, g') \<Longrightarrow> registry_step g g'"
| step_capacity: "publish_capacity g domain capacity = (st, g') \<Longrightarrow> registry_step g g'"
| step_fence: "fence g domain reason = (st, g') \<Longrightarrow> registry_step g g'"
| step_fence_boot: "fence_registry_boot g boot reason = (n, g') \<Longrightarrow> registry_step g g'"
| step_stale: "mark_domain_evidence_stale g domain reason = (st, g') \<Longrightarrow> registry_step g g'"
| step_all_stale: "mark_dynamic_evidence_stale g reason = (n, g') \<Longrightarrow> registry_step g g'"
| step_limit: "set_max_domains g maximum = (st, g') \<Longrightarrow> registry_step g g'"

text \<open>How the record of a registered domain may change in one step.\<close>

definition record_advances :: "ExecutionDomainRecord \<Rightarrow> ExecutionDomainRecord \<Rightarrow> bool" where
  "record_advances r r' \<longleftrightarrow>
     dr_id r' = dr_id r
     \<and> (dr_generation r \<noteq> kSaturated \<longrightarrow> dr_generation r \<le> dr_generation r')
     \<and> (dr_fenced r \<longrightarrow> dr_fenced r' \<or> incarnation_changed r' r)
     \<and> cap_generation (dr_capability r) \<le> cap_generation (dr_capability r')
     \<and> (same_capability (cap_capability (dr_capability r')) (cap_capability (dr_capability r))
        \<or> cap_generation (dr_capability r') = gen_next (cap_generation (dr_capability r)))"

lemma same_capability_refl [simp]: "same_capability c c"
  by (simp add: same_capability_def)

lemma same_capability_eq: "same_capability a b \<Longrightarrow> a = b"
  by (cases a, cases b) (simp add: same_capability_def)

lemma Suc_ge_unless_saturated: "v \<noteq> kSaturated \<Longrightarrow> v \<le> v + 1"
  using gen_next_ge [of v] by (simp add: gen_next_def)

lemma find_domain_put [simp]:
  "find_domain (put_domain g d r) = (find_domain g)(d \<mapsto> r)"
  by (simp add: fun_eq_iff find_domain_def put_domain_def)

lemma find_domain_simps [simp]:
  "find_domain (g\<lparr>rg_by_name := b\<rparr>) = find_domain g"
  "find_domain (g\<lparr>rg_mutation_sequence := n\<rparr>) = find_domain g"
  "find_domain (g\<lparr>rg_max_domains := m\<rparr>) = find_domain g"
  "find_domain (g\<lparr>rg_domains := AList.update d r (rg_domains g)\<rparr>) = (find_domain g)(d \<mapsto> r)"
  by (simp_all add: fun_eq_iff find_domain_def)

lemma registry_inv_put:
  "registry_inv g \<Longrightarrow> dr_id r = d \<Longrightarrow> registry_inv (put_domain g d r)"
  unfolding registry_inv_def by (auto simp: put_domain_def find_domain_def)

lemma registry_inv_simps [simp]:
  "registry_inv (g\<lparr>rg_by_name := b\<rparr>) = registry_inv g"
  "registry_inv (g\<lparr>rg_max_domains := m\<rparr>) = registry_inv g"
  by (simp_all add: registry_inv_def)

lemma registry_inv_update:
  "registry_inv g \<Longrightarrow> dr_id r = d \<Longrightarrow>
     registry_inv (g\<lparr>rg_domains := AList.update d r (rg_domains g)\<rparr>)"
  unfolding registry_inv_def by (auto simp: find_domain_def)

lemma map_of_map_values: "map_of (map (\<lambda>e. (fst e, f (snd e))) m) k = map_option f (map_of m k)"
  by (induction m) auto

lemma find_domain_mapped:
  "find_domain (g\<lparr>rg_domains := map (\<lambda>e. (fst e, f (snd e))) (rg_domains g)\<rparr>) d
     = map_option f (find_domain g d)"
  by (simp add: find_domain_def map_of_map_values)

lemma registry_inv_mapped:
  assumes "registry_inv g" and "\<And>r. dr_id (f r) = dr_id r"
  shows "registry_inv (g\<lparr>rg_domains := map (\<lambda>e. (fst e, f (snd e))) (rg_domains g),
                        rg_mutation_sequence := n\<rparr>)"
  using assms unfolding registry_inv_def by (auto simp: find_domain_mapped o_def)

text \<open>Each way a record is rewritten is an advance.\<close>

lemma replaced_record_id [simp]: "dr_id (replaced_record record current) = dr_id record"
  by (simp add: replaced_record_def rebased_record_def merged_record_def canonical_record_def Let_def)

lemma next_domain_generation_ge:
  "dr_generation current \<le> next_domain_generation record current"
  by (auto simp: next_domain_generation_def gen_next_ge)

lemma rebased_advances:
  assumes "incarnation_changed record current" and "dr_id record = dr_id current"
  shows "record_advances current (rebased_record record current)"
  using assms next_domain_generation_ge [of current "record"]
  by (simp add: record_advances_def rebased_record_def canonical_record_def Let_def gen_next_ge
      incarnation_changed_def)

lemma merged_advances:
  assumes "dr_id record = dr_id current"
  shows "record_advances current (merged_record record current)"
  using assms next_domain_generation_ge [of current "record"]
  by (simp add: record_advances_def merged_record_def canonical_record_def Let_def gen_next_ge)

lemma replaced_advances:
  "dr_id record = dr_id current \<Longrightarrow> record_advances current (replaced_record record current)"
  by (simp add: replaced_record_def rebased_advances merged_advances)

lemma bump_simps [simp]:
  "dr_id (bump r) = dr_id r" "dr_fenced (bump r) = dr_fenced r"
  "dr_capability (bump r) = dr_capability r" "dr_generation (bump r) = dr_generation r + 1"
  "dr_worker_boot (bump r) = dr_worker_boot r" "dr_load (bump r) = dr_load r"
  by (simp_all add: bump_def)

lemma bump_advances:
  "dr_id r' = dr_id r \<Longrightarrow> dr_generation r' = dr_generation r \<Longrightarrow> dr_capability r' = dr_capability r \<Longrightarrow>
     (dr_fenced r \<Longrightarrow> dr_fenced r') \<Longrightarrow> record_advances r (bump r')"
  by (simp add: record_advances_def Suc_ge_unless_saturated)

lemma plain_advances:
  "dr_id r' = dr_id r \<Longrightarrow> dr_generation r' = dr_generation r \<Longrightarrow> dr_fenced r' = dr_fenced r \<Longrightarrow>
     cap_generation (dr_capability r') = cap_generation (dr_capability r) \<Longrightarrow>
     cap_capability (dr_capability r') = cap_capability (dr_capability r) \<Longrightarrow> record_advances r r'"
  by (simp add: record_advances_def)

lemma fenced_record_advances: "record_advances r (fenced_record reason r)"
  by (simp add: record_advances_def fenced_record_def Suc_ge_unless_saturated)

lemma fenced_record_simps [simp]:
  "dr_id (fenced_record reason r) = dr_id r" "dr_fenced (fenced_record reason r)"
  "dr_load (fenced_record reason r) = no_load"
  "dr_generation (fenced_record reason r) = dr_generation r + 1"
  by (simp_all add: fenced_record_def)

text \<open>What one step does: it rewrites some records, each along \<^const>\<open>record_advances\<close>.\<close>

definition reg_rewrites :: "DomainRegistry \<Rightarrow> DomainRegistry \<Rightarrow> bool" where
  "reg_rewrites g g' \<longleftrightarrow>
     registry_inv g' \<and> (\<forall>d r. find_domain g d = Some r \<longrightarrow>
       (\<exists>r'. find_domain g' d = Some r' \<and> (r' = r \<or> record_advances r r')))"

lemma reg_rewrites_refl: "registry_inv g \<Longrightarrow> reg_rewrites g g"
  by (simp add: reg_rewrites_def)

lemma record_advances_id: "record_advances r r' \<Longrightarrow> dr_id r' = dr_id r"
  by (simp add: record_advances_def)

lemma registry_inv_id: "registry_inv g \<Longrightarrow> find_domain g d = Some r \<Longrightarrow> dr_id r = d"
  by (simp add: registry_inv_def)

lemma reg_rewrites_put:
  assumes "registry_inv g" and "find_domain g d = Some r" and "r' = r \<or> record_advances r r'"
  shows "reg_rewrites g (put_domain g d r')"
proof -
  have "dr_id r' = d" using assms registry_inv_id record_advances_id by metis
  with assms show ?thesis by (auto simp: reg_rewrites_def intro: registry_inv_put)
qed

lemma reg_rewrites_update:
  assumes "registry_inv g" and "find_domain g d = Some r" and "record_advances r r'"
  shows "reg_rewrites g (g\<lparr>rg_domains := AList.update d r' (rg_domains g)\<rparr>)"
proof -
  have "dr_id r' = d" using assms registry_inv_id record_advances_id by metis
  with assms show ?thesis by (auto simp: reg_rewrites_def intro: registry_inv_update)
qed

lemma reg_rewrites_mapped:
  assumes "registry_inv g" and "\<And>r. f r = r \<or> record_advances r (f r)"
  shows "reg_rewrites g (g\<lparr>rg_domains := map (\<lambda>e. (fst e, f (snd e))) (rg_domains g),
                          rg_mutation_sequence := n\<rparr>)"
proof -
  have "dr_id (f r) = dr_id r" for r using assms(2) record_advances_id by metis
  with assms show ?thesis
    by (auto simp: reg_rewrites_def find_domain_mapped intro: registry_inv_mapped)
qed

lemma upsert_rewrites:
  assumes inv: "registry_inv g" and up: "upsert g record allow = (res, g')"
  shows "reg_rewrites g g'"
proof (cases "find_domain g (dr_id record)")
  case None
  have "registry_inv (put_domain g (dr_id record) (registered_record g record))"
    using inv by (rule registry_inv_put) (simp add: registered_record_def canonical_record_def Let_def)
  with None inv up show ?thesis
    by (auto simp: upsert_def reg_rewrites_def Let_def split: if_splits option.splits)
next
  case (Some current)
  have id: "dr_id record = dr_id current" using registry_inv_id [OF inv Some] by simp
  have "reg_rewrites g (put_domain g (dr_id record) (replaced_record record current))"
    using inv Some replaced_advances [OF id] by (intro reg_rewrites_put) auto
  then have "reg_rewrites g ((put_domain g (dr_id record) (replaced_record record current))\<lparr>rg_by_name := b\<rparr>)"
    for b by (simp add: reg_rewrites_def)
  with Some inv up show ?thesis
    by (auto simp: upsert_def Let_def reg_rewrites_refl split: if_splits)
qed

lemma publish_capability_rewrites:
  assumes inv: "registry_inv g" and pub: "publish_capability g capability = (st, g')"
  shows "reg_rewrites g g'"
proof (cases "find_domain g (cap_domain capability)")
  case (Some current)
  show ?thesis
    using pub Some inv
    by (auto simp: publish_capability_def Let_def reg_rewrites_refl record_advances_def gen_next_ge
        Suc_ge_unless_saturated split: if_splits intro!: reg_rewrites_put reg_rewrites_update)
qed (use inv pub in \<open>simp add: publish_capability_def reg_rewrites_refl\<close>)

lemma publish_facts_rewrites:
  "registry_inv g \<Longrightarrow> publish_load g domain load = (st, g') \<Longrightarrow> reg_rewrites g g'"
  "registry_inv g \<Longrightarrow> publish_locality g domain locality = (st, g') \<Longrightarrow> reg_rewrites g g'"
  "registry_inv g \<Longrightarrow> publish_topology g domain topology = (st, g') \<Longrightarrow> reg_rewrites g g'"
  "registry_inv g \<Longrightarrow> publish_compatibility g domain compatibility = (st, g') \<Longrightarrow> reg_rewrites g g'"
  "registry_inv g \<Longrightarrow> publish_capacity g domain capacity = (st, g') \<Longrightarrow> reg_rewrites g g'"
  by (auto simp: publish_load_def publish_locality_def publish_topology_def publish_compatibility_def
      publish_capacity_def Let_def reg_rewrites_refl plain_advances
      split: if_splits option.splits intro!: reg_rewrites_put bump_advances)

lemma fence_rewrites:
  "registry_inv g \<Longrightarrow> fence g domain reason = (st, g') \<Longrightarrow> reg_rewrites g g'"
  by (auto simp: fence_def reg_rewrites_refl fenced_record_advances split: option.splits
      intro!: reg_rewrites_put)

lemma fence_registry_boot_rewrites:
  assumes "registry_inv g" and "fence_registry_boot g boot reason = (n, g')"
  shows "reg_rewrites g g'"
  using assms(2) reg_rewrites_mapped [OF assms(1),
      where f = "\<lambda>r. if dr_worker_boot r = boot \<and> \<not> dr_fenced r then fenced_record reason r else r"]
  by (auto simp: fence_registry_boot_def Let_def fenced_record_advances)

lemma stale_record_advances: "record_advances r (stale_record reason r)"
  by (simp add: plain_advances stale_record_def)

lemma mark_stale_rewrites:
  "registry_inv g \<Longrightarrow> mark_domain_evidence_stale g domain reason = (st, g') \<Longrightarrow> reg_rewrites g g'"
  "registry_inv g \<Longrightarrow> mark_dynamic_evidence_stale g reason = (n, g') \<Longrightarrow> reg_rewrites g g'"
proof -
  assume inv: "registry_inv g"
  show "reg_rewrites g g'" if "mark_domain_evidence_stale g domain reason = (st, g')"
    using that inv
    by (auto simp: mark_domain_evidence_stale_def Let_def reg_rewrites_refl record_advances_def
        Suc_ge_unless_saturated split: option.splits if_splits
        intro!: reg_rewrites_put reg_rewrites_update)
  show "reg_rewrites g g'" if "mark_dynamic_evidence_stale g reason = (n, g')"
    using that reg_rewrites_mapped [OF inv, where f = "stale_record reason"]
    by (auto simp: mark_dynamic_evidence_stale_def Let_def stale_record_advances)
qed

lemma set_max_domains_rewrites:
  "registry_inv g \<Longrightarrow> set_max_domains g maximum = (st, g') \<Longrightarrow> reg_rewrites g g'"
  by (auto simp: set_max_domains_def reg_rewrites_def split: if_splits)

lemma registry_step_rewrites: "registry_step g g' \<Longrightarrow> registry_inv g \<Longrightarrow> reg_rewrites g g'"
  by (erule registry_step.cases)
    (blast intro: upsert_rewrites publish_capability_rewrites publish_facts_rewrites fence_rewrites
      fence_registry_boot_rewrites mark_stale_rewrites set_max_domains_rewrites)+

interpretation domains: lifecycle registry_inv registry_step find_domain record_advances
proof unfold_locales
  show "registry_inv l'" if "registry_inv l" "registry_step l l'" for l l'
    using registry_step_rewrites [OF that(2,1)] by (simp add: reg_rewrites_def)
  show "\<exists>e'. find_domain l' k = Some e' \<and> (e' = e \<or> record_advances e e')"
    if "registry_inv l" "registry_step l l'" "find_domain l k = Some e" for l l' k e
    using registry_step_rewrites [OF that(2,1)] that(3) by (simp add: reg_rewrites_def)
qed

lemma registry_inv_new: "registry_inv new_registry"
  by (simp add: registry_inv_def new_registry_def find_domain_def)

lemma record_advances_steps_capability:
  "record_advances\<^sup>*\<^sup>* r r' \<Longrightarrow> cap_generation (dr_capability r) \<le> cap_generation (dr_capability r')
     \<and> dr_id r' = dr_id r"
  by (induction rule: rtranclp_induct) (auto simp: record_advances_def intro: order_trans)

section \<open>Properties\<close>

lemma first_unless_published: "published g \<Longrightarrow> first_unless g = g"
  by (simp add: first_unless_def)

text \<open>
  One step of the registry, other than a removal, keeps a registered domain registered; its
  generation does not go back (before the counter saturates), a fence is lifted only by a record of
  another worker incarnation, and capability content changes only together with the next capability
  generation.\<close>

theorem domain_record_only_advances:
  assumes "registry_inv g" and "registry_step g g'" and "find_domain g d = Some r"
  shows "\<exists>r'. find_domain g' d = Some r' \<and> dr_id r' = d
           \<and> (dr_generation r = kSaturated \<or> dr_generation r \<le> dr_generation r')
           \<and> (dr_fenced r' \<or> incarnation_changed r' r \<or> \<not> dr_fenced r)
           \<and> (cap_capability (dr_capability r') = cap_capability (dr_capability r)
              \<or> cap_generation (dr_capability r') = gen_next (cap_generation (dr_capability r)))"
proof -
  obtain r' where r': "find_domain g' d = Some r'" "r' = r \<or> record_advances r r'"
    using domains.step_entry [OF assms] by blast
  then show ?thesis
    using registry_inv_id [OF assms(1,3)] same_capability_eq
    by (intro exI [of _ r']) (auto simp: record_advances_def)
qed

text \<open>A concrete domain and the registry that holds it.\<close>

definition demo_domain :: ExecutionDomainRecord where
  "demo_domain =
     empty_domain\<lparr>dr_id := 5, dr_name := ''nic0'', dr_type := ExecutionDomainType.kNic,
       dr_worker := 1, dr_worker_boot := 7, dr_provenance := Provenance.kReal,
       dr_capability := empty_capability_record\<lparr>cap_domain := 5\<rparr>\<rparr>"

definition demo_registry :: DomainRegistry where
  "demo_registry = snd (upsert new_registry demo_domain False)"

lemma demo_domain_valid: "st_ok (validate_domain_record demo_domain)"
  by code_simp

lemma demo_upsert:
  "upsert new_registry demo_domain False =
     (Good \<lparr>dur_kind = DomainUpdateKind.kRegistered, dur_generation = 1, dur_accepted = True\<rparr>,
      demo_registry)"
  using demo_domain_valid
  by (simp add: demo_registry_def upsert_def new_registry_def find_domain_def Let_def
      kMaxExecutionDomains_def registered_record_def canonical_record_def demo_domain_def
      empty_domain_def first_unless_def valid_def gen_first_def)

lemma demo_registry_inv: "registry_inv demo_registry"
  using domains.step_inv [OF registry_inv_new step_upsert [OF demo_upsert]] .

lemma demo_find: "find_domain demo_registry 5 = Some (registered_record new_registry demo_domain)"
  using demo_domain_valid
  by (simp add: demo_registry_def upsert_def new_registry_def find_domain_def Let_def
      kMaxExecutionDomains_def demo_domain_def empty_domain_def put_domain_def)

theorem domain_record_only_advances_witness:
  "\<exists>r'. find_domain (snd (fence demo_registry 5 ''down'')) 5 = Some r' \<and> dr_id r' = 5
      \<and> (dr_generation (registered_record new_registry demo_domain) = kSaturated
         \<or> dr_generation (registered_record new_registry demo_domain) \<le> dr_generation r')
      \<and> (dr_fenced r' \<or> incarnation_changed r' (registered_record new_registry demo_domain)
         \<or> \<not> dr_fenced (registered_record new_registry demo_domain))
      \<and> (cap_capability (dr_capability r') =
           cap_capability (dr_capability (registered_record new_registry demo_domain))
         \<or> cap_generation (dr_capability r') =
             gen_next (cap_generation (dr_capability (registered_record new_registry demo_domain))))"
  by (rule domain_record_only_advances [OF demo_registry_inv step_fence [OF prod.collapse [symmetric]]
      demo_find])

text \<open>
  Over any sequence of registry operations other than removal, a registered domain stays
  registered and its capability generation never regresses, so a binding to a superseded capability
  can never become current again.\<close>

theorem capability_generation_never_regresses:
  assumes "registry_inv g" and "registry_step\<^sup>*\<^sup>* g g'" and "find_domain g d = Some r"
  shows "\<exists>r'. find_domain g' d = Some r' \<and> dr_id r' = d
           \<and> cap_generation (dr_capability r) \<le> cap_generation (dr_capability r')"
proof -
  obtain r' where r': "find_domain g' d = Some r'" "record_advances\<^sup>*\<^sup>* r r'"
    using domains.steps_entry [OF assms(2,1,3)] by blast
  then show ?thesis
    using record_advances_steps_capability [OF r'(2)] registry_inv_id [OF assms(1,3)] by auto
qed

theorem capability_generation_never_regresses_witness:
  "\<exists>r'. find_domain (snd (fence demo_registry 5 ''down'')) 5 = Some r' \<and> dr_id r' = 5
      \<and> cap_generation (dr_capability (registered_record new_registry demo_domain))
        \<le> cap_generation (dr_capability r')"
proof -
  have "registry_step demo_registry (snd (fence demo_registry 5 ''down''))"
    by (rule step_fence [OF prod.collapse [symmetric]])
  then show ?thesis
    by (intro capability_generation_never_regresses [OF demo_registry_inv _ demo_find])
      (rule r_into_rtranclp)
qed

text \<open>
  Registering a valid record of a new domain under a free name below the domain bound succeeds;
  the domain is then found by its identity and by its name, with canonical capabilities and
  published generations.\<close>

theorem registered_domain_is_found:
  assumes "st_ok (validate_domain_record record)" and "find_domain g (dr_id record) = None"
    and "length (rg_domains g) < rg_max_domains g" and "map_of (rg_by_name g) (dr_name record) = None"
  shows "\<exists>res g' stored. upsert g record allow = (Good res, g')
           \<and> dur_kind res = DomainUpdateKind.kRegistered
           \<and> find_domain g' (dr_id record) = Some stored
           \<and> find_by_name g' (dr_name record) = Some stored
           \<and> cap_capability (dr_capability stored) = canonicalize (cap_capability (dr_capability record))
           \<and> published (dr_generation stored) \<and> published (cap_generation (dr_capability stored))
           \<and> published (dr_backend_generation stored)"
proof -
  have "published (first_unless x)" for x by (simp add: first_unless_def gen_first_def valid_def)
  then show ?thesis
    using assms
    by (simp add: upsert_def Let_def find_by_name_def registered_record_def canonical_record_def)
qed

theorem registered_domain_is_found_witness:
  "\<exists>res g' stored. upsert new_registry demo_domain False = (Good res, g')
     \<and> dur_kind res = DomainUpdateKind.kRegistered
     \<and> find_domain g' (dr_id demo_domain) = Some stored
     \<and> find_by_name g' (dr_name demo_domain) = Some stored
     \<and> cap_capability (dr_capability stored) = canonicalize (cap_capability (dr_capability demo_domain))
     \<and> published (dr_generation stored) \<and> published (cap_generation (dr_capability stored))
     \<and> published (dr_backend_generation stored)"
  by (rule registered_domain_is_found [OF demo_domain_valid])
    (simp_all add: new_registry_def find_domain_def kMaxExecutionDomains_def)

text \<open>
  Withdrawing all dynamic evidence, as a restart does, leaves no domain with current load
  evidence for any worker incarnation and changes nothing that planning uses besides: identity,
  generation, capability and fence of every domain stay.\<close>

theorem withdrawn_evidence_is_not_current:
  "let (n, g') = mark_dynamic_evidence_stale g reason
   in map_option (\<lambda>r. (dr_id r, dr_generation r, dr_capability r, dr_fenced r)) (find_domain g' d) =
        map_option (\<lambda>r. (dr_id r, dr_generation r, dr_capability r, dr_fenced r)) (find_domain g d)
      \<and> map_option (\<lambda>r. dynamic_evidence_current r boot) (find_domain g' d) \<in> {None, Some False}"
proof -
  have "find_domain (snd (mark_dynamic_evidence_stale g reason)) d =
      map_option (stale_record reason) (find_domain g d)"
    by (simp add: mark_dynamic_evidence_stale_def Let_def find_domain_mapped)
  then show ?thesis
    by (cases "find_domain g d")
      (simp_all add: split_def Let_def stale_record_def dynamic_evidence_current_def)
qed

text \<open>
  A capability record whose sequence number does not advance within one incarnation of its
  publisher cannot change the registered capability: different content is refused, equal content is
  accepted without effect, and the registry is unchanged either way.\<close>

theorem stale_capability_publication_refused:
  assumes "find_domain g (cap_domain capability) = Some current"
    and "valid (cap_publisher capability)"
    and "ps_boot (dr_publisher_sequence current) = cap_publisher capability"
    and "cap_generation capability \<le> ps_capability (dr_publisher_sequence current)"
  shows "snd (publish_capability g capability) = g
         \<and> (st_ok (fst (publish_capability g capability)) \<longleftrightarrow>
              canonicalize (cap_capability capability) = cap_capability (dr_capability current))"
  using assms same_capability_eq by (auto simp: publish_capability_def Let_def)

theorem stale_capability_publication_refused_witness:
  "let first = empty_capability_record\<lparr>cap_domain := 5, cap_publisher := 7, cap_generation := 2\<rparr>;
       g = snd (publish_capability demo_registry first);
       stale = first\<lparr>cap_capability := empty_capability_set\<lparr>cs_flags := 1\<rparr>\<rparr>
   in snd (publish_capability g stale) = g \<and> \<not> st_ok (fst (publish_capability g stale))"
proof -
  let ?first = "empty_capability_record\<lparr>cap_domain := 5, cap_publisher := 7, cap_generation := 2\<rparr>"
  let ?g = "snd (publish_capability demo_registry ?first)"
  let ?stale = "?first\<lparr>cap_capability := empty_capability_set\<lparr>cs_flags := 1\<rparr>\<rparr>"
  have "map_option (\<lambda>r. (ps_boot (dr_publisher_sequence r), ps_capability (dr_publisher_sequence r),
      cs_flags (cap_capability (dr_capability r)))) (find_domain ?g 5) = Some (7, 2, 0)"
    using demo_find
    by (simp add: publish_capability_def Let_def empty_capability_record_def valid_def
        registered_record_def canonical_record_def demo_domain_def empty_domain_def no_publisher_def
        canonicalize_def empty_capability_set_def bump_def)
  then obtain cur where cur: "find_domain ?g 5 = Some cur" "ps_boot (dr_publisher_sequence cur) = 7"
      "ps_capability (dr_publisher_sequence cur) = 2" "cs_flags (cap_capability (dr_capability cur)) = 0"
    by auto
  have flags: "cs_flags (canonicalize (cap_capability ?stale)) = 1"
    by (simp add: canonicalize_def Let_def empty_capability_set_def)
  then have "canonicalize (cap_capability ?stale) \<noteq> cap_capability (dr_capability cur)"
    using cur(4) by (metis zero_neq_one)
  moreover have "valid (7 :: u64)" by (simp add: valid_def)
  ultimately show ?thesis
    using stale_capability_publication_refused [of ?g ?stale cur] cur(1-3) by (simp add: Let_def)
qed

end
