(* ===== verification/Tos_Attempt.thy ===== *)
theory Tos_Attempt
  imports Tos_Reservation Tos_Operation
begin

text \<open>
  The attempt ledger (\<^verbatim>\<open>src/include/tos/core/attempt.hpp\<close>, \<^verbatim>\<open>src/src/core/attempt.cpp\<close>): the record
  of every execution attempt, its state machine, and the completion authority that commits at most
  one result per attempt. Attempts are sharded by the top byte of their identity; the highest
  generation handed out per operation is kept in a second set of shards. Every operation takes one
  lock at a time and is one atomic step; \<^verbatim>\<open>register_attempt\<close> reads the highest generation under
  another lock first, which in a sequence of steps is the same state.

  The invariant \<open>attempts_inv\<close> says that an entry is filed under its own identity and that a
  committed completion agrees with the terminal state. \<open>attempt_evolves\<close> is the life cycle.
\<close>

section \<open>Data\<close>

record AttemptRegistration =
  reg_id :: u64
  reg_generation :: u64
  reg_operation :: u64
  reg_operation_class :: u64
  reg_side_effect :: SideEffectClass
  reg_domain :: u64
  reg_domain_type :: ExecutionDomainType
  reg_domain_generation :: u64
  reg_capability_generation :: u64
  reg_worker :: u64
  reg_worker_boot :: u64
  reg_coordinator_epoch :: u64
  reg_reservation :: u64
  reg_dispatch :: u64
  reg_provenance :: Provenance
  reg_fallback :: bool
  reg_fallback_from :: u64
  reg_retry_index :: u32

record ExecutionResultPayload =
  rp_success :: bool
  rp_result_digest :: u64
  rp_bytes_processed :: u64
  rp_duration_ns :: u64
  rp_failure :: FailureKind
  rp_backend_detail :: string

record CompletionSubmission =
  sub_attempt :: u64
  sub_generation :: u64
  sub_dispatch :: u64
  sub_completion :: u64
  sub_worker :: u64
  sub_worker_boot :: u64
  sub_coordinator_epoch :: u64
  sub_domain_generation :: u64
  sub_capability_generation :: u64
  sub_operation :: u64
  sub_provenance :: Provenance
  sub_result :: ExecutionResultPayload

record ExecutionAttempt =
  att_id :: u64
  att_generation :: u64
  att_operation :: u64
  att_operation_class :: u64
  att_side_effect :: SideEffectClass
  att_domain :: u64
  att_domain_type :: ExecutionDomainType
  att_domain_generation :: u64
  att_capability_generation :: u64
  att_worker :: u64
  att_worker_boot :: u64
  att_coordinator_epoch :: u64
  att_reservation :: u64
  att_dispatch :: u64
  att_state :: AttemptState
  att_resolution :: AttemptResolution
  att_failure :: FailureKind
  att_failure_detail :: string
  att_close_reason :: string
  att_provenance :: Provenance
  att_fallback :: bool
  att_fallback_from :: u64
  att_retry_index :: u32
  att_cancellation_requested :: bool
  att_completion_committed :: bool
  att_result :: ExecutionResultPayload
  att_sequence :: u64
  att_dispatch_sequence :: u64
  att_snapshot :: u64

record CompletionOutcome =
  co_rejection :: CompletionRejection
  co_committed :: bool
  co_idempotent :: bool
  co_attempt :: ExecutionAttempt

record AttemptAudit =
  aa_consistent :: bool
  aa_total :: u64
  aa_live :: u64
  aa_completed :: u64
  aa_failed :: u64
  aa_ambiguous :: u64
  aa_cancelled :: u64
  aa_fenced :: u64
  aa_multiple_completions :: u64
  aa_detail :: string

record AttemptShard =
  as_attempts :: "ExecutionAttempt umap"
  as_counter :: u64

record AttemptLedger =
  al_shard_count :: nat
  al_shards :: "AttemptShard list"
  al_operation_shards :: "u64 umap list"
  al_allocation_counter :: u64
  al_conflicting_duplicates :: u64
  al_duplicate_replays :: u64
  al_max_attempts :: nat
  al_total_registered :: u64

definition empty_result :: ExecutionResultPayload where
  "empty_result =
     \<lparr>rp_success = False, rp_result_digest = 0, rp_bytes_processed = 0, rp_duration_ns = 0,
      rp_failure = FailureKind.kNone, rp_backend_detail = []\<rparr>"

definition empty_attempt :: ExecutionAttempt where
  "empty_attempt =
     \<lparr>att_id = 0, att_generation = 0, att_operation = 0, att_operation_class = 0,
      att_side_effect = SideEffectClass.kUnknown, att_domain = 0,
      att_domain_type = ExecutionDomainType.kCpu, att_domain_generation = 0,
      att_capability_generation = 0, att_worker = 0, att_worker_boot = 0,
      att_coordinator_epoch = 0, att_reservation = 0, att_dispatch = 0,
      att_state = AttemptState.kPlanned, att_resolution = AttemptResolution.kNone,
      att_failure = FailureKind.kNone, att_failure_detail = [], att_close_reason = [],
      att_provenance = Provenance.kUnsupported, att_fallback = False, att_fallback_from = 0,
      att_retry_index = 0, att_cancellation_requested = False, att_completion_committed = False,
      att_result = empty_result, att_sequence = 0, att_dispatch_sequence = 0, att_snapshot = 0\<rparr>"

fun is_terminal :: "AttemptState \<Rightarrow> bool" where
  "is_terminal AttemptState.kCompleted = True"
| "is_terminal AttemptState.kFailed = True"
| "is_terminal AttemptState.kOutcomeUnknown = True"
| "is_terminal AttemptState.kCancelled = True"
| "is_terminal AttemptState.kRejectedStale = True"
| "is_terminal AttemptState.kFenced = True"
| "is_terminal _ = False"

section \<open>Shards\<close>

definition new_attempt_ledger :: "nat \<Rightarrow> AttemptLedger" where
  "new_attempt_ledger count =
     (let n = max 1 (min count kMaxShards)
      in \<lparr>al_shard_count = n, al_shards = replicate n \<lparr>as_attempts = [], as_counter = 0\<rparr>,
          al_operation_shards = replicate n [], al_allocation_counter = 0,
          al_conflicting_duplicates = 0, al_duplicate_replays = 0,
          al_max_attempts = kMaxLiveAttempts + kMaxHistoricalAttempts, al_total_registered = 0\<rparr>)"

definition attempt_shard_for_id :: "AttemptLedger \<Rightarrow> u64 \<Rightarrow> nat" where
  "attempt_shard_for_id l i =
     (let index = unat (drop_bit kShardShift i)
      in if index = 0 \<or> index > al_shard_count l then al_shard_count l else index - 1)"

definition operation_shard :: "AttemptLedger \<Rightarrow> u64 \<Rightarrow> nat" where
  "operation_shard l operation = unat (strong_id_hash operation) mod al_shard_count l"

definition put_attempt_shard :: "AttemptLedger \<Rightarrow> nat \<Rightarrow> AttemptShard \<Rightarrow> AttemptLedger" where
  "put_attempt_shard l index sh = l\<lparr>al_shards := (al_shards l)[index := sh]\<rparr>"

definition put_attempt :: "AttemptLedger \<Rightarrow> u64 \<Rightarrow> ExecutionAttempt \<Rightarrow> AttemptLedger" where
  "put_attempt l i a =
     (let index = attempt_shard_for_id l i; sh = al_shards l ! index
      in put_attempt_shard l index (sh\<lparr>as_attempts := AList.update i a (as_attempts sh)\<rparr>))"

text \<open>\<^verbatim>\<open>AttemptLedger::get\<close>; every operation on an identity starts with the same lookup.\<close>

definition get_attempt :: "AttemptLedger \<Rightarrow> u64 \<Rightarrow> ExecutionAttempt option" where
  "get_attempt l i =
     (let index = attempt_shard_for_id l i in
      if index \<ge> al_shard_count l then None
      else map_of (as_attempts (al_shards l ! index)) i)"

section \<open>Allocation\<close>

definition allocate_id :: "AttemptLedger \<Rightarrow> u64 \<times> AttemptLedger" where
  "allocate_id l =
     (let sequence = al_allocation_counter l;
          l = l\<lparr>al_allocation_counter := sequence + 1\<rparr>;
          index = unat sequence mod al_shard_count l;
          shard = al_shards l ! index;
          shard = shard\<lparr>as_counter := as_counter shard + 1\<rparr>;
          counter = as_counter shard AND (push_bit kShardShift 1 - 1)
      in (push_bit kShardShift (of_nat index + 1) OR counter, put_attempt_shard l index shard))"

definition highest_generation :: "AttemptLedger \<Rightarrow> u64 \<Rightarrow> u64" where
  "highest_generation l operation =
     get_or 0 (al_operation_shards l ! operation_shard l operation) operation"

definition put_highest :: "AttemptLedger \<Rightarrow> u64 \<Rightarrow> u64 \<Rightarrow> AttemptLedger" where
  "put_highest l operation g =
     (let index = operation_shard l operation
      in l\<lparr>al_operation_shards := (al_operation_shards l)
             [index := AList.update operation g (al_operation_shards l ! index)]\<rparr>)"

definition allocate_generation :: "AttemptLedger \<Rightarrow> u64 \<Rightarrow> u64 \<times> AttemptLedger" where
  "allocate_generation l operation =
     (let highest = highest_generation l operation + 1
      in (highest, put_highest l operation highest))"

section \<open>Registration\<close>

definition new_attempt :: "AttemptRegistration \<Rightarrow> ExecutionAttempt" where
  "new_attempt registration = empty_attempt\<lparr>
     att_id := reg_id registration,
     att_generation := reg_generation registration,
     att_operation := reg_operation registration,
     att_operation_class := reg_operation_class registration,
     att_side_effect := reg_side_effect registration,
     att_domain := reg_domain registration,
     att_domain_type := reg_domain_type registration,
     att_domain_generation := reg_domain_generation registration,
     att_capability_generation := reg_capability_generation registration,
     att_worker := reg_worker registration,
     att_worker_boot := reg_worker_boot registration,
     att_coordinator_epoch := reg_coordinator_epoch registration,
     att_reservation := reg_reservation registration,
     att_dispatch := reg_dispatch registration,
     att_provenance := reg_provenance registration,
     att_fallback := reg_fallback registration,
     att_fallback_from := reg_fallback_from registration,
     att_retry_index := reg_retry_index registration,
     att_state := AttemptState.kDispatching,
     att_sequence := reg_id registration\<rparr>"

definition register_attempt :: "AttemptLedger \<Rightarrow> AttemptRegistration \<Rightarrow> Status \<times> AttemptLedger" where
  "register_attempt l registration =
     (if \<not> valid (reg_id registration) then (failure ''attempt.missing_identity'' [], l)
      else if \<not> valid (reg_operation registration) then (failure ''attempt.missing_operation'' [], l)
      else if reg_generation registration < highest_generation l (reg_operation registration)
      then (failure ''attempt.generation_regression'' [], l)
      else
        let i = reg_id registration; index = attempt_shard_for_id l i in
        if index \<ge> al_shard_count l then (failure ''attempt.invalid_identity'' [], l)
        else
          let shard = al_shards l ! index in
          if map_of (as_attempts shard) i \<noteq> None
          then (failure ''attempt.duplicate_identity'' [], l)
          else if length (as_attempts shard) \<ge> al_max_attempts l
          then (failure ''attempt.limit_reached'' [], l)
          else
            (success,
             (put_attempt l i (new_attempt registration))
               \<lparr>al_total_registered := al_total_registered l + 1\<rparr>))"

section \<open>Transitions\<close>

definition mark_dispatched :: "AttemptLedger \<Rightarrow> u64 \<Rightarrow> u64 \<Rightarrow> Status \<times> AttemptLedger" where
  "mark_dispatched l i dispatch =
     (case get_attempt l i of
        None \<Rightarrow> (failure ''attempt.not_found'' [], l)
      | Some attempt \<Rightarrow>
          if att_state attempt \<noteq> AttemptState.kDispatching
          then (failure ''attempt.not_dispatching'' [], l)
          else
            (success,
             put_attempt l i
               (attempt\<lparr>att_dispatch := dispatch, att_state := AttemptState.kDispatched,
                        att_dispatch_sequence := dispatch\<rparr>)))"

definition transitioned ::
    "ExecutionAttempt \<Rightarrow> AttemptState \<Rightarrow> AttemptResolution \<Rightarrow> FailureKind \<Rightarrow> string \<Rightarrow> ExecutionAttempt" where
  "transitioned attempt state resolution kind detail =
     attempt\<lparr>att_state := state, att_resolution := resolution,
             att_failure := (if kind \<noteq> FailureKind.kNone then kind else att_failure attempt),
             att_close_reason := bounded_text detail kMaxTextLength\<rparr>"

definition transition ::
    "AttemptLedger \<Rightarrow> u64 \<Rightarrow> AttemptState \<Rightarrow> AttemptResolution \<Rightarrow> FailureKind \<Rightarrow> string \<Rightarrow> bool \<Rightarrow>
       Status \<times> AttemptLedger" where
  "transition l i state resolution kind detail require_live =
     (case get_attempt l i of
        None \<Rightarrow> (failure ''attempt.not_found'' [], l)
      | Some attempt \<Rightarrow>
          if att_completion_committed attempt then (failure ''attempt.already_completed'' [], l)
          else if require_live \<and> is_terminal (att_state attempt)
          then (failure ''attempt.already_terminal'' [], l)
          else (success, put_attempt l i (transitioned attempt state resolution kind detail)))"

definition mark_failed :: "AttemptLedger \<Rightarrow> u64 \<Rightarrow> FailureKind \<Rightarrow> string \<Rightarrow> Status \<times> AttemptLedger" where
  "mark_failed l i kind detail =
     transition l i AttemptState.kFailed AttemptResolution.kAuthoritativeFailure kind detail True"

definition mark_ambiguous :: "AttemptLedger \<Rightarrow> u64 \<Rightarrow> string \<Rightarrow> Status \<times> AttemptLedger" where
  "mark_ambiguous l i detail =
     transition l i AttemptState.kOutcomeUnknown AttemptResolution.kAmbiguous
       FailureKind.kAmbiguousOutcome detail True"

definition mark_cancelled :: "AttemptLedger \<Rightarrow> u64 \<Rightarrow> bool \<Rightarrow> string \<Rightarrow> Status \<times> AttemptLedger" where
  "mark_cancelled l i crossed_dispatch_boundary detail =
     transition l i AttemptState.kCancelled
       (if crossed_dispatch_boundary then AttemptResolution.kCancelledAmbiguous
        else AttemptResolution.kCancelledBeforeDispatch)
       FailureKind.kCancelled detail True"

definition mark_fenced :: "AttemptLedger \<Rightarrow> u64 \<Rightarrow> bool \<Rightarrow> string \<Rightarrow> Status \<times> AttemptLedger" where
  "mark_fenced l i may_have_effect detail =
     transition l i AttemptState.kFenced
       (if may_have_effect then AttemptResolution.kFencedMayHaveEffect
        else AttemptResolution.kFencedNoEffect)
       (if may_have_effect then FailureKind.kAmbiguousOutcome else FailureKind.kWorkerDeath)
       detail True"

definition mark_rejected_stale :: "AttemptLedger \<Rightarrow> u64 \<Rightarrow> string \<Rightarrow> Status \<times> AttemptLedger" where
  "mark_rejected_stale l i detail =
     transition l i AttemptState.kRejectedStale AttemptResolution.kNone
       FailureKind.kPreDispatchRejection detail False"

section \<open>Completion authority\<close>

text \<open>The cascade of checks of \<^verbatim>\<open>commit_completion\<close>, in the order of the source.\<close>

definition identical_result :: "ExecutionResultPayload \<Rightarrow> ExecutionResultPayload \<Rightarrow> bool" where
  "identical_result a b =
     (rp_success a = rp_success b \<and> rp_result_digest a = rp_result_digest b
      \<and> rp_bytes_processed a = rp_bytes_processed b)"

definition completion_verdict ::
    "bool \<Rightarrow> CompletionSubmission \<Rightarrow> ExecutionAttempt \<Rightarrow> CompletionRejection" where
  "completion_verdict allow_provenance_mismatch submission attempt =
     (if sub_generation submission \<noteq> att_generation attempt
      then CompletionRejection.kAttemptGenerationMismatch
      else if valid (att_dispatch attempt) \<and> sub_dispatch submission \<noteq> att_dispatch attempt
      then CompletionRejection.kDispatchIdMismatch
      else if valid (sub_worker submission) \<and> valid (att_worker attempt)
              \<and> sub_worker submission \<noteq> att_worker attempt
      then CompletionRejection.kStaleWorkerBoot
      else if sub_worker_boot submission \<noteq> att_worker_boot attempt
      then CompletionRejection.kStaleWorkerBoot
      else if sub_coordinator_epoch submission \<noteq> att_coordinator_epoch attempt
      then CompletionRejection.kStaleCoordinatorEpoch
      else if sub_domain_generation submission \<noteq> att_domain_generation attempt
      then CompletionRejection.kStaleDomainGeneration
      else if published (sub_capability_generation submission)
              \<and> published (att_capability_generation attempt)
              \<and> sub_capability_generation submission \<noteq> att_capability_generation attempt
      then CompletionRejection.kStaleCapabilityGeneration
      else if sub_operation submission \<noteq> att_operation attempt
      then CompletionRejection.kOperationMismatch
      else if \<not> allow_provenance_mismatch \<and> sub_provenance submission \<noteq> att_provenance attempt
      then CompletionRejection.kProvenanceMismatch
      else if att_completion_committed attempt
      then (if identical_result (att_result attempt) (sub_result submission)
            then CompletionRejection.kDuplicateIdentical
            else CompletionRejection.kConflictingDuplicate)
      else if att_state attempt = AttemptState.kFenced \<or> att_state attempt = AttemptState.kRejectedStale
      then (if att_state attempt = AttemptState.kFenced then CompletionRejection.kDomainFenced
            else CompletionRejection.kAlreadyTerminal)
      else if att_state attempt = AttemptState.kCancelled
      then CompletionRejection.kAlreadyTerminal
      else if att_state attempt = AttemptState.kCompleted \<or> att_state attempt = AttemptState.kFailed
              \<or> att_state attempt = AttemptState.kOutcomeUnknown
      then CompletionRejection.kAlreadyTerminal
      else if att_state attempt \<noteq> AttemptState.kDispatched
              \<and> att_state attempt \<noteq> AttemptState.kDispatching
      then CompletionRejection.kNotDispatched
      else if rp_bytes_processed (sub_result submission) > kMaxPayloadBytes
      then CompletionRejection.kResultTooLarge
      else CompletionRejection.kAccepted)"

definition completed_attempt :: "ExecutionAttempt \<Rightarrow> ExecutionResultPayload \<Rightarrow> ExecutionAttempt" where
  "completed_attempt attempt result =
     attempt\<lparr>
       att_state := (if rp_success result then AttemptState.kCompleted else AttemptState.kFailed),
       att_resolution := (if rp_success result then AttemptResolution.kAuthoritativeSuccess
                          else AttemptResolution.kAuthoritativeFailure),
       att_result := result,
       att_completion_committed := True,
       att_failure := (if rp_success result then FailureKind.kNone
                       else if rp_failure result = FailureKind.kNone
                       then FailureKind.kExecutionFailure else rp_failure result),
       att_close_reason := bounded_text (rp_backend_detail result) kMaxTextLength\<rparr>"

definition commit_completion ::
    "AttemptLedger \<Rightarrow> CompletionSubmission \<Rightarrow> bool \<Rightarrow> CompletionOutcome \<times> AttemptLedger" where
  "commit_completion l submission allow_provenance_mismatch =
     (case get_attempt l (sub_attempt submission) of
        None \<Rightarrow>
          (\<lparr>co_rejection = CompletionRejection.kUnknownAttempt, co_committed = False,
            co_idempotent = False, co_attempt = empty_attempt\<rparr>, l)
      | Some attempt \<Rightarrow>
          let verdict = completion_verdict allow_provenance_mismatch submission attempt;
              reject = \<lparr>co_rejection = verdict, co_committed = False, co_idempotent = False,
                        co_attempt = attempt\<rparr>
          in if verdict = CompletionRejection.kDuplicateIdentical
             then (reject\<lparr>co_committed := True, co_idempotent := True\<rparr>,
                   l\<lparr>al_duplicate_replays := al_duplicate_replays l + 1\<rparr>)
             else if verdict = CompletionRejection.kConflictingDuplicate
             then (reject, l\<lparr>al_conflicting_duplicates := al_conflicting_duplicates l + 1\<rparr>)
             else if verdict \<noteq> CompletionRejection.kAccepted then (reject, l)
             else
               let attempt' = completed_attempt attempt (sub_result submission)
               in (reject\<lparr>co_committed := True, co_attempt := attempt'\<rparr>,
                   put_attempt l (sub_attempt submission) attempt'))"

section \<open>Reading\<close>

definition all_attempts :: "AttemptLedger \<Rightarrow> ExecutionAttempt list" where
  "all_attempts l = concat (map (\<lambda>sh. map snd (as_attempts sh)) (al_shards l))"

definition list_attempts :: "AttemptLedger \<Rightarrow> nat \<Rightarrow> ExecutionAttempt list" where
  "list_attempts l limit = take limit (sort_by att_id (all_attempts l))"

text \<open>Sorted by generation, then by identity: a stable sort by identity first.\<close>

definition list_by_operation :: "AttemptLedger \<Rightarrow> u64 \<Rightarrow> nat \<Rightarrow> ExecutionAttempt list" where
  "list_by_operation l operation limit =
     take limit
       (sort_by att_generation
          (sort_by att_id (filter (\<lambda>a. att_operation a = operation) (all_attempts l))))"

definition list_live :: "AttemptLedger \<Rightarrow> ExecutionAttempt list" where
  "list_live l = sort_by att_id (filter (\<lambda>a. \<not> is_terminal (att_state a)) (all_attempts l))"

definition live_count :: "AttemptLedger \<Rightarrow> u64" where
  "live_count l = of_nat (length (filter (\<lambda>a. \<not> is_terminal (att_state a)) (all_attempts l)))"

definition count_state :: "AttemptAudit \<Rightarrow> AttemptState \<Rightarrow> AttemptAudit" where
  "count_state audit st =
     (case st of
        AttemptState.kCompleted \<Rightarrow> audit\<lparr>aa_completed := aa_completed audit + 1\<rparr>
      | AttemptState.kFailed \<Rightarrow> audit\<lparr>aa_failed := aa_failed audit + 1\<rparr>
      | AttemptState.kOutcomeUnknown \<Rightarrow> audit\<lparr>aa_ambiguous := aa_ambiguous audit + 1\<rparr>
      | AttemptState.kCancelled \<Rightarrow> audit\<lparr>aa_cancelled := aa_cancelled audit + 1\<rparr>
      | AttemptState.kFenced \<Rightarrow> audit\<lparr>aa_fenced := aa_fenced audit + 1\<rparr>
      | AttemptState.kRejectedStale \<Rightarrow> audit
      | _ \<Rightarrow> audit\<lparr>aa_live := aa_live audit + 1\<rparr>)"

definition audit_attempt :: "AttemptAudit \<Rightarrow> ExecutionAttempt \<Rightarrow> AttemptAudit" where
  "audit_attempt audit attempt =
     (let audit = audit\<lparr>aa_total := aa_total audit + 1\<rparr>;
          audit = count_state audit (att_state attempt);
          audit = (if att_completion_committed attempt
                      \<and> (att_state attempt = AttemptState.kCompleted
                         \<or> att_state attempt = AttemptState.kFailed)
                      \<and> (att_state attempt = AttemptState.kCompleted) \<noteq> rp_success (att_result attempt)
                   then audit\<lparr>aa_consistent := False,
                              aa_detail := ''attempt result contradicts terminal state''\<rparr>
                   else audit)
      in if att_completion_committed attempt \<and> att_resolution attempt = AttemptResolution.kNone
         then audit\<lparr>aa_consistent := False,
                    aa_detail := ''committed completion without a resolution''\<rparr>
         else audit)"

definition empty_attempt_audit :: AttemptAudit where
  "empty_attempt_audit =
     \<lparr>aa_consistent = True, aa_total = 0, aa_live = 0, aa_completed = 0, aa_failed = 0,
      aa_ambiguous = 0, aa_cancelled = 0, aa_fenced = 0, aa_multiple_completions = 0,
      aa_detail = []\<rparr>"

definition audit_attempts :: "AttemptLedger \<Rightarrow> AttemptAudit" where
  "audit_attempts l =
     (let audit = (foldl audit_attempt empty_attempt_audit (all_attempts l))
                    \<lparr>aa_multiple_completions := al_conflicting_duplicates l\<rparr>
      in if aa_consistent audit then audit\<lparr>aa_detail := ''attempt ledger consistent''\<rparr> else audit)"

section \<open>Retention and recovery\<close>

definition erase_attempt :: "nat \<times> AttemptLedger \<Rightarrow> u64 \<Rightarrow> nat \<times> AttemptLedger" where
  "erase_attempt s i =
     (let l = snd s; index = attempt_shard_for_id l i in
      if index \<ge> al_shard_count l then s
      else
        let sh = al_shards l ! index
        in (fst s + (if map_of (as_attempts sh) i = None then 0 else 1),
            put_attempt_shard l index (sh\<lparr>as_attempts := AList.delete i (as_attempts sh)\<rparr>)))"

definition prune_history :: "AttemptLedger \<Rightarrow> nat \<Rightarrow> nat \<times> AttemptLedger" where
  "prune_history l keep =
     (let terminal = filter (\<lambda>a. is_terminal (att_state a)) (all_attempts l) in
      if length terminal \<le> keep then (0, l)
      else foldl erase_attempt (0, l)
             (map att_id (take (length terminal - keep) (sort_by att_id terminal))))"

definition raise_counter :: "AttemptLedger \<Rightarrow> u64 \<Rightarrow> AttemptLedger" where
  "raise_counter l i =
     (let index = attempt_shard_for_id l i; shard = al_shards l ! index;
          counter = i AND (push_bit kShardShift 1 - 1)
      in if counter > as_counter shard
         then put_attempt_shard l index (shard\<lparr>as_counter := counter\<rparr>) else l)"

definition restore_attempt :: "AttemptLedger \<Rightarrow> ExecutionAttempt \<Rightarrow> Status \<times> AttemptLedger" where
  "restore_attempt l attempt =
     (if \<not> valid (att_id attempt) \<or> \<not> valid (att_operation attempt)
      then (failure ''attempt.invalid_identity'' [], l)
      else if \<not> is_terminal (att_state attempt)
      then (failure ''attempt.in_flight_restore_rejected''
              ''in-flight attempts are classified conservatively before restore'', l)
      else
        let i = att_id attempt; index = attempt_shard_for_id l i in
        if index \<ge> al_shard_count l then (failure ''attempt.invalid_identity'' [], l)
        else
          let shard = al_shards l ! index in
          if map_of (as_attempts shard) i \<noteq> None
          then (failure ''attempt.duplicate_identity'' [], l)
          else if length (as_attempts shard) \<ge> al_max_attempts l
          then (failure ''attempt.limit_reached'' [], l)
          else
            let l = raise_counter (put_attempt l i attempt) i;
                highest = highest_generation l (att_operation attempt)
            in (success,
                put_highest l (att_operation attempt)
                  (if att_generation attempt > highest then att_generation attempt else highest)))"

definition adopt_attempt_id :: "AttemptLedger \<Rightarrow> u64 \<Rightarrow> AttemptLedger" where
  "adopt_attempt_id l i =
     (if attempt_shard_for_id l i \<ge> al_shard_count l then l else raise_counter l i)"

definition adopt_attempt_ids :: "AttemptLedger \<Rightarrow> u64 list \<Rightarrow> AttemptLedger" where
  "adopt_attempt_ids l ids = foldl adopt_attempt_id l ids"

section \<open>The invariant\<close>

definition attempt_ok :: "ExecutionAttempt \<Rightarrow> bool" where
  "attempt_ok a \<longleftrightarrow>
     (att_completion_committed a \<longrightarrow>
        att_state a = (if rp_success (att_result a) then AttemptState.kCompleted else AttemptState.kFailed)
        \<and> att_resolution a \<noteq> AttemptResolution.kNone)"

definition attempt_shard_inv :: "nat \<Rightarrow> AttemptShard \<Rightarrow> bool" where
  "attempt_shard_inv i sh \<longleftrightarrow>
     dkeys (as_attempts sh)
     \<and> (\<forall>e \<in> set (as_attempts sh).
           att_id (snd e) = fst e \<and> unat (drop_bit kShardShift (fst e)) = Suc i \<and> attempt_ok (snd e))"

definition attempts_inv :: "AttemptLedger \<Rightarrow> bool" where
  "attempts_inv l \<longleftrightarrow>
     0 < al_shard_count l \<and> al_shard_count l < kMaxShards
     \<and> length (al_shards l) = al_shard_count l
     \<and> length (al_operation_shards l) = al_shard_count l
     \<and> (\<forall>i < al_shard_count l. attempt_shard_inv i (al_shards l ! i))"

lemma attempts_invD:
  assumes "attempts_inv l"
  shows "0 < al_shard_count l" and "al_shard_count l < kMaxShards"
    and "length (al_shards l) = al_shard_count l"
    and "length (al_operation_shards l) = al_shard_count l"
    and "i < al_shard_count l \<Longrightarrow> attempt_shard_inv i (al_shards l ! i)"
  using assms by (simp_all add: attempts_inv_def)

lemma get_attempt_found:
  "get_attempt l j = Some a \<longleftrightarrow>
     attempt_shard_for_id l j < al_shard_count l
     \<and> map_of (as_attempts (al_shards l ! attempt_shard_for_id l j)) j = Some a"
  by (auto simp: get_attempt_def Let_def)

lemma get_attempt_ok:
  assumes "attempts_inv l" and "get_attempt l j = Some a"
  shows "att_id a = j" and "attempt_ok a"
  using attempts_invD(5) [OF assms(1), of "attempt_shard_for_id l j"] assms(2)
  by (auto simp: get_attempt_found attempt_shard_inv_def dest: map_of_SomeD)

text \<open>Updates that leave the filed attempts alone.\<close>

lemma attempt_frame [simp]:
  "attempt_shard_for_id (l\<lparr>al_total_registered := x\<rparr>) = attempt_shard_for_id l"
  "attempt_shard_for_id (l\<lparr>al_allocation_counter := x\<rparr>) = attempt_shard_for_id l"
  "attempt_shard_for_id (l\<lparr>al_duplicate_replays := x\<rparr>) = attempt_shard_for_id l"
  "attempt_shard_for_id (l\<lparr>al_conflicting_duplicates := x\<rparr>) = attempt_shard_for_id l"
  "attempt_shard_for_id (l\<lparr>al_operation_shards := y\<rparr>) = attempt_shard_for_id l"
  "attempt_shard_for_id (l\<lparr>al_shards := z\<rparr>) = attempt_shard_for_id l"
  by (intro ext, simp add: attempt_shard_for_id_def Let_def)+

lemma get_attempt_frame [simp]:
  "get_attempt (l\<lparr>al_total_registered := x\<rparr>) = get_attempt l"
  "get_attempt (l\<lparr>al_allocation_counter := x\<rparr>) = get_attempt l"
  "get_attempt (l\<lparr>al_duplicate_replays := x\<rparr>) = get_attempt l"
  "get_attempt (l\<lparr>al_conflicting_duplicates := x\<rparr>) = get_attempt l"
  "get_attempt (l\<lparr>al_operation_shards := y\<rparr>) = get_attempt l"
  by (intro ext, simp add: get_attempt_def Let_def)+

lemma attempts_inv_frame [simp]:
  "attempts_inv (l\<lparr>al_total_registered := x\<rparr>) = attempts_inv l"
  "attempts_inv (l\<lparr>al_allocation_counter := x\<rparr>) = attempts_inv l"
  "attempts_inv (l\<lparr>al_duplicate_replays := x\<rparr>) = attempts_inv l"
  "attempts_inv (l\<lparr>al_conflicting_duplicates := x\<rparr>) = attempts_inv l"
  by (simp_all add: attempts_inv_def)

lemma attempts_inv_put_highest [simp]: "attempts_inv l \<Longrightarrow> attempts_inv (put_highest l op g)"
  by (simp add: attempts_inv_def put_highest_def Let_def)

lemma get_put_highest [simp]: "get_attempt (put_highest l op g) = get_attempt l"
  by (simp add: put_highest_def Let_def)

lemma put_attempt_shard_simps [simp]:
  "al_shard_count (put_attempt_shard l i sh) = al_shard_count l"
  "al_operation_shards (put_attempt_shard l i sh) = al_operation_shards l"
  "attempt_shard_for_id (put_attempt_shard l i sh) = attempt_shard_for_id l"
  "al_shard_count (put_attempt l j a) = al_shard_count l"
  "al_operation_shards (put_attempt l j a) = al_operation_shards l"
  "attempt_shard_for_id (put_attempt l j a) = attempt_shard_for_id l"
  by (simp_all add: put_attempt_shard_def put_attempt_def Let_def)

lemma attempts_inv_put_shard:
  assumes "attempts_inv l" and "i < al_shard_count l \<Longrightarrow> attempt_shard_inv i sh"
  shows "attempts_inv (put_attempt_shard l i sh)"
proof -
  have "attempt_shard_inv k ((al_shards l)[i := sh] ! k)" if "k < al_shard_count l" for k
    using assms that by (cases "k = i") (simp_all add: attempts_inv_def)
  then show ?thesis using assms(1) by (simp add: attempts_inv_def put_attempt_shard_def)
qed

lemma get_put_attempt_shard:
  assumes "attempts_inv l" and "i < al_shard_count l"
  shows "get_attempt (put_attempt_shard l i sh) j =
           (if attempt_shard_for_id l j = i then map_of (as_attempts sh) j else get_attempt l j)"
  using assms attempts_invD(3) [OF assms(1)]
  by (auto simp: get_attempt_def put_attempt_shard_def Let_def)

lemma get_attempt_counter:
  assumes "attempts_inv l" and "i < al_shard_count l"
  shows "get_attempt (put_attempt_shard l i ((al_shards l ! i)\<lparr>as_counter := c\<rparr>)) = get_attempt l"
  using assms
  by (intro ext) (auto simp: get_put_attempt_shard, auto simp: get_attempt_def Let_def)

lemma attempts_inv_counter:
  assumes "attempts_inv l"
  shows "attempts_inv (put_attempt_shard l i ((al_shards l ! i)\<lparr>as_counter := c\<rparr>))"
  using assms attempts_invD(5) [OF assms, of i]
  by (intro attempts_inv_put_shard) (simp_all add: attempt_shard_inv_def)

lemma attempts_inv_put_attempt:
  assumes "attempts_inv l" and "attempt_shard_for_id l j < al_shard_count l"
    and "att_id a = j" and "attempt_ok a"
  shows "attempts_inv (put_attempt l j a)"
proof -
  let ?i = "attempt_shard_for_id l j"
  have "unat (drop_bit kShardShift j) = Suc ?i"
    using assms(2) by (auto simp: attempt_shard_for_id_def Let_def split: if_splits)
  then show ?thesis
    using attempts_invD(5) [OF assms(1,2)] assms unfolding put_attempt_def Let_def
    by (intro attempts_inv_put_shard) (auto simp: attempt_shard_inv_def set_update_distinct)
qed

lemma get_put_attempt:
  assumes "attempts_inv l" and "attempt_shard_for_id l j < al_shard_count l"
  shows "get_attempt (put_attempt l j a) = (get_attempt l)(j \<mapsto> a)"
  using assms unfolding put_attempt_def Let_def
  by (intro ext) (auto simp: get_put_attempt_shard, auto simp: get_attempt_def Let_def)

section \<open>Operations keep the invariant\<close>

lemma allocate_id_frame:
  assumes "attempts_inv l"
  shows "attempts_inv (snd (allocate_id l))" and "get_attempt (snd (allocate_id l)) = get_attempt l"
proof -
  let ?l = "l\<lparr>al_allocation_counter := al_allocation_counter l + 1\<rparr>"
  have "attempts_inv ?l" using assms by simp
  note attempts_inv_counter [OF this] get_attempt_counter [OF this]
  then show "attempts_inv (snd (allocate_id l))"
    and "get_attempt (snd (allocate_id l)) = get_attempt l"
    using attempts_invD(1) [OF assms] by (simp_all add: allocate_id_def Let_def)
qed

lemma allocate_generation_frame:
  "attempts_inv l \<Longrightarrow> attempts_inv (snd (allocate_generation l op))"
  "get_attempt (snd (allocate_generation l op)) = get_attempt l"
  by (simp_all add: allocate_generation_def Let_def)

lemma new_attempt_ok [simp]: "attempt_ok (new_attempt r)" "att_id (new_attempt r) = reg_id r"
  by (simp_all add: attempt_ok_def new_attempt_def empty_attempt_def)

lemma register_cases:
  obtains
    (refused) c where "register_attempt l r = (failure c [], l)"
  | (registered) "valid (reg_id r)" "valid (reg_operation r)"
      "highest_generation l (reg_operation r) \<le> reg_generation r"
      "attempt_shard_for_id l (reg_id r) < al_shard_count l" "get_attempt l (reg_id r) = None"
      "register_attempt l r =
         (success, (put_attempt l (reg_id r) (new_attempt r))
            \<lparr>al_total_registered := al_total_registered l + 1\<rparr>)"
  by (cases "fst (register_attempt l r) = success")
     (auto simp: register_attempt_def get_attempt_def Let_def not_less not_le split: if_splits)

lemma register_inv:
  assumes "attempts_inv l"
  shows "attempts_inv (snd (register_attempt l r))"
  by (cases rule: register_cases [of l r])
     (use assms in \<open>simp_all add: attempts_inv_put_attempt\<close>)

lemma register_get:
  assumes "attempts_inv l" and "get_attempt l j = Some a"
  shows "get_attempt (snd (register_attempt l r)) j = Some a"
  by (cases rule: register_cases [of l r])
     (use assms in \<open>auto simp: get_put_attempt\<close>)

text \<open>An operation that replaces one filed attempt by an acceptable successor.\<close>

lemma replace_attempt:
  assumes "attempts_inv l" and "get_attempt l j = Some a" and "att_id a' = att_id a" and "attempt_ok a'"
  shows "attempts_inv (put_attempt l j a')"
    and "get_attempt (put_attempt l j a') = (get_attempt l)(j \<mapsto> a')"
  using assms get_attempt_ok [OF assms(1,2)]
  by (auto simp: get_attempt_found intro!: attempts_inv_put_attempt get_put_attempt)

lemma transition_cases:
  obtains
    (refused) c where "transition l i st rs k detail live = (failure c [], l)"
  | (moved) a where "get_attempt l i = Some a" "\<not> att_completion_committed a"
      "live \<longrightarrow> \<not> is_terminal (att_state a)"
      "transition l i st rs k detail live = (success, put_attempt l i (transitioned a st rs k detail))"
proof (cases "get_attempt l i")
  case (Some a)
  show ?thesis
  proof (cases "att_completion_committed a \<or> live \<and> is_terminal (att_state a)")
    case True
    then have "\<exists>c. transition l i st rs k detail live = (failure c [], l)"
      using Some by (auto simp: transition_def)
    then show ?thesis using refused by blast
  next
    case False
    with Some show ?thesis by (intro moved [of a]) (auto simp: transition_def)
  qed
next
  case None
  then show ?thesis by (intro refused [of "''attempt.not_found''"]) (simp add: transition_def)
qed

lemma transitioned_simps [simp]:
  "att_id (transitioned a st rs k detail) = att_id a"
  "att_state (transitioned a st rs k detail) = st"
  "att_completion_committed (transitioned a st rs k detail) = att_completion_committed a"
  by (simp_all add: transitioned_def)

lemma transition_inv:
  assumes "attempts_inv l"
  shows "attempts_inv (snd (transition l i st rs k detail live))"
  by (cases rule: transition_cases [of l i st rs k detail live])
     (use assms in \<open>auto intro!: replace_attempt(1) simp: attempt_ok_def\<close>)

lemmas mark_defs = mark_failed_def mark_ambiguous_def mark_cancelled_def mark_fenced_def
  mark_rejected_stale_def

lemma mark_dispatched_cases:
  obtains
    (refused) c where "mark_dispatched l i d = (failure c [], l)"
  | (moved) a where "get_attempt l i = Some a" "att_state a = AttemptState.kDispatching"
      "mark_dispatched l i d =
         (success, put_attempt l i (a\<lparr>att_dispatch := d, att_state := AttemptState.kDispatched,
                                      att_dispatch_sequence := d\<rparr>))"
proof (cases "get_attempt l i")
  case (Some a)
  then show ?thesis
    using refused moved by (cases "att_state a = AttemptState.kDispatching") (simp_all add: mark_dispatched_def)
qed (use refused in \<open>simp add: mark_dispatched_def\<close>)

lemma dispatching_not_committed:
  assumes "attempt_ok a" and "att_state a = AttemptState.kDispatching"
  shows "\<not> att_completion_committed a"
  using assms by (auto simp: attempt_ok_def split: if_splits)

lemma mark_dispatched_inv:
  assumes "attempts_inv l"
  shows "attempts_inv (snd (mark_dispatched l i d))"
proof (cases rule: mark_dispatched_cases [of l i d])
  case (moved a)
  then have "\<not> att_completion_committed a"
    using dispatching_not_committed get_attempt_ok(2) [OF assms] by blast
  with moved show ?thesis
    using assms by (auto intro!: replace_attempt(1) simp: attempt_ok_def)
qed (use assms in simp)

lemma completed_attempt_ok [simp]:
  "attempt_ok (completed_attempt a r)" "att_id (completed_attempt a r) = att_id a"
  by (simp_all add: attempt_ok_def completed_attempt_def)

lemma completion_cases:
  obtains
    (unchanged) "get_attempt (snd (commit_completion l s p)) = get_attempt l"
      "attempts_inv (snd (commit_completion l s p)) = attempts_inv l"
      "co_rejection (fst (commit_completion l s p)) \<noteq> CompletionRejection.kAccepted"
  | (accepted) a where "get_attempt l (sub_attempt s) = Some a"
      "completion_verdict p s a = CompletionRejection.kAccepted"
      "snd (commit_completion l s p) =
         put_attempt l (sub_attempt s) (completed_attempt a (sub_result s))"
      "fst (commit_completion l s p) =
         \<lparr>co_rejection = CompletionRejection.kAccepted, co_committed = True, co_idempotent = False,
          co_attempt = completed_attempt a (sub_result s)\<rparr>"
proof (cases "get_attempt l (sub_attempt s)")
  case (Some a)
  show ?thesis
  proof (cases "completion_verdict p s a = CompletionRejection.kAccepted")
    case True
    with Some show ?thesis by (intro accepted [of a]) (simp_all add: commit_completion_def Let_def)
  next
    case False
    with Some show ?thesis by (intro unchanged) (simp_all add: commit_completion_def Let_def)
  qed
next
  case None
  then show ?thesis by (intro unchanged) (simp_all add: commit_completion_def)
qed

lemma commit_completion_inv:
  assumes "attempts_inv l"
  shows "attempts_inv (snd (commit_completion l s p))"
  by (cases rule: completion_cases [of l s p])
     (use assms in \<open>simp_all add: replace_attempt\<close>)

lemma raise_counter_frame:
  assumes "attempts_inv l" and "attempt_shard_for_id l i < al_shard_count l"
  shows "attempts_inv (raise_counter l i)" and "get_attempt (raise_counter l i) = get_attempt l"
  using assms by (simp_all add: raise_counter_def Let_def attempts_inv_counter get_attempt_counter)

lemma restore_cases:
  obtains
    (refused) c m where "restore_attempt l a = (failure c m, l)"
  | (restored) g where "is_terminal (att_state a)" "attempt_shard_for_id l (att_id a) < al_shard_count l"
      "get_attempt l (att_id a) = None"
      "restore_attempt l a =
         (success, put_highest (raise_counter (put_attempt l (att_id a) a) (att_id a)) (att_operation a) g)"
  by (cases "fst (restore_attempt l a) = success")
     (auto simp: restore_attempt_def get_attempt_def Let_def not_le split: if_splits)

lemma restore_inv:
  assumes "attempts_inv l" and "attempt_ok a"
  shows "attempts_inv (snd (restore_attempt l a))"
  by (cases rule: restore_cases [of l a])
     (use assms in \<open>simp_all add: attempts_inv_put_attempt raise_counter_frame\<close>)

lemma restore_get:
  assumes "attempts_inv l" and "attempt_ok a" and "get_attempt l j = Some b"
  shows "get_attempt (snd (restore_attempt l a)) j = Some b"
  by (cases rule: restore_cases [of l a])
     (use assms in \<open>auto simp: attempts_inv_put_attempt raise_counter_frame get_put_attempt\<close>)

lemma adopt_attempt_ids_frame:
  "attempts_inv l \<Longrightarrow> attempts_inv (adopt_attempt_ids l ids) \<and>
     get_attempt (adopt_attempt_ids l ids) = get_attempt l"
  unfolding adopt_attempt_ids_def
  by (induction ids arbitrary: l) (simp_all add: adopt_attempt_id_def raise_counter_frame not_le)

lemma new_attempt_ledger_inv: "count < kMaxShards \<Longrightarrow> attempts_inv (new_attempt_ledger count)"
  by (simp add: attempts_inv_def new_attempt_ledger_def Let_def attempt_shard_inv_def kMaxShards_def)

section \<open>Runs of the ledger\<close>

text \<open>
  Retention (\<^const>\<open>prune_history\<close>) forgets terminal attempts on purpose and is not a step of this
  relation; a restored record must agree with its own result, as the codec's records do.
\<close>

inductive attempt_step :: "AttemptLedger \<Rightarrow> AttemptLedger \<Rightarrow> bool" where
  "attempt_step l (snd (allocate_id l))"
| "attempt_step l (snd (allocate_generation l op))"
| "attempt_step l (snd (register_attempt l r))"
| "attempt_step l (snd (mark_dispatched l i d))"
| "attempt_step l (snd (mark_failed l i k detail))"
| "attempt_step l (snd (mark_ambiguous l i detail))"
| "attempt_step l (snd (mark_cancelled l i crossed detail))"
| "attempt_step l (snd (mark_fenced l i effect detail))"
| "attempt_step l (snd (mark_rejected_stale l i detail))"
| "attempt_step l (snd (commit_completion l s p))"
| "attempt_ok a \<Longrightarrow> attempt_step l (snd (restore_attempt l a))"
| "attempt_step l (adopt_attempt_ids l ids)"

inductive_cases attempt_stepE: "attempt_step l l'"

definition reachable_attempts :: "nat \<Rightarrow> AttemptLedger \<Rightarrow> bool" where
  "reachable_attempts count l \<longleftrightarrow> attempt_step\<^sup>*\<^sup>* (new_attempt_ledger count) l"

lemmas attempt_invs = allocate_id_frame(1) allocate_generation_frame(1) register_inv
  mark_dispatched_inv transition_inv commit_completion_inv restore_inv adopt_attempt_ids_frame

lemma attempt_step_inv: "attempts_inv l \<Longrightarrow> attempt_step l l' \<Longrightarrow> attempts_inv l'"
  by (erule attempt_stepE) (simp_all add: attempt_invs mark_defs)

text \<open>
  The life cycle of an attempt: its bindings never change, a committed completion is final, and a
  terminal attempt can only be overwritten by a stale rejection.
\<close>

definition same_bindings :: "ExecutionAttempt \<Rightarrow> ExecutionAttempt \<Rightarrow> bool" where
  "same_bindings a b \<longleftrightarrow>
     att_id b = att_id a \<and> att_generation b = att_generation a
     \<and> att_operation b = att_operation a \<and> att_domain b = att_domain a
     \<and> att_domain_generation b = att_domain_generation a
     \<and> att_capability_generation b = att_capability_generation a
     \<and> att_worker b = att_worker a \<and> att_worker_boot b = att_worker_boot a
     \<and> att_coordinator_epoch b = att_coordinator_epoch a
     \<and> att_reservation b = att_reservation a \<and> att_provenance b = att_provenance a
     \<and> att_side_effect b = att_side_effect a \<and> att_retry_index b = att_retry_index a"

definition attempt_evolves :: "ExecutionAttempt \<Rightarrow> ExecutionAttempt \<Rightarrow> bool" where
  "attempt_evolves a b \<longleftrightarrow>
     same_bindings a b \<and> \<not> att_completion_committed a
     \<and> (is_terminal (att_state a) \<longrightarrow> att_state b = AttemptState.kRejectedStale)
     \<and> (is_terminal (att_state b) \<or> att_state b = AttemptState.kDispatched)"

lemma evolves_transitioned:
  assumes "\<not> att_completion_committed a" and "is_terminal st"
    and "is_terminal (att_state a) \<longrightarrow> st = AttemptState.kRejectedStale"
  shows "attempt_evolves a (transitioned a st rs k detail)"
  using assms by (simp add: attempt_evolves_def same_bindings_def transitioned_def)

lemma verdict_accepted:
  assumes "completion_verdict p s a = CompletionRejection.kAccepted"
  shows "sub_generation s = att_generation a" and "sub_worker_boot s = att_worker_boot a"
    and "sub_coordinator_epoch s = att_coordinator_epoch a"
    and "sub_domain_generation s = att_domain_generation a"
    and "sub_operation s = att_operation a"
    and "valid (att_dispatch a) \<Longrightarrow> sub_dispatch s = att_dispatch a"
    and "\<not> p \<Longrightarrow> sub_provenance s = att_provenance a"
    and "\<not> att_completion_committed a"
    and "att_state a = AttemptState.kDispatched \<or> att_state a = AttemptState.kDispatching"
    and "rp_bytes_processed (sub_result s) \<le> kMaxPayloadBytes"
  using assms by (auto simp: completion_verdict_def not_less split: if_splits)

lemma transition_entry:
  assumes "attempts_inv l" and "get_attempt l j = Some a" and "is_terminal st"
    and "\<not> live \<longrightarrow> st = AttemptState.kRejectedStale"
  shows "\<exists>b. get_attempt (snd (transition l i st rs k detail live)) j = Some b
           \<and> (b = a \<or> attempt_evolves a b)"
proof (cases rule: transition_cases [of l i st rs k detail live])
  case (moved x)
  have "attempt_ok (transitioned x st rs k detail)"
    using moved(2) by (simp add: attempt_ok_def)
  from replace_attempt(2) [OF assms(1) moved(1) _ this] moved assms show ?thesis
    by (cases "i = j") (auto intro: evolves_transitioned)
qed (use assms in simp)

lemma dispatched_entry:
  assumes "attempts_inv l" and "get_attempt l j = Some a"
  shows "\<exists>b. get_attempt (snd (mark_dispatched l i d)) j = Some b \<and> (b = a \<or> attempt_evolves a b)"
proof (cases rule: mark_dispatched_cases [of l i d])
  case (moved x)
  then have c: "\<not> att_completion_committed x"
    using dispatching_not_committed get_attempt_ok(2) [OF assms(1)] by blast
  have "get_attempt (snd (mark_dispatched l i d)) = (get_attempt l)
          (i \<mapsto> x\<lparr>att_dispatch := d, att_state := AttemptState.kDispatched, att_dispatch_sequence := d\<rparr>)"
    using moved c assms(1) by (simp add: replace_attempt attempt_ok_def)
  then show ?thesis
    using moved c assms by (auto simp: attempt_evolves_def same_bindings_def)
qed (use assms in simp)

lemma completion_entry:
  assumes "attempts_inv l" and "get_attempt l j = Some a"
  shows "\<exists>b. get_attempt (snd (commit_completion l s p)) j = Some b \<and> (b = a \<or> attempt_evolves a b)"
proof (cases rule: completion_cases [of l s p])
  case (accepted x)
  have "attempt_evolves x (completed_attempt x (sub_result s))"
    using verdict_accepted(8,9) [OF accepted(2)]
    by (auto simp: attempt_evolves_def same_bindings_def completed_attempt_def)
  then show ?thesis
    using accepted assms by (auto simp: replace_attempt)
qed (use assms in simp)

lemma attempt_step_entry:
  assumes "attempts_inv l" and "attempt_step l l'" and "get_attempt l j = Some a"
  shows "\<exists>b. get_attempt l' j = Some b \<and> (b = a \<or> attempt_evolves a b)"
  using assms(2)
  by (cases rule: attempt_step.cases)
     (use assms in \<open>simp_all add: mark_defs transition_entry dispatched_entry completion_entry
        register_get restore_get allocate_id_frame allocate_generation_frame adopt_attempt_ids_frame\<close>)

interpretation attempts: lifecycle attempts_inv attempt_step get_attempt attempt_evolves
  by unfold_locales (auto intro: attempt_step_inv attempt_step_entry)

lemma reachable_attempts_inv:
  "count < kMaxShards \<Longrightarrow> reachable_attempts count l \<Longrightarrow> attempts_inv l"
  unfolding reachable_attempts_def by (rule attempts.steps_inv) (auto intro: new_attempt_ledger_inv)

section \<open>Audit\<close>

lemma count_state_consistent [simp]: "aa_consistent (count_state audit st) = aa_consistent audit"
  by (cases st) (simp_all add: count_state_def)

lemma audit_attempt_consistent:
  "attempt_ok a \<Longrightarrow> aa_consistent (audit_attempt audit a) = aa_consistent audit"
  by (auto simp: audit_attempt_def Let_def attempt_ok_def)

lemma all_attempts_ok:
  assumes "attempts_inv l" and "a \<in> set (all_attempts l)"
  shows "attempt_ok a"
proof -
  obtain sh where sh: "sh \<in> set (al_shards l)" "a \<in> snd ` set (as_attempts sh)"
    using assms(2) by (auto simp: all_attempts_def)
  then obtain i where "i < al_shard_count l" "sh = al_shards l ! i"
    using attempts_invD(3) [OF assms(1)] by (auto simp: in_set_conv_nth)
  with sh show ?thesis
    using attempts_invD(5) [OF assms(1), of i] by (auto simp: attempt_shard_inv_def)
qed

lemma foldl_audit_consistent:
  "\<forall>a \<in> set as. attempt_ok a \<Longrightarrow> aa_consistent (foldl audit_attempt audit as) = aa_consistent audit"
  by (induction "as" arbitrary: audit) (simp_all add: audit_attempt_consistent)

lemma attempts_inv_audit: "attempts_inv l \<Longrightarrow> aa_consistent (audit_attempts l)"
  using foldl_audit_consistent [of "all_attempts l" empty_attempt_audit] all_attempts_ok
  by (auto simp: audit_attempts_def Let_def empty_attempt_audit_def)

section \<open>Generations and identities\<close>

lemma highest_frame [simp]:
  "highest_generation (put_attempt_shard l i sh) = highest_generation l"
  "highest_generation (put_attempt l j a) = highest_generation l"
  "highest_generation (l\<lparr>al_total_registered := x\<rparr>) = highest_generation l"
  "highest_generation (l\<lparr>al_allocation_counter := x\<rparr>) = highest_generation l"
  "highest_generation (l\<lparr>al_duplicate_replays := x\<rparr>) = highest_generation l"
  "highest_generation (l\<lparr>al_conflicting_duplicates := x\<rparr>) = highest_generation l"
  by (intro ext, simp add: highest_generation_def operation_shard_def put_attempt_shard_def
      put_attempt_def Let_def)+

lemma highest_put:
  assumes "attempts_inv l"
  shows "highest_generation (put_highest l op g) = (highest_generation l)(op := g)"
proof
  fix x
  have "operation_shard l op < length (al_operation_shards l)"
    using attempts_invD(1,4) [OF assms] by (simp add: operation_shard_def)
  moreover have "operation_shard (put_highest l op g) = operation_shard l"
    by (intro ext) (simp add: operation_shard_def put_highest_def Let_def)
  ultimately show "highest_generation (put_highest l op g) x = ((highest_generation l)(op := g)) x"
    by (cases "operation_shard l x = operation_shard l op")
       (auto simp: highest_generation_def put_highest_def Let_def get_or_def)
qed

lemma highest_raise [simp]: "highest_generation (raise_counter l i) = highest_generation l"
  by (simp add: raise_counter_def Let_def)

lemma highest_register: "highest_generation (snd (register_attempt l r)) = highest_generation l"
  by (cases rule: register_cases [of l r]) simp_all

lemma highest_transition:
  "highest_generation (snd (transition l i st rs k detail live)) = highest_generation l"
  by (cases rule: transition_cases [of l i st rs k detail live]) simp_all

lemma highest_dispatched: "highest_generation (snd (mark_dispatched l i d)) = highest_generation l"
  by (cases rule: mark_dispatched_cases [of l i d]) simp_all

lemma highest_completion:
  "highest_generation (snd (commit_completion l s p)) = highest_generation l"
  by (auto simp: commit_completion_def Let_def split: option.split)

lemma highest_allocate_id: "highest_generation (snd (allocate_id l)) = highest_generation l"
  by (simp add: allocate_id_def Let_def)

lemma highest_adopt: "highest_generation (adopt_attempt_ids l ids) = highest_generation l"
  unfolding adopt_attempt_ids_def
  by (induction ids arbitrary: l) (simp_all add: adopt_attempt_id_def)

lemma highest_allocate:
  assumes "attempts_inv l"
  shows "highest_generation (snd (allocate_generation l op)) =
           (highest_generation l)(op := highest_generation l op + 1)"
  using assms by (simp add: allocate_generation_def Let_def highest_put)

lemma highest_restore:
  assumes "attempts_inv l" and "attempt_ok a"
  shows "highest_generation l op \<le> highest_generation (snd (restore_attempt l a)) op"
proof (cases "st_ok (fst (restore_attempt l a))")
  case True
  then have i: "attempt_shard_for_id l (att_id a) < al_shard_count l"
    by (auto simp: restore_attempt_def Let_def not_le split: if_splits)
  have inv: "attempts_inv (raise_counter (put_attempt l (att_id a) a) (att_id a))"
    using i assms by (simp add: raise_counter_frame attempts_inv_put_attempt)
  from True show ?thesis
    by (auto simp: restore_attempt_def Let_def highest_put [OF inv] split: if_splits)
qed (auto simp: restore_attempt_def Let_def split: if_splits)

lemma attempt_step_highest:
  assumes "attempts_inv l" and "attempt_step l l'" and "highest_generation l op \<noteq> kSaturated"
  shows "highest_generation l op \<le> highest_generation l' op"
  using assms(2)
proof (cases rule: attempt_step.cases)
  case (2 op')
  then show ?thesis
    using gen_next_ge [of "highest_generation l op"] assms
    by (auto simp: highest_allocate gen_next_def)
next
  case (11 a)
  then show ?thesis using assms by (simp add: highest_restore)
qed (simp_all add: highest_register highest_transition highest_dispatched highest_completion
      highest_allocate_id highest_adopt mark_defs)

subsection \<open>Allocated identities\<close>

lemma mask56: "(i :: u64) AND (2 ^ kShardShift - 1) = take_bit kShardShift i"
  by (simp add: take_bit_eq_mask mask_eq_exp_minus_1)

lemma take56: "(c :: u64) < push_bit kShardShift 1 \<Longrightarrow> take_bit kShardShift c = c"
  by (simp only: bound56 word_unat_eq_iff unat_take56 mod_less)

text \<open>The counter of the shard an identity belongs to.\<close>

definition shard_counter :: "AttemptLedger \<Rightarrow> u64 \<Rightarrow> u64" where
  "shard_counter l i = as_counter (al_shards l ! attempt_shard_for_id l i)"

lemma raise_counter_mono:
  assumes "attempts_inv l" and "attempt_shard_for_id l i < al_shard_count l"
  shows "take_bit kShardShift i \<le> shard_counter (raise_counter l i) i"
    and "shard_counter l j \<le> shard_counter (raise_counter l i) j"
  using assms attempts_invD(3) [OF assms(1)]
  by (auto simp: raise_counter_def Let_def mask56 shard_counter_def put_attempt_shard_def
      nth_list_update not_less)

lemma adopt_counter_mono:
  "attempts_inv l \<Longrightarrow> shard_counter l j \<le> shard_counter (adopt_attempt_ids l ids) j"
  unfolding adopt_attempt_ids_def
proof (induction ids arbitrary: l)
  case (Cons i ids)
  have inv: "attempts_inv (adopt_attempt_id l i)"
    using Cons.prems by (simp add: adopt_attempt_id_def raise_counter_frame not_le)
  have "shard_counter l j \<le> shard_counter (adopt_attempt_id l i) j"
    using Cons.prems by (auto simp: adopt_attempt_id_def raise_counter_mono not_le)
  with Cons.IH [OF inv] show ?case by (simp add: order_trans)
qed simp

lemma adopt_shards [simp]:
  "attempt_shard_for_id (adopt_attempt_ids l ids) = attempt_shard_for_id l"
  "al_shard_count (adopt_attempt_ids l ids) = al_shard_count l"
proof -
  have "attempt_shard_for_id (adopt_attempt_id l i) = attempt_shard_for_id l
        \<and> al_shard_count (adopt_attempt_id l i) = al_shard_count l" for l i
    by (simp add: adopt_attempt_id_def raise_counter_def Let_def)
  then have "attempt_shard_for_id (adopt_attempt_ids l ids) = attempt_shard_for_id l
        \<and> al_shard_count (adopt_attempt_ids l ids) = al_shard_count l"
    unfolding adopt_attempt_ids_def by (induction ids arbitrary: l) auto
  then show "attempt_shard_for_id (adopt_attempt_ids l ids) = attempt_shard_for_id l"
    "al_shard_count (adopt_attempt_ids l ids) = al_shard_count l" by blast+
qed

lemma adopted_counter:
  assumes "attempts_inv l" and "i \<in> set ids" and "attempt_shard_for_id l i < al_shard_count l"
  shows "take_bit kShardShift i \<le> shard_counter (adopt_attempt_ids l ids) i"
proof -
  obtain as bs where ids: "ids = as @ i # bs" using assms(2) by (metis split_list)
  let ?l = "adopt_attempt_ids l as"
  have inv: "attempts_inv ?l" using assms(1) by (simp add: adopt_attempt_ids_frame)
  have i: "attempt_shard_for_id ?l i < al_shard_count ?l" using assms(3) by simp
  have "adopt_attempt_ids l ids = adopt_attempt_ids (raise_counter ?l i) bs"
    using i by (simp add: ids adopt_attempt_ids_def adopt_attempt_id_def not_le)
  then show ?thesis
    using raise_counter_mono(1) [OF inv i] adopt_counter_mono [OF raise_counter_frame(1) [OF inv i]]
    by (metis order_trans)
qed

text \<open>The shard and the counter of an allocated identity.\<close>

lemma allocated_parts:
  fixes l
  defines "k \<equiv> unat (al_allocation_counter l) mod al_shard_count l"
  assumes inv: "attempts_inv l" and c: "as_counter (al_shards l ! k) + 1 < push_bit kShardShift 1"
  shows "attempt_shard_for_id l (fst (allocate_id l)) = k"
    and "take_bit kShardShift (fst (allocate_id l)) = as_counter (al_shards l ! k) + 1"
proof -
  let ?c = "as_counter (al_shards l ! k) + 1"
  have k: "k < al_shard_count l" using attempts_invD(1) [OF inv] by (simp add: k_def)
  then have k255: "k < 255" using attempts_invD(2) [OF inv] by (simp add: kMaxShards_def)
  have "take_bit kShardShift ?c = ?c" by (rule take56 [OF c])
  then have id: "fst (allocate_id l) = shard_id k ?c"
    by (simp add: allocate_id_def Let_def mask56 shard_id_def shard_prefix_def k_def add.commute)
  show "attempt_shard_for_id l (fst (allocate_id l)) = k"
    using shard_id_parts(1) [OF k255 c] k by (simp add: id attempt_shard_for_id_def Let_def)
  show "take_bit kShardShift (fst (allocate_id l)) = ?c"
    using shard_id_parts(2) [OF k255 c] by (simp add: id)
qed

lemma verdict_acceptedI:
  assumes "sub_generation s = att_generation a"
    and "valid (att_dispatch a) \<longrightarrow> sub_dispatch s = att_dispatch a"
    and "valid (sub_worker s) \<and> valid (att_worker a) \<longrightarrow> sub_worker s = att_worker a"
    and "sub_worker_boot s = att_worker_boot a"
    and "sub_coordinator_epoch s = att_coordinator_epoch a"
    and "sub_domain_generation s = att_domain_generation a"
    and "published (sub_capability_generation s) \<and> published (att_capability_generation a) \<longrightarrow>
           sub_capability_generation s = att_capability_generation a"
    and "sub_operation s = att_operation a"
    and "p \<or> sub_provenance s = att_provenance a"
    and "\<not> att_completion_committed a"
    and "att_state a = AttemptState.kDispatched \<or> att_state a = AttemptState.kDispatching"
    and "rp_bytes_processed (sub_result s) \<le> kMaxPayloadBytes"
  shows "completion_verdict p s a = CompletionRejection.kAccepted"
proof -
  have "\<not> (valid (att_dispatch a) \<and> sub_dispatch s \<noteq> att_dispatch a)"
    "\<not> (valid (sub_worker s) \<and> valid (att_worker a) \<and> sub_worker s \<noteq> att_worker a)"
    "\<not> (published (sub_capability_generation s) \<and> published (att_capability_generation a)
        \<and> sub_capability_generation s \<noteq> att_capability_generation a)"
    "\<not> (\<not> p \<and> sub_provenance s \<noteq> att_provenance a)"
    using assms by blast+
  then show ?thesis
    unfolding completion_verdict_def using assms(1,4,5,6,8,10,11,12)
    by (elim disjE) (simp_all only: if_False if_True simp_thms AttemptState.distinct not_less [symmetric])
qed

section \<open>Properties\<close>

text \<open>The ledger of the witnesses: one shard, one attempt registered and dispatched.\<close>

definition sample_registration :: AttemptRegistration where
  "sample_registration =
     \<lparr>reg_id = 0x0100000000000001, reg_generation = 1, reg_operation = 5, reg_operation_class = 2,
      reg_side_effect = SideEffectClass.kPure, reg_domain = 7,
      reg_domain_type = ExecutionDomainType.kCpu, reg_domain_generation = 3,
      reg_capability_generation = 2, reg_worker = 11, reg_worker_boot = 9,
      reg_coordinator_epoch = 1, reg_reservation = 4, reg_dispatch = 0,
      reg_provenance = Provenance.kReal, reg_fallback = False, reg_fallback_from = 0,
      reg_retry_index = 0\<rparr>"

definition sample_payload :: ExecutionResultPayload where
  "sample_payload =
     \<lparr>rp_success = True, rp_result_digest = 77, rp_bytes_processed = 64, rp_duration_ns = 5,
      rp_failure = FailureKind.kNone, rp_backend_detail = []\<rparr>"

definition sample_submission :: CompletionSubmission where
  "sample_submission =
     \<lparr>sub_attempt = 0x0100000000000001, sub_generation = 1, sub_dispatch = 21, sub_completion = 1,
      sub_worker = 11, sub_worker_boot = 9, sub_coordinator_epoch = 1, sub_domain_generation = 3,
      sub_capability_generation = 2, sub_operation = 5, sub_provenance = Provenance.kReal,
      sub_result = sample_payload\<rparr>"

definition attempts_0 :: AttemptLedger where "attempts_0 = new_attempt_ledger 1"
definition attempts_1 :: AttemptLedger where
  "attempts_1 = snd (register_attempt attempts_0 sample_registration)"
definition attempts_2 :: AttemptLedger where
  "attempts_2 = snd (mark_dispatched attempts_1 0x0100000000000001 21)"
definition attempts_3 :: AttemptLedger where
  "attempts_3 = snd (commit_completion attempts_2 sample_submission False)"

lemma attempts_reachable:
  "reachable_attempts 1 attempts_0" "reachable_attempts 1 attempts_1"
  "reachable_attempts 1 attempts_2" "reachable_attempts 1 attempts_3"
proof -
  show 0: "reachable_attempts 1 attempts_0" by (simp add: reachable_attempts_def attempts_0_def)
  show 1: "reachable_attempts 1 attempts_1"
    using 0 attempt_step.intros(3) unfolding reachable_attempts_def attempts_1_def
    by (rule rtranclp.rtrancl_into_rtrancl)
  show 2: "reachable_attempts 1 attempts_2"
    using 1 attempt_step.intros(4) unfolding reachable_attempts_def attempts_2_def
    by (rule rtranclp.rtrancl_into_rtrancl)
  show "reachable_attempts 1 attempts_3"
    using 2 attempt_step.intros(10) unfolding reachable_attempts_def attempts_3_def
    by (rule rtranclp.rtrancl_into_rtrancl)
qed

lemmas sample_attempts_inv = reachable_attempts_inv [OF sample_shards]

lemma attempts_0_eq:
  "al_shard_count attempts_0 = 1" "al_shards attempts_0 = [\<lparr>as_attempts = [], as_counter = 0\<rparr>]"
  "al_operation_shards attempts_0 = [[]]" "al_max_attempts attempts_0 = 400000"
  "attempt_shard_for_id attempts_0 0x0100000000000001 = 0"
  "get_attempt attempts_0 = Map.empty"
  by (auto simp: attempts_0_def new_attempt_ledger_def kMaxShards_def kMaxLiveAttempts_def
      kMaxHistoricalAttempts_def attempt_shard_for_id_def kShardShift_def get_attempt_def Let_def
      nth_Cons')

lemma sample_register: "register_attempt attempts_0 sample_registration =
    (success, (put_attempt attempts_0 0x0100000000000001 (new_attempt sample_registration))
       \<lparr>al_total_registered := al_total_registered attempts_0 + 1\<rparr>)"
  by (simp add: register_attempt_def sample_registration_def valid_def highest_generation_def
      operation_shard_def get_or_def attempts_0_eq Let_def)

lemma attempts_1_get:
  "get_attempt attempts_1 = [0x0100000000000001 \<mapsto> new_attempt sample_registration]"
  using get_put_attempt [OF sample_attempts_inv [OF attempts_reachable(1)], of "0x0100000000000001"]
  by (simp add: attempts_1_def sample_register attempts_0_eq)

definition sample_dispatched :: ExecutionAttempt where
  "sample_dispatched = (new_attempt sample_registration)
     \<lparr>att_dispatch := 21, att_state := AttemptState.kDispatched, att_dispatch_sequence := 21\<rparr>"

lemma sample_bindings:
  "att_id sample_dispatched = 0x0100000000000001" "att_generation sample_dispatched = 1"
  "att_dispatch sample_dispatched = 21" "att_worker sample_dispatched = 11"
  "att_worker_boot sample_dispatched = 9" "att_coordinator_epoch sample_dispatched = 1"
  "att_domain_generation sample_dispatched = 3" "att_capability_generation sample_dispatched = 2"
  "att_operation sample_dispatched = 5" "att_provenance sample_dispatched = Provenance.kReal"
  "\<not> att_completion_committed sample_dispatched"
  "att_state sample_dispatched = AttemptState.kDispatched"
  by (simp_all add: sample_dispatched_def new_attempt_def sample_registration_def empty_attempt_def)

lemma attempts_2_get: "get_attempt attempts_2 = [0x0100000000000001 \<mapsto> sample_dispatched]"
proof -
  have "att_state (new_attempt sample_registration) = AttemptState.kDispatching"
    by (simp add: new_attempt_def)
  then have "attempts_2 = put_attempt attempts_1 0x0100000000000001 sample_dispatched"
    by (simp add: attempts_2_def mark_dispatched_def attempts_1_get sample_dispatched_def)
  moreover have "att_id sample_dispatched = att_id (new_attempt sample_registration)"
    "attempt_ok sample_dispatched"
    by (simp_all add: sample_dispatched_def attempt_ok_def new_attempt_def empty_attempt_def)
  ultimately show ?thesis
    using replace_attempt(2) [OF sample_attempts_inv [OF attempts_reachable(2)],
        of "0x0100000000000001" _ sample_dispatched]
    by (simp add: attempts_1_get)
qed

lemma sample_verdict:
  "completion_verdict False sample_submission sample_dispatched = CompletionRejection.kAccepted"
  by (simp add: completion_verdict_def sample_bindings sample_submission_def sample_payload_def
      kMaxPayloadBytes_def word_less_nat_alt)

lemma attempts_3_get:
  "get_attempt attempts_3 = [0x0100000000000001 \<mapsto> completed_attempt sample_dispatched sample_payload]"
  using replace_attempt(2) [OF sample_attempts_inv [OF attempts_reachable(3)],
      of "0x0100000000000001" sample_dispatched "completed_attempt sample_dispatched sample_payload"]
    sample_verdict
  by (simp add: attempts_3_def commit_completion_def attempts_2_get Let_def sample_submission_def)



text \<open>
  C30. A completion is accepted exactly when it names a filed attempt and matches every binding of
  it: generation, dispatch identity (once one is bound), worker and worker boot, coordinator epoch,
  domain generation, capability generation (where both are published), operation and provenance
  (unless the caller waives it); the attempt is in flight without a committed result and the
  reported size is within bounds. Acceptance files exactly the completed attempt.
\<close>

theorem completion_accepted_iff_bound:
  assumes "count < kMaxShards" and "reachable_attempts count l"
  shows "(co_rejection (fst (commit_completion l s p)) = CompletionRejection.kAccepted \<longleftrightarrow>
      (\<exists>a. get_attempt l (sub_attempt s) = Some a
         \<and> sub_generation s = att_generation a
         \<and> (valid (att_dispatch a) \<longrightarrow> sub_dispatch s = att_dispatch a)
         \<and> (valid (sub_worker s) \<and> valid (att_worker a) \<longrightarrow> sub_worker s = att_worker a)
         \<and> sub_worker_boot s = att_worker_boot a
         \<and> sub_coordinator_epoch s = att_coordinator_epoch a
         \<and> sub_domain_generation s = att_domain_generation a
         \<and> (published (sub_capability_generation s) \<and> published (att_capability_generation a) \<longrightarrow>
              sub_capability_generation s = att_capability_generation a)
         \<and> sub_operation s = att_operation a
         \<and> (p \<or> sub_provenance s = att_provenance a)
         \<and> \<not> att_completion_committed a
         \<and> (att_state a = AttemptState.kDispatched \<or> att_state a = AttemptState.kDispatching)
         \<and> rp_bytes_processed (sub_result s) \<le> kMaxPayloadBytes
         \<and> get_attempt (snd (commit_completion l s p)) =
             (get_attempt l)(sub_attempt s \<mapsto> completed_attempt a (sub_result s))))"
    (is "?acc \<longleftrightarrow> ?bound")
proof
  assume acc: ?acc
  show ?bound
  proof (cases rule: completion_cases [of l s p])
    case (accepted a)
    have "get_attempt (snd (commit_completion l s p)) =
        (get_attempt l)(sub_attempt s \<mapsto> completed_attempt a (sub_result s))"
      using accepted replace_attempt(2) [OF reachable_attempts_inv [OF assms] accepted(1)] by simp
    moreover have "valid (sub_worker s) \<and> valid (att_worker a) \<longrightarrow> sub_worker s = att_worker a"
      "published (sub_capability_generation s) \<and> published (att_capability_generation a) \<longrightarrow>
         sub_capability_generation s = att_capability_generation a"
      using accepted(2) by (auto simp: completion_verdict_def split: if_splits)
    ultimately show ?thesis
      using accepted(1) verdict_accepted [OF accepted(2)] by blast
  qed (use acc in simp)
next
  assume ?bound
  then obtain a where a: "get_attempt l (sub_attempt s) = Some a"
    and verdict: "completion_verdict p s a = CompletionRejection.kAccepted"
    by (elim exE conjE) (rule that, assumption, rule verdict_acceptedI, assumption+)
  then show ?acc by (simp add: commit_completion_def Let_def)
qed

theorem completion_accepted_iff_bound_witness:
  "co_rejection (fst (commit_completion attempts_2 sample_submission False)) = CompletionRejection.kAccepted
   \<and> co_rejection (fst (commit_completion attempts_2 (sample_submission\<lparr>sub_worker_boot := 10\<rparr>) False))
       \<noteq> CompletionRejection.kAccepted"
proof -
  note iff = completion_accepted_iff_bound [OF sample_shards attempts_reachable(3)]
  have "co_rejection (fst (commit_completion attempts_2 sample_submission False)) = CompletionRejection.kAccepted"
    using sample_verdict by (simp add: commit_completion_def attempts_2_get sample_submission_def Let_def)
  moreover have "co_rejection (fst (commit_completion attempts_2 (sample_submission\<lparr>sub_worker_boot := 10\<rparr>) False))
       \<noteq> CompletionRejection.kAccepted"
    by (subst iff) (simp add: attempts_2_get sample_submission_def sample_bindings)
  ultimately show ?thesis ..
qed

text \<open>
  Registration is a round trip and never overwrites: it succeeds only for an unused identity
  and a generation that is not below the highest one handed out, the new record is the dispatching
  attempt of the registration, and every other attempt reads as before; a refusal changes nothing.
\<close>

theorem register_round_trip:
  assumes "count < kMaxShards" and "reachable_attempts count l"
  shows "case register_attempt l r of (status, l') \<Rightarrow>
           if st_ok status
           then get_attempt l (reg_id r) = None
                \<and> highest_generation l (reg_operation r) \<le> reg_generation r
                \<and> get_attempt l' = (get_attempt l)(reg_id r \<mapsto> new_attempt r)
           else l' = l"
  by (cases rule: register_cases [of l r])
     (use reachable_attempts_inv [OF assms] in \<open>simp_all add: get_put_attempt\<close>)

theorem register_round_trip_witness:
  "get_attempt attempts_1 0x0100000000000001 = Some (new_attempt sample_registration)"
proof -
  have "reg_id sample_registration = 0x0100000000000001" by (simp add: sample_registration_def)
  with register_round_trip [OF sample_shards attempts_reachable(1), of sample_registration]
  show ?thesis by (simp add: attempts_1_def sample_register)
qed

lemma evolves_terminal:
  assumes "attempt_evolves\<^sup>*\<^sup>* a b" and "is_terminal (att_state a)"
  shows "b = a \<or> att_state b = AttemptState.kRejectedStale \<and> same_bindings a b"
  using assms
proof (induction rule: rtranclp_induct)
  case (step y z)
  then have "is_terminal (att_state y)" "same_bindings a y" by (auto simp: same_bindings_def)
  with step.hyps(2) show ?case by (auto simp: attempt_evolves_def same_bindings_def)
qed simp

text \<open>
  A terminal attempt never returns to flight: through any later run its record keeps its
  bindings and is either unchanged or has been overwritten by a stale rejection, the one marking
  operation that does not require a live attempt.
\<close>

theorem terminal_attempt_stays_terminal:
  assumes "count < kMaxShards" and "reachable_attempts count l" and "attempt_step\<^sup>*\<^sup>* l l'"
    and "get_attempt l j = Some a" and "is_terminal (att_state a)"
  shows "\<exists>b. get_attempt l' j = Some b \<and> is_terminal (att_state b)
           \<and> (b = a \<or> att_state b = AttemptState.kRejectedStale \<and> same_bindings a b
                        \<and> \<not> att_completion_committed a)"
proof -
  note inv = reachable_attempts_inv [OF assms(1,2)]
  obtain b where b: "get_attempt l' j = Some b" "attempt_evolves\<^sup>*\<^sup>* a b"
    using attempts.steps_entry [OF assms(3) inv assms(4)] by blast
  have "att_completion_committed a \<Longrightarrow> b = a"
    using b(2) by (metis attempt_evolves_def converse_rtranclpE)
  with b evolves_terminal [OF b(2) assms(5)] assms(5) show ?thesis by auto
qed

theorem terminal_attempt_stays_terminal_witness:
  "\<exists>b. get_attempt attempts_3 0x0100000000000001 = Some b \<and> is_terminal (att_state b)"
  using terminal_attempt_stays_terminal [OF sample_shards attempts_reachable(4) rtranclp.rtrancl_refl,
      of "0x0100000000000001" "completed_attempt sample_dispatched sample_payload"]
  by (auto simp: attempts_3_get completed_attempt_def)

text \<open>
  Attempt generations of an operation never regress: an allocation hands out a generation
  above every earlier one (until the counter saturates) and no step of the ledger lowers the
  highest generation of any operation.
\<close>

theorem attempt_generations_never_regress:
  assumes "count < kMaxShards" and "reachable_attempts count l"
    and "highest_generation l op \<noteq> kSaturated"
  shows "highest_generation l op < fst (allocate_generation l op)
         \<and> highest_generation (snd (allocate_generation l op)) op = fst (allocate_generation l op)
         \<and> (\<forall>l'. attempt_step l l' \<longrightarrow> highest_generation l op \<le> highest_generation l' op)"
proof -
  note inv = reachable_attempts_inv [OF assms(1,2)]
  have "fst (allocate_generation l op) = gen_next (highest_generation l op)"
    using assms(3) by (simp add: allocate_generation_def Let_def gen_next_def)
  then show ?thesis
    using gen_next_gt [OF assms(3)] assms(3) attempt_step_highest [OF inv _ assms(3)]
    by (auto simp: highest_allocate [OF inv] gen_next_def)
qed

theorem attempt_generations_never_regress_witness:
  "highest_generation attempts_0 5 < fst (allocate_generation attempts_0 5)"
proof -
  have "highest_generation attempts_0 5 \<noteq> kSaturated"
    by (simp add: highest_generation_def operation_shard_def attempts_0_eq get_or_def kSaturated_def)
  with attempt_generations_never_regress [OF sample_shards attempts_reachable(1)]
  show ?thesis by blast
qed

text \<open>
  Recovered identities are never handed out again: after \<^verbatim>\<open>adopt_ids\<close> the next allocated
  attempt identity differs from every adopted one (while the shard has identities left).
\<close>

theorem adopted_ids_not_reallocated:
  fixes l ids
  defines "l' \<equiv> adopt_attempt_ids l ids"
  assumes "count < kMaxShards" and "reachable_attempts count l"
    and "as_counter (al_shards l' ! (unat (al_allocation_counter l') mod al_shard_count l'))
           < push_bit kShardShift 1 - 1"
  shows "fst (allocate_id l') \<notin> set ids"
proof
  assume i: "fst (allocate_id l') \<in> set ids"
  note inv = reachable_attempts_inv [OF assms(2,3)]
  have inv': "attempts_inv l'" using inv by (simp add: l'_def adopt_attempt_ids_frame)
  let ?k = "unat (al_allocation_counter l') mod al_shard_count l'"
  have c: "unat (as_counter (al_shards l' ! ?k)) < 2 ^ 56 - 1"
    using assms(4) by (simp add: kShardShift_def word_less_nat_alt)
  then have "as_counter (al_shards l' ! ?k) + 1 < push_bit kShardShift 1"
    by (simp only: bound56 unat_Suc_u64) simp
  note parts = allocated_parts [OF inv' this]
  have "?k < al_shard_count l'" using attempts_invD(1) [OF inv'] by simp
  then have "attempt_shard_for_id l (fst (allocate_id l')) < al_shard_count l"
    using parts(1) by (simp add: l'_def)
  from adopted_counter [OF inv i this]
  have "as_counter (al_shards l' ! ?k) + 1 \<le> as_counter (al_shards l' ! ?k)"
    using parts by (simp add: shard_counter_def l'_def)
  moreover have "as_counter (al_shards l' ! ?k) \<noteq> kSaturated"
    using c by (auto simp: kSaturated_def)
  ultimately show False using gen_next_gt [of "as_counter (al_shards l' ! ?k)"]
    by (simp add: gen_next_def split: if_splits)
qed

theorem adopted_ids_not_reallocated_witness:
  "fst (allocate_id (adopt_attempt_ids attempts_0 [0x0100000000000001]))
     \<notin> set [0x0100000000000001]"
  by (rule adopted_ids_not_reallocated [OF sample_shards attempts_reachable(1)])
     (simp add: adopt_attempt_ids_def adopt_attempt_id_def raise_counter_def attempts_0_eq
       put_attempt_shard_def kShardShift_def word_less_nat_alt Let_def)

text \<open>
  On every reachable attempt ledger the audit is consistent: no committed completion contradicts
  the terminal state of its attempt or lacks a resolution.
\<close>

theorem attempt_audit_consistent:
  assumes "count < kMaxShards" and "reachable_attempts count l"
  shows "aa_consistent (audit_attempts l)"
  by (rule attempts_inv_audit [OF reachable_attempts_inv [OF assms]])

theorem attempt_audit_consistent_witness: "aa_consistent (audit_attempts attempts_3)"
  by (rule attempt_audit_consistent [OF sample_shards attempts_reachable(4)])

end
