(* ===== verification/Tos_Plan.thy ===== *)
theory Tos_Plan
  imports Tos_Eligibility Tos_Registry Tos_Attempt
begin

text \<open>
  Planning (\<^verbatim>\<open>src/include/tos/core/dispatch.hpp\<close>, \<^verbatim>\<open>src/include/tos/core/scheduler.hpp\<close>,
  \<^verbatim>\<open>src/src/core/scheduler.cpp\<close>): the state of the scheduler, the plans of record, and
  \<^verbatim>\<open>plan_internal\<close>, which evaluates every registered domain, ranks the eligible ones and binds the
  winner's authority into a plan. The interleaving hooks of the tests are not part of the state.
\<close>

section \<open>Data\<close>

definition kMaxDispatchPayloadBytes :: nat where "kMaxDispatchPayloadBytes = 512 * 1024"
definition kMaxOutstandingReservations :: nat where "kMaxOutstandingReservations = 200000"

record SchedulerLimits =
  li_max_domains :: nat
  li_max_operation_classes :: nat
  li_max_pending_plans :: nat
  li_max_outstanding_reservations :: nat
  li_max_live_attempts :: nat
  li_max_historical_attempts :: nat
  li_max_reported_candidates :: nat
  li_max_snapshot_history :: nat
  li_worker_threads :: nat
  li_max_payload_dispatch_bytes :: nat
  li_max_frame_bytes :: nat
  li_max_fallback_depth :: u32
  li_max_retry_attempts :: u32
  li_max_fenced_boots :: nat

definition default_limits :: SchedulerLimits where
  "default_limits =
     \<lparr>li_max_domains = kMaxExecutionDomains, li_max_operation_classes = kMaxOperationClasses,
      li_max_pending_plans = 65536, li_max_outstanding_reservations = kMaxOutstandingReservations,
      li_max_live_attempts = kMaxLiveAttempts, li_max_historical_attempts = kMaxHistoricalAttempts,
      li_max_reported_candidates = kMaxReportedCandidates, li_max_snapshot_history = 16,
      li_worker_threads = 4, li_max_payload_dispatch_bytes = kMaxDispatchPayloadBytes,
      li_max_frame_bytes = 1024 * 1024, li_max_fallback_depth = kMaxFallbackDepth,
      li_max_retry_attempts = kMaxRetryAttempts, li_max_fenced_boots = 4096\<rparr>"

record SchedulerOptions =
  so_policy :: SchedulerPolicy
  so_limits :: SchedulerLimits
  so_initial_epoch :: u64
  so_host_node :: string
  so_state_path :: string
  so_persist_on_mutation :: bool
  so_enable_persistence :: bool
  so_recover_on_start :: bool
  so_local_provenance :: Provenance

record ExecutionPlan =
  pl_operation :: u64
  pl_operation_class :: u64
  pl_operation_class_name :: string
  pl_domain :: u64
  pl_domain_type :: ExecutionDomainType
  pl_provenance :: Provenance
  pl_side_effect :: SideEffectClass
  pl_binding :: AuthorityBinding
  pl_reserved_amounts :: ResourceAmounts
  pl_reservation :: u64
  pl_attempt :: u64
  pl_attempt_generation :: u64
  pl_dispatch :: u64
  pl_fallback :: bool
  pl_fallback_depth :: u32
  pl_fallback_from :: u64
  pl_retry_index :: u32
  pl_state :: PlanState
  pl_plan_sequence :: u64
  pl_request :: OperationRequest
  pl_payload :: "u8 list"
  pl_explanation :: DecisionExplanation

definition empty_plan :: ExecutionPlan where
  "empty_plan =
     \<lparr>pl_operation = 0, pl_operation_class = 0, pl_operation_class_name = [], pl_domain = 0,
      pl_domain_type = ExecutionDomainType.kCpu, pl_provenance = Provenance.kUnsupported,
      pl_side_effect = SideEffectClass.kUnknown, pl_binding = empty_binding,
      pl_reserved_amounts = no_amounts, pl_reservation = 0, pl_attempt = 0,
      pl_attempt_generation = 0, pl_dispatch = 0, pl_fallback = False, pl_fallback_depth = 0,
      pl_fallback_from = 0, pl_retry_index = 0, pl_state = PlanState.kCreated,
      pl_plan_sequence = 0, pl_request = default_request, pl_payload = [],
      pl_explanation = empty_explanation\<rparr>"

record PlanResult =
  pr_planned :: bool
  pr_status :: Status
  pr_plan :: ExecutionPlan
  pr_explanation :: DecisionExplanation

record ReconciliationItem =
  ri_kind :: DiscrepancyKind
  ri_domain :: u64
  ri_domain_name :: string
  ri_expected_generation :: u64
  ri_observed_generation :: u64
  ri_expected_boot :: u64
  ri_observed_boot :: u64
  ri_attempt :: u64
  ri_detail :: string

record ReconciliationReport =
  rr_coordinator_epoch :: u64
  rr_snapshot :: u64
  rr_domains_compared :: u64
  rr_domains_matched :: u64
  rr_discrepancies :: u64
  rr_attempts_classified :: u64
  rr_conservative :: bool
  rr_items :: "ReconciliationItem list"

text \<open>\<^verbatim>\<open>Scheduler::Impl\<close>: the fields of the runtime, without locks, hook and channel.\<close>

record Scheduler =
  sc_options :: SchedulerOptions
  sc_limits :: SchedulerLimits
  sc_policy :: SchedulerPolicy
  sc_registry :: OperationClassRegistry
  sc_domains :: DomainRegistry
  sc_workers :: WorkerAuthority
  sc_reservations :: ReservationLedger
  sc_attempts :: AttemptLedger
  sc_plans :: "ExecutionPlan umap"
  sc_retired_plans :: "u64 list"
  sc_retired_order :: "u64 list"
  sc_reports :: "ReconciliationReport list"
  sc_recovered_domains :: "ExecutionDomainRecord list"
  sc_recovered_from_state :: bool
  sc_running :: bool
  sc_stopping :: bool
  sc_operation_counter :: u64
  sc_plan_sequence :: u64
  sc_dispatch_counter :: u64
  sc_snapshot_counter :: u64
  sc_domain_counter :: u64
  sc_persisted_generation :: u64
  sc_epoch :: u64
  sc_local_worker :: u64
  sc_local_boot :: u64
  sc_stat_plans_created :: u64
  sc_stat_plans_dispatched :: u64
  sc_stat_dispatch_rejections :: u64
  sc_stat_completion_rejections :: u64
  sc_stat_fallbacks :: u64
  sc_stat_retries :: u64

section \<open>Plans of record\<close>

definition store_plan :: "Scheduler \<Rightarrow> ExecutionPlan \<Rightarrow> Scheduler" where
  "store_plan s plan = s\<lparr>sc_plans := AList.update (pl_attempt plan) plan (sc_plans s)\<rparr>"

definition find_plan :: "Scheduler \<Rightarrow> u64 \<Rightarrow> ExecutionPlan option" where
  "find_plan s i = map_of (sc_plans s) i"

definition erase_plan :: "Scheduler \<Rightarrow> u64 \<Rightarrow> Scheduler" where
  "erase_plan s i = s\<lparr>sc_plans := AList.delete i (sc_plans s)\<rparr>"

text \<open>The loop of \<^verbatim>\<open>retire_plan\<close> that keeps the memory of retired plans under its bound.\<close>

fun forget_retired :: "nat \<Rightarrow> u64 list \<Rightarrow> u64 list \<Rightarrow> u64 list \<times> u64 list" where
  "forget_retired limit retired [] = (retired, [])"
| "forget_retired limit retired (oldest # order) =
     (if Suc (length order) > limit then forget_retired limit (removeAll oldest retired) order
      else (retired, oldest # order))"

definition retire_plan :: "Scheduler \<Rightarrow> u64 \<Rightarrow> Scheduler" where
  "retire_plan s i =
     (let s = erase_plan s i in
      if i \<in> set (sc_retired_plans s) then s
      else case forget_retired (li_max_pending_plans (sc_limits s))
                  (i # sc_retired_plans s) (sc_retired_order s @ [i]) of
             (retired, order) \<Rightarrow> s\<lparr>sc_retired_plans := retired, sc_retired_order := order\<rparr>)"

definition plan_retired :: "Scheduler \<Rightarrow> u64 \<Rightarrow> bool" where
  "plan_retired s i = (i \<in> set (sc_retired_plans s))"

definition plan_count :: "Scheduler \<Rightarrow> nat" where
  "plan_count s = length (sc_plans s)"

definition next_operation_id :: "Scheduler \<Rightarrow> u64 \<times> Scheduler" where
  "next_operation_id s =
     (sc_operation_counter s + 1, s\<lparr>sc_operation_counter := sc_operation_counter s + 1\<rparr>)"

definition next_dispatch_id :: "Scheduler \<Rightarrow> u64 \<times> Scheduler" where
  "next_dispatch_id s =
     (sc_dispatch_counter s + 1, s\<lparr>sc_dispatch_counter := sc_dispatch_counter s + 1\<rparr>)"

section \<open>Planning\<close>

record PlanContext =
  pc_request :: OperationRequest
  pc_payload :: "u8 list option"
  pc_restrict_types :: "ExecutionDomainType list"
  pc_chain_tried :: "ExecutionDomainType list"
  pc_fallback :: bool
  pc_fallback_depth :: u32
  pc_fallback_from :: u64
  pc_retry_index :: u32

definition plan_context :: "OperationRequest \<Rightarrow> PlanContext" where
  "plan_context request =
     \<lparr>pc_request = request, pc_payload = None, pc_restrict_types = [], pc_chain_tried = [],
      pc_fallback = False, pc_fallback_depth = 0, pc_fallback_from = 0, pc_retry_index = 0\<rparr>"

definition plan_failed :: "string \<Rightarrow> string \<Rightarrow> DecisionExplanation \<Rightarrow> PlanResult" where
  "plan_failed code message explanation =
     \<lparr>pr_planned = False, pr_status = failure code message, pr_plan = empty_plan,
      pr_explanation = explanation\<rparr>"

text \<open>The loop over the candidates: every domain of an admitted type with its evaluation.\<close>

definition evaluations :: "Scheduler \<Rightarrow> PlanContext \<Rightarrow> (ExecutionDomainRecord \<times> CandidateEvaluation) list" where
  "evaluations s context =
     (let request = pc_request context; desc = find_class (sc_registry s) (or_operation_class request)
      in map (\<lambda>domain. (domain, evaluate (sc_workers s) (sc_registry s) (sc_reservations s) domain
                                 request (sc_policy s) desc))
           (filter (\<lambda>domain. pc_restrict_types context = []
                            \<or> dr_type domain \<in> set (pc_restrict_types context))
              (all_domains (sc_domains s))))"

definition eligible_domains :: "Scheduler \<Rightarrow> PlanContext \<Rightarrow> ExecutionDomainRecord list" where
  "eligible_domains s context =
     map fst (filter (\<lambda>e. ce_eligible (snd e)) (evaluations s context))"

text \<open>\<^verbatim>\<open>reason_histogram\<close>, an ordered map, and the choice of the dominant reason.\<close>

definition reason_histogram :: "IneligibilityReason list \<Rightarrow> (IneligibilityReason \<times> nat) list" where
  "reason_histogram reasons =
     map (\<lambda>r. (r, count_list reasons r)) (sort_by ord_IneligibilityReason (remdups reasons))"

fun dominant_reason ::
    "IneligibilityReason \<times> nat \<Rightarrow> (IneligibilityReason \<times> nat) list \<Rightarrow> IneligibilityReason \<times> nat" where
  "dominant_reason best [] = best"
| "dominant_reason (dominant, best_count) ((reason, n) # rest) =
     dominant_reason
       (if n > best_count
           \<or> (n = best_count \<and> ord_IneligibilityReason reason < ord_IneligibilityReason dominant)
        then (reason, n) else (dominant, best_count)) rest"

definition explain_no_candidate ::
    "Scheduler \<Rightarrow> IneligibilityReason list \<Rightarrow> DecisionExplanation \<Rightarrow> DecisionExplanation" where
  "explain_no_candidate s reasons explanation =
     (if all_domains (sc_domains s) = []
      then add_reason (explanation\<lparr>ex_outcome := SelectionOutcome.kNoEligibleDomain\<rparr>)
             ''no_domains_registered'' []
      else
        let (dominant, best_count) = dominant_reason (IneligibilityReason.kNone, 0) (reason_histogram reasons)
        in if pol_offload_requirement (sc_policy s) = OffloadRequirement.kOffloadRequired
              \<and> IneligibilityReason.kPolicyForbidden \<in> set reasons
           then add_reason (explanation\<lparr>ex_outcome := SelectionOutcome.kPolicyRejected\<rparr>)
                  ''offload_required.no_offload_domain''
                  ''policy requires offload execution and no offload domain is eligible''
           else add_reason (explanation\<lparr>ex_outcome := outcome_for_reason dominant\<rparr>)
                  (''rejected.'' @ to_string_IneligibilityReason dominant)
                  (decimal best_count @ '' candidate(s) rejected''))"

definition total_setup_cost :: "SchedulerPolicy \<Rightarrow> ExecutionDomainRecord list \<Rightarrow> u64" where
  "total_setup_cost policy eligible =
     foldl (\<lambda>total domain. max total (pol_type_setup_cost_units policy (dr_type domain))) 1 eligible"

definition previous_domain :: "Scheduler \<Rightarrow> PlanContext \<Rightarrow> ExecutionDomainRecord option" where
  "previous_domain s context =
     (if valid (pc_fallback_from context)
      then find (\<lambda>domain. dr_id domain = pc_fallback_from context) (all_domains (sc_domains s))
      else None)"

definition ranked_candidate ::
    "Scheduler \<Rightarrow> PlanContext \<Rightarrow> ExecutionDomainRecord list \<Rightarrow> ExecutionDomainRecord \<Rightarrow> RankedCandidate" where
  "ranked_candidate s context eligible domain =
     (let factors = compute_factors
            \<lparr>fi_domain = domain, fi_capability = cap_capability (dr_capability domain),
             fi_request = pc_request context, fi_policy = sc_policy s,
             fi_previous = previous_domain s context, fi_estimated_transfer_bytes = 0,
             fi_estimated_setup_cost_units = 0,
             fi_total_setup_cost_units = total_setup_cost (sc_policy s) eligible,
             fi_fallback_depth = pc_fallback_depth context\<rparr>;
          (score, weight) = weighted_score factors (pol_weights (sc_policy s))
      in \<lparr>rc_domain_id = dr_id domain, rc_domain_type = dr_type domain, rc_weighted_score = score,
          rc_total_weight = weight, rc_factors = factors, rc_rank = 0\<rparr>)"

definition ranking_of :: "Scheduler \<Rightarrow> PlanContext \<Rightarrow> RankedCandidate list" where
  "ranking_of s context =
     (let eligible = eligible_domains s context
      in map (\<lambda>(i, c). c\<lparr>rc_rank := of_nat (i + 1)\<rparr>)
           (enumerate 0 (rank_sort (map (ranked_candidate s context eligible) eligible))))"

definition operation_of :: "Scheduler \<Rightarrow> OperationRequest \<Rightarrow> u64 \<times> Scheduler" where
  "operation_of s request =
     (let i = or_operation_id request in
      if \<not> valid i then next_operation_id s
      else (i, if i > sc_operation_counter s then s\<lparr>sc_operation_counter := i\<rparr> else s))"

definition bind_authority :: "Scheduler \<Rightarrow> ExecutionDomainRecord \<Rightarrow> u64 \<Rightarrow> u64 \<Rightarrow> u64 \<Rightarrow> AuthorityBinding" where
  "bind_authority s selected operation attempt generation =
     \<lparr>ab_coordinator_epoch = sc_epoch s, ab_worker = dr_worker selected,
      ab_worker_boot = dr_worker_boot selected, ab_domain = dr_id selected,
      ab_domain_generation = dr_generation selected,
      ab_capability_generation = cap_generation (dr_capability selected),
      ab_backend_generation = dr_backend_generation selected,
      ab_topology_generation = to_generation (dr_topology selected),
      ab_locality_generation = lo_generation (dr_locality selected),
      ab_health_generation = ld_health_generation (dr_load selected),
      ab_queue_generation = ld_queue_generation (dr_load selected),
      ab_load_generation = ld_load_generation (dr_load selected),
      ab_policy_generation = pol_generation (sc_policy s),
      ab_compatibility_generation = cm_generation (dr_compatibility selected),
      ab_isolation_generation = pol_isolation_generation (sc_policy s),
      ab_evidence_generation = (if published (ld_evidence (dr_load selected))
                                then ld_evidence (dr_load selected)
                                else cap_evidence (dr_capability selected)),
      ab_operation = operation, ab_attempt = attempt, ab_attempt_generation = generation,
      ab_reservation = 0\<rparr>"

definition explain_selection ::
    "Scheduler \<Rightarrow> PlanContext \<Rightarrow> DecisionExplanation \<Rightarrow> ExecutionDomainRecord \<Rightarrow> u64 \<Rightarrow> DecisionExplanation" where
  "explain_selection s context explanation selected operation =
     (let e = explanation\<lparr>
            ex_outcome := (if pc_fallback context then SelectionOutcome.kFallbackSelected
                           else outcome_for_type (dr_type selected)),
            ex_selected_domain := dr_id selected, ex_selected_domain_type := dr_type selected,
            ex_selected_provenance := dr_provenance selected,
            ex_selected_is_offload := is_offload_engine selected, ex_operation := operation\<rparr>;
          e = add_reason e (''selected.'' @ to_string_ExecutionDomainType (dr_type selected))
                (''rank 1 of '' @ decimal (length (ex_ranking explanation)) @ '' eligible domain(s)'')
      in if pc_fallback context
         then (add_reason e
                (''fallback.from.'' @ to_string_ExecutionDomainType
                   (case previous_domain s context of None \<Rightarrow> ExecutionDomainType.kCpu
                    | Some previous \<Rightarrow> dr_type previous)) [])
                \<lparr>ex_fallback_chain_tried := ex_fallback_chain_tried e @ [dr_type selected]\<rparr>
         else e)"

text \<open>The plan of record for the selected domain, with freshly allocated identities.\<close>

definition make_plan ::
    "Scheduler \<Rightarrow> PlanContext \<Rightarrow> OperationClassDescriptor \<Rightarrow> DecisionExplanation \<Rightarrow> ExecutionDomainRecord \<Rightarrow>
       PlanResult \<times> Scheduler" where
  "make_plan s context desc explanation selected =
     (let (operation, s1) = operation_of s (pc_request context);
          (attempt, attempts) = allocate_id (sc_attempts s1);
          (generation, attempts) = allocate_generation attempts operation;
          effective = (pc_request context)\<lparr>or_operation_id := operation\<rparr>;
          sequence = sc_plan_sequence s1 + 1;
          explanation = explain_selection s context explanation selected operation;
          plan = empty_plan\<lparr>
            pl_operation := operation, pl_operation_class := or_operation_class effective,
            pl_operation_class_name := ocd_name desc, pl_domain := dr_id selected,
            pl_domain_type := dr_type selected, pl_provenance := dr_provenance selected,
            pl_side_effect := effective_side_effect (ocd_side_effect_class desc)
                                (or_side_effect_override effective),
            pl_attempt := attempt, pl_attempt_generation := generation,
            pl_fallback := pc_fallback context, pl_fallback_depth := pc_fallback_depth context,
            pl_fallback_from := pc_fallback_from context, pl_retry_index := pc_retry_index context,
            pl_plan_sequence := sequence, pl_request := effective,
            pl_payload := (case pc_payload context of None \<Rightarrow> [] | Some p \<Rightarrow> p),
            pl_binding := bind_authority s selected operation attempt generation,
            pl_explanation := explanation\<rparr>;
          s2 = store_plan (s1\<lparr>sc_attempts := attempts, sc_plan_sequence := sequence\<rparr>) plan
      in (\<lparr>pr_planned = True, pr_status = success, pr_plan = plan, pr_explanation = explanation\<rparr>,
          s2\<lparr>sc_stat_plans_created := sc_stat_plans_created s2 + 1\<rparr>))"

definition plan_internal :: "Scheduler \<Rightarrow> PlanContext \<Rightarrow> PlanResult \<times> Scheduler" where
  "plan_internal s context =
     (let request = pc_request context;
          e0 = empty_explanation\<lparr>ex_policy_generation := pol_generation (sc_policy s)\<rparr>
      in case find_class (sc_registry s) (or_operation_class request) of
           None \<Rightarrow>
             (plan_failed ''request.unknown_operation_class'' []
                (add_reason (e0\<lparr>ex_outcome := SelectionOutcome.kCapabilityUnsupported\<rparr>)
                   ''operation_class_unregistered'' []), s)
         | Some desc \<Rightarrow>
             let v = validate_request request (sc_registry s) in
             if \<not> st_ok v
             then (plan_failed (st_code v) (st_message v)
                     (add_reason (e0\<lparr>ex_outcome := SelectionOutcome.kPolicyRejected\<rparr>)
                        (st_code v) (st_message v)), s)
             else
               let e1 = e0\<lparr>ex_operation_class_name := ocd_name desc,
                         ex_operation := or_operation_id request,
                         ex_fallback_used := pc_fallback context,
                         ex_fallback_depth := pc_fallback_depth context,
                         ex_fallback_from := pc_fallback_from context,
                         ex_fallback_chain_tried := pc_chain_tried context\<rparr>
               in if (case pc_payload context of None \<Rightarrow> False
                      | Some p \<Rightarrow> length p > li_max_payload_dispatch_bytes (sc_limits s))
                  then (plan_failed ''plan.payload_too_large'' []
                          (add_reason (e1\<lparr>ex_outcome := SelectionOutcome.kPolicyRejected\<rparr>)
                             ''plan.payload_too_large''
                             ''payload exceeds the configured dispatch bound''), s)
                  else
                    let evals = map snd (evaluations s context);
                        rejected = filter (\<lambda>c. \<not> ce_eligible c) evals;
                        e2 = e1\<lparr>ex_evaluated_candidates := of_nat (length evals),
                              ex_rejected_candidates := of_nat (length rejected),
                              ex_candidates := take (pol_max_reported_candidates (sc_policy s)) evals\<rparr>;
                        eligible = eligible_domains s context
                    in if eligible = []
                       then let e3 = explain_no_candidate s (map ce_reason rejected) e2
                            in (plan_failed ''plan.no_eligible_domain''
                                  (to_string_SelectionOutcome (ex_outcome e3)) e3, s)
                       else
                         let ranking = ranking_of s context;
                             e3 = e2\<lparr>ex_ranking := ranking\<rparr>
                         in case find (\<lambda>d. dr_id d = rc_domain_id (hd ranking)) eligible of
                              None \<Rightarrow>
                                (plan_failed ''plan.internal_inconsistency'' []
                                   (e3\<lparr>ex_outcome := SelectionOutcome.kNoEligibleDomain\<rparr>), s)
                            | Some selected \<Rightarrow>
                                if plan_count s \<ge> li_max_pending_plans (sc_limits s)
                                then (plan_failed ''plan.limit_reached'' []
                                        (add_reason (e3\<lparr>ex_outcome := SelectionOutcome.kDeferred\<rparr>)
                                           ''plan.limit_reached'' []), s)
                                else make_plan s context desc e3 selected)"

text \<open>\<^verbatim>\<open>Scheduler::plan\<close>.\<close>

definition plan :: "Scheduler \<Rightarrow> OperationRequest \<Rightarrow> u8 list \<Rightarrow> PlanResult \<times> Scheduler" where
  "plan s request payload =
     (if payload \<noteq> [] \<and> length payload > li_max_payload_dispatch_bytes (sc_limits s)
      then (plan_failed ''plan.payload_too_large'' []
              (add_reason (empty_explanation\<lparr>ex_outcome := SelectionOutcome.kPolicyRejected\<rparr>)
                 ''plan.payload_too_large'' []), s)
      else if sc_stopping s
      then (plan_failed ''scheduler.shutting_down'' []
              (add_reason (empty_explanation\<lparr>ex_outcome := SelectionOutcome.kDeferred\<rparr>)
                 ''scheduler.shutting_down'' []), s)
      else plan_internal s
             ((plan_context request)\<lparr>pc_payload := (if payload = [] then None else Some payload)\<rparr>))"

section \<open>What a plan is\<close>

lemma evaluations_members:
  "(d, c) \<in> set (evaluations s context) \<Longrightarrow>
     d \<in> set (all_domains (sc_domains s))
     \<and> (pc_restrict_types context = [] \<or> dr_type d \<in> set (pc_restrict_types context))
     \<and> c = evaluate (sc_workers s) (sc_registry s) (sc_reservations s) d (pc_request context)
             (sc_policy s) (find_class (sc_registry s) (or_operation_class (pc_request context)))"
  by (auto simp: evaluations_def Let_def)

lemma eligible_domains_members:
  "d \<in> set (eligible_domains s context) \<longleftrightarrow>
     d \<in> set (all_domains (sc_domains s))
     \<and> (pc_restrict_types context = [] \<or> dr_type d \<in> set (pc_restrict_types context))
     \<and> ce_eligible (evaluate (sc_workers s) (sc_registry s) (sc_reservations s) d (pc_request context)
             (sc_policy s) (find_class (sc_registry s) (or_operation_class (pc_request context))))"
  by (force simp: eligible_domains_def evaluations_def Let_def)

lemma set_all_domains: "set (all_domains g) = snd ` set (rg_domains g)"
  by (simp add: all_domains_def)

lemma all_domains_find:
  assumes "registry_inv g" and "d \<in> set (all_domains g)"
  shows "find_domain g (dr_id d) = Some d"
proof -
  obtain k where k: "(k, d) \<in> set (rg_domains g)" using assms(2) by (auto simp: set_all_domains)
  then have "find_domain g k = Some d" using assms(1) by (simp add: registry_inv_def find_domain_def)
  then show ?thesis using assms(1) by (simp add: registry_inv_def)
qed

lemma distinct_all_domains:
  assumes "registry_inv g"
  shows "distinct (map dr_id (all_domains g))"
proof -
  have "map dr_id (map snd (rg_domains g)) = map fst (rg_domains g)"
    using assms by (auto simp: registry_inv_def find_domain_def)
  then have "distinct (map dr_id (map snd (rg_domains g)))"
    using assms by (simp only: registry_inv_def)
  moreover have "mset (map dr_id (all_domains g)) = mset (map dr_id (map snd (rg_domains g)))"
    by (simp add: all_domains_def del: map_map)
  ultimately show ?thesis by (metis mset_eq_imp_distinct_iff)
qed

lemma distinct_eligible:
  assumes "registry_inv (sc_domains s)"
  shows "distinct (map dr_id (eligible_domains s context))"
proof -
  have "eligible_domains s context =
      filter (\<lambda>d. d \<in> set (eligible_domains s context)) (all_domains (sc_domains s))"
    by (simp add: eligible_domains_members)
       (simp add: eligible_domains_def evaluations_def Let_def filter_map o_def filter_filter
         conj_commute cong: filter_cong)
  then show ?thesis using distinct_all_domains [OF assms] by (metis distinct_map_filter)
qed

text \<open>The winner of the ranking is an eligible domain and beats every other eligible one.\<close>

definition best_domain :: "Scheduler \<Rightarrow> PlanContext \<Rightarrow> ExecutionDomainRecord \<Rightarrow> bool" where
  "best_domain s context d \<longleftrightarrow>
     (let rank = ranked_candidate s context (eligible_domains s context)
      in d \<in> set (eligible_domains s context)
         \<and> (\<forall>other \<in> set (eligible_domains s context). other \<noteq> d \<longrightarrow> candidate_better (rank d) (rank other)))"

lemma ranked_candidate_id [simp]: "rc_domain_id (ranked_candidate s context eligible d) = dr_id d"
  by (simp add: ranked_candidate_def Let_def split: prod.split)

lemma ranking_winner:
  assumes inv: "registry_inv (sc_domains s)" and ne: "eligible_domains s context \<noteq> []"
  shows "\<exists>d. find (\<lambda>d. dr_id d = rc_domain_id (hd (ranking_of s context))) (eligible_domains s context) = Some d
             \<and> best_domain s context d"
proof -
  let ?el = "eligible_domains s context" and ?rank = "ranked_candidate s context (eligible_domains s context)"
  have dist: "distinct (map dr_id ?el)" using distinct_eligible [OF inv] .
  have srt: "sorted_wrt candidate_better (rank_sort (map ?rank ?el))"
    by (rule sorted_rank_sort) (simp add: o_def dist)
  obtain w ws where ws: "rank_sort (map ?rank ?el) = w # ws"
    using ne by (metis length_0_conv length_map length_rank_sort neq_Nil_conv)
  have members: "set (w # ws) = ?rank ` set ?el" using ws by (metis set_map set_rank_sort)
  then have "w \<in> ?rank ` set ?el" by auto
  then obtain d where d: "d \<in> set ?el" "?rank d = w" by blast
  have best: "\<forall>c \<in> set ws. candidate_better w c" using srt ws by simp
  have head: "rc_domain_id (hd (ranking_of s context)) = dr_id d"
    using d(2) by (simp add: ranking_of_def Let_def ws flip: d(2))
  have uniq: "x = d" if "x \<in> set ?el" "dr_id x = dr_id d" for x
    using dist that d(1) by (simp add: distinct_map inj_on_def)
  have "find (\<lambda>x. dr_id x = dr_id d) ?el = Some d"
  proof (cases "find (\<lambda>x. dr_id x = dr_id d) ?el")
    case None
    then show ?thesis using d(1) by (auto simp: find_None_iff)
  next
    case (Some x)
    then have "x \<in> set ?el" "dr_id x = dr_id d" by (auto simp: find_Some_iff)
    with uniq Some show ?thesis by blast
  qed
  moreover have "candidate_better (?rank d) (?rank x)" if "x \<in> set ?el" "x \<noteq> d" for x
  proof -
    have "?rank x \<in> set (w # ws)" using that(1) members by blast
    moreover have "?rank x \<noteq> w" using uniq [OF that(1)] that(2) d(2) by (metis ranked_candidate_id)
    ultimately show ?thesis using best d(2) by auto
  qed
  ultimately show ?thesis using head d(1) by (auto simp: best_domain_def Let_def)
qed

lemma operation_of_frame:
  assumes "operation_of s request = (operation, s1)"
  shows "sc_attempts s1 = sc_attempts s" and "sc_domains s1 = sc_domains s"
    and "sc_plans s1 = sc_plans s" and "sc_policy s1 = sc_policy s" and "sc_epoch s1 = sc_epoch s"
    and "sc_reservations s1 = sc_reservations s" and "sc_workers s1 = sc_workers s"
    and "sc_limits s1 = sc_limits s" and "sc_retired_plans s1 = sc_retired_plans s"
    and "sc_registry s1 = sc_registry s" and "sc_stopping s1 = sc_stopping s"
  using assms by (auto simp: operation_of_def next_operation_id_def Let_def split: if_splits)

text \<open>Everything a successful planning step establishes about its plan and the new state.\<close>

definition planned_ok :: "Scheduler \<Rightarrow> PlanContext \<Rightarrow> ExecutionPlan \<Rightarrow> Scheduler \<Rightarrow> bool" where
  "planned_ok s context p s' \<longleftrightarrow>
     (\<exists>selected.
        find_domain (sc_domains s) (pl_domain p) = Some selected \<and> best_domain s context selected
        \<and> pl_binding p = bind_authority s selected (pl_operation p) (pl_attempt p) (pl_attempt_generation p))
     \<and> find_plan s' (pl_attempt p) = Some p \<and> pl_state p = PlanState.kCreated \<and> pl_reservation p = 0
     \<and> pl_retry_index p = pc_retry_index context \<and> pl_fallback_depth p = pc_fallback_depth context
     \<and> (\<forall>i. i \<noteq> pl_attempt p \<longrightarrow> find_plan s' i = find_plan s i)
     \<and> sc_domains s' = sc_domains s \<and> sc_reservations s' = sc_reservations s
     \<and> sc_workers s' = sc_workers s \<and> sc_policy s' = sc_policy s \<and> sc_epoch s' = sc_epoch s
     \<and> sc_retired_plans s' = sc_retired_plans s \<and> sc_stopping s' = sc_stopping s
     \<and> sc_limits s' = sc_limits s \<and> sc_registry s' = sc_registry s
     \<and> sc_attempts s' =
         snd (allocate_generation (snd (allocate_id (sc_attempts s))) (pl_operation p))
     \<and> pl_attempt p = fst (allocate_id (sc_attempts s))"

lemma make_plan_ok:
  assumes "make_plan s context desc explanation selected = (r, s')"
    and "find_domain (sc_domains s) (dr_id selected) = Some selected" and "best_domain s context selected"
  shows "pr_planned r \<and> planned_ok s context (pr_plan r) s'"
proof -
  obtain operation s1 where op: "operation_of s (pc_request context) = (operation, s1)" by fastforce
  show ?thesis
    using assms operation_of_frame [OF op]
    by (auto simp: make_plan_def op Let_def planned_ok_def store_plan_def find_plan_def empty_plan_def
        split: prod.splits)
qed

lemma plan_internal_cases:
  assumes inv: "registry_inv (sc_domains s)" and run: "plan_internal s context = (r, s')"
  shows "(\<not> pr_planned r \<and> s' = s \<and> \<not> st_ok (pr_status r))
         \<or> (pr_planned r \<and> st_ok (pr_status r) \<and> planned_ok s context (pr_plan r) s')"
proof (cases "pr_planned r")
  case False
  have "make_plan s context desc e selected = (r, s') \<Longrightarrow> pr_planned r" for desc e selected
    by (auto simp: make_plan_def Let_def split: prod.splits)
  then have "s' = s \<and> \<not> st_ok (pr_status r)"
    using run False unfolding plan_internal_def Let_def
    by (auto simp: plan_failed_def split: option.splits if_splits)
  then show ?thesis using False by simp
next
  case True
  obtain desc e selected where sel:
      "find (\<lambda>d. dr_id d = rc_domain_id (hd (ranking_of s context))) (eligible_domains s context) = Some selected"
      "eligible_domains s context \<noteq> []" "make_plan s context desc e selected = (r, s')"
    using run True unfolding plan_internal_def Let_def
    by (auto simp: plan_failed_def split: option.splits if_splits)
  have best: "best_domain s context selected" using ranking_winner [OF inv sel(2)] sel(1) by simp
  then have "selected \<in> set (all_domains (sc_domains s))"
    by (simp add: best_domain_def eligible_domains_members Let_def)
  then have "find_domain (sc_domains s) (dr_id selected) = Some selected"
    using all_domains_find [OF inv] by blast
  from make_plan_ok [OF sel(3) this best] sel(3) show ?thesis
    by (auto simp: make_plan_def Let_def split: prod.splits)
qed

lemma best_domain_eligible:
  assumes "best_domain s context d"
  shows "ce_eligible (evaluate (sc_workers s) (sc_registry s) (sc_reservations s) d (pc_request context)
           (sc_policy s) (find_class (sc_registry s) (or_operation_class (pc_request context))))"
    and "pc_restrict_types context = [] \<or> dr_type d \<in> set (pc_restrict_types context)"
  using assms by (auto simp: best_domain_def eligible_domains_members Let_def)

end
