(* ===== verification/Tos_Dispatch.thy ===== *)
theory Tos_Dispatch
  imports Tos_Plan
begin

text \<open>
  Publication, reservation, dispatch, completion, retry and fallback
  (\<^verbatim>\<open>src/include/tos/core/dispatch.hpp\<close>, \<^verbatim>\<open>src/src/core/scheduler.cpp\<close>). The dispatch channel is an
  interface of the program: it is an argument here, and its functions see and return the
  scheduler, because an executor may answer (and another thread may act) while \<^verbatim>\<open>send\<close> runs, when no
  lock is held. \<^verbatim>\<open>ExecutionPlan&\<close> arguments are returned updated.
\<close>

section \<open>Data\<close>

record DispatchResult =
  dp_dispatched :: bool
  dp_rejection :: DispatchRejection
  dp_status :: Status
  dp_attempt :: u64
  dp_dispatch :: u64
  dp_state :: AttemptState

record DispatchOutcome =
  dc_plan_result :: PlanResult
  dc_dispatch_result :: DispatchResult

record RetryResult =
  rt_retry_permitted :: bool
  rt_rejection :: RetryRejection
  rt_status :: Status
  rt_attempt :: u64
  rt_generation :: u64
  rt_plan :: ExecutionPlan

record FallbackResult =
  fb_fallback_selected :: bool
  fb_rejection :: FallbackRejection
  fb_status :: Status
  fb_plan :: ExecutionPlan
  fb_explanation :: DecisionExplanation
  fb_chain_tried :: "ExecutionDomainType list"

record DispatchEnvelope =
  en_attempt :: u64
  en_attempt_generation :: u64
  en_dispatch :: u64
  en_coordinator_epoch :: u64
  en_worker :: u64
  en_worker_boot :: u64
  en_domain :: u64
  en_domain_generation :: u64
  en_capability_generation :: u64
  en_policy_generation :: u64
  en_operation :: u64
  en_operation_class :: u64
  en_side_effect :: SideEffectClass
  en_provenance :: Provenance
  en_payload :: PayloadDescriptor
  en_bytes :: "u8 list"
  en_fallback :: bool
  en_fallback_depth :: u32
  en_retry_index :: u32

record CancelEnvelope =
  cv_attempt :: u64
  cv_attempt_generation :: u64
  cv_dispatch :: u64
  cv_coordinator_epoch :: u64
  cv_worker_boot :: u64
  cv_domain :: u64
  cv_may_have_executed :: bool

text \<open>\<^verbatim>\<open>IDispatchChannel\<close>.\<close>

record DispatchChannel =
  ch_send :: "DispatchEnvelope \<Rightarrow> Scheduler \<Rightarrow> Status \<times> Scheduler"
  ch_request_cancel :: "CancelEnvelope \<Rightarrow> Scheduler \<Rightarrow> bool \<times> Scheduler"
  ch_shutdown :: "Scheduler \<Rightarrow> Scheduler"

definition empty_dispatch_result :: DispatchResult where
  "empty_dispatch_result =
     \<lparr>dp_dispatched = False, dp_rejection = DispatchRejection.kNone, dp_status = success,
      dp_attempt = 0, dp_dispatch = 0, dp_state = AttemptState.kPlanned\<rparr>"

section \<open>Classes, policy and domains\<close>

definition register_operation_class ::
    "Scheduler \<Rightarrow> OperationClassDescriptor \<Rightarrow> u64 Checked \<times> Scheduler" where
  "register_operation_class s desc =
     (if length (sc_registry s) \<ge> li_max_operation_classes (sc_limits s)
      then (bad ''operation.class_limit'' [], s)
      else case register_class (sc_registry s) desc of
             (r, registry) \<Rightarrow> (r, s\<lparr>sc_registry := registry\<rparr>))"

definition set_policy :: "Scheduler \<Rightarrow> SchedulerPolicy \<Rightarrow> Status \<times> Scheduler" where
  "set_policy s policy =
     (let v = validate_policy policy in
      if \<not> st_ok v then (v, s)
      else if pol_generation policy < pol_generation (sc_policy s)
      then (failure ''policy.generation_regression'' [], s)
      else
        let policy' = (if pol_generation policy = pol_generation (sc_policy s)
                       then policy\<lparr>pol_generation := pol_generation (sc_policy s) + 1\<rparr> else policy)
        in (success, s\<lparr>sc_policy := policy'\<rparr>))"

text \<open>A record that names no owner is attributed to the local worker.\<close>

definition attributed_record :: "Scheduler \<Rightarrow> ExecutionDomainRecord \<Rightarrow> ExecutionDomainRecord" where
  "attributed_record s r =
     (if \<not> valid (dr_worker r) \<or> \<not> valid (dr_worker_boot r)
      then r\<lparr>dr_worker := sc_local_worker s, dr_worker_boot := sc_local_boot s\<rparr> else r)"

definition set_domain_capacity :: "Scheduler \<Rightarrow> u64 \<Rightarrow> CapacityVector \<Rightarrow> Status \<times> Scheduler" where
  "set_domain_capacity s domain capacity =
     (case set_capacity (sc_reservations s) domain capacity of
        (st, reservations) \<Rightarrow> (st, s\<lparr>sc_reservations := reservations\<rparr>))"

definition register_domain :: "Scheduler \<Rightarrow> ExecutionDomainRecord \<Rightarrow> Status \<times> Scheduler" where
  "register_domain s r =
     (if sc_stopping s then (failure ''scheduler.shutting_down'' [], s)
      else
        let effective = attributed_record s r;
            effective = (if dr_name effective = []
                         then effective\<lparr>dr_name := ''domain.'' @ to_string_u64 (dr_id effective)\<rparr>
                         else effective)
        in case upsert (sc_domains s) effective False of
             (Bad st, domains) \<Rightarrow> (st, s\<lparr>sc_domains := domains\<rparr>)
           | (Good _, domains) \<Rightarrow>
               let s' = s\<lparr>sc_domains := domains\<rparr> in
               if \<not> same_capacity (dr_capacity effective) no_amounts
               then set_domain_capacity s' (dr_id effective) (dr_capacity effective)
               else (success, s'))"

definition update_domain ::
    "Scheduler \<Rightarrow> ExecutionDomainRecord \<Rightarrow> DomainUpdateResult Checked \<times> Scheduler" where
  "update_domain s r =
     (if sc_stopping s then (bad ''scheduler.shutting_down'' [], s)
      else
        let effective = attributed_record s r in
        case upsert (sc_domains s) effective False of
          (Bad st, domains) \<Rightarrow> (Bad st, s\<lparr>sc_domains := domains\<rparr>)
        | (Good updated, domains) \<Rightarrow>
            let s' = s\<lparr>sc_domains := domains\<rparr> in
            if \<not> same_capacity (dr_capacity effective) no_amounts
            then case set_domain_capacity s' (dr_id effective) (dr_capacity effective) of
                   (st, s'') \<Rightarrow>
                     (if st_ok st then Good updated else bad (st_code st) (st_message st), s'')
            else (Good updated, s'))"

definition on_domains ::
    "Scheduler \<Rightarrow> (DomainRegistry \<Rightarrow> Status \<times> DomainRegistry) \<Rightarrow> Status \<times> Scheduler" where
  "on_domains s f = (case f (sc_domains s) of (st, domains) \<Rightarrow> (st, s\<lparr>sc_domains := domains\<rparr>))"

definition scheduler_publish_capability :: "Scheduler \<Rightarrow> CapabilityRecord \<Rightarrow> Status \<times> Scheduler" where
  "scheduler_publish_capability s capability = on_domains s (\<lambda>g. publish_capability g capability)"

definition scheduler_publish_load :: "Scheduler \<Rightarrow> u64 \<Rightarrow> DomainLoadEvidence \<Rightarrow> Status \<times> Scheduler" where
  "scheduler_publish_load s domain load = on_domains s (\<lambda>g. publish_load g domain load)"

definition scheduler_publish_locality :: "Scheduler \<Rightarrow> u64 \<Rightarrow> DomainLocality \<Rightarrow> Status \<times> Scheduler" where
  "scheduler_publish_locality s domain locality = on_domains s (\<lambda>g. publish_locality g domain locality)"

definition scheduler_publish_topology :: "Scheduler \<Rightarrow> u64 \<Rightarrow> DomainTopology \<Rightarrow> Status \<times> Scheduler" where
  "scheduler_publish_topology s domain topology = on_domains s (\<lambda>g. publish_topology g domain topology)"

definition scheduler_publish_compatibility ::
    "Scheduler \<Rightarrow> u64 \<Rightarrow> DomainCompatibility \<Rightarrow> Status \<times> Scheduler" where
  "scheduler_publish_compatibility s domain compatibility =
     on_domains s (\<lambda>g. publish_compatibility g domain compatibility)"

definition scheduler_publish_capacity :: "Scheduler \<Rightarrow> u64 \<Rightarrow> CapacityVector \<Rightarrow> Status \<times> Scheduler" where
  "scheduler_publish_capacity s domain capacity =
     (case on_domains s (\<lambda>g. publish_capacity g domain capacity) of
        (st, s') \<Rightarrow>
          if \<not> st_ok st then (st, s') else set_domain_capacity s' domain capacity)"

definition register_worker_boot :: "Scheduler \<Rightarrow> u64 \<Rightarrow> u64 \<Rightarrow> string \<Rightarrow> Status \<times> Scheduler" where
  "register_worker_boot s worker boot label =
     (case register_boot (sc_workers s) worker boot label of
        (st, workers) \<Rightarrow> (st, s\<lparr>sc_workers := workers\<rparr>))"

section \<open>Reservation\<close>

definition reservation_required :: "SchedulerPolicy \<Rightarrow> bool" where
  "reservation_required policy =
     (rsp_enabled (pol_reservation policy)
      \<and> list_ex (\<lambda>k. rsp_per_operation (pol_reservation policy) k \<noteq> 0) all_ResourceKind)"

definition reservation_request :: "ExecutionPlan \<Rightarrow> ResourceAmounts \<Rightarrow> ReservationRequest" where
  "reservation_request p amounts =
     \<lparr>rq_domain = pl_domain p,
      rq_domain_generation = ab_domain_generation (pl_binding p),
      rq_capability_generation = ab_capability_generation (pl_binding p),
      rq_policy_generation = ab_policy_generation (pl_binding p),
      rq_worker_boot = ab_worker_boot (pl_binding p),
      rq_operation = pl_operation p, rq_amounts = amounts\<rparr>"

definition reserve :: "Scheduler \<Rightarrow> ExecutionPlan \<Rightarrow> Status \<times> ExecutionPlan \<times> Scheduler" where
  "reserve s p =
     (if sc_stopping s then (failure ''scheduler.shutting_down'' [], p, s)
      else if pl_state p \<noteq> PlanState.kCreated then (failure ''plan.not_reservable'' [], p, s)
      else if \<not> reservation_required (sc_policy s)
      then let p' = p\<lparr>pl_state := PlanState.kReserved\<rparr>
           in (success, p', store_plan s p')
      else
        let amounts = rsp_per_operation (pol_reservation (sc_policy s)) in
        case acquire (sc_reservations s) (reservation_request p amounts) of
          (Bad st, reservations) \<Rightarrow>
            (failure (st_code st) (st_message st), p, s\<lparr>sc_reservations := reservations\<rparr>)
        | (Good i, reservations) \<Rightarrow>
            let p' = p\<lparr>pl_reservation := i, pl_reserved_amounts := amounts,
                             pl_binding := (pl_binding p)\<lparr>ab_reservation := i\<rparr>,
                             pl_state := PlanState.kReserved\<rparr>
            in (success, p', store_plan (s\<lparr>sc_reservations := reservations\<rparr>) p'))"

section \<open>Dispatch\<close>

definition roll_back :: "Scheduler \<Rightarrow> u64 \<Rightarrow> string \<Rightarrow> Scheduler" where
  "roll_back s i reason =
     (if valid i then s\<lparr>sc_reservations := snd (rollback (sc_reservations s) i reason)\<rparr> else s)"

definition release_held :: "Scheduler \<Rightarrow> u64 \<Rightarrow> string \<Rightarrow> Scheduler" where
  "release_held s i reason =
     (if valid i
      then s\<lparr>sc_reservations := snd (release_reservation (sc_reservations s) i reason)\<rparr> else s)"

definition fail_attempt :: "Scheduler \<Rightarrow> u64 \<Rightarrow> string \<Rightarrow> Scheduler" where
  "fail_attempt s i detail =
     s\<lparr>sc_attempts := snd (mark_failed (sc_attempts s) i FailureKind.kTransportFailure detail)\<rparr>"

text \<open>The lambda \<^verbatim>\<open>fail\<close> of \<^verbatim>\<open>Scheduler::dispatch\<close>.\<close>

definition dispatch_failed ::
    "DispatchRejection \<Rightarrow> string \<Rightarrow> string \<Rightarrow> ExecutionPlan \<Rightarrow> Scheduler \<Rightarrow>
       DispatchResult \<times> ExecutionPlan \<times> Scheduler" where
  "dispatch_failed rejection code detail p s =
     (empty_dispatch_result\<lparr>dp_rejection := rejection, dp_status := failure code detail,
                            dp_attempt := pl_attempt p\<rparr>,
      p, s\<lparr>sc_stat_dispatch_rejections := sc_stat_dispatch_rejections s + 1\<rparr>)"

text \<open>The gates before revalidation: the first that refuses, with its rejection.\<close>

definition dispatch_gate :: "Scheduler \<Rightarrow> ExecutionPlan \<Rightarrow> (DispatchRejection \<times> string \<times> string) option" where
  "dispatch_gate s p =
     (if sc_stopping s then Some (DispatchRejection.kShutdownInProgress, ''scheduler.shutting_down'', [])
      else if pl_state p \<in> {PlanState.kDispatched, PlanState.kConsumed, PlanState.kCancelled,
                               PlanState.kRejected}
      then Some (DispatchRejection.kPlanConsumed, ''plan.consumed'', [])
      else if plan_retired s (pl_attempt p)
      then Some (DispatchRejection.kPlanConsumed, ''plan.cancelled'', [])
      else if reservation_required (sc_policy s) \<and> \<not> valid (pl_reservation p)
      then Some (DispatchRejection.kReservationInvalid, ''plan.reservation_required'',
                 ''execution capacity must be reserved before dispatch'')
      else None)"

definition live_authority :: "Scheduler \<Rightarrow> u64 \<Rightarrow> LiveAuthority" where
  "live_authority s domain =
     (case find_domain (sc_domains s) domain of
        None \<Rightarrow> empty_live_authority
      | Some r \<Rightarrow> live_authority_of r (sc_epoch s) (pol_generation (sc_policy s))
                    (pol_isolation_generation (sc_policy s)))"

definition revalidation :: "Scheduler \<Rightarrow> ExecutionPlan \<Rightarrow> AuthorityValidation" where
  "revalidation s p =
     validate_authority (pl_binding p) (live_authority s (pl_domain p))
       (pol_freshness (sc_policy s))"

definition first_mismatch :: "AuthorityValidation \<Rightarrow> string \<Rightarrow> string" where
  "first_mismatch v otherwise =
     (case av_mismatches v of [] \<Rightarrow> otherwise | m # _ \<Rightarrow> am_field m)"

definition revalidation_rejected ::
    "Scheduler \<Rightarrow> ExecutionPlan \<Rightarrow> AuthorityValidation \<Rightarrow> DispatchResult \<times> ExecutionPlan \<times> Scheduler" where
  "revalidation_rejected s p v =
     (let p' = p\<lparr>
            pl_state := PlanState.kRejected,
            pl_explanation := add_reason
              ((pl_explanation p)\<lparr>ex_outcome := SelectionOutcome.kRevalidationRequired\<rparr>)
              (av_code v) (first_mismatch v [])\<rparr>;
          s' = roll_back (store_plan s p') (pl_reservation p') ''dispatch revalidation''
      in dispatch_failed DispatchRejection.kAuthorityStale (av_code v)
           (first_mismatch v ''stale authority'') p' s')"

definition commit_reservation :: "Scheduler \<Rightarrow> ExecutionPlan \<Rightarrow> Status \<times> Scheduler" where
  "commit_reservation s p =
     (if rsp_enabled (pol_reservation (sc_policy s)) \<and> valid (pl_reservation p)
      then case commit (sc_reservations s) (pl_reservation p)
                  (ab_domain_generation (pl_binding p))
                  (ab_capability_generation (pl_binding p))
                  (ab_policy_generation (pl_binding p)) of
             (st, reservations) \<Rightarrow> (st, s\<lparr>sc_reservations := reservations\<rparr>)
      else (success, s))"

definition attempt_registration :: "ExecutionPlan \<Rightarrow> u64 \<Rightarrow> AttemptRegistration" where
  "attempt_registration p dispatch_id =
     (let b = pl_binding p in
      \<lparr>reg_id = pl_attempt p, reg_generation = pl_attempt_generation p,
       reg_operation = pl_operation p, reg_operation_class = pl_operation_class p,
       reg_side_effect = pl_side_effect p, reg_domain = pl_domain p,
       reg_domain_type = pl_domain_type p, reg_domain_generation = ab_domain_generation b,
       reg_capability_generation = ab_capability_generation b, reg_worker = ab_worker b,
       reg_worker_boot = ab_worker_boot b, reg_coordinator_epoch = ab_coordinator_epoch b,
       reg_reservation = pl_reservation p, reg_dispatch = dispatch_id,
       reg_provenance = pl_provenance p, reg_fallback = pl_fallback p,
       reg_fallback_from = pl_fallback_from p, reg_retry_index = pl_retry_index p\<rparr>)"

definition dispatch_envelope :: "ExecutionPlan \<Rightarrow> u64 \<Rightarrow> DispatchEnvelope" where
  "dispatch_envelope p dispatch_id =
     (let b = pl_binding p in
      \<lparr>en_attempt = pl_attempt p, en_attempt_generation = pl_attempt_generation p,
       en_dispatch = dispatch_id, en_coordinator_epoch = ab_coordinator_epoch b,
       en_worker = ab_worker b, en_worker_boot = ab_worker_boot b, en_domain = pl_domain p,
       en_domain_generation = ab_domain_generation b,
       en_capability_generation = ab_capability_generation b,
       en_policy_generation = ab_policy_generation b, en_operation = pl_operation p,
       en_operation_class = pl_operation_class p, en_side_effect = pl_side_effect p,
       en_provenance = pl_provenance p, en_payload = or_payload (pl_request p),
       en_bytes = pl_payload p, en_fallback = pl_fallback p,
       en_fallback_depth = pl_fallback_depth p, en_retry_index = pl_retry_index p\<rparr>)"

text \<open>From the call of the channel to the end of \<^verbatim>\<open>Scheduler::dispatch\<close>.\<close>

definition send_envelope ::
    "DispatchChannel option \<Rightarrow> Scheduler \<Rightarrow> ExecutionPlan \<Rightarrow> u64 \<Rightarrow>
       DispatchResult \<times> ExecutionPlan \<times> Scheduler" where
  "send_envelope channel s p dispatch_id =
     (case channel of
        None \<Rightarrow>
          dispatch_failed DispatchRejection.kTransportFailure ''channel.absent'' [] p
            (release_held
               (fail_attempt s (pl_attempt p) ''no dispatch channel is configured'')
               (pl_reservation p) ''no dispatch channel'')
      | Some ch \<Rightarrow>
          case ch_send ch (dispatch_envelope p dispatch_id) s of
            (sent, s1) \<Rightarrow>
              if \<not> st_ok sent
              then let s2 = release_held (fail_attempt s1 (pl_attempt p) (st_code sent))
                              (pl_reservation p) ''transport failure'';
                       p' = p\<lparr>pl_state := PlanState.kRejected\<rparr>
                   in dispatch_failed DispatchRejection.kTransportFailure (st_code sent)
                        (st_message sent) p' (store_plan s2 p')
              else
                case mark_dispatched (sc_attempts s1) (pl_attempt p) dispatch_id of
                  (marked, attempts) \<Rightarrow>
                    let s2 = s1\<lparr>sc_attempts := attempts\<rparr> in
                    if \<not> st_ok marked \<and> st_code marked \<noteq> ''attempt.not_dispatching''
                    then dispatch_failed DispatchRejection.kAttemptRegistrationFailed
                           (st_code marked) (st_message marked) p s2
                    else
                      let p' = p\<lparr>pl_dispatch := dispatch_id, pl_state := PlanState.kDispatched\<rparr>;
                          s3 = store_plan s2 p'
                      in (\<lparr>dp_dispatched = True, dp_rejection = DispatchRejection.kNone,
                           dp_status = success, dp_attempt = pl_attempt p,
                           dp_dispatch = dispatch_id, dp_state = AttemptState.kDispatched\<rparr>,
                          p',
                          s3\<lparr>sc_stat_plans_dispatched := sc_stat_plans_dispatched s3 + 1\<rparr>))"

text \<open>The registration of the attempt, which comes before any external call.\<close>

definition register_and_send ::
    "DispatchChannel option \<Rightarrow> Scheduler \<Rightarrow> ExecutionPlan \<Rightarrow>
       DispatchResult \<times> ExecutionPlan \<times> Scheduler" where
  "register_and_send channel s p =
     (let (dispatch_id, s1) = next_dispatch_id s;
          (registered, attempts) =
            register_attempt (sc_attempts s1) (attempt_registration p dispatch_id);
          s2 = s1\<lparr>sc_attempts := attempts\<rparr>
      in if \<not> st_ok registered
         then dispatch_failed DispatchRejection.kAttemptRegistrationFailed (st_code registered)
                (st_message registered) p
                (roll_back s2 (pl_reservation p) (st_code registered))
         else send_envelope channel s2 p dispatch_id)"

definition dispatch ::
    "DispatchChannel option \<Rightarrow> Scheduler \<Rightarrow> ExecutionPlan \<Rightarrow>
       DispatchResult \<times> ExecutionPlan \<times> Scheduler" where
  "dispatch channel s p =
     (case dispatch_gate s p of
        Some (rejection, code, detail) \<Rightarrow> dispatch_failed rejection code detail p s
      | None \<Rightarrow>
          let v = revalidation s p in
          if \<not> av_valid v then revalidation_rejected s p v
          else
            case commit_reservation s p of
              (committed, s1) \<Rightarrow>
                if \<not> st_ok committed
                then dispatch_failed DispatchRejection.kReservationInvalid (st_code committed)
                       (st_message committed) (p\<lparr>pl_state := PlanState.kRejected\<rparr>)
                       (roll_back s1 (pl_reservation p) (st_code committed))
                else register_and_send channel s1 p)"

definition plan_reserve_dispatch ::
    "DispatchChannel option \<Rightarrow> Scheduler \<Rightarrow> OperationRequest \<Rightarrow> u8 list \<Rightarrow> DispatchOutcome \<times> Scheduler" where
  "plan_reserve_dispatch channel s request payload =
     (let (planned, s1) = plan s request payload in
      if \<not> pr_planned planned
      then (\<lparr>dc_plan_result = planned, dc_dispatch_result = empty_dispatch_result\<rparr>, s1)
      else
        let (reserved, working, s2) = reserve s1 (pr_plan planned) in
        if \<not> st_ok reserved
        then (\<lparr>dc_plan_result = planned\<lparr>pr_plan := working\<lparr>pl_state := PlanState.kRejected\<rparr>\<rparr>,
               dc_dispatch_result = empty_dispatch_result\<lparr>
                 dp_status := reserved, dp_rejection := DispatchRejection.kReservationInvalid,
                 dp_attempt := pl_attempt working\<rparr>\<rparr>, s2)
        else
          let (result, working, s3) = dispatch channel s2 working
          in (\<lparr>dc_plan_result = planned\<lparr>pr_plan := working\<rparr>, dc_dispatch_result = result\<rparr>, s3))"

section \<open>Completion and failure\<close>

definition complete :: "Scheduler \<Rightarrow> CompletionSubmission \<Rightarrow> CompletionOutcome \<times> Scheduler" where
  "complete s submission =
     (if sub_coordinator_epoch submission \<noteq> sc_epoch s
      then (\<lparr>co_rejection = CompletionRejection.kStaleCoordinatorEpoch, co_committed = False,
             co_idempotent = False,
             co_attempt = (case get_attempt (sc_attempts s) (sub_attempt submission) of
                             None \<Rightarrow> empty_attempt | Some stored \<Rightarrow> stored)\<rparr>,
            s\<lparr>sc_stat_completion_rejections := sc_stat_completion_rejections s + 1\<rparr>)
      else
        case commit_completion (sc_attempts s) submission False of
          (outcome, attempts) \<Rightarrow>
            let s1 = s\<lparr>sc_attempts := attempts\<rparr> in
            if co_committed outcome \<and> \<not> co_idempotent outcome
            then (outcome,
                  erase_plan (release_held s1 (att_reservation (co_attempt outcome))
                                ''completion committed'') (att_id (co_attempt outcome)))
            else if \<not> co_committed outcome
            then (outcome, s1\<lparr>sc_stat_completion_rejections := sc_stat_completion_rejections s1 + 1\<rparr>)
            else (outcome, s1))"

definition report_failure :: "Scheduler \<Rightarrow> u64 \<Rightarrow> FailureKind \<Rightarrow> string \<Rightarrow> Status \<times> Scheduler" where
  "report_failure s attempt kind detail =
     (case get_attempt (sc_attempts s) attempt of
        None \<Rightarrow> (failure ''attempt.not_found'' [], s)
      | Some stored \<Rightarrow>
          if kind \<in> {FailureKind.kAmbiguousOutcome, FailureKind.kWorkerDeath}
          then case mark_ambiguous (sc_attempts s) attempt detail of
                 (st, attempts) \<Rightarrow> (st, s\<lparr>sc_attempts := attempts\<rparr>)
          else case mark_failed (sc_attempts s) attempt kind detail of
                 (st, attempts) \<Rightarrow>
                   let s1 = s\<lparr>sc_attempts := attempts\<rparr>
                   in (st, if st_ok st
                           then release_held s1 (att_reservation stored) (to_string_FailureKind kind)
                           else s1))"

section \<open>Retry and fallback\<close>

definition retry_refused :: "RetryRejection \<Rightarrow> Status \<Rightarrow> RetryResult" where
  "retry_refused rejection st =
     \<lparr>rt_retry_permitted = False, rt_rejection = rejection, rt_status = st, rt_attempt = 0,
      rt_generation = 0, rt_plan = empty_plan\<rparr>"

text \<open>The guards of \<^verbatim>\<open>Scheduler::retry\<close>, in their order: the first that refuses.\<close>

definition retry_gate ::
    "SchedulerPolicy \<Rightarrow> SchedulerLimits \<Rightarrow> ExecutionAttempt \<Rightarrow> (RetryRejection \<times> Status) option" where
  "retry_gate policy limits stored =
     (let next_index = att_retry_index stored + 1 in
      if \<not> rtp_enabled (pol_retry policy)
      then Some (RetryRejection.kPolicyDisallowsRetry, failure ''retry.policy_disabled'' [])
      else if \<not> is_terminal (att_state stored)
      then Some (RetryRejection.kFailureNotRetryable, failure ''retry.attempt_not_terminal'' [])
      else if att_resolution stored \<in> {AttemptResolution.kAmbiguous,
                AttemptResolution.kFencedMayHaveEffect, AttemptResolution.kCancelledAmbiguous}
      then Some (RetryRejection.kAmbiguousOutcome,
             failure ''retry.outcome_ambiguous''
               ''an operation that may already have executed is never replayed automatically'')
      else if \<not> is_replay_safe (att_side_effect stored)
      then Some (RetryRejection.kNonRepeatableOperation,
             failure ''retry.side_effect_not_replay_safe'' [])
      else if \<not> allows (pol_retry policy) (att_failure stored)
      then Some (RetryRejection.kFailureNotRetryable,
             failure ''retry.failure_not_retryable'' (to_string_FailureKind (att_failure stored)))
      else if next_index + 1 > rtp_max_attempts (pol_retry policy)
              \<or> next_index + 1 > li_max_retry_attempts limits
      then Some (RetryRejection.kAttemptLimitReached, failure ''retry.attempt_limit_reached'' [])
      else None)"

definition retry_context :: "ExecutionPlan \<Rightarrow> u32 \<Rightarrow> PlanContext" where
  "retry_context previous next_index =
     \<lparr>pc_request = pl_request previous, pc_payload = Some (pl_payload previous),
      pc_restrict_types = [pl_domain_type previous],
      pc_chain_tried = ex_fallback_chain_tried (pl_explanation previous),
      pc_fallback = pl_fallback previous, pc_fallback_depth = pl_fallback_depth previous,
      pc_fallback_from = pl_fallback_from previous, pc_retry_index = next_index\<rparr>"

definition retry :: "Scheduler \<Rightarrow> u64 \<Rightarrow> RetryResult \<times> Scheduler" where
  "retry s attempt =
     (case get_attempt (sc_attempts s) attempt of
        None \<Rightarrow> (retry_refused RetryRejection.kPolicyDisallowsRetry (failure ''attempt.not_found'' []), s)
      | Some stored \<Rightarrow>
          case retry_gate (sc_policy s) (sc_limits s) stored of
            Some (rejection, st) \<Rightarrow> (retry_refused rejection st, s)
          | None \<Rightarrow>
              case find_plan s attempt of
                None \<Rightarrow>
                  (retry_refused RetryRejection.kPolicyDisallowsRetry
                     (failure ''retry.plan_not_retained'' []), s)
              | Some previous \<Rightarrow>
                  case plan_internal s (retry_context previous (att_retry_index stored + 1)) of
                    (planned, s1) \<Rightarrow>
                      if \<not> pr_planned planned
                      then (retry_refused RetryRejection.kDomainUnavailable (pr_status planned), s1)
                      else
                        (\<lparr>rt_retry_permitted = True, rt_rejection = RetryRejection.kNone,
                          rt_status = success, rt_attempt = pl_attempt (pr_plan planned),
                          rt_generation = pl_attempt_generation (pr_plan planned),
                          rt_plan = pr_plan planned\<rparr>,
                         retire_plan (s1\<lparr>sc_stat_retries := sc_stat_retries s1 + 1\<rparr>) attempt))"

definition fallback_refused ::
    "FallbackRejection \<Rightarrow> Status \<Rightarrow> DecisionExplanation \<Rightarrow> ExecutionDomainType list \<Rightarrow> FallbackResult" where
  "fallback_refused rejection st explanation tried =
     \<lparr>fb_fallback_selected = False, fb_rejection = rejection, fb_status = st, fb_plan = empty_plan,
      fb_explanation = explanation, fb_chain_tried = tried\<rparr>"

definition fallback_context ::
    "ExecutionPlan \<Rightarrow> ExecutionDomainType \<Rightarrow> ExecutionDomainType list \<Rightarrow> PlanContext" where
  "fallback_context p target tried =
     \<lparr>pc_request = pl_request p, pc_payload = Some (pl_payload p),
      pc_restrict_types = [target], pc_chain_tried = tried, pc_fallback = True,
      pc_fallback_depth = pl_fallback_depth p + 1, pc_fallback_from = pl_domain p,
      pc_retry_index = pl_retry_index p\<rparr>"

definition fallback_skips ::
    "SchedulerPolicy \<Rightarrow> ExecutionPlan \<Rightarrow> ExecutionDomainType list \<Rightarrow> ExecutionDomainType \<Rightarrow> bool" where
  "fallback_skips policy p tried target =
     (target = pl_domain_type p \<or> target \<in> set tried
      \<or> target = ExecutionDomainType.kCpu \<and> \<not> fbp_allow_host_fallback (pol_fallback policy))"

text \<open>The loop over the chain: the first target that plans, or what the last one answered.\<close>

fun fallback_loop ::
    "Scheduler \<Rightarrow> ExecutionPlan \<Rightarrow> FailureKind \<Rightarrow> ExecutionDomainType list \<Rightarrow> Status \<Rightarrow>
     DecisionExplanation \<Rightarrow> ExecutionDomainType list \<Rightarrow>
       (FallbackResult + Status \<times> DecisionExplanation \<times> ExecutionDomainType list) \<times> Scheduler" where
  "fallback_loop s p trigger tried last_status last_explanation [] =
     (Inr (last_status, last_explanation, tried), s)"
| "fallback_loop s p trigger tried last_status last_explanation (target # chain) =
     (if fallback_skips (sc_policy s) p tried target
      then fallback_loop s p trigger tried last_status last_explanation chain
      else
        case plan_internal s (fallback_context p target tried) of
          (planned, s1) \<Rightarrow>
            if pr_planned planned
            then (Inl \<lparr>fb_fallback_selected = True, fb_rejection = FallbackRejection.kNone,
                       fb_status = success, fb_plan = pr_plan planned,
                       fb_explanation =
                         add_reason
                           (add_reason (pr_explanation planned)
                              (''fallback.reason.'' @ to_string_FailureKind trigger) [])
                           (''fallback.from.'' @ to_string_ExecutionDomainType (pl_domain_type p)) [],
                       fb_chain_tried = tried @ [target]\<rparr>,
                  s1\<lparr>sc_stat_fallbacks := sc_stat_fallbacks s1 + 1\<rparr>)
            else fallback_loop s1 p trigger (tried @ [target]) (pr_status planned)
                   (pr_explanation planned) chain)"

definition fallback :: "Scheduler \<Rightarrow> ExecutionPlan \<Rightarrow> FailureKind \<Rightarrow> FallbackResult \<times> Scheduler" where
  "fallback s p trigger =
     (let policy = pol_fallback (sc_policy s);
          refuse = (\<lambda>rejection st. (fallback_refused rejection st empty_explanation [], s));
          next_depth = pl_fallback_depth p + 1;
          chain = fallback_chain (sc_policy s) (pl_domain_type p)
      in if \<not> fbp_enabled policy
         then refuse FallbackRejection.kPolicyDisallowsFallback (failure ''fallback.policy_disabled'' [])
         else if next_depth > fbp_max_depth policy \<or> next_depth > li_max_fallback_depth (sc_limits s)
         then refuse FallbackRejection.kFallbackDepthExceeded (failure ''fallback.depth_exceeded'' [])
         else if fallback_graph_has_cycle policy
         then refuse FallbackRejection.kFallbackCycleDetected (failure ''fallback.cycle_detected'' [])
         else if chain = []
         then refuse FallbackRejection.kNoFallbackRegistered
                (failure ''fallback.no_chain_registered''
                   (to_string_ExecutionDomainType (pl_domain_type p)))
         else
           case fallback_loop s p trigger (ex_fallback_chain_tried (pl_explanation p))
                  (failure ''fallback.no_eligible_target'' []) empty_explanation chain of
             (Inl result, s1) \<Rightarrow> (result, s1)
           | (Inr (last_status, last_explanation, tried), s1) \<Rightarrow>
               if \<not> fbp_allow_host_fallback policy \<and> ExecutionDomainType.kCpu \<in> set chain
               then (fallback_refused FallbackRejection.kHostFallbackForbidden
                       (failure ''fallback.host_forbidden'' []) last_explanation tried, s1)
               else (fallback_refused FallbackRejection.kFallbackTargetIneligible last_status
                       last_explanation tried, s1))"

end
