(* ===== verification/Tos_Recovery.thy ===== *)
theory Tos_Recovery
  imports Tos_Dispatch
begin

text \<open>
  Cancellation, fencing, reconciliation, checkpoint and recovery, start and shutdown
  (\<^verbatim>\<open>src/src/core/scheduler.cpp\<close>, \<^verbatim>\<open>src/include/tos/core/snapshot.hpp\<close>,
  \<^verbatim>\<open>src/include/tos/persist/store.hpp\<close>). The durable store is an argument: \<open>save\<close> is the answer of
  \<^verbatim>\<open>StateStore::save\<close> for a path and a state, and the stored state of a path is \<open>None\<close> when there is no
  file and otherwise what \<^verbatim>\<open>StateStore::load\<close> returns. The identities \<^verbatim>\<open>process_unique_u64\<close> hands out at
  start are arguments as well. Log lines are not part of the model.
\<close>

section \<open>Data\<close>

record CancellationResult =
  cn_cancelled :: bool
  cn_ambiguous :: bool
  cn_state :: AttemptState
  cn_resolution :: AttemptResolution
  cn_status :: Status

record PersistedState =
  pt_generation :: u64
  pt_last_epoch :: u64
  pt_policy_generation :: u64
  pt_has_policy :: bool
  pt_policy :: SchedulerPolicy
  pt_domains :: "ExecutionDomainRecord list"
  pt_attempts :: "ExecutionAttempt list"
  pt_fenced_boots :: "u64 list"
  pt_counter_operation :: u64
  pt_counter_plan_sequence :: u64
  pt_counter_dispatch :: u64
  pt_counter_snapshot :: u64
  pt_counter_domain :: u64

record WorkerBootView =
  wb_worker :: u64
  wb_boot :: u64
  wb_current :: bool
  wb_fenced :: bool

record SnapshotTotals =
  tt_domains :: u64
  tt_domains_fenced :: u64
  tt_domains_with_current_evidence :: u64
  tt_live_attempts :: u64
  tt_completed_attempts :: u64
  tt_ambiguous_attempts :: u64
  tt_fenced_attempts :: u64
  tt_outstanding_reservations :: u64
  tt_plans_created :: u64
  tt_plans_dispatched :: u64
  tt_dispatch_rejections :: u64
  tt_completion_rejections :: u64
  tt_fallbacks :: u64
  tt_retries :: u64

record SchedulerSnapshot =
  sn_generation :: u64
  sn_coordinator_epoch :: u64
  sn_policy_generation :: u64
  sn_running :: bool
  sn_mutation_sequence :: u64
  sn_domains :: "ExecutionDomainRecord list"
  sn_workers :: "WorkerBootView list"
  sn_reservations :: "Reservation list"
  sn_attempts :: "ExecutionAttempt list"
  sn_reconciliations :: "ReconciliationReport list"
  sn_totals :: SnapshotTotals
  sn_policy_summary :: SchedulerPolicy

type_synonym store_save = "string \<Rightarrow> PersistedState \<Rightarrow> Status"
type_synonym stored_state = "PersistedState Checked option"

section \<open>Construction\<close>

text \<open>The member initialisers of \<^verbatim>\<open>SchedulerPolicy\<close>: a policy that was never published.\<close>

definition unset_policy :: SchedulerPolicy where
  "unset_policy =
     \<lparr>pol_generation = 0, pol_isolation_generation = 0, pol_compatibility_generation = 0,
      pol_offload_requirement = OffloadRequirement.kAny,
      pol_minimum_isolation = IsolationClass.kUnknown, pol_require_positive_evidence = True,
      pol_allow_unsupported_provenance = False, pol_forbidden_domains = [],
      pol_forbidden_domain_ids = [], pol_forbidden_provenance = [],
      pol_weights = default_ranking_weights, pol_preference_order = [],
      pol_reservation = \<lparr>rsp_enabled = False, rsp_per_operation = (\<lambda>_. 0),
                         rsp_require_reservation_for_offload_only = True\<rparr>,
      pol_retry = \<lparr>rtp_enabled = False, rtp_max_attempts = 1, rtp_retryable = (\<lambda>_. False),
                   rtp_max_ambiguous_retries = 0\<rparr>,
      pol_fallback = \<lparr>fbp_enabled = False, fbp_max_depth = 0, fbp_chains = (\<lambda>_. []),
                      fbp_allow_host_fallback = True\<rparr>,
      pol_freshness = default_freshness, pol_type_setup_cost_units = (\<lambda>_. 0),
      pol_type_per_byte_cost_micro_units = (\<lambda>_. 0), pol_maximum_cost_units = 0,
      pol_max_reported_candidates = kMaxReportedCandidates\<rparr>"

definition default_options :: SchedulerOptions where
  "default_options =
     \<lparr>so_policy = unset_policy, so_limits = default_limits, so_initial_epoch = 0, so_host_node = [],
      so_state_path = [], so_persist_on_mutation = False, so_enable_persistence = False,
      so_recover_on_start = True, so_local_provenance = Provenance.kReal\<rparr>"

definition kDefaultShards :: nat where "kDefaultShards = 64"

definition new_scheduler :: "SchedulerOptions \<Rightarrow> Scheduler" where
  "new_scheduler options =
     (let limits = (so_limits options)
            \<lparr>li_max_frame_bytes := (if li_max_frame_bytes (so_limits options) = 0 then 1024 * 1024
                                   else li_max_frame_bytes (so_limits options))\<rparr>
      in \<lparr>sc_options = options, sc_limits = limits, sc_policy = unset_policy,
          sc_registry = builtin_descriptors,
          sc_domains = snd (set_max_domains new_registry
             (if li_max_domains limits = 0 then kMaxExecutionDomains else li_max_domains limits)),
          sc_workers = new_worker_authority,
          sc_reservations = new_reservation_ledger kDefaultShards,
          sc_attempts = new_attempt_ledger kDefaultShards, sc_plans = [], sc_retired_plans = [],
          sc_retired_order = [], sc_reports = [], sc_recovered_domains = [],
          sc_recovered_from_state = False, sc_running = False, sc_stopping = False,
          sc_operation_counter = 0, sc_plan_sequence = 0, sc_dispatch_counter = 0,
          sc_snapshot_counter = 0, sc_domain_counter = 0, sc_persisted_generation = 0, sc_epoch = 0,
          sc_local_worker = 0, sc_local_boot = 0, sc_stat_plans_created = 0,
          sc_stat_plans_dispatched = 0, sc_stat_dispatch_rejections = 0,
          sc_stat_completion_rejections = 0, sc_stat_fallbacks = 0, sc_stat_retries = 0\<rparr>)"

section \<open>Cancellation\<close>

definition in_flight :: "ExecutionAttempt \<Rightarrow> bool" where
  "in_flight a \<longleftrightarrow> att_state a = AttemptState.kDispatched \<or> att_state a = AttemptState.kDispatching"

definition cancel_envelope :: "ExecutionAttempt \<Rightarrow> CancelEnvelope" where
  "cancel_envelope stored =
     \<lparr>cv_attempt = att_id stored, cv_attempt_generation = att_generation stored,
      cv_dispatch = att_dispatch stored, cv_coordinator_epoch = att_coordinator_epoch stored,
      cv_worker_boot = att_worker_boot stored, cv_domain = att_domain stored,
      cv_may_have_executed = True\<rparr>"

definition empty_cancellation :: CancellationResult where
  "empty_cancellation =
     \<lparr>cn_cancelled = False, cn_ambiguous = False, cn_state = AttemptState.kPlanned,
      cn_resolution = AttemptResolution.kNone, cn_status = success\<rparr>"

text \<open>The question to the channel, when the attempt crossed it.\<close>

definition request_cancel ::
    "DispatchChannel option \<Rightarrow> Scheduler \<Rightarrow> ExecutionAttempt \<Rightarrow> bool \<times> Scheduler" where
  "request_cancel channel s stored =
     (case channel of
        None \<Rightarrow> (False, s)
      | Some ch \<Rightarrow>
          if in_flight stored
          then case ch_request_cancel ch (cancel_envelope stored) s of
                 (requested, s1) \<Rightarrow> (\<not> requested \<or> \<not> is_replay_safe (att_side_effect stored), s1)
          else (False, s))"

definition cancel_attempt ::
    "DispatchChannel option \<Rightarrow> Scheduler \<Rightarrow> u64 \<Rightarrow> ExecutionAttempt \<Rightarrow> CancellationResult \<times> Scheduler" where
  "cancel_attempt channel s attempt stored =
     (if is_terminal (att_state stored)
      then (empty_cancellation\<lparr>cn_state := att_state stored, cn_resolution := att_resolution stored,
                               cn_status := failure ''attempt.already_terminal'' []\<rparr>, s)
      else
        case request_cancel channel s stored of
          (ambiguous, s1) \<Rightarrow>
            case mark_cancelled (sc_attempts s1) attempt (in_flight stored) ''cancelled by caller'' of
              (cancelled, attempts) \<Rightarrow>
                let s2 = s1\<lparr>sc_attempts := attempts\<rparr>;
                    result = empty_cancellation\<lparr>cn_ambiguous := ambiguous\<rparr>
                in if \<not> st_ok cancelled then (result\<lparr>cn_status := cancelled\<rparr>, s2)
                   else
                     (result\<lparr>cn_cancelled := True, cn_state := AttemptState.kCancelled,
                             cn_resolution := (if in_flight stored
                                               then AttemptResolution.kCancelledAmbiguous
                                               else AttemptResolution.kCancelledBeforeDispatch)\<rparr>,
                      erase_plan (release_held s2 (att_reservation stored) ''cancelled'') attempt))"

text \<open>A plan that was never dispatched: its reservation is rolled back, or released if committed.\<close>

definition close_reservation :: "Scheduler \<Rightarrow> u64 \<Rightarrow> string \<Rightarrow> Scheduler" where
  "close_reservation s i reason =
     (if valid i
      then case rollback (sc_reservations s) i reason of
             (closed, reservations) \<Rightarrow>
               let s1 = s\<lparr>sc_reservations := reservations\<rparr>
               in if \<not> st_ok closed
                  then s1\<lparr>sc_reservations := snd (release_reservation (sc_reservations s1) i reason)\<rparr>
                  else s1
      else s)"

definition cancel_plan :: "Scheduler \<Rightarrow> u64 \<Rightarrow> ExecutionPlan \<Rightarrow> CancellationResult \<times> Scheduler" where
  "cancel_plan s attempt pending =
     (if pl_state pending \<noteq> PlanState.kCreated \<and> pl_state pending \<noteq> PlanState.kReserved
      then (empty_cancellation\<lparr>cn_state := AttemptState.kDispatched,
                               cn_status := failure ''plan.consumed'' []\<rparr>, s)
      else
        (empty_cancellation\<lparr>cn_cancelled := True, cn_state := AttemptState.kCancelled,
                            cn_resolution := AttemptResolution.kCancelledBeforeDispatch\<rparr>,
         retire_plan (close_reservation s (pl_reservation pending) ''plan cancelled'') attempt))"

definition cancel :: "DispatchChannel option \<Rightarrow> Scheduler \<Rightarrow> u64 \<Rightarrow> CancellationResult \<times> Scheduler" where
  "cancel channel s attempt =
     (case get_attempt (sc_attempts s) attempt of
        Some stored \<Rightarrow> cancel_attempt channel s attempt stored
      | None \<Rightarrow>
          case find_plan s attempt of
            Some pending \<Rightarrow> cancel_plan s attempt pending
          | None \<Rightarrow> (empty_cancellation\<lparr>cn_status := failure ''attempt.not_found'' []\<rparr>, s))"

section \<open>Checkpoint\<close>

text \<open>In-flight work is recorded as ambiguous when it may have taken effect, otherwise as fenced.\<close>

definition checkpoint_attempt :: "ExecutionAttempt \<Rightarrow> ExecutionAttempt" where
  "checkpoint_attempt a =
     (if is_terminal (att_state a) then a
      else a\<lparr>att_state := (if in_flight a then AttemptState.kOutcomeUnknown else AttemptState.kFenced),
             att_resolution := (if in_flight a then AttemptResolution.kAmbiguous
                                else AttemptResolution.kFencedNoEffect),
             att_completion_committed := False,
             att_close_reason := ''recovered from durable state: in-flight at checkpoint'',
             att_failure := (if in_flight a then FailureKind.kAmbiguousOutcome
                             else FailureKind.kWorkerDeath)\<rparr>)"

definition persisted_state :: "Scheduler \<Rightarrow> PersistedState" where
  "persisted_state s =
     \<lparr>pt_generation = (if published (sc_persisted_generation s) then sc_persisted_generation s + 1
                       else 1),
      pt_last_epoch = sc_epoch s, pt_policy_generation = pol_generation (sc_policy s),
      pt_has_policy = True, pt_policy = sc_policy s, pt_domains = all_domains (sc_domains s),
      pt_attempts = map checkpoint_attempt
        (list_attempts (sc_attempts s) (li_max_historical_attempts (sc_limits s))),
      pt_fenced_boots = fenced_boots (sc_workers s),
      pt_counter_operation = sc_operation_counter s,
      pt_counter_plan_sequence = sc_plan_sequence s, pt_counter_dispatch = sc_dispatch_counter s,
      pt_counter_snapshot = sc_snapshot_counter s, pt_counter_domain = sc_domain_counter s\<rparr>"

definition save_state_to :: "store_save \<Rightarrow> Scheduler \<Rightarrow> string \<Rightarrow> Status \<times> Scheduler" where
  "save_state_to save s path =
     (if path = [] then (failure ''state.no_path'' [], s)
      else
        let state = persisted_state s; saved = save path state
        in (saved, if st_ok saved then s\<lparr>sc_persisted_generation := pt_generation state\<rparr> else s))"

definition save_state :: "store_save \<Rightarrow> Scheduler \<Rightarrow> Status \<times> Scheduler" where
  "save_state save s = save_state_to save s (so_state_path (sc_options s))"

definition save_on_mutation :: "store_save \<Rightarrow> Scheduler \<Rightarrow> Scheduler" where
  "save_on_mutation save s =
     (if so_enable_persistence (sc_options s) \<and> so_persist_on_mutation (sc_options s)
      then snd (save_state save s) else s)"

section \<open>Fencing\<close>

text \<open>The body of the fencing loops over the live attempts.\<close>

definition close_live_attempt :: "string \<Rightarrow> AttemptLedger \<Rightarrow> ExecutionAttempt \<Rightarrow> AttemptLedger" where
  "close_live_attempt reason l a =
     (if in_flight a then snd (mark_ambiguous l (att_id a) reason)
      else snd (mark_fenced l (att_id a) False reason))"

definition fence_attempt :: "string \<Rightarrow> Scheduler \<Rightarrow> ExecutionAttempt \<Rightarrow> Scheduler" where
  "fence_attempt reason s a =
     erase_plan (s\<lparr>sc_attempts := close_live_attempt reason (sc_attempts s) a\<rparr>) (att_id a)"

definition invalidate_reservations :: "string \<Rightarrow> Scheduler \<Rightarrow> ExecutionDomainRecord \<Rightarrow> Scheduler" where
  "invalidate_reservations reason s domain =
     s\<lparr>sc_reservations := snd (invalidate_domain (sc_reservations s) (dr_id domain) reason)\<rparr>"

definition fence_domain ::
    "store_save \<Rightarrow> Scheduler \<Rightarrow> u64 \<Rightarrow> string \<Rightarrow> Status \<times> Scheduler" where
  "fence_domain save s domain reason =
     (case find_domain (sc_domains s) domain of
        None \<Rightarrow> (failure ''domain.not_registered'' [], s)
      | Some _ \<Rightarrow>
          case fence (sc_domains s) domain reason of
            (fenced, domains) \<Rightarrow>
              if \<not> st_ok fenced then (fenced, s\<lparr>sc_domains := domains\<rparr>)
              else
                let s1 = s\<lparr>sc_domains := domains,
                           sc_reservations := snd (invalidate_domain (sc_reservations s) domain reason)\<rparr>;
                    s2 = foldl (fence_attempt reason) s1
                           (filter (\<lambda>a. att_domain a = domain) (list_live (sc_attempts s1)))
                in (success, save_on_mutation save s2))"

definition fence_worker_boot ::
    "store_save \<Rightarrow> Scheduler \<Rightarrow> u64 \<Rightarrow> string \<Rightarrow> Status \<times> Scheduler" where
  "fence_worker_boot save s boot reason =
     (case fence_boot (sc_workers s) boot reason of
        (fenced, workers) \<Rightarrow>
          if \<not> st_ok fenced then (fenced, s\<lparr>sc_workers := workers\<rparr>)
          else
            let s1 = s\<lparr>sc_workers := workers,
                       sc_domains := snd (fence_registry_boot (sc_domains s) boot reason)\<rparr>;
                s2 = foldl (invalidate_reservations reason) s1
                       (filter (\<lambda>d. dr_worker_boot d = boot) (all_domains (sc_domains s1)));
                s3 = foldl (fence_attempt (''worker incarnation fenced: '' @ reason)) s2
                       (filter (\<lambda>a. att_worker_boot a = boot) (list_live (sc_attempts s2)))
            in (success, save_on_mutation save s3))"

definition withdraw_evidence :: "Scheduler \<Rightarrow> u64 \<Rightarrow> string \<Rightarrow> Status \<times> Scheduler" where
  "withdraw_evidence s domain reason =
     on_domains s (\<lambda>g. mark_domain_evidence_stale g domain reason)"

definition remove_domain :: "Scheduler \<Rightarrow> u64 \<Rightarrow> Status \<times> Scheduler" where
  "remove_domain s domain =
     on_domains (s\<lparr>sc_reservations :=
                    snd (invalidate_domain (sc_reservations s) domain ''domain removed'')\<rparr>)
       (\<lambda>g. remove g domain)"

section \<open>Recovery\<close>

text \<open>Phase one: the durable state is compared with the live runtime before anything is applied.\<close>

definition load_conflict :: "Scheduler \<Rightarrow> PersistedState \<Rightarrow> Status" where
  "load_conflict s state =
     (if list_ex (\<lambda>d. case find_domain (sc_domains s) (dr_id d) of
                        None \<Rightarrow> False | Some existing \<Rightarrow> dr_generation existing > dr_generation d)
           (pt_domains state)
      then failure ''state.generation_rollback''
             ''durable domain generation is below the live generation''
      else if list_ex (\<lambda>a. get_attempt (sc_attempts s) (att_id a) \<noteq> None) (pt_attempts state)
      then failure ''attempt.duplicate_identity''
             ''durable attempt identity already exists in the live ledger''
      else success)"

text \<open>Phase two, the attempts: the loop stops at the first refused record.\<close>

fun restore_attempts :: "AttemptLedger \<Rightarrow> ExecutionAttempt list \<Rightarrow> Status \<times> AttemptLedger" where
  "restore_attempts l [] = (success, l)"
| "restore_attempts l (a # as) =
     (case restore_attempt l a of
        (restored, l') \<Rightarrow>
          if \<not> st_ok restored
          then (failure ''state.apply_failed''
                  (''attempt restore rejected after validation: '' @ st_code restored), l')
          else restore_attempts l' as)"

fun restore_domains :: "Scheduler \<Rightarrow> ExecutionDomainRecord list \<Rightarrow> Status \<times> Scheduler" where
  "restore_domains s [] = (success, s)"
| "restore_domains s (d # ds) =
     (case upsert (sc_domains s) d True of
        (Bad st, domains) \<Rightarrow>
          (failure ''state.apply_failed''
             (''domain restore rejected after validation: '' @ st_code st), s\<lparr>sc_domains := domains\<rparr>)
      | (Good _, domains) \<Rightarrow>
          let s1 = s\<lparr>sc_domains := domains\<rparr> in
          if \<not> same_capacity (dr_capacity d) no_amounts
          then case set_domain_capacity s1 (dr_id d) (dr_capacity d) of
                 (st, s2) \<Rightarrow> if \<not> st_ok st then (st, s2) else restore_domains s2 ds
          else restore_domains s1 ds)"

definition fence_recovered_boots :: "WorkerAuthority \<Rightarrow> PersistedState \<Rightarrow> WorkerAuthority" where
  "fence_recovered_boots wa state =
     (let wa1 = foldl (\<lambda>wa boot. snd (fence_boot wa boot ''persisted fence'')) wa
                  (pt_fenced_boots state)
      in foldl (\<lambda>wa d. if valid (dr_worker_boot d)
                       then snd (fence_boot wa (dr_worker_boot d)
                                   ''recovered boot identity requires re-registration'')
                       else wa) wa1 (pt_domains state))"

text \<open>What follows the last step that can refuse.\<close>

definition adopt_state :: "Scheduler \<Rightarrow> PersistedState \<Rightarrow> Scheduler" where
  "adopt_state s state =
     s\<lparr>sc_domains := snd (mark_dynamic_evidence_stale (sc_domains s)
                           ''recovered: dynamic evidence requires revalidation''),
       sc_workers := fence_recovered_boots (sc_workers s) state,
       sc_persisted_generation := pt_generation state, sc_epoch := pt_last_epoch state,
       sc_operation_counter := max (sc_operation_counter s) (pt_counter_operation state),
       sc_plan_sequence := max (sc_plan_sequence s) (pt_counter_plan_sequence state),
       sc_dispatch_counter := max (sc_dispatch_counter s) (pt_counter_dispatch state),
       sc_snapshot_counter := max (sc_snapshot_counter s) (pt_counter_snapshot state),
       sc_domain_counter := max (sc_domain_counter s) (pt_counter_domain state),
       sc_policy := (if pt_has_policy state
                        \<and> pol_generation (pt_policy state) \<ge> pol_generation (sc_policy s)
                     then pt_policy state else sc_policy s),
       sc_recovered_domains := pt_domains state, sc_recovered_from_state := True\<rparr>"

definition apply_state :: "Scheduler \<Rightarrow> PersistedState \<Rightarrow> Status \<times> Scheduler" where
  "apply_state s state =
     (case restore_attempts (sc_attempts s) (pt_attempts state) of
        (restored, attempts) \<Rightarrow>
          if \<not> st_ok restored then (restored, s\<lparr>sc_attempts := attempts\<rparr>)
          else
            let s1 = s\<lparr>sc_attempts := adopt_attempt_ids attempts (map att_id (pt_attempts state)),
                       sc_reservations := adopt_reservation_ids (sc_reservations s)
                         (filter valid (map att_reservation (pt_attempts state)))\<rparr>
            in case restore_domains s1 (pt_domains state) of
                 (st, s2) \<Rightarrow>
                   if \<not> st_ok st then (st, s2) else (success, adopt_state s2 state))"

definition load_state_from :: "Scheduler \<Rightarrow> string \<Rightarrow> stored_state \<Rightarrow> Status \<times> Scheduler" where
  "load_state_from s path stored =
     (if path = [] then (failure ''state.no_path'' [], s)
      else case stored of
             None \<Rightarrow> (failure ''state.missing'' path, s)
           | Some (Bad st) \<Rightarrow> (failure (st_code st) (st_message st), s)
           | Some (Good state) \<Rightarrow>
               if \<not> st_ok (load_conflict s state) then (load_conflict s state, s)
               else apply_state s state)"

definition load_state :: "Scheduler \<Rightarrow> stored_state \<Rightarrow> Status \<times> Scheduler" where
  "load_state s stored = load_state_from s (so_state_path (sc_options s)) stored"

section \<open>Start and shutdown\<close>

definition starting_policy :: "Scheduler \<Rightarrow> SchedulerPolicy" where
  "starting_policy s =
     (let configured = so_policy (sc_options s) in
      if \<not> published (pol_generation (sc_policy s))
      then if published (pol_generation configured) then configured else make_default_policy
      else if published (pol_generation configured)
              \<and> pol_generation configured > pol_generation (sc_policy s)
      then configured else sc_policy s)"

definition start :: "Scheduler \<Rightarrow> stored_state \<Rightarrow> u64 \<Rightarrow> u64 \<Rightarrow> Status \<times> Scheduler" where
  "start s stored worker boot =
     (if sc_running s then (failure ''scheduler.already_running'' [], s)
      else
        let s0 = s\<lparr>sc_stopping := False\<rparr>;
            options = sc_options s0;
            (recovered, s1) =
              (if so_enable_persistence options \<and> so_recover_on_start options
                  \<and> so_state_path options \<noteq> []
               then load_state s0 stored else (success, s0))
        in if \<not> st_ok recovered \<and> st_code recovered \<noteq> ''state.missing''
              \<and> st_code recovered \<noteq> ''file.missing''
           then (recovered, s1)
           else
             let base_epoch = max (so_initial_epoch options)
                   (if published (sc_persisted_generation s1) then sc_epoch s1 else 0);
                 s2 = s1\<lparr>sc_policy := starting_policy s1, sc_epoch := base_epoch + 1,
                         sc_local_worker := worker, sc_local_boot := boot\<rparr>
             in case register_boot (sc_workers s2) worker boot ''local'' of
                  (st, workers) \<Rightarrow>
                    let s3 = s2\<lparr>sc_workers := workers\<rparr> in
                    if \<not> st_ok st then (st, s3)
                    else (success, s3\<lparr>sc_reports := [], sc_running := True\<rparr>))"

text \<open>The loop of \<^verbatim>\<open>shutdown\<close> gives each state its own reason.\<close>

definition stop_attempt :: "AttemptLedger \<Rightarrow> ExecutionAttempt \<Rightarrow> AttemptLedger" where
  "stop_attempt l a =
     close_live_attempt
       (if in_flight a then ''scheduler shutdown: outcome unknown''
        else ''scheduler shutdown before dispatch'') l a"

definition shutdown ::
    "store_save \<Rightarrow> DispatchChannel option \<Rightarrow> Scheduler \<Rightarrow> Status \<times> Scheduler" where
  "shutdown save channel s =
     (if \<not> sc_running s then (success, s)
      else
        let s1 = s\<lparr>sc_stopping := True,
                   sc_attempts := foldl stop_attempt (sc_attempts s) (list_live (sc_attempts s))\<rparr>;
            s2 = foldl (invalidate_reservations ''scheduler shutdown'') s1 (all_domains (sc_domains s1));
            s3 = (case channel of None \<Rightarrow> s2 | Some ch \<Rightarrow> ch_shutdown ch s2);
            s4 = s3\<lparr>sc_plans := []\<rparr>;
            s5 = (if so_enable_persistence (sc_options s4) \<and> so_state_path (sc_options s4) \<noteq> []
                  then snd (save_state save s4) else s4)
        in (success, s5\<lparr>sc_running := False\<rparr>))"

section \<open>Inspection\<close>

definition worker_views :: "WorkerAuthority \<Rightarrow> WorkerBootView list" where
  "worker_views wa =
     (let live = live_boots wa in
      sort_by wb_boot
        (map (\<lambda>(worker, boot). \<lparr>wb_worker = worker, wb_boot = boot, wb_current = True, wb_fenced = False\<rparr>) live
         @ map (\<lambda>boot. \<lparr>wb_worker = 0, wb_boot = boot, wb_current = False, wb_fenced = True\<rparr>)
             (filter (\<lambda>boot. boot \<notin> snd ` set live) (fenced_boots wa))))"

definition snapshot_totals ::
    "Scheduler \<Rightarrow> ExecutionDomainRecord list \<Rightarrow> ExecutionAttempt list \<Rightarrow> SnapshotTotals" where
  "snapshot_totals s domains attempts =
     (let many = (\<lambda>p. of_nat (length (filter p attempts))) in
      \<lparr>tt_domains = of_nat (length domains),
       tt_domains_fenced = of_nat (length (filter dr_fenced domains)),
       tt_domains_with_current_evidence =
         of_nat (length (filter (\<lambda>d. load_published (dr_load d)) domains)),
       tt_live_attempts = many (\<lambda>a. \<not> is_terminal (att_state a)),
       tt_completed_attempts = many (\<lambda>a. att_state a = AttemptState.kCompleted),
       tt_ambiguous_attempts = many (\<lambda>a. att_state a = AttemptState.kOutcomeUnknown),
       tt_fenced_attempts = many (\<lambda>a. att_state a = AttemptState.kFenced),
       tt_outstanding_reservations = outstanding_count (sc_reservations s),
       tt_plans_created = sc_stat_plans_created s, tt_plans_dispatched = sc_stat_plans_dispatched s,
       tt_dispatch_rejections = sc_stat_dispatch_rejections s,
       tt_completion_rejections = sc_stat_completion_rejections s,
       tt_fallbacks = sc_stat_fallbacks s, tt_retries = sc_stat_retries s\<rparr>)"

definition snapshot :: "Scheduler \<Rightarrow> SchedulerSnapshot \<times> Scheduler" where
  "snapshot s =
     (let s' = s\<lparr>sc_snapshot_counter := sc_snapshot_counter s + 1\<rparr>;
          domains = all_domains (sc_domains s);
          attempts = list_attempts (sc_attempts s)
            (li_max_live_attempts (sc_limits s) + li_max_historical_attempts (sc_limits s))
      in (\<lparr>sn_generation = sc_snapshot_counter s', sn_coordinator_epoch = sc_epoch s,
           sn_policy_generation = pol_generation (sc_policy s), sn_running = sc_running s,
           sn_mutation_sequence = rg_mutation_sequence (sc_domains s), sn_domains = domains,
           sn_workers = worker_views (sc_workers s),
           sn_reservations = list_reservations (sc_reservations s)
             (li_max_outstanding_reservations (sc_limits s)),
           sn_attempts = attempts, sn_reconciliations = sc_reports s,
           sn_totals = snapshot_totals s domains attempts, sn_policy_summary = sc_policy s\<rparr>, s'))"

definition empty_item :: ReconciliationItem where
  "empty_item =
     \<lparr>ri_kind = DiscrepancyKind.kDomainMissing, ri_domain = 0, ri_domain_name = [],
      ri_expected_generation = 0, ri_observed_generation = 0, ri_expected_boot = 0,
      ri_observed_boot = 0, ri_attempt = 0, ri_detail = []\<rparr>"

definition domain_item :: "ExecutionDomainRecord \<Rightarrow> DiscrepancyKind \<Rightarrow> string \<Rightarrow> ReconciliationItem" where
  "domain_item d kind detail =
     empty_item\<lparr>ri_kind := kind, ri_domain := dr_id d, ri_domain_name := dr_name d, ri_detail := detail\<rparr>"

text \<open>The discrepancies between a durable record and the live record of the same identity.\<close>

definition domain_discrepancies ::
    "ExecutionDomainRecord \<Rightarrow> ExecutionDomainRecord \<Rightarrow> ReconciliationItem list" where
  "domain_discrepancies durable current =
     (let mk = domain_item durable;
          generations = (\<lambda>item. item\<lparr>ri_expected_generation := dr_generation durable,
                                     ri_observed_generation := dr_generation current\<rparr>);
          now = cap_capability (dr_capability current);
          was = cap_capability (dr_capability durable)
      in (if dr_generation current < dr_generation durable
          then [generations (mk DiscrepancyKind.kGenerationRegressed
                  ''live domain generation is below the durable generation'')]
          else if dr_generation current \<noteq> dr_generation durable
          then [generations (mk DiscrepancyKind.kDomainGenerationChanged
                  ''domain generation advanced since the durable record'')]
          else [])
         @ (if dr_worker_boot current \<noteq> dr_worker_boot durable
            then [(mk DiscrepancyKind.kWorkerReplaced
                    ''a different worker incarnation owns this domain'')
                    \<lparr>ri_expected_boot := dr_worker_boot durable,
                     ri_observed_boot := dr_worker_boot current\<rparr>]
            else [])
         @ (if cs_operations now \<noteq> cs_operations was
            then [mk DiscrepancyKind.kOperationNoLongerSupported ''published operation classes changed'']
            else [])
         @ (if cs_max_payload_bytes now \<noteq> cs_max_payload_bytes was
               \<or> cs_queue_capacity now \<noteq> cs_queue_capacity was
            then [mk DiscrepancyKind.kQueueSupportChanged ''payload or queue capacity changed'']
            else [])
         @ (if cm_driver_backend_version (dr_compatibility current)
               \<noteq> cm_driver_backend_version (dr_compatibility durable)
            then [mk DiscrepancyKind.kBackendVersionChanged ''driver/backend version changed'']
            else [])
         @ (if cm_firmware_generation (dr_compatibility current)
               \<noteq> cm_firmware_generation (dr_compatibility durable)
            then [mk DiscrepancyKind.kFirmwareGenerationChanged ''firmware generation changed'']
            else [])
         @ (if \<not> load_published (dr_load current)
            then [mk DiscrepancyKind.kCapabilityChanged
                    ''dynamic evidence is not current: revalidation required'']
            else []))"

text \<open>
  The loop over the durable records; \<open>live\<close> is \<^verbatim>\<open>live_by_id\<close>, from which a matched identity is erased,
  and the accumulator holds the items and the number of records without a discrepancy.
\<close>

fun compare_domains ::
    "ExecutionDomainRecord list \<Rightarrow> ReconciliationItem list \<times> u64 \<Rightarrow> ExecutionDomainRecord list \<Rightarrow>
       ReconciliationItem list \<times> u64 \<times> ExecutionDomainRecord list" where
  "compare_domains live (items, matched) [] = (items, matched, live)"
| "compare_domains live (items, matched) (durable # rest) =
     (case find (\<lambda>d. dr_id d = dr_id durable) live of
        None \<Rightarrow>
          compare_domains live
            (items @ [(domain_item durable DiscrepancyKind.kDomainMissing
                         ''durable domain identity is not present in the live runtime'')
                        \<lparr>ri_expected_generation := dr_generation durable\<rparr>], matched) rest
      | Some current \<Rightarrow>
          let found = domain_discrepancies durable current
          in compare_domains (filter (\<lambda>d. dr_id d \<noteq> dr_id durable) live)
               (items @ found, if found = [] then matched + 1 else matched) rest)"

definition unregistered_item :: "ExecutionDomainRecord \<Rightarrow> ReconciliationItem" where
  "unregistered_item d =
     (domain_item d DiscrepancyKind.kUnregisteredLiveDomain
        ''live execution domain has no durable counterpart'')
       \<lparr>ri_observed_generation := dr_generation d, ri_observed_boot := dr_worker_boot d\<rparr>"

definition live_attempt_item :: "ExecutionAttempt \<Rightarrow> ReconciliationItem" where
  "live_attempt_item a =
     empty_item\<lparr>ri_kind := DiscrepancyKind.kInFlightAttemptAmbiguous, ri_domain := att_domain a,
                ri_attempt := att_id a,
                ri_detail := ''in-flight attempt remains conservative until its executor answers''\<rparr>"

definition keep_reports :: "nat \<Rightarrow> ReconciliationReport list \<Rightarrow> ReconciliationReport list" where
  "keep_reports limit reports = drop (length reports - limit) reports"

definition reconcile :: "Scheduler \<Rightarrow> ReconciliationReport \<times> Scheduler" where
  "reconcile s =
     (let expected = sc_recovered_domains s;
          (items, matched, unmatched) =
            compare_domains (all_domains (sc_domains s)) ([], 0) expected;
          live = list_live (sc_attempts s);
          all_items = items @ map unregistered_item unmatched @ map live_attempt_item live;
          report = \<lparr>rr_coordinator_epoch = sc_epoch s, rr_snapshot = sc_snapshot_counter s + 1,
                    rr_domains_compared = of_nat (length expected), rr_domains_matched = matched,
                    rr_discrepancies = of_nat (length all_items),
                    rr_attempts_classified = of_nat (length live), rr_conservative = True,
                    rr_items = all_items\<rparr>
      in (report,
          s\<lparr>sc_snapshot_counter := sc_snapshot_counter s + 1,
            sc_reports := keep_reports (li_max_snapshot_history (sc_limits s)) (sc_reports s @ [report])\<rparr>))"

end
