(* ===== verification/Tos_System.thy ===== *)
theory Tos_System
  imports Tos_Recovery
begin

text \<open>
  The scheduler as a system of components. \<open>component_run\<close> is the abstract specification: each of the
  four stateful components (reservation ledger, attempt ledger, worker authority, domain registry)
  only ever moves along its own step relation. Every public operation of the scheduler is shown to
  refine it, so the life cycle contracts of the components hold of the running scheduler.
\<close>

section \<open>Runs of the components\<close>

definition domain_step :: "DomainRegistry \<Rightarrow> DomainRegistry \<Rightarrow> bool" where
  "domain_step g g' \<longleftrightarrow> registry_step g g' \<or> (\<exists>domain. g' = snd (remove g domain))"

definition component_run :: "Scheduler \<Rightarrow> Scheduler \<Rightarrow> bool" where
  "component_run s s' \<longleftrightarrow>
     ledger_step\<^sup>*\<^sup>* (sc_reservations s) (sc_reservations s')
     \<and> attempt_step\<^sup>*\<^sup>* (sc_attempts s) (sc_attempts s')
     \<and> worker_step\<^sup>*\<^sup>* (sc_workers s) (sc_workers s')
     \<and> domain_step\<^sup>*\<^sup>* (sc_domains s) (sc_domains s')"

definition scheduler_inv :: "Scheduler \<Rightarrow> bool" where
  "scheduler_inv s \<longleftrightarrow>
     ledger_inv (sc_reservations s) \<and> attempts_inv (sc_attempts s) \<and> worker_inv (sc_workers s)
     \<and> registry_inv (sc_domains s)"

lemma component_run_refl [simp]: "component_run s s"
  by (simp add: component_run_def)

lemma component_run_trans [trans]: "component_run s t \<Longrightarrow> component_run t u \<Longrightarrow> component_run s u"
  by (auto simp: component_run_def)

lemma component_run_same:
  assumes "sc_reservations t = sc_reservations s" and "sc_attempts t = sc_attempts s"
    and "sc_workers t = sc_workers s" and "sc_domains t = sc_domains s"
  shows "component_run s t"
  using assms by (simp add: component_run_def)

lemma run_ledger:
  assumes "ledger_step\<^sup>*\<^sup>* (sc_reservations s) (sc_reservations t)" and "sc_attempts t = sc_attempts s"
    and "sc_workers t = sc_workers s" and "sc_domains t = sc_domains s"
  shows "component_run s t"
  using assms by (simp add: component_run_def)

lemma run_attempts:
  assumes "attempt_step\<^sup>*\<^sup>* (sc_attempts s) (sc_attempts t)" and "sc_reservations t = sc_reservations s"
    and "sc_workers t = sc_workers s" and "sc_domains t = sc_domains s"
  shows "component_run s t"
  using assms by (simp add: component_run_def)

lemma run_domains:
  assumes "domain_step (sc_domains s) (sc_domains t)" and "sc_reservations t = sc_reservations s"
    and "sc_workers t = sc_workers s" and "sc_attempts t = sc_attempts s"
  shows "component_run s t"
  using assms by (simp add: component_run_def r_into_rtranclp)

lemma run_workers:
  assumes "worker_step (sc_workers s) (sc_workers t)" and "sc_reservations t = sc_reservations s"
    and "sc_domains t = sc_domains s" and "sc_attempts t = sc_attempts s"
  shows "component_run s t"
  using assms by (simp add: component_run_def r_into_rtranclp)

lemma plans_frame [simp]:
  "sc_reservations (store_plan s p) = sc_reservations s" "sc_attempts (store_plan s p) = sc_attempts s"
  "sc_workers (store_plan s p) = sc_workers s" "sc_domains (store_plan s p) = sc_domains s"
  "sc_reservations (erase_plan s i) = sc_reservations s" "sc_attempts (erase_plan s i) = sc_attempts s"
  "sc_workers (erase_plan s i) = sc_workers s" "sc_domains (erase_plan s i) = sc_domains s"
  by (simp_all add: store_plan_def erase_plan_def)

lemma retire_frame [simp]:
  "sc_reservations (retire_plan s i) = sc_reservations s" "sc_attempts (retire_plan s i) = sc_attempts s"
  "sc_workers (retire_plan s i) = sc_workers s" "sc_domains (retire_plan s i) = sc_domains s"
  by (simp_all add: retire_plan_def Let_def split: prod.split)

lemma component_run_frame [simp]:
  "component_run s (store_plan t p) = component_run s t"
  "component_run s (erase_plan t i) = component_run s t"
  "component_run s (retire_plan t i) = component_run s t"
  "component_run s (t\<lparr>sc_stat_plans_created := n\<rparr>) = component_run s t"
  "component_run s (t\<lparr>sc_stat_plans_dispatched := n\<rparr>) = component_run s t"
  "component_run s (t\<lparr>sc_stat_dispatch_rejections := n\<rparr>) = component_run s t"
  "component_run s (t\<lparr>sc_stat_completion_rejections := n\<rparr>) = component_run s t"
  "component_run s (t\<lparr>sc_stat_fallbacks := n\<rparr>) = component_run s t"
  "component_run s (t\<lparr>sc_stat_retries := n\<rparr>) = component_run s t"
  "component_run s (t\<lparr>sc_persisted_generation := n\<rparr>) = component_run s t"
  "component_run s (t\<lparr>sc_snapshot_counter := n\<rparr>) = component_run s t"
  "component_run s (t\<lparr>sc_dispatch_counter := n\<rparr>) = component_run s t"
  "component_run s (t\<lparr>sc_reports := rs\<rparr>) = component_run s t"
  "component_run s (t\<lparr>sc_running := b\<rparr>) = component_run s t"
  "component_run s (t\<lparr>sc_stopping := b\<rparr>) = component_run s t"
  "component_run s (t\<lparr>sc_plans := ps\<rparr>) = component_run s t"
  by (simp_all add: component_run_def)

section \<open>The invariant along runs\<close>

lemma remove_inv:
  assumes "registry_inv g"
  shows "registry_inv (snd (remove g domain))"
proof (cases "find_domain g domain")
  case (Some r)
  then have "find_domain (snd (remove g domain)) = (find_domain g)(domain := None)"
    by (simp add: remove_def find_domain_def fun_eq_iff delete_conv')
  moreover have "dkeys (rg_domains (snd (remove g domain)))"
    using assms Some by (simp add: remove_def registry_inv_def distinct_delete)
  ultimately show ?thesis using assms by (simp add: registry_inv_def)
qed (use assms in \<open>simp add: remove_def\<close>)

lemma domain_steps_inv: "domain_step\<^sup>*\<^sup>* g g' \<Longrightarrow> registry_inv g \<Longrightarrow> registry_inv g'"
proof (induction rule: rtranclp_induct)
  case (step y z)
  then show ?case by (auto simp: domain_step_def intro: domains.step_inv remove_inv)
qed

lemma component_run_inv: "component_run s s' \<Longrightarrow> scheduler_inv s \<Longrightarrow> scheduler_inv s'"
  by (auto simp: component_run_def scheduler_inv_def
      intro: ledger.steps_inv attempts.steps_inv worker_steps_inv domain_steps_inv)

section \<open>Each operation is a run of the components\<close>

lemma set_domain_capacity_run: "component_run s (snd (set_domain_capacity s d c))"
  by (rule run_ledger) (simp_all add: set_domain_capacity_def split_beta ledger_step.capacity r_into_rtranclp)

lemma on_domains_run:
  assumes "domain_step (sc_domains s) (snd (f (sc_domains s)))"
  shows "component_run s (snd (on_domains s f))"
  by (rule run_domains) (use assms in \<open>simp_all add: on_domains_def split_beta\<close>)

lemma registry_domain_step: "registry_step g g' \<Longrightarrow> domain_step g g'"
  by (simp add: domain_step_def)

lemma upsert_run:
  assumes "upsert (sc_domains s) r allow = (res, domains)"
  shows "component_run s (s\<lparr>sc_domains := domains\<rparr>)"
  by (rule run_domains) (use registry_step.step_upsert [OF assms] in \<open>simp_all add: domain_step_def\<close>)

lemma register_domain_run: "component_run s (snd (register_domain s r))"
  unfolding register_domain_def Let_def
  by (auto split: prod.splits Checked.splits
      intro: upsert_run component_run_trans [OF upsert_run set_domain_capacity_run])

lemma update_domain_run: "component_run s (snd (update_domain s r))"
proof -
  have "component_run s s''"
    if "upsert (sc_domains s) e False = (Good u, domains)"
       "set_domain_capacity (s\<lparr>sc_domains := domains\<rparr>) d c = (st, s'')" for e u domains d c st s''
    using component_run_trans [OF upsert_run [OF that(1)] set_domain_capacity_run [of _ d c]] that(2)
    by simp
  then show ?thesis
    unfolding update_domain_def Let_def
    by (auto split: prod.splits Checked.splits intro: upsert_run)
qed

lemma publish_run:
  "component_run s (snd (scheduler_publish_capability s capability))"
  "component_run s (snd (scheduler_publish_load s d load))"
  "component_run s (snd (scheduler_publish_locality s d locality))"
  "component_run s (snd (scheduler_publish_topology s d topology))"
  "component_run s (snd (scheduler_publish_compatibility s d compatibility))"
  "component_run s (snd (withdraw_evidence s d reason))"
  unfolding scheduler_publish_capability_def scheduler_publish_load_def scheduler_publish_locality_def
    scheduler_publish_topology_def scheduler_publish_compatibility_def withdraw_evidence_def
  by (rule on_domains_run, rule registry_domain_step, rule registry_step.intros, rule surjective_pairing)+

lemma publish_capacity_run: "component_run s (snd (scheduler_publish_capacity s d c))"
proof -
  have *: "component_run s (snd (on_domains s (\<lambda>g. publish_capacity g d c)))"
    by (rule on_domains_run, rule registry_domain_step, rule registry_step.step_capacity,
        rule surjective_pairing)
  then show ?thesis
    by (auto simp: scheduler_publish_capacity_def split: prod.split
        intro: component_run_trans [OF _ set_domain_capacity_run])
qed

lemma register_worker_boot_run: "component_run s (snd (register_worker_boot s w b label))"
  by (rule run_workers)
     (auto simp: register_worker_boot_def split: prod.split intro: worker_step.step_register_boot)

text \<open>The step of the reservation ledger that a shard with a spent counter cannot take.\<close>

definition reservation_ids_left :: "Scheduler \<Rightarrow> u64 \<Rightarrow> bool" where
  "reservation_ids_left s domain \<longleftrightarrow>
     sh_counter (rl_shards (sc_reservations s) ! shard_for_domain (sc_reservations s) domain) \<noteq> kSaturated"

lemma ledger_runs:
  "component_run s (s\<lparr>sc_reservations := snd (commit (sc_reservations s) i dg cg pg)\<rparr>)"
  "component_run s (s\<lparr>sc_reservations := snd (release_reservation (sc_reservations s) i reason)\<rparr>)"
  "component_run s (s\<lparr>sc_reservations := snd (rollback (sc_reservations s) i reason)\<rparr>)"
  "component_run s (s\<lparr>sc_reservations := snd (invalidate_domain (sc_reservations s) d reason)\<rparr>)"
  "component_run s (s\<lparr>sc_reservations := adopt_reservation_ids (sc_reservations s) ids\<rparr>)"
  by (rule run_ledger; simp; rule r_into_rtranclp; rule ledger_step.intros)+

lemma reserve_run:
  assumes "reservation_ids_left s (pl_domain p)"
  shows "component_run s (snd (snd (reserve s p)))"
proof -
  have "ledger_step (sc_reservations s)
          (snd (acquire (sc_reservations s) (reservation_request p amounts)))" for amounts
    by (rule ledger_step.acquire) (use assms in \<open>simp add: reservation_ids_left_def reservation_request_def\<close>)
  then have "component_run s (s\<lparr>sc_reservations := l\<rparr>)"
    if "acquire (sc_reservations s) (reservation_request p amounts) = (res, l)" for res l amounts
    using that by (intro run_ledger) (metis r_into_rtranclp Scheduler.select_convs(7)
        Scheduler.surjective Scheduler.update_convs(7) snd_conv, simp_all)
  then show ?thesis
    unfolding reserve_def Let_def
    by (auto split: prod.splits Checked.splits)
qed

lemma attempt_runs:
  "component_run s (s\<lparr>sc_attempts := snd (register_attempt (sc_attempts s) reg)\<rparr>)"
  "component_run s (s\<lparr>sc_attempts := snd (mark_dispatched (sc_attempts s) i d)\<rparr>)"
  "component_run s (s\<lparr>sc_attempts := snd (mark_failed (sc_attempts s) i k detail)\<rparr>)"
  "component_run s (s\<lparr>sc_attempts := snd (mark_ambiguous (sc_attempts s) i detail)\<rparr>)"
  "component_run s (s\<lparr>sc_attempts := snd (mark_cancelled (sc_attempts s) i crossed detail)\<rparr>)"
  "component_run s (s\<lparr>sc_attempts := snd (mark_fenced (sc_attempts s) i effect detail)\<rparr>)"
  "component_run s (s\<lparr>sc_attempts := snd (commit_completion (sc_attempts s) submission mismatch)\<rparr>)"
  "component_run s (s\<lparr>sc_attempts := adopt_attempt_ids (sc_attempts s) ids\<rparr>)"
  by (rule run_attempts; simp; rule r_into_rtranclp; rule attempt_step.intros)+

lemma helper_runs:
  "component_run s (roll_back s i reason)" "component_run s (release_held s i reason)"
  "component_run s (fail_attempt s i detail)" "component_run s (snd (commit_reservation s p))"
  "component_run s (close_reservation s i reason)"
proof -
  show "component_run s (roll_back s i reason)" "component_run s (release_held s i reason)"
    "component_run s (fail_attempt s i detail)" "component_run s (snd (commit_reservation s p))"
    by (simp_all add: roll_back_def release_held_def fail_attempt_def commit_reservation_def
        split_beta ledger_runs attempt_runs)
  show "component_run s (close_reservation s i reason)"
    using component_run_trans [OF ledger_runs(3) ledger_runs(2), of s i reason i reason]
    by (simp add: close_reservation_def split_beta Let_def ledger_runs)
qed

lemma make_plan_run: "component_run s (snd (make_plan s context desc explanation selected))"
proof -
  obtain operation s1 where op: "operation_of s (pc_request context) = (operation, s1)" by fastforce
  have "attempt_step\<^sup>*\<^sup>* l (snd (allocate_generation (snd (allocate_id l)) operation))" for l
    by (rule rtranclp.rtrancl_into_rtrancl [OF r_into_rtranclp]) (rule attempt_step.intros)+
  then show ?thesis
    by (intro run_attempts) (simp_all add: make_plan_def op Let_def split_beta operation_of_frame [OF op])
qed

lemma plan_internal_run: "component_run s (snd (plan_internal s context))"
  unfolding plan_internal_def Let_def
  by (auto split: option.split simp: make_plan_run)

lemma plan_run: "component_run s (snd (plan s request payload))"
  by (simp add: plan_def plan_internal_run)

lemma complete_run: "component_run s (snd (complete s submission))"
proof -
  have "component_run s (release_held (s\<lparr>sc_attempts := snd (commit_completion (sc_attempts s) submission False)\<rparr>) i reason)"
    for i reason
    by (rule component_run_trans [OF attempt_runs(7) helper_runs(2)])
  then show ?thesis by (simp add: complete_def split_beta Let_def attempt_runs)
qed

lemma report_failure_run: "component_run s (snd (report_failure s attempt kind detail))"
proof -
  have "component_run s (release_held (s\<lparr>sc_attempts := snd (mark_failed (sc_attempts s) attempt kind detail)\<rparr>) i reason)"
    for i reason
    by (rule component_run_trans [OF attempt_runs(3) helper_runs(2)])
  then show ?thesis
    by (simp add: report_failure_def split_beta Let_def attempt_runs split: option.split)
qed

lemma retry_run: "component_run s (snd (retry s attempt))"
  by (auto simp: retry_def split_beta plan_internal_run split: option.split)

lemma fallback_loop_run:
  "component_run s (snd (fallback_loop s p trigger tried st explanation chain))"
proof (induction chain arbitrary: s tried st explanation)
  case (Cons target chain)
  then show ?case
    using component_run_trans [OF plan_internal_run Cons.IH] by (simp add: split_beta plan_internal_run)
qed simp

lemma fallback_run: "component_run s (snd (fallback s p trigger))"
  using fallback_loop_run by (auto simp: fallback_def Let_def split_beta split: sum.split prod.split)

section \<open>The dispatch channel\<close>

text \<open>
  What the scheduler relies on in an \<^verbatim>\<open>IDispatchChannel\<close>: whatever happens to the runtime while one of
  its functions runs (an executor that answers, another thread) is itself a run of the components.
\<close>

locale dispatch_channel =
  fixes channel :: "DispatchChannel option"
  assumes send_run: "channel = Some ch \<Longrightarrow> component_run s (snd (ch_send ch envelope s))"
    and cancel_run: "channel = Some ch \<Longrightarrow> component_run s (snd (ch_request_cancel ch request s))"
    and shutdown_run: "channel = Some ch \<Longrightarrow> component_run s (ch_shutdown ch s)"
begin

lemma send_envelope_run: "component_run s (snd (snd (send_envelope channel s p dispatch_id)))"
proof (cases channel)
  case None
  have "component_run s (release_held (fail_attempt s i detail) j reason)" for i j detail reason
    by (rule component_run_trans [OF helper_runs(3) helper_runs(2)])
  then show ?thesis by (simp add: None send_envelope_def dispatch_failed_def)
next
  case (Some ch)
  let ?sent = "ch_send ch (dispatch_envelope p dispatch_id) s"
  have "component_run s (release_held (fail_attempt (snd ?sent) i detail) j reason)" for i j detail reason
    by (rule component_run_trans [OF send_run [OF Some] component_run_trans [OF helper_runs(3) helper_runs(2)]])
  moreover have
    "component_run s ((snd ?sent)\<lparr>sc_attempts := snd (mark_dispatched (sc_attempts (snd ?sent)) i d)\<rparr>)" for i d
    by (rule component_run_trans [OF send_run [OF Some] attempt_runs(2)])
  ultimately show ?thesis
    by (simp add: Some send_envelope_def dispatch_failed_def Let_def split_beta)
qed

lemma register_and_send_run: "component_run s (snd (snd (register_and_send channel s p)))"
proof -
  let ?s1 = "snd (next_dispatch_id s)"
  let ?s2 = "?s1\<lparr>sc_attempts := snd (register_attempt (sc_attempts ?s1)
                  (attempt_registration p (fst (next_dispatch_id s))))\<rparr>"
  have "component_run s ?s1" by (simp add: next_dispatch_id_def)
  then have *: "component_run s ?s2" by (rule component_run_trans) (rule attempt_runs)
  show ?thesis
    using component_run_trans [OF * send_envelope_run] component_run_trans [OF * helper_runs(1)]
    by (simp add: register_and_send_def dispatch_failed_def Let_def split_beta)
qed

lemma dispatch_run: "component_run s (snd (snd (dispatch channel s p)))"
proof -
  have "component_run s (roll_back (store_plan s q) i reason)" for q i reason
    by (rule component_run_trans [OF _ helper_runs(1)]) simp
  moreover note component_run_trans [OF helper_runs(4) [of s p] helper_runs(1)]
    component_run_trans [OF helper_runs(4) [of s p] register_and_send_run]
  ultimately show ?thesis
    by (auto simp: dispatch_def dispatch_failed_def revalidation_rejected_def Let_def split_beta
        split: option.split)
qed

lemma plan_reserve_dispatch_run:
  assumes "\<And>d. reservation_ids_left s d"
  shows "component_run s (snd (plan_reserve_dispatch channel s request payload))"
proof -
  let ?s1 = "snd (plan s request payload)"
  have "sc_reservations ?s1 = sc_reservations s"
    by (simp add: plan_def plan_internal_def Let_def make_plan_def store_plan_def operation_of_def
        next_operation_id_def split_beta split: option.split)
  then have "reservation_ids_left ?s1 d" for d using assms by (simp add: reservation_ids_left_def)
  then have "component_run s (snd (snd (reserve ?s1 p)))" for p
    by (rule component_run_trans [OF plan_run reserve_run])
  then show ?thesis
    using component_run_trans [OF _ dispatch_run]
    by (auto simp: plan_reserve_dispatch_def Let_def split_beta plan_run)
qed

lemma cancel_run_all: "component_run s (snd (cancel channel s attempt))"
proof -
  have request: "component_run s (snd (request_cancel channel s stored))" for stored
    using cancel_run by (auto simp: request_cancel_def split_beta split: option.split)
  have "component_run s (release_held ((snd (request_cancel channel s stored))\<lparr>sc_attempts :=
      snd (mark_cancelled (sc_attempts (snd (request_cancel channel s stored))) i crossed detail)\<rparr>) j reason)"
    for stored i crossed detail j reason
    by (rule component_run_trans [OF request component_run_trans [OF attempt_runs(5) helper_runs(2)]])
  moreover have "component_run s ((snd (request_cancel channel s stored))\<lparr>sc_attempts :=
      snd (mark_cancelled (sc_attempts (snd (request_cancel channel s stored))) i crossed detail)\<rparr>)"
    for stored i crossed detail
    by (rule component_run_trans [OF request attempt_runs(5)])
  ultimately show ?thesis
    by (auto simp: cancel_def cancel_attempt_def cancel_plan_def Let_def split_beta helper_runs
        split: option.split)
qed

end

section \<open>Fencing, recovery and shutdown\<close>

lemma foldl_run:
  assumes "\<And>s x. component_run s (f s x)"
  shows "component_run s (foldl f s xs)"
proof (induction xs arbitrary: s)
  case (Cons x xs)
  show ?case using component_run_trans [OF assms Cons.IH] by simp
qed simp

lemma close_live_attempt_step: "attempt_step l (close_live_attempt reason l a)"
  by (simp add: close_live_attempt_def attempt_step.intros)

lemma fence_attempt_run: "component_run s (fence_attempt reason s a)"
  by (simp add: fence_attempt_def close_live_attempt_def attempt_runs)

lemma invalidate_reservations_run: "component_run s (invalidate_reservations reason s d)"
  by (simp add: invalidate_reservations_def ledger_runs)

lemma fence_attempts_run: "component_run s (foldl (fence_attempt reason) s xs)"
  by (rule foldl_run) (rule fence_attempt_run)

lemma invalidate_all_run: "component_run s (foldl (invalidate_reservations reason) s ds)"
  by (rule foldl_run) (rule invalidate_reservations_run)

lemma save_state_run: "component_run s (snd (save_state save s))"
  by (simp add: save_state_def save_state_to_def Let_def)

lemma save_on_mutation_run: "component_run s (save_on_mutation save s)"
  by (simp add: save_on_mutation_def save_state_run)

lemma fence_domain_run: "component_run s (snd (fence_domain save s domain reason))"
proof -
  have fence: "component_run s (s\<lparr>sc_domains := snd (fence (sc_domains s) domain reason)\<rparr>)"
    by (rule run_domains)
       (simp_all add: registry_domain_step registry_step.step_fence [OF surjective_pairing])
  have "component_run s (s\<lparr>sc_domains := snd (fence (sc_domains s) domain reason),
          sc_reservations := snd (invalidate_domain (sc_reservations s) domain reason)\<rparr>)"
    using component_run_trans [OF fence ledger_runs(4) [of _ domain reason]] by simp
  from component_run_trans [OF component_run_trans [OF this fence_attempts_run] save_on_mutation_run]
  show ?thesis by (simp add: fence_domain_def Let_def split_beta fence split: option.split)
qed

lemma fence_worker_boot_run: "component_run s (snd (fence_worker_boot save s boot reason))"
proof -
  have workers: "component_run s (s\<lparr>sc_workers := snd (fence_boot (sc_workers s) boot reason)\<rparr>)"
    by (rule run_workers) (simp_all add: worker_step.step_fence_boot [OF surjective_pairing])
  have "component_run t (t\<lparr>sc_domains := snd (fence_registry_boot (sc_domains t) boot reason)\<rparr>)" for t
    by (rule run_domains)
       (simp_all add: registry_domain_step registry_step.step_fence_boot [OF surjective_pairing])
  from component_run_trans [OF workers this]
  have "component_run s (s\<lparr>sc_workers := snd (fence_boot (sc_workers s) boot reason),
          sc_domains := snd (fence_registry_boot (sc_domains s) boot reason)\<rparr>)" by simp
  from component_run_trans [OF component_run_trans [OF component_run_trans
      [OF this invalidate_all_run] fence_attempts_run]
      save_on_mutation_run]
  show ?thesis by (simp add: fence_worker_boot_def Let_def split_beta workers)
qed

lemma remove_domain_run: "component_run s (snd (remove_domain s domain))"
  unfolding remove_domain_def
  by (rule component_run_trans [OF ledger_runs(4) on_domains_run]) (auto simp: domain_step_def)

text \<open>Recovery: the stored attempts agree with their own results, as the store checks on decoding.\<close>

lemma restore_attempts_run:
  "list_all attempt_ok as \<Longrightarrow> attempt_step\<^sup>*\<^sup>* l (snd (restore_attempts l as))"
proof (induction as arbitrary: l)
  case (Cons a as)
  have "attempt_step l (snd (restore_attempt l a))" using Cons.prems by (simp add: attempt_step.intros)
  moreover have "attempt_step\<^sup>*\<^sup>* (snd (restore_attempt l a)) (snd (restore_attempts (snd (restore_attempt l a)) as))"
    using Cons by simp
  ultimately show ?case by (simp add: split_beta r_into_rtranclp converse_rtranclp_into_rtranclp)
qed simp

lemma restore_domains_run: "component_run s (snd (restore_domains s ds))"
proof (induction ds arbitrary: s)
  case (Cons d ds)
  have up: "component_run s (s\<lparr>sc_domains := snd (upsert (sc_domains s) d True)\<rparr>)"
    by (rule upsert_run) (rule surjective_pairing)
  from component_run_trans [OF up set_domain_capacity_run] component_run_trans [OF up Cons.IH]
    component_run_trans [OF component_run_trans [OF up set_domain_capacity_run] Cons.IH]
  show ?case using up by (auto simp: Let_def split_beta split: Checked.split prod.split)
qed simp

lemma foldl_worker_steps:
  assumes "\<And>wa x. worker_step\<^sup>*\<^sup>* wa (f wa x)"
  shows "worker_step\<^sup>*\<^sup>* wa (foldl f wa xs)"
proof (induction xs arbitrary: wa)
  case (Cons x xs)
  show ?case using rtranclp_trans [OF assms Cons.IH] by simp
qed simp

lemma fence_boot_steps: "worker_step\<^sup>*\<^sup>* wa (snd (fence_boot wa boot reason))"
  by (rule r_into_rtranclp, rule worker_step.step_fence_boot) (rule surjective_pairing)

lemma fence_recovered_boots_run: "worker_step\<^sup>*\<^sup>* wa (fence_recovered_boots wa state)"
proof -
  have "worker_step\<^sup>*\<^sup>* wa (foldl (\<lambda>wa boot. snd (fence_boot wa boot ''persisted fence'')) wa bs)" for wa bs
    by (rule foldl_worker_steps) (rule fence_boot_steps)
  moreover have "worker_step\<^sup>*\<^sup>* wa (foldl (\<lambda>wa d. if valid (dr_worker_boot d)
                       then snd (fence_boot wa (dr_worker_boot d)
                                   ''recovered boot identity requires re-registration'')
                       else wa) wa ds)" for wa ds
    by (rule foldl_worker_steps) (simp add: fence_boot_steps)
  ultimately show ?thesis
    unfolding fence_recovered_boots_def Let_def by (rule rtranclp_trans)
qed

lemma adopt_state_run: "component_run s (adopt_state s state)"
proof -
  have "domain_step (sc_domains s) (snd (mark_dynamic_evidence_stale (sc_domains s) reason))" for reason
    by (rule registry_domain_step, rule registry_step.step_all_stale) (rule surjective_pairing)
  then show ?thesis
    by (simp add: component_run_def adopt_state_def fence_recovered_boots_run r_into_rtranclp)
qed

lemma apply_state_run:
  assumes "list_all attempt_ok (pt_attempts state)"
  shows "component_run s (snd (apply_state s state))"
proof -
  let ?l = "snd (restore_attempts (sc_attempts s) (pt_attempts state))"
  let ?s1 = "s\<lparr>sc_attempts := adopt_attempt_ids ?l (map att_id (pt_attempts state)),
               sc_reservations := adopt_reservation_ids (sc_reservations s)
                 (filter valid (map att_reservation (pt_attempts state)))\<rparr>"
  have restored: "component_run s (s\<lparr>sc_attempts := ?l\<rparr>)"
    by (rule run_attempts) (simp_all add: restore_attempts_run assms)
  from component_run_trans [OF component_run_trans [OF restored attempt_runs(8)] ledger_runs(5)]
  have "component_run s ?s1" by simp
  from component_run_trans [OF this restore_domains_run]
    component_run_trans [OF component_run_trans [OF this restore_domains_run] adopt_state_run]
  show ?thesis using restored by (simp add: apply_state_def Let_def split_beta)
qed

definition stored_ok :: "stored_state \<Rightarrow> bool" where
  "stored_ok stored \<longleftrightarrow>
     (case stored of Some (Good state) \<Rightarrow> list_all attempt_ok (pt_attempts state) | _ \<Rightarrow> True)"

lemma load_state_run:
  assumes "stored_ok stored"
  shows "component_run s (snd (load_state s stored))"
  using assms apply_state_run
  by (auto simp: load_state_def load_state_from_def stored_ok_def split: option.split Checked.split)

lemma start_run:
  assumes "stored_ok stored"
  shows "component_run s (snd (start s stored worker boot))"
proof -
  let ?s0 = "s\<lparr>sc_stopping := False\<rparr>"
  have load: "component_run s (snd (load_state ?s0 stored))"
    by (rule component_run_trans [OF _ load_state_run [OF assms]]) simp
  have boot: "component_run s (t\<lparr>sc_policy := policy, sc_epoch := e, sc_local_worker := w,
      sc_local_boot := b, sc_workers := snd (register_boot (sc_workers t) worker boot label)\<rparr>)"
    if "component_run s t" for t policy e w b label
    by (rule component_run_trans [OF that], rule run_workers)
       (simp_all add: worker_step.step_register_boot [OF surjective_pairing])
  have "component_run s ?s0" by simp
  from boot [OF this] boot [OF load] show ?thesis
    using load by (simp add: start_def Let_def split_beta)
qed

lemma stop_attempts_run: "attempt_step\<^sup>*\<^sup>* l (foldl stop_attempt l as)"
proof (induction as arbitrary: l)
  case (Cons a as)
  have "attempt_step l (stop_attempt l a)" by (simp add: stop_attempt_def close_live_attempt_step)
  then show ?case using Cons.IH by (simp add: converse_rtranclp_into_rtranclp)
qed simp

context dispatch_channel
begin

lemma shutdown_run_all: "component_run s (snd (shutdown save channel s))"
proof -
  let ?s1 = "s\<lparr>sc_stopping := True,
               sc_attempts := foldl stop_attempt (sc_attempts s) (list_live (sc_attempts s))\<rparr>"
  let ?s2 = "foldl (invalidate_reservations ''scheduler shutdown'') ?s1 (all_domains (sc_domains ?s1))"
  let ?s3 = "case channel of None \<Rightarrow> ?s2 | Some ch \<Rightarrow> ch_shutdown ch ?s2"
  have "component_run s ?s1" by (rule run_attempts) (simp_all add: stop_attempts_run)
  then have "component_run s ?s2" by (rule component_run_trans) (rule invalidate_all_run)
  moreover have "component_run ?s2 ?s3" using shutdown_run by (auto split: option.split)
  ultimately have "component_run s ?s3" by (rule component_run_trans)
  then have "component_run s (?s3\<lparr>sc_plans := []\<rparr>)" by (simp only: component_run_frame)
  with component_run_trans [OF this save_state_run] show ?thesis
    by (simp only: shutdown_def Let_def if_distrib [of snd] snd_conv component_run_refl component_run_frame
        split: if_split) simp
qed

end

end
