(* ===== verification/Tos_Channel.thy ===== *)
theory Tos_Channel
  imports Tos_System
begin

text \<open>
  The in-process dispatch channel (\<^verbatim>\<open>src/src/backends/local_channel.cpp\<close>) over its bounded thread pool
  (\<^verbatim>\<open>src/src/util/thread_pool.cpp\<close>). The backend's \<^verbatim>\<open>execute\<close> and the measured duration are arguments.
  A pool thread takes queued tasks in order; whether it runs one before \<^verbatim>\<open>send\<close> returns is an argument
  of \<open>local_view\<close>, which presents the channel to the scheduler with \<^verbatim>\<open>Scheduler::complete\<close> as its sink.
\<close>

section \<open>Data\<close>

datatype ChannelFault =
    kNone
  | kSendFailure
  | kDropCompletion
  | kAmbiguousCompletion
  | kConflictingCompletion
  | kDuplicateCompletion
  | kDelayedCompletion

fun to_string_ChannelFault :: "ChannelFault \<Rightarrow> string" where
  "to_string_ChannelFault ChannelFault.kNone = ''none''"
| "to_string_ChannelFault ChannelFault.kSendFailure = ''send_failure''"
| "to_string_ChannelFault ChannelFault.kDropCompletion = ''drop_completion''"
| "to_string_ChannelFault ChannelFault.kAmbiguousCompletion = ''ambiguous_completion''"
| "to_string_ChannelFault ChannelFault.kConflictingCompletion = ''conflicting_completion''"
| "to_string_ChannelFault ChannelFault.kDuplicateCompletion = ''duplicate_completion''"
| "to_string_ChannelFault ChannelFault.kDelayedCompletion = ''delayed_completion''"

text \<open>The keys of the ordered map of pending faults, in its order.\<close>

definition all_ChannelFault :: "ChannelFault list" where
  "all_ChannelFault =
     [ChannelFault.kNone, ChannelFault.kSendFailure, ChannelFault.kDropCompletion,
      ChannelFault.kAmbiguousCompletion, ChannelFault.kConflictingCompletion,
      ChannelFault.kDuplicateCompletion, ChannelFault.kDelayedCompletion]"

record ExecutionInvocation =
  iv_attempt :: u64
  iv_attempt_generation :: u64
  iv_dispatch :: u64
  iv_coordinator_epoch :: u64
  iv_worker :: u64
  iv_worker_boot :: u64
  iv_domain :: u64
  iv_domain_generation :: u64
  iv_capability_generation :: u64
  iv_operation_class :: u64
  iv_side_effect :: SideEffectClass
  iv_payload :: PayloadDescriptor
  iv_input :: "u8 list"
  iv_retry_index :: u32
  iv_fallback :: bool
  iv_provenance :: Provenance

record ExecutionOutcome =
  eo_executed :: bool
  eo_success :: bool
  eo_ambiguous :: bool
  eo_failure :: FailureKind
  eo_result_digest :: u64
  eo_bytes_processed :: u64
  eo_duration_ns :: u64
  eo_output :: "u8 list"
  eo_detail :: string

text \<open>A task of the pool: what the lambda passed to \<^verbatim>\<open>submit\<close> captures.\<close>

record ChannelTask =
  tk_invocation :: ExecutionInvocation
  tk_fault :: ChannelFault
  tk_envelope :: DispatchEnvelope

record LocalChannel =
  lc_faults :: "ChannelFault \<Rightarrow> u32"
  lc_delayed :: "CompletionSubmission list"
  lc_closed :: bool
  lc_dispatched :: u64
  lc_tasks :: "ChannelTask list"
  lc_max_queue :: nat
  lc_pool_stopping :: bool
  lc_sink :: bool

definition new_local_channel :: "nat \<Rightarrow> LocalChannel" where
  "new_local_channel max_queue =
     \<lparr>lc_faults = (\<lambda>_. 0), lc_delayed = [], lc_closed = False, lc_dispatched = 0, lc_tasks = [],
      lc_max_queue = (if max_queue = 0 then 1 else max_queue), lc_pool_stopping = False,
      lc_sink = True\<rparr>"

section \<open>Sending\<close>

definition inject_fault :: "LocalChannel \<Rightarrow> ChannelFault \<Rightarrow> u32 \<Rightarrow> LocalChannel" where
  "inject_fault c fault n = c\<lparr>lc_faults := (lc_faults c)(fault := n)\<rparr>"

definition take_fault :: "LocalChannel \<Rightarrow> ChannelFault \<times> LocalChannel" where
  "take_fault c =
     (case find (\<lambda>fault. lc_faults c fault > 0) all_ChannelFault of
        Some fault \<Rightarrow> (fault, c\<lparr>lc_faults := (lc_faults c)(fault := lc_faults c fault - 1)\<rparr>)
      | None \<Rightarrow> (ChannelFault.kNone, c))"

text \<open>\<^verbatim>\<open>ThreadPool::submit\<close>.\<close>

definition pool_submit :: "LocalChannel \<Rightarrow> ChannelTask \<Rightarrow> Status \<times> LocalChannel" where
  "pool_submit c task =
     (if lc_pool_stopping c then (failure ''pool.stopped'' [], c)
      else if length (lc_tasks c) \<ge> lc_max_queue c then (failure ''pool.full'' [], c)
      else (success, c\<lparr>lc_tasks := lc_tasks c @ [task]\<rparr>))"

definition invocation_of :: "DispatchEnvelope \<Rightarrow> ExecutionInvocation" where
  "invocation_of e =
     \<lparr>iv_attempt = en_attempt e, iv_attempt_generation = en_attempt_generation e,
      iv_dispatch = en_dispatch e, iv_coordinator_epoch = en_coordinator_epoch e,
      iv_worker = en_worker e, iv_worker_boot = en_worker_boot e, iv_domain = en_domain e,
      iv_domain_generation = en_domain_generation e,
      iv_capability_generation = en_capability_generation e,
      iv_operation_class = en_operation_class e, iv_side_effect = en_side_effect e,
      iv_payload = en_payload e, iv_input = en_bytes e, iv_retry_index = en_retry_index e,
      iv_fallback = en_fallback e, iv_provenance = en_provenance e\<rparr>"

definition local_send :: "LocalChannel \<Rightarrow> DispatchEnvelope \<Rightarrow> Status \<times> LocalChannel" where
  "local_send c e =
     (if lc_closed c then (failure ''channel.closed'' [], c)
      else
        let (fault, c1) = take_fault c in
        if fault = ChannelFault.kSendFailure then (failure ''channel.injected_send_failure'' [], c1)
        else pool_submit (c1\<lparr>lc_dispatched := lc_dispatched c1 + 1\<rparr>)
               \<lparr>tk_invocation = invocation_of e, tk_fault = fault, tk_envelope = e\<rparr>)"

section \<open>Execution and delivery\<close>

definition submission_of :: "ExecutionInvocation \<Rightarrow> u64 \<Rightarrow> ExecutionOutcome \<Rightarrow> CompletionSubmission" where
  "submission_of iv operation outcome =
     \<lparr>sub_attempt = iv_attempt iv, sub_generation = iv_attempt_generation iv,
      sub_dispatch = iv_dispatch iv, sub_completion = iv_attempt iv, sub_worker = iv_worker iv,
      sub_worker_boot = iv_worker_boot iv, sub_coordinator_epoch = iv_coordinator_epoch iv,
      sub_domain_generation = iv_domain_generation iv,
      sub_capability_generation = iv_capability_generation iv, sub_operation = operation,
      sub_provenance = iv_provenance iv,
      sub_result = \<lparr>rp_success = eo_success outcome, rp_result_digest = eo_result_digest outcome,
                    rp_bytes_processed = eo_bytes_processed outcome,
                    rp_duration_ns = eo_duration_ns outcome,
                    rp_failure = (if eo_success outcome then FailureKind.kNone else eo_failure outcome),
                    rp_backend_detail = eo_detail outcome\<rparr>\<rparr>"

definition conflicting_of :: "CompletionSubmission \<Rightarrow> ExecutionOutcome \<Rightarrow> CompletionSubmission" where
  "conflicting_of submission outcome =
     submission\<lparr>sub_result := (sub_result submission)
       \<lparr>rp_success := \<not> eo_success outcome,
        rp_result_digest := eo_result_digest outcome XOR 0xFFFFFFFFFFFFFFFF\<rparr>\<rparr>"

definition deliver :: "LocalChannel \<Rightarrow> CompletionSubmission \<Rightarrow> CompletionSubmission list" where
  "deliver c submission = (if lc_closed c \<or> \<not> lc_sink c then [] else [submission])"

text \<open>The submission a task prepares, with the measured duration where the backend gave none.\<close>

definition task_outcome ::
    "(ExecutionInvocation \<Rightarrow> ExecutionOutcome) \<Rightarrow> u64 \<Rightarrow> ChannelTask \<Rightarrow> ExecutionOutcome" where
  "task_outcome execute elapsed task =
     (let outcome = execute (tk_invocation task)
      in if eo_duration_ns outcome = 0 then outcome\<lparr>eo_duration_ns := elapsed\<rparr> else outcome)"

definition task_submission ::
    "(ExecutionInvocation \<Rightarrow> ExecutionOutcome) \<Rightarrow> u64 \<Rightarrow> ChannelTask \<Rightarrow> CompletionSubmission" where
  "task_submission execute elapsed task =
     submission_of (tk_invocation task) (en_operation (tk_envelope task))
       (task_outcome execute elapsed task)"

definition run_task ::
    "(ExecutionInvocation \<Rightarrow> ExecutionOutcome) \<Rightarrow> u64 \<Rightarrow> LocalChannel \<Rightarrow> ChannelTask \<Rightarrow>
       CompletionSubmission list \<times> LocalChannel" where
  "run_task execute elapsed c task =
     (let outcome = task_outcome execute elapsed task;
          submission = task_submission execute elapsed task
      in case tk_fault task of
           ChannelFault.kAmbiguousCompletion \<Rightarrow> ([], c)
         | ChannelFault.kDropCompletion \<Rightarrow> ([], c)
         | ChannelFault.kDelayedCompletion \<Rightarrow> ([], c\<lparr>lc_delayed := lc_delayed c @ [submission]\<rparr>)
         | ChannelFault.kConflictingCompletion \<Rightarrow>
             (deliver c submission @ deliver c (conflicting_of submission outcome), c)
         | ChannelFault.kDuplicateCompletion \<Rightarrow> (deliver c submission @ deliver c submission, c)
         | _ \<Rightarrow> (deliver c submission, c))"

text \<open>A pool thread: the tasks of the queue in their order.\<close>

fun run_tasks ::
    "(ExecutionInvocation \<Rightarrow> ExecutionOutcome) \<Rightarrow> u64 \<Rightarrow> LocalChannel \<Rightarrow> ChannelTask list \<Rightarrow>
       CompletionSubmission list \<times> LocalChannel" where
  "run_tasks execute elapsed c [] = ([], c)"
| "run_tasks execute elapsed c (task # tasks) =
     (let (delivered, c1) = run_task execute elapsed c task;
          (rest, c2) = run_tasks execute elapsed c1 tasks
      in (delivered @ rest, c2))"

definition drain ::
    "(ExecutionInvocation \<Rightarrow> ExecutionOutcome) \<Rightarrow> u64 \<Rightarrow> LocalChannel \<Rightarrow>
       CompletionSubmission list \<times> LocalChannel" where
  "drain execute elapsed c = run_tasks execute elapsed (c\<lparr>lc_tasks := []\<rparr>) (lc_tasks c)"

definition release_delayed :: "LocalChannel \<Rightarrow> CompletionSubmission list \<times> LocalChannel" where
  "release_delayed c = (concat (map (deliver c) (lc_delayed c)), c\<lparr>lc_delayed := []\<rparr>)"

text \<open>The closed flag is set before the pool drains, so a drained task delivers nothing.\<close>

definition local_shutdown ::
    "(ExecutionInvocation \<Rightarrow> ExecutionOutcome) \<Rightarrow> u64 \<Rightarrow> LocalChannel \<Rightarrow>
       CompletionSubmission list \<times> LocalChannel" where
  "local_shutdown execute elapsed c =
     (if lc_closed c then ([], c)
      else
        let (delivered, c1) = drain execute elapsed (c\<lparr>lc_closed := True, lc_pool_stopping := True\<rparr>)
        in (delivered, c1\<lparr>lc_delayed := [], lc_sink := False\<rparr>))"

section \<open>The channel as the scheduler sees it\<close>

definition complete_all :: "Scheduler \<Rightarrow> CompletionSubmission list \<Rightarrow> Scheduler" where
  "complete_all s submissions = foldl (\<lambda>s submission. snd (complete s submission)) s submissions"

definition local_view ::
    "(ExecutionInvocation \<Rightarrow> ExecutionOutcome) \<Rightarrow> (u64 \<Rightarrow> Status) option \<Rightarrow> u64 \<Rightarrow> bool \<Rightarrow> LocalChannel \<Rightarrow>
       DispatchChannel" where
  "local_view execute backend_cancel elapsed fast c =
     \<lparr>ch_send = (\<lambda>e s. case local_send c e of
                   (st, c1) \<Rightarrow> (st, if fast then complete_all s (fst (drain execute elapsed c1)) else s)),
      ch_request_cancel = (\<lambda>r s. (case backend_cancel of
                                    None \<Rightarrow> False | Some f \<Rightarrow> st_ok (f (cv_attempt r)), s)),
      ch_shutdown = (\<lambda>s. complete_all s (fst (local_shutdown execute elapsed c)))\<rparr>"

lemma complete_all_run: "component_run s (complete_all s submissions)"
  unfolding complete_all_def by (rule foldl_run) (rule complete_run)

interpretation local_channel: dispatch_channel "Some (local_view execute backend_cancel elapsed fast c)"
  for execute backend_cancel elapsed fast c
  by unfold_locales (auto simp: local_view_def complete_all_run split: prod.split)

interpretation no_channel: dispatch_channel None
  by unfold_locales simp_all

end
