(* ===== verification/Tos_Executor.thy ===== *)
theory Tos_Executor
  imports Tos_Bytes Tos_Channel
begin

text \<open>
  The host executor (\<^verbatim>\<open>src/src/backends/backend.cpp\<close>, \<^verbatim>\<open>src/src/backends/cpu_backend.cpp\<close>,
  \<^verbatim>\<open>src/src/backends/domain_factory.cpp\<close>): the operation classes on host memory, and the domain record
  the CPU backend publishes. An index into the input is represented by the suffix it leaves. The
  static counter of the append-only sink is threaded through; facts of the host (thread count,
  names, memory size) are arguments.
\<close>

definition kMaxResultPayloadBytes :: nat where "kMaxResultPayloadBytes = 512 * 1024"

section \<open>Run-length encoding\<close>

text \<open>The inner loop that counts how often the first byte repeats.\<close>

definition run_length :: "u8 list \<Rightarrow> nat" where
  "run_length xs = length (takeWhile (\<lambda>b. b = hd xs) xs)"

lemma run_length_pos: "xs \<noteq> [] \<Longrightarrow> 0 < run_length xs"
  by (cases xs) (simp_all add: run_length_def)

lemma run_length_le: "run_length xs \<le> length xs"
  by (simp add: run_length_def length_takeWhile_le)

lemma run_replicate: "take (run_length xs) xs = replicate (run_length xs) (hd xs)"
proof -
  have "\<forall>b \<in> set (takeWhile (\<lambda>b. b = hd xs) xs). b = hd xs" by (auto dest: set_takeWhileD)
  then show ?thesis
    unfolding run_length_def by (simp add: replicate_length_same flip: takeWhile_eq_take)
qed

text \<open>The literal loop: it absorbs runs until one is long enough to be worth encoding.\<close>

function literal_length :: "nat \<Rightarrow> u8 list \<Rightarrow> nat" where
  "literal_length len rest =
     (if rest = [] then len
      else if run_length rest \<ge> 4 then len
      else literal_length (len + run_length rest) (drop (run_length rest) rest))"
  by pat_completeness auto
termination
  by (relation "measure (\<lambda>(len, rest). length rest)") (auto simp: run_length_pos)

declare literal_length.simps [simp del]

lemma literal_length_bounds: "len \<le> literal_length len rest \<and> literal_length len rest \<le> len + length rest"
proof (induction len rest rule: literal_length.induct)
  case (1 len rest)
  show ?case
    using 1 run_length_le [of rest] by (subst (1 2) literal_length.simps) auto
qed

function rle_encode :: "u8 list \<Rightarrow> u8 list" where
  "rle_encode input =
     (if input = [] then []
      else
        let run = run_length input in
        if run \<ge> 4
        then 1 # le32 (of_nat run) @ hd input # rle_encode (drop run input)
        else let n = literal_length run (drop run input)
             in 0 # le32 (of_nat n) @ take n input @ rle_encode (drop n input))"
  by pat_completeness auto
termination
proof (relation "measure length")
  fix input :: "u8 list" and x n
  assume "input \<noteq> []" "x = run_length input" "n = literal_length x (drop x input)"
  then show "(drop n input, input) \<in> measure length"
    using run_length_pos [of input] literal_length_bounds [of x "drop x input"] by simp
qed (auto simp: run_length_pos)

declare rle_encode.simps [simp del]

function rle_decode_loop :: "u8 list \<Rightarrow> u8 list \<Rightarrow> u8 list option" where
  "rle_decode_loop out input =
     (if input = [] then Some out
      else if length input < 5 then None
      else
        let n = unat (of_le_bytes (take 4 (tl input)) :: u32); rest = drop 5 input in
        if hd input = 1
        then (if rest = [] then None
              else let out' = out @ replicate n (hd rest)
                   in if length out' > kMaxResultPayloadBytes then None
                      else rle_decode_loop out' (tl rest))
        else if hd input = 0
        then (if n > length rest then None
              else let out' = out @ take n rest
                   in if length out' > kMaxResultPayloadBytes then None
                      else rle_decode_loop out' (drop n rest))
        else None)"
  by pat_completeness auto
termination by (relation "measure (\<lambda>(out, input). length input)") auto

declare rle_decode_loop.simps [simp del]

definition rle_decode :: "u8 list \<Rightarrow> u8 list option" where
  "rle_decode input = rle_decode_loop [] input"

lemma unat_small: "n \<le> kMaxResultPayloadBytes \<Longrightarrow> unat (of_nat n :: u32) = n"
  by (simp add: kMaxResultPayloadBytes_def unat_of_nat)

lemma le32_not_Nil [simp]: "le32 w \<noteq> []"
  by (simp flip: length_0_conv)

lemma decode_run:
  assumes "length out + n \<le> kMaxResultPayloadBytes"
  shows "rle_decode_loop out (1 # le32 (of_nat n) @ b # rest) = rle_decode_loop (out @ replicate n b) rest"
  using assms by (subst rle_decode_loop.simps) (simp add: unat_small Let_def)

lemma decode_literal:
  assumes "length out + length xs \<le> kMaxResultPayloadBytes"
  shows "rle_decode_loop out (0 # le32 (of_nat (length xs)) @ xs @ rest) = rle_decode_loop (out @ xs) rest"
  using assms by (subst rle_decode_loop.simps) (simp add: unat_small Let_def)

lemma rle_decode_encode:
  "length out + length xs \<le> kMaxResultPayloadBytes \<Longrightarrow>
     rle_decode_loop out (rle_encode xs) = Some (out @ xs)"
proof (induction xs arbitrary: out rule: rle_encode.induct)
  case (1 input)
  show ?case
  proof (cases "input = []")
    case True
    then show ?thesis by (simp add: rle_encode.simps [of "[]"] rle_decode_loop.simps)
  next
    case False
    define run where "run = run_length input"
    define n where "n = literal_length run (drop run input)"
    have run: "run \<le> length input" "0 < run" "n \<le> length input"
      using literal_length_bounds [of run "drop run input"] run_length_le [of input]
        run_length_pos [OF False] by (simp_all add: run_def n_def)
    show ?thesis
    proof (cases "4 \<le> run")
      case True
      have "out @ replicate run (hd input) @ drop run input = out @ input"
        using run_replicate [of input] by (metis append_take_drop_id run_def)
      moreover have "rle_decode_loop (out @ replicate run (hd input)) (rle_encode (drop run input))
          = Some ((out @ replicate run (hd input)) @ drop run input)"
        using "1.IH"(1) [OF False run_def True] "1.prems" run(1) by simp
      ultimately show ?thesis
        using False True "1.prems" run(1)
        by (subst rle_encode.simps) (simp add: decode_run flip: run_def)
    next
      case small: False
      have "rle_decode_loop (out @ take n input) (rle_encode (drop n input))
          = Some ((out @ take n input) @ drop n input)"
        using "1.IH"(2) [OF False run_def small n_def] "1.prems" run(3) by simp
      moreover have "rle_decode_loop out (0 # le32 (of_nat n) @ take n input @ rle_encode (drop n input))
          = rle_decode_loop (out @ take n input) (rle_encode (drop n input))"
        using decode_literal [of out "take n input"] "1.prems" run(3) by simp
      ultimately show ?thesis
        using False small by (subst rle_encode.simps) (simp flip: run_def n_def)
    qed
  qed
qed

section \<open>Segments\<close>

definition segment_size :: "PayloadDescriptor \<Rightarrow> nat \<Rightarrow> nat" where
  "segment_size payload input_size =
     (let n = (if pd_segment_count payload > 1 then input_size div unat (pd_segment_count payload) else 0)
      in if n = 0 then 64 else n)"

text \<open>The framing loop; \<open>None\<close> when the framed output grows too large. The segment size
  is never zero where the loop is called.\<close>

function segment_loop :: "nat \<Rightarrow> u8 list \<Rightarrow> u8 list \<Rightarrow> u8 list option" where
  "segment_loop seg framed input =
     (if input = [] \<or> seg = 0 then Some framed
      else
        let n = min seg (length input);
            framed' = framed @ le32 (of_nat n) @ take n input
        in if length framed' > kMaxResultPayloadBytes then None
           else segment_loop seg framed' (drop n input))"
  by pat_completeness auto
termination by (relation "measure (\<lambda>(seg, framed, input). length input)") auto

declare segment_loop.simps [simp del]

text \<open>The joining loop, with the reason when it refuses.\<close>

function join_loop :: "u8 list \<Rightarrow> u8 list \<Rightarrow> string + u8 list" where
  "join_loop joined input =
     (if input = [] then Inr joined
      else if length input < 4 then Inl ''truncated frame header''
      else
        let n = unat (of_le_bytes (take 4 input) :: u32); rest = drop 4 input in
        if n > length rest then Inl ''truncated frame body''
        else
          let joined' = joined @ take n rest
          in if length joined' > kMaxResultPayloadBytes then Inl ''joined output too large''
             else join_loop joined' (drop n rest))"
  by pat_completeness auto
termination by (relation "measure (\<lambda>(joined, input). length input)") auto

declare join_loop.simps [simp del]

lemma join_frame:
  assumes "length joined + length xs \<le> kMaxResultPayloadBytes"
  shows "join_loop joined (le32 (of_nat (length xs)) @ xs @ rest) = join_loop (joined @ xs) rest"
  using assms by (subst join_loop.simps) (simp add: unat_small Let_def)

text \<open>What the framing loop appends is read back by the joining loop.\<close>

lemma join_segments:
  "segment_loop seg framed input = Some framed' \<Longrightarrow> seg \<noteq> 0 \<Longrightarrow>
   \<exists>frames. framed' = framed @ frames \<and> length input \<le> length frames
     \<and> (input \<noteq> [] \<longrightarrow> length framed' \<le> kMaxResultPayloadBytes)
     \<and> (\<forall>joined rest. length joined + length input \<le> kMaxResultPayloadBytes \<longrightarrow>
          join_loop joined (frames @ rest) = join_loop (joined @ input) rest)"
proof (induction seg framed input arbitrary: framed' rule: segment_loop.induct)
  case (1 seg framed input)
  show ?case
  proof (cases "input = []")
    case True
    then show ?thesis using "1.prems" by (simp add: segment_loop.simps [of _ _ "[]"])
  next
    case False
    define n where "n = min seg (length input)"
    define framed1 where "framed1 = framed @ le32 (of_nat n) @ take n input"
    have "segment_loop seg framed input =
        (if length framed1 > kMaxResultPayloadBytes then None
         else segment_loop seg framed1 (drop n input))"
      using "1.prems"(2) False by (subst segment_loop.simps) (simp add: Let_def n_def framed1_def)
    then have small: "length framed1 \<le> kMaxResultPayloadBytes"
      and next_loop: "segment_loop seg framed1 (drop n input) = Some framed'"
      using "1.prems"(1) by (simp_all split: if_splits)
    have "\<not> (input = [] \<or> seg = 0)" using False "1.prems"(2) by simp
    from "1.IH" [OF this n_def framed1_def _ next_loop "1.prems"(2)] small
    obtain frames where frames: "framed' = framed1 @ frames" "length (drop n input) \<le> length frames"
      "drop n input \<noteq> [] \<longrightarrow> length framed' \<le> kMaxResultPayloadBytes"
      "\<And>joined rest. length joined + length (drop n input) \<le> kMaxResultPayloadBytes \<Longrightarrow>
         join_loop joined (frames @ rest) = join_loop (joined @ drop n input) rest"
      by auto
    have n: "n \<le> length input" "length (take n input) = n" by (simp_all add: n_def)
    have len: "length framed' \<le> kMaxResultPayloadBytes"
      using frames(3) small next_loop by (cases "drop n input = []") (auto simp: segment_loop.simps [of _ _ "[]"])
    moreover have "join_loop joined ((le32 (of_nat n) @ take n input @ frames) @ rest)
        = join_loop (joined @ input) rest"
      if "length joined + length input \<le> kMaxResultPayloadBytes" for joined rest
    proof -
      have "join_loop joined (le32 (of_nat (length (take n input))) @ take n input @ frames @ rest)
          = join_loop (joined @ take n input) (frames @ rest)"
        by (rule join_frame) (use that n in simp)
      also have "\<dots> = join_loop ((joined @ take n input) @ drop n input) rest"
        by (rule frames(4)) (use that n in simp)
      finally show ?thesis using n(2) by simp
    qed
    ultimately show ?thesis
      using frames(1,2) n by (intro exI [of _ "le32 (of_nat n) @ take n input @ frames"]) (simp add: framed1_def)
  qed
qed

lemma join_split_round_trip:
  assumes "segment_loop seg [] input = Some framed" and "seg \<noteq> 0"
  shows "join_loop [] framed = Inr input"
proof (cases "input = []")
  case True
  then show ?thesis using assms(1) by (simp add: segment_loop.simps join_loop.simps)
next
  case False
  obtain frames where "framed = [] @ frames" "length input \<le> length frames"
      "length framed \<le> kMaxResultPayloadBytes"
      and join: "\<forall>joined rest. length joined + length input \<le> kMaxResultPayloadBytes \<longrightarrow>
          join_loop joined (frames @ rest) = join_loop (joined @ input) rest"
    using join_segments [OF assms] False by blast
  then show ?thesis
    using join [rule_format, of "[]" "[]"] by (simp add: join_loop.simps [of _ "[]"])
qed

section \<open>The host executor\<close>

definition outcome_ok :: "u64 \<Rightarrow> nat \<Rightarrow> u8 list \<Rightarrow> ExecutionOutcome" where
  "outcome_ok digest bytes output =
     \<lparr>eo_executed = True, eo_success = True, eo_ambiguous = False, eo_failure = FailureKind.kNone,
      eo_result_digest = digest, eo_bytes_processed = of_nat bytes, eo_duration_ns = 0,
      eo_output = output, eo_detail = []\<rparr>"

definition outcome_failed :: "FailureKind \<Rightarrow> string \<Rightarrow> ExecutionOutcome" where
  "outcome_failed kind detail =
     \<lparr>eo_executed = False, eo_success = False, eo_ambiguous = False, eo_failure = kind,
      eo_result_digest = 0, eo_bytes_processed = 0, eo_duration_ns = 0, eo_output = [],
      eo_detail = detail\<rparr>"

definition unsupported :: "string \<Rightarrow> ExecutionOutcome" where
  "unsupported name =
     outcome_failed FailureKind.kBackendRejection (''host executor does not implement '' @ name)"

definition host_checksum :: "u8 list \<Rightarrow> ExecutionOutcome" where
  "host_checksum input =
     (let crc = crc32c input in outcome_ok (ucast crc) (length input) (le_bytes 4 crc))"

definition host_compress :: "u8 list \<Rightarrow> ExecutionOutcome" where
  "host_compress input =
     (let encoded = rle_encode input in
      if length encoded > kMaxResultPayloadBytes
      then outcome_failed FailureKind.kBackendRejection ''compressed output too large''
      else outcome_ok (fnv1a64 encoded) (length input) encoded)"

definition host_decompress :: "u8 list \<Rightarrow> ExecutionOutcome" where
  "host_decompress input =
     (case rle_decode input of
        None \<Rightarrow> outcome_failed FailureKind.kBackendRejection ''malformed compressed input''
      | Some decoded \<Rightarrow> outcome_ok (fnv1a64 decoded) (length decoded) decoded)"

definition host_split :: "PayloadDescriptor \<Rightarrow> u8 list \<Rightarrow> ExecutionOutcome" where
  "host_split payload input =
     (case segment_loop (segment_size payload (length input)) [] input of
        None \<Rightarrow> outcome_failed FailureKind.kBackendRejection ''framed output too large''
      | Some framed \<Rightarrow> outcome_ok (fnv1a64 framed) (length input) framed)"

definition host_join :: "u8 list \<Rightarrow> ExecutionOutcome" where
  "host_join input =
     (case join_loop [] input of
        Inl reason \<Rightarrow> outcome_failed FailureKind.kBackendRejection reason
      | Inr joined \<Rightarrow> outcome_ok (fnv1a64 joined) (length joined) joined)"

definition host_validate :: "u8 list \<Rightarrow> ExecutionOutcome" where
  "host_validate input =
     (if length input < 8
      then outcome_failed FailureKind.kBackendRejection ''payload shorter than digest''
      else
        let expected = of_le_bytes (take 8 input) :: u64; actual = fnv1a64 (drop 8 input) in
        if expected \<noteq> actual
        then (outcome_failed FailureKind.kIntegrityFailure ''integrity digest mismatch'')
               \<lparr>eo_executed := True, eo_result_digest := actual,
                eo_bytes_processed := of_nat (length input - 8)\<rparr>
        else outcome_ok actual (length input - 8) [])"

definition execute_operation_on_host ::
    "OperationClassRegistry \<Rightarrow> u64 \<Rightarrow> ExecutionInvocation \<Rightarrow> ExecutionOutcome \<times> u64" where
  "execute_operation_on_host classes sink_counter iv =
     (let operation = iv_operation_class iv; input = iv_input iv in
      case find_class classes operation of
        None \<Rightarrow> (unsupported ''an unregistered operation class'', sink_counter)
      | Some desc \<Rightarrow>
          if operation = 1 then (host_checksum input, sink_counter)
          else if operation = 2 then (host_compress input, sink_counter)
          else if operation = 3 then (host_decompress input, sink_counter)
          else if operation = 4 then (outcome_ok (fnv1a64 input) (length input) input, sink_counter)
          else if operation = 5 then (host_split (iv_payload iv) input, sink_counter)
          else if operation = 6 then (host_join input, sink_counter)
          else if operation = 7 then (host_validate input, sink_counter)
          else if operation = 8
          then let r = sink_counter + 1
               in ((outcome_ok r (length input) (le_bytes 8 r))
                     \<lparr>eo_detail := ''appended record '' @ to_string_u64 r\<rparr>, r)
          else if operation = 9 then (outcome_ok (of_nat (length input)) (length input) [], sink_counter)
          else (unsupported (ocd_name desc), sink_counter))"

section \<open>The CPU domain\<close>

definition memory_domain_mask_for :: "ExecutionDomainType \<Rightarrow> u32" where
  "memory_domain_mask_for type =
     (let host = memory_bit MemoryDomain.kHost OR memory_bit MemoryDomain.kPinnedHost in
      case type of
        ExecutionDomainType.kCpu \<Rightarrow> host
      | ExecutionDomainType.kAccelerator \<Rightarrow>
          host OR memory_bit MemoryDomain.kDeviceLocal OR memory_bit MemoryDomain.kPeerDevice
      | ExecutionDomainType.kNic \<Rightarrow> host OR memory_bit MemoryDomain.kNicOnboard
      | ExecutionDomainType.kSmartNic \<Rightarrow> host OR memory_bit MemoryDomain.kSmartNicOnboard
      | ExecutionDomainType.kDpu \<Rightarrow> host OR memory_bit MemoryDomain.kDpuOnboard
      | ExecutionDomainType.kOtherRegisteredOffloadEngine \<Rightarrow> host)"

definition host_executor_operations :: "u64 list" where
  "host_executor_operations = [1, 2, 3, 4, 5, 6, 7, 8, 9]"

text \<open>\<^verbatim>\<open>sanitize\<close>: letters, digits and three punctuation marks stay, three separators become dots.\<close>

definition sanitize_char :: "char \<Rightarrow> string" where
  "sanitize_char c =
     (let uc = (of_char c :: nat) in
      if (97 \<le> uc \<and> uc \<le> 122) \<or> (65 \<le> uc \<and> uc \<le> 90) \<or> (48 \<le> uc \<and> uc \<le> 57)
         \<or> c = CHR ''.'' \<or> c = CHR ''-'' \<or> c = CHR ''_'' then [c]
      else if c = CHR '' '' \<or> c = CHR '':'' \<or> c = CHR ''/'' then [CHR ''.'']
      else [])"

definition sanitize :: "string \<Rightarrow> string" where
  "sanitize text =
     (let out = concat (map sanitize_char text);
          out = rev (dropWhile (\<lambda>c. c = CHR ''.'') (rev out));
          out = take kMaxNameLength out
      in if out = [] then ''host'' else out)"

definition flag_mask :: "CapabilityFlag list \<Rightarrow> u32" where
  "flag_mask flags = foldl (\<lambda>m f. m OR flag_bit f) 0 flags"

definition make_host_executor_capability ::
    "u64 \<Rightarrow> u32 \<Rightarrow> u32 \<Rightarrow> string \<Rightarrow> u32 \<Rightarrow> u32 \<Rightarrow> CapabilitySet" where
  "make_host_executor_capability max_payload_bytes queue_capacity max_concurrency backend_family
       memory_domain_mask driver_backend_version =
     canonicalize
       \<lparr>cs_operations = host_executor_operations,
        cs_flags = flag_mask [CapabilityFlag.kChecksum, CapabilityFlag.kCompression,
          CapabilityFlag.kDecompression, CapabilityFlag.kIntegrityVerify,
          CapabilityFlag.kSegmentation, CapabilityFlag.kReassembly, CapabilityFlag.kStagingCopy,
          CapabilityFlag.kSideEffectSink, CapabilityFlag.kPacketProcessing],
        cs_unproven_flags = flag_mask [CapabilityFlag.kEncryption, CapabilityFlag.kDecryption,
          CapabilityFlag.kRdma, CapabilityFlag.kGpudirectAddressable, CapabilityFlag.kDma,
          CapabilityFlag.kScatterGather, CapabilityFlag.kHeaderProcessing,
          CapabilityFlag.kProtocolTransform],
        cs_memory_domains = memory_domain_mask, cs_min_payload_bytes = 0,
        cs_max_payload_bytes = max_payload_bytes, cs_alignment_bytes = 8,
        cs_max_concurrency = (if max_concurrency = 0 then 1 else max_concurrency),
        cs_queue_capacity = queue_capacity,
        cs_transport_classes = transport_bit TransportClass.kRawFrames
          OR transport_bit TransportClass.kStreamBytes OR transport_bit TransportClass.kDatagramBytes
          OR transport_bit TransportClass.kControlPlane,
        cs_payload_classes = payload_bit PayloadClass.kOpaqueBytes
          OR payload_bit PayloadClass.kStructuredHeader OR payload_bit PayloadClass.kSegmentedFrames
          OR payload_bit PayloadClass.kScatterGatherList,
        cs_protocol_version = 1, cs_driver_backend_version = driver_backend_version,
        cs_firmware_generation = 0, cs_accelerator_arch = 0,
        cs_backend_family = sanitize backend_family\<rparr>"

record CpuBackendOptions =
  cb_domain_id :: u64
  cb_name :: string
  cb_max_payload_bytes :: u64
  cb_queue_capacity :: u32
  cb_max_concurrency :: u32
  cb_worker :: u64
  cb_worker_boot :: u64
  cb_parent_host :: string

text \<open>What \<^verbatim>\<open>describe\<close> asks the host.\<close>

record HostFacts =
  hf_threads :: u32
  hf_cpu_brand :: string
  hf_host_name :: string
  hf_physical_memory :: u64

definition describe_cpu :: "HostFacts \<Rightarrow> CpuBackendOptions \<Rightarrow> ExecutionDomainRecord" where
  "describe_cpu host options =
     (let capability = make_host_executor_capability (cb_max_payload_bytes options)
            (cb_queue_capacity options)
            (if cb_max_concurrency options = 0 then hf_threads host else cb_max_concurrency options)
            ''cpu.host'' (memory_bit MemoryDomain.kHost OR memory_bit MemoryDomain.kPinnedHost) 1;
          parent_host = (if cb_parent_host options = [] then hf_host_name host
                         else cb_parent_host options);
          threads = ucast (cs_max_concurrency capability) :: u64
      in empty_domain\<lparr>
           dr_id := cb_domain_id options, dr_generation := gen_first,
           dr_type := ExecutionDomainType.kCpu, dr_name := cb_name options,
           dr_parent_device := ''cpu.'' @ hf_cpu_brand host, dr_parent_host := parent_host,
           dr_worker := cb_worker options, dr_worker_boot := cb_worker_boot options,
           dr_provenance := Provenance.kReal, dr_registration_sequence := cb_domain_id options,
           dr_capability := empty_capability_record\<lparr>
             cap_domain := cb_domain_id options, cap_generation := gen_first,
             cap_evidence := gen_first, cap_provenance := Provenance.kReal,
             cap_authoritative := True, cap_capability := capability\<rparr>,
           dr_load := no_load\<lparr>
             ld_load_generation := gen_first, ld_queue_generation := gen_first,
             ld_health_generation := gen_first, ld_evidence := gen_first,
             ld_provenance := Provenance.kReal, ld_healthy := True, ld_ready := True,
             ld_accepting := True\<rparr>,
           dr_locality := (dr_locality empty_domain)\<lparr>
             lo_generation := gen_first, lo_class_to_payload := LocalityClass.kDomainLocal,
             lo_has_local_nic := True\<rparr>,
           dr_topology := (dr_topology empty_domain)\<lparr>
             to_generation := gen_first, to_host_node := parent_host\<rparr>,
           dr_compatibility := (dr_compatibility empty_domain)\<lparr>
             cm_generation := gen_first, cm_driver_backend_version := 1,
             cm_protocol_version := 1, cm_backend_family := ''cpu.host''\<rparr>,
           dr_isolation := IsolationClass.kSharedProcess,
           dr_capacity := no_amounts(
             ResourceKind.kExecutionSlot := threads,
             ResourceKind.kQueueDepth := ucast (cb_queue_capacity options),
             ResourceKind.kProcessingContext := threads,
             ResourceKind.kScratchMemoryBytes :=
               (if hf_physical_memory host = 0 then 0 else hf_physical_memory host div 8)),
           dr_backend_generation := gen_first\<rparr>)"

text \<open>Every discovery is a fresh publication, numbered by the publication counter.\<close>

definition discover_cpu :: "ExecutionDomainRecord \<Rightarrow> u64 \<Rightarrow> u32 \<Rightarrow> ExecutionDomainRecord \<times> u64" where
  "discover_cpu r publication busy =
     (let publication' = publication + 1;
          slots = max 1 (dr_capacity r ResourceKind.kExecutionSlot)
      in (r\<lparr>dr_load := (dr_load r)\<lparr>
               ld_load_generation := publication', ld_queue_generation := publication',
               ld_health_generation := publication', ld_evidence := publication',
               ld_in_flight := busy, ld_queue_depth := 0,
               ld_utilization_percent :=
                 ucast (min 100 (ucast (busy * 100) div slots))\<rparr>\<rparr>, publication'))"

section \<open>Properties\<close>

lemma segment_size_pos: "segment_size payload n \<noteq> 0"
  by (simp add: segment_size_def Let_def)

text \<open>The classes of the built-in operations are registered under their identities.\<close>

lemma builtin_found:
  "i \<in> {1, 2, 3, 4, 5, 6, 7, 8, 9} \<Longrightarrow> find_class builtin_descriptors i \<noteq> None"
  by (auto simp: find_class_def builtin_descriptors_def descriptor_def)

lemma execute_transform:
  assumes "i \<in> {2, 3, 5, 6, 7}"
  shows "execute_operation_on_host builtin_descriptors n (iv\<lparr>iv_operation_class := i\<rparr>) =
    (if i = 2 then host_compress (iv_input iv) else if i = 3 then host_decompress (iv_input iv)
     else if i = 5 then host_split (iv_payload iv) (iv_input iv)
     else if i = 6 then host_join (iv_input iv) else host_validate (iv_input iv), n)"
  using assms builtin_found [of i] by (auto simp: execute_operation_on_host_def Let_def)

text \<open>
  C31. COMPRESS_RLE followed by DECOMPRESS_RLE, and SEGMENT_SPLIT followed by REASSEMBLE_JOIN, give the
  payload back: whenever the first operation succeeds on a payload within the dispatch bound, the
  second succeeds on its output and returns exactly the original bytes with their digest.
\<close>

theorem host_transforms_round_trip:
  assumes "(i, j) \<in> {(2, 3), (5, 6)}"
    and "execute_operation_on_host builtin_descriptors n (iv\<lparr>iv_operation_class := i\<rparr>) = (first, n1)"
    and "eo_success first" and "length (iv_input iv) \<le> kMaxResultPayloadBytes"
  shows "execute_operation_on_host builtin_descriptors n
           (iv\<lparr>iv_input := eo_output first, iv_operation_class := j\<rparr>) =
         (outcome_ok (fnv1a64 (iv_input iv)) (length (iv_input iv)) (iv_input iv), n)"
proof -
  have exec: "execute_operation_on_host builtin_descriptors n
      (iv\<lparr>iv_input := eo_output first, iv_operation_class := j\<rparr>) =
    ((if j = 3 then host_decompress (eo_output first) else host_join (eo_output first)), n)"
    using assms(1) execute_transform [of j n "iv\<lparr>iv_input := eo_output first\<rparr>"] by auto
  consider "i = 2" "j = 3" | "i = 5" "j = 6" using assms(1) by blast
  then show ?thesis
  proof cases
    case 1
    then have "first = host_compress (iv_input iv)"
      using assms(2) execute_transform [of 2 n iv] by simp
    then have "eo_output first = rle_encode (iv_input iv)"
      using assms(3) by (auto simp: host_compress_def Let_def outcome_failed_def outcome_ok_def split: if_splits)
    then show ?thesis
      using exec 1 rle_decode_encode [of "[]" "iv_input iv"] assms(4)
      by (simp add: host_decompress_def rle_decode_def)
  next
    case 2
    then have "first = host_split (iv_payload iv) (iv_input iv)"
      using assms(2) execute_transform [of 5 n iv] by simp
    then have "segment_loop (segment_size (iv_payload iv) (length (iv_input iv))) [] (iv_input iv) = Some (eo_output first)"
      using assms(3) by (auto simp: host_split_def outcome_failed_def outcome_ok_def split: option.splits)
    from join_split_round_trip [OF this segment_size_pos] show ?thesis
      using exec 2 by (simp add: host_join_def)
  qed
qed

definition demo_invocation :: ExecutionInvocation where
  "demo_invocation =
     \<lparr>iv_attempt = 1, iv_attempt_generation = 1, iv_dispatch = 1, iv_coordinator_epoch = 1,
      iv_worker = 1, iv_worker_boot = 1, iv_domain = 1, iv_domain_generation = 1,
      iv_capability_generation = 1, iv_operation_class = 5, iv_side_effect = SideEffectClass.kPure,
      iv_payload = default_payload\<lparr>pd_segment_count := 2\<rparr>, iv_input = [7, 7, 8, 9, 9],
      iv_retry_index = 0, iv_fallback = False, iv_provenance = Provenance.kReal\<rparr>"

theorem host_transforms_round_trip_witness:
  "execute_operation_on_host builtin_descriptors 0
     (demo_invocation\<lparr>iv_input := eo_output (fst (execute_operation_on_host builtin_descriptors 0 demo_invocation)),
        iv_operation_class := 6\<rparr>) =
   (outcome_ok (fnv1a64 [7, 7, 8, 9, 9]) (length [7, 7, 8, 9, 9 :: u8]) [7, 7, 8, 9, 9], 0)"
proof -
  let ?r = "execute_operation_on_host builtin_descriptors 0 (demo_invocation\<lparr>iv_operation_class := 5\<rparr>)"
  have seg: "segment_loop 2 [] [7, 7, 8, 9, 9] =
      Some (le32 (of_nat 2) @ [7, 7] @ le32 (of_nat 2) @ [8, 9] @ le32 (of_nat 1) @ [9])"
    by (simp add: segment_loop.simps kMaxResultPayloadBytes_def)
  have ok: "eo_success (fst ?r)"
    using execute_transform [of 5 0 demo_invocation]
    by (simp add: demo_invocation_def host_split_def segment_size_def default_payload_def
        seg [unfolded numeral_2_eq_2] outcome_ok_def)
  have "demo_invocation\<lparr>iv_operation_class := 5\<rparr> = demo_invocation" by (simp add: demo_invocation_def)
  then show ?thesis
    using host_transforms_round_trip [of 5 6 0 demo_invocation "fst ?r" "snd ?r"] ok
    by (simp add: demo_invocation_def kMaxResultPayloadBytes_def)
qed

text \<open>Every transformation keeps its output within the result bound.\<close>

lemma rle_decode_bounded:
  "rle_decode_loop out input = Some decoded \<Longrightarrow> length out \<le> kMaxResultPayloadBytes \<Longrightarrow>
     length decoded \<le> kMaxResultPayloadBytes"
proof (induction out input arbitrary: decoded rule: rle_decode_loop.induct)
  case (1 out input)
  note unfolded = "1.prems"(1) [unfolded rle_decode_loop.simps [of out input]]
  show ?case
  proof (cases "hd input = 1")
    case True
    with "1.IH"(1) [OF _ _ refl refl True] unfolded "1.prems"(2) show ?thesis
      by (auto simp: Let_def split: if_splits)
  next
    case False
    with "1.IH"(2) [OF _ _ refl refl False] unfolded "1.prems"(2) show ?thesis
      by (auto simp: Let_def split: if_splits)
  qed
qed

lemma join_bounded:
  "join_loop joined input = Inr out \<Longrightarrow> length joined \<le> kMaxResultPayloadBytes \<Longrightarrow>
     length out \<le> kMaxResultPayloadBytes"
proof (induction joined input arbitrary: out rule: join_loop.induct)
  case (1 joined input)
  note unfolded = "1.prems"(1) [unfolded join_loop.simps [of joined input]]
  from "1.IH" [OF _ _ refl refl] unfolded "1.prems"(2) show ?case
    by (auto simp: Let_def split: if_splits)
qed

lemma segment_bounded:
  "segment_loop seg framed input = Some out \<Longrightarrow> length framed \<le> kMaxResultPayloadBytes \<Longrightarrow>
     length out \<le> kMaxResultPayloadBytes"
proof (induction seg framed input arbitrary: out rule: segment_loop.induct)
  case (1 seg framed input)
  note unfolded = "1.prems"(1) [unfolded segment_loop.simps [of seg framed input]]
  from "1.IH" [OF _ refl refl] unfolded "1.prems"(2) show ?case
    by (auto simp: Let_def split: if_splits)
qed

text \<open>
  The host executor never returns more than the result bound for a payload within the dispatch
  bound, its append-only sink moves only for SIDE_EFFECT_EMIT, and VALIDATE_INTEGRITY succeeds exactly
  on a payload whose first eight bytes are the little-endian FNV-1a digest of the rest.
\<close>

theorem host_executor_is_bounded_and_exact:
  assumes "length (iv_input iv) \<le> kMaxResultPayloadBytes"
    and "execute_operation_on_host classes n iv = (outcome, n')"
  shows "length (eo_output outcome) \<le> kMaxResultPayloadBytes
         \<and> (n' \<noteq> n \<longrightarrow> iv_operation_class iv = 8 \<and> n' = n + 1)
         \<and> (iv_operation_class iv = 7 \<and> find_class classes 7 \<noteq> None \<longrightarrow>
              (eo_success outcome \<longleftrightarrow>
                 8 \<le> length (iv_input iv)
                 \<and> take 8 (iv_input iv) = le_bytes 8 (fnv1a64 (drop 8 (iv_input iv)))))"
proof -
  let ?input = "iv_input iv"
  have small: "8 \<le> kMaxResultPayloadBytes" by (simp add: kMaxResultPayloadBytes_def)
  then have bound: "length (eo_output (host_checksum ?input)) \<le> kMaxResultPayloadBytes"
    "length (eo_output (host_compress ?input)) \<le> kMaxResultPayloadBytes"
    "length (eo_output (host_decompress ?input)) \<le> kMaxResultPayloadBytes"
    "length (eo_output (host_split (iv_payload iv) ?input)) \<le> kMaxResultPayloadBytes"
    "length (eo_output (host_join ?input)) \<le> kMaxResultPayloadBytes"
    "length (eo_output (host_validate ?input)) \<le> kMaxResultPayloadBytes"
    using rle_decode_bounded [of "[]" ?input] join_bounded [of "[]" ?input]
      segment_bounded [of _ "[]" ?input] small
    by (auto simp: host_checksum_def host_compress_def host_decompress_def host_split_def host_join_def
        host_validate_def outcome_ok_def outcome_failed_def Let_def rle_decode_def
        split: option.split sum.split)
  have "length (eo_output outcome) \<le> kMaxResultPayloadBytes"
    using assms bound
    by (auto simp: execute_operation_on_host_def Let_def unsupported_def outcome_ok_def outcome_failed_def
        kMaxResultPayloadBytes_def split: option.splits if_splits)
  moreover have "n' \<noteq> n \<longrightarrow> iv_operation_class iv = 8 \<and> n' = n + 1"
    using assms(2) by (auto simp: execute_operation_on_host_def Let_def split: option.splits if_splits)
  moreover have "eo_success (host_validate ?input) \<longleftrightarrow>
      8 \<le> length ?input \<and> take 8 ?input = le_bytes 8 (fnv1a64 (drop 8 ?input))"
  proof (cases "8 \<le> length ?input")
    case True
    then have "(of_le_bytes (take 8 ?input) :: u64) = d \<longleftrightarrow> take 8 ?input = le_bytes 8 d" for d
      using le_of_le_bytes [of "take 8 ?input", where 'a=64] of_le_le_bytes [of 8 d] by auto
    then show ?thesis using True
      by (auto simp: host_validate_def Let_def outcome_ok_def outcome_failed_def)
  qed (simp add: host_validate_def outcome_failed_def)
  moreover have "outcome = host_validate ?input"
    if "iv_operation_class iv = 7" "find_class classes 7 \<noteq> None"
    using assms(2) that by (auto simp: execute_operation_on_host_def Let_def)
  ultimately show ?thesis by simp
qed

theorem host_executor_is_bounded_and_exact_witness:
  "length (eo_output (fst (execute_operation_on_host builtin_descriptors 0 demo_invocation)))
     \<le> kMaxResultPayloadBytes"
  using host_executor_is_bounded_and_exact [of demo_invocation builtin_descriptors 0]
  by (cases "execute_operation_on_host builtin_descriptors 0 demo_invocation")
     (simp add: demo_invocation_def kMaxResultPayloadBytes_def)

end
