(* ===== verification/Tos_Safety.thy ===== *)
theory Tos_Safety
  imports Tos_Executor
begin

text \<open>
  The scheduler as a transition system: \<open>scheduler_step\<close> has one rule per public operation of
  \<^verbatim>\<open>class Scheduler\<close>, and the theorems lift the contracts of the components to every state a running
  scheduler reaches, whatever the order of the operations and whatever a conforming channel does.
\<close>

section \<open>Runs of the scheduler\<close>

text \<open>
  A reservation step is taken only while the shard of the domain has identities left: after
  \<open>2 ^ 64 - 1\<close> attempts on one shard its counter would wrap. Stored states have passed the checks of the
  store on decoding.
\<close>

inductive scheduler_step :: "DispatchChannel option \<Rightarrow> store_save \<Rightarrow> Scheduler \<Rightarrow> Scheduler \<Rightarrow> bool"
  for channel save where
  do_class: "scheduler_step channel save s (snd (register_operation_class s desc))"
| do_policy: "scheduler_step channel save s (snd (set_policy s policy))"
| do_register: "scheduler_step channel save s (snd (register_domain s r))"
| do_update: "scheduler_step channel save s (snd (update_domain s r))"
| do_capability: "scheduler_step channel save s (snd (scheduler_publish_capability s capability))"
| do_load: "scheduler_step channel save s (snd (scheduler_publish_load s d load))"
| do_locality: "scheduler_step channel save s (snd (scheduler_publish_locality s d locality))"
| do_topology: "scheduler_step channel save s (snd (scheduler_publish_topology s d topology))"
| do_compatibility: "scheduler_step channel save s (snd (scheduler_publish_compatibility s d compatibility))"
| do_capacity: "scheduler_step channel save s (snd (scheduler_publish_capacity s d c))"
| do_boot: "scheduler_step channel save s (snd (register_worker_boot s w b label))"
| do_plan: "scheduler_step channel save s (snd (plan s request payload))"
| do_reserve: "reservation_ids_left s (pl_domain p) \<Longrightarrow>
    scheduler_step channel save s (snd (snd (reserve s p)))"
| do_dispatch: "scheduler_step channel save s (snd (snd (dispatch channel s p)))"
| do_plan_reserve_dispatch: "(\<And>d. reservation_ids_left s d) \<Longrightarrow>
    scheduler_step channel save s (snd (plan_reserve_dispatch channel s request payload))"
| do_complete: "scheduler_step channel save s (snd (complete s submission))"
| do_failure: "scheduler_step channel save s (snd (report_failure s i kind detail))"
| do_retry: "scheduler_step channel save s (snd (retry s i))"
| do_fallback: "scheduler_step channel save s (snd (fallback s p trigger))"
| do_cancel: "scheduler_step channel save s (snd (cancel channel s i))"
| do_fence_domain: "scheduler_step channel save s (snd (fence_domain save s d reason))"
| do_fence_boot: "scheduler_step channel save s (snd (fence_worker_boot save s b reason))"
| do_withdraw: "scheduler_step channel save s (snd (withdraw_evidence s d reason))"
| do_remove: "scheduler_step channel save s (snd (remove_domain s d))"
| do_snapshot: "scheduler_step channel save s (snd (snapshot s))"
| do_reconcile: "scheduler_step channel save s (snd (reconcile s))"
| do_save: "scheduler_step channel save s (snd (save_state save s))"
| do_load_state: "stored_ok stored \<Longrightarrow> scheduler_step channel save s (snd (load_state s stored))"
| do_start: "stored_ok stored \<Longrightarrow> scheduler_step channel save s (snd (start s stored worker boot))"
| do_shutdown: "scheduler_step channel save s (snd (shutdown save channel s))"

inductive_cases scheduler_stepE: "scheduler_step channel save s s'"

abbreviation scheduler_run :: "DispatchChannel option \<Rightarrow> store_save \<Rightarrow> Scheduler \<Rightarrow> Scheduler \<Rightarrow> bool" where
  "scheduler_run channel save \<equiv> (scheduler_step channel save)\<^sup>*\<^sup>*"

lemma configuration_runs:
  "component_run s (snd (register_operation_class s desc))" "component_run s (snd (set_policy s policy))"
  "component_run s (snd (snapshot s))" "component_run s (snd (reconcile s))"
  by (rule component_run_same;
      simp add: register_operation_class_def set_policy_def snapshot_def reconcile_def Let_def split_beta)+

lemmas operation_runs = configuration_runs register_domain_run update_domain_run publish_run
  publish_capacity_run register_worker_boot_run plan_run reserve_run complete_run report_failure_run
  retry_run fallback_run fence_domain_run fence_worker_boot_run remove_domain_run save_state_run
  load_state_run start_run

context dispatch_channel
begin

lemmas channel_runs = dispatch_run plan_reserve_dispatch_run cancel_run_all shutdown_run_all

lemma scheduler_step_run: "scheduler_step channel save s s' \<Longrightarrow> component_run s s'"
  by (erule scheduler_stepE) (simp_all only: operation_runs channel_runs)

lemma scheduler_steps_run: "scheduler_run channel save s s' \<Longrightarrow> component_run s s'"
  by (induction rule: rtranclp_induct) (auto intro: component_run_trans scheduler_step_run)

end

lemma new_scheduler_inv: "scheduler_inv (new_scheduler options)"
  unfolding new_scheduler_def scheduler_inv_def Let_def
  by (simp add: kDefaultShards_def kMaxShards_def new_reservation_ledger_inv new_attempt_ledger_inv
      worker_inv_new)
     (simp add: set_max_domains_def registry_inv_new)

definition reachable_scheduler ::
    "DispatchChannel option \<Rightarrow> store_save \<Rightarrow> SchedulerOptions \<Rightarrow> Scheduler \<Rightarrow> bool" where
  "reachable_scheduler channel save options s \<longleftrightarrow> scheduler_run channel save (new_scheduler options) s"

lemma reachable_scheduler_inv:
  assumes "dispatch_channel channel" and "reachable_scheduler channel save options s"
  shows "scheduler_inv s"
  using dispatch_channel.scheduler_steps_run [OF assms(1)] assms(2) component_run_inv new_scheduler_inv
  unfolding reachable_scheduler_def by blast

section \<open>Recovered attempts\<close>

lemma get_new_attempt_ledger: "get_attempt (new_attempt_ledger n) = Map.empty"
proof
  fix j
  let ?l = "new_attempt_ledger n"
  have "as_attempts (al_shards ?l ! i) = []" if "i < al_shard_count ?l" for i
    using that by (simp add: new_attempt_ledger_def Let_def)
  then show "get_attempt ?l j = None" by (simp add: get_attempt_def Let_def)
qed

lemma restored_get:
  assumes "attempts_inv l" and "attempt_ok a" and "st_ok (fst (restore_attempt l a))"
  shows "get_attempt (snd (restore_attempt l a)) = (get_attempt l)(att_id a \<mapsto> a)"
  by (cases rule: restore_cases [of l a])
     (use assms in \<open>simp_all add: attempts_inv_put_attempt raise_counter_frame get_put_attempt\<close>)

lemma restore_attempts_keep:
  "attempts_inv l \<Longrightarrow> list_all attempt_ok as \<Longrightarrow> get_attempt l j = Some b \<Longrightarrow>
     get_attempt (snd (restore_attempts l as)) j = Some b"
  by (induction as arbitrary: l) (simp_all add: split_beta restore_inv restore_get)

lemma restored_attempts_found:
  assumes "attempts_inv l" and "list_all attempt_ok as" and "st_ok (fst (restore_attempts l as))"
    and "a \<in> set as"
  shows "get_attempt (snd (restore_attempts l as)) (att_id a) = Some a"
  using assms
proof (induction as arbitrary: l)
  case (Cons b as)
  let ?l = "snd (restore_attempt l b)"
  have b: "st_ok (fst (restore_attempt l b))" "attempt_ok b"
    using Cons.prems by (auto simp: split_beta split: if_splits)
  have inv: "attempts_inv ?l" using Cons.prems(1) b(2) by (simp add: restore_inv)
  have rest: "list_all attempt_ok as" "st_ok (fst (restore_attempts ?l as))"
    using Cons.prems b by (simp_all add: split_beta)
  have "get_attempt (snd (restore_attempts ?l as)) (att_id a) = Some a"
  proof (cases "a \<in> set as")
    case False
    then have "get_attempt ?l (att_id a) = Some a"
      using Cons.prems restored_get [OF Cons.prems(1) b(2,1)] by simp
    then show ?thesis by (rule restore_attempts_keep [OF inv rest(1)])
  qed (use Cons.IH [OF inv rest] in blast)
  then show ?case using b by (simp add: split_beta)
qed simp

section \<open>Properties\<close>

text \<open>The channel, the store and the runs of the witnesses.\<close>

definition demo_channel :: "DispatchChannel option" where
  "demo_channel =
     Some (local_view (\<lambda>iv. fst (execute_operation_on_host builtin_descriptors 0 iv)) None 5 True
             (new_local_channel 8))"

definition demo_save :: store_save where
  "demo_save path state = success"

lemma demo_channel_conforms: "dispatch_channel demo_channel"
  unfolding demo_channel_def by (rule local_channel.dispatch_channel_axioms)




lemma demo_reachable: "reachable_scheduler demo_channel demo_save default_options (new_scheduler default_options)"
  by (simp add: reachable_scheduler_def)


text \<open>
  C16. Once the scheduler has committed the completion of an attempt, the record is final: through
  every later sequence of operations (retries, fencing, shutdown, restarts included) it reads back
  unchanged, and no further completion of it is accepted or changes any attempt.
\<close>

theorem scheduler_completion_is_final:
  assumes "dispatch_channel channel" and "reachable_scheduler channel save options s"
    and "get_attempt (sc_attempts s) j = Some a" and "att_completion_committed a"
    and "scheduler_run channel save s s'"
  shows "get_attempt (sc_attempts s') j = Some a
         \<and> (sub_attempt submission = j \<longrightarrow>
              co_rejection (fst (complete s' submission)) \<noteq> CompletionRejection.kAccepted
              \<and> get_attempt (sc_attempts (snd (complete s' submission))) = get_attempt (sc_attempts s'))"
proof -
  have run: "attempt_step\<^sup>*\<^sup>* (sc_attempts s) (sc_attempts s')"
    using dispatch_channel.scheduler_steps_run [OF assms(1,5)] by (simp add: component_run_def)
  have "attempts_inv (sc_attempts s)"
    using reachable_scheduler_inv [OF assms(1,2)] by (simp add: scheduler_inv_def)
  then have get: "get_attempt (sc_attempts s') j = Some a"
    using attempts.settled_stays [OF run _ assms(3)] assms(4) by (simp add: attempt_evolves_def)
  have "co_rejection (fst (complete s' submission)) \<noteq> CompletionRejection.kAccepted
      \<and> get_attempt (sc_attempts (snd (complete s' submission))) = get_attempt (sc_attempts s')"
    if "sub_attempt submission = j"
  proof (cases rule: completion_cases [of "sc_attempts s'" submission False])
    case unchanged
    then show ?thesis
      by (auto simp: complete_def split_beta Let_def release_held_def)
  next
    case (accepted b)
    then show ?thesis using verdict_accepted(8) [OF accepted(2)] get that assms(4) by simp
  qed
  with get show ?thesis by blast
qed

text \<open>A scheduler that recovered one completed attempt from its durable state.\<close>

definition demo_state :: PersistedState where
  "demo_state =
     \<lparr>pt_generation = 1, pt_last_epoch = 1, pt_policy_generation = 0, pt_has_policy = False,
      pt_policy = unset_policy, pt_domains = [],
      pt_attempts = [completed_attempt sample_dispatched sample_payload], pt_fenced_boots = [],
      pt_counter_operation = 5, pt_counter_plan_sequence = 1, pt_counter_dispatch = 21,
      pt_counter_snapshot = 0, pt_counter_domain = 0\<rparr>"

definition demo_options :: SchedulerOptions where
  "demo_options = default_options\<lparr>so_state_path := ''tos.state''\<rparr>"

definition demo_recovered :: Scheduler where
  "demo_recovered = snd (load_state (new_scheduler demo_options) (Some (Good demo_state)))"

lemma demo_recovered_reachable: "reachable_scheduler demo_channel demo_save demo_options demo_recovered"
proof -
  have "stored_ok (Some (Good demo_state))" by (simp add: stored_ok_def demo_state_def)
  then show ?thesis
    unfolding reachable_scheduler_def demo_recovered_def by (intro r_into_rtranclp do_load_state)
qed

lemma demo_recovered_get:
  "get_attempt (sc_attempts demo_recovered) 0x0100000000000001 =
     Some (completed_attempt sample_dispatched sample_payload)"
proof -
  let ?l = "new_attempt_ledger 64" and ?a = "completed_attempt sample_dispatched sample_payload"
  have inv: "attempts_inv ?l" by (rule new_attempt_ledger_inv) (simp add: kMaxShards_def)
  have id: "att_id ?a = 0x0100000000000001" by (simp add: sample_bindings)
  have none: "get_attempt ?l = Map.empty" by (rule get_new_attempt_ledger)
  have "is_terminal (att_state ?a)" "valid (att_operation ?a)"
    by (simp_all add: completed_attempt_def sample_payload_def sample_bindings valid_def)
  then have ok: "st_ok (fst (restore_attempts ?l [?a]))"
    by (simp add: restore_attempt_def sample_bindings new_attempt_ledger_def attempt_shard_for_id_def kMaxShards_def
        kShardShift_def kMaxLiveAttempts_def kMaxHistoricalAttempts_def Let_def valid_def)
  have get: "get_attempt (snd (restore_attempts ?l [?a])) 0x0100000000000001 = Some ?a"
    using restored_attempts_found [OF inv _ ok, of ?a] id by simp
  have "sc_attempts demo_recovered = adopt_attempt_ids (snd (restore_attempts ?l [?a])) [att_id ?a]"
    using ok none
    by (simp add: demo_recovered_def load_state_def load_state_from_def load_conflict_def apply_state_def
        adopt_state_def demo_state_def new_scheduler_def demo_options_def default_options_def
        kDefaultShards_def Let_def split_beta del: restore_attempts.simps)
  moreover have "attempts_inv (snd (restore_attempts ?l [?a]))"
    using attempts.steps_inv [OF restore_attempts_run inv, of "[?a]"] by simp
  ultimately show ?thesis using get adopt_attempt_ids_frame by simp
qed

theorem scheduler_completion_is_final_witness:
  "get_attempt (sc_attempts (snd (shutdown demo_save demo_channel demo_recovered))) 0x0100000000000001 =
     Some (completed_attempt sample_dispatched sample_payload)"
proof -
  have "scheduler_run demo_channel demo_save demo_recovered (snd (shutdown demo_save demo_channel demo_recovered))"
    by (intro r_into_rtranclp do_shutdown)
  moreover have "att_completion_committed (completed_attempt sample_dispatched sample_payload)"
    by (simp add: completed_attempt_def)
  ultimately show ?thesis
    using scheduler_completion_is_final
      [OF demo_channel_conforms demo_recovered_reachable demo_recovered_get] by blast
qed

end
