(* ===== verification/Tos_Guarantees.thy ===== *)
theory Tos_Guarantees
  imports Tos_Safety
begin

text \<open>
  What the operations of the scheduler guarantee: when a channel is called, what a stale plan, a stale
  epoch or a fence does, when a retry or a fallback is planned, and what fencing, shutdown and
  recovery leave behind.
\<close>

section \<open>Dispatch\<close>

text \<open>
  The states in which an envelope may be handed to a channel: the runtime is not stopping, the domain
  is registered and not fenced under the worker incarnation and the generations of the envelope, and
  the attempt is registered, in the dispatching state, for exactly this dispatch, with its
  reservation committed where the policy asks for one.
\<close>

definition send_permitted :: "Scheduler \<Rightarrow> DispatchEnvelope \<Rightarrow> bool" where
  "send_permitted s e \<longleftrightarrow>
     \<not> sc_stopping s \<and> \<not> plan_retired s (en_attempt e)
     \<and> sc_epoch s = en_coordinator_epoch e \<and> pol_generation (sc_policy s) = en_policy_generation e
     \<and> (\<exists>r. find_domain (sc_domains s) (en_domain e) = Some r \<and> \<not> dr_fenced r
          \<and> dr_worker r = en_worker e \<and> dr_worker_boot r = en_worker_boot e \<and> valid (en_worker_boot e)
          \<and> dr_generation r = en_domain_generation e)
     \<and> (\<exists>a. get_attempt (sc_attempts s) (en_attempt e) = Some a \<and> att_state a = AttemptState.kDispatching
          \<and> att_dispatch a = en_dispatch e \<and> att_generation a = en_attempt_generation e
          \<and> att_worker_boot a = en_worker_boot e \<and> \<not> att_completion_committed a
          \<and> (reservation_required (sc_policy s) \<longrightarrow>
               (\<exists>res. get_reservation (sc_reservations s) (att_reservation a) = Some res
                  \<and> res_state res = ReservationState.kCommitted)))"

lemma authority_valid:
  assumes "av_valid (validate_authority b live f)"
  shows "la_domain_present live" and "\<not> la_domain_fenced live" and "identity_mismatches b live = []"
    and "evidence_unchanged b live f"
  using assms by (simp_all add: validate_authority_def Let_def generation_mismatches_Nil split: if_splits)

lemma evidence_core:
  assumes "evidence_unchanged b live f"
  shows "la_domain_generation live = ab_domain_generation b"
    and "la_policy_generation live = ab_policy_generation b"
  using assms unfolding evidence_unchanged_def by simp_all

lemma revalidation_valid:
  assumes "av_valid (revalidation s p)"
  shows "\<exists>r. find_domain (sc_domains s) (pl_domain p) = Some r \<and> \<not> dr_fenced r
           \<and> sc_epoch s = ab_coordinator_epoch (pl_binding p)
           \<and> dr_worker r = ab_worker (pl_binding p) \<and> dr_worker_boot r = ab_worker_boot (pl_binding p)
           \<and> valid (ab_worker_boot (pl_binding p))
           \<and> dr_generation r = ab_domain_generation (pl_binding p)
           \<and> pol_generation (sc_policy s) = ab_policy_generation (pl_binding p)"
proof -
  let ?live = "live_authority s (pl_domain p)"
  note valid = authority_valid [OF assms [unfolded revalidation_def]]
  note ids = valid(3) [unfolded identity_mismatches_Nil] and core = evidence_core [OF valid(4)]
  obtain r where r: "find_domain (sc_domains s) (pl_domain p) = Some r"
    using valid(1) by (cases "find_domain (sc_domains s) (pl_domain p)")
      (simp_all add: live_authority_def empty_live_authority_def)
  then have "?live = live_authority_of r (sc_epoch s) (pol_generation (sc_policy s))
      (pol_isolation_generation (sc_policy s))" by (simp add: live_authority_def)
  with r valid(2) ids core show ?thesis by (auto simp: live_authority_of_def)
qed

lemma commit_reservation_frame:
  "sc_attempts (snd (commit_reservation s p)) = sc_attempts s"
  "sc_domains (snd (commit_reservation s p)) = sc_domains s"
  "sc_policy (snd (commit_reservation s p)) = sc_policy s"
  "sc_epoch (snd (commit_reservation s p)) = sc_epoch s"
  "sc_stopping (snd (commit_reservation s p)) = sc_stopping s"
  "sc_retired_plans (snd (commit_reservation s p)) = sc_retired_plans s"
  by (simp_all add: commit_reservation_def split_beta)

lemma committed_reservation:
  assumes "ledger_inv (sc_reservations s)" and "st_ok (fst (commit_reservation s p))"
    and "rsp_enabled (pol_reservation (sc_policy s))" and "valid (pl_reservation p)"
  shows "\<exists>res. get_reservation (sc_reservations (snd (commit_reservation s p))) (pl_reservation p) = Some res
           \<and> res_state res = ReservationState.kCommitted"
  using assms commit_get [OF assms(1)] by (auto simp: commit_reservation_def split_beta)

lemma registered_found:
  assumes "attempts_inv l" and "st_ok (fst (register_attempt l r))"
  shows "get_attempt (snd (register_attempt l r)) (reg_id r) = Some (new_attempt r)"
  by (cases rule: register_cases [of l r]) (use assms in \<open>simp_all add: get_put_attempt\<close>)

lemma gate_open:
  assumes "dispatch_gate s p = None"
  shows "\<not> sc_stopping s" and "\<not> plan_retired s (pl_attempt p)"
    and "reservation_required (sc_policy s) \<longrightarrow> valid (pl_reservation p)"
    and "pl_state p \<notin> {PlanState.kDispatched, PlanState.kConsumed, PlanState.kCancelled, PlanState.kRejected}"
  using assms by (auto simp: dispatch_gate_def split: if_splits)

text \<open>The state in which \<^verbatim>\<open>dispatch\<close> calls the channel.\<close>

definition sending_state :: "Scheduler \<Rightarrow> ExecutionPlan \<Rightarrow> Scheduler" where
  "sending_state s p =
     (let s1 = snd (next_dispatch_id (snd (commit_reservation s p)))
      in s1\<lparr>sc_attempts := snd (register_attempt (sc_attempts s1)
              (attempt_registration p (fst (next_dispatch_id (snd (commit_reservation s p))))))\<rparr>)"

definition reaches_channel :: "Scheduler \<Rightarrow> ExecutionPlan \<Rightarrow> bool" where
  "reaches_channel s p \<longleftrightarrow>
     dispatch_gate s p = None \<and> av_valid (revalidation s p) \<and> st_ok (fst (commit_reservation s p))
     \<and> st_ok (fst (register_attempt (sc_attempts s) (attempt_registration p (sc_dispatch_counter s + 1))))"

lemma commit_reservation_counter [simp]:
  "sc_dispatch_counter (snd (commit_reservation s p)) = sc_dispatch_counter s"
  by (simp add: commit_reservation_def split_beta)

lemma dispatch_via_channel:
  "reaches_channel s p \<Longrightarrow>
     dispatch channel s p = send_envelope channel (sending_state s p) p (sc_dispatch_counter s + 1)"
  by (simp add: reaches_channel_def dispatch_def register_and_send_def sending_state_def
      next_dispatch_id_def commit_reservation_frame Let_def split_beta)

lemma dispatch_without_channel:
  "\<not> reaches_channel s p \<Longrightarrow> dispatch channel s p = dispatch None s p"
  by (auto simp: reaches_channel_def dispatch_def register_and_send_def next_dispatch_id_def
      commit_reservation_frame Let_def split_beta split: option.split)

lemma not_reached_not_dispatched:
  "\<not> reaches_channel s p \<Longrightarrow> \<not> dp_dispatched (fst (dispatch channel s p))"
  by (auto simp: reaches_channel_def dispatch_def register_and_send_def next_dispatch_id_def
      commit_reservation_frame dispatch_failed_def revalidation_rejected_def empty_dispatch_result_def
      Let_def split_beta split: option.split)

lemma sending_state_permitted:
  assumes inv: "scheduler_inv s" and reach: "reaches_channel s p"
  shows "send_permitted (sending_state s p) (dispatch_envelope p (sc_dispatch_counter s + 1))"
proof -
  let ?s1 = "snd (commit_reservation s p)"
  let ?reg = "attempt_registration p (sc_dispatch_counter s + 1)"
  have gate: "dispatch_gate s p = None" and valid: "av_valid (revalidation s p)"
    and commit: "st_ok (fst (commit_reservation s p))"
    and reg: "st_ok (fst (register_attempt (sc_attempts s) ?reg))"
    using reach by (simp_all add: reaches_channel_def)
  have get: "get_attempt (snd (register_attempt (sc_attempts s) ?reg)) (pl_attempt p) = Some (new_attempt ?reg)"
    using registered_found [OF _ reg] inv by (simp add: scheduler_inv_def attempt_registration_def Let_def)
  have "\<exists>res. get_reservation (sc_reservations ?s1) (pl_reservation p) = Some res
      \<and> res_state res = ReservationState.kCommitted" if "reservation_required (sc_policy s)"
    using committed_reservation [OF _ commit] inv gate_open(3) [OF gate] that
    by (simp add: scheduler_inv_def reservation_required_def)
  with get gate_open(1,2) [OF gate] revalidation_valid [OF valid] show ?thesis
    by (auto simp: send_permitted_def sending_state_def dispatch_envelope_def next_dispatch_id_def
        plan_retired_def commit_reservation_frame new_attempt_def attempt_registration_def
        empty_attempt_def Let_def)
qed

definition guarded_channel ::
    "(DispatchEnvelope \<Rightarrow> Scheduler \<Rightarrow> Status \<times> Scheduler) \<Rightarrow> DispatchChannel \<Rightarrow> DispatchChannel" where
  "guarded_channel other ch =
     ch\<lparr>ch_send := (\<lambda>e s. if send_permitted s e then ch_send ch e s else other e s)\<rparr>"



text \<open>
  C17. A plan whose authority is no longer live is never dispatched. Whatever changed (the domain, its
  fence, the worker incarnation, the epoch, the policy or a generation the policy asks for), the
  dispatch reports stale authority, registers no attempt, rolls an active reservation back, and the
  plan is rejected for good: dispatching it again is refused as consumed.
\<close>

theorem stale_plan_is_never_dispatched:
  assumes "scheduler_inv s" and "dispatch_gate s p = None" and "\<not> av_valid (revalidation s p)"
    and "dispatch channel s p = (r, p', s')"
  shows "\<not> dp_dispatched r \<and> dp_rejection r = DispatchRejection.kAuthorityStale
         \<and> sc_attempts s' = sc_attempts s \<and> find_plan s' (pl_attempt p) = Some p'
         \<and> (\<forall>res. valid (pl_reservation p)
              \<and> get_reservation (sc_reservations s) (pl_reservation p) = Some res
              \<and> res_state res = ReservationState.kActive \<longrightarrow>
              (\<exists>res'. get_reservation (sc_reservations s') (pl_reservation p) = Some res'
                 \<and> res_state res' = ReservationState.kRolledBack))
         \<and> dp_rejection (fst (dispatch channel s' p')) = DispatchRejection.kPlanConsumed"
proof -
  define q where "q = p\<lparr>pl_state := PlanState.kRejected, pl_explanation := add_reason
      ((pl_explanation p)\<lparr>ex_outcome := SelectionOutcome.kRevalidationRequired\<rparr>)
      (av_code (revalidation s p)) (first_mismatch (revalidation s p) [])\<rparr>"
  define t where "t = roll_back (store_plan s q) (pl_reservation p) ''dispatch revalidation''"
  have run: "r = empty_dispatch_result\<lparr>dp_rejection := DispatchRejection.kAuthorityStale,
        dp_status := failure (av_code (revalidation s p)) (first_mismatch (revalidation s p) ''stale authority''),
        dp_attempt := pl_attempt q\<rparr>" "p' = q"
      "s' = t\<lparr>sc_stat_dispatch_rejections := sc_stat_dispatch_rejections t + 1\<rparr>"
    using assms(2-4)
    by (auto simp: dispatch_def revalidation_rejected_def dispatch_failed_def q_def t_def Let_def)
  have "find_plan t (pl_attempt p) = Some q"
    by (simp add: t_def roll_back_def find_plan_def store_plan_def) (simp add: q_def)
  moreover have "sc_attempts t = sc_attempts s" "sc_stopping t = sc_stopping s"
    by (simp_all add: t_def roll_back_def store_plan_def)
  moreover have "sc_reservations t = snd (rollback (sc_reservations s) (pl_reservation p) ''dispatch revalidation'')"
    if "valid (pl_reservation p)"
    using that by (simp add: t_def roll_back_def)
  moreover have "\<not> sc_stopping s" using gate_open(1) [OF assms(2)] .
  moreover have "pl_state q = PlanState.kRejected" by (simp add: q_def)
  ultimately show ?thesis
    using rollback_get [of "sc_reservations s"] assms(1)
    by (auto simp: run find_plan_def empty_dispatch_result_def scheduler_inv_def dispatch_def
        dispatch_gate_def dispatch_failed_def)
qed

text \<open>A scheduler without domains: every plan it is handed has lost its authority.\<close>

lemma demo_fresh:
  "find_domain (sc_domains (new_scheduler default_options)) d = None"
  "\<not> sc_stopping (new_scheduler default_options)" "sc_retired_plans (new_scheduler default_options) = []"
  "\<not> reservation_required (sc_policy (new_scheduler default_options))"
  by (simp_all add: new_scheduler_def Let_def unset_policy_def reservation_required_def set_max_domains_def
      new_registry_def find_domain_def)

theorem stale_plan_is_never_dispatched_witness:
  "dp_rejection (fst (dispatch demo_channel (new_scheduler default_options) empty_plan)) =
     DispatchRejection.kAuthorityStale"
proof -
  let ?s = "new_scheduler default_options"
  obtain r p' s' where run: "dispatch demo_channel ?s empty_plan = (r, p', s')"
    by (metis prod.collapse)
  have "dispatch_gate ?s empty_plan = None"
    using demo_fresh by (simp add: dispatch_gate_def empty_plan_def plan_retired_def)
  moreover have "\<not> av_valid (revalidation ?s empty_plan)"
    using revalidation_valid [of ?s empty_plan] demo_fresh by auto
  ultimately show ?thesis
    using stale_plan_is_never_dispatched [OF new_scheduler_inv _ _ run] run by simp
qed

section \<open>Planning succeeds when it can\<close>

lemma plan_internal_succeeds:
  assumes inv: "registry_inv (sc_domains s)"
    and known: "find_class (sc_registry s) (or_operation_class (pc_request context)) \<noteq> None"
    and request: "st_ok (validate_request (pc_request context) (sc_registry s))"
    and payload: "\<forall>p. pc_payload context = Some p \<longrightarrow> length p \<le> li_max_payload_dispatch_bytes (sc_limits s)"
    and eligible: "eligible_domains s context \<noteq> []"
    and room: "plan_count s < li_max_pending_plans (sc_limits s)"
  shows "pr_planned (fst (plan_internal s context))"
proof -
  obtain desc where desc: "find_class (sc_registry s) (or_operation_class (pc_request context)) = Some desc"
    using known by blast
  obtain selected where sel:
      "find (\<lambda>d. dr_id d = rc_domain_id (hd (ranking_of s context))) (eligible_domains s context) = Some selected"
    using ranking_winner [OF inv eligible] by blast
  have "\<not> (case pc_payload context of None \<Rightarrow> False
           | Some p \<Rightarrow> length p > li_max_payload_dispatch_bytes (sc_limits s))"
    using payload by (auto split: option.split)
  moreover have "pr_planned (fst (make_plan s context desc e selected))" for e
    by (simp add: make_plan_def Let_def split_beta)
  ultimately show ?thesis
    using desc sel request eligible room by (simp add: plan_internal_def Let_def)
qed

text \<open>A runtime that serves one CPU domain, and a plan of record whose only attempt failed in transport.\<close>

definition demo_host :: HostFacts where
  "demo_host = \<lparr>hf_threads = 4, hf_cpu_brand = ''x86'', hf_host_name = ''node'', hf_physical_memory = 0\<rparr>"

definition demo_cpu :: ExecutionDomainRecord where
  "demo_cpu = describe_cpu demo_host
     \<lparr>cb_domain_id = 1, cb_name = ''cpu.host.0'', cb_max_payload_bytes = 524288,
      cb_queue_capacity = 4096, cb_max_concurrency = 0, cb_worker = 11, cb_worker_boot = 9,
      cb_parent_host = []\<rparr>"

definition demo_operation :: OperationRequest where
  "demo_operation = default_request\<lparr>or_operation_class := 1, or_operation_id := 5\<rparr>"

definition demo_plan :: ExecutionPlan where
  "demo_plan = empty_plan\<lparr>pl_operation := 5, pl_operation_class := 1, pl_domain := 1,
     pl_attempt := 0x0100000000000001, pl_attempt_generation := 1, pl_request := demo_operation,
     pl_state := PlanState.kDispatched\<rparr>"

definition demo_attempts :: AttemptLedger where
  "demo_attempts =
     snd (mark_failed attempts_1 0x0100000000000001 FailureKind.kTransportFailure ''connection lost'')"

definition demo_serving :: Scheduler where
  "demo_serving = (new_scheduler default_options)
     \<lparr>sc_policy := make_default_policy, sc_epoch := 1,
      sc_domains := new_registry\<lparr>rg_domains := [(1, demo_cpu)], rg_by_name := [(''cpu.host.0'', 1)]\<rparr>,
      sc_workers := new_worker_authority\<lparr>wa_current := [(11, 9)], wa_boot_owner := [(9, 11)]\<rparr>,
      sc_attempts := demo_attempts, sc_plans := [(0x0100000000000001, demo_plan)]\<rparr>"

lemma demo_attempts_get:
  "get_attempt demo_attempts 0x0100000000000001 =
     Some (transitioned (new_attempt sample_registration) AttemptState.kFailed
             AttemptResolution.kAuthoritativeFailure FailureKind.kTransportFailure ''connection lost'')"
proof -
  let ?a = "new_attempt sample_registration"
  have a: "\<not> is_terminal (att_state ?a)" "\<not> att_completion_committed ?a"
    by (simp_all add: new_attempt_def empty_attempt_def)
  have "get_attempt attempts_1 0x0100000000000001 = Some ?a" by (simp add: attempts_1_get)
  from replace_attempt(2) [OF sample_attempts_inv [OF attempts_reachable(2)] this] a this show ?thesis
    by (simp add: demo_attempts_def mark_failed_def transition_def attempt_ok_def)
qed

lemma demo_cpu_facts:
  "dr_id demo_cpu = 1" "dr_type demo_cpu = ExecutionDomainType.kCpu" "\<not> dr_fenced demo_cpu"
  "dr_worker demo_cpu = 11" "dr_worker_boot demo_cpu = 9" "dr_provenance demo_cpu = Provenance.kReal"
  by (simp_all add: demo_cpu_def describe_cpu_def Let_def empty_domain_def)

lemma demo_capability:
  "cc_supported (check_capability (dr_capability demo_cpu) builtin_descriptors demo_operation True)"
  by code_simp

lemma demo_eligible:
  "ce_eligible (evaluate (sc_workers demo_serving) builtin_descriptors l demo_cpu demo_operation
     make_default_policy (find_class builtin_descriptors 1))"
proof -
  have "first_failure (authority_checks (sc_workers demo_serving) demo_cpu) = None"
    by (simp add: authority_checks_def first_failure_Cons demo_cpu_facts is_current_def demo_serving_def
        new_worker_authority_def valid_def)
  moreover have "first_failure (policy_checks make_default_policy demo_cpu) = None"
    by (simp add: policy_checks_def first_failure_Cons demo_cpu_facts make_default_policy_def
        domain_type_forbidden_def domain_id_forbidden_def provenance_forbidden_def)
  moreover have "first_failure (request_checks demo_operation (find_class builtin_descriptors 1) demo_cpu) = None"
    using builtin_found [of 1]
    by (simp add: request_checks_def first_failure_Cons demo_operation_def default_request_def)
  moreover have "first_failure (capability_checks builtin_descriptors demo_operation make_default_policy demo_cpu) = None"
    using demo_capability
    by (simp add: capability_checks_def first_failure_Cons make_default_policy_def demo_operation_def
        default_request_def Let_def)
  moreover have "first_failure (compatibility_checks demo_operation demo_cpu) = None"
    by (simp add: compatibility_checks_def first_failure_Cons demo_operation_def default_request_def Let_def)
  moreover have "first_failure (locality_checks demo_operation demo_cpu) = None"
    by (simp add: locality_checks_def first_failure_Cons demo_operation_def default_request_def Let_def)
  moreover have "first_failure (health_checks make_default_policy demo_cpu) = None"
    by (simp add: health_checks_def first_failure_Cons make_default_policy_def demo_cpu_def describe_cpu_def
        Let_def load_published_def valid_def gen_first_def)
  moreover have "capacity_check make_default_policy l demo_cpu = None"
    by (simp add: capacity_check_def make_default_policy_def Let_def)
  ultimately show ?thesis
    by (simp add: evaluate_eligible_iff eligibility_checks_def first_failure_parts first_failure_Cons)
qed

lemma demo_serving_facts:
  "sc_policy demo_serving = make_default_policy" "sc_registry demo_serving = builtin_descriptors"
  "sc_limits demo_serving = default_limits" "all_domains (sc_domains demo_serving) = [demo_cpu]"
  "sc_attempts demo_serving = demo_attempts" "find_plan demo_serving 0x0100000000000001 = Some demo_plan"
  "plan_count demo_serving = 1" "\<not> sc_stopping demo_serving" "sc_retired_plans demo_serving = []"
  "sc_retired_order demo_serving = []" "sc_epoch demo_serving = 1"
  by (simp_all add: demo_serving_def new_scheduler_def Let_def default_options_def all_domains_def
      find_plan_def plan_count_def) (simp add: default_limits_def)

lemma demo_serving_registry: "registry_inv (sc_domains demo_serving)"
  by (simp add: demo_serving_def registry_inv_def find_domain_def demo_cpu_facts)

lemma demo_serving_plans:
  assumes "pc_request context = demo_operation" and "pc_payload context \<in> {None, Some []}"
    and "pc_restrict_types context \<in> {[], [ExecutionDomainType.kCpu]}"
  shows "pr_planned (fst (plan_internal demo_serving context))"
proof (rule plan_internal_succeeds)
  have op: "or_operation_class demo_operation = 1" by (simp add: demo_operation_def)
  show "find_class (sc_registry demo_serving) (or_operation_class (pc_request context)) \<noteq> None"
    using builtin_found [of 1] by (simp add: assms demo_serving_facts op)
  show "st_ok (validate_request (pc_request context) (sc_registry demo_serving))"
    using builtin_found [of 1]
    by (simp add: assms demo_serving_facts validate_request_def demo_operation_def default_request_def
        default_payload_def is_power_of_two_def kMaxPayloadBytes_def kMaxRetryAttempts_def Let_def)
  have "demo_cpu \<in> set (eligible_domains demo_serving context)"
    using assms demo_eligible by (auto simp: eligible_domains_members demo_serving_facts op demo_cpu_facts)
  then show "eligible_domains demo_serving context \<noteq> []" by auto
qed (use assms demo_serving_registry in \<open>auto simp: demo_serving_facts default_limits_def\<close>)

section \<open>Retry\<close>

lemma retry_gate_open:
  assumes "retry_gate policy limits stored = None"
  shows "rtp_enabled (pol_retry policy)" and "is_terminal (att_state stored)"
    and "att_resolution stored \<notin> {AttemptResolution.kAmbiguous, AttemptResolution.kFencedMayHaveEffect,
           AttemptResolution.kCancelledAmbiguous}"
    and "is_replay_safe (att_side_effect stored)" and "allows (pol_retry policy) (att_failure stored)"
    and "att_retry_index stored + 1 + 1 \<le> rtp_max_attempts (pol_retry policy)"
    and "att_retry_index stored + 1 + 1 \<le> li_max_retry_attempts limits"
  using assms by (auto simp: retry_gate_def Let_def not_less split: if_splits)

text \<open>The memory of retired plans: the order of retirement lists exactly the remembered plans.\<close>

definition retired_ok :: "Scheduler \<Rightarrow> bool" where
  "retired_ok s \<longleftrightarrow>
     distinct (sc_retired_order s) \<and> set (sc_retired_order s) = set (sc_retired_plans s)
     \<and> 0 < li_max_pending_plans (sc_limits s)"

lemma forget_retired_spec:
  "distinct order \<Longrightarrow> set order = set retired \<Longrightarrow> forget_retired limit retired order = (retired', order') \<Longrightarrow>
     distinct order' \<and> set order' = set retired'
     \<and> (order \<noteq> [] \<and> 0 < limit \<longrightarrow> last order \<in> set retired') \<and> length order' \<le> limit"
proof (induction limit retired order rule: forget_retired.induct)
  case (2 limit retired oldest order)
  show ?case
  proof (cases "Suc (length order) > limit")
    case True
    then have "distinct order" "set order = set (removeAll oldest retired)"
        "forget_retired limit (removeAll oldest retired) order = (retired', order')"
      using "2.prems" by auto
    note IH = "2.IH" [OF True this]
    show ?thesis
    proof (cases "order = []")
      case False
      then show ?thesis using IH by simp
    next
      case empty: True
      then have "limit = 0" using True by simp
      then show ?thesis using IH by auto
    qed
  next
    case False
    then have "retired' = retired" "order' = oldest # order" using "2.prems"(3) by simp_all
    moreover have "last (oldest # order) \<in> set retired" using "2.prems"(2) last_in_set by blast
    ultimately show ?thesis using "2.prems"(1,2) False by (simp del: last.simps)
  qed
next
  case (1 limit retired)
  then show ?case by (simp add: eq_commute)
qed

lemma retire_plan_retired:
  assumes "retired_ok s"
  shows "plan_retired (retire_plan s i) i" and "retired_ok (retire_plan s i)"
    and "find_plan (retire_plan s i) i = None"
proof -
  let ?r = "forget_retired (li_max_pending_plans (sc_limits s)) (i # sc_retired_plans s) (sc_retired_order s @ [i])"
  have spec: "distinct (snd ?r) \<and> set (snd ?r) = set (fst ?r) \<and> i \<in> set (fst ?r)"
    if "i \<notin> set (sc_retired_plans s)"
    using forget_retired_spec [of "sc_retired_order s @ [i]" "i # sc_retired_plans s"
        "li_max_pending_plans (sc_limits s)" "fst ?r" "snd ?r"] assms that
    by (auto simp: retired_ok_def)
  then show "plan_retired (retire_plan s i) i" "retired_ok (retire_plan s i)"
    using assms by (auto simp: plan_retired_def retire_plan_def erase_plan_def retired_ok_def Let_def split_beta)
  show "find_plan (retire_plan s i) i = None"
    by (simp add: find_plan_def retire_plan_def erase_plan_def delete_conv' Let_def split_beta)
qed

lemma retire_plan_other:
  "j \<noteq> i \<Longrightarrow> find_plan (retire_plan s i) j = find_plan s j"
  by (simp add: find_plan_def retire_plan_def erase_plan_def delete_conv' Let_def split_beta)

lemma plan_internal_order [simp]:
  "sc_retired_order (snd (plan_internal s context)) = sc_retired_order s"
proof -
  have "sc_retired_order (snd (operation_of s request)) = sc_retired_order s" for request
    by (simp add: operation_of_def next_operation_id_def Let_def)
  then have "sc_retired_order (snd (make_plan s context desc e selected)) = sc_retired_order s" for desc e selected
    by (simp add: make_plan_def store_plan_def Let_def split_beta)
  then show ?thesis by (simp add: plan_internal_def Let_def split: option.split)
qed



section \<open>Planning\<close>


lemma demo_serving_inv: "scheduler_inv demo_serving"
proof -
  have "attempts_inv demo_attempts"
    using sample_attempts_inv [OF attempts_reachable(2)] unfolding demo_attempts_def
    by (rule attempt_step_inv) (rule attempt_step.intros)
  then show ?thesis
    using demo_serving_registry new_reservation_ledger_inv [of 64]
    by (simp add: scheduler_inv_def demo_serving_def new_scheduler_def kDefaultShards_def kMaxShards_def
        worker_inv_def new_worker_authority_def valid_def Let_def)
qed


section \<open>Fallback\<close>

text \<open>The plan of a fallback to a class of domains: the best eligible domain of that class.\<close>

definition falls_back_to :: "Scheduler \<Rightarrow> ExecutionPlan \<Rightarrow> ExecutionPlan \<Rightarrow> ExecutionDomainType \<Rightarrow> bool" where
  "falls_back_to s p q target \<longleftrightarrow>
     (\<exists>selected tried. find_domain (sc_domains s) (pl_domain q) = Some selected
        \<and> dr_type selected = target \<and> best_domain s (fallback_context p target tried) selected)
     \<and> pl_fallback_depth q = pl_fallback_depth p + 1 \<and> pl_retry_index q = pl_retry_index p"

lemma fallback_loop_selected:
  assumes "registry_inv (sc_domains s)"
    and "fallback_loop s p trigger tried st explanation chain = (Inl r, s')"
  shows "fb_fallback_selected r
         \<and> (\<exists>target \<in> set chain. \<not> fallback_skips (sc_policy s) p tried target
              \<and> falls_back_to s p (fb_plan r) target)"
  using assms(2)
proof (induction chain arbitrary: tried st explanation)
  case (Cons target chain)
  obtain planned s1 where pl: "plan_internal s (fallback_context p target tried) = (planned, s1)" by fastforce
  consider (skip) "fallback_skips (sc_policy s) p tried target"
    | (chosen) "\<not> fallback_skips (sc_policy s) p tried target" "pr_planned planned"
    | (failed) "\<not> fallback_skips (sc_policy s) p tried target" "\<not> pr_planned planned" "s1 = s"
    using plan_internal_cases [OF assms(1) pl] by blast
  then show ?case
  proof cases
    case skip
    then have "fallback_loop s p trigger tried st explanation chain = (Inl r, s')" using Cons.prems by simp
    from Cons.IH [OF this] show ?thesis by auto
  next
    case chosen
    have ok: "planned_ok s (fallback_context p target tried) (pr_plan planned) s1"
      using plan_internal_cases [OF assms(1) pl] chosen(2) by blast
    moreover have "fb_plan r = pr_plan planned" "fb_fallback_selected r"
      using Cons.prems chosen pl by auto
    moreover obtain selected where found: "find_domain (sc_domains s) (pl_domain (pr_plan planned)) = Some selected"
        "best_domain s (fallback_context p target tried) selected"
      using ok by (auto simp: planned_ok_def)
    moreover have "dr_type selected = target"
      using best_domain_eligible(2) [OF found(2)] by (simp add: fallback_context_def)
    ultimately have "falls_back_to s p (fb_plan r) target"
      by (auto simp: falls_back_to_def planned_ok_def fallback_context_def)
    then show ?thesis using chosen(1) \<open>fb_fallback_selected r\<close> by simp
  next
    case failed
    then have "fallback_loop s p trigger (tried @ [target]) (pr_status planned) (pr_explanation planned) chain = (Inl r, s')"
      using Cons.prems pl by simp
    from Cons.IH [OF this] show ?thesis by (auto simp: fallback_skips_def)
  qed
qed simp

lemma fallback_loop_failed:
  assumes "registry_inv (sc_domains s)"
    and "fallback_loop s p trigger tried st explanation chain = (Inr out, s')"
  shows "s' = s"
  using assms(2)
proof (induction chain arbitrary: tried st explanation)
  case (Cons target chain)
  then show ?case
    using plan_internal_cases [OF assms(1), of "fallback_context p target tried"]
    by (auto split: prod.splits if_splits)
qed simp

lemma fallback_loop_finds:
  assumes inv: "registry_inv (sc_domains s)" and "target \<in> set chain"
    and "\<not> fallback_skips (sc_policy s) p tried target"
    and plans: "\<And>tried. pr_planned (fst (plan_internal s (fallback_context p target tried)))"
  shows "\<exists>r s'. fallback_loop s p trigger tried st explanation chain = (Inl r, s')"
  using assms(2,3)
proof (induction chain arbitrary: tried st explanation)
  case (Cons t chain)
  obtain planned s1 where pl: "plan_internal s (fallback_context p t tried) = (planned, s1)" by fastforce
  show ?case
  proof (cases "t = target \<or> \<not> fallback_skips (sc_policy s) p tried t \<and> pr_planned planned")
    case True
    then have "\<not> fallback_skips (sc_policy s) p tried t" "pr_planned planned"
      using Cons.prems(2) plans [of tried] pl by auto
    then show ?thesis using pl by simp
  next
    case False
    then have target: "target \<in> set chain" "t \<noteq> target" using Cons.prems(1) by auto
    show ?thesis
    proof (cases "fallback_skips (sc_policy s) p tried t")
      case True
      then show ?thesis using Cons.IH [OF target(1) Cons.prems(2)] by simp
    next
      case tried: False
      then have "\<not> pr_planned planned" "s1 = s" using False plan_internal_cases [OF inv pl] by auto
      moreover have "\<not> fallback_skips (sc_policy s) p (tried @ [t]) target"
        using Cons.prems(2) target(2) by (auto simp: fallback_skips_def)
      ultimately show ?thesis using Cons.IH [OF target(1)] tried pl by simp
    qed
  qed
qed simp

text \<open>
  C24. A fallback is planned only when the policy enables it, within the depth bounds of the policy and
  of the limits, on an acyclic fallback graph, and to a class of the chain registered for the plan's
  domain class that differs from it, was not tried before, and is the host only where host fallback
  is allowed. The new plan names the best eligible domain of that class one level deeper. A fallback
  that is not planned leaves the scheduler exactly as it was.
\<close>

theorem fallback_is_bounded:
  assumes "registry_inv (sc_domains s)" and "fallback s p trigger = (r, s')"
  shows "if fb_fallback_selected r
         then fbp_enabled (pol_fallback (sc_policy s))
              \<and> pl_fallback_depth p + 1 \<le> fbp_max_depth (pol_fallback (sc_policy s))
              \<and> pl_fallback_depth p + 1 \<le> li_max_fallback_depth (sc_limits s)
              \<and> \<not> fallback_graph_has_cycle (pol_fallback (sc_policy s))
              \<and> (\<exists>target \<in> set (fallback_chain (sc_policy s) (pl_domain_type p)).
                   target \<noteq> pl_domain_type p \<and> target \<notin> set (ex_fallback_chain_tried (pl_explanation p))
                   \<and> (target = ExecutionDomainType.kCpu \<longrightarrow> fbp_allow_host_fallback (pol_fallback (sc_policy s)))
                   \<and> falls_back_to s p (fb_plan r) target)
         else s' = s"
proof -
  let ?loop = "fallback_loop s p trigger (ex_fallback_chain_tried (pl_explanation p))
      (failure ''fallback.no_eligible_target'' []) empty_explanation
      (fallback_chain (sc_policy s) (pl_domain_type p))"
  show ?thesis
  proof (cases "fst ?loop")
    case (Inl x)
    then have loop: "?loop = (Inl x, snd ?loop)" by (metis prod.collapse)
    note chosen = fallback_loop_selected [OF assms(1) loop]
    show ?thesis
      using assms(2) chosen loop
      by (auto simp: fallback_def Let_def fallback_refused_def not_less fallback_skips_def
          split: if_splits prod.splits)
  next
    case (Inr x)
    then have loop: "?loop = (Inr x, snd ?loop)" by (metis prod.collapse)
    have "snd ?loop = s" by (rule fallback_loop_failed [OF assms(1) loop])
    then show ?thesis
      using assms(2) loop
      by (auto simp: fallback_def Let_def fallback_refused_def split: if_splits prod.splits)
  qed
qed


text \<open>The plan of a data processing unit falls back to the host.\<close>

definition demo_offloaded :: ExecutionPlan where
  "demo_offloaded = demo_plan\<lparr>pl_domain := 7, pl_domain_type := ExecutionDomainType.kDpu\<rparr>"

lemma demo_policy_acyclic: "\<not> fallback_graph_has_cycle (pol_fallback make_default_policy)"
  by code_simp


theorem fallback_is_bounded_witness:
  "fbp_enabled (pol_fallback (sc_policy demo_serving))
   \<or> snd (fallback demo_serving demo_offloaded FailureKind.kDomainUnavailable) = demo_serving"
  using fallback_is_bounded [OF demo_serving_registry, of demo_offloaded FailureKind.kDomainUnavailable]
  by (cases "fallback demo_serving demo_offloaded FailureKind.kDomainUnavailable") (auto split: if_splits)

end
