(* ===== verification/Tos_Backends.thy ===== *)
theory Tos_Backends
  imports Tos_Guarantees Tos_Executor
begin

text \<open>
  The execution backends behind \<^verbatim>\<open>IExecutionBackend\<close>: the deterministic synthetic backend of
  \<^verbatim>\<open>src/src/backends/synthetic.cpp\<close>, with its injected faults, and the object around the host executor
  in \<^verbatim>\<open>src/src/backends/cpu_backend.cpp\<close>. What the scheduler side relies on is the locale
  \<open>execution_backend\<close>, interpreted on both. A call under the lock of a backend is one step.
\<close>

section \<open>Faults of the synthetic backend\<close>

datatype SyntheticFault =
    kNone
  | kExecutionFailure
  | kAmbiguousOutcome
  | kIntegrityFailure
  | kRefuseExecution
  | kReserveRefused

fun to_string_SyntheticFault :: "SyntheticFault \<Rightarrow> string" where
  "to_string_SyntheticFault SyntheticFault.kNone = ''none''"
| "to_string_SyntheticFault SyntheticFault.kExecutionFailure = ''execution_failure''"
| "to_string_SyntheticFault SyntheticFault.kAmbiguousOutcome = ''ambiguous_outcome''"
| "to_string_SyntheticFault SyntheticFault.kIntegrityFailure = ''integrity_failure''"
| "to_string_SyntheticFault SyntheticFault.kRefuseExecution = ''refuse_execution''"
| "to_string_SyntheticFault SyntheticFault.kReserveRefused = ''reserve_refused''"

text \<open>The order of the keys of \<^verbatim>\<open>std::map<SyntheticFault, uint32_t>\<close>.\<close>

definition all_SyntheticFault :: "SyntheticFault list" where
  "all_SyntheticFault =
     [SyntheticFault.kNone, SyntheticFault.kExecutionFailure, SyntheticFault.kAmbiguousOutcome,
      SyntheticFault.kIntegrityFailure, SyntheticFault.kRefuseExecution, SyntheticFault.kReserveRefused]"

section \<open>State of the synthetic backend\<close>

record SyntheticDomainConfig =
  sd_id :: u64
  sd_type :: ExecutionDomainType
  sd_name :: string
  sd_parent_device :: string
  sd_parent_host :: string
  sd_provenance :: Provenance
  sd_domain_generation :: u64
  sd_capability_generation :: u64
  sd_evidence_generation :: u64
  sd_backend_generation :: u64
  sd_worker :: u64
  sd_worker_boot :: u64
  sd_isolation :: IsolationClass
  sd_capacity :: CapacityVector
  sd_locality :: DomainLocality
  sd_topology :: DomainTopology
  sd_compatibility :: DomainCompatibility
  sd_capability :: CapabilitySet
  sd_utilization_percent :: u32
  sd_congestion_percent :: u32
  sd_queue_depth :: u32
  sd_in_flight :: u32
  sd_observed_latency_ns :: u64
  sd_throughput_bytes_per_second :: u64
  sd_healthy :: bool
  sd_ready :: bool
  sd_accepting :: bool
  sd_authoritative :: bool
  sd_dynamic_evidence_published :: bool

text \<open>
  A fault whose count is zero and an absent one behave alike, so the map of faults is its counts. The
  map of the domains is ordered by identity: iteration sorts the association list by its keys.
\<close>

record SyntheticBackend =
  sb_name :: string
  sb_domains :: "(u64 \<times> SyntheticDomainConfig) list"
  sb_faults :: "SyntheticFault \<Rightarrow> u32"
  sb_generation :: u64
  sb_cancellation_requests :: u64
  sb_executed :: u64

definition new_synthetic_backend :: "string \<Rightarrow> SyntheticBackend" where
  "new_synthetic_backend name =
     \<lparr>sb_name = (if name = [] then ''synthetic'' else name), sb_domains = [], sb_faults = (\<lambda>_. 0),
      sb_generation = gen_first, sb_cancellation_requests = 0, sb_executed = 0\<rparr>"

definition find_synthetic :: "SyntheticBackend \<Rightarrow> u64 \<Rightarrow> SyntheticDomainConfig option" where
  "find_synthetic b domain = map_of (sb_domains b) domain"

definition synthetic_take_fault :: "SyntheticBackend \<Rightarrow> SyntheticFault \<times> SyntheticBackend" where
  "synthetic_take_fault b =
     (case find (\<lambda>f. sb_faults b f > 0) all_SyntheticFault of
        None \<Rightarrow> (SyntheticFault.kNone, b)
      | Some f \<Rightarrow> (f, b\<lparr>sb_faults := (sb_faults b)(f := sb_faults b f - 1)\<rparr>))"

definition synthetic_load_of :: "SyntheticDomainConfig \<Rightarrow> DomainLoadEvidence" where
  "synthetic_load_of c =
     \<lparr>ld_load_generation = sd_capability_generation c,
      ld_queue_generation = sd_capability_generation c,
      ld_health_generation = sd_capability_generation c,
      ld_evidence = first_unless (sd_evidence_generation c), ld_provenance = Provenance.kSynthetic,
      ld_utilization_percent = sd_utilization_percent c,
      ld_congestion_percent = sd_congestion_percent c, ld_queue_depth = sd_queue_depth c,
      ld_in_flight = sd_in_flight c, ld_observed_latency_ns = sd_observed_latency_ns c,
      ld_throughput_bytes_per_second = sd_throughput_bytes_per_second c,
      ld_healthy = sd_healthy c, ld_ready = sd_ready c, ld_accepting = sd_accepting c\<rparr>"

definition record_of :: "SyntheticDomainConfig \<Rightarrow> ExecutionDomainRecord" where
  "record_of c =
     empty_domain\<lparr>
       dr_id := sd_id c, dr_generation := first_unless (sd_domain_generation c), dr_type := sd_type c,
       dr_name := sd_name c, dr_parent_device := sd_parent_device c, dr_parent_host := sd_parent_host c,
       dr_worker := sd_worker c, dr_worker_boot := sd_worker_boot c, dr_provenance := sd_provenance c,
       dr_registration_sequence := sd_id c,
       dr_capability := empty_capability_record\<lparr>
         cap_domain := sd_id c, cap_generation := first_unless (sd_capability_generation c),
         cap_evidence := first_unless (sd_evidence_generation c),
         cap_provenance := (if sd_provenance c = Provenance.kSynthetic then Provenance.kSynthetic
                            else sd_provenance c),
         cap_authoritative := sd_authoritative c, cap_capability := canonicalize (sd_capability c)\<rparr>,
       dr_load := (if sd_dynamic_evidence_published c then synthetic_load_of c else no_load),
       dr_locality := sd_locality c, dr_topology := sd_topology c,
       dr_compatibility := sd_compatibility c, dr_isolation := sd_isolation c,
       dr_capacity := sd_capacity c, dr_backend_generation := first_unless (sd_backend_generation c)\<rparr>"

definition ensure_generations :: "SyntheticDomainConfig \<Rightarrow> SyntheticDomainConfig" where
  "ensure_generations c =
     c\<lparr>sd_capability_generation := first_unless (sd_capability_generation c),
       sd_evidence_generation := first_unless (sd_evidence_generation c),
       sd_domain_generation := first_unless (sd_domain_generation c),
       sd_backend_generation := first_unless (sd_backend_generation c),
       sd_locality := (sd_locality c)\<lparr>lo_generation := first_unless (lo_generation (sd_locality c))\<rparr>,
       sd_topology := (sd_topology c)\<lparr>to_generation := first_unless (to_generation (sd_topology c))\<rparr>,
       sd_compatibility := (sd_compatibility c)
         \<lparr>cm_generation := first_unless (cm_generation (sd_compatibility c))\<rparr>,
       sd_name := (if sd_name c = [] then ''synthetic.'' @ to_string_u64 (sd_id c) else sd_name c)\<rparr>"

section \<open>Administration of the synthetic domains\<close>

definition add_domain :: "SyntheticBackend \<Rightarrow> SyntheticDomainConfig \<Rightarrow> Status \<times> SyntheticBackend" where
  "add_domain b config =
     (let c = ensure_generations config in
      if length (sb_domains b) \<ge> kMaxExecutionDomains
      then (failure ''synthetic.domain_limit'' [], b)
      else (success, b\<lparr>sb_domains := AList.update (sd_id c) c (sb_domains b),
                       sb_generation := gen_next (sb_generation b)\<rparr>))"

definition synthetic_remove_domain :: "SyntheticBackend \<Rightarrow> u64 \<Rightarrow> Status \<times> SyntheticBackend" where
  "synthetic_remove_domain b domain =
     (if find_synthetic b domain = None then (failure ''synthetic.unknown_domain'' [], b)
      else (success, b\<lparr>sb_domains := AList.delete domain (sb_domains b),
                       sb_generation := gen_next (sb_generation b)\<rparr>))"

definition domain_count :: "SyntheticBackend \<Rightarrow> nat" where
  "domain_count b = length (sb_domains b)"

text \<open>The lookup that opens every setter.\<close>

definition configure ::
    "SyntheticBackend \<Rightarrow> u64 \<Rightarrow> (SyntheticDomainConfig \<Rightarrow> SyntheticDomainConfig) \<Rightarrow> Status \<times> SyntheticBackend" where
  "configure b domain f =
     (case find_synthetic b domain of
        None \<Rightarrow> (failure ''synthetic.unknown_domain'' [], b)
      | Some c \<Rightarrow> (success, b\<lparr>sb_domains := AList.update domain (f c) (sb_domains b)\<rparr>))"

definition advance_or_first :: "u64 \<Rightarrow> u64" where
  "advance_or_first g = (if published g then gen_next g else gen_first)"

definition set_capability ::
    "SyntheticBackend \<Rightarrow> u64 \<Rightarrow> CapabilitySet \<Rightarrow> bool \<Rightarrow> Status \<times> SyntheticBackend" where
  "set_capability b domain capability authoritative =
     configure b domain (\<lambda>c. c\<lparr>
       sd_capability := canonicalize capability,
       sd_capability_generation := advance_or_first (sd_capability_generation c),
       sd_evidence_generation := advance_or_first (sd_evidence_generation c),
       sd_authoritative := authoritative\<rparr>)"

definition set_operation_support ::
    "SyntheticBackend \<Rightarrow> u64 \<Rightarrow> u64 \<Rightarrow> bool \<Rightarrow> Status \<times> SyntheticBackend" where
  "set_operation_support b domain operation supported =
     configure b domain (\<lambda>c.
       let operations = cs_operations (sd_capability c);
           existing = (operation \<in> set operations);
           changed = (if supported \<and> \<not> existing then operations @ [operation]
                      else if \<not> supported \<and> existing then remove1 operation operations
                      else operations)
       in c\<lparr>sd_capability := canonicalize ((sd_capability c)\<lparr>cs_operations := sort changed\<rparr>),
            sd_capability_generation := advance_or_first (sd_capability_generation c),
            sd_evidence_generation := advance_or_first (sd_evidence_generation c)\<rparr>)"

definition set_load ::
    "SyntheticBackend \<Rightarrow> u64 \<Rightarrow> u32 \<Rightarrow> u32 \<Rightarrow> u32 \<Rightarrow> u32 \<Rightarrow> u64 \<Rightarrow> Status \<times> SyntheticBackend" where
  "set_load b domain utilization congestion depth busy latency =
     (if utilization > 100 \<or> congestion > 100 then (failure ''synthetic.invalid_load'' [], b)
      else configure b domain (\<lambda>c. c\<lparr>
        sd_utilization_percent := utilization, sd_congestion_percent := congestion,
        sd_queue_depth := depth, sd_in_flight := busy, sd_observed_latency_ns := latency,
        sd_dynamic_evidence_published := True,
        sd_capability_generation := advance_or_first (sd_capability_generation c)\<rparr>))"

definition set_health ::
    "SyntheticBackend \<Rightarrow> u64 \<Rightarrow> bool \<Rightarrow> bool \<Rightarrow> bool \<Rightarrow> Status \<times> SyntheticBackend" where
  "set_health b domain healthy ready accepting =
     configure b domain (\<lambda>c. c\<lparr>
       sd_healthy := healthy, sd_ready := ready, sd_accepting := accepting,
       sd_dynamic_evidence_published := sd_dynamic_evidence_published c \<or> healthy,
       sd_capability_generation := advance_or_first (sd_capability_generation c),
       sd_evidence_generation := advance_or_first (sd_evidence_generation c)\<rparr>)"

definition set_locality :: "SyntheticBackend \<Rightarrow> u64 \<Rightarrow> DomainLocality \<Rightarrow> Status \<times> SyntheticBackend" where
  "set_locality b domain locality =
     configure b domain (\<lambda>c. c\<lparr>
       sd_locality := locality\<lparr>lo_generation := first_unless (lo_generation locality)\<rparr>\<rparr>)"

definition set_topology :: "SyntheticBackend \<Rightarrow> u64 \<Rightarrow> DomainTopology \<Rightarrow> Status \<times> SyntheticBackend" where
  "set_topology b domain topology =
     configure b domain (\<lambda>c. c\<lparr>
       sd_topology := topology\<lparr>to_generation := first_unless (to_generation topology)\<rparr>\<rparr>)"

definition set_compatibility ::
    "SyntheticBackend \<Rightarrow> u64 \<Rightarrow> DomainCompatibility \<Rightarrow> Status \<times> SyntheticBackend" where
  "set_compatibility b domain compatibility =
     configure b domain (\<lambda>c. c\<lparr>
       sd_compatibility := compatibility
         \<lparr>cm_generation := first_unless (cm_generation compatibility)\<rparr>\<rparr>)"

definition synthetic_set_capacity ::
    "SyntheticBackend \<Rightarrow> u64 \<Rightarrow> CapacityVector \<Rightarrow> Status \<times> SyntheticBackend" where
  "synthetic_set_capacity b domain capacity = configure b domain (\<lambda>c. c\<lparr>sd_capacity := capacity\<rparr>)"

definition set_worker :: "SyntheticBackend \<Rightarrow> u64 \<Rightarrow> u64 \<Rightarrow> u64 \<Rightarrow> Status \<times> SyntheticBackend" where
  "set_worker b domain worker boot =
     configure b domain (\<lambda>c. c\<lparr>sd_worker := worker, sd_worker_boot := boot\<rparr>)"

definition set_domain_generation :: "SyntheticBackend \<Rightarrow> u64 \<Rightarrow> u64 \<Rightarrow> Status \<times> SyntheticBackend" where
  "set_domain_generation b domain generation =
     (case find_synthetic b domain of
        None \<Rightarrow> (failure ''synthetic.unknown_domain'' [], b)
      | Some c \<Rightarrow>
          if generation < sd_domain_generation c
          then (failure ''synthetic.generation_regression'' [], b)
          else configure b domain (\<lambda>c. c\<lparr>sd_domain_generation := generation\<rparr>))"

definition set_backend_generation :: "SyntheticBackend \<Rightarrow> u64 \<Rightarrow> u64 \<Rightarrow> Status \<times> SyntheticBackend" where
  "set_backend_generation b domain generation =
     configure b domain (\<lambda>c. c\<lparr>sd_backend_generation := generation\<rparr>)"

definition withdraw_dynamic_evidence :: "SyntheticBackend \<Rightarrow> u64 \<Rightarrow> Status \<times> SyntheticBackend" where
  "withdraw_dynamic_evidence b domain =
     configure b domain (\<lambda>c. c\<lparr>sd_dynamic_evidence_published := False, sd_healthy := False,
                              sd_ready := False, sd_accepting := False\<rparr>)"

definition set_fault :: "SyntheticBackend \<Rightarrow> SyntheticFault \<Rightarrow> u32 \<Rightarrow> SyntheticBackend" where
  "set_fault b fault n = b\<lparr>sb_faults := (sb_faults b)(fault := n)\<rparr>"

definition clear_faults :: "SyntheticBackend \<Rightarrow> SyntheticBackend" where
  "clear_faults b = b\<lparr>sb_faults := (\<lambda>_. 0)\<rparr>"

section \<open>The backend interface of the synthetic backend\<close>

definition synthetic_configs :: "SyntheticBackend \<Rightarrow> SyntheticDomainConfig list" where
  "synthetic_configs b = map snd (sort_key fst (sb_domains b))"

definition synthetic_discover :: "SyntheticBackend \<Rightarrow> ExecutionDomainRecord list \<times> SyntheticBackend" where
  "synthetic_discover b = (map record_of (synthetic_configs b), b)"

definition synthetic_query_capability :: "SyntheticBackend \<Rightarrow> u64 \<Rightarrow> CapabilityRecord Checked" where
  "synthetic_query_capability b domain =
     (case find_synthetic b domain of
        None \<Rightarrow> bad ''synthetic.unknown_domain'' []
      | Some c \<Rightarrow> Good (dr_capability (record_of c)))"

definition synthetic_query_load ::
    "SyntheticBackend \<Rightarrow> u64 \<Rightarrow> DomainLoadEvidence Checked \<times> SyntheticBackend" where
  "synthetic_query_load b domain =
     (case find_synthetic b domain of
        None \<Rightarrow> bad ''synthetic.unknown_domain'' []
      | Some c \<Rightarrow>
          let load = dr_load (record_of c) in
          if \<not> load_published load then bad ''synthetic.evidence_withheld'' [] else Good load, b)"

definition synthetic_reserve ::
    "SyntheticBackend \<Rightarrow> u64 \<Rightarrow> u64 \<Rightarrow> ResourceAmounts \<Rightarrow> Status \<times> SyntheticBackend" where
  "synthetic_reserve b domain i amounts =
     (if find_synthetic b domain = None then (failure ''synthetic.unknown_domain'' [], b)
      else case synthetic_take_fault b of
             (fault, b') \<Rightarrow>
               if fault = SyntheticFault.kReserveRefused
               then (failure ''synthetic.reserve_refused'' [], b') else (success, b'))"

definition synthetic_release :: "SyntheticBackend \<Rightarrow> u64 \<Rightarrow> u64 \<Rightarrow> Status" where
  "synthetic_release b domain i =
     (if find_synthetic b domain = None then failure ''synthetic.unknown_domain'' [] else success)"

definition outcome_unknown :: "string \<Rightarrow> ExecutionOutcome" where
  "outcome_unknown detail =
     (outcome_failed FailureKind.kAmbiguousOutcome detail)\<lparr>eo_executed := True, eo_ambiguous := True\<rparr>"

text \<open>The outcomes of the switch on the fault taken; the others fall through to the host transform.\<close>

definition fault_outcome :: "SyntheticFault \<Rightarrow> ExecutionOutcome option" where
  "fault_outcome fault =
     (case fault of
        SyntheticFault.kRefuseExecution \<Rightarrow>
          Some (outcome_failed FailureKind.kPreDispatchRejection ''synthetic backend refused execution'')
      | SyntheticFault.kExecutionFailure \<Rightarrow>
          Some (outcome_failed FailureKind.kExecutionFailure ''synthetic execution failure'')
      | SyntheticFault.kAmbiguousOutcome \<Rightarrow>
          Some (outcome_unknown ''synthetic backend reported an unknown outcome'')
      | SyntheticFault.kIntegrityFailure \<Rightarrow>
          Some ((outcome_failed FailureKind.kIntegrityFailure ''synthetic integrity failure'')
                  \<lparr>eo_executed := True, eo_result_digest := 0xDEADBEEF\<rparr>)
      | SyntheticFault.kReserveRefused \<Rightarrow> None
      | SyntheticFault.kNone \<Rightarrow> None)"

definition synthetic_outcome :: "u64 \<Rightarrow> ExecutionOutcome \<Rightarrow> ExecutionOutcome" where
  "synthetic_outcome latency outcome =
     outcome\<lparr>eo_duration_ns := (if eo_duration_ns outcome = 0 then latency else eo_duration_ns outcome),
             eo_detail := eo_detail outcome @
               (if eo_detail outcome = [] then ''synthetic'' else '' synthetic'')\<rparr>"

definition synthetic_execute ::
    "SyntheticBackend \<Rightarrow> u64 \<Rightarrow> ExecutionInvocation \<Rightarrow> ExecutionOutcome \<times> SyntheticBackend \<times> u64" where
  "synthetic_execute b sink iv =
     (case find_synthetic b (iv_domain iv) of
        None \<Rightarrow>
          (outcome_failed FailureKind.kDomainUnavailable ''synthetic domain is not registered'', b, sink)
      | Some c \<Rightarrow>
          case synthetic_take_fault b of
            (fault, b') \<Rightarrow>
              let b'' = b'\<lparr>sb_executed := sb_executed b' + 1\<rparr> in
              case fault_outcome fault of
                Some outcome \<Rightarrow> (outcome, b'', sink)
              | None \<Rightarrow>
                  case execute_operation_on_host builtin_descriptors sink iv of
                    (outcome, sink') \<Rightarrow>
                      (synthetic_outcome (sd_observed_latency_ns c) outcome, b'', sink'))"

definition synthetic_cancel :: "SyntheticBackend \<Rightarrow> u64 \<Rightarrow> Status \<times> SyntheticBackend" where
  "synthetic_cancel b i =
     (success, b\<lparr>sb_cancellation_requests := sb_cancellation_requests b + 1\<rparr>)"

definition make_synthetic_domain ::
    "string \<Rightarrow> u64 \<Rightarrow> ExecutionDomainType \<Rightarrow> string \<Rightarrow> bool \<Rightarrow> SyntheticDomainConfig" where
  "make_synthetic_domain host i type name authoritative =
     (let name' = (if name = [] then ''synthetic.'' @ to_string_u64 i else name);
          family = ''synthetic.'' @ to_string_ExecutionDomainType type
      in \<lparr>sd_id = i, sd_type = type, sd_name = name', sd_parent_device = name' @ ''.device'',
          sd_parent_host = host, sd_provenance = Provenance.kSynthetic,
          sd_domain_generation = gen_first, sd_capability_generation = gen_first,
          sd_evidence_generation = gen_first, sd_backend_generation = gen_first, sd_worker = 0,
          sd_worker_boot = 0,
          sd_isolation = (if type = ExecutionDomainType.kCpu then IsolationClass.kSharedProcess
                          else IsolationClass.kSeparateExecutionContext),
          sd_capacity = no_amounts(
            ResourceKind.kExecutionSlot := 8, ResourceKind.kQueueDepth := 256,
            ResourceKind.kDescriptorRing := 64, ResourceKind.kProcessingContext := 8,
            ResourceKind.kDeviceMemoryBytes := push_bit 30 1,
            ResourceKind.kScratchMemoryBytes := push_bit 28 1),
          sd_locality = (dr_locality empty_domain)\<lparr>
            lo_generation := gen_first, lo_class_to_payload := LocalityClass.kSameHost,
            lo_numa_node := 0, lo_host_index := 0, lo_pcie_root_complex := 0, lo_pcie_switch := 0,
            lo_has_local_nic := type \<in> {ExecutionDomainType.kNic, ExecutionDomainType.kSmartNic,
                                        ExecutionDomainType.kDpu}\<rparr>,
          sd_topology = (dr_topology empty_domain)\<lparr>
            to_generation := gen_first, to_host_node := host, to_fabric := ''synthetic.fabric''\<rparr>,
          sd_compatibility = (dr_compatibility empty_domain)\<lparr>
            cm_generation := gen_first, cm_driver_backend_version := 1, cm_firmware_generation := 1,
            cm_protocol_version := 1, cm_backend_family := family\<rparr>,
          sd_capability = make_host_executor_capability (of_nat kMaxDispatchPayloadBytes) 256 8 family
            (memory_bit MemoryDomain.kHost OR memory_bit MemoryDomain.kPinnedHost
             OR memory_bit MemoryDomain.kDeviceLocal OR memory_bit MemoryDomain.kNicOnboard
             OR memory_bit MemoryDomain.kSmartNicOnboard OR memory_bit MemoryDomain.kDpuOnboard) 1,
          sd_utilization_percent = 0, sd_congestion_percent = 0, sd_queue_depth = 0,
          sd_in_flight = 0, sd_observed_latency_ns = 1000,
          sd_throughput_bytes_per_second = push_bit 30 1, sd_healthy = True, sd_ready = True,
          sd_accepting = True, sd_authoritative = authoritative,
          sd_dynamic_evidence_published = True\<rparr>)"

section \<open>The backend of the host processor\<close>

record CpuBackend =
  cp_options :: CpuBackendOptions
  cp_record :: ExecutionDomainRecord
  cp_executed :: u64
  cp_in_flight :: u64
  cp_publication :: u64

definition new_cpu_backend :: "HostFacts \<Rightarrow> CpuBackendOptions \<Rightarrow> CpuBackend" where
  "new_cpu_backend host options =
     (let options' = (if cb_max_concurrency options = 0
                      then options\<lparr>cb_max_concurrency := hf_threads host\<rparr> else options)
      in \<lparr>cp_options = options', cp_record = describe_cpu host options', cp_executed = 0,
          cp_in_flight = 0, cp_publication = 0\<rparr>)"

definition cpu_discover :: "CpuBackend \<Rightarrow> ExecutionDomainRecord list \<times> CpuBackend" where
  "cpu_discover b =
     (case discover_cpu (cp_record b) (cp_publication b) (ucast (cp_in_flight b)) of
        (r, publication) \<Rightarrow> ([r], b\<lparr>cp_publication := publication\<rparr>))"

definition cpu_query_capability :: "CpuBackend \<Rightarrow> u64 \<Rightarrow> CapabilityRecord Checked" where
  "cpu_query_capability b domain =
     (if domain \<noteq> dr_id (cp_record b) then bad ''cpu.unknown_domain'' []
      else Good (dr_capability (cp_record b)))"

definition cpu_query_load :: "CpuBackend \<Rightarrow> u64 \<Rightarrow> DomainLoadEvidence Checked \<times> CpuBackend" where
  "cpu_query_load b domain =
     (if domain \<noteq> dr_id (cp_record b) then (bad ''cpu.unknown_domain'' [], b)
      else case cpu_discover b of (rs, b') \<Rightarrow> (Good (dr_load (hd rs)), b'))"

definition cpu_reserve :: "CpuBackend \<Rightarrow> u64 \<Rightarrow> u64 \<Rightarrow> ResourceAmounts \<Rightarrow> Status" where
  "cpu_reserve b domain i amounts =
     (if domain \<noteq> dr_id (cp_record b) then failure ''cpu.unknown_domain'' [] else success)"

definition cpu_release :: "CpuBackend \<Rightarrow> u64 \<Rightarrow> u64 \<Rightarrow> Status" where
  "cpu_release b domain i =
     (if domain \<noteq> dr_id (cp_record b) then failure ''cpu.unknown_domain'' [] else success)"

text \<open>
  An execution is two atomic steps around the transform, so that other threads may discover the domain
  while it runs.
\<close>

definition cpu_begin :: "CpuBackend \<Rightarrow> CpuBackend" where
  "cpu_begin b = b\<lparr>cp_in_flight := cp_in_flight b + 1\<rparr>"

definition cpu_end :: "CpuBackend \<Rightarrow> CpuBackend" where
  "cpu_end b = b\<lparr>cp_in_flight := cp_in_flight b - 1, cp_executed := cp_executed b + 1\<rparr>"

definition cpu_execute ::
    "CpuBackend \<Rightarrow> u64 \<Rightarrow> ExecutionInvocation \<Rightarrow> ExecutionOutcome \<times> CpuBackend \<times> u64" where
  "cpu_execute b sink iv =
     (case execute_operation_on_host builtin_descriptors sink iv of
        (outcome, sink') \<Rightarrow> (outcome, cpu_end (cpu_begin b), sink'))"

text \<open>The defaults of \<^verbatim>\<open>IExecutionBackend\<close>, which the host processor does not override.\<close>

definition backend_cancel :: "u64 \<Rightarrow> Status" where
  "backend_cancel i = failure ''cancel.unsupported'' ''backend does not support cancellation''"

definition backend_shutdown :: Status where
  "backend_shutdown = success"

section \<open>The interface\<close>

text \<open>
  What a publisher relies on: a discovery names each domain once, labels its capability with the domain
  and keeps the backend well formed.
\<close>

locale execution_backend =
  fixes discover :: "'b \<Rightarrow> ExecutionDomainRecord list \<times> 'b" and backend_inv :: "'b \<Rightarrow> bool"
  assumes inv_discover: "backend_inv b \<Longrightarrow> backend_inv (snd (discover b))"
    and distinct_ids: "backend_inv b \<Longrightarrow> distinct (map dr_id (fst (discover b)))"
    and capability_domain:
      "backend_inv b \<Longrightarrow> r \<in> set (fst (discover b)) \<Longrightarrow> cap_domain (dr_capability r) = dr_id r"

definition synthetic_inv :: "SyntheticBackend \<Rightarrow> bool" where
  "synthetic_inv b \<longleftrightarrow> distinct (map fst (sb_domains b)) \<and> (\<forall>(k, c) \<in> set (sb_domains b). sd_id c = k)"

definition cpu_inv :: "CpuBackend \<Rightarrow> bool" where
  "cpu_inv b \<longleftrightarrow> cap_domain (dr_capability (cp_record b)) = dr_id (cp_record b)"

lemma synthetic_ids: "synthetic_inv b \<Longrightarrow> map sd_id (synthetic_configs b) = sort (map fst (sb_domains b))"
proof -
  assume inv: "synthetic_inv b"
  then have "map sd_id (synthetic_configs b) = map fst (sort_key fst (sb_domains b))"
    by (auto simp: synthetic_inv_def synthetic_configs_def)
  also have "\<dots> = sort (map fst (sb_domains b))"
    by (rule properties_for_sort [symmetric]) (simp_all only: sorted_sort_key mset_map mset_sort)
  finally show ?thesis .
qed

lemma record_of_simps [simp]:
  "dr_id (record_of c) = sd_id c" "cap_domain (dr_capability (record_of c)) = sd_id c"
  "dr_provenance (record_of c) = sd_provenance c"
  "cap_provenance (dr_capability (record_of c)) = sd_provenance c"
  by (simp_all add: record_of_def)

interpretation synthetic: execution_backend synthetic_discover synthetic_inv
proof
  fix b assume inv: "synthetic_inv b"
  show "distinct (map dr_id (fst (synthetic_discover b)))"
    using inv synthetic_ids [OF inv] by (simp add: synthetic_discover_def comp_def synthetic_inv_def)
qed (auto simp: synthetic_discover_def)

interpretation cpu: execution_backend cpu_discover cpu_inv
  by unfold_locales (auto simp: cpu_discover_def discover_cpu_def Let_def cpu_inv_def)

section \<open>Runs of the synthetic backend\<close>

text \<open>One rule per operation; a domain is added under the provenance its configuration defaults to.\<close>

inductive synthetic_step :: "SyntheticBackend \<Rightarrow> SyntheticBackend \<Rightarrow> bool" where
  step_add: "sd_provenance c = Provenance.kSynthetic \<Longrightarrow> synthetic_step b (snd (add_domain b c))"
| step_remove: "synthetic_step b (snd (synthetic_remove_domain b d))"
| step_set_capability: "synthetic_step b (snd (set_capability b d caps authoritative))"
| step_set_support: "synthetic_step b (snd (set_operation_support b d operation supported))"
| step_set_load: "synthetic_step b (snd (set_load b d u g q f l))"
| step_set_health: "synthetic_step b (snd (set_health b d healthy ready accepting))"
| step_set_locality: "synthetic_step b (snd (set_locality b d locality))"
| step_set_topology: "synthetic_step b (snd (set_topology b d topology))"
| step_set_compatibility: "synthetic_step b (snd (set_compatibility b d compatibility))"
| step_set_capacity: "synthetic_step b (snd (synthetic_set_capacity b d capacity))"
| step_set_worker: "synthetic_step b (snd (set_worker b d worker boot))"
| step_set_generation: "synthetic_step b (snd (set_domain_generation b d generation))"
| step_set_backend_generation: "synthetic_step b (snd (set_backend_generation b d generation))"
| step_withdraw: "synthetic_step b (snd (withdraw_dynamic_evidence b d))"
| step_set_fault: "synthetic_step b (set_fault b fault n)"
| step_clear_faults: "synthetic_step b (clear_faults b)"
| step_discover: "synthetic_step b (snd (synthetic_discover b))"
| step_reserve: "synthetic_step b (snd (synthetic_reserve b d i amounts))"
| step_execute: "synthetic_step b (fst (snd (synthetic_execute b sink iv)))"
| step_cancel: "synthetic_step b (snd (synthetic_cancel b i))"

definition labelled :: "SyntheticBackend \<Rightarrow> bool" where
  "labelled b \<longleftrightarrow> synthetic_inv b
     \<and> (\<forall>c \<in> snd ` set (sb_domains b). sd_provenance c = Provenance.kSynthetic
          \<and> published (sd_capability_generation c) \<and> published (sd_evidence_generation c))"

lemma labelled_frame:
  "sb_domains b' = sb_domains b \<Longrightarrow> labelled b' = labelled b"
  by (simp add: labelled_def synthetic_inv_def)

lemma first_unless_is_published [simp]: "published (first_unless g)"
  by (simp add: first_unless_def gen_first_def valid_def)

lemma advance_or_first_published [simp]: "published (advance_or_first g)"
  using gen_next_published [of g] by (simp add: advance_or_first_def gen_first_def valid_def)

text \<open>The settings that the labels and the identities depend on.\<close>

definition keeps_label :: "(SyntheticDomainConfig \<Rightarrow> SyntheticDomainConfig) \<Rightarrow> bool" where
  "keeps_label f \<longleftrightarrow> (\<forall>c. sd_id (f c) = sd_id c \<and> sd_provenance (f c) = sd_provenance c
     \<and> (published (sd_capability_generation c) \<longrightarrow> published (sd_capability_generation (f c)))
     \<and> (published (sd_evidence_generation c) \<longrightarrow> published (sd_evidence_generation (f c))))"

lemma configure_labelled:
  assumes "labelled b" and "keeps_label f"
  shows "labelled (snd (configure b d f))"
proof (cases "find_synthetic b d")
  case (Some c)
  then have "(d, c) \<in> set (sb_domains b)" by (simp add: find_synthetic_def map_of_SomeD)
  with assms Some show ?thesis
    by (auto simp: configure_def labelled_def synthetic_inv_def keeps_label_def distinct_update
        set_update_distinct)
qed (use assms in \<open>simp add: configure_def\<close>)

lemma take_fault_domains [simp]: "sb_domains (snd (synthetic_take_fault b)) = sb_domains b"
  by (simp add: synthetic_take_fault_def split: option.split)

lemma take_fault_eqD: "synthetic_take_fault b = (f, b') \<Longrightarrow> sb_domains b' = sb_domains b"
  using take_fault_domains [of b] by simp

lemma frames_domains:
  "sb_domains (set_fault b fault n) = sb_domains b" "sb_domains (clear_faults b) = sb_domains b"
  "sb_domains (snd (synthetic_discover b)) = sb_domains b"
  "sb_domains (snd (synthetic_cancel b i)) = sb_domains b"
  "sb_domains (snd (synthetic_reserve b d i amounts)) = sb_domains b"
  by (simp_all add: set_fault_def clear_faults_def synthetic_discover_def synthetic_cancel_def
      synthetic_reserve_def split_beta)

lemma execute_domains: "sb_domains (fst (snd (synthetic_execute b sink iv))) = sb_domains b"
  by (simp add: synthetic_execute_def split_beta Let_def split: option.split)

lemma configured_labelled:
  assumes "labelled b"
  shows "labelled (snd (set_capability b d caps authoritative))"
    and "labelled (snd (set_operation_support b d operation supported))"
    and "labelled (snd (set_load b d u g q f l))"
    and "labelled (snd (set_health b d healthy ready accepting))"
    and "labelled (snd (set_locality b d locality))"
    and "labelled (snd (set_topology b d topology))"
    and "labelled (snd (set_compatibility b d compatibility))"
    and "labelled (snd (synthetic_set_capacity b d capacity))"
    and "labelled (snd (set_worker b d worker boot))"
    and "labelled (snd (set_domain_generation b d generation))"
    and "labelled (snd (set_backend_generation b d generation))"
    and "labelled (snd (withdraw_dynamic_evidence b d))"
  unfolding set_capability_def set_operation_support_def set_load_def set_health_def set_locality_def
    set_topology_def set_compatibility_def synthetic_set_capacity_def set_worker_def
    set_domain_generation_def set_backend_generation_def withdraw_dynamic_evidence_def Let_def
  using assms by (simp_all add: configure_labelled keeps_label_def split: option.split)

lemma synthetic_step_labelled:
  assumes "synthetic_step b b'" and "labelled b"
  shows "labelled b'"
  using assms
proof cases
  case (step_add c)
  with assms(2) show ?thesis
    by (auto simp: add_domain_def Let_def ensure_generations_def labelled_def synthetic_inv_def
        distinct_update set_update_distinct)
next
  case (step_remove d)
  with assms(2) show ?thesis
    by (auto simp: synthetic_remove_domain_def labelled_def synthetic_inv_def distinct_delete
        set_delete_eq)
qed (simp_all only: configured_labelled labelled_frame [OF frames_domains(1)]
      labelled_frame [OF frames_domains(2)] labelled_frame [OF frames_domains(3)]
      labelled_frame [OF frames_domains(4)] labelled_frame [OF frames_domains(5)]
      labelled_frame [OF execute_domains] assms(2))

lemma synthetic_run_labelled: "synthetic_step\<^sup>*\<^sup>* b b' \<Longrightarrow> labelled b \<Longrightarrow> labelled b'"
  by (induction rule: rtranclp_induct) (auto intro: synthetic_step_labelled)

lemma new_synthetic_labelled: "labelled (new_synthetic_backend name)"
  by (simp add: labelled_def synthetic_inv_def new_synthetic_backend_def)

section \<open>Properties\<close>

text \<open>
  Whatever is done to a synthetic backend whose domains are added under their default provenance, every
  record it discovers is labelled synthetic, with its capability and any load evidence it carries, no
  domain is reported twice, and a query answers with the capability and the load of the discovered
  record: a load query fails exactly when the record carries no evidence.\<close>

theorem synthetic_records_are_labelled:
  assumes "synthetic_step\<^sup>*\<^sup>* (new_synthetic_backend name) b"
  shows "distinct (map dr_id (fst (synthetic_discover b)))
    \<and> (\<forall>r \<in> set (fst (synthetic_discover b)).
         dr_provenance r = Provenance.kSynthetic
         \<and> cap_provenance (dr_capability r) = Provenance.kSynthetic
         \<and> published (cap_generation (dr_capability r))
         \<and> (load_published (dr_load r) \<longrightarrow> ld_provenance (dr_load r) = Provenance.kSynthetic)
         \<and> synthetic_query_capability b (dr_id r) = Good (dr_capability r)
         \<and> fst (synthetic_query_load b (dr_id r)) =
             (if load_published (dr_load r) then Good (dr_load r)
              else bad ''synthetic.evidence_withheld'' []))"
proof (intro conjI ballI)
  have lab: "labelled b" using assms new_synthetic_labelled by (rule synthetic_run_labelled)
  then have inv: "synthetic_inv b" by (simp add: labelled_def)
  then show "distinct (map dr_id (fst (synthetic_discover b)))" by (rule synthetic.distinct_ids)
  fix r assume "r \<in> set (fst (synthetic_discover b))"
  then obtain k c where kc: "(k, c) \<in> set (sb_domains b)" and r: "r = record_of c"
    by (auto simp: synthetic_discover_def synthetic_configs_def)
  have c: "sd_provenance c = Provenance.kSynthetic" and id: "sd_id c = k"
    using lab kc by (auto simp: labelled_def synthetic_inv_def)
  have find: "find_synthetic b (sd_id c) = Some c"
    using kc inv id by (simp add: find_synthetic_def synthetic_inv_def)
  show "dr_provenance r = Provenance.kSynthetic" "cap_provenance (dr_capability r) = Provenance.kSynthetic"
    using c r by simp_all
  show "published (cap_generation (dr_capability r))" by (simp add: r record_of_def)
  show "load_published (dr_load r) \<longrightarrow> ld_provenance (dr_load r) = Provenance.kSynthetic"
    by (simp add: r record_of_def synthetic_load_of_def)
  show "synthetic_query_capability b (dr_id r) = Good (dr_capability r)"
    by (simp add: synthetic_query_capability_def r find)
  show "fst (synthetic_query_load b (dr_id r)) =
      (if load_published (dr_load r) then Good (dr_load r) else bad ''synthetic.evidence_withheld'' [])"
    by (simp add: synthetic_query_load_def r find Let_def)
qed

definition demo_synthetic :: SyntheticBackend where
  "demo_synthetic =
     snd (add_domain (new_synthetic_backend [])
            (make_synthetic_domain ''host'' 7 ExecutionDomainType.kDpu [] True))"

lemma demo_synthetic_find:
  "find_synthetic demo_synthetic 7 =
     Some (ensure_generations (make_synthetic_domain ''host'' 7 ExecutionDomainType.kDpu [] True))"
  by (simp add: demo_synthetic_def add_domain_def find_synthetic_def ensure_generations_def
      make_synthetic_domain_def new_synthetic_backend_def kMaxExecutionDomains_def Let_def)

lemma demo_synthetic_reached: "synthetic_step\<^sup>*\<^sup>* (new_synthetic_backend []) demo_synthetic"
  unfolding demo_synthetic_def
  by (rule r_into_rtranclp, rule synthetic_step.step_add) (simp add: make_synthetic_domain_def Let_def)

theorem synthetic_records_are_labelled_witness:
  "\<exists>r. r \<in> set (fst (synthetic_discover demo_synthetic)) \<and> dr_id r = 7
     \<and> dr_provenance r = Provenance.kSynthetic
     \<and> synthetic_query_capability demo_synthetic 7 = Good (dr_capability r)"
proof -
  let ?r = "record_of (ensure_generations (make_synthetic_domain ''host'' 7 ExecutionDomainType.kDpu [] True))"
  have "(7, ensure_generations (make_synthetic_domain ''host'' 7 ExecutionDomainType.kDpu [] True))
      \<in> set (sb_domains demo_synthetic)"
    using demo_synthetic_find by (auto simp: find_synthetic_def dest: map_of_SomeD)
  then have "?r \<in> set (fst (synthetic_discover demo_synthetic))"
    by (force simp: synthetic_discover_def synthetic_configs_def)
  moreover have "dr_id ?r = 7"
    by (simp add: ensure_generations_def make_synthetic_domain_def Let_def)
  ultimately show ?thesis
    using synthetic_records_are_labelled [OF demo_synthetic_reached] by metis
qed

text \<open>
  The label rests on the configuration: a domain added with another provenance is published under it,
  although the header says that every record is labelled synthetic.\<close>

theorem synthetic_domain_can_claim_to_be_real:
  "st_ok (fst (add_domain (new_synthetic_backend name) (c\<lparr>sd_provenance := Provenance.kReal\<rparr>)))
   \<and> map dr_provenance (fst (synthetic_discover
        (snd (add_domain (new_synthetic_backend name) (c\<lparr>sd_provenance := Provenance.kReal\<rparr>))))) =
      [Provenance.kReal]"
  by (simp add: add_domain_def new_synthetic_backend_def kMaxExecutionDomains_def Let_def
      synthetic_discover_def synthetic_configs_def ensure_generations_def success_def)

subsection \<open>Faults\<close>

text \<open>A sequence of executions.\<close>

fun synthetic_executions ::
    "SyntheticBackend \<Rightarrow> u64 \<Rightarrow> ExecutionInvocation list \<Rightarrow> ExecutionOutcome list \<times> SyntheticBackend \<times> u64" where
  "synthetic_executions b sink [] = ([], b, sink)"
| "synthetic_executions b sink (iv # ivs) =
     (case synthetic_execute b sink iv of
        (outcome, b', sink') \<Rightarrow>
          case synthetic_executions b' sink' ivs of (outcomes, b'', sink'') \<Rightarrow> (outcome # outcomes, b'', sink''))"

lemma take_only_fault:
  assumes "sb_faults b = (\<lambda>_. 0)(fault := n)" and "n > 0"
  shows "synthetic_take_fault b = (fault, b\<lparr>sb_faults := (\<lambda>_. 0)(fault := n - 1)\<rparr>)"
  using assms by (cases fault) (simp_all add: synthetic_take_fault_def all_SyntheticFault_def)

lemma take_no_fault:
  assumes "sb_faults b = (\<lambda>_. 0)"
  shows "synthetic_take_fault b = (SyntheticFault.kNone, b)"
  using assms by (simp add: synthetic_take_fault_def all_SyntheticFault_def)

text \<open>
  A fault set on a backend without other faults hits exactly the next executions, as many as were set:
  each of them reports the outcome of the fault and leaves the sink of the host transform alone, and
  the execution after them is the host transform, marked synthetic.\<close>

theorem faults_hit_the_next_executions:
  assumes "fault_outcome fault = Some outcome" and "sb_faults b = (\<lambda>_. 0)"
    and "\<forall>iv \<in> set (ivs @ [iv']). find_synthetic b (iv_domain iv) = Some c"
    and "length ivs = unat n"
  shows "fst (synthetic_executions (set_fault b fault n) sink (ivs @ [iv'])) =
           replicate (length ivs) outcome
           @ [synthetic_outcome (sd_observed_latency_ns c)
                (fst (execute_operation_on_host builtin_descriptors sink iv'))]"
  using assms(2-)
proof (induction ivs arbitrary: b n)
  case Nil
  then have "n = 0" by (simp add: unat_eq_0)
  with Nil have "set_fault b fault n = b" by (simp add: set_fault_def fun_upd_idem)
  with Nil show ?case
    by (simp add: synthetic_execute_def take_no_fault fault_outcome_def split_beta Let_def)
next
  case (Cons iv ivs)
  let ?b = "b\<lparr>sb_executed := sb_executed b + 1\<rparr>"
  have n: "n > 0" "unat (n - 1) = length ivs"
    using Cons.prems(3) unat_gt_0 [of n] unat_minus_one [of n] by (auto simp: word_less_nat_alt)
  have step: "synthetic_execute (set_fault b fault n) sink iv = (outcome, set_fault ?b fault (n - 1), sink)"
    using Cons.prems assms(1) n(1)
    by (simp add: synthetic_execute_def set_fault_def find_synthetic_def take_only_fault Let_def)
  show ?case
    using Cons.IH [of ?b "n - 1"] Cons.prems(1,2) n
    by (simp add: step split_beta find_synthetic_def)
qed

definition demo_emit :: ExecutionInvocation where
  "demo_emit = demo_invocation\<lparr>iv_domain := 7, iv_operation_class := 8\<rparr>"

theorem faults_hit_the_next_executions_witness:
  "fst (synthetic_executions (set_fault demo_synthetic SyntheticFault.kExecutionFailure 2) 4
          [demo_emit, demo_emit, demo_emit]) =
     [outcome_failed FailureKind.kExecutionFailure ''synthetic execution failure'',
      outcome_failed FailureKind.kExecutionFailure ''synthetic execution failure'',
      synthetic_outcome 1000 (fst (execute_operation_on_host builtin_descriptors 4 demo_emit))]"
proof -
  have "sb_faults demo_synthetic = (\<lambda>_. 0)"
    by (simp add: demo_synthetic_def add_domain_def new_synthetic_backend_def Let_def)
  moreover have "iv_domain demo_emit = 7" by (simp add: demo_emit_def)
  moreover have "unat (2 :: u32) = length [demo_emit, demo_emit]" by simp
  moreover have "sd_observed_latency_ns (the (find_synthetic demo_synthetic 7)) = 1000"
    by (simp add: demo_synthetic_find ensure_generations_def make_synthetic_domain_def Let_def)
  ultimately show ?thesis
    using faults_hit_the_next_executions [of SyntheticFault.kExecutionFailure
        "outcome_failed FailureKind.kExecutionFailure ''synthetic execution failure''" demo_synthetic
        "[demo_emit, demo_emit]" demo_emit _ 2 4] demo_synthetic_find
    by (simp add: fault_outcome_def)
qed

text \<open>
  A capacity handshake takes a fault as well and heeds only a refused reservation: an execution fault
  set for one execution is consumed by a reservation that succeeds, and the next execution runs as if
  no fault had been set. The header says that faults are applied to the next executions.\<close>

theorem reservation_swallows_execution_fault:
  assumes "fault_outcome fault = Some outcome" and "sb_faults b = (\<lambda>_. 0)"
    and "find_synthetic b domain = Some c"
  shows "synthetic_reserve (set_fault b fault 1) domain i amounts = (success, b)"
  using assms
  by (auto simp: synthetic_reserve_def take_only_fault set_fault_def find_synthetic_def fault_outcome_def
      fun_upd_idem)

subsection \<open>The host processor\<close>

lemma describe_cpu_simps [simp]:
  "dr_id (describe_cpu host options) = cb_domain_id options"
  "cap_domain (dr_capability (describe_cpu host options)) = cb_domain_id options"
  by (simp_all add: describe_cpu_def Let_def)

text \<open>
  The backend of the host processor reports exactly its own domain under a publication number one
  above the last, with a utilisation of at most one hundred percent, whatever runs meanwhile; and an
  execution leaves the number in flight as it found it, counts itself and returns what the host
  transform computes.\<close>

theorem cpu_discovery_is_fresh:
  "\<exists>r. cpu_discover b = ([r], b\<lparr>cp_publication := cp_publication b + 1\<rparr>)
     \<and> dr_id r = dr_id (cp_record b) \<and> dr_capability r = dr_capability (cp_record b)
     \<and> ld_load_generation (dr_load r) = cp_publication b + 1
     \<and> ld_queue_generation (dr_load r) = cp_publication b + 1
     \<and> ld_health_generation (dr_load r) = cp_publication b + 1
     \<and> ld_utilization_percent (dr_load r) \<le> 100
     \<and> cpu_execute b sink iv =
         (fst (execute_operation_on_host builtin_descriptors sink iv),
          b\<lparr>cp_executed := cp_executed b + 1\<rparr>,
          snd (execute_operation_on_host builtin_descriptors sink iv))"
proof -
  have "(ucast (min 100 x) :: u32) \<le> 100" for x :: u64
  proof -
    have "unat (min 100 x) \<le> 100" by (simp add: min_def word_le_nat_alt)
    then have "unat (ucast (min 100 x) :: u32) \<le> 100" by (simp add: unsigned_ucast_eq take_bit_nat_eq_self)
    then show ?thesis by (simp add: word_le_nat_alt)
  qed
  then show ?thesis
    by (simp add: cpu_discover_def discover_cpu_def Let_def cpu_execute_def cpu_begin_def cpu_end_def
        split_beta)
qed

end
