(* ===== verification/Tos_Publisher.thy ===== *)
theory Tos_Publisher
  imports Tos_Backends
begin

text \<open>
  The local domain publisher of \<^verbatim>\<open>src/src/backends/local_publisher.cpp\<close>: it keeps a scheduler in step
  with a backend of the same process. The backend is a parameter with the contract of the locale
  \<open>execution_backend\<close>; the laws of the publisher are proved once there and hold for the synthetic backend
  and for the host processor.
\<close>

section \<open>Sequences of calls that stop at a failure\<close>

record LocalDomainPublisher =
  pb_published :: "(u64 \<times> u64) list"

type_synonym publishing = "LocalDomainPublisher \<times> Scheduler"

text \<open>The shape \<^verbatim>\<open>const Status x = call; if (!x) return x;\<close>, repeated.\<close>

fun until_failure :: "('s \<Rightarrow> Status \<times> 's) list \<Rightarrow> 's \<Rightarrow> Status \<times> 's" where
  "until_failure [] s = (success, s)"
| "until_failure (f # fs) s = (case f s of (st, s') \<Rightarrow> if st_ok st then until_failure fs s' else (st, s'))"

declare until_failure.simps(2) [simp del]

definition calling :: "(Scheduler \<Rightarrow> Status \<times> Scheduler) \<Rightarrow> publishing \<Rightarrow> Status \<times> publishing" where
  "calling f ps = (case f (snd ps) of (st, s) \<Rightarrow> (st, fst ps, s))"

definition guarded :: "bool \<Rightarrow> ('s \<Rightarrow> Status \<times> 's) \<Rightarrow> 's \<Rightarrow> Status \<times> 's" where
  "guarded c f s = (if c then f s else (success, s))"

text \<open>A failure with the given code is not a reason to stop.\<close>

definition tolerating :: "string \<Rightarrow> ('s \<Rightarrow> Status \<times> 's) \<Rightarrow> 's \<Rightarrow> Status \<times> 's" where
  "tolerating code f s =
     (case f s of (st, s') \<Rightarrow> (if \<not> st_ok st \<and> st_code st = code then success else st, s'))"

definition noting :: "ExecutionDomainRecord \<Rightarrow> publishing \<Rightarrow> Status \<times> publishing" where
  "noting r ps =
     (success, (fst ps)\<lparr>pb_published := AList.update (dr_id r) (dr_generation r) (pb_published (fst ps))\<rparr>,
      snd ps)"

section \<open>Synchronisation\<close>

definition attributed_capability :: "ExecutionDomainRecord \<Rightarrow> CapabilityRecord" where
  "attributed_capability r =
     (if \<not> valid (cap_publisher (dr_capability r))
      then (dr_capability r)\<lparr>cap_publisher := dr_worker_boot r\<rparr> else dr_capability r)"

definition full_evidence :: "ExecutionDomainRecord \<Rightarrow> (publishing \<Rightarrow> Status \<times> publishing) list" where
  "full_evidence r =
     [calling (\<lambda>s. scheduler_publish_capability s (attributed_capability r)),
      calling (\<lambda>s. scheduler_publish_locality s (dr_id r) (dr_locality r)),
      calling (\<lambda>s. scheduler_publish_topology s (dr_id r) (dr_topology r)),
      calling (\<lambda>s. scheduler_publish_compatibility s (dr_id r) (dr_compatibility r)),
      calling (\<lambda>s. scheduler_publish_capacity s (dr_id r) (dr_capacity r))]"

definition first_load :: "ExecutionDomainRecord \<Rightarrow> publishing \<Rightarrow> Status \<times> publishing" where
  "first_load r =
     (if load_published (dr_load r)
      then calling (\<lambda>s. scheduler_publish_load s (dr_id r) (dr_load r))
      else calling (\<lambda>s. withdraw_evidence s (dr_id r) ''no current dynamic evidence published by the backend''))"

definition publish_new :: "ExecutionDomainRecord \<Rightarrow> publishing \<Rightarrow> Status \<times> publishing" where
  "publish_new r = until_failure
     ([calling (\<lambda>s. register_domain s r)] @ full_evidence r @ [first_load r, noting r])"

definition status_of :: "'a Checked \<Rightarrow> Status" where
  "status_of c = (case c of Good _ \<Rightarrow> success | Bad st \<Rightarrow> st)"

definition updating :: "ExecutionDomainRecord \<Rightarrow> Scheduler \<Rightarrow> Status \<times> Scheduler" where
  "updating r s = (case update_domain s r of (res, s') \<Rightarrow> (status_of res, s'))"

definition generation_advanced ::
    "LocalDomainPublisher \<Rightarrow> ExecutionDomainRecord \<Rightarrow> ExecutionDomainRecord \<Rightarrow> bool" where
  "generation_advanced p r existing =
     (dr_generation r > dr_generation existing
      \<or> (case map_of (pb_published p) (dr_id r) of None \<Rightarrow> False | Some g \<Rightarrow> dr_generation r > g))"

definition capability_differs :: "ExecutionDomainRecord \<Rightarrow> ExecutionDomainRecord \<Rightarrow> bool" where
  "capability_differs r existing =
     (let new = cap_capability (dr_capability r); old = cap_capability (dr_capability existing)
      in cs_operations new \<noteq> cs_operations old \<or> cs_flags new \<noteq> cs_flags old
         \<or> cs_max_payload_bytes new \<noteq> cs_max_payload_bytes old
         \<or> cs_queue_capacity new \<noteq> cs_queue_capacity old)"

definition publish_advance ::
    "LocalDomainPublisher \<Rightarrow> ExecutionDomainRecord \<Rightarrow> ExecutionDomainRecord \<Rightarrow> publishing \<Rightarrow> Status \<times> publishing" where
  "publish_advance p existing r =
     guarded (generation_advanced p r existing \<and> dr_generation r \<noteq> dr_generation existing)
       (until_failure [tolerating ''domain.generation_regression'' (calling (updating r)), noting r])"

definition changed_evidence ::
    "ExecutionDomainRecord \<Rightarrow> ExecutionDomainRecord \<Rightarrow> (publishing \<Rightarrow> Status \<times> publishing) list" where
  "changed_evidence existing r =
     [guarded (capability_differs r existing)
        (calling (\<lambda>s. scheduler_publish_capability s (attributed_capability r))),
      guarded (\<not> same_capacity (dr_capacity r) (dr_capacity existing))
        (calling (\<lambda>s. scheduler_publish_capacity s (dr_id r) (dr_capacity r))),
      guarded (lo_generation (dr_locality r) \<noteq> lo_generation (dr_locality existing)
               \<or> lo_class_to_payload (dr_locality r) \<noteq> lo_class_to_payload (dr_locality existing))
        (calling (\<lambda>s. scheduler_publish_locality s (dr_id r) (dr_locality r))),
      guarded (to_generation (dr_topology r) \<noteq> to_generation (dr_topology existing))
        (calling (\<lambda>s. scheduler_publish_topology s (dr_id r) (dr_topology r))),
      guarded (cm_generation (dr_compatibility r) \<noteq> cm_generation (dr_compatibility existing)
               \<or> cm_driver_backend_version (dr_compatibility r)
                   \<noteq> cm_driver_backend_version (dr_compatibility existing))
        (calling (\<lambda>s. scheduler_publish_compatibility s (dr_id r) (dr_compatibility r)))]"

definition refreshed_load ::
    "ExecutionDomainRecord \<Rightarrow> ExecutionDomainRecord \<Rightarrow> publishing \<Rightarrow> Status \<times> publishing" where
  "refreshed_load existing r =
     (if load_published (dr_load r)
      then tolerating ''domain.load_stale_publication''
             (calling (\<lambda>s. scheduler_publish_load s (dr_id r) (dr_load r)))
      else guarded (load_published (dr_load existing))
             (calling (\<lambda>s. withdraw_evidence s (dr_id r)
                             ''backend withdrew dynamic evidence for this domain'')))"

definition publish_changes ::
    "LocalDomainPublisher \<Rightarrow> ExecutionDomainRecord \<Rightarrow> ExecutionDomainRecord \<Rightarrow> publishing \<Rightarrow> Status \<times> publishing" where
  "publish_changes p existing r = until_failure
     ([publish_advance p existing r] @ changed_evidence existing r @ [refreshed_load existing r, noting r])"

definition publish_record :: "ExecutionDomainRecord \<Rightarrow> publishing \<Rightarrow> Status \<times> publishing" where
  "publish_record r ps =
     (case find_domain (sc_domains (snd ps)) (dr_id r) of
        None \<Rightarrow> publish_new r ps
      | Some existing \<Rightarrow> publish_changes (fst ps) existing r ps)"

definition publish_all :: "ExecutionDomainRecord list \<Rightarrow> publishing \<Rightarrow> Status \<times> publishing" where
  "publish_all discovered = until_failure (map publish_record discovered)"

definition sync ::
    "('b \<Rightarrow> ExecutionDomainRecord list \<times> 'b) \<Rightarrow> 'b \<Rightarrow> publishing \<Rightarrow> Status \<times> 'b \<times> publishing" where
  "sync discover b ps =
     (case discover b of (discovered, b') \<Rightarrow>
        case publish_all discovered ps of (st, ps') \<Rightarrow> (st, b', ps'))"

definition publish_all_load :: "ExecutionDomainRecord list \<Rightarrow> publishing \<Rightarrow> Status \<times> publishing" where
  "publish_all_load discovered = until_failure
     (map (\<lambda>r. guarded (load_published (dr_load r))
                 (tolerating ''domain.load_stale_publication''
                    (calling (\<lambda>s. scheduler_publish_load s (dr_id r) (dr_load r))))) discovered)"

definition publisher_publish_load ::
    "('b \<Rightarrow> ExecutionDomainRecord list \<times> 'b) \<Rightarrow> 'b \<Rightarrow> publishing \<Rightarrow> Status \<times> 'b \<times> publishing" where
  "publisher_publish_load discover b ps =
     (case discover b of (discovered, b') \<Rightarrow>
        case publish_all_load discovered ps of (st, ps') \<Rightarrow> (st, b', ps'))"

definition forgetting :: "u64 \<Rightarrow> publishing \<Rightarrow> Status \<times> publishing" where
  "forgetting d ps =
     (success, (fst ps)\<lparr>pb_published := AList.delete d (pb_published (fst ps))\<rparr>, snd ps)"

definition removing :: "u64 list \<Rightarrow> u64 \<Rightarrow> publishing \<Rightarrow> Status \<times> publishing" where
  "removing live d =
     guarded (d \<notin> set live) (until_failure [calling (\<lambda>s. remove_domain s d), forgetting d])"

definition withdraw_all_missing :: "u64 list \<Rightarrow> publishing \<Rightarrow> Status \<times> publishing" where
  "withdraw_all_missing live ps =
     until_failure (map (\<lambda>entry. removing live (dr_id entry)) (all_domains (sc_domains (snd ps)))) ps"

definition withdraw_missing ::
    "('b \<Rightarrow> ExecutionDomainRecord list \<times> 'b) \<Rightarrow> 'b \<Rightarrow> publishing \<Rightarrow> Status \<times> 'b \<times> publishing" where
  "withdraw_missing discover b ps =
     (case discover b of (discovered, b') \<Rightarrow>
        case withdraw_all_missing (map dr_id discovered) ps of (st, ps') \<Rightarrow> (st, b', ps'))"

definition publisher_fence_boot :: "store_save \<Rightarrow> u64 \<Rightarrow> string \<Rightarrow> publishing \<Rightarrow> Status \<times> publishing" where
  "publisher_fence_boot save boot reason = calling (\<lambda>s. fence_worker_boot save s boot reason)"

definition last_discovered :: "('b \<Rightarrow> ExecutionDomainRecord list \<times> 'b) \<Rightarrow> 'b \<Rightarrow> ExecutionDomainRecord list \<times> 'b" where
  "last_discovered discover b = discover b"

section \<open>What a sequence of calls keeps\<close>

named_theorems kept

definition keeps :: "(Scheduler \<Rightarrow> bool) \<Rightarrow> (publishing \<Rightarrow> Status \<times> publishing) \<Rightarrow> bool" where
  "keeps P f \<longleftrightarrow> (\<forall>ps. P (snd ps) \<longrightarrow> P (snd (snd (f ps))))"

lemma keepsD: "keeps P f \<Longrightarrow> P (snd ps) \<Longrightarrow> P (snd (snd (f ps)))"
  unfolding keeps_def by blast

lemma keeps_until_failure [kept]:
  assumes "\<And>f. f \<in> set fs \<Longrightarrow> keeps P f"
  shows "keeps P (until_failure fs)"
proof -
  have "P (snd (snd (until_failure fs ps)))" if "P (snd ps)" for ps
    using that assms
  proof (induction fs arbitrary: ps)
    case (Cons f fs)
    have "P (snd (snd (f ps)))" using Cons.prems by (simp add: keepsD)
    with Cons show ?case by (simp add: until_failure.simps split_beta)
  qed simp
  then show ?thesis by (simp add: keeps_def)
qed

lemma keeps_calling [kept]: "(\<And>s. P s \<Longrightarrow> P (snd (f s))) \<Longrightarrow> keeps P (calling f)"
  by (simp add: keeps_def calling_def split_beta)

lemma keeps_guarded [kept]: "(c \<Longrightarrow> keeps P f) \<Longrightarrow> keeps P (guarded c f)"
  by (simp add: keeps_def guarded_def)

lemma keeps_tolerating [kept]: "keeps P f \<Longrightarrow> keeps P (tolerating code f)"
  by (simp add: keeps_def tolerating_def split_beta)

lemma keeps_noting [kept]: "keeps P (noting r)" "keeps P (forgetting d)"
  by (simp_all add: keeps_def noting_def forgetting_def)

lemma updating_state: "snd (updating r s) = snd (update_domain s r)"
  by (simp add: updating_def split_beta)

text \<open>The calls of the publisher, as a sequence of operations of the scheduler.\<close>

lemma publish_record_keeps:
  assumes "\<And>s. P s \<Longrightarrow> P (snd (register_domain s r))"
    and "\<And>s. P s \<Longrightarrow> P (snd (update_domain s r))"
    and "\<And>s. P s \<Longrightarrow> P (snd (scheduler_publish_capability s (attributed_capability r)))"
    and "\<And>s. P s \<Longrightarrow> P (snd (scheduler_publish_locality s (dr_id r) (dr_locality r)))"
    and "\<And>s. P s \<Longrightarrow> P (snd (scheduler_publish_topology s (dr_id r) (dr_topology r)))"
    and "\<And>s. P s \<Longrightarrow> P (snd (scheduler_publish_compatibility s (dr_id r) (dr_compatibility r)))"
    and "\<And>s. P s \<Longrightarrow> P (snd (scheduler_publish_capacity s (dr_id r) (dr_capacity r)))"
    and "\<And>s. load_published (dr_load r) \<Longrightarrow> P s \<Longrightarrow> P (snd (scheduler_publish_load s (dr_id r) (dr_load r)))"
    and "\<And>s reason. P s \<Longrightarrow> P (snd (withdraw_evidence s (dr_id r) reason))"
  shows "keeps P (publish_record r)"
proof -
  have "keeps P (publish_new r)"
    unfolding publish_new_def full_evidence_def first_load_def using assms by (auto intro!: kept)
  moreover have "keeps P (publish_changes p existing r)" for p existing
    unfolding publish_changes_def publish_advance_def changed_evidence_def refreshed_load_def
    using assms by (auto intro!: kept simp: updating_state)
  ultimately show ?thesis
    by (simp add: keeps_def publish_record_def split: option.split)
qed

lemma publish_all_keeps:
  assumes "\<And>r. r \<in> set discovered \<Longrightarrow> keeps P (publish_record r)"
  shows "keeps P (publish_all discovered)"
  unfolding publish_all_def using assms by (auto intro!: kept)

lemma withdraw_all_missing_keeps:
  assumes "\<And>s d. P s \<Longrightarrow> P (snd (remove_domain s d))"
  shows "keeps P (withdraw_all_missing live)"
proof -
  have "P (snd (snd (withdraw_all_missing live ps)))" if "P (snd ps)" for ps
    unfolding withdraw_all_missing_def removing_def
    by (rule keepsD [where P = P, OF _ that], rule keeps_until_failure) (use assms in \<open>auto intro!: kept\<close>)
  then show ?thesis by (simp add: keeps_def)
qed

section \<open>The publisher only calls the scheduler\<close>

lemma run_step: "scheduler_run channel save s t \<Longrightarrow> scheduler_step channel save t u \<Longrightarrow> scheduler_run channel save s u"
  by (rule rtranclp.rtrancl_into_rtrancl)

lemma publish_all_run: "keeps (scheduler_run channel save s) (publish_all discovered)"
  by (rule publish_all_keeps, rule publish_record_keeps) (erule run_step; rule scheduler_step.intros)+

lemma publish_all_load_run: "keeps (scheduler_run channel save s) (publish_all_load discovered)"
  unfolding publish_all_load_def
  by (auto intro!: kept intro: run_step [OF _ scheduler_step.do_load])

lemma withdraw_all_missing_run: "keeps (scheduler_run channel save s) (withdraw_all_missing live)"
  by (rule withdraw_all_missing_keeps) (erule run_step; rule scheduler_step.intros)

lemma publisher_fence_run: "keeps (scheduler_run channel save s) (publisher_fence_boot save boot reason)"
  unfolding publisher_fence_boot_def
  by (rule keeps_calling) (erule run_step; rule scheduler_step.intros)


section \<open>What a synchronisation changes\<close>

text \<open>
  An operation on one domain leaves the others alone and keeps the domain registered; a quiet one also
  brings back no evidence where there was none.
\<close>

definition local_change :: "u64 \<Rightarrow> bool \<Rightarrow> DomainRegistry \<Rightarrow> DomainRegistry \<Rightarrow> bool" where
  "local_change d quiet g g' \<longleftrightarrow>
     (\<forall>e. e \<noteq> d \<longrightarrow> find_domain g' e = find_domain g e)
     \<and> (\<forall>x. find_domain g d = Some x \<longrightarrow>
          (\<exists>y. find_domain g' d = Some y
             \<and> (quiet \<longrightarrow> \<not> load_published (dr_load x) \<longrightarrow> \<not> load_published (dr_load y))))"

lemma local_change_refl [simp]: "local_change d q g g"
  by (simp add: local_change_def)

lemma local_change_trans: "local_change d q g h \<Longrightarrow> local_change d q h k \<Longrightarrow> local_change d q g k"
  by (fastforce simp: local_change_def)

lemma local_change_put:
  assumes "\<And>x. find_domain g d = Some x \<Longrightarrow> q \<Longrightarrow> \<not> load_published (dr_load x) \<Longrightarrow> \<not> load_published (dr_load y)"
  shows "local_change d q g (put_domain g d y)"
  using assms by (auto simp: local_change_def)

lemma local_change_by_name [simp]: "local_change d q g (h\<lparr>rg_by_name := names\<rparr>) = local_change d q g h"
  by (simp add: local_change_def)

lemma local_change_update:
  assumes "\<And>x. find_domain g d = Some x \<Longrightarrow> q \<Longrightarrow> \<not> load_published (dr_load x) \<Longrightarrow> \<not> load_published (dr_load y)"
  shows "local_change d q g (g\<lparr>rg_domains := AList.update d y (rg_domains g)\<rparr>)"
  using assms by (auto simp: local_change_def find_domain_def)

lemma replaced_load: "dr_load (replaced_record r x) = dr_load r"
  by (simp add: replaced_record_def rebased_record_def merged_record_def canonical_record_def Let_def)

lemma upsert_local:
  assumes "q \<Longrightarrow> \<not> load_published (dr_load r)"
  shows "local_change (dr_id r) q g (snd (upsert g r allow))"
  using assms
  by (auto simp: upsert_def Let_def replaced_load intro!: local_change_put split: option.split)

lemma publish_local:
  "local_change (cap_domain c) q g (snd (publish_capability g c))"
  "local_change d q g (snd (publish_locality g d lo))"
  "local_change d q g (snd (publish_topology g d to'))"
  "local_change d q g (snd (publish_compatibility g d cm))"
  "local_change d q g (snd (publish_capacity g d cap))"
  "local_change d q g (snd (mark_domain_evidence_stale g d reason))"
  "local_change d False g (snd (publish_load g d load))"
  unfolding publish_capability_def publish_locality_def publish_topology_def publish_compatibility_def
    publish_capacity_def mark_domain_evidence_stale_def publish_load_def Let_def
  by (auto intro!: local_change_put local_change_update split: option.split)

lemma set_domain_capacity_domains [simp]: "sc_domains (snd (set_domain_capacity s d c)) = sc_domains s"
  by (simp add: set_domain_capacity_def split_beta)

lemma attributed_record_simps [simp]:
  "dr_id (attributed_record s r) = dr_id r" "dr_load (attributed_record s r) = dr_load r"
  by (simp_all add: attributed_record_def)

lemma upsert_bad: "upsert g r allow = (Bad st, g') \<Longrightarrow> \<not> st_ok st \<and> g' = g"
  by (auto simp: upsert_def Let_def bad_def failure_def split: if_splits option.splits)

lemma upsert_good: "upsert g r allow = (Good u, g') \<Longrightarrow> find_domain g' (dr_id r) \<noteq> None"
  by (auto simp: upsert_def Let_def bad_def split: if_splits option.splits)

lemma register_domain_local:
  assumes "q \<Longrightarrow> \<not> load_published (dr_load r)"
  shows "local_change (dr_id r) q (sc_domains s) (sc_domains (snd (register_domain s r)))"
    and "st_ok (fst (register_domain s r)) \<Longrightarrow>
      find_domain (sc_domains (snd (register_domain s r))) (dr_id r) \<noteq> None"
proof -
  let ?a = "attributed_record s r"
  define r' where "r' = (if dr_name ?a = [] then ?a\<lparr>dr_name := ''domain.'' @ to_string_u64 (dr_id ?a)\<rparr> else ?a)"
  have r': "dr_id r' = dr_id r" "dr_load r' = dr_load r" "dr_capacity ?a = dr_capacity r'"
    by (simp_all add: r'_def)
  obtain res g' where up: "upsert (sc_domains s) r' False = (res, g')" by fastforce
  have change: "local_change (dr_id r) q (sc_domains s) g'"
    using upsert_local [of q r' "sc_domains s" False] assms r' up by simp
  have eq: "register_domain s r =
      (if sc_stopping s then (failure ''scheduler.shutting_down'' [], s)
       else case res of Bad st \<Rightarrow> (st, s\<lparr>sc_domains := g'\<rparr>)
            | Good _ \<Rightarrow>
                if \<not> same_capacity (dr_capacity r') no_amounts
                then set_domain_capacity (s\<lparr>sc_domains := g'\<rparr>) (dr_id r') (dr_capacity r')
                else (success, s\<lparr>sc_domains := g'\<rparr>))"
    using up by (simp add: register_domain_def Let_def r' flip: r'_def split: Checked.split)
  show "local_change (dr_id r) q (sc_domains s) (sc_domains (snd (register_domain s r)))"
    using change by (simp add: eq split: Checked.split)
  show "find_domain (sc_domains (snd (register_domain s r))) (dr_id r) \<noteq> None"
    if "st_ok (fst (register_domain s r))"
    using that upsert_bad [of "sc_domains s" r' False] upsert_good [of "sc_domains s" r' False] up r'
    by (auto simp: eq failure_def split: if_splits Checked.splits)
qed

lemma update_domain_local:
  assumes "q \<Longrightarrow> \<not> load_published (dr_load r)"
  shows "local_change (dr_id r) q (sc_domains s) (sc_domains (snd (update_domain s r)))"
proof -
  have "local_change (dr_id r) q (sc_domains s) (snd (upsert (sc_domains s) (attributed_record s r) False))"
    using upsert_local [of q "attributed_record s r" "sc_domains s" False] assms by simp
  then show ?thesis
    by (auto simp: update_domain_def Let_def split_beta split: prod.split Checked.split)
qed

lemma scheduler_publish_local:
  "local_change (cap_domain c) q (sc_domains s) (sc_domains (snd (scheduler_publish_capability s c)))"
  "local_change d q (sc_domains s) (sc_domains (snd (scheduler_publish_locality s d lo)))"
  "local_change d q (sc_domains s) (sc_domains (snd (scheduler_publish_topology s d to')))"
  "local_change d q (sc_domains s) (sc_domains (snd (scheduler_publish_compatibility s d cm)))"
  "local_change d q (sc_domains s) (sc_domains (snd (scheduler_publish_capacity s d cap)))"
  "local_change d q (sc_domains s) (sc_domains (snd (withdraw_evidence s d reason)))"
  "local_change d False (sc_domains s) (sc_domains (snd (scheduler_publish_load s d load)))"
  unfolding scheduler_publish_capability_def scheduler_publish_locality_def scheduler_publish_topology_def
    scheduler_publish_compatibility_def scheduler_publish_capacity_def withdraw_evidence_def
    scheduler_publish_load_def on_domains_def split_beta
  by (simp_all add: publish_local split_beta)

lemma attributed_capability_domain [simp]:
  "cap_domain (attributed_capability r) = cap_domain (dr_capability r)"
  by (simp add: attributed_capability_def)

text \<open>The calls for one record, from any state on.\<close>

lemma publish_record_local:
  assumes "cap_domain (dr_capability r) = dr_id r"
  shows "keeps (\<lambda>s. local_change (dr_id r) (\<not> load_published (dr_load r)) g (sc_domains s)) (publish_record r)"
  using scheduler_publish_local(1) [of "attributed_capability r"] assms
  by (intro publish_record_keeps; elim local_change_trans)
     (auto intro: register_domain_local update_domain_local scheduler_publish_local)

section \<open>What a successful sequence establishes\<close>

definition leads :: "(Scheduler \<Rightarrow> bool) \<Rightarrow> (publishing \<Rightarrow> Status \<times> publishing) \<Rightarrow> (Scheduler \<Rightarrow> bool) \<Rightarrow> bool" where
  "leads P f Q \<longleftrightarrow> (\<forall>ps. P (snd ps) \<longrightarrow> st_ok (fst (f ps)) \<longrightarrow> Q (snd (snd (f ps))))"

lemma leadsD: "leads P f Q \<Longrightarrow> P (snd ps) \<Longrightarrow> st_ok (fst (f ps)) \<Longrightarrow> Q (snd (snd (f ps)))"
  unfolding leads_def by blast

lemma leads_keeps: "keeps P f \<Longrightarrow> leads P f P"
  by (simp add: leads_def keeps_def)

lemma leads_Nil: "leads P (until_failure []) P"
  by (simp add: leads_def)

lemma leads_Cons:
  assumes "leads P f Q" and "leads Q (until_failure fs) R"
  shows "leads P (until_failure (f # fs)) R"
proof -
  have "R (snd (snd (until_failure (f # fs) ps)))"
    if "P (snd ps)" "st_ok (fst (until_failure (f # fs) ps))" for ps
    using that leadsD [OF assms(1), of ps] leadsD [OF assms(2), of "snd (f ps)"]
    by (simp add: until_failure.simps split_beta split: if_splits)
  then show ?thesis by (simp add: leads_def)
qed

lemma leads_kept:
  assumes "\<And>f. f \<in> set fs \<Longrightarrow> keeps P f" and "leads P (until_failure gs) R"
  shows "leads P (until_failure (fs @ gs)) R"
  using assms(1)
proof (induction fs)
  case (Cons f fs)
  then show ?case by (simp add: leads_Cons [OF leads_keeps])
qed (simp add: assms(2))

lemma leads_noted: "leads P f Q \<Longrightarrow> leads P (until_failure [f, noting r]) Q"
  by (rule leads_Cons, assumption, rule leads_Cons, rule leads_keeps, rule keeps_noting, rule leads_Nil)

lemma leads_calling: "(\<And>s. P s \<Longrightarrow> st_ok (fst (f s)) \<Longrightarrow> Q (snd (f s))) \<Longrightarrow> leads P (calling f) Q"
  by (simp add: leads_def calling_def split_beta)

definition registered :: "u64 \<Rightarrow> Scheduler \<Rightarrow> bool" where
  "registered d s \<longleftrightarrow> find_domain (sc_domains s) d \<noteq> None"

text \<open>The domain is registered, without current evidence where the record carries none.\<close>

definition in_step :: "ExecutionDomainRecord \<Rightarrow> Scheduler \<Rightarrow> bool" where
  "in_step r s \<longleftrightarrow> (\<exists>x. find_domain (sc_domains s) (dr_id r) = Some x
     \<and> (load_published (dr_load r) \<or> \<not> load_published (dr_load x)))"

lemma registered_change:
  "local_change d q (sc_domains s) (sc_domains t) \<Longrightarrow> registered d s \<Longrightarrow> registered d t"
  by (auto simp: local_change_def registered_def)

lemma in_step_change:
  "local_change (dr_id r) (\<not> load_published (dr_load r)) (sc_domains s) (sc_domains t) \<Longrightarrow>
     in_step r s \<Longrightarrow> in_step r t"
  by (auto simp: local_change_def in_step_def)

lemma in_step_other:
  "local_change d q (sc_domains s) (sc_domains t) \<Longrightarrow> dr_id r \<noteq> d \<Longrightarrow> in_step r t = in_step r s"
  by (simp add: local_change_def in_step_def)

lemma withdraw_in_step:
  assumes "registered (dr_id r) s"
  shows "in_step r (snd (withdraw_evidence s (dr_id r) reason))"
  using assms
  by (auto simp: withdraw_evidence_def on_domains_def mark_domain_evidence_stale_def in_step_def registered_def
      Let_def split: option.split)

lemma publish_load_in_step:
  assumes "registered (dr_id r) s" and "load_published (dr_load r)"
  shows "in_step r (snd (scheduler_publish_load s (dr_id r) load))"
  using registered_change [OF scheduler_publish_local(7) assms(1)] assms(2)
  by (auto simp: in_step_def registered_def)

lemma register_registered:
  "leads P (calling (\<lambda>s. register_domain s r)) (registered (dr_id r))"
  using register_domain_local(2) [of False r] by (intro leads_calling) (simp add: registered_def)

text \<open>The calls around the load keep what depends on the domain alone.\<close>

lemma evidence_calls_keep:
  assumes cap: "cap_domain (dr_capability r) = dr_id r"
    and change: "\<And>s t. local_change (dr_id r) (\<not> load_published (dr_load r)) (sc_domains s) (sc_domains t) \<Longrightarrow>
      P s \<Longrightarrow> P t"
  shows "f \<in> set (full_evidence r) \<Longrightarrow> keeps P f"
    and "f \<in> set (publish_advance p existing r # changed_evidence existing r) \<Longrightarrow> keeps P f"
proof -
  have capability: "local_change (dr_id r) q (sc_domains s)
      (sc_domains (snd (scheduler_publish_capability s (attributed_capability r))))" for q s
    using scheduler_publish_local(1) [of "attributed_capability r" q s] cap by simp
  have "local_change (dr_id r) (\<not> load_published (dr_load r)) (sc_domains s)
      (sc_domains (snd (updating r s)))" for s
    by (simp add: updating_state update_domain_local)
  note calls = capability scheduler_publish_local(2-5) this
  show "keeps P f" if "f \<in> set (full_evidence r)"
    using that by (auto simp: full_evidence_def intro!: kept intro: change [OF calls(1)]
        change [OF calls(2)] change [OF calls(3)] change [OF calls(4)] change [OF calls(5)])
  show "keeps P f" if "f \<in> set (publish_advance p existing r # changed_evidence existing r)"
    using that by (auto simp: publish_advance_def changed_evidence_def intro!: kept
        intro: change [OF calls(1)] change [OF calls(2)] change [OF calls(3)] change [OF calls(4)]
          change [OF calls(5)] change [OF calls(6)])
qed

lemma publish_new_in_step:
  assumes "cap_domain (dr_capability r) = dr_id r"
  shows "leads P (publish_new r) (in_step r)"
proof -
  have "leads (registered (dr_id r)) (first_load r) (in_step r)"
    unfolding first_load_def by (auto intro!: leads_calling simp: publish_load_in_step withdraw_in_step)
  from leads_kept [OF evidence_calls_keep(1) [OF assms registered_change] leads_noted [OF this]]
  show ?thesis
    unfolding publish_new_def by (simp add: leads_Cons [OF register_registered])
qed

lemma publish_changes_in_step:
  assumes cap: "cap_domain (dr_capability r) = dr_id r"
  shows "leads (\<lambda>s. find_domain (sc_domains s) (dr_id r) = Some existing) (publish_changes p existing r) (in_step r)"
proof -
  let ?P = "\<lambda>s. if load_published (dr_load r) \<or> load_published (dr_load existing)
                then registered (dr_id r) s else in_step r s"
  have keep: "f \<in> set (publish_advance p existing r # changed_evidence existing r) \<Longrightarrow> keeps ?P f" for f
    by (rule evidence_calls_keep(2) [OF cap]) (auto intro: registered_change in_step_change split: if_splits)
  have "leads ?P (refreshed_load existing r) (in_step r)"
    by (auto simp: refreshed_load_def leads_def tolerating_def guarded_def calling_def split_beta
        publish_load_in_step withdraw_in_step)
  from leads_kept [where fs = "publish_advance p existing r # changed_evidence existing r", OF keep
      leads_noted [OF this, of r]]
  have "leads ?P (publish_changes p existing r) (in_step r)"
    unfolding publish_changes_def by (simp only: append.simps append_Nil)
  then show ?thesis by (auto simp: leads_def registered_def in_step_def)
qed

lemma publish_record_in_step:
  assumes "cap_domain (dr_capability r) = dr_id r" and "st_ok (fst (publish_record r ps))"
  shows "in_step r (snd (snd (publish_record r ps)))"
proof (cases "find_domain (sc_domains (snd ps)) (dr_id r)")
  case None
  then show ?thesis
    using leadsD [OF publish_new_in_step [OF assms(1), of "\<lambda>_. True"], of ps] assms(2)
    by (simp add: publish_record_def)
next
  case (Some existing)
  then show ?thesis
    using leadsD [OF publish_changes_in_step [OF assms(1)], of ps existing] assms(2)
    by (simp add: publish_record_def)
qed

text \<open>Later records of other domains do not disturb an earlier one.\<close>

lemma publish_record_other:
  assumes "cap_domain (dr_capability r) = dr_id r" and "dr_id x \<noteq> dr_id r"
  shows "in_step x (snd (snd (publish_record r ps))) = in_step x (snd ps)"
  using keepsD [OF publish_record_local [OF assms(1), of "sc_domains (snd ps)"], of ps] assms(2)
  by (simp add: in_step_other)

lemma publish_all_in_step:
  assumes "\<And>r. r \<in> set discovered \<Longrightarrow> cap_domain (dr_capability r) = dr_id r"
    and "distinct (map dr_id discovered)" and "st_ok (fst (publish_all discovered ps))"
    and "r \<in> set discovered"
  shows "in_step r (snd (snd (publish_all discovered ps)))"
  using assms
proof (induction discovered arbitrary: ps)
  case (Cons x xs)
  have ok: "st_ok (fst (publish_record x ps))" and
    run: "publish_all (x # xs) ps = publish_all xs (snd (publish_record x ps))"
    using Cons.prems(3) by (simp_all add: publish_all_def until_failure.simps split_beta split: if_splits)
  show ?case
  proof (cases "r = x")
    case True
    have "in_step x (snd (snd (publish_record x ps)))"
      using Cons.prems(1) ok by (simp add: publish_record_in_step)
    moreover have "keeps (in_step x) (publish_all xs)"
      by (rule publish_all_keeps) (use Cons.prems(1,2) in \<open>fastforce simp: keeps_def publish_record_other image_iff\<close>)
    ultimately show ?thesis unfolding run True by (rule keepsD [rotated])
  next
    case False
    then show ?thesis using Cons ok by (simp add: run)
  qed
qed simp

text \<open>A backend that keeps its contract is in step after a synchronisation that succeeded.\<close>

context execution_backend
begin

lemma sync_in_step:
  assumes "backend_inv b" and "sync discover b ps = (st, b', ps')" and "st_ok st"
    and "r \<in> set (fst (discover b))"
  shows "in_step r (snd ps')" and "backend_inv b'"
  using assms publish_all_in_step [of "fst (discover b)" ps r] capability_domain [of b] distinct_ids [of b]
    inv_discover [of b]
  by (auto simp: sync_def split: prod.splits)

end

section \<open>Removal of missing domains\<close>

lemma remove_domain_find:
  assumes "find_domain (sc_domains s) d \<noteq> None"
  shows "st_ok (fst (remove_domain s d))"
    and "find_domain (sc_domains (snd (remove_domain s d))) = (find_domain (sc_domains s))(d := None)"
  using assms
  by (auto simp: remove_domain_def on_domains_def remove_def find_domain_def success_def fun_eq_iff
      split: option.split)

lemma until_failure_ok: "st_ok (fst (f s)) \<Longrightarrow> until_failure (f # fs) s = until_failure fs (snd (f s))"
  by (simp add: until_failure.simps split_beta)

lemma removing_find:
  assumes "find_domain (sc_domains (snd ps)) d \<noteq> None"
  shows "st_ok (fst (removing live d ps))"
    and "find_domain (sc_domains (snd (snd (removing live d ps)))) =
      (if d \<in> set live then find_domain (sc_domains (snd ps)) else (find_domain (sc_domains (snd ps)))(d := None))"
  using remove_domain_find [OF assms]
  by (simp_all add: removing_def guarded_def until_failure.simps calling_def forgetting_def split_beta success_def)

lemma remove_all_missing:
  assumes "distinct ids" and "\<And>d. d \<in> set ids \<Longrightarrow> find_domain (sc_domains (snd ps)) d \<noteq> None"
  shows "st_ok (fst (until_failure (map (removing live) ids) ps))
    \<and> (\<forall>d. find_domain (sc_domains (snd (snd (until_failure (map (removing live) ids) ps)))) d =
         (if d \<in> set ids \<and> d \<notin> set live then None else find_domain (sc_domains (snd ps)) d))"
  using assms
proof (induction ids arbitrary: ps)
  case (Cons x xs)
  have x: "find_domain (sc_domains (snd ps)) x \<noteq> None" using Cons.prems by simp
  let ?ps = "snd (removing live x ps)"
  have "find_domain (sc_domains (snd ?ps)) d \<noteq> None" if "d \<in> set xs" for d
    using that Cons.prems by (auto simp: removing_find [OF x])
  then show ?case
    using Cons.IH [of ?ps] Cons.prems(1)
    by (auto simp: until_failure_ok removing_find [OF x])
qed (simp add: success_def)

lemma withdraw_all_missing_exact:
  assumes "registry_inv (sc_domains (snd ps))"
  shows "st_ok (fst (withdraw_all_missing live ps))
    \<and> (\<forall>d. find_domain (sc_domains (snd (snd (withdraw_all_missing live ps)))) d =
         (if d \<in> set live then find_domain (sc_domains (snd ps)) d else None))"
proof -
  let ?g = "sc_domains (snd ps)"
  have "dr_id (snd e) = fst e" if "e \<in> set (rg_domains ?g)" for e
    using assms that by (cases e) (simp add: registry_inv_def find_domain_def)
  then have keys: "map dr_id (map snd (rg_domains ?g)) = map fst (rg_domains ?g)"
    by simp
  have "distinct (map dr_id (all_domains ?g))"
  proof -
    have "mset (map dr_id (all_domains ?g)) = mset (map dr_id (map snd (rg_domains ?g)))"
      by (simp only: all_domains_def mset_map mset_sort)
    then show ?thesis
      using assms unfolding keys by (metis mset_eq_imp_distinct_iff registry_inv_def)
  qed
  moreover have ids: "d \<in> set (map dr_id (all_domains ?g)) \<longleftrightarrow> find_domain ?g d \<noteq> None" for d
  proof -
    have "set (map dr_id (all_domains ?g)) = set (map fst (rg_domains ?g))"
      unfolding keys [symmetric] by (simp add: all_domains_def image_image)
    then show ?thesis by (simp add: find_domain_def map_of_eq_None_iff)
  qed
  ultimately have "st_ok (fst (until_failure (map (removing live) (map dr_id (all_domains ?g))) ps))
    \<and> (\<forall>d. find_domain (sc_domains (snd (snd
          (until_failure (map (removing live) (map dr_id (all_domains ?g))) ps)))) d =
         (if d \<in> set (map dr_id (all_domains ?g)) \<and> d \<notin> set live then None else find_domain ?g d))"
    by (intro remove_all_missing) blast+
  then show ?thesis
    using ids by (simp add: withdraw_all_missing_def comp_def)
qed

section \<open>Properties\<close>


text \<open>The same law on the host processor.\<close>

lemma cpu_sync_in_step:
  assumes "cpu_inv b" and "sync cpu_discover b ps = (st, b', ps')" and "st_ok st"
    and "r \<in> set (fst (cpu_discover b))"
  shows "find_domain (sc_domains (snd ps')) (dr_id r) \<noteq> None"
  using cpu.sync_in_step(1) [OF assms] by (auto simp: in_step_def)

text \<open>
  Removing what a backend no longer reports always succeeds on a well-formed registry and leaves
  exactly the registered domains that the backend reports: every other domain of the scheduler is
  removed, also one that another backend published and this publisher never knew.\<close>

theorem withdraw_missing_keeps_only_reported:
  assumes "registry_inv (sc_domains (snd ps))" and "withdraw_missing discover b ps = (st, b', ps')"
  shows "st_ok st
    \<and> (\<forall>d. find_domain (sc_domains (snd ps')) d =
         (if d \<in> dr_id ` set (fst (discover b)) then find_domain (sc_domains (snd ps)) d else None))"
  using assms(2) withdraw_all_missing_exact [OF assms(1), of "map dr_id (fst (discover b))"]
  by (auto simp: withdraw_missing_def split: prod.splits)

text \<open>
  A change of a capability in any field but the operations, the flags and the two bounds that are
  compared is not published: while the domain generation stands still the scheduler keeps the old
  capability record, its claim to be authoritative included, although the method is said to publish
  everything that changed.\<close>

theorem uncompared_capability_change_is_not_published:
  assumes "find_domain (sc_domains s) (dr_id r) = Some existing" and "\<not> capability_differs r existing"
    and "dr_generation r \<le> dr_generation existing"
    and "map_of (pb_published p) (dr_id r) \<in> {None, Some (dr_generation r)}"
  shows "map_option dr_capability (find_domain (sc_domains (snd (snd (publish_record r (p, s))))) (dr_id r)) =
           Some (dr_capability existing)"
proof -
  let ?P = "\<lambda>s. map_option dr_capability (find_domain (sc_domains s) (dr_id r)) = Some (dr_capability existing)"
  have "?P (snd (scheduler_publish_locality s (dr_id r) lo))" "?P (snd (scheduler_publish_topology s (dr_id r) to'))"
    "?P (snd (scheduler_publish_compatibility s (dr_id r) cm))" "?P (snd (scheduler_publish_capacity s (dr_id r) cap))"
    "?P (snd (scheduler_publish_load s (dr_id r) load))" "?P (snd (withdraw_evidence s (dr_id r) reason))"
    if "?P s" for s lo to' cm cap load reason
    using that
    by (auto simp: scheduler_publish_locality_def scheduler_publish_topology_def publish_load_def
        scheduler_publish_compatibility_def scheduler_publish_capacity_def scheduler_publish_load_def
        withdraw_evidence_def on_domains_def publish_locality_def publish_topology_def
        publish_compatibility_def publish_capacity_def mark_domain_evidence_stale_def Let_def
        split_beta split: option.split)
  moreover have "\<not> generation_advanced p r existing"
    using assms(3,4) by (auto simp: generation_advanced_def)
  ultimately have "keeps ?P (publish_changes p existing r)"
    unfolding publish_changes_def publish_advance_def changed_evidence_def refreshed_load_def
    using assms(2) by (auto intro!: kept)
  from keepsD [OF this, of "(p, s)"] assms(1) show ?thesis by (simp add: publish_record_def)
qed

text \<open>A domain whose backend published load once and then withdrew it.\<close>

definition quiet_backend :: SyntheticBackend where
  "quiet_backend = snd (withdraw_dynamic_evidence demo_synthetic 7)"

definition quiet_config :: SyntheticDomainConfig where
  "quiet_config =
     (ensure_generations (make_synthetic_domain ''host'' 7 ExecutionDomainType.kDpu [] True))
       \<lparr>sd_dynamic_evidence_published := False, sd_healthy := False, sd_ready := False,
        sd_accepting := False\<rparr>"

definition stale_scheduler :: Scheduler where
  "stale_scheduler = (new_scheduler default_options)\<lparr>sc_domains := put_domain new_registry 7
     ((record_of quiet_config)\<lparr>dr_load := no_load\<lparr>ld_load_generation := 1, ld_queue_generation := 1,
                                              ld_health_generation := 1\<rparr>\<rparr>)\<rparr>"

lemma quiet_discovered: "synthetic_discover quiet_backend = ([record_of quiet_config], quiet_backend)"
proof -
  have "sb_domains demo_synthetic =
      [(7, ensure_generations (make_synthetic_domain ''host'' 7 ExecutionDomainType.kDpu [] True))]"
    by (simp add: demo_synthetic_def add_domain_def new_synthetic_backend_def kMaxExecutionDomains_def
        Let_def ensure_generations_def make_synthetic_domain_def)
  then show ?thesis
    by (simp add: quiet_backend_def withdraw_dynamic_evidence_def configure_def demo_synthetic_find
        synthetic_discover_def synthetic_configs_def quiet_config_def)
qed

lemma quiet_record: "sd_id quiet_config = 7" "dr_load (record_of quiet_config) = no_load"
  by (simp_all add: record_of_def quiet_config_def ensure_generations_def make_synthetic_domain_def Let_def)

lemma stale_find:
  "find_domain (sc_domains stale_scheduler) 7 =
     Some ((record_of quiet_config)\<lparr>dr_load := no_load\<lparr>ld_load_generation := 1, ld_queue_generation := 1,
                                                  ld_health_generation := 1\<rparr>\<rparr>)"
  by (simp add: stale_scheduler_def)

lemma quiet_sync: "st_ok (fst (sync synthetic_discover quiet_backend (p, stale_scheduler)))"
proof -
  have "load_published (no_load\<lparr>ld_load_generation := 1, ld_queue_generation := 1, ld_health_generation := 1\<rparr>)"
    by (simp add: load_published_def valid_def no_load_def)
  then show ?thesis
    using stale_find
    by (simp add: sync_def quiet_discovered publish_all_def publish_record_def publish_changes_def
        publish_advance_def changed_evidence_def refreshed_load_def quiet_record until_failure.simps
        guarded_def capability_differs_def same_capacity_def list.pred_True generation_advanced_def
        Let_def calling_def noting_def withdraw_evidence_def on_domains_def
        mark_domain_evidence_stale_def split_beta success_def)
qed


theorem withdraw_missing_keeps_only_reported_witness:
  "find_domain (sc_domains (snd (snd (snd (withdraw_missing synthetic_discover
      (new_synthetic_backend []) (\<lparr>pb_published = []\<rparr>, stale_scheduler)))))) 7 = None
   \<and> find_domain (sc_domains stale_scheduler) 7 \<noteq> None"
proof -
  have "registry_inv (sc_domains stale_scheduler)"
    unfolding stale_scheduler_def by (simp add: registry_inv_put [OF registry_inv_new] quiet_record)
  moreover obtain st b' ps' where "withdraw_missing synthetic_discover (new_synthetic_backend [])
      (\<lparr>pb_published = []\<rparr>, stale_scheduler) = (st, b', ps')"
    by (metis prod_cases3)
  ultimately show ?thesis
    using withdraw_missing_keeps_only_reported [of "(\<lparr>pb_published = []\<rparr>, stale_scheduler)"
        synthetic_discover "new_synthetic_backend []" st b' ps'] stale_find
    by (simp add: synthetic_discover_def synthetic_configs_def new_synthetic_backend_def)
qed

end
