(* ===== verification/Tos_Device.thy ===== *)
theory Tos_Device
  imports Tos_Bytes
begin

text \<open>
  The device path of the accelerator backend, \<^verbatim>\<open>src/src/backends/cuda_kernels.cu\<close>: a CRC-32C computed in
  parallel slices and folded over GF(2), with the chunking, the shift operators and the two kernels.
  Barriers separate the phases of a block, and within a phase no thread writes what another reads, so a
  phase is one step on the shared accumulators. What the CUDA runtime answers to each call is an
  argument.
\<close>

section \<open>GF(2) matrices\<close>

definition kCrc32cPolynomial :: u32 where "kCrc32cPolynomial = 0x82F63B78"
definition kCrc32cSeed :: u32 where "kCrc32cSeed = 0xFFFFFFFF"
definition kThreadsPerChunk :: nat where "kThreadsPerChunk = 256"
definition kMaxChunks :: nat where "kMaxChunks = 128"
definition kMaxOperatorBits :: nat where "kMaxOperatorBits = 41"
definition kMaxDeviceBytes :: nat where "kMaxDeviceBytes = 2 ^ 40"

lemma drop_bit_less: "(v :: u32) \<noteq> 0 \<Longrightarrow> unat (drop_bit 1 v) < unat v"
proof -
  assume "v \<noteq> 0"
  then have "0 < unat v" by (simp add: unat_gt_0)
  moreover have "unat (drop_bit 1 v) = unat v div 2"
    by (simp add: drop_bit_eq_div unat_div)
  ultimately show ?thesis by simp
qed

function matrix_loop :: "u32 list \<Rightarrow> nat \<Rightarrow> u32 \<Rightarrow> u32 \<Rightarrow> u32" where
  "matrix_loop matrix row vector acc =
     (if vector = 0 then acc
      else matrix_loop matrix (Suc row) (drop_bit 1 vector)
             (if vector AND 1 \<noteq> 0 then acc XOR matrix ! row else acc))"
  by auto

termination
  by (relation "measure (\<lambda>(matrix, row, vector, acc). unat vector)") (simp_all add: drop_bit_less [simplified])

declare matrix_loop.simps [simp del]

definition gf2_matrix_times :: "u32 list \<Rightarrow> u32 \<Rightarrow> u32" where
  "gf2_matrix_times matrix vector = matrix_loop matrix 0 vector 0"

definition host_matrix_times :: "u32 list \<Rightarrow> u32 \<Rightarrow> u32" where
  "host_matrix_times matrix vector = matrix_loop matrix 0 vector 0"

definition host_matrix_square :: "u32 list \<Rightarrow> u32 list" where
  "host_matrix_square matrix = map (\<lambda>row. host_matrix_times matrix (matrix ! row)) [0..<32]"

section \<open>Hashing of a range\<close>

definition crc32c_shift :: "u32 \<Rightarrow> u32" where
  "crc32c_shift crc = drop_bit 1 crc XOR (kCrc32cPolynomial AND (0 - (crc AND 1)))"

definition crc32c_bitwise :: "u32 \<Rightarrow> u8 \<Rightarrow> u32" where
  "crc32c_bitwise crc byte = (crc32c_shift ^^ 8) (crc XOR ucast byte)"

definition crc32c_range :: "u8 list \<Rightarrow> u32" where
  "crc32c_range bytes = foldl crc32c_bitwise kCrc32cSeed bytes"

text \<open>The bytes from an offset on.\<close>

definition bytes_at :: "u8 list \<Rightarrow> nat \<Rightarrow> nat \<Rightarrow> u8 list" where
  "bytes_at data offset n = take n (drop offset data)"

section \<open>Shift operators\<close>

definition one_bit :: "u32 list" where
  "one_bit = kCrc32cPolynomial # map (\<lambda>i. push_bit i 1) [0..<31]"

primrec shift_operator :: "nat \<Rightarrow> u32 list" where
  "shift_operator 0 = host_matrix_square (host_matrix_square (host_matrix_square one_bit))"
| "shift_operator (Suc t) = host_matrix_square (shift_operator t)"

definition build_shift_operators :: "u32 list list" where
  "build_shift_operators = map shift_operator [0..<kMaxOperatorBits]"

definition align4 :: "nat \<Rightarrow> nat" where
  "align4 value = 4 * ((value + 3) div 4)"

function exponent_loop :: "nat \<Rightarrow> nat \<Rightarrow> nat \<Rightarrow> nat" where
  "exponent_loop value p2 exponent =
     (if 0 < p2 \<and> p2 < value then exponent_loop value (2 * p2) (Suc exponent) else exponent)"
  by auto

termination
  by (relation "measure (\<lambda>(value, p2, exponent). value - p2)") auto

declare exponent_loop.simps [simp del]

definition shift_exponent :: "nat \<Rightarrow> nat" where
  "shift_exponent value = exponent_loop value 1 0"

section \<open>Kernels\<close>

text \<open>One level of the tree: the threads whose index is a multiple of twice the stride fold.\<close>

definition fold_level :: "u32 list \<Rightarrow> nat \<Rightarrow> u32 list \<Rightarrow> u32 list" where
  "fold_level matrix stride accumulators =
     map (\<lambda>thread. if thread mod (2 * stride) = 0
                  then gf2_matrix_times matrix (accumulators ! thread) XOR accumulators ! (thread + stride)
                  else accumulators ! thread) [0..<kThreadsPerChunk]"

function fold_tree :: "u32 list list \<Rightarrow> nat \<Rightarrow> nat \<Rightarrow> nat \<Rightarrow> u32 list \<Rightarrow> u32 list" where
  "fold_tree operators sub_shift level stride accumulators =
     (if 0 < stride \<and> stride < kThreadsPerChunk
      then fold_tree operators sub_shift (Suc level) (2 * stride)
             (fold_level (operators ! (sub_shift + level)) stride accumulators)
      else accumulators)"
  by auto

termination
  by (relation "measure (\<lambda>(operators, sub_shift, level, stride, acc). kThreadsPerChunk - stride)") auto

declare fold_tree.simps [simp del]

text \<open>What one block writes to its slot of the table of digests.\<close>

definition crc32c_chunk_kernel ::
    "u32 list list \<Rightarrow> u8 list \<Rightarrow> nat \<Rightarrow> nat \<Rightarrow> nat \<Rightarrow> nat \<Rightarrow> nat \<Rightarrow> nat \<Rightarrow> u32" where
  "crc32c_chunk_kernel operators data chunk_bytes sub_bytes sub_shift chunk_count tail_bytes index =
     (if index < chunk_count
      then
        let base = index * chunk_bytes in
        if sub_bytes = 0 then NOT (crc32c_range (bytes_at data base chunk_bytes))
        else
          let accumulators = map (\<lambda>thread. NOT (crc32c_range (bytes_at data (base + thread * sub_bytes) sub_bytes)))
                               [0..<kThreadsPerChunk]
          in fold_tree operators sub_shift 0 1 accumulators ! 0
      else NOT (crc32c_range (bytes_at data (chunk_count * chunk_bytes) tail_bytes)))"

function tail_loop :: "u32 list list \<Rightarrow> nat \<Rightarrow> nat \<Rightarrow> u32 \<Rightarrow> u32" where
  "tail_loop operators k remaining acc =
     (if remaining = 0 then acc
      else tail_loop operators (Suc k) (remaining div 2)
             (if odd remaining then gf2_matrix_times (operators ! k) acc else acc))"
  by auto

termination
  by (relation "measure (\<lambda>(operators, k, remaining, acc). remaining)") auto

declare tail_loop.simps [simp del]

definition crc32c_fold_kernel :: "u32 list list \<Rightarrow> u32 list \<Rightarrow> nat \<Rightarrow> nat \<Rightarrow> nat \<Rightarrow> u32" where
  "crc32c_fold_kernel operators chunk_crcs chunk_count chunk_shift tail_bytes =
     (if chunk_count = 0 then 0
      else if chunk_count = 1 \<and> tail_bytes = 0 then chunk_crcs ! 0
      else
        let acc = foldl (\<lambda>acc index. gf2_matrix_times (operators ! chunk_shift) acc XOR chunk_crcs ! index)
                    (chunk_crcs ! 0) [1..<chunk_count]
        in if tail_bytes \<noteq> 0 then tail_loop operators 0 tail_bytes acc XOR chunk_crcs ! chunk_count else acc)"

section \<open>Chunking\<close>

function chunk_loop :: "nat \<Rightarrow> nat \<Rightarrow> nat" where
  "chunk_loop chunk_bytes len =
     (if 0 < chunk_bytes \<and> chunk_bytes * kMaxChunks < len then chunk_loop (2 * chunk_bytes) len else chunk_bytes)"
  by auto

termination
  by (relation "measure (\<lambda>(chunk_bytes, len). len - chunk_bytes)") (auto simp: kMaxChunks_def)

declare chunk_loop.simps [simp del]

record Chunking =
  ck_chunk_bytes :: nat
  ck_chunk_count :: nat
  ck_tail_bytes :: nat
  ck_sub_bytes :: nat
  ck_sub_shift :: nat
  ck_chunk_shift :: nat

definition chunking_of :: "nat \<Rightarrow> Chunking" where
  "chunking_of len =
     (let chunk_bytes = (if len = 0 then 0 else chunk_loop kThreadsPerChunk len);
          chunk_count = (if chunk_bytes = 0 then 1 else len div chunk_bytes);
          tail_bytes = (if chunk_bytes = 0 then 0 else len mod chunk_bytes);
          sub_bytes = chunk_bytes div kThreadsPerChunk
      in if chunk_count = 0
         then \<lparr>ck_chunk_bytes = len, ck_chunk_count = 1, ck_tail_bytes = 0, ck_sub_bytes = 0,
               ck_sub_shift = 0, ck_chunk_shift = 0\<rparr>
         else if chunk_bytes \<noteq> 0
         then \<lparr>ck_chunk_bytes = chunk_bytes, ck_chunk_count = chunk_count, ck_tail_bytes = tail_bytes,
               ck_sub_bytes = sub_bytes, ck_sub_shift = shift_exponent sub_bytes,
               ck_chunk_shift = shift_exponent chunk_bytes\<rparr>
         else \<lparr>ck_chunk_bytes = chunk_bytes, ck_chunk_count = chunk_count, ck_tail_bytes = tail_bytes,
               ck_sub_bytes = 0, ck_sub_shift = 0, ck_chunk_shift = 0\<rparr>)"

text \<open>The two launches of an execution, over the operators uploaded to constant memory.\<close>

definition launch_kernels :: "u32 list list \<Rightarrow> u8 list \<Rightarrow> u32" where
  "launch_kernels operators data =
     (let ck = chunking_of (length data);
          chunk_slots = ck_chunk_count ck + (if ck_tail_bytes ck = 0 then 0 else 1);
          chunk_crcs = map (crc32c_chunk_kernel operators data (ck_chunk_bytes ck) (ck_sub_bytes ck)
                              (ck_sub_shift ck) (ck_chunk_count ck) (ck_tail_bytes ck)) [0..<chunk_slots]
      in crc32c_fold_kernel operators chunk_crcs (ck_chunk_count ck) (ck_chunk_shift ck) (ck_tail_bytes ck))"

section \<open>The register is linear\<close>

lemma crc32c_shift_eq: "crc32c_shift = crc_bit"
proof
  fix c :: u32
  have "c AND 1 = (if bit c 0 then 1 else 0)"
    by (simp add: and_one_eq mod_2_eq_odd bit_0)
  then show "crc32c_shift c = crc_bit c"
    by (simp add: crc32c_shift_def crc_bit_alt kCrc32cPolynomial_def kPolynomial_def)
qed

definition zeros :: "nat \<Rightarrow> u32 \<Rightarrow> u32" where
  "zeros n = crc_bit ^^ (8 * n)"

definition register :: "u32 \<Rightarrow> u8 list \<Rightarrow> u32" where
  "register seed bytes = foldl (\<lambda>crc byte. (crc_bit ^^ 8) (crc XOR ucast byte)) seed bytes"

lemma zeros_simps [simp]: "zeros n (a XOR b) = zeros n a XOR zeros n b" "zeros 0 a = a"
  by (simp_all add: zeros_def crc_bits_xor)

lemma zeros_add: "zeros m (zeros n a) = zeros (m + n) a"
  by (simp add: zeros_def funpow_add distrib_left)

lemma zeros_zero [simp]: "zeros n 0 = 0"
  using zeros_simps(1) [of n 0 0] by simp

lemma register_linear: "register (a XOR b) bytes = zeros (length bytes) a XOR register b bytes"
proof (induction bytes arbitrary: a b)
  case (Cons x xs)
  have "register (a XOR b) (x # xs) = register (zeros 1 a XOR (crc_bit ^^ 8) (b XOR ucast x)) xs"
    by (simp add: register_def zeros_def crc_bits_xor xor.assoc)
  also have "\<dots> = zeros (length xs) (zeros 1 a) XOR register ((crc_bit ^^ 8) (b XOR ucast x)) xs"
    by (rule Cons.IH)
  finally show ?case by (simp add: zeros_add register_def)
qed (simp add: register_def)

lemma crc_register: "crc32c bytes = NOT (register (NOT 0) bytes)"
  by (simp add: crc_serial crc32c_serial_def register_def)

lemma register_append: "register s (xs @ ys) = register (register s xs) ys"
  by (simp add: register_def)

lemma range_crc: "NOT (crc32c_range bytes) = crc32c bytes"
proof -
  have "crc32c_bitwise = (\<lambda>crc byte. (crc_bit ^^ 8) (crc XOR ucast byte))"
    by (simp add: crc32c_bitwise_def crc32c_shift_eq fun_eq_iff)
  moreover have "kCrc32cSeed = NOT 0" by code_simp
  ultimately show ?thesis
    by (simp add: crc_register crc32c_range_def register_def)
qed

text \<open>The identity the kernels rest on.\<close>

lemma crc_append: "crc32c (xs @ ys) = zeros (length ys) (crc32c xs) XOR crc32c ys"
proof -
  have "register (NOT 0) (xs @ ys) = register (NOT (crc32c xs)) ys"
    by (simp add: register_append crc_register)
  also have "NOT (crc32c xs) = crc32c xs XOR NOT 0" by (rule bit_word_eqI) (simp add: bit_xor_iff bit_not_iff)
  also have "register \<dots> ys = zeros (length ys) (crc32c xs) XOR register (NOT 0) ys"
    by (rule register_linear)
  finally show ?thesis
    by (simp only: crc_register [of "xs @ ys"] crc_register [of ys]) (rule bit_word_eqI, simp add: bit_xor_iff bit_not_iff)
qed

section \<open>Matrices represent linear maps\<close>

definition represents :: "u32 list \<Rightarrow> (u32 \<Rightarrow> u32) \<Rightarrow> bool" where
  "represents m f \<longleftrightarrow> (\<forall>a b. f (a XOR b) = f a XOR f b) \<and> (\<forall>i < 32. m ! i = f (push_bit i 1))"

lemma shift_split:
  fixes v :: u32
  shows "push_bit row v =
    push_bit (Suc row) (drop_bit 1 v) XOR (if bit v 0 then push_bit row 1 else 0)"
proof (rule bit_word_eqI)
  fix n assume "n < LENGTH(32)"
  then have low: "bit (push_bit row (1 :: u32)) n \<longleftrightarrow> n = row"
    by (auto simp: bit_push_bit_iff bit_1_iff simp del: push_bit_of_1)
  have high: "bit (push_bit (Suc row) (drop_bit 1 v)) n \<longleftrightarrow> row < n \<and> bit v (n - row)"
    using \<open>n < LENGTH(32)\<close> by (auto simp: bit_push_bit_iff bit_drop_bit_eq Suc_le_eq Suc_diff_Suc simp del: push_bit_Suc)
  show "bit (push_bit row v) n \<longleftrightarrow>
      bit (push_bit (Suc row) (drop_bit 1 v) XOR (if bit v 0 then push_bit row 1 else 0)) n"
    using low high \<open>n < LENGTH(32)\<close>
    by (cases n row rule: linorder_cases) (auto simp: bit_xor_iff bit_push_bit_iff simp del: push_bit_Suc push_bit_of_1)
qed

lemma matrix_loop_linear:
  assumes "represents m f" and "\<And>i. bit v i \<Longrightarrow> row + i < 32"
  shows "matrix_loop m row v acc = acc XOR f (push_bit row v)"
  using assms(2)
proof (induction "unat v" arbitrary: row v acc rule: less_induct)
  case less
  have zero: "f 0 = 0" using assms(1) unfolding represents_def by (metis xor_self_eq)
  show ?case
  proof (cases "v = 0")
    case True
    then show ?thesis by (simp add: matrix_loop.simps zero)
  next
    case False
    let ?acc = "if bit v 0 then acc XOR m ! row else acc"
    have "Suc row + i < 32" if "bit (drop_bit 1 v) i" for i
      using less.prems [of "Suc i"] that by (simp add: bit_drop_bit_eq)
    then have "matrix_loop m (Suc row) (drop_bit 1 v) ?acc = ?acc XOR f (push_bit (Suc row) (drop_bit 1 v))"
      using less.hyps [OF drop_bit_less [OF False]] by blast
    moreover have "matrix_loop m row v acc = matrix_loop m (Suc row) (drop_bit 1 v) ?acc"
      using False by (subst matrix_loop.simps) (simp add: and_one_eq mod_2_eq_odd bit_0)
    moreover have "m ! row = f (push_bit row 1)" if "bit v 0"
      using assms(1) less.prems [OF that] by (simp add: represents_def)
    moreover have "f (a XOR b) = f a XOR f b" for a b using assms(1) by (simp add: represents_def)
    ultimately show ?thesis
      unfolding shift_split [of row v] by (cases "bit v 0") (simp_all add: zero ac_simps del: push_bit_Suc push_bit_of_1)
  qed
qed

lemma times_represents:
  assumes "represents m f"
  shows "gf2_matrix_times m v = f v" "host_matrix_times m v = f v"
  using matrix_loop_linear [OF assms, of v 0 0] bit_imp_le_length [of v]
  by (simp_all add: gf2_matrix_times_def host_matrix_times_def)

lemma square_represents:
  assumes "represents m f"
  shows "represents (host_matrix_square m) (f \<circ> f)"
  using assms by (auto simp: represents_def host_matrix_square_def times_represents [OF assms])

lemma one_bit_represents: "represents one_bit crc_bit"
proof -
  have "one_bit ! i = crc_bit (push_bit i 1)" if "i < 32" for i
  proof (cases i)
    case 0
    then show ?thesis by (simp add: one_bit_def crc_bit_alt kCrc32cPolynomial_def kPolynomial_def)
  next
    case (Suc j)
    have "crc_bit (push_bit (Suc j) 1) = drop_bit 1 (push_bit (Suc j) 1)"
      using crc_bits_shift [of 1 "Suc j" 1] by simp
    also have "\<dots> = push_bit j 1"
      using that Suc
      by (intro bit_word_eqI) (auto simp: bit_drop_bit_eq bit_push_bit_iff bit_1_iff simp del: push_bit_Suc push_bit_of_1)
    finally show ?thesis using that Suc by (simp add: one_bit_def)
  qed
  then show ?thesis by (simp add: represents_def crc_bit_xor)
qed

lemma shift_operator_represents: "represents (shift_operator t) (zeros (2 ^ t))"
proof (induction t)
  case 0
  have "represents (shift_operator 0) (((crc_bit \<circ> crc_bit) \<circ> (crc_bit \<circ> crc_bit)) \<circ> ((crc_bit \<circ> crc_bit) \<circ> (crc_bit \<circ> crc_bit)))"
    by (simp only: shift_operator.simps square_represents one_bit_represents)
  moreover have "((crc_bit \<circ> crc_bit) \<circ> (crc_bit \<circ> crc_bit)) \<circ> ((crc_bit \<circ> crc_bit) \<circ> (crc_bit \<circ> crc_bit)) = zeros 1"
    by (simp add: zeros_def fun_eq_iff eval_nat_numeral)
  ultimately show ?case by simp
next
  case (Suc t)
  have "zeros (2 ^ t) \<circ> zeros (2 ^ t) = zeros (2 ^ Suc t)"
    by (simp add: fun_eq_iff zeros_add mult_2)
  with square_represents [OF Suc] show ?case by simp
qed

lemma operators_shift:
  "t < kMaxOperatorBits \<Longrightarrow> gf2_matrix_times (build_shift_operators ! t) v = zeros (2 ^ t) v"
  by (simp add: build_shift_operators_def times_represents [OF shift_operator_represents])

section \<open>The chunks of a payload\<close>

lemma slice_append: "bytes_at d b n @ bytes_at d (b + n) m = bytes_at d b (n + m)"
  by (simp add: bytes_at_def take_add drop_drop add.commute [of n b])

lemma length_slice [simp]: "b + n \<le> length d \<Longrightarrow> length (bytes_at d b n) = n"
  by (simp add: bytes_at_def)

lemma crc_slice:
  assumes "b + n + m \<le> length d"
  shows "crc32c (bytes_at d b (n + m)) = zeros m (crc32c (bytes_at d b n)) XOR crc32c (bytes_at d (b + n) m)"
  using assms by (simp add: crc_append flip: slice_append)

lemma exponent_loop_pow: "k \<le> c \<Longrightarrow> exponent_loop (2 ^ c) (2 ^ k) k = c"
proof (induction "c - k" arbitrary: k)
  case 0
  then show ?case by (simp add: exponent_loop.simps)
next
  case (Suc n)
  then have "k < c" by simp
  then have "exponent_loop (2 ^ c) (2 ^ k) k = exponent_loop (2 ^ c) (2 ^ Suc k) (Suc k)"
    by (subst exponent_loop.simps) simp
  then show ?case using Suc.hyps(1) [of "Suc k"] Suc.hyps(2) \<open>k < c\<close> by simp
qed

lemma shift_exponent_pow [simp]: "shift_exponent (2 ^ c) = c"
  using exponent_loop_pow [of 0 c] by (simp add: shift_exponent_def)

lemma chunk_loop_pow:
  "\<exists>c \<ge> k. chunk_loop (2 ^ k) len = 2 ^ c \<and> (c = k \<or> 2 ^ c * kMaxChunks < 2 * len)"
proof (induction "len - 2 ^ k" arbitrary: k rule: less_induct)
  case less
  show ?case
  proof (cases "2 ^ k * kMaxChunks < len")
    case True
    then have "2 ^ k < len" by (simp add: kMaxChunks_def)
    moreover have "(2 :: nat) ^ k < 2 ^ Suc k" by simp
    ultimately have "len - 2 ^ Suc k < len - 2 ^ k" by (rule diff_less_mono2 [rotated])
    from less [OF this] obtain c where c: "c \<ge> Suc k" "chunk_loop (2 ^ Suc k) len = 2 ^ c"
      "c = Suc k \<or> 2 ^ c * kMaxChunks < 2 * len" by blast
    have "chunk_loop (2 ^ k) len = 2 ^ c"
      using True c(2) by (subst chunk_loop.simps) simp
    moreover have "2 ^ c * kMaxChunks < 2 * len" using c(3) True by auto
    ultimately show ?thesis using c(1) by (intro exI [of _ c]) simp
  next
    case False
    then show ?thesis by (intro exI [of _ k]) (simp add: chunk_loop.simps)
  qed
qed

lemma chunk_bytes_pow:
  assumes "len \<le> kMaxDeviceBytes"
  shows "\<exists>c. chunk_loop kThreadsPerChunk len = 2 ^ c \<and> 8 \<le> c \<and> c \<le> 33"
proof -
  obtain c where c: "c \<ge> 8" "chunk_loop (2 ^ 8) len = 2 ^ c" "c = 8 \<or> 2 ^ c * kMaxChunks < 2 * len"
    using chunk_loop_pow [of 8 len] by blast
  have "c \<le> 33"
  proof (cases "c = 8")
    case False
    then have "(2 :: nat) ^ (c + 7) < 2 ^ 41"
      using c(3) assms by (simp add: kMaxChunks_def kMaxDeviceBytes_def power_add)
    then have "c + 7 < 41" by (rule power_less_imp_less_exp [rotated]) simp
    then show ?thesis by simp
  qed simp
  then show ?thesis using c by (auto simp: kThreadsPerChunk_def)
qed

section \<open>Folding\<close>

definition tree_inv :: "u8 list \<Rightarrow> nat \<Rightarrow> nat \<Rightarrow> nat \<Rightarrow> u32 list \<Rightarrow> bool" where
  "tree_inv data base sub l acc \<longleftrightarrow> length acc = kThreadsPerChunk
     \<and> (\<forall>t < kThreadsPerChunk. t mod 2 ^ l = 0 \<longrightarrow> acc ! t = crc32c (bytes_at data (base + t * sub) (2 ^ l * sub)))"

lemma fold_level_inv:
  assumes inv: "tree_inv data base (2 ^ s) l acc" and "l < 8" and "s + 8 \<le> kMaxOperatorBits"
    and bound: "base + kThreadsPerChunk * 2 ^ s \<le> length data"
  shows "tree_inv data base (2 ^ s) (Suc l) (fold_level (build_shift_operators ! (s + l)) (2 ^ l) acc)"
  unfolding tree_inv_def
proof (intro conjI allI impI)
  fix t assume t: "t < kThreadsPerChunk" "t mod 2 ^ Suc l = 0"
  have k: "kThreadsPerChunk = 2 ^ Suc l * 2 ^ (7 - l)"
    using assms(2) by (simp add: kThreadsPerChunk_def flip: power_add power_Suc)
  obtain q where q: "t = 2 ^ Suc l * q" using t(2) by auto
  then have "q < 2 ^ (7 - l)" using t(1) unfolding k by (simp only: mult_less_cancel1)
  then have "Suc q \<le> 2 ^ (7 - l)" by simp
  then have "2 ^ Suc l * Suc q \<le> kThreadsPerChunk" unfolding k by (rule mult_le_mono2)
  then have next_t: "t + 2 ^ l + 2 ^ l \<le> kThreadsPerChunk" using q by simp
  have "(t + 2 ^ l) mod 2 ^ l = 0" "t mod 2 ^ l = 0" by (simp_all add: q)
  then have left: "acc ! t = crc32c (bytes_at data (base + t * 2 ^ s) (2 ^ l * 2 ^ s))"
    and right: "acc ! (t + 2 ^ l) = crc32c (bytes_at data (base + (t + 2 ^ l) * 2 ^ s) (2 ^ l * 2 ^ s))"
    using inv t next_t by (simp_all add: tree_inv_def)
  have "(t + 2 ^ l + 2 ^ l) * 2 ^ s \<le> kThreadsPerChunk * 2 ^ s" using next_t by (rule mult_le_mono1)
  then have "base + t * 2 ^ s + 2 ^ l * 2 ^ s + 2 ^ l * 2 ^ s \<le> length data"
    using bound by (simp add: distrib_right)
  from crc_slice [OF this]
  have "crc32c (bytes_at data (base + t * 2 ^ s) (2 ^ Suc l * 2 ^ s)) =
      zeros (2 ^ (s + l)) (acc ! t) XOR acc ! (t + 2 ^ l)"
    unfolding left right by (simp add: power_add distrib_right mult_2 algebra_simps)
  then show "fold_level (build_shift_operators ! (s + l)) (2 ^ l) acc ! t =
      crc32c (bytes_at data (base + t * 2 ^ s) (2 ^ Suc l * 2 ^ s))"
    using t assms(2,3) by (simp add: fold_level_def operators_shift)
qed (simp add: fold_level_def)

lemma fold_tree_crc:
  assumes "tree_inv data base (2 ^ s) l acc" and "l \<le> 8" and "s + 8 \<le> kMaxOperatorBits"
    and "base + kThreadsPerChunk * 2 ^ s \<le> length data"
  shows "fold_tree build_shift_operators s l (2 ^ l) acc ! 0 =
    crc32c (bytes_at data base (kThreadsPerChunk * 2 ^ s))"
  using assms
proof (induction "8 - l" arbitrary: l acc)
  case 0
  then have "l = 8" by simp
  then show ?case using 0 by (simp add: fold_tree.simps tree_inv_def kThreadsPerChunk_def)
next
  case (Suc n)
  then have l: "l < 8" by simp
  then have "(2 :: nat) ^ l < 2 ^ 8" by (rule power_strict_increasing) simp
  then have "fold_tree build_shift_operators s l (2 ^ l) acc =
      fold_tree build_shift_operators s (Suc l) (2 ^ Suc l)
        (fold_level (build_shift_operators ! (s + l)) (2 ^ l) acc)"
    by (subst fold_tree.simps) (simp add: kThreadsPerChunk_def)
  then show ?case
    using Suc.hyps(1) [OF _ fold_level_inv [OF Suc.prems(1) l Suc.prems(3,4)]] Suc.hyps(2) Suc.prems(3,4) l
    by simp
qed

lemma tail_loop_zeros:
  assumes "n < 2 ^ (kMaxOperatorBits - k)"
  shows "tail_loop build_shift_operators k n acc = zeros (n * 2 ^ k) acc"
  using assms
proof (induction n arbitrary: k acc rule: less_induct)
  case (less n)
  show ?case
  proof (cases "n = 0")
    case True
    then show ?thesis by (simp add: tail_loop.simps)
  next
    case False
    then have k: "k < kMaxOperatorBits" using less.prems by (cases "k < kMaxOperatorBits") simp_all
    let ?acc = "if odd n then zeros (2 ^ k) acc else acc"
    have pow: "(2 :: nat) ^ (kMaxOperatorBits - k) = 2 * 2 ^ (kMaxOperatorBits - Suc k)"
      using k by (simp flip: power_Suc add: Suc_diff_Suc)
    have "tail_loop build_shift_operators k n acc = tail_loop build_shift_operators (Suc k) (n div 2) ?acc"
      using False k by (subst tail_loop.simps) (simp add: operators_shift)
    also have "\<dots> = zeros (n div 2 * 2 ^ Suc k) ?acc"
      using False less.prems pow by (intro less.IH) auto
    also have "\<dots> = zeros (n * 2 ^ k) acc"
    proof (cases "odd n")
      case True
      then have "n = 2 * (n div 2) + 1" by simp
      then have "n * 2 ^ k = n div 2 * 2 ^ Suc k + 2 ^ k"
        by (metis add_mult_distrib mult.commute mult.left_commute mult_1 power_Suc)
      then show ?thesis using True by (simp add: zeros_add)
    next
      case False
      then have "n div 2 * 2 ^ Suc k = n * 2 ^ k" by (auto elim!: evenE)
      then show ?thesis using False by (simp only: if_False)
    qed
    finally show ?thesis .
  qed
qed

text \<open>Each block computes the digest of its own bytes.\<close>

lemma block_crc:
  assumes "index < count" and "index * chunk + chunk \<le> length data"
    and "sub = 0 \<or> chunk = kThreadsPerChunk * sub \<and> sub = 2 ^ s \<and> s + 8 \<le> kMaxOperatorBits"
  shows "crc32c_chunk_kernel build_shift_operators data chunk sub s count tail index =
    crc32c (bytes_at data (index * chunk) chunk)"
proof (cases "sub = 0")
  case False
  let ?acc = "map (\<lambda>thread. NOT (crc32c_range (bytes_at data (index * chunk + thread * sub) sub))) [0..<kThreadsPerChunk]"
  have sub: "chunk = kThreadsPerChunk * 2 ^ s" "sub = 2 ^ s" "s + 8 \<le> kMaxOperatorBits"
    using assms(3) False by auto
  have "tree_inv data (index * chunk) (2 ^ s) 0 ?acc"
    by (simp add: tree_inv_def range_crc sub)
  from fold_tree_crc [OF this _ sub(3)] assms(1,2) sub False show ?thesis
    by (simp add: crc32c_chunk_kernel_def Let_def)
qed (use assms(1) in \<open>simp add: crc32c_chunk_kernel_def Let_def range_crc\<close>)

lemma tail_crc:
  "crc32c_chunk_kernel operators data chunk sub s count tail count = crc32c (bytes_at data (count * chunk) tail)"
  by (simp add: crc32c_chunk_kernel_def range_crc)

text \<open>The digests of equal chunks fold to the digest of what they cover.\<close>

lemma chunks_crc:
  assumes "count * 2 ^ c \<le> length data" and "c < kMaxOperatorBits" and "0 < n" and "n \<le> count"
    and "\<And>i. i < count \<Longrightarrow> crcs ! i = crc32c (bytes_at data (i * 2 ^ c) (2 ^ c))"
  shows "foldl (\<lambda>acc index. gf2_matrix_times (build_shift_operators ! c) acc XOR crcs ! index) (crcs ! 0) [1..<n] =
    crc32c (bytes_at data 0 (n * 2 ^ c))"
  using assms(3,4)
proof (induction n)
  case (Suc n)
  show ?case
  proof (cases "n = 0")
    case False
    have "Suc n * 2 ^ c \<le> count * 2 ^ c" using Suc.prems by (intro mult_le_mono1) simp
    then have "0 + n * 2 ^ c + 2 ^ c \<le> length data" using assms(1) by simp
    from crc_slice [OF this] show ?thesis
      using Suc False assms(2,5) by (simp add: operators_shift add.commute)
  qed (use assms(5) [of 0] Suc.prems in simp)
qed simp

lemma small_tail: "(t :: nat) < 2 ^ c \<Longrightarrow> c < kMaxOperatorBits \<Longrightarrow> t < 2 ^ kMaxOperatorBits"
  by (meson less_imp_le_nat less_le_trans one_le_numeral power_increasing)

text \<open>Equal chunks with a tail, from the digests of the blocks to the digest of the payload.\<close>

lemma folded_crc:
  assumes cover: "n * 2 ^ c + t = length data" and n: "0 < n" and t: "t < 2 ^ c" and c: "8 \<le> c" "c \<le> 33"
    and crcs: "crcs = map (crc32c_chunk_kernel build_shift_operators data (2 ^ c) (2 ^ (c - 8)) (c - 8) n t)
      [0..<n + (if t = 0 then 0 else 1)]"
  shows "crc32c_fold_kernel build_shift_operators crcs n c t = crc32c data"
proof -
  have bits: "c - 8 + 8 \<le> kMaxOperatorBits" "c < kMaxOperatorBits"
    using c by (simp_all add: kMaxOperatorBits_def)
  have pow: "(2 :: nat) ^ c = kThreadsPerChunk * 2 ^ (c - 8)"
    using power_add [of "2 :: nat" 8 "c - 8"] c(1) by (simp add: kThreadsPerChunk_def)
  have block: "crcs ! i = crc32c (bytes_at data (i * 2 ^ c) (2 ^ c))" if "i < n" for i
  proof -
    have "Suc i * 2 ^ c \<le> n * 2 ^ c" using that by (intro mult_le_mono1) simp
    then have "i * 2 ^ c + 2 ^ c \<le> length data" using cover by simp
    then show ?thesis
      using block_crc [of i n "2 ^ c" data "2 ^ (c - 8)" "c - 8" t] that pow bits(1) by (simp add: crcs)
  qed
  have "n * 2 ^ c \<le> length data" using cover by simp
  note chunks = chunks_crc [OF this bits(2) n order_refl block]
  show ?thesis
  proof (cases "t = 0")
    case True
    then have "bytes_at data 0 (n * 2 ^ c) = data" using cover by (simp add: bytes_at_def)
    then show ?thesis
      using True n chunks by (cases "n = 1") (simp_all add: crc32c_fold_kernel_def Let_def)
  next
    case False
    have "crcs ! n = crc32c (bytes_at data (n * 2 ^ c) t)"
      using False by (simp add: crcs tail_crc nth_append)
    moreover have "crc32c data = zeros t (crc32c (bytes_at data 0 (n * 2 ^ c)))
        XOR crc32c (bytes_at data (n * 2 ^ c) t)"
      using crc_slice [of 0 "n * 2 ^ c" t data] cover by (simp add: bytes_at_def)
    ultimately show ?thesis
      using False n chunks tail_loop_zeros [of t 0] small_tail [OF t bits(2)]
      by (simp add: crc32c_fold_kernel_def Let_def)
  qed
qed

lemma kernels_exact:
  assumes "length data \<le> kMaxDeviceBytes"
  shows "launch_kernels build_shift_operators data = crc32c data
    \<and> ck_chunk_count (chunking_of (length data)) * ck_chunk_bytes (chunking_of (length data))
        + ck_tail_bytes (chunking_of (length data)) = length data
    \<and> ck_sub_shift (chunking_of (length data)) + 8 \<le> kMaxOperatorBits
    \<and> ck_chunk_shift (chunking_of (length data)) < kMaxOperatorBits"
proof -
  obtain c where c: "chunk_loop kThreadsPerChunk (length data) = 2 ^ c" "8 \<le> c" "c \<le> 33"
    using chunk_bytes_pow [OF assms] by blast
  show ?thesis
  proof (cases "length data div 2 ^ c = 0")
    case True
    then have "length data = 0 \<or> length data < 2 ^ c" by (simp add: div_eq_0_iff)
    then have ck: "chunking_of (length data) =
        \<lparr>ck_chunk_bytes = length data, ck_chunk_count = 1, ck_tail_bytes = 0, ck_sub_bytes = 0,
         ck_sub_shift = 0, ck_chunk_shift = 0\<rparr>"
      using c(1) by (auto simp: chunking_of_def Let_def)
    show ?thesis
      by (simp add: launch_kernels_def ck Let_def crc32c_fold_kernel_def block_crc bytes_at_def
          kMaxOperatorBits_def)
  next
    case False
    let ?n = "length data div 2 ^ c" and ?t = "length data mod 2 ^ c"
    have "(2 :: nat) ^ c div kThreadsPerChunk = 2 ^ (c - 8)"
      using power_diff [of "2 :: nat" 8 c] c(2) by (simp add: kThreadsPerChunk_def)
    then have ck: "chunking_of (length data) =
        \<lparr>ck_chunk_bytes = 2 ^ c, ck_chunk_count = ?n, ck_tail_bytes = ?t, ck_sub_bytes = 2 ^ (c - 8),
         ck_sub_shift = c - 8, ck_chunk_shift = c\<rparr>"
      using c(1) False by (auto simp: chunking_of_def Let_def)
    have "launch_kernels build_shift_operators data = crc32c data"
      unfolding launch_kernels_def ck Let_def Chunking.select_convs
      by (rule folded_crc [OF div_mult_mod_eq _ _ c(2,3) refl]) (use False in simp_all)
    then show ?thesis using ck c by (simp add: kMaxOperatorBits_def div_mult_mod_eq)
  qed
qed

section \<open>Properties\<close>

text \<open>
  C12. The parallel checksum of the device is the checksum of the host: for every payload the device path
  admits, splitting it into chunks and slices, hashing the slices independently and folding the digests
  with the shift operators built from the polynomial gives exactly \<^const>\<open>crc32c\<close> of the payload. The
  chunks and the tail lie inside the payload and cover it, and every operator that is used is one of
  those uploaded.\<close>

theorem device_checksum_is_host_checksum:
  assumes "length data \<le> kMaxDeviceBytes"
  shows "launch_kernels build_shift_operators data = crc32c data
    \<and> ck_chunk_count (chunking_of (length data)) * ck_chunk_bytes (chunking_of (length data))
        + ck_tail_bytes (chunking_of (length data)) = length data
    \<and> ck_sub_shift (chunking_of (length data)) + 8 \<le> kMaxOperatorBits
    \<and> ck_chunk_shift (chunking_of (length data)) < kMaxOperatorBits"
  using assms by (rule kernels_exact)

theorem device_checksum_is_host_checksum_witness:
  "launch_kernels build_shift_operators (map of_nat [0..<1000]) = crc32c (map of_nat [0..<1000])"
  using device_checksum_is_host_checksum [of "map of_nat [0..<1000]"] by (simp add: kMaxDeviceBytes_def)

section \<open>The bridge\<close>

datatype CudaStatus =
    TOS_CUDA_OK
  | TOS_CUDA_NOT_COMPILED
  | TOS_CUDA_NO_DEVICE
  | TOS_CUDA_DRIVER_ERROR
  | TOS_CUDA_INVALID_DEVICE
  | TOS_CUDA_ALREADY_OPEN
  | TOS_CUDA_NOT_OPEN
  | TOS_CUDA_ALLOCATION_FAILED
  | TOS_CUDA_COPY_FAILED
  | TOS_CUDA_LAUNCH_FAILED
  | TOS_CUDA_SYNCHRONIZE_FAILED
  | TOS_CUDA_INVALID_ARGUMENT
  | TOS_CUDA_INTERNAL_ERROR

fun cuda_status_code :: "CudaStatus \<Rightarrow> nat" where
  "cuda_status_code TOS_CUDA_OK = 0"
| "cuda_status_code TOS_CUDA_NOT_COMPILED = 1"
| "cuda_status_code TOS_CUDA_NO_DEVICE = 2"
| "cuda_status_code TOS_CUDA_DRIVER_ERROR = 3"
| "cuda_status_code TOS_CUDA_INVALID_DEVICE = 4"
| "cuda_status_code TOS_CUDA_ALREADY_OPEN = 5"
| "cuda_status_code TOS_CUDA_NOT_OPEN = 6"
| "cuda_status_code TOS_CUDA_ALLOCATION_FAILED = 7"
| "cuda_status_code TOS_CUDA_COPY_FAILED = 8"
| "cuda_status_code TOS_CUDA_LAUNCH_FAILED = 9"
| "cuda_status_code TOS_CUDA_SYNCHRONIZE_FAILED = 10"
| "cuda_status_code TOS_CUDA_INVALID_ARGUMENT = 11"
| "cuda_status_code TOS_CUDA_INTERNAL_ERROR = 12"

text \<open>
  An answer of the CUDA runtime is \<open>None\<close> for \<^verbatim>\<open>cudaSuccess\<close> and otherwise the name and the description of
  the error. The context and the counters of the process are one record; a handle is a flag.
\<close>

type_synonym cuda_error = "string option"

record Device =
  dv_open :: bool
  dv_device_index :: int
  dv_stream :: bool
  dv_kernel_start :: bool
  dv_kernel_stop :: bool
  dv_operators :: "u32 list list"
  dv_outstanding_bytes :: u64
  dv_kernel_launches :: u64
  dv_device_bytes_copied :: u64

definition closed_device :: Device where
  "closed_device =
     \<lparr>dv_open = False, dv_device_index = -1, dv_stream = False, dv_kernel_start = False,
      dv_kernel_stop = False, dv_operators = [], dv_outstanding_bytes = 0, dv_kernel_launches = 0,
      dv_device_bytes_copied = 0\<rparr>"

text \<open>The bounded error buffer of the caller; a null buffer has capacity zero.\<close>

definition error_add :: "nat \<Rightarrow> string \<Rightarrow> string \<Rightarrow> string" where
  "error_add capacity out t = out @ take (capacity - 1 - length out) t"

record ProbeAnswers =
  pa_device_count :: "cuda_error \<times> int"
  pa_set_device :: cuda_error
  pa_initialise :: cuda_error

definition probe_device :: "ProbeAnswers \<Rightarrow> int \<Rightarrow> CudaStatus \<times> string" where
  "probe_device pa device_index =
     (case pa_device_count pa of
        (Some e, _) \<Rightarrow> (TOS_CUDA_DRIVER_ERROR, ''cudaGetDeviceCount failed: '' @ e)
      | (None, n) \<Rightarrow>
          if n \<le> 0 then (TOS_CUDA_NO_DEVICE, ''no CUDA device is present on this host'')
          else if device_index < 0 \<or> device_index \<ge> n
          then (TOS_CUDA_INVALID_DEVICE, ''CUDA device index is out of range'')
          else case pa_set_device pa of
                 Some e \<Rightarrow> (TOS_CUDA_DRIVER_ERROR, ''cudaSetDevice failed: '' @ e)
               | None \<Rightarrow>
                   case pa_initialise pa of
                     Some e \<Rightarrow> (TOS_CUDA_DRIVER_ERROR, ''CUDA initialisation failed: '' @ e)
                   | None \<Rightarrow> (TOS_CUDA_OK, []))"

definition tos_cuda_probe :: "ProbeAnswers \<Rightarrow> int \<Rightarrow> nat \<Rightarrow> CudaStatus \<times> string" where
  "tos_cuda_probe pa device_index capacity =
     (case probe_device pa device_index of (st, e) \<Rightarrow> (st, error_add capacity [] e))"

record OpenAnswers =
  oa_probe :: ProbeAnswers
  oa_upload :: cuda_error
  oa_stream :: cuda_error
  oa_kernel_start :: cuda_error
  oa_kernel_stop :: cuda_error

definition open_context :: "OpenAnswers \<Rightarrow> int \<Rightarrow> Device \<Rightarrow> CudaStatus \<times> string \<times> Device" where
  "open_context oa device_index dv =
     (if dv_open dv
      then if dv_device_index dv = device_index then (TOS_CUDA_OK, [], dv)
           else (TOS_CUDA_ALREADY_OPEN,
                 ''this process already owns a CUDA context on another device index'', dv)
      else case probe_device (oa_probe oa) device_index of
             (st, e) \<Rightarrow>
               if st \<noteq> TOS_CUDA_OK then (st, e, dv)
               else case oa_upload oa of
                      Some e \<Rightarrow> (TOS_CUDA_DRIVER_ERROR, ''cudaMemcpyToSymbol failed: '' @ e, dv)
                    | None \<Rightarrow>
                        let dv = dv\<lparr>dv_operators := build_shift_operators\<rparr> in
                        case oa_stream oa of
                          Some e \<Rightarrow> (TOS_CUDA_DRIVER_ERROR, ''cudaStreamCreateWithFlags failed: '' @ e, dv)
                        | None \<Rightarrow>
                            case (case oa_kernel_start oa of None \<Rightarrow> oa_kernel_stop oa | Some e \<Rightarrow> Some e) of
                              Some e \<Rightarrow>
                                (TOS_CUDA_DRIVER_ERROR, ''cudaEventCreateWithFlags failed: '' @ e,
                                 dv\<lparr>dv_kernel_start := False, dv_stream := False\<rparr>)
                            | None \<Rightarrow>
                                (TOS_CUDA_OK, [],
                                 dv\<lparr>dv_stream := True, dv_kernel_start := True, dv_kernel_stop := True,
                                    dv_device_index := device_index, dv_open := True\<rparr>))"

definition tos_cuda_open :: "OpenAnswers \<Rightarrow> int \<Rightarrow> nat \<Rightarrow> Device \<Rightarrow> CudaStatus \<times> string \<times> Device" where
  "tos_cuda_open oa device_index capacity dv =
     (case open_context oa device_index dv of (st, e, dv') \<Rightarrow> (st, error_add capacity [] e, dv'))"

definition tos_cuda_close :: "Device \<Rightarrow> Device" where
  "tos_cuda_close dv =
     (if \<not> dv_open dv then dv
      else dv\<lparr>dv_kernel_stop := False, dv_kernel_start := False, dv_stream := False, dv_open := False,
              dv_device_index := -1\<rparr>)"

text \<open>The facts of a device are asked for after a probe of its index.\<close>

definition query_properties :: "ProbeAnswers \<Rightarrow> cuda_error \<Rightarrow> int \<Rightarrow> CudaStatus" where
  "query_properties pa properties device_index =
     (case probe_device pa device_index of
        (st, _) \<Rightarrow> if st \<noteq> TOS_CUDA_OK then st
                   else if properties \<noteq> None then TOS_CUDA_DRIVER_ERROR else TOS_CUDA_OK)"

definition tos_cuda_device_name ::
    "ProbeAnswers \<Rightarrow> cuda_error \<Rightarrow> string \<Rightarrow> int \<Rightarrow> nat \<Rightarrow> CudaStatus \<times> string" where
  "tos_cuda_device_name pa properties name device_index capacity =
     (if capacity = 0 then (TOS_CUDA_INVALID_ARGUMENT, [])
      else let st = query_properties pa properties device_index in
           if st \<noteq> TOS_CUDA_OK then (st, []) else (TOS_CUDA_OK, take (capacity - 1) name))"

definition tos_cuda_compute_capability ::
    "ProbeAnswers \<Rightarrow> cuda_error \<Rightarrow> int \<Rightarrow> int \<Rightarrow> int \<Rightarrow> CudaStatus \<times> int \<times> int" where
  "tos_cuda_compute_capability pa properties major minor device_index =
     (let st = query_properties pa properties device_index in
      if st \<noteq> TOS_CUDA_OK then (st, 0, 0) else (TOS_CUDA_OK, major, minor))"

definition tos_cuda_total_memory :: "ProbeAnswers \<Rightarrow> cuda_error \<Rightarrow> u64 \<Rightarrow> int \<Rightarrow> CudaStatus \<times> u64" where
  "tos_cuda_total_memory pa properties bytes device_index =
     (let st = query_properties pa properties device_index in
      if st \<noteq> TOS_CUDA_OK then (st, 0) else (TOS_CUDA_OK, bytes))"

definition tos_cuda_driver_version :: "cuda_error \<Rightarrow> int \<Rightarrow> CudaStatus \<times> int" where
  "tos_cuda_driver_version answer version =
     (if answer \<noteq> None then (TOS_CUDA_DRIVER_ERROR, version) else (TOS_CUDA_OK, version))"

definition tos_cuda_runtime_version :: "cuda_error \<Rightarrow> int \<Rightarrow> CudaStatus \<times> int" where
  "tos_cuda_runtime_version answer version =
     (if answer \<noteq> None then (TOS_CUDA_DRIVER_ERROR, version) else (TOS_CUDA_OK, version))"

definition tos_cuda_memory_info :: "cuda_error \<Rightarrow> u64 \<Rightarrow> u64 \<Rightarrow> Device \<Rightarrow> CudaStatus \<times> u64 \<times> u64" where
  "tos_cuda_memory_info answer free_bytes total_bytes dv =
     (if \<not> dv_open dv then (TOS_CUDA_NOT_OPEN, 0, 0)
      else if answer \<noteq> None then (TOS_CUDA_DRIVER_ERROR, 0, 0)
      else (TOS_CUDA_OK, free_bytes, total_bytes))"

section \<open>One execution\<close>

record ChecksumAnswers =
  ca_pinned :: cuda_error
  ca_device :: cuda_error
  ca_copy_in :: cuda_error
  ca_record_start :: cuda_error
  ca_launch_chunk :: cuda_error
  ca_launch_fold :: cuda_error
  ca_record_stop :: cuda_error
  ca_copy_out :: cuda_error
  ca_synchronize :: cuda_error
  ca_elapsed_ns :: "u64 option"
  ca_total_ns :: u64

record ChecksumResult =
  ch_status :: CudaStatus
  ch_crc :: u32
  ch_total_ns :: u64
  ch_kernel_ns :: u64
  ch_error :: string

type_synonym device_outcome = "(CudaStatus \<times> string) option \<times> Device"

definition stage ::
    "cuda_error \<Rightarrow> CudaStatus \<Rightarrow> string \<Rightarrow> Device \<Rightarrow> (Device \<Rightarrow> device_outcome) \<Rightarrow> device_outcome" where
  "stage answer code what dv k =
     (case answer of Some e \<Rightarrow> (Some (code, what @ e), dv) | None \<Rightarrow> k dv)"

definition launched :: "Device \<Rightarrow> Device" where
  "launched dv = dv\<lparr>dv_kernel_launches := dv_kernel_launches dv + 1\<rparr>"

definition copied :: "nat \<Rightarrow> Device \<Rightarrow> Device" where
  "copied n dv = dv\<lparr>dv_device_bytes_copied := dv_device_bytes_copied dv + of_nat n\<rparr>"

text \<open>Everything between the allocations and the single synchronisation.\<close>

definition device_phase :: "ChecksumAnswers \<Rightarrow> nat \<Rightarrow> Device \<Rightarrow> device_outcome" where
  "device_phase ca len dv =
     stage (ca_copy_in ca) TOS_CUDA_COPY_FAILED ''host-to-device copy failed: '' dv (\<lambda>dv.
     stage (ca_record_start ca) TOS_CUDA_INTERNAL_ERROR ''cudaEventRecord failed: '' (copied len dv) (\<lambda>dv.
     stage (ca_launch_chunk ca) TOS_CUDA_LAUNCH_FAILED ''crc32c_chunk_kernel launch failed: '' dv (\<lambda>dv.
     stage (ca_launch_fold ca) TOS_CUDA_LAUNCH_FAILED ''crc32c_fold_kernel launch failed: '' (launched dv) (\<lambda>dv.
     stage (ca_record_stop ca) TOS_CUDA_INTERNAL_ERROR ''cudaEventRecord failed: '' (launched dv) (\<lambda>dv.
     stage (ca_copy_out ca) TOS_CUDA_COPY_FAILED ''device-to-host copy failed: '' dv (\<lambda>dv.
     stage (ca_synchronize ca) TOS_CUDA_SYNCHRONIZE_FAILED ''cudaStreamSynchronize failed: '' dv (\<lambda>dv.
       (None, copied 4 dv))))))))"

definition allocated :: "u64 \<Rightarrow> Device \<Rightarrow> Device" where
  "allocated n dv = dv\<lparr>dv_outstanding_bytes := dv_outstanding_bytes dv + n\<rparr>"

definition released :: "u64 \<Rightarrow> Device \<Rightarrow> Device" where
  "released n dv = dv\<lparr>dv_outstanding_bytes := dv_outstanding_bytes dv - n\<rparr>"

definition pinned_total_bytes :: "nat \<Rightarrow> nat" where
  "pinned_total_bytes len = align4 (if len = 0 then 1 else len) + 4"

definition device_total_bytes :: "nat \<Rightarrow> nat" where
  "device_total_bytes len =
     (let ck = chunking_of len;
          chunk_slots = ck_chunk_count ck + (if ck_tail_bytes ck = 0 then 0 else 1)
      in align4 (if len = 0 then 1 else len) + align4 (chunk_slots * 4) + 4)"

text \<open>
  The scope guards release what was allocated on every way out. The pointers of the callers are never
  null, so the two checks for null pointers are not reached.
\<close>

definition with_allocations :: "ChecksumAnswers \<Rightarrow> nat \<Rightarrow> Device \<Rightarrow> device_outcome" where
  "with_allocations ca len dv =
     (let pinned = of_nat (pinned_total_bytes len); device = of_nat (device_total_bytes len) in
      case ca_pinned ca of
        Some e \<Rightarrow> (Some (TOS_CUDA_ALLOCATION_FAILED, ''device allocation failed: '' @ e), dv)
      | None \<Rightarrow>
          let dv1 = allocated pinned dv in
          case ca_device ca of
            Some e \<Rightarrow> (Some (TOS_CUDA_ALLOCATION_FAILED, ''device allocation failed: '' @ e), released pinned dv1)
          | None \<Rightarrow>
              case device_phase ca len (allocated device dv1) of
                (r, dv2) \<Rightarrow> (r, released pinned (released device dv2)))"

definition refused :: "CudaStatus \<Rightarrow> nat \<Rightarrow> string \<Rightarrow> ChecksumResult" where
  "refused st capacity e =
     \<lparr>ch_status = st, ch_crc = 0, ch_total_ns = 0, ch_kernel_ns = 0, ch_error = error_add capacity [] e\<rparr>"

definition tos_cuda_checksum_crc32c ::
    "ChecksumAnswers \<Rightarrow> u8 list \<Rightarrow> nat \<Rightarrow> Device \<Rightarrow> ChecksumResult \<times> Device" where
  "tos_cuda_checksum_crc32c ca data capacity dv =
     (if length data > kMaxDeviceBytes
      then (refused TOS_CUDA_INVALID_ARGUMENT capacity ''payload exceeds the device path bound'', dv)
      else if \<not> dv_open dv
      then (refused TOS_CUDA_NOT_OPEN capacity ''the CUDA device context is not open'', dv)
      else case with_allocations ca (length data) dv of
             (Some (st, e), dv') \<Rightarrow> (refused st capacity e, dv')
           | (None, dv') \<Rightarrow>
               (\<lparr>ch_status = TOS_CUDA_OK, ch_crc = launch_kernels (dv_operators dv) data,
                 ch_total_ns = ca_total_ns ca,
                 ch_kernel_ns = (case ca_elapsed_ns ca of None \<Rightarrow> 0 | Some ns \<Rightarrow> ns), ch_error = []\<rparr>, dv'))"

section \<open>Invariant of the device context\<close>

text \<open>An open context has its handles and the shift operators, and nothing is ever left allocated.\<close>

definition device_inv :: "Device \<Rightarrow> bool" where
  "device_inv dv \<longleftrightarrow> dv_outstanding_bytes dv = 0
     \<and> (dv_open dv \<longrightarrow> dv_operators dv = build_shift_operators \<and> dv_stream dv \<and> dv_kernel_start dv \<and> dv_kernel_stop dv)
     \<and> (\<not> dv_open dv \<longrightarrow> \<not> dv_stream dv \<and> \<not> dv_kernel_start dv \<and> \<not> dv_kernel_stop dv)"

inductive device_step :: "Device \<Rightarrow> Device \<Rightarrow> bool" where
  opens: "tos_cuda_open oa i capacity dv = (st, e, dv') \<Longrightarrow> device_step dv dv'"
| closes: "device_step dv (tos_cuda_close dv)"
| hashes: "tos_cuda_checksum_crc32c ca data capacity dv = (r, dv') \<Longrightarrow> device_step dv dv'"

text \<open>The fields an execution leaves alone.\<close>

definition same_context :: "Device \<Rightarrow> Device \<Rightarrow> bool" where
  "same_context dv dv' \<longleftrightarrow> dv_open dv' = dv_open dv \<and> dv_device_index dv' = dv_device_index dv
     \<and> dv_stream dv' = dv_stream dv \<and> dv_kernel_start dv' = dv_kernel_start dv
     \<and> dv_kernel_stop dv' = dv_kernel_stop dv \<and> dv_operators dv' = dv_operators dv
     \<and> dv_outstanding_bytes dv' = dv_outstanding_bytes dv"

lemma device_phase_refused: "fst (device_phase ca len dv) = Some (st, e) \<Longrightarrow> st \<noteq> TOS_CUDA_OK"
  by (auto simp: device_phase_def stage_def split: option.splits)

lemma with_allocations_refused: "with_allocations ca len dv = (Some (st, e), dv') \<Longrightarrow> st \<noteq> TOS_CUDA_OK"
  using device_phase_refused [of ca len
      "allocated (of_nat (device_total_bytes len)) (allocated (of_nat (pinned_total_bytes len)) dv)" st e]
  by (auto simp: with_allocations_def Let_def split: option.splits prod.splits)

lemma device_phase_context: "same_context dv (snd (device_phase ca len dv))"
  by (simp add: device_phase_def stage_def same_context_def copied_def launched_def split: option.split)

lemma with_allocations_context: "same_context dv (snd (with_allocations ca len dv))"
  using device_phase_context
    [of "allocated (of_nat (device_total_bytes len)) (allocated (of_nat (pinned_total_bytes len)) dv)" ca len]
  by (simp add: with_allocations_def Let_def split_beta same_context_def allocated_def released_def
      split: option.split)

lemma checksum_context: "same_context dv (snd (tos_cuda_checksum_crc32c ca data capacity dv))"
  using with_allocations_context [of dv ca "length data"]
  by (auto simp: tos_cuda_checksum_crc32c_def same_context_def split: prod.split option.split)

lemma device_step_inv:
  assumes "device_step dv dv'" and "device_inv dv"
  shows "device_inv dv'"
  using assms
proof cases
  case (opens oa i capacity st e)
  then show ?thesis
    using assms(2)
    by (auto simp: tos_cuda_open_def open_context_def device_inv_def Let_def split: prod.splits if_splits option.splits)
next
  case (hashes ca data capacity r)
  then show ?thesis
    using assms(2) checksum_context [of dv ca data capacity] by (simp add: same_context_def device_inv_def)
qed (use assms(2) in \<open>simp add: tos_cuda_close_def device_inv_def\<close>)

lemma device_run_inv: "device_step\<^sup>*\<^sup>* closed_device dv \<Longrightarrow> device_inv dv"
proof (induction rule: rtranclp_induct)
  case base
  show ?case by (simp add: closed_device_def device_inv_def)
qed (rule device_step_inv)

text \<open>
  However a process opens and closes its device and whatever the CUDA runtime answers, a checksum that
  is reported as done is the host checksum of the payload, and no device or pinned memory stays
  allocated afterwards, on the success path and on every error path.\<close>

theorem device_path_is_exact_and_leaves_no_memory:
  assumes "device_step\<^sup>*\<^sup>* closed_device dv" and "tos_cuda_checksum_crc32c ca data capacity dv = (r, dv')"
  shows "dv_outstanding_bytes dv' = 0 \<and> (ch_status r = TOS_CUDA_OK \<longrightarrow> ch_crc r = crc32c data)"
proof -
  have inv: "device_inv dv" using assms(1) by (rule device_run_inv)
  have "dv_outstanding_bytes dv' = 0"
    using inv checksum_context [of dv ca data capacity] assms(2) by (simp add: device_inv_def same_context_def)
  moreover have "ch_crc r = crc32c data" if "ch_status r = TOS_CUDA_OK"
    using that assms(2) inv kernels_exact [of data] with_allocations_refused [of ca "length data" dv]
    by (auto simp: tos_cuda_checksum_crc32c_def refused_def device_inv_def split: if_splits prod.splits option.splits)
  ultimately show ?thesis by simp
qed

definition demo_device :: Device where
  "demo_device = snd (snd (tos_cuda_open
     \<lparr>oa_probe = \<lparr>pa_device_count = (None, 1), pa_set_device = None, pa_initialise = None\<rparr>, oa_upload = None,
      oa_stream = None, oa_kernel_start = None, oa_kernel_stop = None\<rparr> 0 256 closed_device))"

definition all_good :: ChecksumAnswers where
  "all_good =
     \<lparr>ca_pinned = None, ca_device = None, ca_copy_in = None, ca_record_start = None, ca_launch_chunk = None,
      ca_launch_fold = None, ca_record_stop = None, ca_copy_out = None, ca_synchronize = None,
      ca_elapsed_ns = Some 5, ca_total_ns = 9\<rparr>"

theorem device_path_is_exact_and_leaves_no_memory_witness:
  "ch_status (fst (tos_cuda_checksum_crc32c all_good [1, 2, 3] 256 demo_device)) = TOS_CUDA_OK
   \<and> ch_crc (fst (tos_cuda_checksum_crc32c all_good [1, 2, 3] 256 demo_device)) = crc32c [1, 2, 3]"
proof -
  have "device_step\<^sup>*\<^sup>* closed_device demo_device"
    unfolding demo_device_def by (rule r_into_rtranclp) (metis device_step.opens prod.collapse)
  moreover have "dv_open demo_device"
    by (simp add: demo_device_def tos_cuda_open_def open_context_def probe_device_def closed_device_def Let_def)
  then have "ch_status (fst (tos_cuda_checksum_crc32c all_good [1, 2, 3] 256 demo_device)) = TOS_CUDA_OK"
    by (simp add: tos_cuda_checksum_crc32c_def with_allocations_def device_phase_def stage_def all_good_def
        kMaxDeviceBytes_def Let_def split_beta)
  ultimately show ?thesis
    using device_path_is_exact_and_leaves_no_memory [of demo_device all_good "[1, 2, 3]" 256] by (metis prod.collapse)
qed

end
