(* ===== verification/Tos_Render.thy ===== *)
theory Tos_Render
  imports Tos_Recovery
begin

text \<open>
  Renderings: identities as text (\<^verbatim>\<open>src/src/core/identities.cpp\<close>), decision explanations
  (\<^verbatim>\<open>src/src/core/decision.cpp\<close>), snapshots (\<^verbatim>\<open>src/src/core/snapshot.cpp\<close>) and reconciliation reports
  (\<^verbatim>\<open>src/src/core/reconcile.cpp\<close>). The documents are built from quoted texts, numbers and truth values by
  \<open>json_object\<close> and \<open>json_array\<close>. A parser of compact JSON, which is part of the specification and not of
  the program, says what a document denotes.
\<close>

section \<open>Identities\<close>

definition hex_nibble :: "u64 \<Rightarrow> nat \<Rightarrow> char" where
  "hex_nibble v i = ''0123456789abcdef'' ! (unat v div 16 ^ i mod 16)"

definition format_id :: "u64 \<Rightarrow> string" where
  "format_id v = ''0x'' @ map (\<lambda>i. hex_nibble v (15 - i)) [0..<16]"

text \<open>
  \<^verbatim>\<open>std::strtoull\<close> on a buffer with a base: white space, a sign, the prefix of base 16, the digits. The
  value saturates; a minus sign negates it. The result is the value with the characters left, or
  \<open>None\<close> when there was no digit.
\<close>

definition digit_value :: "char \<Rightarrow> nat" where
  "digit_value c =
     (let n = of_char c :: nat in
      if 48 \<le> n \<and> n \<le> 57 then n - 48
      else if 97 \<le> n \<and> n \<le> 122 then n - 97 + 10
      else if 65 \<le> n \<and> n \<le> 90 then n - 65 + 10
      else 36)"

definition is_space :: "char \<Rightarrow> bool" where
  "is_space c = (let n = of_char c :: nat in n = 32 \<or> (9 \<le> n \<and> n \<le> 13))"

definition digits_value :: "nat \<Rightarrow> string \<Rightarrow> nat" where
  "digits_value base ds = foldl (\<lambda>v c. v * base + digit_value c) 0 ds"

definition skip_hex_prefix :: "nat \<Rightarrow> string \<Rightarrow> string" where
  "skip_hex_prefix base s =
     (case s of
        z # x # h # rest \<Rightarrow>
          if base = 16 \<and> z = CHR ''0'' \<and> (x = CHR ''x'' \<or> x = CHR ''X'') \<and> digit_value h < 16
          then h # rest else s
      | _ \<Rightarrow> s)"

definition strtoull :: "nat \<Rightarrow> string \<Rightarrow> (u64 \<times> string) option" where
  "strtoull base buffer =
     (let s = dropWhile is_space buffer;
          negative = (s \<noteq> [] \<and> hd s = CHR ''-'');
          unsigned = (if s \<noteq> [] \<and> (hd s = CHR ''-'' \<or> hd s = CHR ''+'') then tl s else s);
          body = skip_hex_prefix base unsigned;
          ds = takeWhile (\<lambda>c. digit_value c < base) body;
          v = digits_value base ds
      in if ds = [] then None
         else Some (if v \<ge> 2 ^ 64 then - 1 else if negative then - of_nat v else of_nat v,
                    drop (length ds) body))"

text \<open>\<^verbatim>\<open>parse_id\<close>: the buffer ends at the first zero character.\<close>

definition parse_id :: "string \<Rightarrow> u64 option" where
  "parse_id text =
     (if text = [] \<or> length text > 20 then None
      else
        let base = (if length text > 2 \<and> text ! 0 = CHR ''0'' \<and> (text ! 1 = CHR ''x'' \<or> text ! 1 = CHR ''X'')
                    then 16 else if text ! 0 = CHR ''0'' \<and> length text > 1 then 8 else 10)
        in case strtoull base (takeWhile (\<lambda>c. c \<noteq> CHR 0x00) text) of
             None \<Rightarrow> None
           | Some (v, rest) \<Rightarrow> if rest = [] then Some v else None)"

section \<open>Documents\<close>

fun escape_char :: "(char \<Rightarrow> string) \<Rightarrow> char \<Rightarrow> string" where
  "escape_char control c =
     (if c = CHR 0x22 then [CHR 0x5C, CHR 0x22]
      else if c = CHR 0x5C then [CHR 0x5C, CHR 0x5C]
      else if c = CHR 0x0A then [CHR 0x5C, CHR ''n'']
      else if c = CHR 0x0D then [CHR 0x5C, CHR ''r'']
      else if c = CHR 0x09 then [CHR 0x5C, CHR ''t'']
      else if (of_char c :: nat) < 0x20 then control c
      else [c])"

declare escape_char.simps [simp del]

text \<open>\<^verbatim>\<open>quote_json\<close> of \<^verbatim>\<open>decision.cpp\<close> replaces other control characters, \<^verbatim>\<open>quote\<close> of \<^verbatim>\<open>snapshot.cpp\<close> writes their code.\<close>

definition quote_json :: "string \<Rightarrow> string" where
  "quote_json s = CHR 0x22 # concat (map (escape_char (\<lambda>_. ''?'')) s) @ [CHR 0x22]"

definition unicode_escape :: "char \<Rightarrow> string" where
  "unicode_escape c =
     CHR 0x5C # ''u00'' @
       [''0123456789abcdef'' ! ((of_char c :: nat) div 16), ''0123456789abcdef'' ! ((of_char c :: nat) mod 16)]"

definition quote :: "string \<Rightarrow> string" where
  "quote s = CHR 0x22 # concat (map (escape_char unicode_escape) s) @ [CHR 0x22]"

fun comma_list :: "string list \<Rightarrow> string" where
  "comma_list [] = []"
| "comma_list [s] = s"
| "comma_list (s # t # rest) = s @ CHR '','' # comma_list (t # rest)"

text \<open>The calls of \<^verbatim>\<open>field\<close> and \<^verbatim>\<open>append_field\<close> between the braces of one object, and a loop over a list.\<close>

definition json_object :: "(string \<Rightarrow> string) \<Rightarrow> (string \<times> string) list \<Rightarrow> string" where
  "json_object q parts =
     ''{'' @ comma_list (map (\<lambda>(name, value_text). q name @ '':'' @ value_text) parts) @ ''}''"

definition json_array :: "string list \<Rightarrow> string" where
  "json_array entries = ''['' @ comma_list entries @ '']''"

definition json_bool :: "bool \<Rightarrow> string" where
  "json_bool b = (if b then ''true'' else ''false'')"

section \<open>Decisions\<close>

definition has_reason :: "DecisionExplanation \<Rightarrow> string \<Rightarrow> bool" where
  "has_reason e code = list_ex (\<lambda>r. dn_code r = code) (ex_reasons e)"

definition primary_reason_code :: "DecisionExplanation \<Rightarrow> string" where
  "primary_reason_code e = (case ex_reasons e of [] \<Rightarrow> ''none'' | r # _ \<Rightarrow> dn_code r)"

definition reason_json :: "DecisionReason \<Rightarrow> string" where
  "reason_json r =
     json_object quote_json [(''code'', quote_json (dn_code r)), (''detail'', quote_json (dn_detail r))]"

definition candidate_json :: "CandidateEvaluation \<Rightarrow> string" where
  "candidate_json c =
     json_object quote_json
       [(''domain'', quote_json (format_id (ce_domain c))),
        (''domain_type'', quote_json (to_string_ExecutionDomainType (ce_domain_type c))),
        (''provenance'', quote_json (to_string_Provenance (ce_provenance c))),
        (''eligible'', json_bool (ce_eligible c)),
        (''reason'', quote_json (to_string_IneligibilityReason (ce_reason c))),
        (''detail'', quote_json (ce_detail c))]"

definition ranked_json :: "RankedCandidate \<Rightarrow> string" where
  "ranked_json c =
     json_object quote_json
       [(''domain'', quote_json (format_id (rc_domain_id c))),
        (''rank'', decimal (unat (rc_rank c))),
        (''score'', to_string_int (rc_weighted_score c)),
        (''total_weight'', to_string_int (rc_total_weight c)),
        (''factors'', json_object quote_json
           (map (\<lambda>k. (to_string_RankingFactor k, to_string_int (rc_factors c k))) all_RankingFactor))]"

definition render_explanation_json :: "DecisionExplanation \<Rightarrow> string" where
  "render_explanation_json e =
     json_object quote_json
       [(''outcome'', quote_json (to_string_SelectionOutcome (ex_outcome e))),
        (''operation'', quote_json (format_id (ex_operation e))),
        (''operation_class'', quote_json (ex_operation_class_name e)),
        (''selected_domain'', quote_json (format_id (ex_selected_domain e))),
        (''selected_domain_type'', quote_json (to_string_ExecutionDomainType (ex_selected_domain_type e))),
        (''selected_provenance'', quote_json (to_string_Provenance (ex_selected_provenance e))),
        (''selected_is_offload'', json_bool (ex_selected_is_offload e)),
        (''fallback_used'', json_bool (ex_fallback_used e)),
        (''fallback_depth'', decimal (unat (ex_fallback_depth e))),
        (''fallback_from'', quote_json (format_id (ex_fallback_from e))),
        (''evaluated_candidates'', to_string_u64 (ex_evaluated_candidates e)),
        (''rejected_candidates'', to_string_u64 (ex_rejected_candidates e)),
        (''policy_generation'', to_string_u64 (ex_policy_generation e)),
        (''snapshot_generation'', to_string_u64 (ex_snapshot e)),
        (''reasons'', json_array (map reason_json (ex_reasons e))),
        (''candidates'', json_array (map candidate_json (ex_candidates e))),
        (''ranking'', json_array (map ranked_json (ex_ranking e))),
        (''fallback_chain_tried'',
           json_array (map (\<lambda>t. quote_json (to_string_ExecutionDomainType t)) (ex_fallback_chain_tried e)))]"

section \<open>Snapshots\<close>

definition id_text :: "u64 \<Rightarrow> string" where
  "id_text v = format_id v"

definition totals_json :: "SnapshotTotals \<Rightarrow> string" where
  "totals_json t =
     json_object quote
       [(''domains'', to_string_u64 (tt_domains t)),
        (''domains_fenced'', to_string_u64 (tt_domains_fenced t)),
        (''domains_with_current_evidence'', to_string_u64 (tt_domains_with_current_evidence t)),
        (''live_attempts'', to_string_u64 (tt_live_attempts t)),
        (''completed_attempts'', to_string_u64 (tt_completed_attempts t)),
        (''ambiguous_attempts'', to_string_u64 (tt_ambiguous_attempts t)),
        (''fenced_attempts'', to_string_u64 (tt_fenced_attempts t)),
        (''outstanding_reservations'', to_string_u64 (tt_outstanding_reservations t)),
        (''plans_created'', to_string_u64 (tt_plans_created t)),
        (''plans_dispatched'', to_string_u64 (tt_plans_dispatched t)),
        (''dispatch_rejections'', to_string_u64 (tt_dispatch_rejections t)),
        (''completion_rejections'', to_string_u64 (tt_completion_rejections t)),
        (''fallbacks'', to_string_u64 (tt_fallbacks t)),
        (''retries'', to_string_u64 (tt_retries t))]"

definition domain_json :: "ExecutionDomainRecord \<Rightarrow> string" where
  "domain_json d =
     json_object quote
       [(''id'', quote (id_text (dr_id d))), (''name'', quote (dr_name d)),
        (''type'', quote (to_string_ExecutionDomainType (dr_type d))),
        (''provenance'', quote (to_string_Provenance (dr_provenance d))),
        (''domain_generation'', to_string_u64 (dr_generation d)),
        (''capability_generation'', to_string_u64 (cap_generation (dr_capability d))),
        (''worker'', quote (id_text (dr_worker d))),
        (''worker_boot'', quote (id_text (dr_worker_boot d))),
        (''fenced'', json_bool (dr_fenced d)),
        (''isolation'', quote (to_string_IsolationClass (dr_isolation d))),
        (''topology_generation'', to_string_u64 (to_generation (dr_topology d))),
        (''locality_generation'', to_string_u64 (lo_generation (dr_locality d))),
        (''health_generation'', to_string_u64 (ld_health_generation (dr_load d))),
        (''queue_generation'', to_string_u64 (ld_queue_generation (dr_load d))),
        (''load_generation'', to_string_u64 (ld_load_generation (dr_load d))),
        (''compatibility_generation'', to_string_u64 (cm_generation (dr_compatibility d))),
        (''evidence_generation'', to_string_u64 (cap_evidence (dr_capability d))),
        (''evidence_current'', json_bool (load_published (dr_load d))),
        (''healthy'', json_bool (ld_healthy (dr_load d))), (''ready'', json_bool (ld_ready (dr_load d))),
        (''utilization_percent'', decimal (unat (ld_utilization_percent (dr_load d)))),
        (''queue_depth'', decimal (unat (ld_queue_depth (dr_load d)))),
        (''in_flight'', decimal (unat (ld_in_flight (dr_load d)))),
        (''congestion_percent'', decimal (unat (ld_congestion_percent (dr_load d)))),
        (''locality_class'', quote (to_string_LocalityClass (lo_class_to_payload (dr_locality d)))),
        (''parent_host'', quote (dr_parent_host d)), (''parent_device'', quote (dr_parent_device d)),
        (''backend_family'', quote (cs_backend_family (cap_capability (dr_capability d)))),
        (''driver_backend_version'', decimal (unat (cm_driver_backend_version (dr_compatibility d)))),
        (''firmware_generation'', decimal (unat (cm_firmware_generation (dr_compatibility d)))),
        (''backend_generation'', to_string_u64 (dr_backend_generation d))]"

definition worker_json :: "WorkerBootView \<Rightarrow> string" where
  "worker_json w =
     json_object quote
       [(''worker'', quote (id_text (wb_worker w))), (''boot'', quote (id_text (wb_boot w))),
        (''current'', json_bool (wb_current w)), (''fenced'', json_bool (wb_fenced w))]"

definition reservation_json :: "Reservation \<Rightarrow> string" where
  "reservation_json r =
     json_object quote
       [(''id'', quote (id_text (res_id r))), (''domain'', quote (id_text (res_domain r))),
        (''state'', quote (to_string_ReservationState (res_state r))),
        (''domain_generation'', to_string_u64 (res_domain_generation r)),
        (''capability_generation'', to_string_u64 (res_capability_generation r)),
        (''policy_generation'', to_string_u64 (res_policy_generation r)),
        (''operation'', quote (id_text (res_operation r)))]"

definition attempt_json :: "ExecutionAttempt \<Rightarrow> string" where
  "attempt_json a =
     json_object quote
       [(''id'', quote (id_text (att_id a))), (''generation'', to_string_u64 (att_generation a)),
        (''operation'', quote (id_text (att_operation a))), (''domain'', quote (id_text (att_domain a))),
        (''domain_type'', quote (to_string_ExecutionDomainType (att_domain_type a))),
        (''state'', quote (to_string_AttemptState (att_state a))),
        (''resolution'', quote (to_string_AttemptResolution (att_resolution a))),
        (''side_effect'', quote (to_string_SideEffectClass (att_side_effect a))),
        (''failure'', quote (to_string_FailureKind (att_failure a))),
        (''fallback'', json_bool (att_fallback a)),
        (''retry_index'', decimal (unat (att_retry_index a))),
        (''completion_committed'', json_bool (att_completion_committed a)),
        (''worker_boot'', quote (id_text (att_worker_boot a))),
        (''coordinator_epoch'', to_string_u64 (att_coordinator_epoch a)),
        (''provenance'', quote (to_string_Provenance (att_provenance a))),
        (''result_digest'', to_string_u64 (rp_result_digest (att_result a))),
        (''bytes_processed'', to_string_u64 (rp_bytes_processed (att_result a))),
        (''detail'', quote (att_close_reason a))]"

definition item_json :: "ReconciliationItem \<Rightarrow> string" where
  "item_json i =
     json_object quote
       [(''kind'', quote (to_string_DiscrepancyKind (ri_kind i))),
        (''domain'', quote (id_text (ri_domain i))), (''domain_name'', quote (ri_domain_name i)),
        (''expected_generation'', to_string_u64 (ri_expected_generation i)),
        (''observed_generation'', to_string_u64 (ri_observed_generation i)),
        (''expected_boot'', quote (id_text (ri_expected_boot i))),
        (''observed_boot'', quote (id_text (ri_observed_boot i))),
        (''attempt'', quote (id_text (ri_attempt i))), (''detail'', quote (ri_detail i))]"

definition report_json :: "ReconciliationReport \<Rightarrow> string" where
  "report_json r =
     json_object quote
       [(''coordinator_epoch'', to_string_u64 (rr_coordinator_epoch r)),
        (''domains_compared'', to_string_u64 (rr_domains_compared r)),
        (''domains_matched'', to_string_u64 (rr_domains_matched r)),
        (''discrepancies'', to_string_u64 (rr_discrepancies r)),
        (''items'', json_array (map item_json (rr_items r)))]"

definition render_json :: "SchedulerSnapshot \<Rightarrow> string" where
  "render_json s =
     json_object quote
       [(''snapshot_generation'', to_string_u64 (sn_generation s)),
        (''coordinator_epoch'', to_string_u64 (sn_coordinator_epoch s)),
        (''policy_generation'', to_string_u64 (sn_policy_generation s)),
        (''running'', json_bool (sn_running s)),
        (''mutation_sequence'', to_string_u64 (sn_mutation_sequence s)),
        (''totals'', totals_json (sn_totals s)),
        (''domains'', json_array (map domain_json (sn_domains s))),
        (''workers'', json_array (map worker_json (sn_workers s))),
        (''reservations'', json_array (map reservation_json (sn_reservations s))),
        (''attempts'', json_array (map attempt_json (sn_attempts s))),
        (''reconciliations'', json_array (map report_json (sn_reconciliations s)))]"

definition snapshot_find_domain :: "SchedulerSnapshot \<Rightarrow> u64 \<Rightarrow> ExecutionDomainRecord option" where
  "snapshot_find_domain s i = find (\<lambda>d. dr_id d = i) (sn_domains s)"

section \<open>Text\<close>

definition newline :: string where "newline = [CHR 0x0A]"

definition yes_no :: "bool \<Rightarrow> string" where
  "yes_no b = (if b then ''yes'' else ''no'')"

definition count_of :: "ReconciliationReport \<Rightarrow> DiscrepancyKind \<Rightarrow> u64" where
  "count_of r kind = of_nat (length (filter (\<lambda>i. ri_kind i = kind) (rr_items r)))"

definition item_text :: "ReconciliationItem \<Rightarrow> string" where
  "item_text i =
     ''  discrepancy '' @ to_string_DiscrepancyKind (ri_kind i) @ '' domain '' @
     (if ri_domain_name i = [] then format_id (ri_domain i) else ri_domain_name i) @
     '' expected_gen='' @ to_string_u64 (ri_expected_generation i) @
     '' observed_gen='' @ to_string_u64 (ri_observed_generation i) @
     '' expected_boot='' @ format_id (ri_expected_boot i) @
     '' observed_boot='' @ format_id (ri_observed_boot i) @
     (if valid (ri_attempt i) then '' attempt='' @ format_id (ri_attempt i) else []) @
     '' detail='' @ ri_detail i @ newline"

definition render_report_text :: "ReconciliationReport \<Rightarrow> string" where
  "render_report_text r =
     ''reconciliation epoch='' @ to_string_u64 (rr_coordinator_epoch r) @
     '' compared='' @ to_string_u64 (rr_domains_compared r) @
     '' matched='' @ to_string_u64 (rr_domains_matched r) @
     '' discrepancies='' @ to_string_u64 (rr_discrepancies r) @
     '' attempts_classified='' @ to_string_u64 (rr_attempts_classified r) @
     '' conservative='' @ yes_no (rr_conservative r) @ newline @
     concat (map item_text (rr_items r))"

definition totals_text :: "SnapshotTotals \<Rightarrow> string" where
  "totals_text t =
     ''domains='' @ to_string_u64 (tt_domains t) @ '' fenced='' @ to_string_u64 (tt_domains_fenced t) @
     '' current_evidence='' @ to_string_u64 (tt_domains_with_current_evidence t) @
     '' live_attempts='' @ to_string_u64 (tt_live_attempts t) @
     '' completed='' @ to_string_u64 (tt_completed_attempts t) @
     '' ambiguous='' @ to_string_u64 (tt_ambiguous_attempts t) @
     '' fenced_attempts='' @ to_string_u64 (tt_fenced_attempts t) @
     '' reservations='' @ to_string_u64 (tt_outstanding_reservations t) @ newline @
     ''plans='' @ to_string_u64 (tt_plans_created t) @
     '' dispatched='' @ to_string_u64 (tt_plans_dispatched t) @
     '' dispatch_rejections='' @ to_string_u64 (tt_dispatch_rejections t) @
     '' completion_rejections='' @ to_string_u64 (tt_completion_rejections t) @
     '' fallbacks='' @ to_string_u64 (tt_fallbacks t) @ '' retries='' @ to_string_u64 (tt_retries t) @
     newline"

definition domain_text :: "ExecutionDomainRecord \<Rightarrow> string" where
  "domain_text d =
     ''  domain '' @ id_text (dr_id d) @ '' '' @ dr_name d @ '' ['' @
     to_string_ExecutionDomainType (dr_type d) @ ''/'' @ to_string_Provenance (dr_provenance d) @
     '']'' @ '' gen='' @ to_string_u64 (dr_generation d) @
     '' cap='' @ to_string_u64 (cap_generation (dr_capability d)) @
     '' boot='' @ id_text (dr_worker_boot d) @ (if dr_fenced d then '' FENCED'' else []) @
     (if load_published (dr_load d) then [] else '' evidence=stale'') @
     '' isolation='' @ to_string_IsolationClass (dr_isolation d) @ newline"

definition worker_text :: "WorkerBootView \<Rightarrow> string" where
  "worker_text w =
     ''  worker '' @ id_text (wb_worker w) @ '' boot '' @ id_text (wb_boot w) @
     (if wb_current w then '' current'' else []) @ (if wb_fenced w then '' fenced'' else []) @ newline"

definition reservation_text :: "Reservation \<Rightarrow> string" where
  "reservation_text r =
     ''  reservation '' @ id_text (res_id r) @ '' domain '' @ id_text (res_domain r) @
     '' state '' @ to_string_ReservationState (res_state r) @ newline"

definition attempt_text :: "ExecutionAttempt \<Rightarrow> string" where
  "attempt_text a =
     ''  attempt '' @ id_text (att_id a) @ '' gen '' @ to_string_u64 (att_generation a) @
     '' operation '' @ id_text (att_operation a) @ '' domain '' @ id_text (att_domain a) @ '' '' @
     to_string_AttemptState (att_state a) @ ''/'' @ to_string_AttemptResolution (att_resolution a) @
     '' side_effect '' @ to_string_SideEffectClass (att_side_effect a) @
     '' origin '' @ to_string_Provenance (att_provenance a) @ newline"

definition render_text :: "SchedulerSnapshot \<Rightarrow> string" where
  "render_text s =
     ''snapshot generation='' @ id_text (sn_generation s) @
     '' coordinator_epoch='' @ to_string_u64 (sn_coordinator_epoch s) @
     '' policy_generation='' @ id_text (sn_policy_generation s) @
     '' running='' @ yes_no (sn_running s) @ newline @ totals_text (sn_totals s) @
     concat (map domain_text (sn_domains s)) @ concat (map worker_text (sn_workers s)) @
     concat (map reservation_text (sn_reservations s)) @ concat (map attempt_text (sn_attempts s)) @
     concat (map render_report_text (sn_reconciliations s))"

section \<open>What a document denotes\<close>

datatype Json =
    JString string
  | JNumber int
  | JBool bool
  | JArray "Json list"
  | JObject "(string \<times> Json) list"

text \<open>The characters of a string after its opening quote.\<close>

fun parse_chars :: "string \<Rightarrow> (string \<times> string) option" where
  "parse_chars [] = None"
| "parse_chars (c # cs) =
     (if c = CHR 0x22 then Some ([], cs)
      else if c = CHR 0x5C
      then case cs of
             [] \<Rightarrow> None
           | e # r \<Rightarrow>
               if e = CHR 0x22 \<or> e = CHR 0x5C then map_option (apfst (Cons e)) (parse_chars r)
               else if e = CHR ''n'' then map_option (apfst (Cons (CHR 0x0A))) (parse_chars r)
               else if e = CHR ''r'' then map_option (apfst (Cons (CHR 0x0D))) (parse_chars r)
               else if e = CHR ''t'' then map_option (apfst (Cons (CHR 0x09))) (parse_chars r)
               else if e = CHR ''u'' \<and> length r \<ge> 4 \<and> list_all (\<lambda>h. digit_value h < 16) (take 4 r)
                       \<and> digits_value 16 (take 4 r) < 256
               then map_option (apfst (Cons (char_of (digits_value 16 (take 4 r))))) (parse_chars (drop 4 r))
               else None
      else if (of_char c :: nat) < 0x20 then None
      else map_option (apfst (Cons c)) (parse_chars cs))"

definition parse_number :: "string \<Rightarrow> (Json \<times> string) option" where
  "parse_number s =
     (let negative = (s \<noteq> [] \<and> hd s = CHR ''-''); body = (if negative then tl s else s);
          ds = takeWhile (\<lambda>c. digit_value c < 10) body
      in if ds = [] then None
         else Some (JNumber ((if negative then - 1 else 1) * int (digits_value 10 ds)), drop (length ds) body))"

text \<open>Values, the rest of an array and the rest of an object; the first argument bounds the depth.\<close>

fun parse_value :: "nat \<Rightarrow> string \<Rightarrow> (Json \<times> string) option"
  and parse_items :: "nat \<Rightarrow> string \<Rightarrow> (Json list \<times> string) option"
  and parse_members :: "nat \<Rightarrow> string \<Rightarrow> ((string \<times> Json) list \<times> string) option" where
  "parse_value 0 s = None"
| "parse_value (Suc n) s =
     (case s of
        [] \<Rightarrow> None
      | c # cs \<Rightarrow>
          if c = CHR 0x22 then map_option (apfst JString) (parse_chars cs)
          else if c = CHR ''{''
          then (if cs \<noteq> [] \<and> hd cs = CHR ''}'' then Some (JObject [], tl cs)
                else map_option (apfst JObject) (parse_members n cs))
          else if c = CHR ''[''
          then (if cs \<noteq> [] \<and> hd cs = CHR '']'' then Some (JArray [], tl cs)
                else map_option (apfst JArray) (parse_items n cs))
          else if take 4 s = ''true'' then Some (JBool True, drop 4 s)
          else if take 5 s = ''false'' then Some (JBool False, drop 5 s)
          else parse_number s)"
| "parse_items 0 s = None"
| "parse_items (Suc n) s =
     (case parse_value n s of
        None \<Rightarrow> None
      | Some (v, r) \<Rightarrow>
          if r \<noteq> [] \<and> hd r = CHR '','' then map_option (apfst (Cons v)) (parse_items n (tl r))
          else if r \<noteq> [] \<and> hd r = CHR '']'' then Some ([v], tl r)
          else None)"
| "parse_members 0 s = None"
| "parse_members (Suc n) s =
     (if s = [] \<or> hd s \<noteq> CHR 0x22 then None
      else case parse_chars (tl s) of
             None \<Rightarrow> None
           | Some (name, r) \<Rightarrow>
               if r = [] \<or> hd r \<noteq> CHR '':'' then None
               else case parse_value n (tl r) of
                      None \<Rightarrow> None
                    | Some (v, r') \<Rightarrow>
                        if r' \<noteq> [] \<and> hd r' = CHR '','' then map_option (apfst (Cons (name, v))) (parse_members n (tl r'))
                        else if r' \<noteq> [] \<and> hd r' = CHR ''}'' then Some ([(name, v)], tl r')
                        else None)"

definition parse_json :: "string \<Rightarrow> Json option" where
  "parse_json s = (case parse_value (length s) s of Some (v, []) \<Rightarrow> Some v | _ \<Rightarrow> None)"

text \<open>
  A text denotes a value when it parses to it in front of everything that can follow a value in a
  document.
\<close>

definition follows :: "string \<Rightarrow> bool" where
  "follows rest \<longleftrightarrow> rest = [] \<or> hd rest \<in> {CHR '','', CHR '']'', CHR ''}''}"

definition denotes :: "string \<Rightarrow> Json \<Rightarrow> bool" where
  "denotes s v \<longleftrightarrow> (\<forall>rest n. follows rest \<and> length s \<le> n \<longrightarrow> parse_value n (s @ rest) = Some (v, rest))"

lemma denotes_parse: "denotes s v \<Longrightarrow> parse_json s = Some v"
  unfolding denotes_def parse_json_def by (metis append_Nil2 follows_def le_refl list.simps(4) option.simps(5) prod.simps(2))

lemma denotesI:
  assumes "s \<noteq> []"
    and "\<And>rest n. follows rest \<Longrightarrow> length s \<le> Suc n \<Longrightarrow> parse_value (Suc n) (s @ rest) = Some (v, rest)"
  shows "denotes s v"
  unfolding denotes_def
proof (intro allI impI)
  fix rest n
  assume n: "follows rest \<and> length s \<le> n"
  then obtain n' where "n = Suc n'" using assms(1) by (cases n) auto
  with n assms(2) show "parse_value n (s @ rest) = Some (v, rest)" by simp
qed

lemma denotesD: "denotes s v \<Longrightarrow> follows rest \<Longrightarrow> length s \<le> n \<Longrightarrow> parse_value n (s @ rest) = Some (v, rest)"
  by (simp add: denotes_def)

lemma denotes_bool: "denotes (json_bool b) (JBool b)"
  by (rule denotesI) (auto simp: json_bool_def)

declare parse_value.simps [simp del] parse_items.simps [simp del] parse_members.simps [simp del]

lemma follows_not_digit: "follows rest \<Longrightarrow> takeWhile (\<lambda>c. digit_value c < 10) rest = []"
  by (cases rest) (auto simp: follows_def digit_value_def)

section \<open>Numbers\<close>

lemma digit_value_digit_char: "d < 10 \<Longrightarrow> digit_value (digit_char d) = d"
  by (simp add: digit_value_def digit_char_def Let_def)

lemma decimal_digits: "list_all (\<lambda>c. digit_value c < 10) (decimal n)"
proof (induction n rule: decimal.induct)
  case (1 n)
  then show ?case by (subst decimal.simps) (simp add: digit_value_digit_char)
qed

lemma decimal_value: "digits_value 10 (decimal n) = n"
proof (induction n rule: decimal.induct)
  case (1 n)
  then show ?case by (subst decimal.simps) (simp add: digit_value_digit_char digits_value_def)
qed

lemma decimal_nonempty: "decimal n \<noteq> []"
  by (subst decimal.simps) simp

lemma parse_decimal:
  assumes "follows rest"
  shows "parse_number (decimal n @ rest) = Some (JNumber (int n), rest)"
    "parse_number (CHR ''-'' # decimal n @ rest) = Some (JNumber (- int n), rest)"
proof -
  have take_digits: "takeWhile (\<lambda>c. digit_value c < 10) (decimal n @ rest) = decimal n"
    using decimal_digits [of n] follows_not_digit [OF assms] by (simp add: list_all_iff takeWhile_append2)
  obtain c cs where c: "decimal n = c # cs" using decimal_nonempty [of n] by (cases "decimal n") auto
  then have "digit_value c < 10" using decimal_digits [of n] by simp
  then have "c \<noteq> CHR ''-''" by (auto simp: digit_value_def)
  then show "parse_number (decimal n @ rest) = Some (JNumber (int n), rest)"
    using take_digits decimal_value [of n] by (simp add: parse_number_def c Let_def)
  show "parse_number (CHR ''-'' # decimal n @ rest) = Some (JNumber (- int n), rest)"
    using take_digits decimal_value [of n] by (simp add: parse_number_def c Let_def)
qed

lemma number_start:
  assumes "digit_value c < 10 \<or> c = CHR ''-''"
  shows "parse_value (Suc n) (c # cs) = parse_number (c # cs)"
proof -
  have "c \<noteq> CHR 0x22" "c \<noteq> CHR ''{''" "c \<noteq> CHR ''[''" "c \<noteq> CHR ''t''" "c \<noteq> CHR ''f''"
    using assms by (auto simp: digit_value_def)
  then show ?thesis by (simp add: parse_value.simps numeral_eq_Suc)
qed

lemma denotes_decimal: "denotes (decimal n) (JNumber (int n))"
proof -
  obtain c cs where c: "decimal n = c # cs" using decimal_nonempty [of n] by (cases "decimal n") auto
  then have "digit_value c < 10" using decimal_digits [of n] by simp
  then show ?thesis
    using parse_decimal(1) [of _ n] number_start [of c] by (intro denotesI) (simp_all add: c)
qed

lemma denotes_int: "denotes (to_string_int v) (JNumber v)"
proof (cases "v < 0")
  case True
  then show ?thesis
    using parse_decimal(2) [of _ "nat (- v)"] number_start [of "CHR ''-''"]
    by (intro denotesI) (simp_all add: to_string_int_def)
next
  case False
  then show ?thesis using denotes_decimal [of "nat v"] by (simp add: to_string_int_def)
qed

lemma denotes_u64: "denotes (to_string_u64 v) (JNumber (uint v))"
  using denotes_decimal [of "unat v"] by (simp add: to_string_u64_def)

section \<open>Texts, arrays and objects\<close>

lemma parse_items_list:
  "list_all2 denotes ss vs \<Longrightarrow> ss \<noteq> [] \<Longrightarrow> length (comma_list ss) < n \<Longrightarrow>
     parse_items n (comma_list ss @ CHR '']'' # rest) = Some (vs, rest)"
proof (induction ss arbitrary: vs n rule: comma_list.induct)
  case (2 s)
  then obtain v n' where v: "vs = [v]" "denotes s v" "n = Suc n'" by (cases n) (auto simp: list_all2_Cons1)
  then have "parse_value n' (s @ CHR '']'' # rest) = Some (v, CHR '']'' # rest)"
    using 2(3) by (intro denotesD) (simp_all add: follows_def)
  then show ?case using v by (simp add: parse_items.simps)
next
  case (3 s t ss)
  then obtain v vs' n' where v: "vs = v # vs'" "denotes s v" "list_all2 denotes (t # ss) vs'" "n = Suc n'"
    by (cases n) (auto simp: list_all2_Cons1)
  let ?tail = "comma_list (t # ss) @ CHR '']'' # rest"
  have "parse_items n' ?tail = Some (vs', rest)"
    using 3(1) [OF v(3), of n'] 3(4) v(4) by simp
  moreover have "parse_value n' (s @ CHR '','' # ?tail) = Some (v, CHR '','' # ?tail)"
    using v 3(4) by (intro denotesD) (simp_all add: follows_def)
  ultimately show ?case using v by (simp add: parse_items.simps)
qed simp

lemma denotes_start: "denotes s v \<Longrightarrow> s \<noteq> [] \<and> hd s \<noteq> CHR '']''"
proof
  assume s: "denotes s v"
  show "s \<noteq> []"
  proof
    assume "s = []"
    with denotesD [OF s, of "[]" 0] show False by (simp add: follows_def parse_value.simps)
  qed
  show "hd s \<noteq> CHR '']''"
  proof
    assume "hd s = CHR '']''"
    with \<open>s \<noteq> []\<close> obtain r where r: "s = CHR '']'' # r" by (cases s) auto
    have "parse_value (Suc (length r)) s = None"
      unfolding r by (simp add: parse_value.simps parse_number_def digit_value_def numeral_eq_Suc Let_def)
    with denotesD [OF s, of "[]" "Suc (length r)"] r show False by (simp add: follows_def)
  qed
qed

lemma hd_comma_list: "ss \<noteq> [] \<Longrightarrow> hd ss \<noteq> [] \<Longrightarrow> comma_list ss \<noteq> [] \<and> hd (comma_list ss) = hd (hd ss)"
  by (cases ss rule: comma_list.cases) auto

lemma denotes_array:
  assumes "list_all2 denotes ss vs"
  shows "denotes (json_array ss) (JArray vs)"
proof (rule denotesI)
  fix rest n
  assume n: "length (json_array ss) \<le> Suc n"
  show "parse_value (Suc n) (json_array ss @ rest) = Some (JArray vs, rest)"
  proof (cases "ss = []")
    case True
    then show ?thesis using assms by (simp add: json_array_def parse_value.simps)
  next
    case False
    then obtain s ss' v where "ss = s # ss'" "denotes s v" using assms by (cases ss) (auto simp: list_all2_Cons1)
    then have "comma_list ss \<noteq> []" "hd (comma_list ss) \<noteq> CHR '']''"
      using hd_comma_list [of ss] denotes_start by auto
    then show ?thesis
      using parse_items_list [OF assms False, of n rest] n by (simp add: json_array_def parse_value.simps)
  qed
qed (simp add: json_array_def)

text \<open>
  What the documents need of a quoting: it opens with a quote and closes so that the text reads back,
  as it was or in the form the quoting gives it.
\<close>

locale json_quoting =
  fixes q :: "string \<Rightarrow> string" and plain :: "string \<Rightarrow> string"
  assumes opens: "q t \<noteq> []" "hd (q t) = CHR 0x22"
    and closes: "parse_chars (tl (q t) @ rest) = Some (plain t, rest)"
begin

lemma q_eq: "q t @ rest = CHR 0x22 # tl (q t) @ rest"
  using opens [of t] by (cases "q t") auto

lemma denotes_quoted: "denotes (q t) (JString (plain t))"
  by (rule denotesI) (simp_all add: opens q_eq parse_value.simps closes)

lemma parse_members_list:
  "list_all2 (\<lambda>(n, s) (k, v). k = plain n \<and> denotes s v) fs vs \<Longrightarrow> fs \<noteq> [] \<Longrightarrow>
     length (comma_list (map (\<lambda>(n, s). q n @ '':'' @ s) fs)) < m \<Longrightarrow>
     parse_members m (comma_list (map (\<lambda>(n, s). q n @ '':'' @ s) fs) @ CHR ''}'' # rest) = Some (vs, rest)"
proof (induction fs arbitrary: vs m)
  case (Cons f fs)
  obtain n s where f: "f = (n, s)" by (cases f)
  obtain v vs' m' where v: "vs = (plain n, v) # vs'" "denotes s v" "m = Suc m'"
      "list_all2 (\<lambda>(n, s) (k, v). k = plain n \<and> denotes s v) fs vs'"
    using Cons.prems by (cases m) (auto simp: list_all2_Cons1 f)
  show ?case
  proof (cases fs)
    case Nil
    have "parse_value m' (s @ CHR ''}'' # rest) = Some (v, CHR ''}'' # rest)"
      using v Cons.prems(3) by (intro denotesD) (simp_all add: follows_def f Nil)
    then show ?thesis
      using v opens [of n] by (simp add: Nil f q_eq parse_members.simps closes)
  next
    case (Cons g gs)
    let ?texts = "map (\<lambda>(n, s). q n @ '':'' @ s) fs"
    have texts: "comma_list (map (\<lambda>(n, s). q n @ '':'' @ s) (f # fs)) = q n @ CHR '':'' # s @ CHR '','' # comma_list ?texts"
      by (simp add: f Cons)
    have "parse_members m' (comma_list ?texts @ CHR ''}'' # rest) = Some (vs', rest)"
      using Cons.IH [OF v(4)] Cons.prems(3) texts v(3) by (simp add: Cons)
    moreover have "parse_value m' (s @ CHR '','' # comma_list ?texts @ CHR ''}'' # rest)
        = Some (v, CHR '','' # comma_list ?texts @ CHR ''}'' # rest)"
      using v Cons.prems(3) texts by (intro denotesD) (simp_all add: follows_def)
    ultimately show ?thesis
      unfolding texts v(1,3) unfolding append_assoc append_Cons q_eq [of n] parse_members.simps by (simp add: closes)
  qed
qed simp

lemma denotes_object:
  assumes "list_all2 (\<lambda>(n, s) (k, v). k = plain n \<and> denotes s v) fs vs"
  shows "denotes (json_object q fs) (JObject vs)"
proof (rule denotesI)
  fix rest n
  assume n: "length (json_object q fs) \<le> Suc n"
  show "parse_value (Suc n) (json_object q fs @ rest) = Some (JObject vs, rest)"
  proof (cases fs)
    case Nil
    then show ?thesis using assms by (simp add: json_object_def parse_value.simps)
  next
    case (Cons f fs')
    let ?texts = "map (\<lambda>(n, s). q n @ '':'' @ s) fs"
    have "comma_list ?texts \<noteq> []" "hd (comma_list ?texts) = CHR 0x22"
      using hd_comma_list [of ?texts] opens by (auto simp: Cons split: prod.splits)
    then show ?thesis
      using parse_members_list [OF assms, of n rest] n Cons by (simp add: json_object_def parse_value.simps)
  qed
qed (simp add: json_object_def)

text \<open>An object of named texts that all denote something: every member is found under its name.\<close>

lemma object_members:
  assumes "list_all (\<lambda>(n, s). plain n = n \<and> (\<exists>v. denotes s v)) fs"
  shows "\<exists>vs. denotes (json_object q fs) (JObject vs) \<and> map fst vs = map fst fs
    \<and> (\<forall>n s. map_of fs n = Some s \<longrightarrow> (\<exists>v. map_of vs n = Some v \<and> denotes s v))"
proof -
  have "\<exists>vs. list_all2 (\<lambda>(n, s) (k, v). k = plain n \<and> denotes s v) fs vs \<and> map fst vs = map fst fs
      \<and> (\<forall>n s. map_of fs n = Some s \<longrightarrow> (\<exists>v. map_of vs n = Some v \<and> denotes s v))"
    using assms
  proof (induction fs)
    case (Cons f fs)
    obtain n s where f: "f = (n, s)" by (cases f)
    obtain v where v: "denotes s v" "plain n = n" using Cons.prems by (auto simp: f)
    obtain vs where vs: "list_all2 (\<lambda>(n, s) (k, v). k = plain n \<and> denotes s v) fs vs" "map fst vs = map fst fs"
        "\<forall>n s. map_of fs n = Some s \<longrightarrow> (\<exists>v. map_of vs n = Some v \<and> denotes s v)"
      using Cons by auto
    show ?case by (rule exI [of _ "(n, v) # vs"]) (use v vs in \<open>simp add: f\<close>)
  qed simp
  then show ?thesis using denotes_object by blast
qed

end

text \<open>Both quotings of the program are such quotings.\<close>

definition printable_json :: "string \<Rightarrow> string" where
  "printable_json s =
     map (\<lambda>c. if (of_char c :: nat) < 0x20 \<and> c \<notin> {CHR 0x09, CHR 0x0A, CHR 0x0D} then CHR ''?'' else c) s"

lemma parse_escaped:
  assumes "\<And>c r. (of_char c :: nat) < 0x20 \<Longrightarrow> c \<notin> {CHR 0x09, CHR 0x0A, CHR 0x0D} \<Longrightarrow>
      parse_chars (control c @ r) = map_option (apfst (Cons (f c))) (parse_chars r)"
  shows "parse_chars (concat (map (escape_char control) s) @ CHR 0x22 # rest) =
    Some (map (\<lambda>c. if (of_char c :: nat) < 0x20 \<and> c \<notin> {CHR 0x09, CHR 0x0A, CHR 0x0D} then f c else c) s, rest)"
proof (induction s)
  case (Cons c s)
  show ?case
  proof (cases "(of_char c :: nat) < 0x20 \<and> c \<notin> {CHR 0x09, CHR 0x0A, CHR 0x0D}")
    case True
    then have "c \<noteq> CHR 0x22" "c \<noteq> CHR 0x5C" by auto
    then have "escape_char control c = control c" using True by (simp add: escape_char.simps)
    then show ?thesis using True Cons.IH assms [of c] by simp
  next
    case False
    then show ?thesis using Cons.IH by (auto simp: escape_char.simps)
  qed
qed simp

interpretation decision_quoting: json_quoting quote_json printable_json
proof
  show "quote_json t \<noteq> []" "hd (quote_json t) = CHR 0x22" for t by (simp_all add: quote_json_def)
  show "parse_chars (tl (quote_json t) @ rest) = Some (printable_json t, rest)" for t rest
    using parse_escaped [of "\<lambda>_. ''?''" "\<lambda>_. CHR ''?''" t rest]
    by (simp add: quote_json_def printable_json_def)
qed

lemma nibble_digit_value: "d < 16 \<Longrightarrow> digit_value (''0123456789abcdef'' ! d) = d"
proof -
  have "list_all (\<lambda>d. digit_value (''0123456789abcdef'' ! d) = d) [0..<16]" by code_simp
  then show "d < 16 \<Longrightarrow> ?thesis" by (simp add: list_all_iff)
qed

lemma parse_hex_escape:
  assumes "list_all (\<lambda>h. digit_value h < 16) [a, b, c, d]" and "digits_value 16 [a, b, c, d] < 256"
  shows "parse_chars (CHR 0x5C # CHR ''u'' # a # b # c # d # r) =
    map_option (apfst (Cons (char_of (digits_value 16 [a, b, c, d])))) (parse_chars r)"
proof -
  have "take 4 (a # b # c # d # r) = [a, b, c, d]" "drop 4 (a # b # c # d # r) = r"
    by (simp_all add: numeral_eq_Suc)
  with assms show ?thesis by (subst parse_chars.simps(2)) simp
qed

lemma parse_unicode_escape:
  assumes "(of_char c :: nat) < 0x20"
  shows "parse_chars (unicode_escape c @ r) = map_option (apfst (Cons c)) (parse_chars r)"
proof -
  define n where "n = (of_char c :: nat)"
  let ?hi = "''0123456789abcdef'' ! (n div 16)" and ?lo = "''0123456789abcdef'' ! (n mod 16)"
  have n: "n div 16 < 16" "n mod 16 < 16" "char_of n = c" "n < 256" using assms by (simp_all add: n_def)
  have hex: "digit_value ?hi = n div 16" "digit_value ?lo = n mod 16" "digit_value (CHR ''0'') = 0"
    using nibble_digit_value n(1,2) by (blast, blast, simp add: digit_value_def)
  have "digits_value 16 [CHR ''0'', CHR ''0'', ?hi, ?lo] = n"
    by (simp add: digits_value_def hex del: nth_Cons_numeral)
  then show ?thesis
    using parse_hex_escape [of "CHR ''0''" "CHR ''0''" ?hi ?lo r] n hex
    by (simp add: unicode_escape_def n_def [symmetric])
qed

interpretation snapshot_quoting: json_quoting quote id
proof
  show "quote t \<noteq> []" "hd (quote t) = CHR 0x22" for t by (simp_all add: quote_def)
  show "parse_chars (tl (quote t) @ rest) = Some (id t, rest)" for t rest
    using parse_escaped [of unicode_escape "\<lambda>c. c" t rest] parse_unicode_escape by (simp add: quote_def)
qed

section \<open>Documents of the program\<close>

lemma denotes_unique: "denotes s v \<Longrightarrow> denotes s w \<Longrightarrow> v = w"
  by (metis denotes_parse option.inject)

lemma denotes_list:
  assumes "\<And>x. x \<in> set xs \<Longrightarrow> \<exists>v. denotes (f x) v \<and> P x v"
  shows "\<exists>vs. denotes (json_array (map f xs)) (JArray vs) \<and> list_all2 P xs vs"
proof -
  have "\<exists>vs. list_all2 denotes (map f xs) vs \<and> list_all2 P xs vs"
    using assms
  proof (induction xs)
    case (Cons x xs)
    obtain v where v: "denotes (f x) v" "P x v" using Cons.prems by auto
    obtain vs where vs: "list_all2 denotes (map f xs) vs" "list_all2 P xs vs" using Cons by auto
    show ?case by (rule exI [of _ "v # vs"]) (use v vs in simp)
  qed simp
  then show ?thesis using denotes_array by blast
qed

text \<open>Everything the documents are made of denotes something.\<close>

lemma denotes_parts [simp]:
  "\<exists>v. denotes (quote s) v" "\<exists>v. denotes (quote_json s) v" "\<exists>v. denotes (json_bool b) v"
  "\<exists>v. denotes (decimal n) v" "\<exists>v. denotes (to_string_u64 w) v" "\<exists>v. denotes (to_string_int i) v"
  using snapshot_quoting.denotes_quoted decision_quoting.denotes_quoted denotes_bool denotes_decimal denotes_u64
    denotes_int by blast+

lemma denotes_mapped: "(\<And>x. \<exists>v. denotes (f x) v) \<Longrightarrow> \<exists>v. denotes (json_array (map f xs)) v"
  using denotes_list [of xs f "\<lambda>_ _. True"] by blast

definition member_is :: "Json \<Rightarrow> string \<Rightarrow> Json \<Rightarrow> bool" where
  "member_is v name w \<longleftrightarrow> (\<exists>members. v = JObject members \<and> map_of members name = Some w)"

text \<open>A member of an object whose text is known.\<close>

lemma snapshot_member:
  assumes "list_all (\<lambda>(n, s). \<exists>v. denotes s v) fs"
  shows "\<exists>v. denotes (json_object quote fs) v
    \<and> (\<forall>n s w. map_of fs n = Some s \<longrightarrow> denotes s w \<longrightarrow> member_is v n w)"
proof -
  have "list_all (\<lambda>(n, s). id n = n \<and> (\<exists>v. denotes s v)) fs" using assms by (simp add: list_all_iff)
  from snapshot_quoting.object_members [OF this] obtain vs where vs: "denotes (json_object quote fs) (JObject vs)"
      "\<forall>n s. map_of fs n = Some s \<longrightarrow> (\<exists>v. map_of vs n = Some v \<and> denotes s v)" by blast
  then have "\<forall>n s w. map_of fs n = Some s \<longrightarrow> denotes s w \<longrightarrow> member_is (JObject vs) n w"
    unfolding member_is_def using denotes_unique by blast
  with vs(1) show ?thesis by blast
qed

lemma decision_member:
  assumes "list_all (\<lambda>(n, s). printable_json n = n \<and> (\<exists>v. denotes s v)) fs"
  shows "\<exists>v. denotes (json_object quote_json fs) v
    \<and> (\<forall>n s w. map_of fs n = Some s \<longrightarrow> denotes s w \<longrightarrow> member_is v n w)"
proof -
  from decision_quoting.object_members [OF assms] obtain vs where vs: "denotes (json_object quote_json fs) (JObject vs)"
      "\<forall>n s. map_of fs n = Some s \<longrightarrow> (\<exists>v. map_of vs n = Some v \<and> denotes s v)" by blast
  then have "\<forall>n s w. map_of fs n = Some s \<longrightarrow> denotes s w \<longrightarrow> member_is (JObject vs) n w"
    unfolding member_is_def using denotes_unique by blast
  with vs(1) show ?thesis by blast
qed

lemma snapshot_object: "list_all (\<lambda>(n, s). \<exists>v. denotes s v) fs \<Longrightarrow> \<exists>v. denotes (json_object quote fs) v"
  using snapshot_member by blast

lemma decision_object:
  "list_all (\<lambda>(n, s). printable_json n = n \<and> (\<exists>v. denotes s v)) fs \<Longrightarrow> \<exists>v. denotes (json_object quote_json fs) v"
  using decision_member by blast

lemma record_documents [simp]:
  "\<exists>v. denotes (totals_json t) v" "\<exists>v. denotes (worker_json w) v" "\<exists>v. denotes (reservation_json r) v"
  "\<exists>v. denotes (item_json i) v"
  unfolding totals_json_def worker_json_def reservation_json_def item_json_def
  by (rule snapshot_object, simp)+

lemma report_document [simp]: "\<exists>v. denotes (report_json r) v"
  unfolding report_json_def by (rule snapshot_object) (simp add: denotes_mapped)

text \<open>The same as a rule: what the texts of an object say about its members.\<close>

lemma snapshot_with:
  assumes "list_all (\<lambda>(n, s). \<exists>v. denotes s v) fs"
    and "\<And>v. (\<And>n w. map_of fs n \<noteq> None \<Longrightarrow> denotes (the (map_of fs n)) w \<Longrightarrow> member_is v n w) \<Longrightarrow> P v"
  shows "\<exists>v. denotes (json_object quote fs) v \<and> P v"
proof -
  obtain v where v: "denotes (json_object quote fs) v"
      "\<forall>n s w. map_of fs n = Some s \<longrightarrow> denotes s w \<longrightarrow> member_is v n w"
    using snapshot_member [OF assms(1)] by blast
  then have "P v" by (intro assms(2)) auto
  with v(1) show ?thesis by blast
qed

lemma decision_with:
  assumes "list_all (\<lambda>(n, s). printable_json n = n \<and> (\<exists>v. denotes s v)) fs"
    and "\<And>v. (\<And>n w. map_of fs n \<noteq> None \<Longrightarrow> denotes (the (map_of fs n)) w \<Longrightarrow> member_is v n w) \<Longrightarrow> P v"
  shows "\<exists>v. denotes (json_object quote_json fs) v \<and> P v"
proof -
  obtain v where v: "denotes (json_object quote_json fs) v"
      "\<forall>n s w. map_of fs n = Some s \<longrightarrow> denotes s w \<longrightarrow> member_is v n w"
    using decision_member [OF assms(1)] by blast
  then have "P v" by (intro assms(2)) auto
  with v(1) show ?thesis by blast
qed

lemmas quoted = snapshot_quoting.denotes_quoted [unfolded id_apply]

definition shows_domain :: "ExecutionDomainRecord \<Rightarrow> Json \<Rightarrow> bool" where
  "shows_domain d v \<longleftrightarrow>
     member_is v ''id'' (JString (format_id (dr_id d))) \<and> member_is v ''name'' (JString (dr_name d))
     \<and> member_is v ''fenced'' (JBool (dr_fenced d))
     \<and> member_is v ''evidence_current'' (JBool (load_published (dr_load d)))"

definition shows_attempt :: "ExecutionAttempt \<Rightarrow> Json \<Rightarrow> bool" where
  "shows_attempt a v \<longleftrightarrow>
     member_is v ''id'' (JString (format_id (att_id a)))
     \<and> member_is v ''state'' (JString (to_string_AttemptState (att_state a)))
     \<and> member_is v ''completion_committed'' (JBool (att_completion_committed a))
     \<and> member_is v ''result_digest'' (JNumber (uint (rp_result_digest (att_result a))))
     \<and> member_is v ''detail'' (JString (att_close_reason a))"

lemma domain_document: "\<exists>v. denotes (domain_json d) v \<and> shows_domain d v"
  unfolding domain_json_def shows_domain_def
  by (rule snapshot_with, simp, intro conjI) (simp_all add: quoted denotes_bool id_text_def)

lemma attempt_document: "\<exists>v. denotes (attempt_json a) v \<and> shows_attempt a v"
  unfolding attempt_json_def shows_attempt_def
  by (rule snapshot_with, simp, intro conjI) (simp_all add: quoted denotes_bool denotes_u64 id_text_def)

lemma printable_names [simp]: "printable_json (to_string_RankingFactor k) = to_string_RankingFactor k"
  by (cases k) (simp_all add: printable_json_def)

lemma decision_documents [simp]:
  "\<exists>v. denotes (reason_json r) v" "\<exists>v. denotes (ranked_json c) v"
proof -
  show "\<exists>v. denotes (reason_json r) v"
    unfolding reason_json_def by (rule decision_object) (simp add: printable_json_def)
  have "\<exists>v. denotes (json_object quote_json
      (map (\<lambda>k. (to_string_RankingFactor k, to_string_int (rc_factors c k))) all_RankingFactor)) v"
    by (rule decision_object) (simp add: list_all_iff)
  then show "\<exists>v. denotes (ranked_json c) v"
    unfolding ranked_json_def by (intro decision_object) (simp add: printable_json_def)
qed

definition shows_candidate :: "CandidateEvaluation \<Rightarrow> Json \<Rightarrow> bool" where
  "shows_candidate c v \<longleftrightarrow>
     member_is v ''eligible'' (JBool (ce_eligible c))
     \<and> member_is v ''reason'' (JString (printable_json (to_string_IneligibilityReason (ce_reason c))))
     \<and> member_is v ''detail'' (JString (printable_json (ce_detail c)))"

lemma candidate_document: "\<exists>v. denotes (candidate_json c) v \<and> shows_candidate c v"
  unfolding candidate_json_def shows_candidate_def
  by (rule decision_with, simp add: printable_json_def, intro conjI)
     (simp_all add: decision_quoting.denotes_quoted denotes_bool)

lemma candidate_denotes [simp]: "\<exists>v. denotes (candidate_json c) v"
  using candidate_document by blast

section \<open>Identities read back\<close>

lemma digits_value_snoc: "digits_value base (ds @ [c]) = digits_value base ds * base + digit_value c"
  by (simp add: digits_value_def)

lemma nibbles_value:
  "n \<le> 16 \<Longrightarrow> digits_value 16 (map (\<lambda>i. hex_nibble v (15 - i)) [0..<n]) = unat v div 16 ^ (16 - n)"
proof (induction n)
  case 0
  have "unat v < 16 ^ 16" using unsigned_less [of v, where ?'a = nat] by simp
  then show ?case by (simp add: digits_value_def)
next
  case (Suc n)
  have "digit_value (hex_nibble v (15 - n)) = unat v div 16 ^ (15 - n) mod 16"
    unfolding hex_nibble_def by (rule nibble_digit_value) simp
  moreover have "unat v div 16 ^ (16 - n) = unat v div 16 ^ (15 - n) div 16"
    using Suc.prems by (simp add: div_mult2_eq [symmetric] flip: power_Suc2 Suc_diff_le)
  ultimately show ?case
    using Suc by (simp add: digits_value_snoc)
qed

lemma parse_format_id: "parse_id (format_id v) = Some v"
proof -
  let ?ds = "map (\<lambda>i. hex_nibble v (15 - i)) [0..<16]"
  have hex: "digit_value (hex_nibble v i) < 16" for i
    unfolding hex_nibble_def by (subst nibble_digit_value) simp_all
  then have digits: "takeWhile (\<lambda>c. digit_value c < 16) ?ds = ?ds" by (simp add: takeWhile_eq_all_conv)
  have plain: "c \<noteq> CHR 0x00" if "digit_value c < 16" for c using that by (auto simp: digit_value_def)
  obtain d ds where ds: "?ds = d # ds" "digit_value d < 16" using hex by (simp add: upt_rec)
  have skip: "skip_hex_prefix 16 (format_id v) = ?ds"
    using ds by (simp add: format_id_def skip_hex_prefix_def)
  have start: "dropWhile is_space (format_id v) = format_id v" "hd (format_id v) = CHR ''0''" 
    by (simp_all add: format_id_def is_space_def)
  have "strtoull 16 (format_id v) = Some (v, [])"
    using nibbles_value [of 16 v] unsigned_less [of v, where ?'a = nat]
    by (simp add: strtoull_def Let_def start skip digits)
  moreover have whole: "takeWhile (\<lambda>c. c \<noteq> CHR 0x00) (format_id v) = format_id v"
    using hex plain by (auto simp: takeWhile_eq_all_conv format_id_def)
  moreover have "format_id v ! 0 = CHR ''0''" "format_id v ! Suc 0 = CHR ''x''" "length (format_id v) = 18"
    "format_id v \<noteq> []"
    by (simp_all add: format_id_def)
  ultimately show ?thesis by (simp add: parse_id_def whole)
qed

section \<open>Properties\<close>

end
