(* ===== verification/Tos_Cuda.thy ===== *)
theory Tos_Cuda
  imports Tos_Publisher Tos_Device Tos_Render
begin

text \<open>
  The host side of the accelerator backend, \<^verbatim>\<open>src/src/backends/cuda_backend.cpp\<close>, over the bridge of
  \<open>Tos_Device\<close>: what it publishes with and without a device, its claims on device memory and an
  execution with its comparison against the host reference. The context of the process is passed
  along; what the CUDA runtime answers is an argument.
\<close>

section \<open>State\<close>

record CudaOptions =
  cx_domain_id :: u64
  cx_name :: string
  cx_max_payload_bytes :: u64
  cx_queue_capacity :: u32
  cx_max_concurrency :: u32
  cx_device_index :: int
  cx_parent_host :: string
  cx_worker :: u64
  cx_worker_boot :: u64

record DeviceFacts =
  df_ready :: bool
  df_reason :: string
  df_name :: string
  df_major :: int
  df_minor :: int
  df_compute_capability :: u32
  df_memory_bytes :: u64
  df_driver_version :: u32
  df_runtime_version :: u32

definition no_facts :: DeviceFacts where
  "no_facts =
     \<lparr>df_ready = False, df_reason = [], df_name = [], df_major = 0, df_minor = 0,
      df_compute_capability = 0, df_memory_bytes = 0, df_driver_version = 0, df_runtime_version = 0\<rparr>"

definition kErrorCapacity :: nat where "kErrorCapacity = 256"

record CudaBackend =
  cu_options :: CudaOptions
  cu_facts :: DeviceFacts
  cu_record :: ExecutionDomainRecord
  cu_executed :: u64
  cu_in_flight :: u64
  cu_busy :: u64
  cu_publication :: u64
  cu_last_duration_ns :: u64
  cu_last_bytes :: u64
  cu_closed :: bool
  cu_device_reservations :: "(u64 \<times> u64) list"
  cu_reserved_device_bytes :: u64

section \<open>The published record\<close>

definition lowered :: "char \<Rightarrow> char" where
  "lowered c =
     (let n = of_char c :: nat in if 65 \<le> n \<and> n \<le> 90 then char_of (n - 65 + 97) else c)"

definition label_char :: "char \<Rightarrow> bool" where
  "label_char c =
     (let n = of_char c :: nat in 97 \<le> n \<and> n \<le> 122 \<or> 48 \<le> n \<and> n \<le> 57)"

definition label_step :: "string \<Rightarrow> char \<Rightarrow> string" where
  "label_step out raw =
     (let c = lowered raw in
      if label_char c then out @ [c]
      else if out \<noteq> [] \<and> last out \<noteq> CHR ''.'' then out @ ''.'' else out)"

definition sanitize_label :: "string \<Rightarrow> string" where
  "sanitize_label t =
     (let out = foldl label_step [] t;
          out = rev (dropWhile (\<lambda>c. c = CHR ''.'') (rev out));
          out = take kMaxNameLength out
      in if out = [] then ''unknown'' else out)"

definition backend_family_of :: "DeviceFacts \<Rightarrow> string" where
  "backend_family_of facts =
     (if \<not> df_ready facts then ''cuda.unavailable''
      else ''cuda.sm'' @ to_string_u64 (ucast (df_compute_capability facts)))"

text \<open>The part of the record that does not depend on the device.\<close>

definition undescribed_record :: "string \<Rightarrow> CudaOptions \<Rightarrow> ExecutionDomainRecord" where
  "undescribed_record host options =
     (let parent_host = (if cx_parent_host options = [] then host else cx_parent_host options) in
      empty_domain\<lparr>
        dr_id := cx_domain_id options, dr_generation := gen_first,
        dr_type := ExecutionDomainType.kAccelerator, dr_name := cx_name options,
        dr_parent_host := parent_host, dr_worker := cx_worker options,
        dr_worker_boot := cx_worker_boot options, dr_registration_sequence := cx_domain_id options,
        dr_backend_generation := gen_first,
        dr_capability := empty_capability_record\<lparr>
          cap_domain := cx_domain_id options, cap_generation := gen_first, cap_evidence := gen_first,
          cap_publisher := cx_worker_boot options\<rparr>,
        dr_load := no_load\<lparr>
          ld_load_generation := gen_first, ld_queue_generation := gen_first,
          ld_health_generation := gen_first, ld_evidence := gen_first\<rparr>,
        dr_locality := (dr_locality empty_domain)\<lparr>lo_generation := gen_first\<rparr>,
        dr_topology := (dr_topology empty_domain)\<lparr>to_generation := gen_first, to_host_node := parent_host\<rparr>,
        dr_compatibility := (dr_compatibility empty_domain)\<lparr>cm_generation := gen_first\<rparr>\<rparr>)"

definition unsupported_record :: "DeviceFacts \<Rightarrow> ExecutionDomainRecord \<Rightarrow> ExecutionDomainRecord" where
  "unsupported_record facts r =
     (let capability = canonicalize (empty_capability_set\<lparr>
            cs_operations := [], cs_flags := 0, cs_unproven_flags := flag_mask all_capability_flags,
            cs_memory_domains := 0, cs_min_payload_bytes := 0, cs_max_payload_bytes := 0,
            cs_alignment_bytes := 8, cs_max_concurrency := 1, cs_queue_capacity := 0,
            cs_transport_classes := 0, cs_payload_classes := 0, cs_protocol_version := 1,
            cs_driver_backend_version := 0, cs_firmware_generation := 0, cs_accelerator_arch := 0,
            cs_backend_family := backend_family_of facts\<rparr>)
      in r\<lparr>
        dr_provenance := Provenance.kUnsupported, dr_parent_device := ''gpu.unavailable'',
        dr_capability := (dr_capability r)\<lparr>cap_provenance := Provenance.kUnsupported,
          cap_authoritative := False, cap_capability := capability\<rparr>,
        dr_load := (dr_load r)\<lparr>ld_provenance := Provenance.kUnsupported, ld_healthy := False,
          ld_ready := False, ld_accepting := False\<rparr>,
        dr_locality := (dr_locality r)\<lparr>lo_class_to_payload := LocalityClass.kUnknown,
          lo_has_local_nic := False\<rparr>,
        dr_compatibility := (dr_compatibility r)\<lparr>cm_driver_backend_version := 0,
          cm_firmware_generation := 0, cm_protocol_version := 1, cm_accelerator_arch := 0,
          cm_backend_family := cs_backend_family capability\<rparr>,
        dr_isolation := IsolationClass.kUnknown\<rparr>)"

definition device_max_payload :: "CudaOptions \<Rightarrow> DeviceFacts \<Rightarrow> u64" where
  "device_max_payload options facts =
     (if df_memory_bytes facts = 0 then cx_max_payload_bytes options
      else min (cx_max_payload_bytes options) (df_memory_bytes facts))"

definition device_capability :: "CudaOptions \<Rightarrow> DeviceFacts \<Rightarrow> CapabilitySet" where
  "device_capability options facts =
     (let capability = make_host_executor_capability (device_max_payload options facts)
            (cx_queue_capacity options) (cx_max_concurrency options) (backend_family_of facts)
            (memory_bit MemoryDomain.kHost OR memory_bit MemoryDomain.kPinnedHost
             OR memory_bit MemoryDomain.kDeviceLocal OR memory_bit MemoryDomain.kPeerDevice)
            (df_driver_version facts)
      in canonicalize (capability\<lparr>
           cs_unproven_flags := cs_unproven_flags capability
             OR (cs_flags capability AND NOT (flag_bit CapabilityFlag.kChecksum)),
           cs_flags := flag_bit CapabilityFlag.kChecksum, cs_operations := [1],
           cs_accelerator_arch := df_compute_capability facts\<rparr>))"

definition real_record :: "CudaOptions \<Rightarrow> DeviceFacts \<Rightarrow> ExecutionDomainRecord \<Rightarrow> ExecutionDomainRecord" where
  "real_record options facts r =
     (let capability = device_capability options facts in
      r\<lparr>
        dr_provenance := Provenance.kReal, dr_parent_device := ''gpu.'' @ sanitize_label (df_name facts),
        dr_capability := (dr_capability r)\<lparr>cap_provenance := Provenance.kReal,
          cap_authoritative := True, cap_capability := capability\<rparr>,
        dr_load := (dr_load r)\<lparr>ld_provenance := Provenance.kReal, ld_healthy := True, ld_ready := True,
          ld_accepting := True\<rparr>,
        dr_locality := (dr_locality r)\<lparr>lo_class_to_payload := LocalityClass.kSameHost,
          lo_numa_node := 0, lo_host_index := 0, lo_has_local_nic := False\<rparr>,
        dr_compatibility := (dr_compatibility r)\<lparr>cm_driver_backend_version := df_driver_version facts,
          cm_firmware_generation := 0, cm_protocol_version := 1,
          cm_accelerator_arch := df_compute_capability facts,
          cm_backend_family := cs_backend_family capability\<rparr>,
        dr_isolation := IsolationClass.kSharedProcess,
        dr_capacity := (dr_capacity r)(
          ResourceKind.kExecutionSlot := ucast (cx_max_concurrency options),
          ResourceKind.kQueueDepth := ucast (cx_queue_capacity options),
          ResourceKind.kProcessingContext := ucast (cx_max_concurrency options),
          ResourceKind.kDeviceMemoryBytes := df_memory_bytes facts,
          ResourceKind.kScratchMemoryBytes := device_max_payload options facts)\<rparr>)"

definition describe_record :: "string \<Rightarrow> CudaOptions \<Rightarrow> DeviceFacts \<Rightarrow> ExecutionDomainRecord" where
  "describe_record host options facts =
     (let r = undescribed_record host options in
      if \<not> df_ready facts then unsupported_record facts r else real_record options facts r)"

section \<open>Construction\<close>

text \<open>What the CUDA runtime answers to the queries of the constructor.\<close>

record FactAnswers =
  fa_open :: OpenAnswers
  fa_name_query :: "ProbeAnswers \<times> cuda_error \<times> string"
  fa_capability_query :: "ProbeAnswers \<times> cuda_error \<times> int \<times> int"
  fa_memory_query :: "ProbeAnswers \<times> cuda_error \<times> u64"
  fa_driver_query :: "cuda_error \<times> int"
  fa_runtime_query :: "cuda_error \<times> int"

definition version_of :: "CudaStatus \<times> int \<Rightarrow> u32" where
  "version_of answer = (case answer of (st, v) \<Rightarrow> if st = TOS_CUDA_OK \<and> v > 0 then of_int v else 0)"

definition read_facts :: "int \<Rightarrow> FactAnswers \<Rightarrow> DeviceFacts" where
  "read_facts i fa =
     (let named = (case fa_name_query fa of
                     (pa, e, n) \<Rightarrow> case tos_cuda_device_name pa e n i 128 of
                       (st, t) \<Rightarrow> if st = TOS_CUDA_OK then t else []);
          (major, minor) = (case fa_capability_query fa of
                              (pa, e, a, b) \<Rightarrow> case tos_cuda_compute_capability pa e a b i of
                                (st, major, minor) \<Rightarrow> if st = TOS_CUDA_OK then (major, minor) else (0, 0));
          memory = (case fa_memory_query fa of
                      (pa, e, m) \<Rightarrow> case tos_cuda_total_memory pa e m i of
                        (st, n) \<Rightarrow> if st = TOS_CUDA_OK then n else 0)
      in \<lparr>df_ready = True, df_reason = [], df_name = (if named = [] then ''cuda.device'' else named),
          df_major = major, df_minor = minor, df_compute_capability = of_int (major * 10 + minor),
          df_memory_bytes = memory,
          df_driver_version = version_of (case fa_driver_query fa of (e, v) \<Rightarrow> tos_cuda_driver_version e v),
          df_runtime_version = version_of (case fa_runtime_query fa of (e, v) \<Rightarrow> tos_cuda_runtime_version e v)\<rparr>)"

text \<open>
  The constructor calls the bridge with its options; the bridge is the one of \<open>Tos_Device\<close>, or the one
  of a build without a toolkit, \<^verbatim>\<open>cuda_bridge_stub.cpp\<close>, which opens nothing.
\<close>

definition assemble_backend ::
    "(int \<Rightarrow> nat \<Rightarrow> Device \<Rightarrow> CudaStatus \<times> string \<times> Device) \<Rightarrow> string \<Rightarrow> FactAnswers \<Rightarrow> CudaOptions \<Rightarrow> Device \<Rightarrow>
     CudaBackend \<times> Device" where
  "assemble_backend open_bridge host fa options dv =
     (let options = (if cx_max_concurrency options = 0 then options\<lparr>cx_max_concurrency := 1\<rparr> else options) in
      case open_bridge (cx_device_index options) kErrorCapacity dv of
        (st, e, dv') \<Rightarrow>
          let facts = (if st = TOS_CUDA_OK then read_facts (cx_device_index options) fa
                       else no_facts\<lparr>df_reason := (if e = [] then ''the CUDA device could not be initialised''
                                                  else e)\<rparr>)
          in (\<lparr>cu_options = options, cu_facts = facts, cu_record = describe_record host options facts,
               cu_executed = 0, cu_in_flight = 0, cu_busy = 0, cu_publication = 0,
               cu_last_duration_ns = 0, cu_last_bytes = 0, cu_closed = False,
               cu_device_reservations = [], cu_reserved_device_bytes = 0\<rparr>, dv'))"

definition new_cuda_backend ::
    "string \<Rightarrow> FactAnswers \<Rightarrow> CudaOptions \<Rightarrow> Device \<Rightarrow> CudaBackend \<times> Device" where
  "new_cuda_backend host fa = assemble_backend (tos_cuda_open (fa_open fa)) host fa"

definition stub_report :: "nat \<Rightarrow> string" where
  "stub_report capacity = error_add capacity [] ''this build has no CUDA toolkit''"

definition stub_open :: "int \<Rightarrow> nat \<Rightarrow> Device \<Rightarrow> CudaStatus \<times> string \<times> Device" where
  "stub_open device_index capacity dv = (TOS_CUDA_NOT_COMPILED, stub_report capacity, dv)"

definition new_stub_backend :: "string \<Rightarrow> FactAnswers \<Rightarrow> CudaOptions \<Rightarrow> Device \<Rightarrow> CudaBackend \<times> Device" where
  "new_stub_backend host fa = assemble_backend stub_open host fa"

definition destroy_cuda_backend :: "CudaBackend \<Rightarrow> Device \<Rightarrow> CudaBackend \<times> Device" where
  "destroy_cuda_backend b dv =
     (if df_ready (cu_facts b)
      then (b\<lparr>cu_facts := (cu_facts b)\<lparr>df_ready := False\<rparr>\<rparr>, tos_cuda_close dv) else (b, dv))"

definition cuda_provenance :: "CudaBackend \<Rightarrow> Provenance" where
  "cuda_provenance b = (if df_ready (cu_facts b) then Provenance.kReal else Provenance.kUnsupported)"

section \<open>Discovery and queries\<close>

definition load_evidence :: "CudaBackend \<Rightarrow> u64 \<Rightarrow> DomainLoadEvidence" where
  "load_evidence b publication =
     (let busy = cu_busy b; held = cu_in_flight b;
          waiting = (if held > busy then held - busy else 0);
          slots = max 1 (ucast (cx_max_concurrency (cu_options b)));
          ready = df_ready (cu_facts b)
      in \<lparr>ld_load_generation = publication, ld_queue_generation = publication,
          ld_health_generation = publication, ld_evidence = publication,
          ld_provenance = (if ready then Provenance.kReal else Provenance.kUnsupported),
          ld_utilization_percent = ucast (min 100 ((held * 100) div slots)),
          ld_congestion_percent = ucast (if held = 0 then 0 else min 100 ((waiting * 100) div held)),
          ld_queue_depth = ucast (min waiting 0xFFFFFFFF), ld_in_flight = ucast held,
          ld_observed_latency_ns = cu_last_duration_ns b,
          ld_throughput_bytes_per_second =
            (if cu_last_duration_ns b = 0 then 0
             else (cu_last_bytes b * 1000000000) div cu_last_duration_ns b),
          ld_healthy = ready, ld_ready = ready, ld_accepting = ready\<rparr>)"

definition cuda_discover :: "CudaBackend \<Rightarrow> ExecutionDomainRecord list \<times> CudaBackend" where
  "cuda_discover b =
     (let publication = cu_publication b + 1
      in ([(cu_record b)\<lparr>dr_load := load_evidence b publication\<rparr>], b\<lparr>cu_publication := publication\<rparr>))"

definition cuda_query_capability :: "CudaBackend \<Rightarrow> u64 \<Rightarrow> CapabilityRecord Checked" where
  "cuda_query_capability b domain =
     (if domain \<noteq> dr_id (cu_record b) then bad ''cuda.unknown_domain'' []
      else Good (dr_capability (cu_record b)))"

definition cuda_query_load :: "CudaBackend \<Rightarrow> u64 \<Rightarrow> DomainLoadEvidence Checked \<times> CudaBackend" where
  "cuda_query_load b domain =
     (if domain \<noteq> dr_id (cu_record b) then (bad ''cuda.unknown_domain'' [], b)
      else let publication = cu_publication b + 1
           in (Good (load_evidence b publication), b\<lparr>cu_publication := publication\<rparr>))"

section \<open>Claims on device memory\<close>

definition cuda_reserve ::
    "cuda_error \<times> u64 \<times> u64 \<Rightarrow> Device \<Rightarrow> CudaBackend \<Rightarrow> u64 \<Rightarrow> u64 \<Rightarrow> ResourceAmounts \<Rightarrow>
     Status \<times> CudaBackend" where
  "cuda_reserve info dv b domain i amounts =
     (if domain \<noteq> dr_id (cu_record b) then (failure ''cuda.unknown_domain'' [], b)
      else if \<not> df_ready (cu_facts b) then (failure ''cuda.unsupported'' (df_reason (cu_facts b)), b)
      else
        let requested = amounts ResourceKind.kDeviceMemoryBytes in
        if requested = 0 then (success, b)
        else case tos_cuda_memory_info (fst info) (fst (snd info)) (snd (snd info)) dv of
               (st, free_bytes, total_bytes) \<Rightarrow>
                 if st \<noteq> TOS_CUDA_OK
                 then (failure ''cuda.memory_query_failed''
                         ''free device memory could not be read from the device'', b)
                 else
                   let already = cu_reserved_device_bytes b in
                   if requested > free_bytes \<or> already > free_bytes - requested
                   then (failure ''cuda.insufficient_device_memory''
                           ''the device cannot back the requested device-memory claim'', b)
                   else (success,
                         b\<lparr>cu_device_reservations := AList.update i requested (cu_device_reservations b),
                           cu_reserved_device_bytes := already + requested\<rparr>))"

definition cuda_release :: "CudaBackend \<Rightarrow> u64 \<Rightarrow> u64 \<Rightarrow> Status \<times> CudaBackend" where
  "cuda_release b domain i =
     (if domain \<noteq> dr_id (cu_record b) then (failure ''cuda.unknown_domain'' [], b)
      else case map_of (cu_device_reservations b) i of
             None \<Rightarrow> (failure ''cuda.unknown_reservation''
                        ''no device-memory claim was held under this reservation'', b)
           | Some held \<Rightarrow>
               (success,
                b\<lparr>cu_reserved_device_bytes := cu_reserved_device_bytes b - held,
                  cu_device_reservations := AList.delete i (cu_device_reservations b)\<rparr>))"

section \<open>Execution\<close>

definition cuda_refusal :: "CudaBackend \<Rightarrow> ExecutionInvocation \<Rightarrow> ExecutionOutcome option" where
  "cuda_refusal b iv =
     (let reject = (\<lambda>detail. Some (outcome_failed FailureKind.kBackendRejection detail)) in
      if \<not> df_ready (cu_facts b) \<or> cu_closed b
      then reject (''cuda.unavailable: '' @
             (if df_reason (cu_facts b) = [] then ''the device context is not open''
              else df_reason (cu_facts b)))
      else if iv_domain iv \<noteq> dr_id (cu_record b)
      then reject ''cuda.unknown_domain: the invocation names another domain''
      else if iv_operation_class iv \<noteq> 1
      then reject (''cuda.device_path_does_not_implement: '' @
             (case find_class builtin_descriptors (iv_operation_class iv) of
                None \<Rightarrow> ''an unregistered class'' | Some desc \<Rightarrow> ocd_name desc))
      else if of_nat (length (iv_input iv)) > cx_max_payload_bytes (cu_options b)
      then reject ''cuda.payload_exceeds_device_bound''
      else None)"

definition parity_mismatch :: "u32 \<Rightarrow> u32 \<Rightarrow> nat \<Rightarrow> u64 \<Rightarrow> ExecutionOutcome" where
  "parity_mismatch device_crc host_crc n total_ns =
     (outcome_failed FailureKind.kIntegrityFailure
        (''cuda.device_digest_disagrees_with_host_reference: device='' @ format_id (ucast device_crc) @
         '' host='' @ format_id (ucast host_crc)))
       \<lparr>eo_executed := True, eo_result_digest := ucast device_crc, eo_bytes_processed := of_nat n,
        eo_duration_ns := total_ns\<rparr>"

definition device_outcome_ok :: "DeviceFacts \<Rightarrow> ChecksumResult \<Rightarrow> nat \<Rightarrow> ExecutionOutcome" where
  "device_outcome_ok facts r n =
     (outcome_ok (ucast (ch_crc r)) n (map (\<lambda>i. ucast (drop_bit (8 * i) (ch_crc r) AND 0xFF)) [0..<4]))
       \<lparr>eo_duration_ns := ch_total_ns r,
        eo_detail := ''cuda '' @ df_name facts @ '' sm_'' @
          to_string_u64 (ucast (df_compute_capability facts)) @ '' device_path_ns='' @
          to_string_u64 (ch_total_ns r) @ '' kernel_ns='' @ to_string_u64 (ch_kernel_ns r) @
          '' crc32c='' @ format_id (ucast (ch_crc r)) @ '' host_reference=exact''\<rparr>"

text \<open>What follows the call of the bridge.\<close>

definition finish_execution ::
    "CudaBackend \<Rightarrow> u8 list \<Rightarrow> ChecksumResult \<Rightarrow> ExecutionOutcome \<times> CudaBackend" where
  "finish_execution b input r =
     (if ch_status r \<noteq> TOS_CUDA_OK
      then (outcome_failed FailureKind.kExecutionFailure
              (''cuda.checksum_crc32c failed (status '' @ decimal (cuda_status_code (ch_status r)) @ ''): '' @
               (if ch_error r = [] then ''no detail'' else ch_error r)), b)
      else
        let b' = b\<lparr>cu_last_duration_ns := ch_total_ns r, cu_last_bytes := of_nat (length input),
                   cu_executed := cu_executed b + 1\<rparr>;
            host_crc = crc32c input
        in if ch_crc r \<noteq> host_crc
           then (parity_mismatch (ch_crc r) host_crc (length input) (ch_total_ns r), b')
           else (device_outcome_ok (cu_facts b) r (length input), b'))"

text \<open>
  The guards of the counters undo their increments on every way out, so that a whole execution leaves
  them as they were.
\<close>

definition cuda_execute ::
    "ChecksumAnswers \<Rightarrow> CudaBackend \<Rightarrow> ExecutionInvocation \<Rightarrow> Device \<Rightarrow> ExecutionOutcome \<times> CudaBackend \<times> Device" where
  "cuda_execute ca b iv dv =
     (let entered = b\<lparr>cu_in_flight := cu_in_flight b + 1\<rparr>;
          left = (\<lambda>b. b\<lparr>cu_in_flight := cu_in_flight b - 1\<rparr>)
      in case cuda_refusal entered iv of
           Some outcome \<Rightarrow> (outcome, left entered, dv)
         | None \<Rightarrow>
             let busy = entered\<lparr>cu_busy := cu_busy entered + 1\<rparr> in
             case tos_cuda_checksum_crc32c ca (iv_input iv) kErrorCapacity dv of
               (r, dv') \<Rightarrow>
                 case finish_execution (busy\<lparr>cu_busy := cu_busy busy - 1\<rparr>) (iv_input iv) r of
                   (outcome, b') \<Rightarrow> (outcome, left b', dv'))"

definition cuda_shutdown :: "CudaBackend \<Rightarrow> Device \<Rightarrow> Status \<times> CudaBackend \<times> Device" where
  "cuda_shutdown b dv =
     (let outstanding = dv_outstanding_bytes dv;
          (b', dv') = (if df_ready (cu_facts b)
                       then (b\<lparr>cu_facts := (cu_facts b)\<lparr>df_ready := False\<rparr>, cu_closed := True\<rparr>,
                             tos_cuda_close dv) else (b, dv))
      in (if outstanding \<noteq> 0
          then failure ''cuda.leaked_device_memory''
                 ''device or pinned memory was still allocated at shutdown''
          else success, b', dv'))"

section \<open>Queries of the process\<close>

text \<open>
  The first query of device 0 is kept in a function-local static: the cache is passed along, and every
  later query of that device answers from it.
\<close>

definition cuda_available :: "ProbeAnswers \<Rightarrow> int \<Rightarrow> bool option \<Rightarrow> bool \<times> bool option" where
  "cuda_available pa device_index cache =
     (let probed = (fst (tos_cuda_probe pa device_index 0) = TOS_CUDA_OK) in
      if device_index \<noteq> 0 then (probed, cache)
      else case cache of Some known \<Rightarrow> (known, cache) | None \<Rightarrow> (probed, Some probed))"

definition device_name :: "ProbeAnswers \<Rightarrow> cuda_error \<Rightarrow> string \<Rightarrow> int \<Rightarrow> string" where
  "device_name pa properties name device_index =
     (case tos_cuda_device_name pa properties name device_index 128 of
        (st, n) \<Rightarrow> if st \<noteq> TOS_CUDA_OK then [] else n)"

definition device_compute_capability :: "ProbeAnswers \<Rightarrow> cuda_error \<Rightarrow> int \<Rightarrow> int \<Rightarrow> int \<Rightarrow> u32" where
  "device_compute_capability pa properties major minor device_index =
     (case tos_cuda_compute_capability pa properties major minor device_index of
        (st, major', minor') \<Rightarrow>
          if st \<noteq> TOS_CUDA_OK then 0 else if major' \<le> 0 then 0 else of_int (major' * 10 + minor'))"

definition device_memory_bytes :: "ProbeAnswers \<Rightarrow> cuda_error \<Rightarrow> u64 \<Rightarrow> int \<Rightarrow> u64" where
  "device_memory_bytes pa properties bytes device_index =
     (case tos_cuda_total_memory pa properties bytes device_index of
        (st, n) \<Rightarrow> if st \<noteq> TOS_CUDA_OK then 0 else n)"

section \<open>The interface\<close>

definition cuda_inv :: "CudaBackend \<Rightarrow> bool" where
  "cuda_inv b \<longleftrightarrow> cap_domain (dr_capability (cu_record b)) = dr_id (cu_record b)"

interpretation cuda: execution_backend cuda_discover cuda_inv
  by unfold_locales (auto simp: cuda_discover_def Let_def cuda_inv_def)

lemma described_ids [simp]:
  "dr_id (describe_record host options facts) = cx_domain_id options"
  "cap_domain (dr_capability (describe_record host options facts)) = cx_domain_id options"
  by (simp_all add: describe_record_def undescribed_record_def unsupported_record_def real_record_def Let_def)

lemma new_cuda_inv: "cuda_inv (fst (new_cuda_backend host fa options dv))"
  by (simp add: new_cuda_backend_def assemble_backend_def cuda_inv_def Let_def split_beta)

section \<open>Properties\<close>

lemma unsupported_never_checked:
  "cap_provenance c = Provenance.kUnsupported \<Longrightarrow> \<not> cc_supported (check_capability c classes request ev)"
  by (simp add: check_capability_def check_fails_def)

lemma unopened_record:
  assumes "\<not> df_ready facts"
  shows "dr_provenance (describe_record host options facts) = Provenance.kUnsupported"
    and "cap_provenance (dr_capability (describe_record host options facts)) = Provenance.kUnsupported"
    and "cs_operations (cap_capability (dr_capability (describe_record host options facts))) = []"
    and "cs_memory_domains (cap_capability (dr_capability (describe_record host options facts))) = 0"
    and "dr_capacity (describe_record host options facts) = no_amounts"
    and "\<not> ld_healthy (dr_load (describe_record host options facts))"
  using assms
  by (simp_all add: describe_record_def undescribed_record_def unsupported_record_def canonicalize_def Let_def
      empty_domain_def)

text \<open>The host flags that the device does not implement are not proven, the checksum flag is.\<close>

lemma device_flags:
  "flag_bit CapabilityFlag.kChecksum AND NOT (cs_unproven_flags (make_host_executor_capability n q c f d v)
      OR (cs_flags (make_host_executor_capability n q c f d v) AND NOT (flag_bit CapabilityFlag.kChecksum))) =
   flag_bit CapabilityFlag.kChecksum"
proof -
  have "flag_bit CapabilityFlag.kChecksum AND cs_unproven_flags (make_host_executor_capability n q c f d v) = 0"
    by (simp add: make_host_executor_capability_def canonicalize_def Let_def) code_simp
  then show ?thesis
    by (intro bit_word_eqI) (auto simp: bit_and_iff bit_or_iff bit_not_iff bit_eq_iff)
qed

lemma opened_record:
  assumes "df_ready facts"
  shows "dr_provenance (describe_record host options facts) = Provenance.kReal"
    and "cs_operations (cap_capability (dr_capability (describe_record host options facts))) = [1]"
    and "cs_flags (cap_capability (dr_capability (describe_record host options facts))) =
      flag_bit CapabilityFlag.kChecksum"
    and "cs_max_payload_bytes (cap_capability (dr_capability (describe_record host options facts)))
      \<le> device_max_payload options facts"
  using assms device_flags
  by (simp_all add: describe_record_def undescribed_record_def real_record_def device_capability_def
      canonicalize_def Let_def) (simp add: make_host_executor_capability_def canonicalize_def Let_def)

lemma device_max_payload_bounds:
  "device_max_payload options facts \<le> cx_max_payload_bytes options"
  "df_memory_bytes facts \<noteq> 0 \<Longrightarrow> device_max_payload options facts \<le> df_memory_bytes facts"
  by (simp_all add: device_max_payload_def)

lemma facts_ready: "df_ready (read_facts i fa)" "\<not> df_ready no_facts"
  by (simp_all add: read_facts_def no_facts_def Let_def split_beta)

text \<open>
  C13. An accelerator backend claims a real device exactly when its context was opened. Without one it
  publishes a domain whose capability check refuses every request, without proven operations, memory or
  capacity, and that is not healthy; with one it proves exactly the checksum class and its flag, and no
  payload above the configured bound or the memory of the device.\<close>

theorem accelerator_claims_only_what_was_opened:
  assumes "new_cuda_backend host fa options dv = (b, dv')"
  shows "(cuda_provenance b = Provenance.kReal) =
           (fst (tos_cuda_open (fa_open fa) (cx_device_index options) kErrorCapacity dv) = TOS_CUDA_OK)
    \<and> dr_provenance (cu_record b) = cuda_provenance b
    \<and> (cuda_provenance b \<noteq> Provenance.kReal \<longrightarrow>
         \<not> cc_supported (check_capability (dr_capability (cu_record b)) classes request ev)
         \<and> cs_operations (cap_capability (dr_capability (cu_record b))) = []
         \<and> cs_memory_domains (cap_capability (dr_capability (cu_record b))) = 0
         \<and> dr_capacity (cu_record b) = no_amounts \<and> \<not> ld_healthy (dr_load (cu_record b)))
    \<and> (cuda_provenance b = Provenance.kReal \<longrightarrow>
         cs_operations (cap_capability (dr_capability (cu_record b))) = [1]
         \<and> cs_flags (cap_capability (dr_capability (cu_record b))) = flag_bit CapabilityFlag.kChecksum
         \<and> cs_max_payload_bytes (cap_capability (dr_capability (cu_record b))) \<le> cx_max_payload_bytes options
         \<and> (df_memory_bytes (cu_facts b) \<noteq> 0 \<longrightarrow>
              cs_max_payload_bytes (cap_capability (dr_capability (cu_record b))) \<le> df_memory_bytes (cu_facts b)))"
proof -
  let ?o = "if cx_max_concurrency options = 0 then options\<lparr>cx_max_concurrency := 1\<rparr> else options"
  have b: "cu_record b = describe_record host ?o (cu_facts b)"
    "df_ready (cu_facts b) =
      (fst (tos_cuda_open (fa_open fa) (cx_device_index options) kErrorCapacity dv) = TOS_CUDA_OK)"
    using assms by (auto simp: new_cuda_backend_def assemble_backend_def Let_def facts_ready split: prod.splits if_splits)
  have bound: "cx_max_payload_bytes ?o = cx_max_payload_bytes options" by simp
  show ?thesis
  proof (cases "df_ready (cu_facts b)")
    case True
    note opened_record [OF True, where host = host and options = ?o] 
      device_max_payload_bounds [where options = ?o and facts = "cu_facts b", unfolded bound]
    with True show ?thesis
      unfolding b(1) cuda_provenance_def b(2) [symmetric]
      using order_trans by (simp only: if_True Provenance.distinct simp_thms) blast
  next
    case False
    with unopened_record [OF False, where host = host and options = ?o] show ?thesis
      unfolding b(1) cuda_provenance_def b(2) [symmetric] by (simp add: unsupported_never_checked)
  qed
qed

subsection \<open>Execution\<close>

lemma device_bytes: "map (\<lambda>i. ucast (drop_bit (8 * i) crc AND 0xFF)) [0..<4] = le_bytes 4 (crc :: u32)"
proof -
  have "(ucast (w AND 0xFF) :: u8) = ucast w" for w :: u32
  proof -
    have "w AND 0xFF = take_bit 8 w" by (simp add: take_bit_eq_mask mask_eq_exp_minus_1)
    then show ?thesis by (intro bit_word_eqI) (simp add: bit_ucast_iff bit_take_bit_iff)
  qed
  then show ?thesis by (simp add: le_bytes_def)
qed

text \<open>The counters come back to what they were, on every way out.\<close>

lemma execute_counters:
  assumes "cuda_execute ca b iv dv = (outcome, b', dv')"
  shows "cu_in_flight b' = cu_in_flight b \<and> cu_busy b' = cu_busy b"
  using assms by (auto simp: cuda_execute_def finish_execution_def Let_def split: option.splits prod.splits if_splits)

lemma refused_outcome:
  "cuda_refusal b iv = Some outcome \<Longrightarrow>
     \<not> eo_success outcome \<and> \<not> eo_executed outcome \<and> eo_failure outcome = FailureKind.kBackendRejection"
  by (auto simp: cuda_refusal_def outcome_failed_def Let_def split: if_splits)

lemma accepted_invocation:
  "cuda_refusal b iv = None \<Longrightarrow>
     df_ready (cu_facts b) \<and> \<not> cu_closed b \<and> iv_domain iv = dr_id (cu_record b) \<and> iv_operation_class iv = 1
     \<and> of_nat (length (iv_input iv)) \<le> cx_max_payload_bytes (cu_options b)"
  by (auto simp: cuda_refusal_def Let_def split: if_splits)

text \<open>The parity check: whatever digest the device brings back, only the host reference is a success.\<close>

lemma parity_guards_success:
  assumes "finish_execution b input r = (outcome, b')"
  shows "if eo_success outcome
    then ch_status r = TOS_CUDA_OK \<and> ch_crc r = crc32c input \<and> eo_result_digest outcome = ucast (crc32c input)
      \<and> eo_output outcome = le_bytes 4 (crc32c input)
      \<and> eo_bytes_processed outcome = of_nat (length input) \<and> cu_executed b' = cu_executed b + 1
    else ch_status r \<noteq> TOS_CUDA_OK \<and> eo_failure outcome = FailureKind.kExecutionFailure
         \<and> cu_executed b' = cu_executed b
      \<or> ch_crc r \<noteq> crc32c input \<and> eo_failure outcome = FailureKind.kIntegrityFailure
         \<and> cu_executed b' = cu_executed b + 1"
  using assms device_bytes [of "ch_crc r"]
  by (auto simp: finish_execution_def parity_mismatch_def device_outcome_ok_def outcome_ok_def outcome_failed_def
      Let_def split: if_splits)

lemma host_reference:
  "iv_operation_class iv = 1 \<Longrightarrow>
     fst (execute_operation_on_host builtin_descriptors sink iv) = host_checksum (iv_input iv)"
  using builtin_found [of 1] by (auto simp: execute_operation_on_host_def)

text \<open>
  C11. However the process opened and closed its device and whatever the CUDA runtime answers, an execution
  that the accelerator reports as successful is the checksum class on the domain it published, and it
  reports what the host executor reports for the same invocation, up to the measured duration and the
  detail text; every other execution is a rejection or an execution failure, so that the parity check
  never fires. On every way out the counters of the backend are restored and no device memory stays
  allocated.\<close>

theorem accelerator_agrees_with_the_host:
  assumes "device_step\<^sup>*\<^sup>* closed_device dv" and "cuda_execute ca b iv dv = (outcome, b', dv')"
  shows "dv_outstanding_bytes dv' = 0 \<and> cu_in_flight b' = cu_in_flight b \<and> cu_busy b' = cu_busy b
    \<and> (if eo_success outcome
       then cuda_provenance b = Provenance.kReal \<and> iv_domain iv = dr_id (cu_record b)
         \<and> iv_operation_class iv = 1
         \<and> outcome\<lparr>eo_duration_ns := 0, eo_detail := []\<rparr> =
             fst (execute_operation_on_host builtin_descriptors sink iv)
       else eo_failure outcome \<in> {FailureKind.kBackendRejection, FailureKind.kExecutionFailure})"
proof -
  let ?entered = "b\<lparr>cu_in_flight := cu_in_flight b + 1\<rparr>"
  have clean: "dv_outstanding_bytes dv = 0" using device_run_inv [OF assms(1)] by (simp add: device_inv_def)
  note counters = execute_counters [OF assms(2)]
  show ?thesis
  proof (cases "cuda_refusal ?entered iv")
    case (Some refused)
    with assms(2) have "outcome = refused" "dv' = dv" by (auto simp: cuda_execute_def)
    with refused_outcome [OF Some] clean counters show ?thesis by simp
  next
    case None
    obtain r where r: "tos_cuda_checksum_crc32c ca (iv_input iv) kErrorCapacity dv = (r, dv')"
      and outcome: "outcome = fst (finish_execution (?entered\<lparr>cu_busy := cu_busy b\<rparr>) (iv_input iv) r)"
      using assms(2) None by (auto simp: cuda_execute_def split: prod.splits)
    note exact = device_path_is_exact_and_leaves_no_memory [OF assms(1) r]
    from outcome exact have "if eo_success outcome
      then outcome\<lparr>eo_duration_ns := 0, eo_detail := []\<rparr> = host_checksum (iv_input iv)
      else eo_failure outcome = FailureKind.kExecutionFailure"
      by (auto simp: finish_execution_def device_outcome_ok_def device_bytes outcome_ok_def outcome_failed_def
          host_checksum_def Let_def)
    with exact counters accepted_invocation [OF None] host_reference [of iv sink] show ?thesis
      by (simp add: cuda_provenance_def split: if_splits)
  qed
qed

definition demo_probe :: ProbeAnswers where
  "demo_probe = \<lparr>pa_device_count = (None, 1), pa_set_device = None, pa_initialise = None\<rparr>"

definition demo_answers :: FactAnswers where
  "demo_answers =
     \<lparr>fa_open = \<lparr>oa_probe = \<lparr>pa_device_count = (None, 1), pa_set_device = None, pa_initialise = None\<rparr>,
        oa_upload = None, oa_stream = None, oa_kernel_start = None, oa_kernel_stop = None\<rparr>,
      fa_name_query = (demo_probe, None, ''Demo 1''), fa_capability_query = (demo_probe, None, 8, 6),
      fa_memory_query = (demo_probe, None, 4096), fa_driver_query = (None, 12040),
      fa_runtime_query = (None, 12040)\<rparr>"

definition demo_options :: CudaOptions where
  "demo_options =
     \<lparr>cx_domain_id = 3, cx_name = ''accelerator'', cx_max_payload_bytes = 1024, cx_queue_capacity = 8,
      cx_max_concurrency = 1, cx_device_index = 0, cx_parent_host = ''host'', cx_worker = 1, cx_worker_boot = 1\<rparr>"

definition demo_cuda :: CudaBackend where
  "demo_cuda = fst (new_cuda_backend ''host'' demo_answers demo_options closed_device)"

lemma demo_cuda_opened: "new_cuda_backend ''host'' demo_answers demo_options closed_device = (demo_cuda, demo_device)"
  by (simp add: new_cuda_backend_def assemble_backend_def demo_cuda_def demo_device_def demo_answers_def demo_options_def split_beta Let_def
      kErrorCapacity_def)

definition demo_hash :: ExecutionInvocation where
  "demo_hash = demo_invocation\<lparr>iv_operation_class := 1, iv_domain := 3\<rparr>"

lemma demo_device_opened: "device_step\<^sup>*\<^sup>* closed_device demo_device" "dv_open demo_device"
proof -
  show "device_step\<^sup>*\<^sup>* closed_device demo_device"
    unfolding demo_device_def by (rule r_into_rtranclp) (metis device_step.opens prod.collapse)
  show "dv_open demo_device"
    by (simp add: demo_device_def tos_cuda_open_def open_context_def probe_device_def closed_device_def Let_def)
qed

lemma demo_cuda_ready: "df_ready (cu_facts demo_cuda)" "\<not> cu_closed demo_cuda" "dr_id (cu_record demo_cuda) = 3"
  "cx_max_payload_bytes (cu_options demo_cuda) = 1024" "cu_device_reservations demo_cuda = []"
  "cu_reserved_device_bytes demo_cuda = 0"
  by (simp_all add: demo_cuda_def new_cuda_backend_def assemble_backend_def demo_answers_def demo_options_def Let_def split_beta
      tos_cuda_open_def open_context_def probe_device_def closed_device_def facts_ready)

lemma demo_hash_accepted: "cuda_refusal (demo_cuda\<lparr>cu_in_flight := n\<rparr>) demo_hash = None"
  by (simp add: cuda_refusal_def demo_cuda_ready demo_hash_def demo_invocation_def Let_def)

theorem accelerator_agrees_with_the_host_witness:
  "eo_success (fst (cuda_execute all_good demo_cuda demo_hash demo_device))
   \<and> eo_result_digest (fst (cuda_execute all_good demo_cuda demo_hash demo_device)) =
       eo_result_digest (fst (execute_operation_on_host builtin_descriptors 0 demo_hash))
   \<and> dv_outstanding_bytes (snd (snd (cuda_execute all_good demo_cuda demo_hash demo_device))) = 0"
proof -
  let ?x = "cuda_execute all_good demo_cuda demo_hash demo_device"
  note main = accelerator_agrees_with_the_host
    [OF demo_device_opened(1), of all_good demo_cuda demo_hash "fst ?x" "fst (snd ?x)" "snd (snd ?x)" 0]
  obtain r dv' where r: "tos_cuda_checksum_crc32c all_good (iv_input demo_hash) kErrorCapacity demo_device = (r, dv')"
    by fastforce
  have "ch_status r = TOS_CUDA_OK"
    using r demo_device_opened(2)
    by (auto simp: tos_cuda_checksum_crc32c_def with_allocations_def device_phase_def stage_def all_good_def
        kMaxDeviceBytes_def demo_hash_def demo_invocation_def Let_def split_beta split: if_splits)
  moreover from this have "ch_crc r = crc32c (iv_input demo_hash)"
    using device_path_is_exact_and_leaves_no_memory [OF demo_device_opened(1) r] by simp
  ultimately have ok: "eo_success (fst ?x)"
    using r demo_hash_accepted
    by (simp add: cuda_execute_def finish_execution_def device_outcome_ok_def outcome_ok_def Let_def split_beta)
  with main have "(fst ?x)\<lparr>eo_duration_ns := 0, eo_detail := []\<rparr> =
      fst (execute_operation_on_host builtin_descriptors 0 demo_hash)"
    by simp
  from arg_cong [where f = eo_result_digest, OF this]
  have "eo_result_digest (fst ?x) = eo_result_digest (fst (execute_operation_on_host builtin_descriptors 0 demo_hash))"
    by simp
  with ok main show ?thesis by simp
qed

theorem accelerator_claims_only_what_was_opened_witness:
  "cuda_provenance demo_cuda = Provenance.kReal
   \<and> cs_operations (cap_capability (dr_capability (cu_record demo_cuda))) = [1]
   \<and> cs_max_payload_bytes (cap_capability (dr_capability (cu_record demo_cuda))) \<le> 1024"
  using accelerator_claims_only_what_was_opened [OF demo_cuda_opened, of undefined undefined undefined] demo_cuda_ready(1)
  by (simp add: cuda_provenance_def demo_options_def)

subsection \<open>Claims\<close>

lemma reserve_success:
  assumes "cuda_reserve info dv b domain i amounts = (success, b')" and "amounts ResourceKind.kDeviceMemoryBytes \<noteq> 0"
  shows "domain = dr_id (cu_record b)
    \<and> b' = b\<lparr>cu_device_reservations :=
          AList.update i (amounts ResourceKind.kDeviceMemoryBytes) (cu_device_reservations b),
        cu_reserved_device_bytes := cu_reserved_device_bytes b + amounts ResourceKind.kDeviceMemoryBytes\<rparr>"
  using assms by (simp add: cuda_reserve_def Let_def split: if_splits prod.splits)

text \<open>A claim under a fresh id is given back exactly.\<close>

theorem device_claim_is_returned:
  assumes "cuda_reserve info dv b domain i amounts = (success, b')"
    and "amounts ResourceKind.kDeviceMemoryBytes \<noteq> 0"
    and "i \<notin> fst ` set (cu_device_reservations b)"
  shows "cu_reserved_device_bytes b' = cu_reserved_device_bytes b + amounts ResourceKind.kDeviceMemoryBytes
    \<and> cuda_release b' domain i = (success, b)"
proof -
  have fresh: "map_of (cu_device_reservations b) i = None" using assms(3) by (simp add: map_of_eq_None_iff)
  note reserved = reserve_success [OF assms(1,2)]
  with fresh assms(3) show ?thesis by (simp add: cuda_release_def delete_update_same)
qed

theorem device_claim_is_returned_witness:
  "\<exists>b'. cuda_reserve (None, 4096, 4096) demo_device demo_cuda 3 7
        (no_amounts(ResourceKind.kDeviceMemoryBytes := 64)) = (success, b')
    \<and> cu_reserved_device_bytes b' = 64 \<and> cuda_release b' 3 7 = (success, demo_cuda)"
proof -
  let ?r = "cuda_reserve (None, 4096, 4096) demo_device demo_cuda 3 7 (no_amounts(ResourceKind.kDeviceMemoryBytes := 64))"
  have "?r = (success, snd ?r)" by (simp add: cuda_reserve_def tos_cuda_memory_info_def demo_device_opened demo_cuda_ready Let_def)
  from this device_claim_is_returned [OF this] show ?thesis by (auto simp: demo_cuda_ready)
qed

text \<open>
  A claim under an id that already holds one replaces the entry but adds to the total, so that the
  release gives back only the second claim: the first stays counted against the device, with no entry
  left through which it could be released.\<close>

theorem repeated_claim_is_never_returned:
  assumes "cuda_reserve info dv b domain i amounts = (success, b1)" and "cuda_reserve info' dv' b1 domain i amounts' = (success, b2)"
    and "amounts ResourceKind.kDeviceMemoryBytes \<noteq> 0" and "amounts' ResourceKind.kDeviceMemoryBytes \<noteq> 0"
  shows "\<exists>b3. cuda_release b2 domain i = (success, b3)
    \<and> cu_reserved_device_bytes b3 = cu_reserved_device_bytes b + amounts ResourceKind.kDeviceMemoryBytes
    \<and> fst (cuda_release b3 domain i) \<noteq> success"
  using reserve_success [OF assms(1,3)] reserve_success [OF assms(2,4)]
  by (simp add: cuda_release_def success_def failure_def)

theorem repeated_claim_is_never_returned_witness:
  "\<exists>b2 b3. cuda_release b2 3 7 = (success, b3) \<and> cu_reserved_device_bytes b3 = 64"
proof -
  let ?a = "no_amounts(ResourceKind.kDeviceMemoryBytes := 64)"
  let ?r = "cuda_reserve (None, 4096, 4096) demo_device demo_cuda 3 7 ?a"
  let ?s = "cuda_reserve (None, 4096, 4096) demo_device (snd ?r) 3 7 ?a"
  have "?r = (success, snd ?r)" and "?s = (success, snd ?s)"
    by (simp_all add: cuda_reserve_def tos_cuda_memory_info_def demo_device_opened demo_cuda_ready Let_def)
  from repeated_claim_is_never_returned [OF this] show ?thesis by (auto simp: demo_cuda_ready)
qed

text \<open>
  A build without a toolkit has an accelerator backend that claims nothing: it is unsupported, every
  execution and every claim on it is refused with the reason, and its capability check never passes.\<close>

theorem build_without_toolkit_claims_nothing:
  assumes "new_stub_backend host fa options dv = (b, dv')"
  shows "dv' = dv \<and> cuda_provenance b = Provenance.kUnsupported
    \<and> \<not> cc_supported (check_capability (dr_capability (cu_record b)) classes request ev)
    \<and> cuda_execute ca b iv dv =
        (outcome_failed FailureKind.kBackendRejection ''cuda.unavailable: this build has no CUDA toolkit'', b, dv)
    \<and> \<not> st_ok (fst (cuda_reserve info dv b domain i amounts))"
proof -
  have facts: "cu_facts b = no_facts\<lparr>df_reason := ''this build has no CUDA toolkit''\<rparr>" "dv' = dv"
    and described: "\<exists>opts. cu_record b = describe_record host opts (cu_facts b)"
    using assms
    by (auto simp: new_stub_backend_def assemble_backend_def stub_open_def stub_report_def error_add_def
        kErrorCapacity_def Let_def split: if_splits)
  then have closed: "\<not> df_ready (cu_facts b)" by (simp add: no_facts_def)
  then show ?thesis
    using facts described unopened_record(2) [OF closed, of host]
    by (auto simp: cuda_provenance_def unsupported_never_checked cuda_execute_def cuda_refusal_def cuda_reserve_def
        Let_def)
qed

theorem build_without_toolkit_claims_nothing_witness:
  "cuda_provenance (fst (new_stub_backend ''host'' demo_answers demo_options closed_device)) = Provenance.kUnsupported"
  using build_without_toolkit_claims_nothing [OF surjective_pairing,
      of "''host''" demo_answers demo_options closed_device]
  by blast

text \<open>Once device 0 was found absent, it stays unavailable for the process whatever a probe would answer.\<close>

theorem first_probe_decides_availability:
  "fst (cuda_available pa' 0 (snd (cuda_available pa 0 None))) = fst (cuda_available pa 0 None)"
  by (simp add: cuda_available_def Let_def)

subsection \<open>A shared context\<close>

text \<open>
  The context belongs to the process: shutting one backend down closes it under every other one, which
  keeps its real provenance and its published capability while each execution it accepts fails.\<close>

theorem shutdown_closes_a_shared_context:
  assumes "df_ready (cu_facts a)" and "cuda_shutdown a dv = (st, a', dv')"
    and "cuda_refusal (b\<lparr>cu_in_flight := cu_in_flight b + 1\<rparr>) iv = None"
  shows "cuda_provenance b = Provenance.kReal
    \<and> eo_failure (fst (cuda_execute ca b iv dv')) = FailureKind.kExecutionFailure"
proof -
  have "\<not> dv_open dv'" using assms(1,2) by (auto simp: cuda_shutdown_def tos_cuda_close_def Let_def split: if_splits)
  then have "ch_status (fst (tos_cuda_checksum_crc32c ca (iv_input iv) kErrorCapacity dv')) \<noteq> TOS_CUDA_OK"
    by (simp add: tos_cuda_checksum_crc32c_def refused_def)
  then show ?thesis
    using assms(3) accepted_invocation [OF assms(3)]
    by (simp add: cuda_execute_def finish_execution_def cuda_provenance_def outcome_failed_def Let_def split_beta)
qed

theorem shutdown_closes_a_shared_context_witness:
  "let other = fst (new_cuda_backend ''host'' demo_answers demo_options demo_device);
       dv = snd (snd (cuda_shutdown demo_cuda demo_device))
   in eo_failure (fst (cuda_execute all_good other demo_hash dv)) = FailureKind.kExecutionFailure"
proof -
  let ?other = "fst (new_cuda_backend ''host'' demo_answers demo_options demo_device)"
  let ?s = "cuda_shutdown demo_cuda demo_device"
  have index: "dv_device_index demo_device = 0"
    by (simp add: demo_device_def tos_cuda_open_def open_context_def probe_device_def closed_device_def Let_def)
  have "cuda_refusal (?other\<lparr>cu_in_flight := cu_in_flight ?other + 1\<rparr>) demo_hash = None"
    using demo_device_opened(2) index
    by (simp add: cuda_refusal_def new_cuda_backend_def assemble_backend_def tos_cuda_open_def open_context_def demo_options_def demo_hash_def
        demo_invocation_def facts_ready Let_def)
  from shutdown_closes_a_shared_context [OF demo_cuda_ready(1) _ this, of demo_device "fst ?s" "fst (snd ?s)" "snd (snd ?s)"]
  show ?thesis by (simp add: Let_def)
qed

end
