(* ===== verification/Tos_Buffer.thy ===== *)
theory Tos_Buffer
  imports Tos_Bytes
begin

text \<open>
  Bounded byte encoding (\<^verbatim>\<open>src/include/tos/util/bytes.hpp\<close>, \<^verbatim>\<open>src/src/util/bytes.cpp\<close>): the writer with
  its size bound, the reader that fails on the first structural violation, hexadecimal text and the
  path checks. A sequence of writer calls is a list of \<open>WriterCall\<close>s; a reader is a function of the
  bytes that are left, whose failure carries the reason the reader records. Every codec of the
  program is a pair of such a list and such a function, and \<open>locale codec\<close> states what the pair
  promises.
\<close>

unbundle bit_operations_syntax

type_synonym u16 = "16 word"

section \<open>Writer\<close>

definition kMaxBlobBytes :: nat where "kMaxBlobBytes = 64 * 1024 * 1024"

record ByteWriter =
  bw_data :: "u8 list"
  bw_max_size :: nat
  bw_ok :: bool
  bw_code :: string

definition new_writer :: "nat \<Rightarrow> ByteWriter" where
  "new_writer max_size = \<lparr>bw_data = [], bw_max_size = max_size, bw_ok = True, bw_code = ''ok''\<rparr>"

definition byte_of_char :: "char \<Rightarrow> u8" where
  "byte_of_char c = of_nat (of_char c)"

definition char_of_byte :: "u8 \<Rightarrow> char" where
  "char_of_byte b = char_of (unat b)"

definition writer_raw :: "ByteWriter \<Rightarrow> u8 list \<Rightarrow> ByteWriter" where
  "writer_raw w bytes =
     (if \<not> bw_ok w then w
      else if length bytes > bw_max_size w \<or> length (bw_data w) > bw_max_size w - length bytes
      then w\<lparr>bw_ok := False, bw_code := ''buffer.size_limit''\<rparr>
      else w\<lparr>bw_data := bw_data w @ bytes\<rparr>)"

definition writer_u8 :: "ByteWriter \<Rightarrow> u8 \<Rightarrow> ByteWriter" where
  "writer_u8 w v = writer_raw w [v]"

definition writer_u16 :: "ByteWriter \<Rightarrow> u16 \<Rightarrow> ByteWriter" where
  "writer_u16 w v = writer_raw w (le_bytes 2 v)"

definition writer_u32 :: "ByteWriter \<Rightarrow> u32 \<Rightarrow> ByteWriter" where
  "writer_u32 w v = writer_raw w (le_bytes 4 v)"

definition writer_u64 :: "ByteWriter \<Rightarrow> u64 \<Rightarrow> ByteWriter" where
  "writer_u64 w v = writer_raw w (le_bytes 8 v)"

definition writer_blob :: "ByteWriter \<Rightarrow> u8 list \<Rightarrow> ByteWriter" where
  "writer_blob w bytes =
     (if length bytes > kMaxBlobBytes then w\<lparr>bw_ok := False, bw_code := ''buffer.blob_limit''\<rparr>
      else writer_raw (writer_u32 w (of_nat (length bytes))) bytes)"

definition writer_text :: "ByteWriter \<Rightarrow> string \<Rightarrow> ByteWriter" where
  "writer_text w s =
     (if length s > kMaxTextLength then w\<lparr>bw_ok := False, bw_code := ''buffer.text_limit''\<rparr>
      else writer_raw (writer_u32 w (of_nat (length s))) (map byte_of_char s))"

definition writer_status :: "ByteWriter \<Rightarrow> Status" where
  "writer_status w =
     (if bw_ok w then success
      else failure (bw_code w) ''encoded buffer exceeded a structural bound'')"

text \<open>The calls an encoder makes on its writer, in their order.\<close>

datatype WriterCall =
    PutU8 u8
  | PutU16 u16
  | PutU32 u32
  | PutU64 u64
  | PutText string
  | PutBlob "u8 list"
  | PutRaw "u8 list"

fun put_call :: "ByteWriter \<Rightarrow> WriterCall \<Rightarrow> ByteWriter" where
  "put_call w (PutU8 v) = writer_u8 w v"
| "put_call w (PutU16 v) = writer_u16 w v"
| "put_call w (PutU32 v) = writer_u32 w v"
| "put_call w (PutU64 v) = writer_u64 w v"
| "put_call w (PutText s) = writer_text w s"
| "put_call w (PutBlob bs) = writer_blob w bs"
| "put_call w (PutRaw bs) = writer_raw w bs"

definition put_calls :: "ByteWriter \<Rightarrow> WriterCall list \<Rightarrow> ByteWriter" where
  "put_calls w calls = foldl put_call w calls"

definition put_bool :: "bool \<Rightarrow> WriterCall" where
  "put_bool b = PutU8 (if b then 1 else 0)"

text \<open>What a call contributes when it fits.\<close>

fun call_bytes :: "WriterCall \<Rightarrow> u8 list" where
  "call_bytes (PutU8 v) = [v]"
| "call_bytes (PutU16 v) = le_bytes 2 v"
| "call_bytes (PutU32 v) = le_bytes 4 v"
| "call_bytes (PutU64 v) = le_bytes 8 v"
| "call_bytes (PutText s) = le_bytes 4 (of_nat (length s) :: u32) @ map byte_of_char s"
| "call_bytes (PutBlob bs) = le_bytes 4 (of_nat (length bs) :: u32) @ bs"
| "call_bytes (PutRaw bs) = bs"

fun call_fits :: "WriterCall \<Rightarrow> bool" where
  "call_fits (PutText s) = (length s \<le> kMaxTextLength)"
| "call_fits (PutBlob bs) = (length bs \<le> kMaxBlobBytes)"
| "call_fits _ = True"

definition calls_bytes :: "WriterCall list \<Rightarrow> u8 list" where
  "calls_bytes calls = concat (map call_bytes calls)"

section \<open>Reader\<close>

text \<open>
  \<^verbatim>\<open>ByteReader\<close> keeps the buffer and an offset into it; what it answers depends on the bytes from the
  offset on. Once it has failed it answers every further call with a failure, and each decoder
  returns at the first one, so a reader is a function that yields the reason or a value with the
  bytes that are left.
\<close>

type_synonym ('e, 'a) reader = "u8 list \<Rightarrow> 'e + 'a \<times> u8 list"

definition rreturn :: "'a \<Rightarrow> ('e, 'a) reader" where
  "rreturn x bs = Inr (x, bs)"

definition rfail :: "'e \<Rightarrow> ('e, 'a) reader" where
  "rfail reason bs = Inl reason"

definition rbind :: "('e, 'a) reader \<Rightarrow> ('a \<Rightarrow> ('e, 'b) reader) \<Rightarrow> ('e, 'b) reader" where
  "rbind r k bs = (case r bs of Inl e \<Rightarrow> Inl e | Inr (x, rest) \<Rightarrow> k x rest)"

definition rguard :: "bool \<Rightarrow> 'e \<Rightarrow> ('e, 'a) reader \<Rightarrow> ('e, 'a) reader" where
  "rguard condition reason r = (if condition then rfail reason else r)"

definition rmap_error :: "('e \<Rightarrow> 'f) \<Rightarrow> ('e, 'a) reader \<Rightarrow> ('f, 'a) reader" where
  "rmap_error f r bs = (case r bs of Inl e \<Rightarrow> Inl (f e) | Inr x \<Rightarrow> Inr x)"

definition reader_raw :: "nat \<Rightarrow> (string, u8 list) reader" where
  "reader_raw n bs =
     (if n > length bs then Inl ''buffer.truncated'' else Inr (take n bs, drop n bs))"

definition reader_u8 :: "(string, u8) reader" where
  "reader_u8 = rbind (reader_raw 1) (\<lambda>b. rreturn (hd b))"

definition reader_u16 :: "(string, u16) reader" where
  "reader_u16 = rbind (reader_raw 2) (\<lambda>b. rreturn (of_le_bytes b))"

definition reader_u32 :: "(string, u32) reader" where
  "reader_u32 = rbind (reader_raw 4) (\<lambda>b. rreturn (of_le_bytes b))"

definition reader_u64 :: "(string, u64) reader" where
  "reader_u64 = rbind (reader_raw 8) (\<lambda>b. rreturn (of_le_bytes b))"

definition reader_blob :: "nat \<Rightarrow> (string, u8 list) reader" where
  "reader_blob max_length =
     rbind reader_u32 (\<lambda>n. rguard (unat n > max_length) ''buffer.blob_limit'' (reader_raw (unat n)))"

definition reader_text :: "nat \<Rightarrow> (string, string) reader" where
  "reader_text max_length =
     rbind reader_u32 (\<lambda>n. rguard (unat n > max_length) ''buffer.text_limit''
       (rbind (reader_raw (unat n)) (\<lambda>b. rreturn (map char_of_byte b))))"

definition skip_zero :: "nat \<Rightarrow> (string, unit) reader" where
  "skip_zero n =
     rbind (reader_raw n) (\<lambda>b. rguard (list_ex (\<lambda>v. v \<noteq> 0) b) ''buffer.nonzero_padding'' (rreturn ()))"

text \<open>A counted loop of a decoder.\<close>

fun read_list :: "nat \<Rightarrow> ('e, 'a) reader \<Rightarrow> ('e, 'a list) reader" where
  "read_list 0 r = rreturn []"
| "read_list (Suc n) r = rbind r (\<lambda>x. rbind (read_list n r) (\<lambda>xs. rreturn (x # xs)))"

section \<open>Writer and reader agree\<close>

lemma char_of_byte_of_char [simp]: "char_of_byte (byte_of_char c) = c"
proof -
  have "unat (byte_of_char c) = of_char c mod 256"
    by (simp add: byte_of_char_def unat_of_nat)
  then show ?thesis by (simp add: char_of_byte_def)
qed

lemma writer_raw_ok:
  assumes "bw_ok w" and "length (bw_data w) + length bs \<le> bw_max_size w"
  shows "writer_raw w bs = w\<lparr>bw_data := bw_data w @ bs\<rparr>"
  using assms by (auto simp: writer_raw_def)

lemma writer_raw_full:
  assumes "length (bw_data w) + length bs > bw_max_size w"
  shows "\<not> bw_ok (writer_raw w bs)"
  using assms by (auto simp: writer_raw_def)

lemma writer_raw_keeps [simp]:
  "bw_max_size (writer_raw w bs) = bw_max_size w"
  "\<not> bw_ok w \<Longrightarrow> \<not> bw_ok (writer_raw w bs)"
  by (simp_all add: writer_raw_def)

lemmas writer_calls_def =
  writer_u8_def writer_u16_def writer_u32_def writer_u64_def writer_text_def writer_blob_def

lemma put_call_ok:
  assumes "bw_ok w" and "call_fits c"
    and "length (bw_data w) + length (call_bytes c) \<le> bw_max_size w"
  shows "put_call w c = w\<lparr>bw_data := bw_data w @ call_bytes c\<rparr>"
  using assms by (cases c) (simp_all add: writer_calls_def writer_raw_ok)

lemma put_call_failed [simp]:
  "\<not> bw_ok w \<Longrightarrow> \<not> bw_ok (put_call w c)" "bw_max_size (put_call w c) = bw_max_size w"
  by (cases c; simp add: writer_calls_def)+

lemma put_calls_failed: "\<not> bw_ok w \<Longrightarrow> \<not> bw_ok (put_calls w cs)"
  by (induction cs arbitrary: w) (simp_all add: put_calls_def)

lemma calls_bytes_simps [simp]:
  "calls_bytes [] = []" "calls_bytes (c # cs) = call_bytes c @ calls_bytes cs"
  "calls_bytes (cs @ ds) = calls_bytes cs @ calls_bytes ds"
  by (simp_all add: calls_bytes_def)

lemma put_calls_ok:
  assumes "bw_ok w" and "list_all call_fits cs"
    and "length (bw_data w) + length (calls_bytes cs) \<le> bw_max_size w"
  shows "put_calls w cs = w\<lparr>bw_data := bw_data w @ calls_bytes cs\<rparr>"
  using assms
proof (induction cs arbitrary: w)
  case Nil
  then show ?case by (simp add: put_calls_def)
next
  case (Cons c cs)
  then have "put_call w c = w\<lparr>bw_data := bw_data w @ call_bytes c\<rparr>"
    by (intro put_call_ok) simp_all
  with Cons show ?case by (simp add: put_calls_def)
qed

lemma reader_raw_append [simp]: "reader_raw (length xs) (xs @ ys) = Inr (xs, ys)"
  by (simp add: reader_raw_def)

lemma rbind_Inr: "r bs = Inr (x, rest) \<Longrightarrow> rbind r k bs = k x rest"
  by (simp add: rbind_def)

lemma rbind_Inl: "r bs = Inl e \<Longrightarrow> rbind r k bs = Inl e"
  by (simp add: rbind_def)

lemma rguard_simps [simp]: "rguard False e r = r" "rguard True e r = rfail e"
  by (simp_all add: rguard_def)

lemma rguard_False: "\<not> condition \<Longrightarrow> rguard condition e r = r"
  by (simp add: rguard_def)

lemma reader_u8_put [simp]: "reader_u8 (call_bytes (PutU8 v) @ rest) = Inr (v, rest)"
  by (simp add: reader_u8_def rbind_def reader_raw_def rreturn_def)

lemma reader_fixed:
  assumes "LENGTH('a::len) \<le> 8 * n"
  shows "rbind (reader_raw n) (\<lambda>b. rreturn (of_le_bytes b)) (le_bytes n (v :: 'a word) @ rest) = Inr (v, rest)"
  using reader_raw_append [of "le_bytes n v" rest] assms
  by (simp add: rbind_def rreturn_def of_le_le_bytes)

lemma reader_put [simp]:
  "reader_u16 (call_bytes (PutU16 v16) @ rest) = Inr (v16, rest)"
  "reader_u32 (call_bytes (PutU32 v32) @ rest) = Inr (v32, rest)"
  "reader_u64 (call_bytes (PutU64 v64) @ rest) = Inr (v64, rest)"
  by (simp_all add: reader_u16_def reader_u32_def reader_u64_def reader_fixed)

lemma unat_length_u32: "n < 2 ^ 32 \<Longrightarrow> unat (of_nat n :: u32) = n"
  by (simp add: unat_of_nat take_bit_eq_mod)

lemma reader_text_put [simp]:
  assumes "length s \<le> max_length" and "length s \<le> kMaxTextLength"
  shows "reader_text max_length (call_bytes (PutText s) @ rest) = Inr (s, rest)"
proof -
  have n: "unat (of_nat (length s) :: u32) = length s"
    using assms(2) by (intro unat_length_u32) (simp add: kMaxTextLength_def)
  have "reader_u32 (call_bytes (PutText s) @ rest) = Inr (of_nat (length s), map byte_of_char s @ rest)"
    using reader_put(2) [of "of_nat (length s)" "map byte_of_char s @ rest"] by simp
  then show ?thesis
    using assms(1) reader_raw_append [of "map byte_of_char s" rest]
    by (simp add: reader_text_def rbind_def n rguard_False rreturn_def o_def)
qed

lemma reader_blob_put [simp]:
  assumes "length bs \<le> max_length" and "length bs \<le> kMaxBlobBytes"
  shows "reader_blob max_length (call_bytes (PutBlob bs) @ rest) = Inr (bs, rest)"
proof -
  have n: "unat (of_nat (length bs) :: u32) = length bs"
    using assms(2) by (intro unat_length_u32) (simp add: kMaxBlobBytes_def)
  have "reader_u32 (call_bytes (PutBlob bs) @ rest) = Inr (of_nat (length bs), bs @ rest)"
    using reader_put(2) [of "of_nat (length bs)" "bs @ rest"] by simp
  then show ?thesis
    using assms(1) by (simp add: reader_blob_def rbind_def n rguard_False)
qed

declare call_bytes.simps [simp del]

text \<open>A step of a decoder on what the matching call of the encoder wrote.\<close>

lemma rbind_put [simp]:
  "rbind reader_u8 k8 (call_bytes (PutU8 v8) @ rest) = k8 v8 rest"
  "rbind reader_u16 k16 (call_bytes (PutU16 v16) @ rest) = k16 v16 rest"
  "rbind reader_u32 k32 (call_bytes (PutU32 v32) @ rest) = k32 v32 rest"
  "rbind reader_u64 k64 (call_bytes (PutU64 v64) @ rest) = k64 v64 rest"
  by (simp_all add: rbind_Inr)

lemma rbind_put_text [simp]:
  "length s \<le> max_length \<Longrightarrow> length s \<le> kMaxTextLength \<Longrightarrow>
     rbind (reader_text max_length) k (call_bytes (PutText s) @ rest) = k s rest"
  by (simp add: rbind_Inr)

lemma rbind_put_blob [simp]:
  "length bs \<le> max_length \<Longrightarrow> length bs \<le> kMaxBlobBytes \<Longrightarrow>
     rbind (reader_blob max_length) k (call_bytes (PutBlob bs) @ rest) = k bs rest"
  by (simp add: rbind_Inr)

lemma rreturn_apply [simp]: "rreturn x bs = Inr (x, bs)"
  by (simp add: rreturn_def)

lemma rbind_assoc: "rbind (rbind r k) j = rbind r (\<lambda>x. rbind (k x) j)"
  by (rule ext) (simp add: rbind_def split: sum.split prod.split)

lemma rbind_rreturn [simp]: "rbind (rreturn x) k = k x"
  by (rule ext) (simp add: rbind_def)

section \<open>Codecs\<close>

text \<open>
  A codec is an encoder with the decoder of the same format: on a storable value the decoder reads
  back what the format keeps of it, and leaves the rest of the buffer alone.
\<close>

locale codec =
  fixes encode :: "'a \<Rightarrow> WriterCall list" and decode :: "('e, 'a) reader"
    and keeps :: "'a \<Rightarrow> 'a" and storable :: "'a \<Rightarrow> bool"
  assumes round_trip: "storable x \<Longrightarrow> decode (calls_bytes (encode x) @ rest) = Inr (keeps x, rest)"
begin

lemma rbind_encoded: "storable x \<Longrightarrow> rbind decode k (calls_bytes (encode x) @ rest) = k (keeps x) rest"
  by (simp add: rbind_Inr round_trip)

lemma list_round_trip:
  "list_all storable xs \<Longrightarrow>
     read_list (length xs) decode (calls_bytes (concat (map encode xs)) @ rest) = Inr (map keeps xs, rest)"
  by (induction xs) (simp_all add: rbind_encoded rbind_Inr)

lemma rbind_list:
  "list_all storable xs \<Longrightarrow> n = length xs \<Longrightarrow>
     rbind (read_list n decode) k (calls_bytes (concat (map encode xs)) @ rest) = k (map keeps xs) rest"
  by (simp add: rbind_Inr list_round_trip)

end

interpretation u64_codec: codec "\<lambda>v. [PutU64 v]" reader_u64 id "\<lambda>_. True"
  by unfold_locales simp

section \<open>Hexadecimal text and paths\<close>

definition hex_digit :: "u8 \<Rightarrow> char" where
  "hex_digit v = ''0123456789abcdef'' ! unat v"

fun to_hex :: "u8 list \<Rightarrow> string" where
  "to_hex [] = []"
| "to_hex (b # bs) = hex_digit (drop_bit 4 b) # hex_digit (b AND 0x0F) # to_hex bs"

definition hex_value :: "char \<Rightarrow> u8 option" where
  "hex_value c =
     (let n = of_char c :: nat in
      if 48 \<le> n \<and> n \<le> 57 then Some (of_nat (n - 48))
      else if 97 \<le> n \<and> n \<le> 102 then Some (of_nat (n - 97 + 10))
      else if 65 \<le> n \<and> n \<le> 70 then Some (of_nat (n - 65 + 10))
      else None)"

fun hex_pairs :: "string \<Rightarrow> u8 list option" where
  "hex_pairs (h # l # rest) =
     (case (hex_value h, hex_value l) of
        (Some hi, Some lo) \<Rightarrow>
          (case hex_pairs rest of
             None \<Rightarrow> None
           | Some bs \<Rightarrow> Some ((push_bit 4 hi OR lo) # bs))
      | _ \<Rightarrow> None)"
| "hex_pairs _ = Some []"

definition from_hex :: "string \<Rightarrow> u8 list option" where
  "from_hex s =
     (if length s mod 2 \<noteq> 0 \<or> length s > kMaxBlobBytes * 2 then None else hex_pairs s)"

definition is_separator :: "char \<Rightarrow> bool" where
  "is_separator c = (c = CHR ''/'' \<or> c = CHR 0x5C)"

text \<open>The components of a path, as the loop over \<^verbatim>\<open>find_first_of\<close> yields them.\<close>

fun path_components :: "string \<Rightarrow> string list" where
  "path_components [] = [[]]"
| "path_components (c # cs) =
     (if is_separator c then [] # path_components cs
      else case path_components cs of
             [] \<Rightarrow> [[c]]
           | x # xs \<Rightarrow> (c # x) # xs)"

definition path_has_traversal :: "string \<Rightarrow> bool" where
  "path_has_traversal path = (''..'' \<in> set (path_components path))"

definition contains_control :: "string \<Rightarrow> bool" where
  "contains_control s = list_ex (\<lambda>c. (of_char c :: nat) < 0x20 \<or> (of_char c :: nat) = 0x7F) s"

definition kReservedNames :: "string list" where
  "kReservedNames =
     [''CON'', ''PRN'', ''AUX'', ''NUL'', ''COM1'', ''COM2'', ''COM3'', ''COM4'', ''COM5'', ''COM6'',
      ''COM7'', ''COM8'', ''COM9'', ''LPT1'', ''LPT2'', ''LPT3'', ''LPT4'', ''LPT5'', ''LPT6'',
      ''LPT7'', ''LPT8'', ''LPT9'']"

definition upper_char :: "char \<Rightarrow> char" where
  "upper_char c =
     (let n = of_char c :: nat in if 97 \<le> n \<and> n \<le> 122 then char_of (n - 32) else c)"

definition unsafe_component :: "string \<Rightarrow> bool" where
  "unsafe_component component =
     (component \<noteq> []
      \<and> (takeWhile (\<lambda>c. c \<noteq> CHR ''.'') (map upper_char component) \<in> set kReservedNames
         \<or> last component = CHR ''.'' \<or> last component = CHR '' ''))"

definition is_safe_relative_path :: "string \<Rightarrow> bool" where
  "is_safe_relative_path path =
     (if path = [] \<or> length path > 512 then False
      else if contains_control path then False
      else if is_separator (hd path) then False
      else if length path \<ge> 2 \<and> path ! 1 = CHR '':'' then False
      else if CHR ''*'' \<in> set path \<or> CHR ''?'' \<in> set path then False
      else if path_has_traversal path then False
      else \<not> list_ex unsafe_component (path_components path))"

lemma hex_digit_value:
  assumes "v < 16"
  shows "hex_value (hex_digit v) = Some v"
proof -
  have all: "list_all (\<lambda>n. hex_value (''0123456789abcdef'' ! n) = Some (of_nat n)) [0..<16]"
    by code_simp
  have "unat v < 16" using assms by (simp add: word_less_nat_alt)
  then have "hex_value (''0123456789abcdef'' ! unat v) = Some (of_nat (unat v))"
    using all by (simp only: list_all_iff set_upt) simp
  then show ?thesis by (simp add: hex_digit_def)
qed

lemma nibbles: "push_bit 4 (drop_bit 4 b) OR (b AND 0x0F) = (b :: u8)" "drop_bit 4 b < 16" "b AND 0x0F < 16"
proof -
  have m: "(0x0F :: u8) = mask 4" by (simp add: mask_eq_exp_minus_1)
  show "push_bit 4 (drop_bit 4 b) OR (b AND 0x0F) = b"
    unfolding m by (rule bit_word_eqI) (auto simp: bit_simps)
  show "b AND 0x0F < 16"
    using and_mask_less_size [of 4 b] unfolding m by (simp add: word_size)
  have "unat (drop_bit 4 b) = unat b div 16"
    by (simp only: unsigned_drop_bit_eq drop_bit_eq_div) (simp add: unat_div)
  then show "drop_bit 4 b < 16"
    using unsigned_less [of b, where ?'a = nat] by (simp only: word_less_nat_alt) simp
qed

lemma hex_pairs_to_hex: "hex_pairs (to_hex bs) = Some bs"
  by (induction bs) (simp_all add: hex_digit_value nibbles)

lemma length_to_hex [simp]: "length (to_hex bs) = 2 * length bs"
  by (induction bs) simp_all

lemma from_to_hex: "length bs \<le> kMaxBlobBytes \<Longrightarrow> from_hex (to_hex bs) = Some bs"
  by (simp add: from_hex_def hex_pairs_to_hex)

text \<open>The components of a path are what lies between its separators.\<close>

lemma path_components_not_Nil [simp]: "path_components p \<noteq> []"
  by (cases p) (simp_all split: list.split)

lemma components_free: "c \<in> set (path_components p) \<Longrightarrow> x \<in> set c \<Longrightarrow> \<not> is_separator x"
  by (induction p arbitrary: c) (auto split: list.splits if_splits; blast)+

lemma path_components_append:
  "is_separator x \<Longrightarrow> path_components (p @ x # q) = path_components p @ path_components q"
  by (induction p) (auto split: list.split)

lemma traversal_found:
  assumes "p = [] \<or> is_separator (last p)" and "q = [] \<or> is_separator (hd q)"
  shows "path_has_traversal (p @ ''..'' @ q)"
proof -
  have tail: "hd (path_components (''..'' @ q)) = ''..''"
    using assms(2) by (cases q) (auto simp: is_separator_def)
  show ?thesis
  proof (cases "p = []")
    case True
    then show ?thesis
      using tail list.set_sel(1) [OF path_components_not_Nil] by (metis append_Nil path_has_traversal_def)
  next
    case False
    then obtain p' x where p: "p = p' @ [x]" "is_separator x"
      using assms(1) by (metis append_butlast_last_id)
    then have "path_components (p @ ''..'' @ q) = path_components p' @ path_components (''..'' @ q)"
      using path_components_append [of x p' "''..'' @ q"] by simp
    then show ?thesis
      using tail list.set_sel(1) [OF path_components_not_Nil, of "''..'' @ q"]
      by (simp add: path_has_traversal_def del: path_components.simps)
  qed
qed

end
