(* ===== verification/Tos_Codec.thy ===== *)
theory Tos_Codec
  imports Tos_Buffer Tos_Policy Tos_Domain Tos_Attempt
begin

text \<open>
  Record codecs shared by the durable format and the wire protocol (\<^verbatim>\<open>src/src/persist/codec.cpp\<close>).
  Each encoder lists the writer calls in the order of the code; each decoder is the chain of reads,
  with the bounds it enforces. A codec keeps less than the record in two places: a domain is written
  without its load evidence, and an attempt without the failure kind of its result and with its
  texts bounded. \<open>durable_domain\<close> and \<open>durable_attempt\<close> say so.
\<close>

unbundle bit_operations_syntax

section \<open>Enumerations as bytes\<close>

definition all_Provenance :: "Provenance list" where
  "all_Provenance = [Provenance.kReal, Provenance.kSynthetic, Provenance.kUnsupported]"

definition all_IsolationClass :: "IsolationClass list" where
  "all_IsolationClass =
     [IsolationClass.kUnknown, IsolationClass.kSharedProcess, IsolationClass.kSeparateProcess,
      IsolationClass.kSeparateDeviceFunction, IsolationClass.kSeparateQueue,
      IsolationClass.kSeparateAddressSpace, IsolationClass.kSeparateExecutionContext,
      IsolationClass.kTenantIsolated, IsolationClass.kDedicatedDeviceService]"

definition all_LocalityClass :: "LocalityClass list" where
  "all_LocalityClass =
     [LocalityClass.kUnknown, LocalityClass.kRemoteHost, LocalityClass.kSameHost,
      LocalityClass.kSameNic, LocalityClass.kAcceleratorLocalNic, LocalityClass.kSamePcieSwitch,
      LocalityClass.kSameRootComplex, LocalityClass.kSameNumaNode, LocalityClass.kDomainLocal]"

definition all_SideEffectClass :: "SideEffectClass list" where
  "all_SideEffectClass =
     [SideEffectClass.kPure, SideEffectClass.kIdempotent, SideEffectClass.kAtMostOnceRequired,
      SideEffectClass.kNonRepeatable, SideEffectClass.kUnknown]"

definition all_AttemptState :: "AttemptState list" where
  "all_AttemptState =
     [AttemptState.kPlanned, AttemptState.kReserved, AttemptState.kDispatching,
      AttemptState.kDispatched, AttemptState.kCompleted, AttemptState.kFailed,
      AttemptState.kOutcomeUnknown, AttemptState.kCancelled, AttemptState.kRejectedStale,
      AttemptState.kFenced]"

definition all_AttemptResolution :: "AttemptResolution list" where
  "all_AttemptResolution =
     [AttemptResolution.kNone, AttemptResolution.kAuthoritativeSuccess,
      AttemptResolution.kAuthoritativeFailure, AttemptResolution.kAmbiguous,
      AttemptResolution.kCancelledBeforeDispatch, AttemptResolution.kCancelledAmbiguous,
      AttemptResolution.kFencedNoEffect, AttemptResolution.kFencedMayHaveEffect]"

definition all_OffloadRequirement :: "OffloadRequirement list" where
  "all_OffloadRequirement =
     [OffloadRequirement.kAny, OffloadRequirement.kPreferOffload,
      OffloadRequirement.kOffloadRequired, OffloadRequirement.kHostRequired]"

text \<open>\<^verbatim>\<open>static_cast\<close> to a byte, and \<^verbatim>\<open>read_enum\<close> with the largest value of the enumeration.\<close>

definition put_enum :: "('a \<Rightarrow> nat) \<Rightarrow> 'a \<Rightarrow> WriterCall" where
  "put_enum ordinal x = PutU8 (of_nat (ordinal x))"

definition read_enum :: "'a list \<Rightarrow> (string, 'a) reader" where
  "read_enum values =
     rbind reader_u8 (\<lambda>v. rguard (v > of_nat (length values - 1)) ''codec.enum_out_of_range''
       (rreturn (values ! unat v)))"

definition read_bool :: "(string, bool) reader" where
  "read_bool = rbind reader_u8 (\<lambda>v. rreturn (v \<noteq> 0))"

definition enumerates :: "('a \<Rightarrow> nat) \<Rightarrow> 'a list \<Rightarrow> bool" where
  "enumerates ordinal values \<longleftrightarrow>
     length values \<le> 256 \<and> (\<forall>x. ordinal x < length values \<and> values ! ordinal x = x)"

lemma enumerates_enums:
  "enumerates ord_ExecutionDomainType all_ExecutionDomainType"
  "enumerates ord_Provenance all_Provenance"
  "enumerates ord_IsolationClass all_IsolationClass"
  "enumerates ord_LocalityClass all_LocalityClass"
  "enumerates ord_SideEffectClass all_SideEffectClass"
  "enumerates ord_AttemptState all_AttemptState"
  "enumerates ord_AttemptResolution all_AttemptResolution"
  "enumerates ord_FailureKind all_FailureKind"
  "enumerates ord_OffloadRequirement all_OffloadRequirement"
proof -
  show "enumerates ord_ExecutionDomainType all_ExecutionDomainType"
    unfolding enumerates_def by (intro conjI allI) (simp add: all_ExecutionDomainType_def, (case_tac x; simp add: all_ExecutionDomainType_def)+)
  show "enumerates ord_Provenance all_Provenance"
    unfolding enumerates_def by (intro conjI allI) (simp add: all_Provenance_def, (case_tac x; simp add: all_Provenance_def)+)
  show "enumerates ord_IsolationClass all_IsolationClass"
    unfolding enumerates_def by (intro conjI allI) (simp add: all_IsolationClass_def, (case_tac x; simp add: all_IsolationClass_def)+)
  show "enumerates ord_LocalityClass all_LocalityClass"
    unfolding enumerates_def by (intro conjI allI) (simp add: all_LocalityClass_def, (case_tac x; simp add: all_LocalityClass_def)+)
  show "enumerates ord_SideEffectClass all_SideEffectClass"
    unfolding enumerates_def by (intro conjI allI) (simp add: all_SideEffectClass_def, (case_tac x; simp add: all_SideEffectClass_def)+)
  show "enumerates ord_AttemptState all_AttemptState"
    unfolding enumerates_def by (intro conjI allI) (simp add: all_AttemptState_def, (case_tac x; simp add: all_AttemptState_def)+)
  show "enumerates ord_AttemptResolution all_AttemptResolution"
    unfolding enumerates_def by (intro conjI allI) (simp add: all_AttemptResolution_def, (case_tac x; simp add: all_AttemptResolution_def)+)
  show "enumerates ord_FailureKind all_FailureKind"
    unfolding enumerates_def by (intro conjI allI) (simp add: all_FailureKind_def, (case_tac x; simp add: all_FailureKind_def)+)
  show "enumerates ord_OffloadRequirement all_OffloadRequirement"
    unfolding enumerates_def by (intro conjI allI) (simp add: all_OffloadRequirement_def, (case_tac x; simp add: all_OffloadRequirement_def)+)
qed

lemma read_enum_put:
  assumes "enumerates ordinal values"
  shows "read_enum values (call_bytes (put_enum ordinal x) @ rest) = Inr (x, rest)"
proof -
  have i: "ordinal x < length values" "values ! ordinal x = x" and n: "length values \<le> 256"
    using assms by (auto simp: enumerates_def)
  then have u: "unat (of_nat (ordinal x) :: u8) = ordinal x" "unat (of_nat (length values - 1) :: u8) = length values - 1"
    by (simp_all only: unat_of_nat) simp_all
  then have "\<not> (of_nat (ordinal x) :: u8) > of_nat (length values - 1)"
    using i(1) by (simp add: word_less_nat_alt)
  then show ?thesis
    using i(2) by (simp add: read_enum_def put_enum_def u(1))
qed

lemma read_bool_put [simp]: "read_bool (call_bytes (put_bool b) @ rest) = Inr (b, rest)"
  by (simp add: read_bool_def put_bool_def)

lemma rbind_put_enum [simp]:
  "rbind (read_enum all_ExecutionDomainType) k1 (call_bytes (put_enum ord_ExecutionDomainType x1) @ rest) = k1 x1 rest"
  "rbind (read_enum all_Provenance) k2 (call_bytes (put_enum ord_Provenance x2) @ rest) = k2 x2 rest"
  "rbind (read_enum all_IsolationClass) k3 (call_bytes (put_enum ord_IsolationClass x3) @ rest) = k3 x3 rest"
  "rbind (read_enum all_LocalityClass) k4 (call_bytes (put_enum ord_LocalityClass x4) @ rest) = k4 x4 rest"
  "rbind (read_enum all_SideEffectClass) k5 (call_bytes (put_enum ord_SideEffectClass x5) @ rest) = k5 x5 rest"
  "rbind (read_enum all_AttemptState) k6 (call_bytes (put_enum ord_AttemptState x6) @ rest) = k6 x6 rest"
  "rbind (read_enum all_AttemptResolution) k7 (call_bytes (put_enum ord_AttemptResolution x7) @ rest) = k7 x7 rest"
  "rbind (read_enum all_FailureKind) k8 (call_bytes (put_enum ord_FailureKind x8) @ rest) = k8 x8 rest"
  "rbind (read_enum all_OffloadRequirement) k9 (call_bytes (put_enum ord_OffloadRequirement x9) @ rest) = k9 x9 rest"
  by (simp_all add: rbind_Inr read_enum_put enumerates_enums)

lemma rbind_put_bool [simp]: "rbind read_bool k (call_bytes (put_bool b) @ rest) = k b rest"
  by (simp add: rbind_Inr)

lemma call_fits_simps [simp]: "call_fits (put_enum ordinal x)" "call_fits (put_bool b)"
  by (simp_all add: put_enum_def put_bool_def)

lemma call_bytes_length [simp]:
  "length (call_bytes (PutU8 v8)) = 1" "length (call_bytes (PutU16 v16)) = 2"
  "length (call_bytes (PutU32 v32)) = 4" "length (call_bytes (PutU64 v64)) = 8"
  "length (call_bytes (PutText s)) = 4 + length s" "call_bytes (PutRaw bs) = bs"
  "length (call_bytes (put_bool b)) = 1" "length (call_bytes (put_enum ordinal x)) = 1"
  by (simp_all add: call_bytes.simps put_bool_def put_enum_def)

interpretation type_codec: codec "\<lambda>x. [put_enum ord_ExecutionDomainType x]" "read_enum all_ExecutionDomainType" id "\<lambda>_. True"
  by unfold_locales (simp add: read_enum_put enumerates_enums)

interpretation provenance_codec: codec "\<lambda>x. [put_enum ord_Provenance x]" "read_enum all_Provenance" id "\<lambda>_. True"
  by unfold_locales (simp add: read_enum_put enumerates_enums)

interpretation bool_codec: codec "\<lambda>b. [put_bool b]" read_bool id "\<lambda>_. True"
  by unfold_locales simp

section \<open>Capabilities\<close>

definition write_capability :: "CapabilitySet \<Rightarrow> WriterCall list" where
  "write_capability c =
     PutU32 (of_nat (length (cs_operations c))) # map PutU64 (cs_operations c) @
     [PutU32 (cs_flags c), PutU32 (cs_unproven_flags c), PutU32 (cs_memory_domains c),
      PutU64 (cs_min_payload_bytes c), PutU64 (cs_max_payload_bytes c),
      PutU32 (cs_alignment_bytes c), PutU32 (cs_max_concurrency c), PutU32 (cs_queue_capacity c),
      PutU32 (cs_transport_classes c), PutU32 (cs_payload_classes c),
      PutU32 (cs_protocol_version c), PutU32 (cs_driver_backend_version c),
      PutU32 (cs_firmware_generation c), PutU32 (cs_accelerator_arch c),
      PutText (cs_backend_family c)]"

text \<open>The loop over the operation classes: valid, and strictly above the one before.\<close>

fun read_operations :: "nat \<Rightarrow> u64 option \<Rightarrow> (string, u64 list) reader" where
  "read_operations 0 previous = rreturn []"
| "read_operations (Suc n) previous =
     rbind reader_u64 (\<lambda>i.
       rguard (\<not> valid i) ''codec.invalid_operation_class''
       (rguard (case previous of None \<Rightarrow> False | Some p \<Rightarrow> i \<le> p) ''codec.duplicate_or_unsorted_operation''
       (rbind (read_operations n (Some i)) (\<lambda>rest. rreturn (i # rest)))))"

definition read_capability :: "(string, CapabilitySet) reader" where
  "read_capability =
     rbind reader_u32 (\<lambda>n. rguard (unat n > kMaxOperationClasses) ''codec.too_many_operations''
     (rbind (read_operations (unat n) None) (\<lambda>operations.
      rbind reader_u32 (\<lambda>flags. rbind reader_u32 (\<lambda>unproven_flags.
      rbind reader_u32 (\<lambda>memory_domains. rbind reader_u64 (\<lambda>min_payload_bytes.
      rbind reader_u64 (\<lambda>max_payload_bytes. rbind reader_u32 (\<lambda>alignment_bytes.
      rbind reader_u32 (\<lambda>max_concurrency. rbind reader_u32 (\<lambda>queue_capacity.
      rbind reader_u32 (\<lambda>transport_classes. rbind reader_u32 (\<lambda>payload_classes.
      rbind reader_u32 (\<lambda>protocol_version. rbind reader_u32 (\<lambda>driver_backend_version.
      rbind reader_u32 (\<lambda>firmware_generation. rbind reader_u32 (\<lambda>accelerator_arch.
      rbind (reader_text kMaxNameLength) (\<lambda>backend_family.
      rreturn
        \<lparr>cs_operations = operations, cs_flags = flags, cs_unproven_flags = unproven_flags,
         cs_memory_domains = memory_domains, cs_min_payload_bytes = min_payload_bytes,
         cs_max_payload_bytes = max_payload_bytes, cs_alignment_bytes = alignment_bytes,
         cs_max_concurrency = max_concurrency, cs_queue_capacity = queue_capacity,
         cs_transport_classes = transport_classes, cs_payload_classes = payload_classes,
         cs_protocol_version = protocol_version, cs_driver_backend_version = driver_backend_version,
         cs_firmware_generation = firmware_generation, cs_accelerator_arch = accelerator_arch,
         cs_backend_family = backend_family\<rparr>))))))))))))))))))"

definition storable_capability :: "CapabilitySet \<Rightarrow> bool" where
  "storable_capability c \<longleftrightarrow>
     length (cs_operations c) \<le> kMaxOperationClasses \<and> list_all valid (cs_operations c)
     \<and> sorted_wrt (<) (cs_operations c) \<and> length (cs_backend_family c) \<le> kMaxNameLength"

lemma read_operations_put:
  assumes "list_all valid xs" and "sorted_wrt (<) xs"
    and "\<And>p x. previous = Some p \<Longrightarrow> x \<in> set xs \<Longrightarrow> p < x"
  shows "read_operations (length xs) previous (calls_bytes (map PutU64 xs) @ rest) = Inr (xs, rest)"
  using assms
proof (induction xs arbitrary: previous)
  case (Cons x xs)
  then have "read_operations (length xs) (Some x) (calls_bytes (map PutU64 xs) @ rest) = Inr (xs, rest)"
    by (intro Cons.IH) auto
  moreover have "\<not> (case previous of None \<Rightarrow> False | Some p \<Rightarrow> x \<le> p)"
    using Cons.prems(3) by (auto simp: not_le split: option.split)
  ultimately show ?case using Cons.prems by (simp add: rguard_False rbind_Inr)
qed simp

lemma kMaxTextLength_ge: "n \<le> kMaxNameLength \<Longrightarrow> n \<le> kMaxTextLength" "n \<le> kMaxLabelLength \<Longrightarrow> n \<le> kMaxTextLength"
  by (simp_all add: kMaxNameLength_def kMaxLabelLength_def kMaxTextLength_def)

interpretation capability_codec: codec write_capability read_capability id storable_capability
proof
  fix c :: CapabilitySet and rest
  assume c: "storable_capability c"
  have n: "unat (of_nat (length (cs_operations c)) :: u32) = length (cs_operations c)"
    using c by (intro unat_length_u32) (simp add: storable_capability_def kMaxOperationClasses_def)
  have ops: "rbind (read_operations (length (cs_operations c)) None) k (calls_bytes (map PutU64 (cs_operations c)) @ r)
      = k (cs_operations c) r" for k :: "u64 list \<Rightarrow> (string, CapabilitySet) reader" and r
    using c by (intro rbind_Inr read_operations_put) (simp_all add: storable_capability_def)
  show "read_capability (calls_bytes (write_capability c) @ rest) = Inr (id c, rest)"
    using c by (simp add: read_capability_def write_capability_def n ops rguard_False
        storable_capability_def kMaxTextLength_ge)
qed

lemma write_capability_fits: "storable_capability c \<Longrightarrow> list_all call_fits (write_capability c)"
  by (simp add: write_capability_def storable_capability_def list_all_iff kMaxTextLength_ge)

section \<open>Domains\<close>

definition write_domain :: "ExecutionDomainRecord \<Rightarrow> WriterCall list" where
  "write_domain d =
     [PutU64 (dr_id d), PutU64 (dr_generation d), put_enum ord_ExecutionDomainType (dr_type d),
      PutText (dr_name d), PutText (dr_parent_device d), PutText (dr_parent_host d),
      PutU64 (dr_worker d), PutU64 (dr_worker_boot d), put_enum ord_Provenance (dr_provenance d),
      PutU64 (dr_registration_sequence d)] @
     write_capability (cap_capability (dr_capability d)) @
     [PutU64 (cap_domain (dr_capability d)), PutU64 (cap_generation (dr_capability d)),
      PutU64 (cap_evidence (dr_capability d)),
      put_enum ord_Provenance (cap_provenance (dr_capability d)),
      put_bool (cap_authoritative (dr_capability d)), PutU64 (cap_publisher (dr_capability d)),
      put_enum ord_IsolationClass (dr_isolation d), put_bool (dr_fenced d),
      PutText (dr_fence_reason d), PutU64 (dr_backend_generation d),
      PutU64 (ps_boot (dr_publisher_sequence d)), PutU64 (ps_capability (dr_publisher_sequence d)),
      PutU64 (ps_load (dr_publisher_sequence d)), PutU64 (ps_queue (dr_publisher_sequence d)),
      PutU64 (ps_health (dr_publisher_sequence d)), PutU64 (ps_locality (dr_publisher_sequence d)),
      PutU64 (ps_topology (dr_publisher_sequence d)),
      PutU64 (ps_compatibility (dr_publisher_sequence d)),
      PutU64 (ps_domain (dr_publisher_sequence d)),
      PutU64 (lo_generation (dr_locality d)),
      put_enum ord_LocalityClass (lo_class_to_payload (dr_locality d)),
      PutU32 (lo_numa_node (dr_locality d)), PutU32 (lo_host_index (dr_locality d)),
      PutU32 (lo_pcie_root_complex (dr_locality d)), PutU32 (lo_pcie_switch (dr_locality d)),
      PutU64 (lo_local_nic (dr_locality d)), put_bool (lo_has_local_nic (dr_locality d)),
      PutU64 (to_generation (dr_topology d)), PutText (to_host_node (dr_topology d)),
      PutText (to_fabric (dr_topology d)), PutU32 (to_rack (dr_topology d)),
      PutU32 (to_pod (dr_topology d)),
      PutU64 (cm_generation (dr_compatibility d)),
      PutU32 (cm_driver_backend_version (dr_compatibility d)),
      PutU32 (cm_firmware_generation (dr_compatibility d)),
      PutU32 (cm_protocol_version (dr_compatibility d)),
      PutU32 (cm_accelerator_arch (dr_compatibility d)),
      PutText (cm_backend_family (dr_compatibility d))] @
     map (\<lambda>k. PutU64 (dr_capacity d k)) all_ResourceKind"

text \<open>A \<^verbatim>\<open>std::array\<close> indexed by an enumeration, read element by element.\<close>

definition read_array :: "('k \<Rightarrow> nat) \<Rightarrow> nat \<Rightarrow> (string, 'a) reader \<Rightarrow> (string, 'k \<Rightarrow> 'a) reader" where
  "read_array ordinal n r = rbind (read_list n r) (\<lambda>values. rreturn (\<lambda>k. values ! ordinal k))"

text \<open>The reads of the nested records, in the order \<^verbatim>\<open>read_domain\<close> makes them.\<close>

definition read_publisher_sequence :: "(string, PublisherSequence) reader" where
  "read_publisher_sequence =
     rbind reader_u64 (\<lambda>boot. rbind reader_u64 (\<lambda>capability. rbind reader_u64 (\<lambda>load.
     rbind reader_u64 (\<lambda>queue. rbind reader_u64 (\<lambda>health. rbind reader_u64 (\<lambda>locality.
     rbind reader_u64 (\<lambda>topology. rbind reader_u64 (\<lambda>compatibility. rbind reader_u64 (\<lambda>domain.
     rreturn
       \<lparr>ps_boot = boot, ps_capability = capability, ps_load = load, ps_queue = queue,
        ps_health = health, ps_locality = locality, ps_topology = topology,
        ps_compatibility = compatibility, ps_domain = domain\<rparr>)))))))))"

definition read_locality :: "(string, DomainLocality) reader" where
  "read_locality =
     rbind reader_u64 (\<lambda>generation. rbind (read_enum all_LocalityClass) (\<lambda>class_to_payload.
     rbind reader_u32 (\<lambda>numa_node. rbind reader_u32 (\<lambda>host_index.
     rbind reader_u32 (\<lambda>pcie_root_complex. rbind reader_u32 (\<lambda>pcie_switch.
     rbind reader_u64 (\<lambda>local_nic. rbind read_bool (\<lambda>has_local_nic.
     rreturn
       \<lparr>lo_generation = generation, lo_class_to_payload = class_to_payload,
        lo_numa_node = numa_node, lo_host_index = host_index,
        lo_pcie_root_complex = pcie_root_complex, lo_pcie_switch = pcie_switch,
        lo_local_nic = local_nic, lo_has_local_nic = has_local_nic\<rparr>))))))))"

definition read_topology :: "(string, DomainTopology) reader" where
  "read_topology =
     rbind reader_u64 (\<lambda>generation. rbind (reader_text kMaxLabelLength) (\<lambda>host_node.
     rbind (reader_text kMaxLabelLength) (\<lambda>fabric. rbind reader_u32 (\<lambda>rack. rbind reader_u32 (\<lambda>pod.
     rreturn
       \<lparr>to_generation = generation, to_host_node = host_node, to_fabric = fabric, to_rack = rack,
        to_pod = pod\<rparr>)))))"

definition read_compatibility :: "(string, DomainCompatibility) reader" where
  "read_compatibility =
     rbind reader_u64 (\<lambda>generation. rbind reader_u32 (\<lambda>driver_backend_version.
     rbind reader_u32 (\<lambda>firmware_generation. rbind reader_u32 (\<lambda>protocol_version.
     rbind reader_u32 (\<lambda>accelerator_arch. rbind (reader_text kMaxNameLength) (\<lambda>backend_family.
     rreturn
       \<lparr>cm_generation = generation, cm_driver_backend_version = driver_backend_version,
        cm_firmware_generation = firmware_generation, cm_protocol_version = protocol_version,
        cm_accelerator_arch = accelerator_arch, cm_backend_family = backend_family\<rparr>))))))"

definition read_domain :: "(string, ExecutionDomainRecord) reader" where
  "read_domain =
     rbind reader_u64 (\<lambda>i. rbind reader_u64 (\<lambda>generation.
     rbind (read_enum all_ExecutionDomainType) (\<lambda>type. rbind (reader_text kMaxNameLength) (\<lambda>name.
     rbind (reader_text kMaxLabelLength) (\<lambda>parent_device.
     rbind (reader_text kMaxLabelLength) (\<lambda>parent_host.
     rbind reader_u64 (\<lambda>worker. rbind reader_u64 (\<lambda>worker_boot.
     rbind (read_enum all_Provenance) (\<lambda>provenance. rbind reader_u64 (\<lambda>registration_sequence.
     rbind read_capability (\<lambda>capability. rbind reader_u64 (\<lambda>capability_domain.
     rbind reader_u64 (\<lambda>capability_generation. rbind reader_u64 (\<lambda>evidence.
     rbind (read_enum all_Provenance) (\<lambda>capability_provenance. rbind read_bool (\<lambda>authoritative.
     rbind reader_u64 (\<lambda>publisher. rbind (read_enum all_IsolationClass) (\<lambda>isolation.
     rbind read_bool (\<lambda>fenced. rbind (reader_text kMaxTextLength) (\<lambda>fence_reason.
     rbind reader_u64 (\<lambda>backend_generation.
     rbind read_publisher_sequence (\<lambda>publisher_sequence.
     rbind read_locality (\<lambda>locality. rbind read_topology (\<lambda>topology.
     rbind read_compatibility (\<lambda>compatibility.
     rbind (read_array ord_ResourceKind (length all_ResourceKind) reader_u64) (\<lambda>capacity.
     rreturn
       \<lparr>dr_id = i, dr_generation = generation, dr_type = type, dr_name = name,
        dr_parent_device = parent_device, dr_parent_host = parent_host, dr_worker = worker,
        dr_worker_boot = worker_boot, dr_provenance = provenance,
        dr_registration_sequence = registration_sequence,
        dr_capability = \<lparr>cap_domain = capability_domain, cap_generation = capability_generation,
          cap_evidence = evidence, cap_publisher = publisher,
          cap_provenance = capability_provenance, cap_authoritative = authoritative,
          cap_capability = capability\<rparr>,
        dr_load = no_load, dr_locality = locality, dr_topology = topology,
        dr_compatibility = compatibility, dr_isolation = isolation, dr_capacity = capacity,
        dr_backend_generation = backend_generation, dr_publisher_sequence = publisher_sequence,
        dr_fenced = fenced, dr_fence_reason = fence_reason\<rparr>))))))))))))))))))))))))))"

definition durable_domain :: "ExecutionDomainRecord \<Rightarrow> ExecutionDomainRecord" where
  "durable_domain d = d\<lparr>dr_load := no_load\<rparr>"

definition storable_domain :: "ExecutionDomainRecord \<Rightarrow> bool" where
  "storable_domain d \<longleftrightarrow>
     length (dr_name d) \<le> kMaxNameLength \<and> length (dr_parent_device d) \<le> kMaxLabelLength
     \<and> length (dr_parent_host d) \<le> kMaxLabelLength
     \<and> storable_capability (cap_capability (dr_capability d))
     \<and> length (dr_fence_reason d) \<le> kMaxTextLength
     \<and> length (to_host_node (dr_topology d)) \<le> kMaxLabelLength
     \<and> length (to_fabric (dr_topology d)) \<le> kMaxLabelLength
     \<and> length (cm_backend_family (dr_compatibility d)) \<le> kMaxNameLength"

lemma read_list_put:
  assumes "\<And>x rest. r (calls_bytes (encode x) @ rest) = Inr (f x, rest)"
  shows "read_list (length xs) r (calls_bytes (concat (map encode xs)) @ rest) = Inr (map f xs, rest)"
  by (induction xs) (simp_all add: rbind_Inr assms)

text \<open>An array is read back element by element.\<close>

lemma rbind_array:
  assumes "enumerates ordinal values"
    and "\<And>x rest. r (calls_bytes (encode x) @ rest) = Inr (f x, rest)"
  shows "rbind (read_array ordinal (length values) r) k (calls_bytes (concat (map encode values)) @ rest)
    = k f rest"
proof -
  have "(\<lambda>k. map f values ! ordinal k) = f"
    using assms(1) by (auto simp: enumerates_def)
  moreover have "read_list (length values) r (calls_bytes (concat (map encode values)) @ rest) = Inr (map f values, rest)"
    by (rule read_list_put) (rule assms(2))
  ultimately show ?thesis by (simp add: read_array_def rbind_def)
qed

lemma enumerates_arrays:
  "enumerates ord_ResourceKind all_ResourceKind" "enumerates ord_RankingFactor all_RankingFactor"
proof -
  show "enumerates ord_ResourceKind all_ResourceKind"
    unfolding enumerates_def by (intro conjI allI) (simp add: all_ResourceKind_def, (case_tac x; simp add: all_ResourceKind_def)+)
  show "enumerates ord_RankingFactor all_RankingFactor"
    unfolding enumerates_def by (intro conjI allI) (simp add: all_RankingFactor_def, (case_tac x; simp add: all_RankingFactor_def)+)
qed

lemma rbind_u64_array [simp]:
  "rbind (read_array ord_ResourceKind (length all_ResourceKind) reader_u64) k
     (calls_bytes (map (\<lambda>x. PutU64 (f x)) all_ResourceKind) @ rest) = k f rest"
  using rbind_array [OF enumerates_arrays(1), of reader_u64 "\<lambda>x. [PutU64 (f x)]" f]
  by (simp add: concat_map_singleton)

interpretation domain_codec: codec write_domain read_domain durable_domain storable_domain
proof
  fix d :: ExecutionDomainRecord and rest
  assume d: "storable_domain d"
  then have c: "storable_capability (cap_capability (dr_capability d))" by (simp add: storable_domain_def)
  show "read_domain (calls_bytes (write_domain d) @ rest) = Inr (durable_domain d, rest)"
    using d unfolding storable_domain_def
    by (simp add: read_domain_def write_domain_def capability_codec.rbind_encoded [OF c]
        read_publisher_sequence_def read_locality_def read_topology_def read_compatibility_def
        kMaxTextLength_ge durable_domain_def rbind_assoc)
qed

lemma write_domain_fits: "storable_domain d \<Longrightarrow> list_all call_fits (write_domain d)"
  using write_capability_fits [of "cap_capability (dr_capability d)"]
  by (auto simp: write_domain_def storable_domain_def list_all_iff kMaxTextLength_ge)

section \<open>Attempts\<close>

definition write_attempt :: "ExecutionAttempt \<Rightarrow> WriterCall list" where
  "write_attempt a =
     [PutU64 (att_id a), PutU64 (att_generation a), PutU64 (att_operation a),
      PutU64 (att_operation_class a), put_enum ord_SideEffectClass (att_side_effect a),
      PutU64 (att_domain a), put_enum ord_ExecutionDomainType (att_domain_type a),
      PutU64 (att_domain_generation a), PutU64 (att_capability_generation a),
      PutU64 (att_worker a), PutU64 (att_worker_boot a), PutU64 (att_coordinator_epoch a),
      PutU64 (att_reservation a), PutU64 (att_dispatch a),
      put_enum ord_AttemptState (att_state a), put_enum ord_AttemptResolution (att_resolution a),
      put_enum ord_FailureKind (att_failure a),
      PutText (bounded_text (att_failure_detail a) kMaxTextLength),
      PutText (bounded_text (att_close_reason a) kMaxTextLength),
      put_enum ord_Provenance (att_provenance a), put_bool (att_fallback a),
      PutU64 (att_fallback_from a), PutU32 (att_retry_index a),
      put_bool (att_cancellation_requested a), put_bool (att_completion_committed a),
      put_bool (rp_success (att_result a)), PutU64 (rp_result_digest (att_result a)),
      PutU64 (rp_bytes_processed (att_result a)), PutU64 (rp_duration_ns (att_result a)),
      PutText (bounded_text (rp_backend_detail (att_result a)) kMaxTextLength),
      PutU64 (att_sequence a), PutU64 (att_dispatch_sequence a), PutU64 (att_snapshot a)]"

definition read_attempt :: "(string, ExecutionAttempt) reader" where
  "read_attempt =
     rbind reader_u64 (\<lambda>i. rbind reader_u64 (\<lambda>generation. rbind reader_u64 (\<lambda>operation.
     rbind reader_u64 (\<lambda>operation_class. rbind (read_enum all_SideEffectClass) (\<lambda>side_effect.
     rbind reader_u64 (\<lambda>domain. rbind (read_enum all_ExecutionDomainType) (\<lambda>domain_type.
     rbind reader_u64 (\<lambda>domain_generation. rbind reader_u64 (\<lambda>capability_generation.
     rbind reader_u64 (\<lambda>worker. rbind reader_u64 (\<lambda>worker_boot.
     rbind reader_u64 (\<lambda>coordinator_epoch. rbind reader_u64 (\<lambda>reservation.
     rbind reader_u64 (\<lambda>dispatch. rbind (read_enum all_AttemptState) (\<lambda>state.
     rbind (read_enum all_AttemptResolution) (\<lambda>resolution. rbind (read_enum all_FailureKind) (\<lambda>kind.
     rbind (reader_text kMaxTextLength) (\<lambda>failure_detail.
     rbind (reader_text kMaxTextLength) (\<lambda>close_reason.
     rbind (read_enum all_Provenance) (\<lambda>provenance. rbind read_bool (\<lambda>fallback.
     rbind reader_u64 (\<lambda>fallback_from. rbind reader_u32 (\<lambda>retry_index.
     rbind read_bool (\<lambda>cancellation_requested. rbind read_bool (\<lambda>completion_committed.
     rbind read_bool (\<lambda>result_success. rbind reader_u64 (\<lambda>result_digest.
     rbind reader_u64 (\<lambda>bytes_processed. rbind reader_u64 (\<lambda>duration_ns.
     rbind (reader_text kMaxTextLength) (\<lambda>backend_detail. rbind reader_u64 (\<lambda>sequence.
     rbind reader_u64 (\<lambda>dispatch_sequence. rbind reader_u64 (\<lambda>snapshot.
     rreturn
       \<lparr>att_id = i, att_generation = generation, att_operation = operation,
        att_operation_class = operation_class, att_side_effect = side_effect, att_domain = domain,
        att_domain_type = domain_type, att_domain_generation = domain_generation,
        att_capability_generation = capability_generation, att_worker = worker,
        att_worker_boot = worker_boot, att_coordinator_epoch = coordinator_epoch,
        att_reservation = reservation, att_dispatch = dispatch, att_state = state,
        att_resolution = resolution, att_failure = kind, att_failure_detail = failure_detail,
        att_close_reason = close_reason, att_provenance = provenance, att_fallback = fallback,
        att_fallback_from = fallback_from, att_retry_index = retry_index,
        att_cancellation_requested = cancellation_requested,
        att_completion_committed = completion_committed,
        att_result = \<lparr>rp_success = result_success, rp_result_digest = result_digest,
          rp_bytes_processed = bytes_processed, rp_duration_ns = duration_ns,
          rp_failure = FailureKind.kNone, rp_backend_detail = backend_detail\<rparr>,
        att_sequence = sequence, att_dispatch_sequence = dispatch_sequence,
        att_snapshot = snapshot\<rparr>)))))))))))))))))))))))))))))))))"

definition durable_attempt :: "ExecutionAttempt \<Rightarrow> ExecutionAttempt" where
  "durable_attempt a =
     a\<lparr>att_failure_detail := bounded_text (att_failure_detail a) kMaxTextLength,
       att_close_reason := bounded_text (att_close_reason a) kMaxTextLength,
       att_result := (att_result a)
         \<lparr>rp_failure := FailureKind.kNone,
          rp_backend_detail := bounded_text (rp_backend_detail (att_result a)) kMaxTextLength\<rparr>\<rparr>"

interpretation attempt_codec: codec write_attempt read_attempt durable_attempt "\<lambda>_. True"
  by unfold_locales (simp add: read_attempt_def write_attempt_def durable_attempt_def length_bounded_text)

lemma write_attempt_fits: "list_all call_fits (write_attempt a)"
  by (simp add: write_attempt_def length_bounded_text)

section \<open>Policy\<close>

definition put_types :: "ExecutionDomainType list \<Rightarrow> WriterCall list" where
  "put_types types =
     PutU32 (of_nat (length types)) # map (put_enum ord_ExecutionDomainType) types"

definition read_types :: "string \<Rightarrow> (string, ExecutionDomainType list) reader" where
  "read_types reason =
     rbind reader_u32 (\<lambda>n. rguard (unat n > kExecutionDomainTypeCount) reason
       (read_list (unat n) (read_enum all_ExecutionDomainType)))"

definition write_policy :: "SchedulerPolicy \<Rightarrow> WriterCall list" where
  "write_policy p =
     [PutU64 (pol_generation p), PutU64 (pol_isolation_generation p),
      PutU64 (pol_compatibility_generation p),
      put_enum ord_OffloadRequirement (pol_offload_requirement p),
      put_enum ord_IsolationClass (pol_minimum_isolation p),
      put_bool (pol_require_positive_evidence p), put_bool (pol_allow_unsupported_provenance p)] @
     put_types (pol_forbidden_domains p) @
     PutU32 (of_nat (length (pol_forbidden_domain_ids p))) # map PutU64 (pol_forbidden_domain_ids p) @
     PutU32 (of_nat (length (pol_forbidden_provenance p))) #
       map (put_enum ord_Provenance) (pol_forbidden_provenance p) @
     map (\<lambda>k. PutU32 (of_int (pol_weights p k))) all_RankingFactor @
     put_types (pol_preference_order p) @
     [put_bool (rsp_enabled (pol_reservation p)),
      put_bool (rsp_require_reservation_for_offload_only (pol_reservation p))] @
     map (\<lambda>k. PutU64 (rsp_per_operation (pol_reservation p) k)) all_ResourceKind @
     [put_bool (rtp_enabled (pol_retry p)), PutU32 (rtp_max_attempts (pol_retry p)),
      PutU32 (rtp_max_ambiguous_retries (pol_retry p))] @
     map (\<lambda>k. put_bool (rtp_retryable (pol_retry p) k)) all_FailureKind @
     [put_bool (fbp_enabled (pol_fallback p)), PutU32 (fbp_max_depth (pol_fallback p)),
      put_bool (fbp_allow_host_fallback (pol_fallback p))] @
     concat (map (\<lambda>t. put_types (fbp_chains (pol_fallback p) t)) all_ExecutionDomainType) @
     [put_bool (fr_capability (pol_freshness p)), put_bool (fr_health (pol_freshness p)),
      put_bool (fr_queue (pol_freshness p)), put_bool (fr_load (pol_freshness p)),
      put_bool (fr_topology (pol_freshness p)), put_bool (fr_locality (pol_freshness p)),
      put_bool (fr_compatibility (pol_freshness p)), put_bool (fr_isolation (pol_freshness p)),
      put_bool (fr_evidence (pol_freshness p))] @
     concat (map (\<lambda>t. [PutU64 (pol_type_setup_cost_units p t),
                        PutU64 (pol_type_per_byte_cost_micro_units p t)]) all_ExecutionDomainType) @
     [PutU64 (pol_maximum_cost_units p), PutU64 (of_nat (pol_max_reported_candidates p))]"

definition read_reservation_policy :: "(string, ReservationPolicy) reader" where
  "read_reservation_policy =
     rbind read_bool (\<lambda>enabled. rbind read_bool (\<lambda>offload_only.
     rbind (read_array ord_ResourceKind (length all_ResourceKind) reader_u64) (\<lambda>per_operation.
     rreturn
       \<lparr>rsp_enabled = enabled, rsp_per_operation = per_operation,
        rsp_require_reservation_for_offload_only = offload_only\<rparr>)))"

definition read_retry_policy :: "(string, RetryPolicy) reader" where
  "read_retry_policy =
     rbind read_bool (\<lambda>enabled. rbind reader_u32 (\<lambda>max_attempts.
     rbind reader_u32 (\<lambda>max_ambiguous_retries.
     rbind (read_array ord_FailureKind (length all_FailureKind) read_bool) (\<lambda>retryable.
     rreturn
       \<lparr>rtp_enabled = enabled, rtp_max_attempts = max_attempts, rtp_retryable = retryable,
        rtp_max_ambiguous_retries = max_ambiguous_retries\<rparr>))))"

definition read_fallback_policy :: "(string, FallbackPolicy) reader" where
  "read_fallback_policy =
     rbind read_bool (\<lambda>enabled. rbind reader_u32 (\<lambda>max_depth. rbind read_bool (\<lambda>allow_host_fallback.
     rbind (read_array ord_ExecutionDomainType (length all_ExecutionDomainType)
              (read_types ''codec.fallback_chain_too_long'')) (\<lambda>chains.
     rreturn
       \<lparr>fbp_enabled = enabled, fbp_max_depth = max_depth, fbp_chains = chains,
        fbp_allow_host_fallback = allow_host_fallback\<rparr>))))"

definition read_freshness :: "(string, FreshnessRequirements) reader" where
  "read_freshness =
     rbind read_bool (\<lambda>capability. rbind read_bool (\<lambda>health. rbind read_bool (\<lambda>queue.
     rbind read_bool (\<lambda>load. rbind read_bool (\<lambda>topology. rbind read_bool (\<lambda>locality.
     rbind read_bool (\<lambda>compatibility. rbind read_bool (\<lambda>isolation. rbind read_bool (\<lambda>evidence.
     rreturn
       \<lparr>fr_capability = capability, fr_health = health, fr_queue = queue, fr_load = load,
        fr_topology = topology, fr_locality = locality, fr_compatibility = compatibility,
        fr_isolation = isolation, fr_evidence = evidence\<rparr>)))))))))"

definition read_cost_pair :: "(string, u64 \<times> u64) reader" where
  "read_cost_pair = rbind reader_u64 (\<lambda>setup. rbind reader_u64 (\<lambda>per_byte. rreturn (setup, per_byte)))"

definition read_weight :: "(string, int) reader" where
  "read_weight = rbind reader_u32 (\<lambda>w. rreturn (sint w))"

definition read_policy :: "(string, SchedulerPolicy) reader" where
  "read_policy =
     rbind reader_u64 (\<lambda>generation. rbind reader_u64 (\<lambda>isolation_generation.
     rbind reader_u64 (\<lambda>compatibility_generation.
     rbind (read_enum all_OffloadRequirement) (\<lambda>offload_requirement.
     rbind (read_enum all_IsolationClass) (\<lambda>minimum_isolation.
     rbind read_bool (\<lambda>require_positive_evidence. rbind read_bool (\<lambda>allow_unsupported_provenance.
     rbind (read_types ''codec.too_many_domains'') (\<lambda>forbidden_domains.
     rbind reader_u32 (\<lambda>ids. rguard (unat ids > kMaxExecutionDomains) ''codec.too_many_domains'' (
     rbind (read_list (unat ids) reader_u64) (\<lambda>forbidden_domain_ids.
     rbind reader_u32 (\<lambda>entries. rguard (entries > 8) ''codec.too_many_provenance_entries'' (
     rbind (read_list (unat entries) (read_enum all_Provenance)) (\<lambda>forbidden_provenance.
     rbind (read_array ord_RankingFactor (length all_RankingFactor) read_weight) (\<lambda>weights.
     rbind (read_types ''codec.too_many_preferences'') (\<lambda>preference_order.
     rbind read_reservation_policy (\<lambda>reservation. rbind read_retry_policy (\<lambda>retry.
     rbind read_fallback_policy (\<lambda>fallback. rbind read_freshness (\<lambda>freshness.
     rbind (read_array ord_ExecutionDomainType (length all_ExecutionDomainType) read_cost_pair) (\<lambda>costs.
     rbind reader_u64 (\<lambda>maximum_cost_units. rbind reader_u64 (\<lambda>reported.
     rguard (reported = 0 \<or> unat reported > kMaxReportedCandidates) ''codec.candidate_report_bound_invalid'' (
     rreturn
       \<lparr>pol_generation = generation, pol_isolation_generation = isolation_generation,
        pol_compatibility_generation = compatibility_generation,
        pol_offload_requirement = offload_requirement, pol_minimum_isolation = minimum_isolation,
        pol_require_positive_evidence = require_positive_evidence,
        pol_allow_unsupported_provenance = allow_unsupported_provenance,
        pol_forbidden_domains = forbidden_domains, pol_forbidden_domain_ids = forbidden_domain_ids,
        pol_forbidden_provenance = forbidden_provenance, pol_weights = weights,
        pol_preference_order = preference_order, pol_reservation = reservation, pol_retry = retry,
        pol_fallback = fallback, pol_freshness = freshness,
        pol_type_setup_cost_units = (\<lambda>t. fst (costs t)),
        pol_type_per_byte_cost_micro_units = (\<lambda>t. snd (costs t)),
        pol_maximum_cost_units = maximum_cost_units, pol_max_reported_candidates = unat reported\<rparr>))))))))))))))))))))))))"

definition storable_types :: "ExecutionDomainType list \<Rightarrow> bool" where
  "storable_types types \<longleftrightarrow> length types \<le> kExecutionDomainTypeCount"

definition storable_policy :: "SchedulerPolicy \<Rightarrow> bool" where
  "storable_policy p \<longleftrightarrow>
     storable_types (pol_forbidden_domains p)
     \<and> length (pol_forbidden_domain_ids p) \<le> kMaxExecutionDomains
     \<and> length (pol_forbidden_provenance p) \<le> 8
     \<and> (\<forall>k. - (2 ^ 31) \<le> pol_weights p k \<and> pol_weights p k < 2 ^ 31)
     \<and> storable_types (pol_preference_order p)
     \<and> (\<forall>t. storable_types (fbp_chains (pol_fallback p) t))
     \<and> 0 < pol_max_reported_candidates p \<and> pol_max_reported_candidates p \<le> kMaxReportedCandidates"

lemma read_types_put: "storable_types types \<Longrightarrow> read_types reason (calls_bytes (put_types types) @ rest) = Inr (types, rest)"
proof -
  assume t: "storable_types types"
  then have n: "unat (of_nat (length types) :: u32) = length types"
    by (intro unat_length_u32) (simp add: storable_types_def kExecutionDomainTypeCount_def)
  show ?thesis
    using t type_codec.list_round_trip [of types rest]
    by (simp add: read_types_def put_types_def n rguard_False storable_types_def concat_map_singleton list.pred_True)
qed

lemma rbind_types: "storable_types types \<Longrightarrow> rbind (read_types reason) k (calls_bytes (put_types types) @ rest) = k types rest"
  by (simp add: rbind_Inr read_types_put)

lemma sint_of_int_u32: "- (2 ^ 31) \<le> i \<Longrightarrow> i < 2 ^ 31 \<Longrightarrow> sint (of_int i :: u32) = i"
  by (simp add: signed_of_int signed_take_bit_int_eq_self)

lemma read_weight_put:
  "- (2 ^ 31) \<le> i \<Longrightarrow> i < 2 ^ 31 \<Longrightarrow> read_weight (call_bytes (PutU32 (of_int i)) @ rest) = Inr (i, rest)"
  by (simp only: read_weight_def rbind_put sint_of_int_u32 rreturn_apply)

text \<open>The arrays of the policy.\<close>

lemma rbind_policy_arrays:
  "rbind (read_array ord_FailureKind (length all_FailureKind) read_bool) k1
     (calls_bytes (map (\<lambda>x. put_bool (f1 x)) all_FailureKind) @ rest) = k1 f1 rest"
  "(\<And>x. - (2 ^ 31) \<le> f2 x \<and> f2 x < 2 ^ 31) \<Longrightarrow>
   rbind (read_array ord_RankingFactor (length all_RankingFactor) read_weight) k2
     (calls_bytes (map (\<lambda>x. PutU32 (of_int (f2 x))) all_RankingFactor) @ rest) = k2 f2 rest"
  "(\<And>t. storable_types (f3 t)) \<Longrightarrow>
   rbind (read_array ord_ExecutionDomainType (length all_ExecutionDomainType) (read_types reason)) k3
     (calls_bytes (concat (map (\<lambda>t. put_types (f3 t)) all_ExecutionDomainType)) @ rest) = k3 f3 rest"
  "rbind (read_array ord_ExecutionDomainType (length all_ExecutionDomainType) read_cost_pair) k4
     (calls_bytes (concat (map (\<lambda>t. [PutU64 (f4 t), PutU64 (g4 t)]) all_ExecutionDomainType)) @ rest)
     = k4 (\<lambda>t. (f4 t, g4 t)) rest"
proof -
  show "rbind (read_array ord_FailureKind (length all_FailureKind) read_bool) k1
     (calls_bytes (map (\<lambda>x. put_bool (f1 x)) all_FailureKind) @ rest) = k1 f1 rest"
    using rbind_array [OF enumerates_enums(8), of read_bool "\<lambda>x. [put_bool (f1 x)]" f1]
    by (simp add: concat_map_singleton)
  show "rbind (read_array ord_RankingFactor (length all_RankingFactor) read_weight) k2
     (calls_bytes (map (\<lambda>x. PutU32 (of_int (f2 x))) all_RankingFactor) @ rest) = k2 f2 rest"
    if "\<And>x. - (2 ^ 31) \<le> f2 x \<and> f2 x < 2 ^ 31"
    using that rbind_array [OF enumerates_arrays(2), of read_weight "\<lambda>x. [PutU32 (of_int (f2 x))]" f2]
    by (simp add: concat_map_singleton read_weight_put)
  show "rbind (read_array ord_ExecutionDomainType (length all_ExecutionDomainType) (read_types reason)) k3
     (calls_bytes (concat (map (\<lambda>t. put_types (f3 t)) all_ExecutionDomainType)) @ rest) = k3 f3 rest"
    if "\<And>t. storable_types (f3 t)"
    using that by (intro rbind_array [OF enumerates_enums(1)] read_types_put)
  show "rbind (read_array ord_ExecutionDomainType (length all_ExecutionDomainType) read_cost_pair) k4
     (calls_bytes (concat (map (\<lambda>t. [PutU64 (f4 t), PutU64 (g4 t)]) all_ExecutionDomainType)) @ rest)
     = k4 (\<lambda>t. (f4 t, g4 t)) rest"
    by (rule rbind_array [OF enumerates_enums(1)]) (simp add: read_cost_pair_def)
qed

lemma rbind_ids:
  "n = length xs \<Longrightarrow> rbind (read_list n reader_u64) k (calls_bytes (map PutU64 xs) @ rest) = k xs rest"
  using u64_codec.rbind_list [of xs n k rest] by (simp add: concat_map_singleton list.pred_True)

lemma rbind_provenances:
  "n = length xs \<Longrightarrow> rbind (read_list n (read_enum all_Provenance)) k
     (calls_bytes (map (put_enum ord_Provenance) xs) @ rest) = k xs rest"
  using provenance_codec.rbind_list [of xs n k rest] by (simp add: concat_map_singleton list.pred_True)

interpretation policy_codec: codec write_policy read_policy id storable_policy
proof
  fix p :: SchedulerPolicy and rest
  assume p: "storable_policy p"
  then have n: "unat (of_nat (length (pol_forbidden_domain_ids p)) :: u32) = length (pol_forbidden_domain_ids p)"
      "unat (of_nat (length (pol_forbidden_provenance p)) :: u32) = length (pol_forbidden_provenance p)"
    by (auto intro!: unat_length_u32 simp: storable_policy_def kMaxExecutionDomains_def)
  have r: "unat (of_nat (pol_max_reported_candidates p) :: u64) = pol_max_reported_candidates p"
    using p by (simp add: storable_policy_def kMaxReportedCandidates_def unat_of_nat)
  moreover from this have "(of_nat (pol_max_reported_candidates p) :: u64) \<noteq> 0"
    using p by (metis storable_policy_def less_irrefl unat_eq_0)
  moreover have "\<not> (of_nat (length (pol_forbidden_provenance p)) :: u32) > 8"
    using p n(2) by (simp add: word_less_nat_alt storable_policy_def)
  ultimately show "read_policy (calls_bytes (write_policy p) @ rest) = Inr (id p, rest)"
    using p unfolding storable_policy_def
    by (simp add: read_policy_def write_policy_def n rguard_False rbind_types rbind_ids rbind_provenances
        read_reservation_policy_def read_retry_policy_def read_fallback_policy_def read_freshness_def
        rbind_policy_arrays rbind_assoc)
qed

lemma write_policy_fits: "list_all call_fits (write_policy p)"
  by (auto simp: write_policy_def put_types_def list_all_iff)

end
