(* ===== verification/Tos_Store.thy ===== *)
theory Tos_Store
  imports Tos_Codec Tos_Recovery
begin

text \<open>
  The durable image of the scheduler (\<^verbatim>\<open>src/include/tos/persist/store.hpp\<close>,
  \<^verbatim>\<open>src/src/persist/store.cpp\<close>, the file helpers of \<^verbatim>\<open>src/src/util/bytes.cpp\<close>): a header with magic,
  version, flags, length and CRC-32C, then the state in canonical order; full validation on the way
  back in; and the atomic replacement of the state file. The file system is a map from paths to
  contents, and each operating-system call of a write may fail.
\<close>

unbundle bit_operations_syntax

section \<open>Encoding\<close>

definition kMagic :: "u8 list" where "kMagic = map byte_of_char ''TOSP''"
definition kHeaderBytes :: nat where "kHeaderBytes = 16"
definition kMaxPersistedBytes :: nat where "kMaxPersistedBytes = 64 * 1024 * 1024"
definition kMaxPersistedDomains :: nat where "kMaxPersistedDomains = 65536"
definition kMaxPersistedAttempts :: nat where "kMaxPersistedAttempts = 200000"
definition kPersistenceFormatVersion :: u16 where "kPersistenceFormatVersion = 1"

text \<open>\<^verbatim>\<open>std::sort\<close> by identity; the identities of a registry or ledger are distinct.\<close>

definition sorted_boots :: "u64 list \<Rightarrow> u64 list" where
  "sorted_boots boots = remdups_adj (sort boots)"

definition payload_calls :: "PersistedState \<Rightarrow> WriterCall list" where
  "payload_calls s =
     (let domains = sort_key dr_id (pt_domains s);
          attempts = sort_key att_id (pt_attempts s);
          boots = sorted_boots (pt_fenced_boots s)
      in [PutU64 (pt_generation s), PutU64 (pt_last_epoch s), PutU64 (pt_policy_generation s),
          put_bool (pt_has_policy s)] @
         (if pt_has_policy s then write_policy (pt_policy s) else []) @
         [PutU64 (pt_counter_operation s), PutU64 (pt_counter_plan_sequence s),
          PutU64 (pt_counter_dispatch s), PutU64 (pt_counter_snapshot s),
          PutU64 (pt_counter_domain s)] @
         PutU32 (of_nat (length domains)) # concat (map write_domain domains) @
         PutU32 (of_nat (length attempts)) # concat (map write_attempt attempts) @
         PutU32 (of_nat (length boots)) # map PutU64 boots)"

definition header_calls :: "u8 list \<Rightarrow> WriterCall list" where
  "header_calls body =
     [PutRaw kMagic, PutU16 kPersistenceFormatVersion, PutU16 0, PutU32 (of_nat (length body)),
      PutU32 (crc32c body)]"

definition encode_state :: "PersistedState \<Rightarrow> u8 list" where
  "encode_state s =
     (let body = bw_data (put_calls (new_writer kMaxPersistedBytes) (payload_calls s))
      in bw_data (put_calls (new_writer kMaxPersistedBytes) (header_calls body @ [PutRaw body])))"

definition payload_crc :: "PersistedState \<Rightarrow> u32" where
  "payload_crc s =
     (let bytes = encode_state s
      in if length bytes < kHeaderBytes then 0 else of_le_bytes (take 4 (drop 12 bytes)))"

section \<open>Decoding\<close>

text \<open>A rejection of the decoder: the code and the detail of the status.\<close>

type_synonym state_error = "string \<times> string"

definition or_truncated :: "(string, 'a) reader \<Rightarrow> (state_error, 'a) reader" where
  "or_truncated r = rmap_error (\<lambda>_. (''state.truncated'', [])) r"

definition decode_policy :: "bool \<Rightarrow> (state_error, SchedulerPolicy) reader" where
  "decode_policy has_policy =
     (if has_policy
      then rbind (rmap_error (\<lambda>e. (''state.malformed_policy'', e)) read_policy) (\<lambda>p.
             rguard (\<not> st_ok (validate_policy p)) (''state.invalid_policy'', st_code (validate_policy p))
               (rreturn p))
      else rreturn unset_policy)"

definition not_above :: "u64 option \<Rightarrow> u64 \<Rightarrow> bool" where
  "not_above previous i = (case previous of None \<Rightarrow> False | Some p \<Rightarrow> i \<le> p)"

fun decode_domains :: "nat \<Rightarrow> u64 option \<Rightarrow> (state_error, ExecutionDomainRecord list) reader" where
  "decode_domains 0 previous = rreturn []"
| "decode_domains (Suc n) previous =
     rbind (rmap_error (\<lambda>e. (''state.malformed_domain'', e)) read_domain) (\<lambda>d.
       rguard (\<not> valid (dr_id d)) (''state.invalid_domain_identity'', [])
       (rguard (\<not> st_ok (validate_domain_record d))
          (''state.invalid_domain'', st_code (validate_domain_record d))
       (rguard (not_above previous (dr_id d)) (''state.duplicate_or_unsorted_domain'', [])
       (rbind (decode_domains n (Some (dr_id d))) (\<lambda>ds. rreturn (d # ds))))))"

text \<open>What the lifecycle checks of the loop over attempts reject.\<close>

definition impossible_lifecycle :: "ExecutionAttempt \<Rightarrow> state_error option" where
  "impossible_lifecycle a =
     (if (att_state a = AttemptState.kCompleted \<or> att_state a = AttemptState.kFailed)
         \<and> \<not> att_completion_committed a
      then Some (''state.impossible_attempt_lifecycle'', ''terminal result without a committed completion'')
      else if (att_state a = AttemptState.kCompleted \<or> att_state a = AttemptState.kFailed)
              \<and> (att_state a = AttemptState.kCompleted) \<noteq> rp_success (att_result a)
      then Some (''state.impossible_attempt_lifecycle'', ''terminal state contradicts the recorded result'')
      else if att_state a \<in> {AttemptState.kDispatching, AttemptState.kDispatched,
                AttemptState.kPlanned, AttemptState.kReserved}
      then Some (''state.in_flight_attempt_persisted'',
             ''in-flight attempts must be classified before persistence'')
      else None)"

fun decode_attempts :: "nat \<Rightarrow> u64 option \<Rightarrow> (state_error, ExecutionAttempt list) reader" where
  "decode_attempts 0 previous = rreturn []"
| "decode_attempts (Suc n) previous =
     rbind (rmap_error (\<lambda>e. (''state.malformed_attempt'', e)) read_attempt) (\<lambda>a.
       rguard (\<not> valid (att_id a) \<or> \<not> valid (att_operation a)) (''state.invalid_attempt'', [])
       (rguard (not_above previous (att_id a)) (''state.duplicate_or_unsorted_attempt'', [])
       (rguard (impossible_lifecycle a \<noteq> None) (the (impossible_lifecycle a))
       (rbind (decode_attempts n (Some (att_id a))) (\<lambda>rest. rreturn (a # rest))))))"

fun decode_boots :: "nat \<Rightarrow> u64 option \<Rightarrow> (state_error, u64 list) reader" where
  "decode_boots 0 previous = rreturn []"
| "decode_boots (Suc n) previous =
     rbind (or_truncated reader_u64) (\<lambda>boot.
       rguard (\<not> valid boot) (''state.invalid_boot_id'', [])
       (rguard (not_above previous boot) (''state.duplicate_or_unsorted_boot'', [])
       (rbind (decode_boots n (Some boot)) (\<lambda>boots. rreturn (boot # boots)))))"

definition at_end :: "(state_error, unit) reader" where
  "at_end bs = (if bs \<noteq> [] then Inl (''state.trailing_bytes'', []) else Inr ((), bs))"

definition decode_body :: "(state_error, PersistedState) reader" where
  "decode_body =
     rbind (or_truncated reader_u64) (\<lambda>generation. rbind (or_truncated reader_u64) (\<lambda>last_epoch.
     rbind (or_truncated reader_u64) (\<lambda>policy_generation. rbind (or_truncated reader_u8) (\<lambda>has_policy.
     rbind (decode_policy (has_policy \<noteq> 0)) (\<lambda>policy.
     rbind (or_truncated reader_u64) (\<lambda>operation. rbind (or_truncated reader_u64) (\<lambda>plan_sequence.
     rbind (or_truncated reader_u64) (\<lambda>dispatch. rbind (or_truncated reader_u64) (\<lambda>snapshot.
     rbind (or_truncated reader_u64) (\<lambda>domain.
     rbind (or_truncated reader_u32) (\<lambda>domain_count.
     rguard (unat domain_count > kMaxPersistedDomains) (''state.too_many_domains'', []) (
     rbind (decode_domains (unat domain_count) None) (\<lambda>domains.
     rbind (or_truncated reader_u32) (\<lambda>attempt_count.
     rguard (unat attempt_count > kMaxPersistedAttempts) (''state.too_many_attempts'', []) (
     rbind (decode_attempts (unat attempt_count) None) (\<lambda>attempts.
     rbind (or_truncated reader_u32) (\<lambda>boot_count.
     rguard (boot_count > 65536) (''state.too_many_boots'', []) (
     rbind (decode_boots (unat boot_count) None) (\<lambda>boots.
     rbind at_end (\<lambda>_.
     rguard (\<not> published generation) (''state.missing_generation'', []) (
     rreturn
       \<lparr>pt_generation = generation, pt_last_epoch = last_epoch,
        pt_policy_generation = policy_generation, pt_has_policy = (has_policy \<noteq> 0),
        pt_policy = policy, pt_domains = domains, pt_attempts = attempts, pt_fenced_boots = boots,
        pt_counter_operation = operation, pt_counter_plan_sequence = plan_sequence,
        pt_counter_dispatch = dispatch, pt_counter_snapshot = snapshot,
        pt_counter_domain = domain\<rparr>)))))))))))))))))))))"

definition read_header :: "(string, u16 \<times> u16 \<times> u32 \<times> u32) reader" where
  "read_header =
     rbind reader_u16 (\<lambda>version. rbind reader_u16 (\<lambda>flags. rbind reader_u32 (\<lambda>n.
     rbind reader_u32 (\<lambda>crc. rreturn (version, flags, n, crc)))))"

text \<open>An empty vector has no data pointer.\<close>

definition decode_state :: "u8 list \<Rightarrow> PersistedState Checked" where
  "decode_state data =
     (if data = [] then bad ''state.empty'' []
      else if length data < kHeaderBytes then bad ''state.truncated_header'' []
      else if length data > kMaxPersistedBytes then bad ''state.too_large'' []
      else if take 4 data \<noteq> kMagic then bad ''state.bad_magic'' []
      else case read_header (drop 4 data) of
             Inl _ \<Rightarrow> bad ''state.truncated_header'' []
           | Inr ((version, flags, n, crc), _) \<Rightarrow>
               if version \<noteq> kPersistenceFormatVersion
               then bad ''state.unsupported_version'' (decimal (unat version))
               else if flags \<noteq> 0 then bad ''state.unsupported_flags'' []
               else if unat n \<noteq> length data - kHeaderBytes then bad ''state.length_mismatch'' []
               else if crc32c (drop kHeaderBytes data) \<noteq> crc then bad ''state.integrity_failure'' []
               else case decode_body (drop kHeaderBytes data) of
                      Inl (code, detail) \<Rightarrow> bad code detail
                    | Inr (s, _) \<Rightarrow> Good s)"

section \<open>Files\<close>

type_synonym FileSystem = "string \<rightharpoonup> u8 list"

text \<open>The points at which the operating system can refuse: opening the temporary file, writing it
  (after some bytes have reached the disk), and renaming it.\<close>

datatype WriteFault = NoFault | OpenFails | WriteFails nat | RenameFails

definition temporary :: "string \<Rightarrow> string" where
  "temporary path = path @ ''.tmp''"

definition write_file_atomic :: "WriteFault \<Rightarrow> FileSystem \<Rightarrow> string \<Rightarrow> u8 list \<Rightarrow> Status \<times> FileSystem" where
  "write_file_atomic fault fs path bytes =
     (case fault of
        OpenFails \<Rightarrow> (failure ''file.open_failed'' path, fs)
      | WriteFails n \<Rightarrow> (failure ''file.write_failed'' path, fs(temporary path \<mapsto> take n bytes))
      | RenameFails \<Rightarrow> (failure ''file.replace_failed'' path, fs(temporary path := None))
      | NoFault \<Rightarrow> (success, fs(temporary path := None, path \<mapsto> bytes)))"

datatype ReadFault = ReadOk | ReadOpenFails | ReadShort

definition read_file_bytes :: "ReadFault \<Rightarrow> FileSystem \<Rightarrow> string \<Rightarrow> nat \<Rightarrow> u8 list Checked" where
  "read_file_bytes fault fs path max_bytes =
     (case fs path of
        None \<Rightarrow> bad ''file.missing'' path
      | Some bytes \<Rightarrow>
          if length bytes > max_bytes then bad ''file.too_large'' path
          else if fault = ReadOpenFails then bad ''file.open_failed'' path
          else if length bytes > 0 \<and> fault = ReadShort then bad ''file.truncated'' path
          else Good bytes)"

definition remove_file :: "FileSystem \<Rightarrow> string \<Rightarrow> FileSystem" where
  "remove_file fs path = fs(path := None)"

definition is_safe_state_path :: "string \<Rightarrow> bool" where
  "is_safe_state_path path =
     (if path = [] \<or> length path > 512 then False
      else if contains_control path then False
      else \<not> path_has_traversal path)"

text \<open>\<^verbatim>\<open>StateStore::save\<close> and \<^verbatim>\<open>StateStore::load\<close>.\<close>

definition store_write :: "WriteFault \<Rightarrow> FileSystem \<Rightarrow> string \<Rightarrow> PersistedState \<Rightarrow> Status \<times> FileSystem" where
  "store_write fault fs path s =
     (if path = [] then (failure ''state.no_path'' [], fs)
      else if \<not> is_safe_state_path path then (failure ''state.unsafe_path'' path, fs)
      else if length (encode_state s) > kMaxPersistedBytes then (failure ''state.too_large'' [], fs)
      else write_file_atomic fault fs path (encode_state s))"

definition store_read :: "ReadFault \<Rightarrow> FileSystem \<Rightarrow> string \<Rightarrow> PersistedState Checked" where
  "store_read fault fs path =
     (if path = [] then bad ''state.no_path'' []
      else if \<not> is_safe_state_path path then bad ''state.unsafe_path'' []
      else case read_file_bytes fault fs path kMaxPersistedBytes of
             Bad st \<Rightarrow> bad (st_code st) (st_message st)
           | Good bytes \<Rightarrow> decode_state bytes)"

section \<open>What an image keeps\<close>

definition durable_state :: "PersistedState \<Rightarrow> PersistedState" where
  "durable_state s =
     s\<lparr>pt_policy := (if pt_has_policy s then pt_policy s else unset_policy),
       pt_domains := map durable_domain (sort_key dr_id (pt_domains s)),
       pt_attempts := map durable_attempt (sort_key att_id (pt_attempts s)),
       pt_fenced_boots := sorted_boots (pt_fenced_boots s)\<rparr>"

lemma durable_state_eq:
  "durable_state s =
     \<lparr>pt_generation = pt_generation s, pt_last_epoch = pt_last_epoch s,
      pt_policy_generation = pt_policy_generation s, pt_has_policy = pt_has_policy s,
      pt_policy = (if pt_has_policy s then pt_policy s else unset_policy),
      pt_domains = map durable_domain (sort_key dr_id (pt_domains s)),
      pt_attempts = map durable_attempt (sort_key att_id (pt_attempts s)),
      pt_fenced_boots = sorted_boots (pt_fenced_boots s),
      pt_counter_operation = pt_counter_operation s,
      pt_counter_plan_sequence = pt_counter_plan_sequence s,
      pt_counter_dispatch = pt_counter_dispatch s, pt_counter_snapshot = pt_counter_snapshot s,
      pt_counter_domain = pt_counter_domain s\<rparr>"
  by (cases s) (simp add: durable_state_def)

definition domain_ok :: "ExecutionDomainRecord \<Rightarrow> bool" where
  "domain_ok d \<longleftrightarrow> storable_domain d \<and> st_ok (validate_domain_record (durable_domain d))"

definition attempt_storable :: "ExecutionAttempt \<Rightarrow> bool" where
  "attempt_storable a \<longleftrightarrow> valid (att_id a) \<and> valid (att_operation a) \<and> impossible_lifecycle a = None"

text \<open>Everything an image needs apart from the lifecycle of its attempts.\<close>

definition image_ok :: "PersistedState \<Rightarrow> bool" where
  "image_ok s \<longleftrightarrow>
     published (pt_generation s)
     \<and> (pt_has_policy s \<longrightarrow> storable_policy (pt_policy s) \<and> st_ok (validate_policy (pt_policy s)))
     \<and> length (pt_domains s) \<le> kMaxPersistedDomains \<and> distinct (map dr_id (pt_domains s))
     \<and> list_all domain_ok (pt_domains s)
     \<and> length (pt_attempts s) \<le> kMaxPersistedAttempts \<and> distinct (map att_id (pt_attempts s))
     \<and> length (sorted_boots (pt_fenced_boots s)) \<le> 65536 \<and> list_all valid (pt_fenced_boots s)
     \<and> length (calls_bytes (payload_calls s)) + kHeaderBytes \<le> kMaxPersistedBytes"

definition state_storable :: "PersistedState \<Rightarrow> bool" where
  "state_storable s \<longleftrightarrow> image_ok s \<and> list_all attempt_storable (pt_attempts s)"

lemma rbind_mapped [simp]:
  "r bs = Inr (x, rest) \<Longrightarrow> rbind (rmap_error f r) k bs = k x rest"
  by (simp add: rbind_def rmap_error_def)

lemma rbind_or_truncated [simp]:
  "rbind (or_truncated reader_u8) k8 (call_bytes (PutU8 v8) @ rest) = k8 v8 rest"
  "rbind (or_truncated reader_u32) k32 (call_bytes (PutU32 v32) @ rest) = k32 v32 rest"
  "rbind (or_truncated reader_u64) k64 (call_bytes (PutU64 v64) @ rest) = k64 v64 rest"
  by (simp_all add: or_truncated_def)

lemma durable_ids [simp]:
  "dr_id (durable_domain d) = dr_id d" "att_id (durable_attempt a) = att_id a"
  "att_operation (durable_attempt a) = att_operation a"
  "impossible_lifecycle (durable_attempt a) = impossible_lifecycle a"
  by (simp_all add: durable_domain_def durable_attempt_def impossible_lifecycle_def)

text \<open>Sorting by a key that is injective on the list gives strictly ascending keys.\<close>

lemma sort_key_ascending: "distinct (map f xs) \<Longrightarrow> sorted_wrt (<) (map f (sort_key f xs))"
proof -
  assume "distinct (map f xs)"
  then have "distinct (map f (sort_key f xs))" by (simp add: distinct_map)
  then show ?thesis by (simp add: strict_sorted_iff)
qed

lemma sorted_boots_ascending: "sorted_wrt (<) (sorted_boots boots)" "set (sorted_boots boots) = set boots"
  by (simp_all add: sorted_boots_def strict_sorted_iff distinct_remdups_adj_sorted)

lemma not_aboveI: "(\<And>p. previous = Some p \<Longrightarrow> p < i) \<Longrightarrow> \<not> not_above previous i"
  by (auto simp: not_above_def not_le split: option.split)

lemma decode_domains_put:
  assumes "list_all domain_ok ds" and "sorted_wrt (<) (map dr_id ds)"
    and "\<And>p d. previous = Some p \<Longrightarrow> d \<in> set ds \<Longrightarrow> p < dr_id d"
  shows "decode_domains (length ds) previous (calls_bytes (concat (map write_domain ds)) @ rest)
    = Inr (map durable_domain ds, rest)"
  using assms
proof (induction ds arbitrary: previous)
  case (Cons d ds)
  have "decode_domains (length ds) (Some (dr_id d)) (calls_bytes (concat (map write_domain ds)) @ rest)
      = Inr (map durable_domain ds, rest)"
    using Cons.prems by (intro Cons.IH) auto
  moreover have "\<not> not_above previous (dr_id d)" using Cons.prems(3) by (intro not_aboveI) simp
  moreover have "valid (dr_id (durable_domain d))"
    using Cons.prems(1) validate_domain_record_facts(1) [of "durable_domain d"] by (simp add: domain_ok_def)
  ultimately show ?case
    using Cons.prems(1) domain_codec.round_trip [of d] by (simp add: rguard_False rbind_Inr domain_ok_def)
qed simp

lemma decode_attempts_put:
  assumes "list_all attempt_storable as" and "sorted_wrt (<) (map att_id as)"
    and "\<And>p a. previous = Some p \<Longrightarrow> a \<in> set as \<Longrightarrow> p < att_id a"
  shows "decode_attempts (length as) previous (calls_bytes (concat (map write_attempt as)) @ rest)
    = Inr (map durable_attempt as, rest)"
  using assms
proof (induction as arbitrary: previous)
  case (Cons a as)
  have "decode_attempts (length as) (Some (att_id a)) (calls_bytes (concat (map write_attempt as)) @ rest)
      = Inr (map durable_attempt as, rest)"
    using Cons.prems by (intro Cons.IH) auto
  moreover have "\<not> not_above previous (att_id a)" using Cons.prems(3) by (intro not_aboveI) simp
  ultimately show ?case
    using Cons.prems(1) attempt_codec.round_trip [of a] by (simp add: rguard_False rbind_Inr attempt_storable_def)
qed simp

lemma decode_boots_put:
  assumes "list_all valid bs" and "sorted_wrt (<) bs"
    and "\<And>p b. previous = Some p \<Longrightarrow> b \<in> set bs \<Longrightarrow> p < b"
  shows "decode_boots (length bs) previous (calls_bytes (map PutU64 bs) @ rest) = Inr (bs, rest)"
  using assms
proof (induction bs arbitrary: previous)
  case (Cons b bs)
  have "decode_boots (length bs) (Some b) (calls_bytes (map PutU64 bs) @ rest) = Inr (bs, rest)"
    using Cons.prems by (intro Cons.IH) auto
  moreover have "\<not> not_above previous b" using Cons.prems(3) by (intro not_aboveI) simp
  ultimately show ?case using Cons.prems(1) by (simp add: rguard_False rbind_Inr)
qed simp

text \<open>The body of an image, up to the attempts.\<close>

lemma decode_policy_put:
  assumes "pt_has_policy s \<longrightarrow> storable_policy (pt_policy s) \<and> st_ok (validate_policy (pt_policy s))"
  shows "rbind (decode_policy (pt_has_policy s)) k
      (calls_bytes (if pt_has_policy s then write_policy (pt_policy s) else []) @ rest)
    = k (if pt_has_policy s then pt_policy s else unset_policy) rest"
  using assms by (simp add: decode_policy_def rbind_assoc policy_codec.round_trip)

lemma unat_lengths:
  assumes "image_ok s"
  shows "unat (of_nat (length (pt_domains s)) :: u32) = length (pt_domains s)"
    "unat (of_nat (length (pt_attempts s)) :: u32) = length (pt_attempts s)"
    "unat (of_nat (length (sorted_boots (pt_fenced_boots s))) :: u32) = length (sorted_boots (pt_fenced_boots s))"
  using assms by (auto intro!: unat_length_u32 simp: image_ok_def kMaxPersistedDomains_def kMaxPersistedAttempts_def)

lemma calls_bool [simp]: "(if b then 1 else 0 :: u8) \<noteq> 0 \<longleftrightarrow> b"
  by simp

lemma decode_body_prefix:
  assumes "image_ok s"
  shows "decode_body (calls_bytes (payload_calls s)) =
    rbind (decode_attempts (length (pt_attempts s)) None) (\<lambda>attempts.
    rbind (or_truncated reader_u32) (\<lambda>boot_count.
    rguard (boot_count > 65536) (''state.too_many_boots'', []) (
    rbind (decode_boots (unat boot_count) None) (\<lambda>boots.
    rbind at_end (\<lambda>_. rreturn ((durable_state s)\<lparr>pt_attempts := attempts, pt_fenced_boots := boots\<rparr>))))))
    (calls_bytes (concat (map write_attempt (sort_key att_id (pt_attempts s)))) @
     calls_bytes (PutU32 (of_nat (length (sorted_boots (pt_fenced_boots s)))) #
       map PutU64 (sorted_boots (pt_fenced_boots s))))"
proof -
  let ?ds = "sort_key dr_id (pt_domains s)"
  have domains: "rbind (decode_domains (length (pt_domains s)) None) k (calls_bytes (concat (map write_domain ?ds)) @ r)
      = k (map durable_domain ?ds) r" for k :: "_ \<Rightarrow> (state_error, PersistedState) reader" and r
    using assms decode_domains_put [of ?ds None r] sort_key_ascending [of dr_id "pt_domains s"]
    by (intro rbind_Inr) (simp add: image_ok_def list_all_iff)
  show ?thesis
    using assms unfolding decode_body_def payload_calls_def Let_def
    by (simp add: unat_lengths [OF assms] put_bool_def decode_policy_put domains rguard_False image_ok_def
        durable_state_eq)
qed

lemma decode_body_put:
  assumes "state_storable s"
  shows "decode_body (calls_bytes (payload_calls s)) = Inr (durable_state s, [])"
proof -
  have s: "image_ok s" "list_all attempt_storable (pt_attempts s)"
    using assms by (simp_all add: state_storable_def)
  let ?as = "sort_key att_id (pt_attempts s)" and ?bs = "sorted_boots (pt_fenced_boots s)"
  have "decode_attempts (length (pt_attempts s)) None (calls_bytes (concat (map write_attempt ?as)) @ r)
      = Inr (map durable_attempt ?as, r)" for r
    using s decode_attempts_put [of ?as None r] sort_key_ascending [of att_id "pt_attempts s"]
    by (simp add: image_ok_def list_all_iff)
  moreover have "decode_boots (length ?bs) None (calls_bytes (map PutU64 ?bs)) = Inr (?bs, [])"
    using s(1) decode_boots_put [of ?bs None "[]"] by (simp add: image_ok_def list_all_iff sorted_boots_ascending)
  moreover have "\<not> (of_nat (length ?bs) :: u32) > 65536"
    using s(1) unat_lengths(3) [OF s(1)] by (simp add: word_less_nat_alt image_ok_def)
  ultimately show ?thesis
    by (simp add: decode_body_prefix [OF s(1)] rbind_Inr rguard_False unat_lengths(3) [OF s(1)] at_end_def durable_state_def)
qed

section \<open>Images\<close>

lemma length_kMagic [simp]: "length kMagic = 4"
  by (simp add: kMagic_def)

lemma header_length: "length (calls_bytes (header_calls body)) = kHeaderBytes"
  by (simp add: header_calls_def kHeaderBytes_def)

lemma payload_calls_fit: "image_ok s \<Longrightarrow> list_all call_fits (payload_calls s)"
proof -
  assume s: "image_ok s"
  have "list_all call_fits (write_domain d)" if "d \<in> set (pt_domains s)" for d
    using s that by (intro write_domain_fits) (auto simp: image_ok_def domain_ok_def list_all_iff)
  then have "list_all call_fits (concat (map write_domain (sort_key dr_id (pt_domains s))))"
    by (auto simp: list_all_iff)
  moreover have "list_all call_fits (concat (map write_attempt (sort_key att_id (pt_attempts s))))"
    using write_attempt_fits by (auto simp: list_all_iff)
  moreover have "list_all call_fits (map PutU64 (sorted_boots (pt_fenced_boots s)))"
    by (simp add: list_all_iff)
  ultimately show ?thesis
    using write_policy_fits by (simp add: payload_calls_def Let_def)
qed

lemma encode_state_eq:
  assumes "image_ok s"
  shows "encode_state s = calls_bytes (header_calls (calls_bytes (payload_calls s))) @ calls_bytes (payload_calls s)"
proof -
  let ?body = "calls_bytes (payload_calls s)"
  have size: "length ?body + kHeaderBytes \<le> kMaxPersistedBytes" using assms by (simp add: image_ok_def)
  have "bw_data (put_calls (new_writer kMaxPersistedBytes) (payload_calls s)) = ?body"
    using size payload_calls_fit [OF assms] by (subst put_calls_ok) (simp_all add: new_writer_def)
  moreover have "bw_data (put_calls (new_writer kMaxPersistedBytes) (header_calls ?body @ [PutRaw ?body]))
      = calls_bytes (header_calls ?body) @ ?body"
    using size header_length [of ?body]
    by (subst put_calls_ok) (simp_all add: new_writer_def header_calls_def)
  ultimately show ?thesis by (simp add: encode_state_def Let_def)
qed

lemma decode_image:
  assumes "length body + kHeaderBytes \<le> kMaxPersistedBytes"
  shows "decode_state (calls_bytes (header_calls body) @ body) =
    (case decode_body body of Inl (code, detail) \<Rightarrow> bad code detail | Inr (s, _) \<Rightarrow> Good s)"
proof -
  let ?data = "calls_bytes (header_calls body) @ body"
  have len: "length ?data = kHeaderBytes + length body" using header_length [of body] by simp
  have magic: "take 4 ?data = kMagic" by (simp add: header_calls_def)
  have header: "read_header (drop 4 ?data) = Inr ((kPersistenceFormatVersion, 0, of_nat (length body), crc32c body), body)"
    by (simp add: header_calls_def read_header_def)
  have body: "drop kHeaderBytes ?data = body" using header_length [of body] by simp
  have n: "unat (of_nat (length body) :: u32) = length body"
    using assms by (intro unat_length_u32) (simp add: kMaxPersistedBytes_def)
  have "calls_bytes (header_calls body) \<noteq> []"
    using header_length [of body] by (auto simp: kHeaderBytes_def)
  then show ?thesis
    unfolding decode_state_def header magic body using len assms n by simp
qed

lemma decode_encode_state: "state_storable s \<Longrightarrow> decode_state (encode_state s) = Good (durable_state s)"
  by (simp add: encode_state_eq decode_image decode_body_put state_storable_def image_ok_def)

text \<open>What acceptance says about the header.\<close>

lemma read_header_bytes:
  assumes "kHeaderBytes \<le> length data"
  shows "read_header (drop 4 data) =
    Inr ((of_le_bytes (take 2 (drop 4 data)), of_le_bytes (take 2 (drop 6 data)),
          of_le_bytes (take 4 (drop 8 data)), of_le_bytes (take 4 (drop 12 data))), drop 16 data)"
  using assms
  by (auto simp: read_header_def reader_u16_def reader_u32_def rbind_def reader_raw_def kHeaderBytes_def)

lemma accepted_header:
  assumes "checked_ok (decode_state data)"
  shows "16 \<le> length data" "take 4 data = kMagic"
    "of_le_bytes (take 2 (drop 4 data)) = kPersistenceFormatVersion"
    "of_le_bytes (take 2 (drop 6 data)) = (0 :: u16)"
    "unat (of_le_bytes (take 4 (drop 8 data)) :: u32) = length data - 16"
    "of_le_bytes (take 4 (drop 12 data)) = crc32c (drop 16 data)"
proof -
  show "16 \<le> length data" using assms by (auto simp: decode_state_def kHeaderBytes_def split: if_splits)
  then show "take 4 data = kMagic" "of_le_bytes (take 2 (drop 4 data)) = kPersistenceFormatVersion"
    "of_le_bytes (take 2 (drop 6 data)) = (0 :: u16)"
    "unat (of_le_bytes (take 4 (drop 8 data)) :: u32) = length data - 16"
    "of_le_bytes (take 4 (drop 12 data)) = crc32c (drop 16 data)"
    using assms read_header_bytes [of data]
    by (auto simp: decode_state_def kHeaderBytes_def split: if_splits)
qed

text \<open>Two accepted images of one length agree on the first twelve bytes.\<close>

lemma accepted_prefix:
  assumes "checked_ok (decode_state xs)" and "checked_ok (decode_state ys)" and "length xs = length ys"
  shows "take 12 xs = take 12 ys"
proof -
  note x = accepted_header [OF assms(1)] and y = accepted_header [OF assms(2)]
  have "take 2 (drop 4 xs) = take 2 (drop 4 ys)"
    using x y assms(3) by (intro of_le_bytes_inj [where 'a = 16]) simp_all
  moreover have "take 2 (drop 6 xs) = take 2 (drop 6 ys)"
    using x y assms(3) by (intro of_le_bytes_inj [where 'a = 16]) simp_all
  moreover have "(of_le_bytes (take 4 (drop 8 xs)) :: u32) = of_le_bytes (take 4 (drop 8 ys))"
    using x(5) y(5) assms(3) by (simp add: word_unat_eq_iff)
  then have "take 4 (drop 8 xs) = take 4 (drop 8 ys)"
    using x(1) y(1) assms(3) by (intro of_le_bytes_inj [where 'a = 32]) simp_all
  moreover have "take 12 zs = take 4 zs @ take 2 (drop 4 zs) @ take 2 (drop 6 zs) @ take 4 (drop 8 zs)"
    for zs :: "u8 list"
    using take_add [of 4 8 zs] take_add [of 2 6 "drop 4 zs"] take_add [of 2 4 "drop 6 zs"] by simp
  ultimately show ?thesis using x(2) y(2) by simp
qed

lemma corrupted_byte_refused:
  assumes "checked_ok (decode_state data)" and "i < length data" and "b \<noteq> data ! i"
  shows "\<not> checked_ok (decode_state (data[i := b]))"
proof
  assume bad: "checked_ok (decode_state (data[i := b]))"
  note x = accepted_header [OF assms(1)] and y = accepted_header [OF bad]
  have "\<not> i < 12"
  proof
    assume "i < 12"
    then have "take 12 (data[i := b]) ! i = take 12 data ! i"
      using accepted_prefix [OF assms(1) bad] by simp
    with \<open>i < 12\<close> assms(2,3) show False by simp
  qed
  moreover have "\<not> i < 16"
  proof
    assume "i < 16"
    then have "drop 16 (data[i := b]) = drop 16 data" by simp
    then have "(of_le_bytes (take 4 (drop 12 (data[i := b]))) :: u32) = of_le_bytes (take 4 (drop 12 data))"
      using x(6) y(6) by simp
    then have "take 4 (drop 12 (data[i := b])) = take 4 (drop 12 data)"
      using x(1) by (intro of_le_bytes_inj [where 'a = 32]) simp_all
    then have "take 4 (drop 12 (data[i := b])) ! (i - 12) = take 4 (drop 12 data) ! (i - 12)" by simp
    with \<open>i < 16\<close> \<open>\<not> i < 12\<close> assms(2,3) show False by simp
  qed
  moreover have "crc32c (drop 16 (data[i := b])) = crc32c (drop 16 data)" if "16 \<le> i"
  proof -
    have "take 4 (drop 12 (data[i := b])) = take 4 (drop 12 data)"
      using that by (simp add: drop_update_swap)
    then show ?thesis using x(6) y(6) by simp
  qed
  ultimately show False
    using crc32c_detects_byte [of "i - 16" "drop 16 data" b] assms(2,3) by (simp add: drop_update_swap)
qed

section \<open>Properties\<close>

text \<open>An interrupted write leaves the file as it was or replaced as a whole.\<close>

locale atomic_file =
  fixes write_file :: "'f \<Rightarrow> FileSystem \<Rightarrow> string \<Rightarrow> u8 list \<Rightarrow> Status \<times> FileSystem"
    and scratch_file :: "string \<Rightarrow> string"
  assumes write_ok: "st_ok (fst (write_file f fs path bytes)) \<Longrightarrow> snd (write_file f fs path bytes) path = Some bytes"
    and write_refused: "\<not> st_ok (fst (write_file f fs path bytes)) \<Longrightarrow> snd (write_file f fs path bytes) path = fs path"
    and other_files: "other \<noteq> path \<Longrightarrow> other \<noteq> scratch_file path \<Longrightarrow>
      snd (write_file f fs path bytes) other = fs other"
begin

lemma all_or_nothing: "snd (write_file f fs path bytes) path \<in> {fs path, Some bytes}"
  using write_ok [of f fs path bytes] write_refused [of f fs path bytes] by auto

end

interpretation state_file: atomic_file write_file_atomic temporary
  by unfold_locales (auto simp: write_file_atomic_def temporary_def split: WriteFault.splits)

lemma store_write_cases:
  "(\<exists>c m. store_write fault fs path s = (failure c m, fs))
   \<or> path \<noteq> [] \<and> is_safe_state_path path \<and> length (encode_state s) \<le> kMaxPersistedBytes
      \<and> store_write fault fs path s = write_file_atomic fault fs path (encode_state s)"
  by (auto simp: store_write_def not_less)

definition demo_image :: PersistedState where
  "demo_image =
     \<lparr>pt_generation = 3, pt_last_epoch = 2, pt_policy_generation = 1, pt_has_policy = True,
      pt_policy = make_default_policy, pt_domains = [demo_domain],
      pt_attempts = [completed_attempt sample_dispatched sample_payload],
      pt_fenced_boots = [9, 7, 9], pt_counter_operation = 5, pt_counter_plan_sequence = 1,
      pt_counter_dispatch = 21, pt_counter_snapshot = 0, pt_counter_domain = 0\<rparr>"

text \<open>Validation of a policy bounds everything its codec bounds, except the lists of forbidden
  identities and provenances.\<close>

lemma validated_policy_storable:
  assumes "st_ok (validate_policy p)" and "length (pol_forbidden_domain_ids p) \<le> kMaxExecutionDomains"
    and "length (pol_forbidden_provenance p) \<le> 8"
  shows "storable_policy p"
proof -
  have "0 \<le> pol_weights p k \<and> pol_weights p k \<le> 100000" for k
    using assms(1) by (auto simp: validate_policy_def list_ex_iff not_less split: if_splits option.splits)
  then have "- (2 ^ 31) \<le> pol_weights p k \<and> pol_weights p k < 2 ^ 31" for k
    using order_trans [of "- (2 ^ 31)" 0 "pol_weights p k"] le_less_trans [of "pol_weights p k" 100000 "2 ^ 31"] by simp
  moreover have "storable_types (fbp_chains (pol_fallback p) t)" for t
    using assms(1) by (auto simp: validate_policy_def list_ex_iff not_less storable_types_def split: if_splits option.splits)
  moreover have "storable_types (pol_forbidden_domains p)" "storable_types (pol_preference_order p)"
      "0 < pol_max_reported_candidates p" "pol_max_reported_candidates p \<le> kMaxReportedCandidates"
    using assms(1) by (auto simp: validate_policy_def not_less storable_types_def split: if_splits option.splits)
  ultimately show ?thesis using assms(2,3) by (simp add: storable_policy_def)
qed

lemma default_policy_storable: "storable_policy make_default_policy"
  using default_policy_accepted by (intro validated_policy_storable) (simp_all add: make_default_policy_def)

lemma write_attempt_size: "length (calls_bytes (write_attempt a)) \<le> 2000"
  using length_bounded_text [of "att_failure_detail a" kMaxTextLength]
    length_bounded_text [of "att_close_reason a" kMaxTextLength]
    length_bounded_text [of "rp_backend_detail (att_result a)" kMaxTextLength]
  by (simp add: write_attempt_def kMaxTextLength_def)

lemma default_policy_size: "length (calls_bytes (write_policy make_default_policy)) \<le> 1000"
  by (simp add: write_policy_def make_default_policy_def put_types_def all_ResourceKind_def
      all_RankingFactor_def all_FailureKind_def all_ExecutionDomainType_def)

lemma demo_image_storable: "state_storable demo_image"
proof -
  have "domain_ok demo_domain"
    using demo_domain_valid
    by (simp add: domain_ok_def durable_domain_def storable_domain_def storable_capability_def demo_domain_def
        empty_domain_def empty_capability_record_def empty_capability_set_def kMaxNameLength_def)
  moreover have "attempt_storable (completed_attempt sample_dispatched sample_payload)"
    by (simp add: attempt_storable_def completed_attempt_def sample_bindings sample_payload_def
        impossible_lifecycle_def valid_def)
  moreover have "sorted_boots [9, 7, 9] = [7, 9]" by (simp add: sorted_boots_def)
  moreover have "length (calls_bytes (payload_calls demo_image)) + kHeaderBytes \<le> kMaxPersistedBytes"
  proof -
    note default_policy_size
    moreover have "length (calls_bytes (write_domain demo_domain)) \<le> 1000"
      by (simp add: write_domain_def write_capability_def demo_domain_def empty_domain_def all_ResourceKind_def
          empty_capability_record_def empty_capability_set_def no_publisher_def)
    moreover note write_attempt_size [of "completed_attempt sample_dispatched sample_payload"]
    ultimately show ?thesis
      by (simp add: payload_calls_def demo_image_def sorted_boots_def kHeaderBytes_def kMaxPersistedBytes_def)
  qed
  ultimately show ?thesis
    using default_policy_storable default_policy_accepted
    by (simp add: state_storable_def image_ok_def demo_image_def valid_def kMaxPersistedDomains_def
        kMaxPersistedAttempts_def)
qed



text \<open>
  C29. A damaged image is refused. Changing any single byte of an accepted image, cutting it short
  anywhere or appending anything to it gives bytes that no load accepts.
\<close>

theorem damaged_image_is_refused:
  assumes "checked_ok (decode_state data)"
  shows "(i < length data \<and> b \<noteq> data ! i \<longrightarrow> \<not> checked_ok (decode_state (data[i := b])))
         \<and> (n < length data \<longrightarrow> \<not> checked_ok (decode_state (take n data)))
         \<and> (tail \<noteq> [] \<longrightarrow> \<not> checked_ok (decode_state (data @ tail)))"
proof -
  note header = accepted_header [OF assms]
  have "length other = length data"
    if "checked_ok (decode_state other)" "take 12 other = take 12 data" for other
  proof -
    have "take 4 (drop 8 zs) = drop 8 (take 12 zs)" for zs :: "u8 list" by (simp add: drop_take)
    then have "take 4 (drop 8 other) = take 4 (drop 8 data)" using that(2) by metis
    then show ?thesis
      using accepted_header(1,5) [OF that(1)] header(1,5) by simp
  qed
  note same = this
  have "\<not> checked_ok (decode_state (take n data))" if "n < length data"
  proof
    assume ok: "checked_ok (decode_state (take n data))"
    then have "16 \<le> n" using accepted_header(1) [OF ok] that by simp
    with same [OF ok] that show False by simp
  qed
  moreover have "\<not> checked_ok (decode_state (data @ tail))" if "tail \<noteq> []"
  proof
    assume ok: "checked_ok (decode_state (data @ tail))"
    with same [OF ok] header(1) that show False by simp
  qed
  ultimately show ?thesis using corrupted_byte_refused [OF assms] by blast
qed

theorem damaged_image_is_refused_witness:
  "\<not> checked_ok (decode_state (take 40 (encode_state demo_image)))"
proof -
  have "checked_ok (decode_state (encode_state demo_image))"
    using decode_encode_state [OF demo_image_storable] by simp
  moreover have "40 < length (encode_state demo_image)"
    using demo_image_storable header_length
    by (simp add: state_storable_def encode_state_eq payload_calls_def demo_image_def kHeaderBytes_def Let_def)
  ultimately show ?thesis using damaged_image_is_refused by blast
qed

text \<open>
  C28. A save never leaves a partial image: wherever the operating system fails, the state file holds
  either what it held before or the whole new image, files other than it and its temporary sibling
  are untouched, and a load after a refused save answers what it answered before.
\<close>

theorem save_is_atomic:
  assumes "store_write fault fs path s = (st, fs')"
  shows "fs' path \<in> {fs path, Some (encode_state s)} \<and> (st_ok st \<longrightarrow> fs' path = Some (encode_state s))
         \<and> (\<not> st_ok st \<longrightarrow> store_read rf fs' path = store_read rf fs path)
         \<and> (other \<noteq> path \<and> other \<noteq> temporary path \<longrightarrow> fs' other = fs other)"
  using store_write_cases [of fault fs path s]
proof
  assume "path \<noteq> [] \<and> is_safe_state_path path \<and> length (encode_state s) \<le> kMaxPersistedBytes
      \<and> store_write fault fs path s = write_file_atomic fault fs path (encode_state s)"
  then have w: "write_file_atomic fault fs path (encode_state s) = (st, fs')" using assms by simp
  then have "\<not> st_ok st \<Longrightarrow> fs' path = fs path"
    using state_file.write_refused [of fault fs path "encode_state s"] by simp
  moreover from this have "\<not> st_ok st \<Longrightarrow> store_read rf fs' path = store_read rf fs path"
    by (simp add: store_read_def read_file_bytes_def)
  ultimately show ?thesis
    using w state_file.write_ok [of fault fs path "encode_state s"]
      state_file.other_files [of other path fault fs "encode_state s"]
    by (cases "st_ok st") auto
qed (use assms in auto)

theorem save_is_atomic_witness:
  "snd (store_write (WriteFails 7) [''state.bin'' \<mapsto> []] ''state.bin'' demo_image) ''state.bin''
     \<in> {Some [], Some (encode_state demo_image)}"
  using save_is_atomic [OF prod.collapse [symmetric], of "WriteFails 7" "[''state.bin'' \<mapsto> []]" "''state.bin''"
      demo_image] by simp

end
