(* ===== verification/Tos_Durability.thy ===== *)
theory Tos_Durability
  imports Tos_Store Tos_Guarantees
begin

text \<open>
  Checkpoint and recovery end to end: the scheduler's durable state (\<open>Tos_Recovery\<close>) through the byte
  image of \<open>Tos_Store\<close>. What a restart may trust of a recovered state, and the one kind of attempt
  whose image the decoder refuses.
\<close>

section \<open>An impossible lifecycle is refused\<close>

lemma rbind_fails: "\<exists>e. r bs = Inl e \<Longrightarrow> \<exists>e. rbind r k bs = Inl e"
  by (auto simp: rbind_def)

lemma decode_attempts_refused:
  assumes "a \<in> set as" and "impossible_lifecycle a \<noteq> None"
  shows "\<exists>e. decode_attempts (length as) previous (calls_bytes (concat (map write_attempt as)) @ rest) = Inl e"
  using assms(1)
proof (induction as arbitrary: previous)
  case (Cons b as)
  have read: "rbind (rmap_error f read_attempt) k (calls_bytes (write_attempt b) @ r) = k (durable_attempt b) r"
    for f r and k :: "_ \<Rightarrow> (state_error, ExecutionAttempt list) reader"
    using attempt_codec.round_trip [of b r] by simp
  show ?case
  proof (cases "a = b")
    case True
    with assms(2) show ?thesis by (auto simp: read rguard_def rfail_def)
  next
    case False
    with Cons.prems have "a \<in> set as" by simp
    from Cons.IH [OF this, of "Some (att_id b)"] have
      "\<exists>e. rbind (decode_attempts (length as) (Some (att_id b))) (\<lambda>rest. rreturn (durable_attempt b # rest))
         (calls_bytes (concat (map write_attempt as)) @ rest) = Inl e"
      by (rule rbind_fails)
    then show ?thesis by (auto simp: read rguard_def rfail_def)
  qed
qed simp

lemma impossible_image_refused:
  assumes "image_ok s" and "a \<in> set (pt_attempts s)" and "impossible_lifecycle a \<noteq> None"
  shows "\<not> checked_ok (decode_state (encode_state s))"
proof -
  let ?as = "sort_key att_id (pt_attempts s)"
  have "\<exists>e. decode_body (calls_bytes (payload_calls s)) = Inl e"
    unfolding decode_body_prefix [OF assms(1)]
    using decode_attempts_refused [of a ?as None] assms(2,3) by (intro rbind_fails) simp
  then obtain code detail where "decode_body (calls_bytes (payload_calls s)) = Inl (code, detail)" by auto
  then show ?thesis
    using assms(1) by (simp add: encode_state_eq decode_image image_ok_def bad_def)
qed

text \<open>Every attempt a lookup finds is among those the ledger lists.\<close>

lemma get_attempt_listed: "attempts_inv l \<Longrightarrow> get_attempt l i = Some a \<Longrightarrow> a \<in> set (all_attempts l)"
  by (force simp: get_attempt_def all_attempts_def Let_def attempts_inv_def split: if_splits dest: map_of_SomeD)

lemma get_attempt_shard: "get_attempt l i = Some a \<Longrightarrow> attempt_shard_for_id l i < al_shard_count l"
  by (simp add: get_attempt_def Let_def split: if_splits)

lemma listed_persisted:
  assumes "a \<in> set (all_attempts (sc_attempts s))"
    and "length (all_attempts (sc_attempts s)) \<le> li_max_historical_attempts (sc_limits s)"
  shows "checkpoint_attempt a \<in> set (pt_attempts (persisted_state s))"
  using assms by (simp add: persisted_state_def list_attempts_def)

lemma report_failure_files:
  assumes "attempts_inv (sc_attempts s)" and "report_failure s i kind detail = (st, s')" and "st_ok st"
    and "kind \<notin> {FailureKind.kAmbiguousOutcome, FailureKind.kWorkerDeath}"
  shows "\<exists>a. get_attempt (sc_attempts s') i = Some a \<and> att_state a = AttemptState.kFailed
           \<and> \<not> att_completion_committed a"
    and "attempts_inv (sc_attempts s')"
proof -
  obtain stored where stored: "get_attempt (sc_attempts s) i = Some stored"
    using assms(2,3) by (auto simp: report_failure_def split: option.splits)
  have st: "st = fst (mark_failed (sc_attempts s) i kind detail)"
      and l: "sc_attempts s' = snd (mark_failed (sc_attempts s) i kind detail)"
    using assms(2,4) stored by (auto simp: report_failure_def release_held_def Let_def split_beta)
  show "attempts_inv (sc_attempts s')"
    using assms(1) report_failure_run [of s i kind detail] assms(2) component_run_def attempts.steps_inv by fastforce
  show "\<exists>a. get_attempt (sc_attempts s') i = Some a \<and> att_state a = AttemptState.kFailed
           \<and> \<not> att_completion_committed a"
    using st l assms(1,3) stored get_attempt_shard [OF stored]
    by (auto simp: mark_failed_def transition_def transitioned_def get_put_attempt split: if_splits)
qed

section \<open>What a recovered state may be trusted for\<close>

lemma stale_domains_unpublished:
  "d \<in> set (all_domains (snd (mark_dynamic_evidence_stale g reason))) \<Longrightarrow> \<not> load_published (dr_load d)"
  by (auto simp: mark_dynamic_evidence_stale_def set_all_domains stale_record_def no_load_def load_published_def
      valid_def Let_def)

lemma fence_boot_fenced: "set (wa_fenced (snd (fence_boot wa boot reason))) = insert boot (set (wa_fenced wa))"
  using fence_boot_effect(2) [OF prod.collapse [symmetric], of wa boot reason] by simp

lemma fence_recovered_boots_fenced:
  "set (wa_fenced (fence_recovered_boots wa state)) =
     set (wa_fenced wa) \<union> set (pt_fenced_boots state)
     \<union> {dr_worker_boot d |d. d \<in> set (pt_domains state) \<and> valid (dr_worker_boot d)}"
proof -
  have boots: "set (wa_fenced (foldl (\<lambda>wa boot. snd (fence_boot wa boot r)) w bs)) = set (wa_fenced w) \<union> set bs"
    for w bs r by (induction bs arbitrary: w) (auto simp: fence_boot_fenced)
  have domains: "set (wa_fenced (foldl (\<lambda>wa d. if valid (dr_worker_boot d)
        then snd (fence_boot wa (dr_worker_boot d) r) else wa) w ds))
      = set (wa_fenced w) \<union> {dr_worker_boot d |d. d \<in> set ds \<and> valid (dr_worker_boot d)}"
    for w ds r by (induction ds arbitrary: w) (auto simp: fence_boot_fenced)
  show ?thesis by (simp add: fence_recovered_boots_def boots domains)
qed

lemma restore_domains_attempts: "sc_attempts (snd (restore_domains s ds)) = sc_attempts s"
  by (induction ds arbitrary: s) (auto simp: Let_def split_beta set_domain_capacity_def split: Checked.split)

text \<open>A load that succeeds has restored the attempts, and ends with \<^const>\<open>adopt_state\<close>.\<close>

lemma load_applies:
  assumes "load_state_from s path stored = (st, s')" and "st_ok st"
  obtains state s2 where "stored = Some (Good state)"
    "st_ok (fst (restore_attempts (sc_attempts s) (pt_attempts state)))"
    "sc_attempts s2 = adopt_attempt_ids (snd (restore_attempts (sc_attempts s) (pt_attempts state)))
       (map att_id (pt_attempts state))"
    "s' = adopt_state s2 state"
proof -
  obtain state where state: "stored = Some (Good state)" and run: "apply_state s state = (st, s')"
    using assms by (auto simp: load_state_from_def split: if_splits option.splits Checked.splits)
  let ?restored = "restore_attempts (sc_attempts s) (pt_attempts state)"
  let ?s1 = "s\<lparr>sc_attempts := adopt_attempt_ids (snd ?restored) (map att_id (pt_attempts state)),
    sc_reservations := adopt_reservation_ids (sc_reservations s)
      (filter valid (map att_reservation (pt_attempts state)))\<rparr>"
  have "st_ok (fst ?restored)" and s': "s' = adopt_state (snd (restore_domains ?s1 (pt_domains state))) state"
    using run assms(2) by (simp_all add: apply_state_def Let_def split_beta split: if_splits)
  then show ?thesis by (intro that [OF state _ _ s']) (simp_all add: restore_domains_attempts)
qed

lemma no_plan_without_evidence:
  assumes "\<forall>d \<in> set (all_domains (sc_domains s)). \<not> load_published (dr_load d)"
    and "fr_health (pol_freshness (sc_policy s))"
  shows "\<not> pr_planned (fst (plan s request payload)) \<and> snd (plan s request payload) = s"
proof -
  have none: "eligible_domains s c = []" for c
    using assms eligibility_facts(11) unfolding eligible_domains_members [of _ s c] list.set_map
    by (metis eligible_domains_members ex_in_conv set_empty)
  have "\<not> pr_planned (fst (plan_internal s c)) \<and> snd (plan_internal s c) = s" for c
    by (simp add: plan_internal_def plan_failed_def Let_def none split: option.split)
  then show ?thesis by (simp add: plan_def plan_failed_def)
qed

section \<open>Properties\<close>

text \<open>A runtime whose only attempt is reported as failed in transport.\<close>

definition demo_failing :: Scheduler where
  "demo_failing = (new_scheduler default_options)\<lparr>sc_policy := make_default_policy, sc_attempts := attempts_1\<rparr>"

definition demo_failed :: Scheduler where
  "demo_failed = snd (report_failure demo_failing 0x0100000000000001 FailureKind.kTransportFailure ''lost'')"

lemma demo_failed_attempts:
  "sc_attempts demo_failed = snd (mark_failed attempts_1 0x0100000000000001 FailureKind.kTransportFailure ''lost'')"
  by (simp add: demo_failed_def demo_failing_def report_failure_def release_held_def attempts_1_get Let_def split_beta)

lemma demo_failed_listed:
  "all_attempts (sc_attempts demo_failed) =
     [transitioned (new_attempt sample_registration) AttemptState.kFailed
        AttemptResolution.kAuthoritativeFailure FailureKind.kTransportFailure ''lost'']"
proof -
  have one: "al_shards attempts_1 = [\<lparr>as_attempts = [(0x0100000000000001, new_attempt sample_registration)], as_counter = 0\<rparr>]"
    "attempt_shard_for_id attempts_1 0x0100000000000001 = 0"
    by (simp_all add: attempts_1_def sample_register attempts_0_eq put_attempt_def put_attempt_shard_def Let_def attempt_shard_for_id_def kShardShift_def)
  have "\<not> is_terminal (att_state (new_attempt sample_registration))"
    "\<not> att_completion_committed (new_attempt sample_registration)"
    by (simp_all add: new_attempt_def empty_attempt_def)
  then show ?thesis
    by (simp add: demo_failed_attempts mark_failed_def transition_def attempts_1_get put_attempt_def
        put_attempt_shard_def one all_attempts_def)
qed



text \<open>
  C39. A failure that was reported outside a completion leaves an image that cannot be recovered from:
  the attempt is failed without a committed completion, the checkpoint records it as it is, the save
  succeeds, and every later load of that file is refused because the decoder takes that life cycle
  for impossible.
\<close>

theorem reported_failure_blocks_recovery:
  assumes "attempts_inv (sc_attempts s)" and "report_failure s i kind detail = (st, s')" and "st_ok st"
    and "kind \<notin> {FailureKind.kAmbiguousOutcome, FailureKind.kWorkerDeath}"
    and "length (all_attempts (sc_attempts s')) \<le> li_max_historical_attempts (sc_limits s')"
    and "image_ok (persisted_state s')" and "is_safe_state_path path"
  shows "fst (store_write NoFault fs path (persisted_state s')) = success
         \<and> \<not> checked_ok (store_read ReadOk (snd (store_write NoFault fs path (persisted_state s'))) path)"
proof -
  obtain a where a: "get_attempt (sc_attempts s') i = Some a" "att_state a = AttemptState.kFailed"
      "\<not> att_completion_committed a"
    using report_failure_files(1) [OF assms(1-4)] by blast
  have "checkpoint_attempt a = a" using a(2) by (simp add: checkpoint_attempt_def)
  then have listed: "a \<in> set (pt_attempts (persisted_state s'))"
    using listed_persisted [OF get_attempt_listed [OF report_failure_files(2) [OF assms(1-4)] a(1)] assms(5)] by simp
  have "impossible_lifecycle a \<noteq> None" using a(2,3) by (simp add: impossible_lifecycle_def)
  from impossible_image_refused [OF assms(6) listed this]
  have refused: "\<not> checked_ok (decode_state (encode_state (persisted_state s')))" .
  have "length (encode_state (persisted_state s')) \<le> kMaxPersistedBytes"
    using assms(6) header_length by (simp add: encode_state_eq image_ok_def)
  moreover have "path \<noteq> []" using assms(7) by (auto simp: is_safe_state_path_def)
  ultimately show ?thesis
    using assms(7) refused by (simp add: store_write_def write_file_atomic_def store_read_def read_file_bytes_def)
qed

theorem reported_failure_blocks_recovery_witness:
  "\<not> checked_ok (store_read ReadOk (snd (store_write NoFault Map.empty ''state.bin'' (persisted_state demo_failed)))
       ''state.bin'')"
proof -
  let ?a = "transitioned (new_attempt sample_registration) AttemptState.kFailed
        AttemptResolution.kAuthoritativeFailure FailureKind.kTransportFailure ''lost''"
  have ok: "st_ok (fst (report_failure demo_failing 0x0100000000000001 FailureKind.kTransportFailure ''lost''))"
    by (simp add: demo_failing_def report_failure_def attempts_1_get mark_failed_def transition_def
        new_attempt_def empty_attempt_def Let_def split_beta)
  have frame: "sc_policy demo_failed = make_default_policy" "sc_limits demo_failed = default_limits"
    "sc_domains demo_failed = sc_domains (new_scheduler default_options)"
    "sc_workers demo_failed = sc_workers (new_scheduler default_options)"
    "sc_persisted_generation demo_failed = 0"
    by (simp_all add: demo_failed_def demo_failing_def report_failure_def release_held_def attempts_1_get
        new_scheduler_def default_options_def default_limits_def Let_def split_beta)
  have historical: "1 \<le> li_max_historical_attempts default_limits"
    by (simp add: default_limits_def kMaxHistoricalAttempts_def)
  have parts: "pt_attempts (persisted_state demo_failed) = [checkpoint_attempt ?a]"
    "pt_domains (persisted_state demo_failed) = []" "pt_fenced_boots (persisted_state demo_failed) = []"
    "pt_policy (persisted_state demo_failed) = make_default_policy" "pt_has_policy (persisted_state demo_failed)"
    "pt_generation (persisted_state demo_failed) = 1"
    using historical by (simp_all add: persisted_state_def frame list_attempts_def demo_failed_listed new_scheduler_def
        default_options_def all_domains_def new_registry_def set_max_domains_def fenced_boots_def
        new_worker_authority_def valid_def Let_def)
  have "image_ok (persisted_state demo_failed)"
    using default_policy_storable default_policy_accepted default_policy_size write_attempt_size [of "checkpoint_attempt ?a"]
    by (simp add: image_ok_def payload_calls_def parts sorted_boots_def kMaxPersistedDomains_def
        kMaxPersistedAttempts_def kHeaderBytes_def kMaxPersistedBytes_def valid_def)
  moreover have "attempts_inv (sc_attempts demo_failing)"
    using sample_attempts_inv [OF attempts_reachable(2)] by (simp add: demo_failing_def)
  moreover have "is_safe_state_path ''state.bin''" by code_simp
  ultimately show ?thesis
    using reported_failure_blocks_recovery [of demo_failing "0x0100000000000001" FailureKind.kTransportFailure "''lost''"
        _ demo_failed "''state.bin''" Map.empty] ok historical
    by (simp add: demo_failed_def [symmetric] demo_failed_listed frame prod_eq_iff)
qed

end
