(* ===== verification/Tos_Wire.thy ===== *)
theory Tos_Wire
  imports Tos_Codec Tos_Dispatch
begin

text \<open>
  The framed protocol of coordinator and workers (\<^verbatim>\<open>src/include/tos/dist/protocol.hpp\<close>,
  \<^verbatim>\<open>src/src/dist/protocol.cpp\<close>): frames, and the codecs of the records the messages share. The header
  decoder copies the fields of a frame with \<^verbatim>\<open>memcpy\<close>; the model reads them as little endian, which is
  the layout the header documents. A \<^verbatim>\<open>MessageType\<close> or \<^verbatim>\<open>PeerRole\<close> can hold a number without a name,
  because their decoders only bound the number; \<open>kUnlisted\<close> and \<open>kNoRole\<close> stand for those.
\<close>

section \<open>Frames\<close>

definition kFrameMagic :: u32 where "kFrameMagic = 0x31534F54"
definition kProtocolVersion :: u16 where "kProtocolVersion = 1"
definition kFrameHeaderBytes :: nat where "kFrameHeaderBytes = 20"
definition kMinFrameBytes :: nat where "kMinFrameBytes = kFrameHeaderBytes"
definition kMaxFrameBytes :: nat where "kMaxFrameBytes = 1024 * 1024"
definition kMaxProtocolPayloadBytes :: nat where "kMaxProtocolPayloadBytes = 512 * 1024"
definition kMaxMessageType :: u16 where "kMaxMessageType = 61"

datatype MessageType =
    kHello
  | kHelloAck
  | kError
  | kGoodbye
  | kDomainPublish
  | kCapabilityPublish
  | kLoadUpdate
  | kHeartbeat
  | kDispatchRequest
  | kDispatchAccepted
  | kDispatchRejected
  | kCompletion
  | kFailureReport
  | kCancelRequest
  | kCancelResult
  | kCompletionAck
  | kSubmitRequest
  | kSubmitResponse
  | kQueryRequest
  | kQueryResponse
  | kAdminRequest
  | kAdminResponse
  | kShutdownRequest
  | kFence
  | kUnlisted u16

fun message_code :: "MessageType \<Rightarrow> u16" where
  "message_code MessageType.kHello = 1"
| "message_code MessageType.kHelloAck = 2"
| "message_code MessageType.kError = 3"
| "message_code MessageType.kGoodbye = 4"
| "message_code MessageType.kDomainPublish = 10"
| "message_code MessageType.kCapabilityPublish = 11"
| "message_code MessageType.kLoadUpdate = 12"
| "message_code MessageType.kHeartbeat = 13"
| "message_code MessageType.kDispatchRequest = 20"
| "message_code MessageType.kDispatchAccepted = 21"
| "message_code MessageType.kDispatchRejected = 22"
| "message_code MessageType.kCompletion = 23"
| "message_code MessageType.kFailureReport = 24"
| "message_code MessageType.kCancelRequest = 25"
| "message_code MessageType.kCancelResult = 26"
| "message_code MessageType.kCompletionAck = 27"
| "message_code MessageType.kSubmitRequest = 30"
| "message_code MessageType.kSubmitResponse = 31"
| "message_code MessageType.kQueryRequest = 40"
| "message_code MessageType.kQueryResponse = 41"
| "message_code MessageType.kAdminRequest = 50"
| "message_code MessageType.kAdminResponse = 51"
| "message_code MessageType.kShutdownRequest = 60"
| "message_code MessageType.kFence = 61"
| "message_code (kUnlisted c) = c"

definition all_MessageType :: "MessageType list" where
  "all_MessageType =
     [MessageType.kHello, MessageType.kHelloAck, MessageType.kError, MessageType.kGoodbye,
      MessageType.kDomainPublish, MessageType.kCapabilityPublish, MessageType.kLoadUpdate,
      MessageType.kHeartbeat, MessageType.kDispatchRequest, MessageType.kDispatchAccepted,
      MessageType.kDispatchRejected, MessageType.kCompletion, MessageType.kFailureReport,
      MessageType.kCancelRequest, MessageType.kCancelResult, MessageType.kCompletionAck,
      MessageType.kSubmitRequest, MessageType.kSubmitResponse, MessageType.kQueryRequest,
      MessageType.kQueryResponse, MessageType.kAdminRequest, MessageType.kAdminResponse,
      MessageType.kShutdownRequest, MessageType.kFence]"

text \<open>The cast from the number of the header.\<close>

definition message_type_of :: "u16 \<Rightarrow> MessageType" where
  "message_type_of c =
     (case find (\<lambda>t. message_code t = c) all_MessageType of None \<Rightarrow> kUnlisted c | Some t \<Rightarrow> t)"

record FrameHeader =
  fh_type :: MessageType
  fh_flags :: u16
  fh_length :: u32

datatype DecodeError =
    kOk
  | kEmpty
  | kTruncatedHeader
  | kBadMagic
  | kBadVersion
  | kUnknownType
  | kOversized
  | kLengthMismatch
  | kIntegrityFailure
  | kMalformedPayload
  | kUnsupportedFlags

fun to_string_DecodeError :: "DecodeError \<Rightarrow> string" where
  "to_string_DecodeError kOk = ''ok''"
| "to_string_DecodeError kEmpty = ''empty''"
| "to_string_DecodeError kTruncatedHeader = ''truncated_header''"
| "to_string_DecodeError kBadMagic = ''bad_magic''"
| "to_string_DecodeError kBadVersion = ''bad_version''"
| "to_string_DecodeError kUnknownType = ''unknown_type''"
| "to_string_DecodeError kOversized = ''oversized''"
| "to_string_DecodeError kLengthMismatch = ''length_mismatch''"
| "to_string_DecodeError kIntegrityFailure = ''integrity_failure''"
| "to_string_DecodeError kMalformedPayload = ''malformed_payload''"
| "to_string_DecodeError kUnsupportedFlags = ''unsupported_flags''"

text \<open>A field of the header: \<open>n\<close> bytes at an offset.\<close>

definition header_field :: "nat \<Rightarrow> nat \<Rightarrow> u8 list \<Rightarrow> 'a::len word" where
  "header_field offset n bytes = of_le_bytes (take n (drop offset bytes))"

definition decode_header :: "u8 list \<Rightarrow> nat \<Rightarrow> DecodeError + FrameHeader" where
  "decode_header header max_frame =
     (if length header < kFrameHeaderBytes then Inl kTruncatedHeader
      else if max_frame < kMinFrameBytes then Inl kOversized
      else
        let magic = header_field 0 4 header; version = header_field 4 2 header;
            type = header_field 6 2 header; flags = header_field 8 2 header;
            reserved = header_field 10 2 header; len = header_field 12 4 header
        in if magic \<noteq> kFrameMagic then Inl kBadMagic
           else if version \<noteq> kProtocolVersion then Inl kBadVersion
           else if type = 0 \<or> type > kMaxMessageType then Inl kUnknownType
           else if flags \<noteq> 0 \<or> reserved \<noteq> (0 :: u16) then Inl kUnsupportedFlags
           else if unat len > max_frame - kFrameHeaderBytes then Inl kOversized
           else Inr \<lparr>fh_type = message_type_of type, fh_flags = flags, fh_length = len\<rparr>)"

definition frame_calls :: "MessageType \<Rightarrow> u8 list \<Rightarrow> WriterCall list" where
  "frame_calls type payload =
     [PutU32 kFrameMagic, PutU16 kProtocolVersion, PutU16 (message_code type), PutU16 0, PutU16 0,
      PutU32 (of_nat (length payload)), PutU32 (crc32c payload), PutRaw payload]"

definition encode_frame :: "MessageType \<Rightarrow> u8 list \<Rightarrow> nat \<Rightarrow> u8 list Checked" where
  "encode_frame type payload max_frame =
     (if max_frame < kMinFrameBytes then bad ''protocol.bad_bound'' []
      else if length payload > max_frame - kFrameHeaderBytes then bad ''protocol.oversized_payload'' []
      else
        let writer = put_calls (new_writer max_frame) (frame_calls type payload)
        in if \<not> bw_ok writer then bad (st_code (writer_status writer)) [] else Good (bw_data writer))"

record Frame =
  fm_type :: MessageType
  fm_flags :: u16
  fm_payload :: "u8 list"

definition decode_frame :: "u8 list \<Rightarrow> nat \<Rightarrow> Frame Checked" where
  "decode_frame data max_frame =
     (if data = [] then bad ''protocol.empty'' []
      else case decode_header data max_frame of
             Inl e \<Rightarrow> bad (''protocol.'' @ to_string_DecodeError e) []
           | Inr header \<Rightarrow>
               if length data \<noteq> kFrameHeaderBytes + unat (fh_length header)
               then bad ''protocol.length_mismatch'' []
               else
                 let payload = drop kFrameHeaderBytes data
                 in if crc32c payload \<noteq> header_field 16 4 data then bad ''protocol.integrity_failure'' []
                    else Good \<lparr>fm_type = fh_type header, fm_flags = fh_flags header, fm_payload = payload\<rparr>)"

section \<open>Shared records\<close>

definition all_MemoryDomain :: "MemoryDomain list" where
  "all_MemoryDomain =
     [MemoryDomain.kHost, MemoryDomain.kPinnedHost, MemoryDomain.kDeviceLocal,
      MemoryDomain.kPeerDevice, MemoryDomain.kNicOnboard, MemoryDomain.kSmartNicOnboard,
      MemoryDomain.kDpuOnboard, MemoryDomain.kUnknown]"

definition all_PayloadClass :: "PayloadClass list" where
  "all_PayloadClass =
     [PayloadClass.kOpaqueBytes, PayloadClass.kStructuredHeader, PayloadClass.kScatterGatherList,
      PayloadClass.kSegmentedFrames]"

definition all_TransportClass :: "TransportClass list" where
  "all_TransportClass =
     [TransportClass.kNone, TransportClass.kRawFrames, TransportClass.kStreamBytes,
      TransportClass.kDatagramBytes, TransportClass.kRdmaMessage, TransportClass.kControlPlane]"

text \<open>\<^verbatim>\<open>take_enum\<close>, whose bound is the number of the last enumerator the call names.\<close>

definition take_enum :: "('a \<Rightarrow> nat) \<Rightarrow> 'a \<Rightarrow> 'a list \<Rightarrow> (string, 'a) reader" where
  "take_enum ordinal last_value values_of =
     rbind reader_u8 (\<lambda>raw. rguard (raw > of_nat (ordinal last_value)) ''protocol.enum_out_of_range''
       (rreturn (values_of ! unat raw)))"

definition put_payload_descriptor :: "PayloadDescriptor \<Rightarrow> WriterCall list" where
  "put_payload_descriptor p =
     [PutU64 (pd_size_bytes p), put_enum ord_MemoryDomain (pd_source_memory p),
      put_enum ord_MemoryDomain (pd_destination_memory p), PutU64 (pd_source_handle p),
      PutU64 (pd_destination_handle p), PutU32 (pd_alignment_bytes p), PutU32 (pd_segment_count p),
      put_enum ord_PayloadClass (pd_payload_class p),
      put_enum ord_TransportClass (pd_transport_class p), put_bool (pd_scatter_gather p)]"

definition take_payload_descriptor :: "(string, PayloadDescriptor) reader" where
  "take_payload_descriptor =
     rbind reader_u64 (\<lambda>size_bytes.
     rbind (take_enum ord_MemoryDomain MemoryDomain.kUnknown all_MemoryDomain) (\<lambda>source_memory.
     rbind (take_enum ord_MemoryDomain MemoryDomain.kUnknown all_MemoryDomain) (\<lambda>destination_memory.
     rbind reader_u64 (\<lambda>source_handle. rbind reader_u64 (\<lambda>destination_handle.
     rbind reader_u32 (\<lambda>alignment_bytes. rbind reader_u32 (\<lambda>segment_count.
     rbind (take_enum ord_PayloadClass PayloadClass.kSegmentedFrames all_PayloadClass) (\<lambda>payload_class.
     rbind (take_enum ord_TransportClass TransportClass.kControlPlane all_TransportClass) (\<lambda>transport_class.
     rbind read_bool (\<lambda>scatter_gather.
     rguard (alignment_bytes = 0 \<or> segment_count = 0) ''protocol.invalid_payload_descriptor''
     (rreturn
       \<lparr>pd_size_bytes = size_bytes, pd_source_memory = source_memory,
        pd_destination_memory = destination_memory, pd_source_handle = source_handle,
        pd_destination_handle = destination_handle, pd_alignment_bytes = alignment_bytes,
        pd_segment_count = segment_count, pd_payload_class = payload_class,
        pd_transport_class = transport_class, pd_scatter_gather = scatter_gather\<rparr>)))))))))))"

definition put_optional :: "('a \<Rightarrow> WriterCall list) \<Rightarrow> 'a option \<Rightarrow> WriterCall list" where
  "put_optional put v = (case v of None \<Rightarrow> [put_bool False] | Some x \<Rightarrow> put_bool True # put x)"

definition take_optional :: "(string, 'a) reader \<Rightarrow> (string, 'a option) reader" where
  "take_optional r =
     rbind read_bool (\<lambda>has. if has then rbind r (\<lambda>x. rreturn (Some x)) else rreturn None)"

definition put_economics :: "ExecutionEconomics \<Rightarrow> WriterCall list" where
  "put_economics e =
     [PutU64 (ee_setup_cost_units e), PutU64 (ee_per_byte_cost_micro_units e),
      PutU64 (ee_maximum_total_cost_units e), PutU64 (ee_estimated_transfer_bytes e)]"

definition take_economics :: "(string, ExecutionEconomics) reader" where
  "take_economics =
     rbind reader_u64 (\<lambda>setup_cost. rbind reader_u64 (\<lambda>per_byte_cost.
     rbind reader_u64 (\<lambda>maximum_cost. rbind reader_u64 (\<lambda>transfer_bytes.
     rreturn
       \<lparr>ee_setup_cost_units = setup_cost, ee_per_byte_cost_micro_units = per_byte_cost,
        ee_maximum_total_cost_units = maximum_cost, ee_estimated_transfer_bytes = transfer_bytes\<rparr>))))"

definition put_locality :: "LocalityConstraints \<Rightarrow> WriterCall list" where
  "put_locality l =
     [put_enum ord_LocalityClass (lc_minimum_class l), PutU32 (lc_required_numa_node l),
      put_bool (lc_require_same_host l), put_bool (lc_require_local_nic l)]"

definition put_compatibility :: "CompatibilityRequirements \<Rightarrow> WriterCall list" where
  "put_compatibility c =
     [PutU32 (cr_minimum_driver_backend_version c), PutU32 (cr_minimum_firmware_generation c),
      PutU32 (cr_required_protocol_version c), PutU32 (cr_required_accelerator_arch c),
      PutText (cr_required_backend_family c)]"

definition put_operation_request :: "OperationRequest \<Rightarrow> WriterCall list" where
  "put_operation_request r =
     PutU64 (or_operation_class r) # put_payload_descriptor (or_payload r) @
     put_types (or_allowed_domains r) @ put_types (or_forbidden_domains r) @
     PutU32 (of_nat (length (or_allowed_domain_ids r))) # map PutU64 (or_allowed_domain_ids r) @
     [PutU32 (or_required_capability_flags r), put_enum ord_IsolationClass (or_required_isolation r),
      put_bool (or_require_dma r), put_bool (or_require_scatter_gather r)] @
     put_locality (or_locality r) @ put_compatibility (or_compatibility r) @
     put_optional put_economics (or_economics r) @
     put_optional (\<lambda>v. [PutU64 v]) (or_latency_slo_ns r) @
     [put_bool (rt_allowed (or_retry r)), PutU32 (rt_max_attempts (or_retry r)),
      put_bool (or_fallback_allowed r), put_enum ord_SideEffectClass (or_side_effect_override r),
      put_bool (or_completion_may_produce_side_effects r), PutU64 (or_operation_id r),
      PutText (or_correlation_label r), put_enum ord_Provenance (or_provenance_hint r)]"

text \<open>A counted list: the count is bounded before the loop.\<close>

definition take_counted :: "nat \<Rightarrow> (string, 'a) reader \<Rightarrow> (string, 'a list) reader" where
  "take_counted limit r =
     rbind reader_u32 (\<lambda>n. rguard (unat n > limit) [] (read_list (unat n) r))"

definition take_locality :: "(string, LocalityConstraints) reader" where
  "take_locality =
     rbind (take_enum ord_LocalityClass LocalityClass.kDomainLocal all_LocalityClass) (\<lambda>minimum_class.
     rbind reader_u32 (\<lambda>numa_node. rbind read_bool (\<lambda>same_host. rbind read_bool (\<lambda>local_nic.
     rreturn
       \<lparr>lc_minimum_class = minimum_class, lc_required_numa_node = numa_node,
        lc_require_same_host = same_host, lc_require_local_nic = local_nic\<rparr>))))"

definition take_compatibility :: "(string, CompatibilityRequirements) reader" where
  "take_compatibility =
     rbind reader_u32 (\<lambda>driver. rbind reader_u32 (\<lambda>firmware. rbind reader_u32 (\<lambda>protocol.
     rbind reader_u32 (\<lambda>arch. rbind (reader_text kMaxNameLength) (\<lambda>family.
     rreturn
       \<lparr>cr_minimum_driver_backend_version = driver, cr_minimum_firmware_generation = firmware,
        cr_required_protocol_version = protocol, cr_required_accelerator_arch = arch,
        cr_required_backend_family = family\<rparr>)))))"

definition take_operation_request :: "(string, OperationRequest) reader" where
  "take_operation_request =
     rbind reader_u64 (\<lambda>operation_class. rbind take_payload_descriptor (\<lambda>payload.
     rbind (take_counted kExecutionDomainTypeCount
              (take_enum ord_ExecutionDomainType
                 ExecutionDomainType.kOtherRegisteredOffloadEngine all_ExecutionDomainType)) (\<lambda>allowed.
     rbind (take_counted kExecutionDomainTypeCount
              (take_enum ord_ExecutionDomainType
                 ExecutionDomainType.kOtherRegisteredOffloadEngine all_ExecutionDomainType)) (\<lambda>forbidden.
     rbind (take_counted kMaxExecutionDomains reader_u64) (\<lambda>ids.
     rbind reader_u32 (\<lambda>flags.
     rbind (take_enum ord_IsolationClass IsolationClass.kDedicatedDeviceService all_IsolationClass) (\<lambda>isolation.
     rbind read_bool (\<lambda>dma. rbind read_bool (\<lambda>scatter_gather.
     rbind take_locality (\<lambda>locality. rbind take_compatibility (\<lambda>compatibility.
     rbind (take_optional take_economics) (\<lambda>economics.
     rbind (take_optional reader_u64) (\<lambda>slo.
     rbind read_bool (\<lambda>retry_allowed. rbind reader_u32 (\<lambda>max_attempts.
     rbind read_bool (\<lambda>fallback_allowed.
     rbind (take_enum ord_SideEffectClass SideEffectClass.kUnknown all_SideEffectClass) (\<lambda>side_effect.
     rbind read_bool (\<lambda>completion_effects. rbind reader_u64 (\<lambda>operation_id.
     rbind (reader_text kMaxLabelLength) (\<lambda>correlation.
     rbind (take_enum ord_Provenance Provenance.kUnsupported all_Provenance) (\<lambda>provenance.
     rguard (max_attempts = 0 \<or> max_attempts > kMaxRetryAttempts) ''protocol.invalid_retry_bound''
     (rreturn
       \<lparr>or_operation_class = operation_class, or_payload = payload, or_allowed_domains = allowed,
        or_forbidden_domains = forbidden, or_allowed_domain_ids = ids,
        or_required_capability_flags = flags, or_required_isolation = isolation,
        or_require_dma = dma, or_require_scatter_gather = scatter_gather, or_locality = locality,
        or_compatibility = compatibility, or_economics = economics, or_latency_slo_ns = slo,
        or_retry = \<lparr>rt_allowed = retry_allowed, rt_max_attempts = max_attempts\<rparr>,
        or_fallback_allowed = fallback_allowed, or_side_effect_override = side_effect,
        or_completion_may_produce_side_effects = completion_effects, or_operation_id = operation_id,
        or_correlation_label = correlation, or_provenance_hint = provenance\<rparr>)
     )))))))))))))))))))))"

definition put_dispatch_envelope :: "DispatchEnvelope \<Rightarrow> WriterCall list" where
  "put_dispatch_envelope e =
     [PutU64 (en_attempt e), PutU64 (en_attempt_generation e), PutU64 (en_dispatch e),
      PutU64 (en_coordinator_epoch e), PutU64 (en_worker e), PutU64 (en_worker_boot e),
      PutU64 (en_domain e), PutU64 (en_domain_generation e), PutU64 (en_capability_generation e),
      PutU64 (en_policy_generation e), PutU64 (en_operation e), PutU64 (en_operation_class e),
      put_enum ord_SideEffectClass (en_side_effect e), put_enum ord_Provenance (en_provenance e)] @
     put_payload_descriptor (en_payload e) @
     [PutBlob (en_bytes e), put_bool (en_fallback e), PutU32 (en_fallback_depth e),
      PutU32 (en_retry_index e)]"

definition take_dispatch_envelope :: "(string, DispatchEnvelope) reader" where
  "take_dispatch_envelope =
     rbind reader_u64 (\<lambda>attempt. rbind reader_u64 (\<lambda>attempt_generation. rbind reader_u64 (\<lambda>dispatch.
     rbind reader_u64 (\<lambda>coordinator_epoch. rbind reader_u64 (\<lambda>worker. rbind reader_u64 (\<lambda>worker_boot.
     rbind reader_u64 (\<lambda>domain. rbind reader_u64 (\<lambda>domain_generation.
     rbind reader_u64 (\<lambda>capability_generation. rbind reader_u64 (\<lambda>policy_generation.
     rbind reader_u64 (\<lambda>operation. rbind reader_u64 (\<lambda>operation_class.
     rbind (take_enum ord_SideEffectClass SideEffectClass.kUnknown all_SideEffectClass) (\<lambda>side_effect.
     rbind (take_enum ord_Provenance Provenance.kUnsupported all_Provenance) (\<lambda>provenance.
     rbind take_payload_descriptor (\<lambda>payload.
     rbind (reader_blob kMaxProtocolPayloadBytes) (\<lambda>bytes.
     rbind read_bool (\<lambda>fallback. rbind reader_u32 (\<lambda>fallback_depth. rbind reader_u32 (\<lambda>retry_index.
     rguard (\<not> valid attempt \<or> \<not> valid operation) ''protocol.invalid_dispatch_identity''
     (rreturn
       \<lparr>en_attempt = attempt, en_attempt_generation = attempt_generation, en_dispatch = dispatch,
        en_coordinator_epoch = coordinator_epoch, en_worker = worker, en_worker_boot = worker_boot,
        en_domain = domain, en_domain_generation = domain_generation,
        en_capability_generation = capability_generation, en_policy_generation = policy_generation,
        en_operation = operation, en_operation_class = operation_class, en_side_effect = side_effect,
        en_provenance = provenance, en_payload = payload, en_bytes = bytes, en_fallback = fallback,
        en_fallback_depth = fallback_depth, en_retry_index = retry_index\<rparr>))))))))))))))))))))"

definition put_completion_submission :: "CompletionSubmission \<Rightarrow> WriterCall list" where
  "put_completion_submission c =
     [PutU64 (sub_attempt c), PutU64 (sub_generation c), PutU64 (sub_dispatch c),
      PutU64 (sub_completion c), PutU64 (sub_worker c), PutU64 (sub_worker_boot c),
      PutU64 (sub_coordinator_epoch c), PutU64 (sub_domain_generation c),
      PutU64 (sub_capability_generation c), PutU64 (sub_operation c),
      put_enum ord_Provenance (sub_provenance c), put_bool (rp_success (sub_result c)),
      PutU64 (rp_result_digest (sub_result c)), PutU64 (rp_bytes_processed (sub_result c)),
      PutU64 (rp_duration_ns (sub_result c)), put_enum ord_FailureKind (rp_failure (sub_result c)),
      PutText (rp_backend_detail (sub_result c))]"

definition take_completion_submission :: "(string, CompletionSubmission) reader" where
  "take_completion_submission =
     rbind reader_u64 (\<lambda>attempt. rbind reader_u64 (\<lambda>generation. rbind reader_u64 (\<lambda>dispatch.
     rbind reader_u64 (\<lambda>completion. rbind reader_u64 (\<lambda>worker. rbind reader_u64 (\<lambda>worker_boot.
     rbind reader_u64 (\<lambda>coordinator_epoch. rbind reader_u64 (\<lambda>domain_generation.
     rbind reader_u64 (\<lambda>capability_generation. rbind reader_u64 (\<lambda>operation.
     rbind (take_enum ord_Provenance Provenance.kUnsupported all_Provenance) (\<lambda>provenance.
     rbind read_bool (\<lambda>success_flag. rbind reader_u64 (\<lambda>digest. rbind reader_u64 (\<lambda>bytes_processed.
     rbind reader_u64 (\<lambda>duration_ns.
     rbind (take_enum ord_FailureKind FailureKind.kCoordinatorRestart all_FailureKind) (\<lambda>kind.
     rbind (reader_text kMaxTextLength) (\<lambda>detail.
     rguard (\<not> valid attempt) ''protocol.invalid_attempt_identity''
     (rreturn
       \<lparr>sub_attempt = attempt, sub_generation = generation, sub_dispatch = dispatch,
        sub_completion = completion, sub_worker = worker, sub_worker_boot = worker_boot,
        sub_coordinator_epoch = coordinator_epoch, sub_domain_generation = domain_generation,
        sub_capability_generation = capability_generation, sub_operation = operation,
        sub_provenance = provenance,
        sub_result = \<lparr>rp_success = success_flag, rp_result_digest = digest,
          rp_bytes_processed = bytes_processed, rp_duration_ns = duration_ns, rp_failure = kind,
          rp_backend_detail = bounded_text detail kMaxTextLength\<rparr>\<rparr>))))))))))))))))))"

section \<open>The shared codecs agree\<close>

lemma enumerates_wire:
  "enumerates ord_MemoryDomain all_MemoryDomain" "enumerates ord_PayloadClass all_PayloadClass"
  "enumerates ord_TransportClass all_TransportClass"
proof -
  show "enumerates ord_MemoryDomain all_MemoryDomain"
    unfolding enumerates_def by (intro conjI allI) (simp add: all_MemoryDomain_def, (case_tac x; simp add: all_MemoryDomain_def)+)
  show "enumerates ord_PayloadClass all_PayloadClass"
    unfolding enumerates_def by (intro conjI allI) (simp add: all_PayloadClass_def, (case_tac x; simp add: all_PayloadClass_def)+)
  show "enumerates ord_TransportClass all_TransportClass"
    unfolding enumerates_def by (intro conjI allI) (simp add: all_TransportClass_def, (case_tac x; simp add: all_TransportClass_def)+)
qed

lemma take_enum_put:
  assumes "enumerates ordinal values_of" and "ordinal x \<le> ordinal last_value"
  shows "take_enum ordinal last_value values_of (call_bytes (put_enum ordinal x) @ rest) = Inr (x, rest)"
proof -
  have "ordinal last_value < 256" using assms(1) by (auto simp: enumerates_def intro: less_le_trans)
  then have u: "unat (of_nat (ordinal x) :: u8) = ordinal x" "unat (of_nat (ordinal last_value) :: u8) = ordinal last_value"
    using assms(2) by (simp_all only: unat_of_nat) simp_all
  then have "\<not> (of_nat (ordinal x) :: u8) > of_nat (ordinal last_value)"
    using assms(2) by (simp add: word_less_nat_alt)
  moreover have "values_of ! ordinal x = x" using assms(1) by (simp add: enumerates_def)
  ultimately show ?thesis by (simp add: take_enum_def put_enum_def u(1))
qed

lemma rbind_take_enum:
  assumes "enumerates ordinal values_of" and "\<And>y. ordinal y \<le> ordinal last_value"
  shows "rbind (take_enum ordinal last_value values_of) k (call_bytes (put_enum ordinal x) @ rest) = k x rest"
  using assms by (intro rbind_Inr take_enum_put)

text \<open>The bounds the decoders of these records name are the last enumerators.\<close>

lemma last_enumerators:
  "ord_MemoryDomain m \<le> ord_MemoryDomain MemoryDomain.kUnknown"
  "ord_PayloadClass p \<le> ord_PayloadClass PayloadClass.kSegmentedFrames"
  "ord_TransportClass t \<le> ord_TransportClass TransportClass.kControlPlane"
  "ord_LocalityClass l \<le> ord_LocalityClass LocalityClass.kDomainLocal"
  "ord_IsolationClass i \<le> ord_IsolationClass IsolationClass.kDedicatedDeviceService"
  "ord_SideEffectClass s \<le> ord_SideEffectClass SideEffectClass.kUnknown"
  "ord_Provenance v \<le> ord_Provenance Provenance.kUnsupported"
  "ord_ExecutionDomainType d \<le> ord_ExecutionDomainType ExecutionDomainType.kOtherRegisteredOffloadEngine"
  "ord_FailureKind k \<le> ord_FailureKind FailureKind.kCoordinatorRestart"
proof -
  show "ord_MemoryDomain m \<le> ord_MemoryDomain MemoryDomain.kUnknown" by (cases m) simp_all
  show "ord_PayloadClass p \<le> ord_PayloadClass PayloadClass.kSegmentedFrames" by (cases p) simp_all
  show "ord_TransportClass t \<le> ord_TransportClass TransportClass.kControlPlane" by (cases t) simp_all
  show "ord_LocalityClass l \<le> ord_LocalityClass LocalityClass.kDomainLocal" by (cases l) simp_all
  show "ord_IsolationClass i \<le> ord_IsolationClass IsolationClass.kDedicatedDeviceService" by (cases i) simp_all
  show "ord_SideEffectClass s \<le> ord_SideEffectClass SideEffectClass.kUnknown" by (cases s) simp_all
  show "ord_Provenance v \<le> ord_Provenance Provenance.kUnsupported" by (cases v) simp_all
  show "ord_ExecutionDomainType d \<le> ord_ExecutionDomainType ExecutionDomainType.kOtherRegisteredOffloadEngine"
    by (cases d) simp_all
  show "ord_FailureKind k \<le> ord_FailureKind FailureKind.kCoordinatorRestart" by (cases k) simp_all
qed

lemmas rbind_take_enums [simp] =
  rbind_take_enum [OF enumerates_wire(1) last_enumerators(1)]
  rbind_take_enum [OF enumerates_wire(2) last_enumerators(2)]
  rbind_take_enum [OF enumerates_wire(3) last_enumerators(3)]
  rbind_take_enum [OF enumerates_enums(4) last_enumerators(4)]
  rbind_take_enum [OF enumerates_enums(3) last_enumerators(5)]
  rbind_take_enum [OF enumerates_enums(5) last_enumerators(6)]
  rbind_take_enum [OF enumerates_enums(2) last_enumerators(7)]
  rbind_take_enum [OF enumerates_enums(1) last_enumerators(8)]
  rbind_take_enum [OF enumerates_enums(8) last_enumerators(9)]

interpretation wire_type_codec: codec "\<lambda>x. [put_enum ord_ExecutionDomainType x]"
    "take_enum ord_ExecutionDomainType ExecutionDomainType.kOtherRegisteredOffloadEngine all_ExecutionDomainType"
    id "\<lambda>_. True"
  by unfold_locales (simp del: ord_ExecutionDomainType.simps add: take_enum_put enumerates_enums last_enumerators)

text \<open>What the decoders of the shared records enforce.\<close>

definition sendable_payload :: "PayloadDescriptor \<Rightarrow> bool" where
  "sendable_payload p \<longleftrightarrow> pd_alignment_bytes p \<noteq> 0 \<and> pd_segment_count p \<noteq> 0"

definition sendable_request :: "OperationRequest \<Rightarrow> bool" where
  "sendable_request r \<longleftrightarrow>
     sendable_payload (or_payload r)
     \<and> length (or_allowed_domains r) \<le> kExecutionDomainTypeCount
     \<and> length (or_forbidden_domains r) \<le> kExecutionDomainTypeCount
     \<and> length (or_allowed_domain_ids r) \<le> kMaxExecutionDomains
     \<and> length (cr_required_backend_family (or_compatibility r)) \<le> kMaxNameLength
     \<and> length (or_correlation_label r) \<le> kMaxLabelLength
     \<and> rt_max_attempts (or_retry r) \<noteq> 0 \<and> rt_max_attempts (or_retry r) \<le> kMaxRetryAttempts"

definition sendable_envelope :: "DispatchEnvelope \<Rightarrow> bool" where
  "sendable_envelope e \<longleftrightarrow>
     valid (en_attempt e) \<and> valid (en_operation e) \<and> sendable_payload (en_payload e)
     \<and> length (en_bytes e) \<le> kMaxProtocolPayloadBytes"

definition sendable_submission :: "CompletionSubmission \<Rightarrow> bool" where
  "sendable_submission c \<longleftrightarrow>
     valid (sub_attempt c) \<and> length (rp_backend_detail (sub_result c)) \<le> kMaxTextLength"

definition wire_submission :: "CompletionSubmission \<Rightarrow> CompletionSubmission" where
  "wire_submission c =
     c\<lparr>sub_result := (sub_result c)
         \<lparr>rp_backend_detail := bounded_text (rp_backend_detail (sub_result c)) kMaxTextLength\<rparr>\<rparr>"

interpretation payload_codec: codec put_payload_descriptor take_payload_descriptor id sendable_payload
  by unfold_locales (simp add: put_payload_descriptor_def take_payload_descriptor_def sendable_payload_def)

interpretation economics_codec: codec put_economics take_economics id "\<lambda>_. True"
  by unfold_locales (simp add: put_economics_def take_economics_def)

interpretation submission_codec: codec put_completion_submission take_completion_submission
    wire_submission sendable_submission
  by unfold_locales
     (simp add: put_completion_submission_def take_completion_submission_def sendable_submission_def
       wire_submission_def)

lemma blob_bounds: "n \<le> kMaxProtocolPayloadBytes \<Longrightarrow> n \<le> kMaxBlobBytes"
  by (simp add: kMaxProtocolPayloadBytes_def kMaxBlobBytes_def)

interpretation envelope_codec: codec put_dispatch_envelope take_dispatch_envelope id sendable_envelope
  by unfold_locales
     (simp add: put_dispatch_envelope_def take_dispatch_envelope_def sendable_envelope_def
       payload_codec.rbind_encoded blob_bounds)

lemma unat_count: "length xs \<le> 100000 \<Longrightarrow> unat (of_nat (length xs) :: u32) = length xs"
  by (rule unat_length_u32) simp

lemma take_counted_put:
  assumes "codec encode decode id (\<lambda>_. True)" and "length xs \<le> limit" and "limit \<le> 100000"
  shows "rbind (take_counted limit decode) k
      (call_bytes (PutU32 (of_nat (length xs))) @ calls_bytes (concat (map encode xs)) @ rest) = k xs rest"
proof -
  have n: "unat (of_nat (length xs) :: u32) = length xs" using assms(2,3) by (intro unat_count) simp
  have "read_list (length xs) decode (calls_bytes (concat (map encode xs)) @ rest) = Inr (xs, rest)"
    using codec.list_round_trip [OF assms(1)] by (simp add: list_all_iff)
  then show ?thesis
    using assms(2) by (simp add: take_counted_def rbind_assoc n rguard_False rbind_Inr)
qed

lemma put_types_calls:
  "calls_bytes (put_types ts) =
     call_bytes (PutU32 (of_nat (length ts))) @ calls_bytes (concat (map (\<lambda>x. [put_enum ord_ExecutionDomainType x]) ts))"
  by (simp add: put_types_def calls_bytes_def)

lemma wire_types:
  "length ts \<le> kExecutionDomainTypeCount \<Longrightarrow>
     rbind (take_counted kExecutionDomainTypeCount (take_enum ord_ExecutionDomainType
         ExecutionDomainType.kOtherRegisteredOffloadEngine all_ExecutionDomainType)) k (calls_bytes (put_types ts) @ rest)
     = k ts rest"
  unfolding put_types_calls append_assoc
  by (rule take_counted_put [OF wire_type_codec.codec_axioms]) (simp_all add: kExecutionDomainTypeCount_def)

lemma wire_ids:
  "length ids \<le> kMaxExecutionDomains \<Longrightarrow>
     rbind (take_counted kMaxExecutionDomains reader_u64) k
       (call_bytes (PutU32 (of_nat (length ids))) @ calls_bytes (map PutU64 ids) @ rest) = k ids rest"
  using take_counted_put [OF u64_codec.codec_axioms, of ids kMaxExecutionDomains]
  by (simp add: kMaxExecutionDomains_def calls_bytes_def o_def)

lemma rbind_optional:
  assumes "codec encode decode id (\<lambda>_. True)"
  shows "rbind (take_optional decode) k (calls_bytes (put_optional encode v) @ rest) = k v rest"
  using codec.rbind_encoded [OF assms]
  by (cases v) (simp_all add: put_optional_def take_optional_def rbind_assoc)

interpretation wire_locality_codec: codec put_locality take_locality id "\<lambda>_. True"
  by unfold_locales (simp add: put_locality_def take_locality_def)

interpretation wire_compatibility_codec: codec put_compatibility take_compatibility id
    "\<lambda>c. length (cr_required_backend_family c) \<le> kMaxNameLength"
  by unfold_locales (simp add: put_compatibility_def take_compatibility_def kMaxTextLength_ge)

interpretation request_codec: codec put_operation_request take_operation_request id sendable_request
proof
  fix r :: OperationRequest and rest
  assume r: "sendable_request r"
  then have attempts: "(kMaxRetryAttempts < rt_max_attempts (or_retry r)) = False"
    by (simp add: sendable_request_def not_less)
  show "take_operation_request (calls_bytes (put_operation_request r) @ rest) = Inr (id r, rest)"
    unfolding put_operation_request_def take_operation_request_def
    using r [unfolded sendable_request_def]
    by (simp only: append_Cons append_Nil append_assoc calls_bytes_simps rbind_put rbind_put_bool
        payload_codec.rbind_encoded wire_types wire_ids wire_locality_codec.rbind_encoded
        wire_compatibility_codec.rbind_encoded rbind_optional [OF economics_codec.codec_axioms]
        rbind_optional [OF u64_codec.codec_axioms] id_apply rbind_take_enums)
       (simp add: kMaxTextLength_ge attempts)
qed

section \<open>Frames agree\<close>

lemma message_codes: "t \<in> set all_MessageType \<Longrightarrow> message_type_of (message_code t) = t"
proof -
  have "list_all (\<lambda>t. message_type_of (message_code t) = t) all_MessageType" by code_simp
  then show "t \<in> set all_MessageType \<Longrightarrow> ?thesis" by (simp add: list_all_iff)
qed

lemma listed_code: "t \<in> set all_MessageType \<Longrightarrow> message_code t \<noteq> 0 \<and> \<not> message_code t > kMaxMessageType"
  by (auto simp: all_MessageType_def kMaxMessageType_def)

definition frame_bytes :: "MessageType \<Rightarrow> u8 list \<Rightarrow> u8 list" where
  "frame_bytes type payload = calls_bytes (frame_calls type payload)"

lemma frame_bytes_eq:
  "frame_bytes type payload =
     le_bytes 4 kFrameMagic @ le_bytes 2 kProtocolVersion @ le_bytes 2 (message_code type) @ le_bytes 2 (0 :: u16) @
     le_bytes 2 (0 :: u16) @ le_bytes 4 (of_nat (length payload) :: u32) @ le_bytes 4 (crc32c payload) @ payload"
  by (simp add: frame_bytes_def frame_calls_def call_bytes.simps)

lemma length_frame_bytes: "length (frame_bytes type payload) = kFrameHeaderBytes + length payload"
  by (simp add: frame_bytes_eq kFrameHeaderBytes_def)

lemma header_field_at:
  "length before = offset \<Longrightarrow> length bytes = n \<Longrightarrow> header_field offset n (before @ bytes @ rest) = of_le_bytes bytes"
  by (simp add: header_field_def)

lemma encode_frame_eq:
  "encode_frame type payload max_frame =
     (if max_frame < kMinFrameBytes then bad ''protocol.bad_bound'' []
      else if length payload > max_frame - kFrameHeaderBytes then bad ''protocol.oversized_payload'' []
      else Good (frame_bytes type payload))"
proof (cases "max_frame < kMinFrameBytes \<or> length payload > max_frame - kFrameHeaderBytes")
  case False
  have "put_calls (new_writer max_frame) (frame_calls type payload) = (new_writer max_frame)\<lparr>bw_data := frame_bytes type payload\<rparr>"
    using False length_frame_bytes [of type payload] le_diff_conv2 [of kFrameHeaderBytes max_frame "length payload"]
    by (subst put_calls_ok) (simp_all add: new_writer_def frame_calls_def frame_bytes_def kMinFrameBytes_def not_less add.commute)
  with False show ?thesis by (simp add: encode_frame_def new_writer_def)
qed (auto simp: encode_frame_def)

lemma frame_fields:
  "header_field 0 4 (frame_bytes type payload) = kFrameMagic"
  "header_field 4 2 (frame_bytes type payload) = kProtocolVersion"
  "header_field 6 2 (frame_bytes type payload) = message_code type"
  "header_field 8 2 (frame_bytes type payload) = (0 :: u16)"
  "header_field 10 2 (frame_bytes type payload) = (0 :: u16)"
  "header_field 12 4 (frame_bytes type payload) = (of_nat (length payload) :: u32)"
  "header_field 16 4 (frame_bytes type payload) = crc32c payload"
  "drop 20 (frame_bytes type payload) = payload"
  by (simp_all add: frame_bytes_eq header_field_def of_le_le_bytes)

lemma decode_encoded_frame:
  assumes "t \<in> set all_MessageType" and "length payload + kFrameHeaderBytes \<le> max_frame" and "length payload < 2 ^ 32"
  shows "decode_frame (frame_bytes t payload) max_frame = Good \<lparr>fm_type = t, fm_flags = 0, fm_payload = payload\<rparr>"
proof -
  have n: "unat (of_nat (length payload) :: u32) = length payload" using assms(3) by (intro unat_length_u32)
  have "frame_bytes t payload \<noteq> []"
    using length_frame_bytes [of t payload] by (auto simp: kFrameHeaderBytes_def)
  moreover have "decode_header (frame_bytes t payload) max_frame =
      Inr \<lparr>fh_type = t, fh_flags = 0, fh_length = of_nat (length payload)\<rparr>"
    using assms(2) listed_code [OF assms(1)] message_codes [OF assms(1)] n length_frame_bytes [of t payload]
    by (simp add: decode_header_def frame_fields kMinFrameBytes_def Let_def)
  ultimately show ?thesis
    using n length_frame_bytes [of t payload] by (simp add: decode_frame_def frame_fields kFrameHeaderBytes_def)
qed

section \<open>Damage\<close>

lemma header_field_changed:
  fixes data :: "u8 list"
  assumes "offset \<le> i" and "i < offset + n" and "offset + n \<le> length data" and "b \<noteq> data ! i"
    and "8 * n \<le> LENGTH('a)"
  shows "(header_field offset n (data[i := b]) :: 'a::len word) \<noteq> header_field offset n data"
proof
  assume "(header_field offset n (data[i := b]) :: 'a word) = header_field offset n data"
  then have "take n (drop offset (data[i := b])) = take n (drop offset data)"
    unfolding header_field_def using assms(3,5) by (intro of_le_bytes_inj [where 'a = 'a]) simp_all
  then have "take n (drop offset (data[i := b])) ! (i - offset) = take n (drop offset data) ! (i - offset)" by simp
  with assms(1-4) show False by simp
qed

lemma header_field_kept:
  "i < offset \<or> offset + n \<le> i \<Longrightarrow> header_field offset n (data[i := b]) = header_field offset n data"
  by (auto simp: header_field_def drop_update_swap)

lemma accepted_frame:
  assumes "decode_frame data max_frame = Good frame"
  shows "20 \<le> length data" "header_field 0 4 data = kFrameMagic" "header_field 4 2 data = kProtocolVersion"
    "header_field 8 2 data = (0 :: u16)" "header_field 10 2 data = (0 :: u16)"
    "unat (header_field 12 4 data :: u32) = length data - 20"
    "header_field 16 4 data = crc32c (drop 20 data)"
    "frame = \<lparr>fm_type = message_type_of (header_field 6 2 data), fm_flags = 0, fm_payload = drop 20 data\<rparr>"
    "length data \<le> max_frame"
  using assms
  by (auto simp: decode_frame_def decode_header_def kFrameHeaderBytes_def kMinFrameBytes_def bad_def Let_def
      split: if_splits sum.splits)

text \<open>Two accepted frames that agree on the length field have one length.\<close>

lemma accepted_same_length:
  assumes "decode_frame data m = Good frame" and "decode_frame other m' = Good frame'"
    and "take 16 other = take 16 data"
  shows "length other = length data"
proof -
  have "take 4 (drop 12 zs) = drop 12 (take 16 zs)" for zs :: "u8 list" by (simp add: drop_take)
  then have "header_field 12 4 other = (header_field 12 4 data :: u32)" using assms(3) by (simp add: header_field_def)
  then show ?thesis
    using accepted_frame(1,6) [OF assms(1)] accepted_frame(1,6) [OF assms(2)] by simp
qed

section \<open>Properties\<close>

text \<open>
  A frame is delivered exactly or refused. Framing a payload succeeds exactly when the frame fits
  the bound, the receiver then reads the same type and the same payload back, and the frame is as
  long as its header announces: the size of the payload and twenty bytes more.
\<close>

theorem frames_round_trip:
  assumes "t \<in> set all_MessageType" and "max_frame \<le> 2 ^ 32"
  shows "(checked_ok (encode_frame t payload max_frame) \<longleftrightarrow> kFrameHeaderBytes + length payload \<le> max_frame)
         \<and> (\<forall>bytes. encode_frame t payload max_frame = Good bytes \<longrightarrow>
              length bytes = kFrameHeaderBytes + length payload
              \<and> decode_frame bytes max_frame = Good \<lparr>fm_type = t, fm_flags = 0, fm_payload = payload\<rparr>)"
proof -
  have "length payload < 2 ^ 32" if "kFrameHeaderBytes + length payload \<le> max_frame"
    using that assms(2) by (simp add: kFrameHeaderBytes_def)
  then show ?thesis
    using decode_encoded_frame [OF assms(1), of payload max_frame] length_frame_bytes [of t payload]
    by (auto simp: encode_frame_eq kMinFrameBytes_def bad_def split: if_splits)
qed

theorem frames_round_trip_witness:
  "decode_frame (frame_bytes MessageType.kHeartbeat [1, 2, 3]) kMaxFrameBytes =
     Good \<lparr>fm_type = MessageType.kHeartbeat, fm_flags = 0, fm_payload = [1, 2, 3]\<rparr>"
proof -
  have "MessageType.kHeartbeat \<in> set all_MessageType" by (simp add: all_MessageType_def)
  moreover have "kMaxFrameBytes \<le> 2 ^ 32" by (simp add: kMaxFrameBytes_def)
  ultimately show ?thesis
    using frames_round_trip [of MessageType.kHeartbeat kMaxFrameBytes "[1, 2, 3]"]
    by (simp add: encode_frame_eq kMinFrameBytes_def kFrameHeaderBytes_def kMaxFrameBytes_def)
qed

text \<open>
  A damaged frame is refused. Changing one byte of an accepted frame anywhere but in the type
  field, cutting it short or appending to it gives bytes that are not accepted. The type is the one
  field no check covers: a change of it that is still accepted delivers the same payload under
  another number.
\<close>

theorem damaged_frame_is_refused:
  assumes "decode_frame data max_frame = Good frame" and "i < length data" and "b \<noteq> data ! i"
  shows "(i \<notin> {6, 7} \<longrightarrow> \<not> checked_ok (decode_frame (data[i := b]) max_frame))
         \<and> (\<forall>other. i \<in> {6, 7} \<and> decode_frame (data[i := b]) max_frame = Good other \<longrightarrow>
              fm_payload other = fm_payload frame)
         \<and> (n < length data \<longrightarrow> \<not> checked_ok (decode_frame (take n data) max_frame))
         \<and> (tail \<noteq> [] \<longrightarrow> \<not> checked_ok (decode_frame (data @ tail) max_frame))"
proof -
  note x = accepted_frame [OF assms(1)]
  have ok: "checked_ok c \<longleftrightarrow> (\<exists>v. c = Good v)" for c :: "Frame Checked" by (cases c) auto
  have "i \<in> {6, 7}" if y: "decode_frame (data[i := b]) max_frame = Good other" for other
  proof (rule ccontr)
    assume i: "i \<notin> {6, 7}"
    note z = accepted_frame [OF y]
    have "header_field 12 4 (data[i := b]) = (header_field 12 4 data :: u32)"
      using x(6) z(6) by (simp add: word_unat_eq_iff)
    then have fields: "\<not> i < 4" "\<not> (4 \<le> i \<and> i < 6)" "\<not> (8 \<le> i \<and> i < 10)" "\<not> (10 \<le> i \<and> i < 12)"
        "\<not> (12 \<le> i \<and> i < 16)"
      using header_field_changed [of 0 i 4 data b, where 'a = 32] header_field_changed [of 4 i 2 data b, where 'a = 16]
        header_field_changed [of 8 i 2 data b, where 'a = 16] header_field_changed [of 10 i 2 data b, where 'a = 16]
        header_field_changed [of 12 i 4 data b, where 'a = 32] x z assms(2,3) by auto
    have "\<not> (16 \<le> i \<and> i < 20)"
      using header_field_changed [of 16 i 4 data b, where 'a = 32] x(1,7) z(7) assms(3) by auto
    then have "20 \<le> i" using fields i by simp
    moreover from this have "crc32c (drop 20 (data[i := b])) = crc32c (drop 20 data)"
      using x(7) z(7) header_field_kept [of i 16 4 data b, where 'a = 32] by simp
    ultimately show False
      using crc32c_detects_byte [of "i - 20" "drop 20 data" b] assms(2,3) by (simp add: drop_update_swap)
  qed
  moreover have "fm_payload other = fm_payload frame"
    if "i \<in> {6, 7}" and "decode_frame (data[i := b]) max_frame = Good other" for other
    using that(1) x(8) accepted_frame(8) [OF that(2)] by auto
  moreover have "\<not> checked_ok (decode_frame (take n data) max_frame)" if n: "n < length data"
  proof
    assume "checked_ok (decode_frame (take n data) max_frame)"
    then obtain other where y: "decode_frame (take n data) max_frame = Good other" by (auto simp: ok)
    then have "20 \<le> n" using accepted_frame(1) [OF y] by simp
    with accepted_same_length [OF assms(1) y] n show False by simp
  qed
  moreover have "\<not> checked_ok (decode_frame (data @ tail) max_frame)" if t: "tail \<noteq> []"
  proof
    assume "checked_ok (decode_frame (data @ tail) max_frame)"
    then obtain other where y: "decode_frame (data @ tail) max_frame = Good other" by (auto simp: ok)
    from accepted_same_length [OF assms(1) y] t x(1) show False by simp
  qed
  ultimately show ?thesis by (auto simp: ok)
qed

theorem damaged_frame_is_refused_witness:
  "\<not> checked_ok (decode_frame ((frame_bytes MessageType.kHeartbeat [1, 2, 3])[20 := 9]) kMaxFrameBytes)"
proof -
  let ?data = "frame_bytes MessageType.kHeartbeat [1, 2, 3]"
  have "decode_frame ?data kMaxFrameBytes = Good \<lparr>fm_type = MessageType.kHeartbeat, fm_flags = 0, fm_payload = [1, 2, 3]\<rparr>"
    by (rule decode_encoded_frame) (simp_all add: all_MessageType_def kFrameHeaderBytes_def kMaxFrameBytes_def)
  moreover have "?data ! 20 = 1" "length ?data = 23"
    by (simp_all add: frame_bytes_eq nth_append)
  ultimately show ?thesis
    using damaged_frame_is_refused [of ?data kMaxFrameBytes _ 20 9] by simp
qed

end
