(* ===== verification/Tos_Messages.thy ===== *)
theory Tos_Messages
  imports Tos_Wire
begin

text \<open>
  The messages of the protocol (\<^verbatim>\<open>src/include/tos/dist/protocol.hpp\<close> and \<^verbatim>\<open>src/src/dist/protocol.cpp\<close>):
  one record per message, its encoder as the list of writer calls and its decoder as the chain of
  reads. \<open>WireMessage\<close> joins them, so that what holds for every message is said once: the frame of a
  message is \<open>send_message\<close>, and a receiver that switches on the type of a frame is \<open>receive_message\<close>.
\<close>

section \<open>Enumerations\<close>

datatype PeerRole = kNoRole | kWorker | kClient | kCoordinator

fun ord_PeerRole :: "PeerRole \<Rightarrow> nat" where
  "ord_PeerRole PeerRole.kNoRole = 0"
| "ord_PeerRole PeerRole.kWorker = 1"
| "ord_PeerRole PeerRole.kClient = 2"
| "ord_PeerRole PeerRole.kCoordinator = 3"

datatype QueryKind = kSnapshot | kReconcile | kVersion | kAccounting | kAttempt | kOperation

fun ord_QueryKind :: "QueryKind \<Rightarrow> nat" where
  "ord_QueryKind QueryKind.kSnapshot = 0"
| "ord_QueryKind QueryKind.kReconcile = 1"
| "ord_QueryKind QueryKind.kVersion = 2"
| "ord_QueryKind QueryKind.kAccounting = 3"
| "ord_QueryKind QueryKind.kAttempt = 4"
| "ord_QueryKind QueryKind.kOperation = 5"

datatype AdminAction =
    kFenceDomain
  | kFenceBoot
  | kReconcile
  | kSaveState
  | kSetOffloadRequirement
  | kShutdownCoordinator

fun ord_AdminAction :: "AdminAction \<Rightarrow> nat" where
  "ord_AdminAction AdminAction.kFenceDomain = 0"
| "ord_AdminAction AdminAction.kFenceBoot = 1"
| "ord_AdminAction AdminAction.kReconcile = 2"
| "ord_AdminAction AdminAction.kSaveState = 3"
| "ord_AdminAction AdminAction.kSetOffloadRequirement = 4"
| "ord_AdminAction AdminAction.kShutdownCoordinator = 5"

definition all_PeerRole :: "PeerRole list" where
  "all_PeerRole = [PeerRole.kNoRole, PeerRole.kWorker, PeerRole.kClient, PeerRole.kCoordinator]"

definition all_QueryKind :: "QueryKind list" where
  "all_QueryKind =
     [QueryKind.kSnapshot, QueryKind.kReconcile, QueryKind.kVersion, QueryKind.kAccounting,
      QueryKind.kAttempt, QueryKind.kOperation]"

definition all_AdminAction :: "AdminAction list" where
  "all_AdminAction =
     [AdminAction.kFenceDomain, AdminAction.kFenceBoot, AdminAction.kReconcile,
      AdminAction.kSaveState, AdminAction.kSetOffloadRequirement, AdminAction.kShutdownCoordinator]"

definition all_CompletionRejection :: "CompletionRejection list" where
  "all_CompletionRejection =
     [CompletionRejection.kAccepted, CompletionRejection.kDuplicateIdentical,
      CompletionRejection.kConflictingDuplicate, CompletionRejection.kUnknownAttempt,
      CompletionRejection.kStaleWorkerBoot, CompletionRejection.kStaleCoordinatorEpoch,
      CompletionRejection.kStaleDomainGeneration, CompletionRejection.kAttemptGenerationMismatch,
      CompletionRejection.kDispatchIdMismatch, CompletionRejection.kOperationMismatch,
      CompletionRejection.kNotDispatched, CompletionRejection.kAlreadyTerminal,
      CompletionRejection.kIntegrityMismatch, CompletionRejection.kDomainFenced,
      CompletionRejection.kResultTooLarge, CompletionRejection.kProvenanceMismatch,
      CompletionRejection.kStaleCapabilityGeneration]"

definition all_SelectionOutcome :: "SelectionOutcome list" where
  "all_SelectionOutcome =
     [SelectionOutcome.kOffloadSelected, SelectionOutcome.kCpuSelected,
      SelectionOutcome.kAcceleratorSelected, SelectionOutcome.kNicSelected,
      SelectionOutcome.kSmartNicSelected, SelectionOutcome.kDpuSelected,
      SelectionOutcome.kFallbackSelected, SelectionOutcome.kDeferred,
      SelectionOutcome.kNoEligibleDomain, SelectionOutcome.kPolicyRejected,
      SelectionOutcome.kCapabilityUnsupported, SelectionOutcome.kStaleEvidence,
      SelectionOutcome.kRevalidationRequired, SelectionOutcome.kCapacityUnavailable,
      SelectionOutcome.kCompatibilityRejected, SelectionOutcome.kIsolationRejected,
      SelectionOutcome.kDispatched, SelectionOutcome.kFailed, SelectionOutcome.kOutcomeUnknown,
      SelectionOutcome.kCancelled]"

definition all_DispatchRejection :: "DispatchRejection list" where
  "all_DispatchRejection =
     [DispatchRejection.kNone, DispatchRejection.kPlanNotFound, DispatchRejection.kPlanConsumed,
      DispatchRejection.kAuthorityStale, DispatchRejection.kReservationInvalid,
      DispatchRejection.kShutdownInProgress, DispatchRejection.kAttemptRegistrationFailed,
      DispatchRejection.kTransportFailure, DispatchRejection.kCancelled,
      DispatchRejection.kCapacityExhausted]"

section \<open>Parts of messages\<close>

text \<open>A document travels as a bounded blob of its characters.\<close>

definition take_document :: "(string, string) reader" where
  "take_document = rbind (reader_blob kMaxBlobBytes) (\<lambda>b. rreturn (map char_of_byte b))"

definition put_capability_record :: "CapabilityRecord \<Rightarrow> WriterCall list" where
  "put_capability_record c =
     [PutU64 (cap_domain c), PutU64 (cap_generation c), PutU64 (cap_evidence c),
      put_enum ord_Provenance (cap_provenance c), put_bool (cap_authoritative c),
      PutU64 (cap_publisher c)] @
     write_capability (cap_capability c)"

definition take_capability_record :: "(string, CapabilityRecord) reader" where
  "take_capability_record =
     rbind reader_u64 (\<lambda>domain. rbind reader_u64 (\<lambda>generation. rbind reader_u64 (\<lambda>evidence.
     rbind (take_enum ord_Provenance Provenance.kUnsupported all_Provenance) (\<lambda>provenance.
     rbind read_bool (\<lambda>authoritative. rbind reader_u64 (\<lambda>publisher.
     rbind read_capability (\<lambda>capability.
     rreturn
       \<lparr>cap_domain = domain, cap_generation = generation, cap_evidence = evidence,
        cap_publisher = publisher, cap_provenance = provenance, cap_authoritative = authoritative,
        cap_capability = capability\<rparr>)))))))"

definition put_load :: "DomainLoadEvidence \<Rightarrow> WriterCall list" where
  "put_load l =
     [PutU64 (ld_load_generation l), PutU64 (ld_queue_generation l), PutU64 (ld_health_generation l),
      PutU64 (ld_evidence l), put_enum ord_Provenance (ld_provenance l),
      PutU32 (ld_utilization_percent l), PutU32 (ld_congestion_percent l), PutU32 (ld_queue_depth l),
      PutU32 (ld_in_flight l), PutU64 (ld_observed_latency_ns l),
      PutU64 (ld_throughput_bytes_per_second l), put_bool (ld_healthy l), put_bool (ld_ready l),
      put_bool (ld_accepting l)]"

definition take_load :: "(string, DomainLoadEvidence) reader" where
  "take_load =
     rbind reader_u64 (\<lambda>load_generation. rbind reader_u64 (\<lambda>queue_generation.
     rbind reader_u64 (\<lambda>health_generation. rbind reader_u64 (\<lambda>evidence.
     rbind (take_enum ord_Provenance Provenance.kUnsupported all_Provenance) (\<lambda>provenance.
     rbind reader_u32 (\<lambda>utilization. rbind reader_u32 (\<lambda>congestion. rbind reader_u32 (\<lambda>queue_depth.
     rbind reader_u32 (\<lambda>running. rbind reader_u64 (\<lambda>latency. rbind reader_u64 (\<lambda>throughput.
     rbind read_bool (\<lambda>healthy. rbind read_bool (\<lambda>ready. rbind read_bool (\<lambda>accepting.
     rguard (utilization > 100 \<or> congestion > 100) ''protocol.invalid_load_percent''
     (rreturn
       \<lparr>ld_load_generation = load_generation, ld_queue_generation = queue_generation,
        ld_health_generation = health_generation, ld_evidence = evidence, ld_provenance = provenance,
        ld_utilization_percent = utilization, ld_congestion_percent = congestion,
        ld_queue_depth = queue_depth, ld_in_flight = running, ld_observed_latency_ns = latency,
        ld_throughput_bytes_per_second = throughput, ld_healthy = healthy, ld_ready = ready,
        ld_accepting = accepting\<rparr>)))))))))))))))"

definition put_cancel_envelope :: "CancelEnvelope \<Rightarrow> WriterCall list" where
  "put_cancel_envelope e =
     [PutU64 (cv_attempt e), PutU64 (cv_attempt_generation e), PutU64 (cv_dispatch e),
      PutU64 (cv_coordinator_epoch e), PutU64 (cv_worker_boot e), PutU64 (cv_domain e),
      put_bool (cv_may_have_executed e)]"

definition take_cancel_envelope :: "(string, CancelEnvelope) reader" where
  "take_cancel_envelope =
     rbind reader_u64 (\<lambda>attempt. rbind reader_u64 (\<lambda>generation. rbind reader_u64 (\<lambda>dispatch.
     rbind reader_u64 (\<lambda>epoch. rbind reader_u64 (\<lambda>boot. rbind reader_u64 (\<lambda>domain.
     rbind read_bool (\<lambda>may_have_executed.
     rreturn
       \<lparr>cv_attempt = attempt, cv_attempt_generation = generation, cv_dispatch = dispatch,
        cv_coordinator_epoch = epoch, cv_worker_boot = boot, cv_domain = domain,
        cv_may_have_executed = may_have_executed\<rparr>)))))))"

definition sendable_capability_record :: "CapabilityRecord \<Rightarrow> bool" where
  "sendable_capability_record c \<longleftrightarrow> storable_capability (cap_capability c)"

definition sendable_load :: "DomainLoadEvidence \<Rightarrow> bool" where
  "sendable_load l \<longleftrightarrow> ld_utilization_percent l \<le> 100 \<and> ld_congestion_percent l \<le> 100"

section \<open>Messages\<close>


record HelloMessage =
  hm_role :: PeerRole
  hm_name :: string
  hm_worker :: u64
  hm_boot :: u64
  hm_host :: string
  hm_pid :: u64
  hm_version :: string

definition put_Hello :: "HelloMessage \<Rightarrow> WriterCall list" where
  "put_Hello m =
     [put_enum ord_PeerRole (hm_role m), PutText (hm_name m), PutU64 (hm_worker m),
      PutU64 (hm_boot m), PutText (hm_host m), PutU64 (hm_pid m), PutText (hm_version m)]"

definition take_Hello :: "(string, HelloMessage) reader" where
  "take_Hello =
     rbind (take_enum ord_PeerRole PeerRole.kCoordinator all_PeerRole) (\<lambda>role.
     rbind (reader_text kMaxNameLength) (\<lambda>name. rbind reader_u64 (\<lambda>worker.
     rbind reader_u64 (\<lambda>boot. rbind (reader_text kMaxLabelLength) (\<lambda>host.
     rbind reader_u64 (\<lambda>pid. rbind (reader_text kMaxNameLength) (\<lambda>version. 
     rreturn
       \<lparr>hm_role = role, hm_name = name, hm_worker = worker, hm_boot = boot, hm_host = host,
        hm_pid = pid, hm_version = version\<rparr>)))))))"

definition sendable_Hello :: "HelloMessage \<Rightarrow> bool" where
  "sendable_Hello m \<longleftrightarrow>
     length (hm_name m) \<le> kMaxNameLength \<and> length (hm_host m) \<le> kMaxLabelLength \<and>
     length (hm_version m) \<le> kMaxNameLength"

record HelloAckMessage =
  ha_accepted :: bool
  ha_epoch :: u64
  ha_code :: string
  ha_detail :: string

definition put_HelloAck :: "HelloAckMessage \<Rightarrow> WriterCall list" where
  "put_HelloAck m =
     [put_bool (ha_accepted m), PutU64 (ha_epoch m), PutText (ha_code m), PutText (ha_detail m)]"

definition take_HelloAck :: "(string, HelloAckMessage) reader" where
  "take_HelloAck =
     rbind read_bool (\<lambda>accepted. rbind reader_u64 (\<lambda>epoch.
     rbind (reader_text kMaxNameLength) (\<lambda>code. rbind (reader_text kMaxTextLength) (\<lambda>detail. 
     rreturn
       \<lparr>ha_accepted = accepted, ha_epoch = epoch, ha_code = code, ha_detail = detail\<rparr>))))"

definition sendable_HelloAck :: "HelloAckMessage \<Rightarrow> bool" where
  "sendable_HelloAck m \<longleftrightarrow>
     length (ha_code m) \<le> kMaxNameLength \<and> length (ha_detail m) \<le> kMaxTextLength"

record ErrorMessage =
  er_code :: string
  er_detail :: string

definition put_Error :: "ErrorMessage \<Rightarrow> WriterCall list" where
  "put_Error m =
     [PutText (er_code m), PutText (er_detail m)]"

definition take_Error :: "(string, ErrorMessage) reader" where
  "take_Error =
     rbind (reader_text kMaxNameLength) (\<lambda>code. rbind (reader_text kMaxTextLength) (\<lambda>detail. 
     rreturn
       \<lparr>er_code = code, er_detail = detail\<rparr>))"

definition sendable_Error :: "ErrorMessage \<Rightarrow> bool" where
  "sendable_Error m \<longleftrightarrow>
     length (er_code m) \<le> kMaxNameLength \<and> length (er_detail m) \<le> kMaxTextLength"

record GoodbyeMessage =
  gb_reason :: string

definition put_Goodbye :: "GoodbyeMessage \<Rightarrow> WriterCall list" where
  "put_Goodbye m =
     [PutText (gb_reason m)]"

definition take_Goodbye :: "(string, GoodbyeMessage) reader" where
  "take_Goodbye =
     rbind (reader_text kMaxTextLength) (\<lambda>reason. 
     rreturn
       \<lparr>gb_reason = reason\<rparr>)"

definition sendable_Goodbye :: "GoodbyeMessage \<Rightarrow> bool" where
  "sendable_Goodbye m \<longleftrightarrow>
     length (gb_reason m) \<le> kMaxTextLength"

record DomainPublishMessage =
  dp_record :: ExecutionDomainRecord

definition put_DomainPublish :: "DomainPublishMessage \<Rightarrow> WriterCall list" where
  "put_DomainPublish m =
     write_domain (dp_record m)"

definition take_DomainPublish :: "(string, DomainPublishMessage) reader" where
  "take_DomainPublish =
     rbind read_domain (\<lambda>record_field. 
     rreturn
       \<lparr>dp_record = record_field\<rparr>)"

definition sendable_DomainPublish :: "DomainPublishMessage \<Rightarrow> bool" where
  "sendable_DomainPublish m \<longleftrightarrow>
     storable_domain (dp_record m)"

record CapabilityPublishMessage =
  cp_capability :: CapabilityRecord

definition put_CapabilityPublish :: "CapabilityPublishMessage \<Rightarrow> WriterCall list" where
  "put_CapabilityPublish m =
     put_capability_record (cp_capability m)"

definition take_CapabilityPublish :: "(string, CapabilityPublishMessage) reader" where
  "take_CapabilityPublish =
     rbind take_capability_record (\<lambda>capability. 
     rreturn
       \<lparr>cp_capability = capability\<rparr>)"

definition sendable_CapabilityPublish :: "CapabilityPublishMessage \<Rightarrow> bool" where
  "sendable_CapabilityPublish m \<longleftrightarrow>
     sendable_capability_record (cp_capability m)"

record LoadUpdateMessage =
  lu_domain :: u64
  lu_load :: DomainLoadEvidence

definition put_LoadUpdate :: "LoadUpdateMessage \<Rightarrow> WriterCall list" where
  "put_LoadUpdate m =
     [PutU64 (lu_domain m)] @
     put_load (lu_load m)"

definition take_LoadUpdate :: "(string, LoadUpdateMessage) reader" where
  "take_LoadUpdate =
     rbind reader_u64 (\<lambda>domain. rbind take_load (\<lambda>load. 
     rreturn
       \<lparr>lu_domain = domain, lu_load = load\<rparr>))"

definition sendable_LoadUpdate :: "LoadUpdateMessage \<Rightarrow> bool" where
  "sendable_LoadUpdate m \<longleftrightarrow>
     sendable_load (lu_load m)"

record HeartbeatMessage =
  hb_worker :: u64
  hb_boot :: u64
  hb_epoch :: u64
  hb_sequence :: u64

definition put_Heartbeat :: "HeartbeatMessage \<Rightarrow> WriterCall list" where
  "put_Heartbeat m =
     [PutU64 (hb_worker m), PutU64 (hb_boot m), PutU64 (hb_epoch m), PutU64 (hb_sequence m)]"

definition take_Heartbeat :: "(string, HeartbeatMessage) reader" where
  "take_Heartbeat =
     rbind reader_u64 (\<lambda>worker. rbind reader_u64 (\<lambda>boot. rbind reader_u64 (\<lambda>epoch.
     rbind reader_u64 (\<lambda>sequence. 
     rreturn
       \<lparr>hb_worker = worker, hb_boot = boot, hb_epoch = epoch, hb_sequence = sequence\<rparr>))))"

record DispatchRequestMessage =
  dq_envelope :: DispatchEnvelope

definition put_DispatchRequest :: "DispatchRequestMessage \<Rightarrow> WriterCall list" where
  "put_DispatchRequest m =
     put_dispatch_envelope (dq_envelope m)"

definition take_DispatchRequest :: "(string, DispatchRequestMessage) reader" where
  "take_DispatchRequest =
     rbind take_dispatch_envelope (\<lambda>envelope. 
     rreturn
       \<lparr>dq_envelope = envelope\<rparr>)"

definition sendable_DispatchRequest :: "DispatchRequestMessage \<Rightarrow> bool" where
  "sendable_DispatchRequest m \<longleftrightarrow>
     sendable_envelope (dq_envelope m)"

record DispatchAcceptedMessage =
  da_attempt :: u64
  da_generation :: u64
  da_dispatch :: u64
  da_boot :: u64

definition put_DispatchAccepted :: "DispatchAcceptedMessage \<Rightarrow> WriterCall list" where
  "put_DispatchAccepted m =
     [PutU64 (da_attempt m), PutU64 (da_generation m), PutU64 (da_dispatch m), PutU64 (da_boot m)]"

definition take_DispatchAccepted :: "(string, DispatchAcceptedMessage) reader" where
  "take_DispatchAccepted =
     rbind reader_u64 (\<lambda>attempt. rbind reader_u64 (\<lambda>generation.
     rbind reader_u64 (\<lambda>dispatch. rbind reader_u64 (\<lambda>boot. 
     rreturn
       \<lparr>da_attempt = attempt, da_generation = generation, da_dispatch = dispatch, da_boot = boot\<rparr>))))"

record DispatchRejectedMessage =
  dj_attempt :: u64
  dj_dispatch :: u64
  dj_code :: string
  dj_detail :: string

definition put_DispatchRejected :: "DispatchRejectedMessage \<Rightarrow> WriterCall list" where
  "put_DispatchRejected m =
     [PutU64 (dj_attempt m), PutU64 (dj_dispatch m), PutText (dj_code m), PutText (dj_detail m)]"

definition take_DispatchRejected :: "(string, DispatchRejectedMessage) reader" where
  "take_DispatchRejected =
     rbind reader_u64 (\<lambda>attempt. rbind reader_u64 (\<lambda>dispatch.
     rbind (reader_text kMaxNameLength) (\<lambda>code. rbind (reader_text kMaxTextLength) (\<lambda>detail. 
     rreturn
       \<lparr>dj_attempt = attempt, dj_dispatch = dispatch, dj_code = code, dj_detail = detail\<rparr>))))"

definition sendable_DispatchRejected :: "DispatchRejectedMessage \<Rightarrow> bool" where
  "sendable_DispatchRejected m \<longleftrightarrow>
     length (dj_code m) \<le> kMaxNameLength \<and> length (dj_detail m) \<le> kMaxTextLength"

record CompletionMessage =
  cl_submission :: CompletionSubmission

definition put_Completion :: "CompletionMessage \<Rightarrow> WriterCall list" where
  "put_Completion m =
     put_completion_submission (cl_submission m)"

definition take_Completion :: "(string, CompletionMessage) reader" where
  "take_Completion =
     rbind take_completion_submission (\<lambda>submission. 
     rreturn
       \<lparr>cl_submission = submission\<rparr>)"

definition sendable_Completion :: "CompletionMessage \<Rightarrow> bool" where
  "sendable_Completion m \<longleftrightarrow>
     sendable_submission (cl_submission m)"

record FailureReportMessage =
  fr_attempt :: u64
  fr_generation :: u64
  fr_dispatch :: u64
  fr_boot :: u64
  fr_epoch :: u64
  fr_kind :: FailureKind
  fr_detail :: string

definition put_FailureReport :: "FailureReportMessage \<Rightarrow> WriterCall list" where
  "put_FailureReport m =
     [PutU64 (fr_attempt m), PutU64 (fr_generation m), PutU64 (fr_dispatch m), PutU64 (fr_boot m),
      PutU64 (fr_epoch m), put_enum ord_FailureKind (fr_kind m), PutText (fr_detail m)]"

definition take_FailureReport :: "(string, FailureReportMessage) reader" where
  "take_FailureReport =
     rbind reader_u64 (\<lambda>attempt. rbind reader_u64 (\<lambda>generation.
     rbind reader_u64 (\<lambda>dispatch. rbind reader_u64 (\<lambda>boot. rbind reader_u64 (\<lambda>epoch.
     rbind (take_enum ord_FailureKind FailureKind.kCoordinatorRestart all_FailureKind) (\<lambda>kind.
     rbind (reader_text kMaxTextLength) (\<lambda>detail. 
     rreturn
       \<lparr>fr_attempt = attempt, fr_generation = generation, fr_dispatch = dispatch, fr_boot = boot,
        fr_epoch = epoch, fr_kind = kind, fr_detail = detail\<rparr>)))))))"

definition sendable_FailureReport :: "FailureReportMessage \<Rightarrow> bool" where
  "sendable_FailureReport m \<longleftrightarrow>
     length (fr_detail m) \<le> kMaxTextLength"

record CancelRequestMessage =
  cq_envelope :: CancelEnvelope

definition put_CancelRequest :: "CancelRequestMessage \<Rightarrow> WriterCall list" where
  "put_CancelRequest m =
     put_cancel_envelope (cq_envelope m)"

definition take_CancelRequest :: "(string, CancelRequestMessage) reader" where
  "take_CancelRequest =
     rbind take_cancel_envelope (\<lambda>envelope. 
     rreturn
       \<lparr>cq_envelope = envelope\<rparr>)"

record CancelResultMessage =
  cx_attempt :: u64
  cx_cancelled :: bool
  cx_may_have_executed :: bool
  cx_detail :: string

definition put_CancelResult :: "CancelResultMessage \<Rightarrow> WriterCall list" where
  "put_CancelResult m =
     [PutU64 (cx_attempt m), put_bool (cx_cancelled m), put_bool (cx_may_have_executed m),
      PutText (cx_detail m)]"

definition take_CancelResult :: "(string, CancelResultMessage) reader" where
  "take_CancelResult =
     rbind reader_u64 (\<lambda>attempt. rbind read_bool (\<lambda>cancelled.
     rbind read_bool (\<lambda>may_have_executed. rbind (reader_text kMaxTextLength) (\<lambda>detail. 
     rreturn
       \<lparr>cx_attempt = attempt, cx_cancelled = cancelled, cx_may_have_executed = may_have_executed,
        cx_detail = detail\<rparr>))))"

definition sendable_CancelResult :: "CancelResultMessage \<Rightarrow> bool" where
  "sendable_CancelResult m \<longleftrightarrow>
     length (cx_detail m) \<le> kMaxTextLength"

record CompletionAckMessage =
  ck_attempt :: u64
  ck_rejection :: CompletionRejection
  ck_committed :: bool
  ck_idempotent :: bool

definition put_CompletionAck :: "CompletionAckMessage \<Rightarrow> WriterCall list" where
  "put_CompletionAck m =
     [PutU64 (ck_attempt m), put_enum ord_CompletionRejection (ck_rejection m),
      put_bool (ck_committed m), put_bool (ck_idempotent m)]"

definition take_CompletionAck :: "(string, CompletionAckMessage) reader" where
  "take_CompletionAck =
     rbind reader_u64 (\<lambda>attempt.
     rbind (take_enum ord_CompletionRejection CompletionRejection.kProvenanceMismatch all_CompletionRejection) (\<lambda>rejection.
     rbind read_bool (\<lambda>committed. rbind read_bool (\<lambda>idempotent. 
     rreturn
       \<lparr>ck_attempt = attempt, ck_rejection = rejection, ck_committed = committed,
        ck_idempotent = idempotent\<rparr>))))"

definition sendable_CompletionAck :: "CompletionAckMessage \<Rightarrow> bool" where
  "sendable_CompletionAck m \<longleftrightarrow>
     ck_rejection m \<noteq> CompletionRejection.kStaleCapabilityGeneration"

record SubmitRequestMessage =
  sq_request :: OperationRequest
  sq_payload :: "u8 list"
  sq_dispatch_now :: bool
  sq_reserve_first :: bool

definition put_SubmitRequest :: "SubmitRequestMessage \<Rightarrow> WriterCall list" where
  "put_SubmitRequest m =
     put_operation_request (sq_request m) @
     [PutBlob (sq_payload m), put_bool (sq_dispatch_now m), put_bool (sq_reserve_first m)]"

definition take_SubmitRequest :: "(string, SubmitRequestMessage) reader" where
  "take_SubmitRequest =
     rbind take_operation_request (\<lambda>request.
     rbind (reader_blob kMaxProtocolPayloadBytes) (\<lambda>payload. rbind read_bool (\<lambda>dispatch_now.
     rbind read_bool (\<lambda>reserve_first. 
     rreturn
       \<lparr>sq_request = request, sq_payload = payload, sq_dispatch_now = dispatch_now,
        sq_reserve_first = reserve_first\<rparr>))))"

definition sendable_SubmitRequest :: "SubmitRequestMessage \<Rightarrow> bool" where
  "sendable_SubmitRequest m \<longleftrightarrow>
     sendable_request (sq_request m) \<and> length (sq_payload m) \<le> kMaxProtocolPayloadBytes"

record SubmitResponseMessage =
  sr_planned :: bool
  sr_dispatched :: bool
  sr_outcome :: SelectionOutcome
  sr_operation :: u64
  sr_domain :: u64
  sr_domain_type :: ExecutionDomainType
  sr_provenance :: Provenance
  sr_attempt :: u64
  sr_attempt_generation :: u64
  sr_attempt_state :: AttemptState
  sr_dispatch_rejection :: DispatchRejection
  sr_code :: string
  sr_detail :: string
  sr_explanation_json :: string

definition put_SubmitResponse :: "SubmitResponseMessage \<Rightarrow> WriterCall list" where
  "put_SubmitResponse m =
     [put_bool (sr_planned m), put_bool (sr_dispatched m),
      put_enum ord_SelectionOutcome (sr_outcome m), PutU64 (sr_operation m), PutU64 (sr_domain m),
      put_enum ord_ExecutionDomainType (sr_domain_type m),
      put_enum ord_Provenance (sr_provenance m), PutU64 (sr_attempt m),
      PutU64 (sr_attempt_generation m), put_enum ord_AttemptState (sr_attempt_state m),
      put_enum ord_DispatchRejection (sr_dispatch_rejection m), PutText (sr_code m),
      PutText (sr_detail m), PutBlob (map byte_of_char (sr_explanation_json m))]"

definition take_SubmitResponse :: "(string, SubmitResponseMessage) reader" where
  "take_SubmitResponse =
     rbind read_bool (\<lambda>planned. rbind read_bool (\<lambda>dispatched.
     rbind (take_enum ord_SelectionOutcome SelectionOutcome.kCancelled all_SelectionOutcome) (\<lambda>outcome.
     rbind reader_u64 (\<lambda>operation. rbind reader_u64 (\<lambda>domain.
     rbind (take_enum ord_ExecutionDomainType ExecutionDomainType.kOtherRegisteredOffloadEngine all_ExecutionDomainType) (\<lambda>domain_type.
     rbind (take_enum ord_Provenance Provenance.kUnsupported all_Provenance) (\<lambda>provenance.
     rbind reader_u64 (\<lambda>attempt. rbind reader_u64 (\<lambda>attempt_generation.
     rbind (take_enum ord_AttemptState AttemptState.kFenced all_AttemptState) (\<lambda>attempt_state.
     rbind (take_enum ord_DispatchRejection DispatchRejection.kCapacityExhausted all_DispatchRejection) (\<lambda>dispatch_rejection.
     rbind (reader_text kMaxNameLength) (\<lambda>code. rbind (reader_text kMaxTextLength) (\<lambda>detail.
     rbind take_document (\<lambda>explanation_json. 
     rreturn
       \<lparr>sr_planned = planned, sr_dispatched = dispatched, sr_outcome = outcome,
        sr_operation = operation, sr_domain = domain, sr_domain_type = domain_type,
        sr_provenance = provenance, sr_attempt = attempt, sr_attempt_generation = attempt_generation,
        sr_attempt_state = attempt_state, sr_dispatch_rejection = dispatch_rejection, sr_code = code,
        sr_detail = detail, sr_explanation_json = explanation_json\<rparr>))))))))))))))"

definition sendable_SubmitResponse :: "SubmitResponseMessage \<Rightarrow> bool" where
  "sendable_SubmitResponse m \<longleftrightarrow>
     length (sr_code m) \<le> kMaxNameLength \<and> length (sr_detail m) \<le> kMaxTextLength \<and>
     length (sr_explanation_json m) \<le> kMaxBlobBytes"

record QueryRequestMessage =
  qr_kind :: QueryKind
  qr_id :: u64

definition put_QueryRequest :: "QueryRequestMessage \<Rightarrow> WriterCall list" where
  "put_QueryRequest m =
     [put_enum ord_QueryKind (qr_kind m), PutU64 (qr_id m)]"

definition take_QueryRequest :: "(string, QueryRequestMessage) reader" where
  "take_QueryRequest =
     rbind (take_enum ord_QueryKind QueryKind.kOperation all_QueryKind) (\<lambda>kind.
     rbind reader_u64 (\<lambda>i. 
     rreturn
       \<lparr>qr_kind = kind, qr_id = i\<rparr>))"

record QueryResponseMessage =
  qs_ok :: bool
  qs_code :: string
  qs_body :: string

definition put_QueryResponse :: "QueryResponseMessage \<Rightarrow> WriterCall list" where
  "put_QueryResponse m =
     [put_bool (qs_ok m), PutText (qs_code m), PutBlob (map byte_of_char (qs_body m))]"

definition take_QueryResponse :: "(string, QueryResponseMessage) reader" where
  "take_QueryResponse =
     rbind read_bool (\<lambda>ok. rbind (reader_text kMaxNameLength) (\<lambda>code.
     rbind take_document (\<lambda>body. 
     rreturn
       \<lparr>qs_ok = ok, qs_code = code, qs_body = body\<rparr>)))"

definition sendable_QueryResponse :: "QueryResponseMessage \<Rightarrow> bool" where
  "sendable_QueryResponse m \<longleftrightarrow>
     length (qs_code m) \<le> kMaxNameLength \<and> length (qs_body m) \<le> kMaxBlobBytes"

record AdminRequestMessage =
  ar_action :: AdminAction
  ar_id :: u64
  ar_reason :: string
  ar_value :: u64

definition put_AdminRequest :: "AdminRequestMessage \<Rightarrow> WriterCall list" where
  "put_AdminRequest m =
     [put_enum ord_AdminAction (ar_action m), PutU64 (ar_id m), PutText (ar_reason m),
      PutU64 (ar_value m)]"

definition take_AdminRequest :: "(string, AdminRequestMessage) reader" where
  "take_AdminRequest =
     rbind (take_enum ord_AdminAction AdminAction.kShutdownCoordinator all_AdminAction) (\<lambda>action.
     rbind reader_u64 (\<lambda>i. rbind (reader_text kMaxTextLength) (\<lambda>reason.
     rbind reader_u64 (\<lambda>value_field. 
     rreturn
       \<lparr>ar_action = action, ar_id = i, ar_reason = reason, ar_value = value_field\<rparr>))))"

definition sendable_AdminRequest :: "AdminRequestMessage \<Rightarrow> bool" where
  "sendable_AdminRequest m \<longleftrightarrow>
     length (ar_reason m) \<le> kMaxTextLength"

record AdminResponseMessage =
  as_ok :: bool
  as_code :: string
  as_detail :: string
  as_body :: string

definition put_AdminResponse :: "AdminResponseMessage \<Rightarrow> WriterCall list" where
  "put_AdminResponse m =
     [put_bool (as_ok m), PutText (as_code m), PutText (as_detail m),
      PutBlob (map byte_of_char (as_body m))]"

definition take_AdminResponse :: "(string, AdminResponseMessage) reader" where
  "take_AdminResponse =
     rbind read_bool (\<lambda>ok. rbind (reader_text kMaxNameLength) (\<lambda>code.
     rbind (reader_text kMaxTextLength) (\<lambda>detail. rbind take_document (\<lambda>body. 
     rreturn
       \<lparr>as_ok = ok, as_code = code, as_detail = detail, as_body = body\<rparr>))))"

definition sendable_AdminResponse :: "AdminResponseMessage \<Rightarrow> bool" where
  "sendable_AdminResponse m \<longleftrightarrow>
     length (as_code m) \<le> kMaxNameLength \<and> length (as_detail m) \<le> kMaxTextLength \<and>
     length (as_body m) \<le> kMaxBlobBytes"

record ShutdownRequestMessage =
  sh_reason :: string

definition put_ShutdownRequest :: "ShutdownRequestMessage \<Rightarrow> WriterCall list" where
  "put_ShutdownRequest m =
     [PutText (sh_reason m)]"

definition take_ShutdownRequest :: "(string, ShutdownRequestMessage) reader" where
  "take_ShutdownRequest =
     rbind (reader_text kMaxTextLength) (\<lambda>reason. 
     rreturn
       \<lparr>sh_reason = reason\<rparr>)"

definition sendable_ShutdownRequest :: "ShutdownRequestMessage \<Rightarrow> bool" where
  "sendable_ShutdownRequest m \<longleftrightarrow>
     length (sh_reason m) \<le> kMaxTextLength"

record FenceMessage =
  fe_domain :: u64
  fe_boot :: u64
  fe_reason :: string

definition put_Fence :: "FenceMessage \<Rightarrow> WriterCall list" where
  "put_Fence m =
     [PutU64 (fe_domain m), PutU64 (fe_boot m), PutText (fe_reason m)]"

definition take_Fence :: "(string, FenceMessage) reader" where
  "take_Fence =
     rbind reader_u64 (\<lambda>domain. rbind reader_u64 (\<lambda>boot.
     rbind (reader_text kMaxTextLength) (\<lambda>reason. 
     rreturn
       \<lparr>fe_domain = domain, fe_boot = boot, fe_reason = reason\<rparr>)))"

definition sendable_Fence :: "FenceMessage \<Rightarrow> bool" where
  "sendable_Fence m \<longleftrightarrow>
     length (fe_reason m) \<le> kMaxTextLength"

section \<open>The messages together\<close>

datatype WireMessage =
    HelloMsg HelloMessage
  | HelloAckMsg HelloAckMessage
  | ErrorMsg ErrorMessage
  | GoodbyeMsg GoodbyeMessage
  | DomainPublishMsg DomainPublishMessage
  | CapabilityPublishMsg CapabilityPublishMessage
  | LoadUpdateMsg LoadUpdateMessage
  | HeartbeatMsg HeartbeatMessage
  | DispatchRequestMsg DispatchRequestMessage
  | DispatchAcceptedMsg DispatchAcceptedMessage
  | DispatchRejectedMsg DispatchRejectedMessage
  | CompletionMsg CompletionMessage
  | FailureReportMsg FailureReportMessage
  | CancelRequestMsg CancelRequestMessage
  | CancelResultMsg CancelResultMessage
  | CompletionAckMsg CompletionAckMessage
  | SubmitRequestMsg SubmitRequestMessage
  | SubmitResponseMsg SubmitResponseMessage
  | QueryRequestMsg QueryRequestMessage
  | QueryResponseMsg QueryResponseMessage
  | AdminRequestMsg AdminRequestMessage
  | AdminResponseMsg AdminResponseMessage
  | ShutdownRequestMsg ShutdownRequestMessage
  | FenceMsg FenceMessage

fun message_type :: "WireMessage \<Rightarrow> MessageType" where
  "message_type (HelloMsg _) = MessageType.kHello"
| "message_type (HelloAckMsg _) = MessageType.kHelloAck"
| "message_type (ErrorMsg _) = MessageType.kError"
| "message_type (GoodbyeMsg _) = MessageType.kGoodbye"
| "message_type (DomainPublishMsg _) = MessageType.kDomainPublish"
| "message_type (CapabilityPublishMsg _) = MessageType.kCapabilityPublish"
| "message_type (LoadUpdateMsg _) = MessageType.kLoadUpdate"
| "message_type (HeartbeatMsg _) = MessageType.kHeartbeat"
| "message_type (DispatchRequestMsg _) = MessageType.kDispatchRequest"
| "message_type (DispatchAcceptedMsg _) = MessageType.kDispatchAccepted"
| "message_type (DispatchRejectedMsg _) = MessageType.kDispatchRejected"
| "message_type (CompletionMsg _) = MessageType.kCompletion"
| "message_type (FailureReportMsg _) = MessageType.kFailureReport"
| "message_type (CancelRequestMsg _) = MessageType.kCancelRequest"
| "message_type (CancelResultMsg _) = MessageType.kCancelResult"
| "message_type (CompletionAckMsg _) = MessageType.kCompletionAck"
| "message_type (SubmitRequestMsg _) = MessageType.kSubmitRequest"
| "message_type (SubmitResponseMsg _) = MessageType.kSubmitResponse"
| "message_type (QueryRequestMsg _) = MessageType.kQueryRequest"
| "message_type (QueryResponseMsg _) = MessageType.kQueryResponse"
| "message_type (AdminRequestMsg _) = MessageType.kAdminRequest"
| "message_type (AdminResponseMsg _) = MessageType.kAdminResponse"
| "message_type (ShutdownRequestMsg _) = MessageType.kShutdownRequest"
| "message_type (FenceMsg _) = MessageType.kFence"

fun message_calls :: "WireMessage \<Rightarrow> WriterCall list" where
  "message_calls (HelloMsg m) = put_Hello m"
| "message_calls (HelloAckMsg m) = put_HelloAck m"
| "message_calls (ErrorMsg m) = put_Error m"
| "message_calls (GoodbyeMsg m) = put_Goodbye m"
| "message_calls (DomainPublishMsg m) = put_DomainPublish m"
| "message_calls (CapabilityPublishMsg m) = put_CapabilityPublish m"
| "message_calls (LoadUpdateMsg m) = put_LoadUpdate m"
| "message_calls (HeartbeatMsg m) = put_Heartbeat m"
| "message_calls (DispatchRequestMsg m) = put_DispatchRequest m"
| "message_calls (DispatchAcceptedMsg m) = put_DispatchAccepted m"
| "message_calls (DispatchRejectedMsg m) = put_DispatchRejected m"
| "message_calls (CompletionMsg m) = put_Completion m"
| "message_calls (FailureReportMsg m) = put_FailureReport m"
| "message_calls (CancelRequestMsg m) = put_CancelRequest m"
| "message_calls (CancelResultMsg m) = put_CancelResult m"
| "message_calls (CompletionAckMsg m) = put_CompletionAck m"
| "message_calls (SubmitRequestMsg m) = put_SubmitRequest m"
| "message_calls (SubmitResponseMsg m) = put_SubmitResponse m"
| "message_calls (QueryRequestMsg m) = put_QueryRequest m"
| "message_calls (QueryResponseMsg m) = put_QueryResponse m"
| "message_calls (AdminRequestMsg m) = put_AdminRequest m"
| "message_calls (AdminResponseMsg m) = put_AdminResponse m"
| "message_calls (ShutdownRequestMsg m) = put_ShutdownRequest m"
| "message_calls (FenceMsg m) = put_Fence m"

text \<open>A decoder accepts when its reads succeed and nothing is left: \<^verbatim>\<open>reader.at_end()\<close>.\<close>

definition decoded :: "('a \<Rightarrow> WireMessage) \<Rightarrow> (string, 'a) reader \<Rightarrow> u8 list \<Rightarrow> WireMessage option" where
  "decoded message r payload =
     (case r payload of Inl _ \<Rightarrow> None | Inr (m, rest) \<Rightarrow> if rest = [] then Some (message m) else None)"

fun decode_message :: "MessageType \<Rightarrow> u8 list \<Rightarrow> WireMessage option" where
  "decode_message MessageType.kHello payload = decoded HelloMsg take_Hello payload"
| "decode_message MessageType.kHelloAck payload = decoded HelloAckMsg take_HelloAck payload"
| "decode_message MessageType.kError payload = decoded ErrorMsg take_Error payload"
| "decode_message MessageType.kGoodbye payload = decoded GoodbyeMsg take_Goodbye payload"
| "decode_message MessageType.kDomainPublish payload = decoded DomainPublishMsg take_DomainPublish payload"
| "decode_message MessageType.kCapabilityPublish payload = decoded CapabilityPublishMsg take_CapabilityPublish payload"
| "decode_message MessageType.kLoadUpdate payload = decoded LoadUpdateMsg take_LoadUpdate payload"
| "decode_message MessageType.kHeartbeat payload = decoded HeartbeatMsg take_Heartbeat payload"
| "decode_message MessageType.kDispatchRequest payload = decoded DispatchRequestMsg take_DispatchRequest payload"
| "decode_message MessageType.kDispatchAccepted payload = decoded DispatchAcceptedMsg take_DispatchAccepted payload"
| "decode_message MessageType.kDispatchRejected payload = decoded DispatchRejectedMsg take_DispatchRejected payload"
| "decode_message MessageType.kCompletion payload = decoded CompletionMsg take_Completion payload"
| "decode_message MessageType.kFailureReport payload = decoded FailureReportMsg take_FailureReport payload"
| "decode_message MessageType.kCancelRequest payload = decoded CancelRequestMsg take_CancelRequest payload"
| "decode_message MessageType.kCancelResult payload = decoded CancelResultMsg take_CancelResult payload"
| "decode_message MessageType.kCompletionAck payload = decoded CompletionAckMsg take_CompletionAck payload"
| "decode_message MessageType.kSubmitRequest payload = decoded SubmitRequestMsg take_SubmitRequest payload"
| "decode_message MessageType.kSubmitResponse payload = decoded SubmitResponseMsg take_SubmitResponse payload"
| "decode_message MessageType.kQueryRequest payload = decoded QueryRequestMsg take_QueryRequest payload"
| "decode_message MessageType.kQueryResponse payload = decoded QueryResponseMsg take_QueryResponse payload"
| "decode_message MessageType.kAdminRequest payload = decoded AdminRequestMsg take_AdminRequest payload"
| "decode_message MessageType.kAdminResponse payload = decoded AdminResponseMsg take_AdminResponse payload"
| "decode_message MessageType.kShutdownRequest payload = decoded ShutdownRequestMsg take_ShutdownRequest payload"
| "decode_message MessageType.kFence payload = decoded FenceMsg take_Fence payload"
| "decode_message (kUnlisted _) payload = None"

fun sendable_message :: "WireMessage \<Rightarrow> bool" where
  "sendable_message (HelloMsg m) = sendable_Hello m"
| "sendable_message (HelloAckMsg m) = sendable_HelloAck m"
| "sendable_message (ErrorMsg m) = sendable_Error m"
| "sendable_message (GoodbyeMsg m) = sendable_Goodbye m"
| "sendable_message (DomainPublishMsg m) = sendable_DomainPublish m"
| "sendable_message (CapabilityPublishMsg m) = sendable_CapabilityPublish m"
| "sendable_message (LoadUpdateMsg m) = sendable_LoadUpdate m"
| "sendable_message (HeartbeatMsg m) = True"
| "sendable_message (DispatchRequestMsg m) = sendable_DispatchRequest m"
| "sendable_message (DispatchAcceptedMsg m) = True"
| "sendable_message (DispatchRejectedMsg m) = sendable_DispatchRejected m"
| "sendable_message (CompletionMsg m) = sendable_Completion m"
| "sendable_message (FailureReportMsg m) = sendable_FailureReport m"
| "sendable_message (CancelRequestMsg m) = True"
| "sendable_message (CancelResultMsg m) = sendable_CancelResult m"
| "sendable_message (CompletionAckMsg m) = sendable_CompletionAck m"
| "sendable_message (SubmitRequestMsg m) = sendable_SubmitRequest m"
| "sendable_message (SubmitResponseMsg m) = sendable_SubmitResponse m"
| "sendable_message (QueryRequestMsg m) = True"
| "sendable_message (QueryResponseMsg m) = sendable_QueryResponse m"
| "sendable_message (AdminRequestMsg m) = sendable_AdminRequest m"
| "sendable_message (AdminResponseMsg m) = sendable_AdminResponse m"
| "sendable_message (ShutdownRequestMsg m) = sendable_ShutdownRequest m"
| "sendable_message (FenceMsg m) = sendable_Fence m"

text \<open>What the receiver gets: a domain without its load evidence, a completion with printable detail.\<close>

fun wire_message :: "WireMessage \<Rightarrow> WireMessage" where
  "wire_message (DomainPublishMsg m) = DomainPublishMsg (m\<lparr>dp_record := durable_domain (dp_record m)\<rparr>)"
| "wire_message (CompletionMsg m) = CompletionMsg (m\<lparr>cl_submission := wire_submission (cl_submission m)\<rparr>)"
| "wire_message w = w"

definition encode_message :: "WireMessage \<Rightarrow> u8 list" where
  "encode_message w = bw_data (put_calls (new_writer kMaxBlobBytes) (message_calls w))"

definition send_message :: "WireMessage \<Rightarrow> nat \<Rightarrow> u8 list Checked" where
  "send_message w max_frame = encode_frame (message_type w) (encode_message w) max_frame"

definition receive_message :: "u8 list \<Rightarrow> nat \<Rightarrow> WireMessage option" where
  "receive_message data max_frame =
     (case decode_frame data max_frame of
        Bad _ \<Rightarrow> None
      | Good frame \<Rightarrow> decode_message (fm_type frame) (fm_payload frame))"

section \<open>Encoders and decoders agree\<close>

lemma enumerates_messages:
  "enumerates ord_PeerRole all_PeerRole"
  "enumerates ord_QueryKind all_QueryKind"
  "enumerates ord_AdminAction all_AdminAction"
  "enumerates ord_CompletionRejection all_CompletionRejection"
  "enumerates ord_SelectionOutcome all_SelectionOutcome"
  "enumerates ord_DispatchRejection all_DispatchRejection"
proof -
  show "enumerates ord_PeerRole all_PeerRole"
    unfolding enumerates_def by (intro conjI allI) (simp add: all_PeerRole_def, (case_tac x; simp add: all_PeerRole_def)+)
  show "enumerates ord_QueryKind all_QueryKind"
    unfolding enumerates_def by (intro conjI allI) (simp add: all_QueryKind_def, (case_tac x; simp add: all_QueryKind_def)+)
  show "enumerates ord_AdminAction all_AdminAction"
    unfolding enumerates_def by (intro conjI allI) (simp add: all_AdminAction_def, (case_tac x; simp add: all_AdminAction_def)+)
  show "enumerates ord_CompletionRejection all_CompletionRejection"
    unfolding enumerates_def by (intro conjI allI) (simp add: all_CompletionRejection_def, (case_tac x; simp add: all_CompletionRejection_def)+)
  show "enumerates ord_SelectionOutcome all_SelectionOutcome"
    unfolding enumerates_def by (intro conjI allI) (simp add: all_SelectionOutcome_def, (case_tac x; simp add: all_SelectionOutcome_def)+)
  show "enumerates ord_DispatchRejection all_DispatchRejection"
    unfolding enumerates_def by (intro conjI allI) (simp add: all_DispatchRejection_def, (case_tac x; simp add: all_DispatchRejection_def)+)
qed

lemma last_message_enumerators:
  "ord_PeerRole x1 \<le> ord_PeerRole PeerRole.kCoordinator"
  "ord_QueryKind x2 \<le> ord_QueryKind QueryKind.kOperation"
  "ord_AdminAction x3 \<le> ord_AdminAction AdminAction.kShutdownCoordinator"
  "ord_SelectionOutcome x4 \<le> ord_SelectionOutcome SelectionOutcome.kCancelled"
  "ord_DispatchRejection x5 \<le> ord_DispatchRejection DispatchRejection.kCapacityExhausted"
  "ord_AttemptState x6 \<le> ord_AttemptState AttemptState.kFenced"
proof -
  show "ord_PeerRole x1 \<le> ord_PeerRole PeerRole.kCoordinator" by (cases x1) simp_all
  show "ord_QueryKind x2 \<le> ord_QueryKind QueryKind.kOperation" by (cases x2) simp_all
  show "ord_AdminAction x3 \<le> ord_AdminAction AdminAction.kShutdownCoordinator" by (cases x3) simp_all
  show "ord_SelectionOutcome x4 \<le> ord_SelectionOutcome SelectionOutcome.kCancelled" by (cases x4) simp_all
  show "ord_DispatchRejection x5 \<le> ord_DispatchRejection DispatchRejection.kCapacityExhausted" by (cases x5) simp_all
  show "ord_AttemptState x6 \<le> ord_AttemptState AttemptState.kFenced" by (cases x6) simp_all
qed

lemmas rbind_take_message_enums [simp] =
  rbind_take_enum [OF enumerates_messages(1) last_message_enumerators(1)]
  rbind_take_enum [OF enumerates_messages(2) last_message_enumerators(2)]
  rbind_take_enum [OF enumerates_messages(3) last_message_enumerators(3)]
  rbind_take_enum [OF enumerates_messages(5) last_message_enumerators(4)]
  rbind_take_enum [OF enumerates_messages(6) last_message_enumerators(5)]
  rbind_take_enum [OF enumerates_enums(6) last_message_enumerators(6)]

text \<open>The bound of the acknowledgement's decoder is not the last enumerator.\<close>

lemma ack_rejection_bound:
  "ord_CompletionRejection r \<le> ord_CompletionRejection CompletionRejection.kProvenanceMismatch
     \<longleftrightarrow> r \<noteq> CompletionRejection.kStaleCapabilityGeneration"
  by (cases r) simp_all

lemma rbind_take_rejection [simp]:
  "r \<noteq> CompletionRejection.kStaleCapabilityGeneration \<Longrightarrow>
     rbind (take_enum ord_CompletionRejection CompletionRejection.kProvenanceMismatch all_CompletionRejection) k
       (call_bytes (put_enum ord_CompletionRejection r) @ rest) = k r rest"
  by (intro rbind_Inr take_enum_put enumerates_messages) (simp add: ack_rejection_bound del: ord_CompletionRejection.simps)

lemma rbind_take_document [simp]:
  "length s \<le> kMaxBlobBytes \<Longrightarrow>
     rbind take_document k (call_bytes (PutBlob (map byte_of_char s)) @ rest) = k s rest"
  by (simp add: take_document_def rbind_assoc o_def)

interpretation capability_record_codec: codec put_capability_record take_capability_record id sendable_capability_record
  by unfold_locales
     (simp add: put_capability_record_def take_capability_record_def sendable_capability_record_def
       capability_codec.rbind_encoded)

interpretation load_codec: codec put_load take_load id sendable_load
proof
  fix l :: DomainLoadEvidence and rest
  assume "sendable_load l"
  then have "(100 < ld_utilization_percent l) = False" "(100 < ld_congestion_percent l) = False"
    by (simp_all add: sendable_load_def not_less)
  then show "take_load (calls_bytes (put_load l) @ rest) = Inr (id l, rest)"
    by (simp add: put_load_def take_load_def)
qed

interpretation cancel_envelope_codec: codec put_cancel_envelope take_cancel_envelope id "\<lambda>_. True"
  by unfold_locales (simp add: put_cancel_envelope_def take_cancel_envelope_def)

lemmas part_codecs =
  domain_codec.rbind_encoded capability_record_codec.rbind_encoded load_codec.rbind_encoded
  envelope_codec.rbind_encoded submission_codec.rbind_encoded cancel_envelope_codec.rbind_encoded
  request_codec.rbind_encoded blob_bounds kMaxTextLength_ge

interpretation hello_message: codec put_Hello take_Hello id sendable_Hello
  by unfold_locales (simp add: put_Hello_def take_Hello_def sendable_Hello_def part_codecs)

interpretation hello_ack_message: codec put_HelloAck take_HelloAck id sendable_HelloAck
  by unfold_locales (simp add: put_HelloAck_def take_HelloAck_def sendable_HelloAck_def part_codecs)

interpretation error_message: codec put_Error take_Error id sendable_Error
  by unfold_locales (simp add: put_Error_def take_Error_def sendable_Error_def part_codecs)

interpretation goodbye_message: codec put_Goodbye take_Goodbye id sendable_Goodbye
  by unfold_locales (simp add: put_Goodbye_def take_Goodbye_def sendable_Goodbye_def part_codecs)

interpretation domain_publish_message: codec put_DomainPublish take_DomainPublish "\<lambda>m. m\<lparr>dp_record := durable_domain (dp_record m)\<rparr>" sendable_DomainPublish
  by unfold_locales (simp add: put_DomainPublish_def take_DomainPublish_def sendable_DomainPublish_def part_codecs)

interpretation capability_publish_message: codec put_CapabilityPublish take_CapabilityPublish id sendable_CapabilityPublish
  by unfold_locales (simp add: put_CapabilityPublish_def take_CapabilityPublish_def sendable_CapabilityPublish_def part_codecs)

interpretation load_update_message: codec put_LoadUpdate take_LoadUpdate id sendable_LoadUpdate
  by unfold_locales (simp add: put_LoadUpdate_def take_LoadUpdate_def sendable_LoadUpdate_def part_codecs)

interpretation heartbeat_message: codec put_Heartbeat take_Heartbeat id "\<lambda>_. True"
  by unfold_locales (simp add: put_Heartbeat_def take_Heartbeat_def part_codecs)

interpretation dispatch_request_message: codec put_DispatchRequest take_DispatchRequest id sendable_DispatchRequest
  by unfold_locales (simp add: put_DispatchRequest_def take_DispatchRequest_def sendable_DispatchRequest_def part_codecs)

interpretation dispatch_accepted_message: codec put_DispatchAccepted take_DispatchAccepted id "\<lambda>_. True"
  by unfold_locales (simp add: put_DispatchAccepted_def take_DispatchAccepted_def part_codecs)

interpretation dispatch_rejected_message: codec put_DispatchRejected take_DispatchRejected id sendable_DispatchRejected
  by unfold_locales (simp add: put_DispatchRejected_def take_DispatchRejected_def sendable_DispatchRejected_def part_codecs)

interpretation completion_message: codec put_Completion take_Completion "\<lambda>m. m\<lparr>cl_submission := wire_submission (cl_submission m)\<rparr>" sendable_Completion
  by unfold_locales (simp add: put_Completion_def take_Completion_def sendable_Completion_def part_codecs)

interpretation failure_report_message: codec put_FailureReport take_FailureReport id sendable_FailureReport
  by unfold_locales (simp add: put_FailureReport_def take_FailureReport_def sendable_FailureReport_def part_codecs)

interpretation cancel_request_message: codec put_CancelRequest take_CancelRequest id "\<lambda>_. True"
  by unfold_locales (simp add: put_CancelRequest_def take_CancelRequest_def part_codecs)

interpretation cancel_result_message: codec put_CancelResult take_CancelResult id sendable_CancelResult
  by unfold_locales (simp add: put_CancelResult_def take_CancelResult_def sendable_CancelResult_def part_codecs)

interpretation completion_ack_message: codec put_CompletionAck take_CompletionAck id sendable_CompletionAck
  by unfold_locales (simp add: put_CompletionAck_def take_CompletionAck_def sendable_CompletionAck_def part_codecs)

interpretation submit_request_message: codec put_SubmitRequest take_SubmitRequest id sendable_SubmitRequest
  by unfold_locales (simp add: put_SubmitRequest_def take_SubmitRequest_def sendable_SubmitRequest_def part_codecs)

interpretation submit_response_message: codec put_SubmitResponse take_SubmitResponse id sendable_SubmitResponse
  by unfold_locales (simp add: put_SubmitResponse_def take_SubmitResponse_def sendable_SubmitResponse_def part_codecs)

interpretation query_request_message: codec put_QueryRequest take_QueryRequest id "\<lambda>_. True"
  by unfold_locales (simp add: put_QueryRequest_def take_QueryRequest_def part_codecs)

interpretation query_response_message: codec put_QueryResponse take_QueryResponse id sendable_QueryResponse
  by unfold_locales (simp add: put_QueryResponse_def take_QueryResponse_def sendable_QueryResponse_def part_codecs)

interpretation admin_request_message: codec put_AdminRequest take_AdminRequest id sendable_AdminRequest
  by unfold_locales (simp add: put_AdminRequest_def take_AdminRequest_def sendable_AdminRequest_def part_codecs)

interpretation admin_response_message: codec put_AdminResponse take_AdminResponse id sendable_AdminResponse
  by unfold_locales (simp add: put_AdminResponse_def take_AdminResponse_def sendable_AdminResponse_def part_codecs)

interpretation shutdown_request_message: codec put_ShutdownRequest take_ShutdownRequest id sendable_ShutdownRequest
  by unfold_locales (simp add: put_ShutdownRequest_def take_ShutdownRequest_def sendable_ShutdownRequest_def part_codecs)

interpretation fence_message: codec put_Fence take_Fence id sendable_Fence
  by unfold_locales (simp add: put_Fence_def take_Fence_def sendable_Fence_def part_codecs)

lemmas message_round_trips =
  hello_message.round_trip [where rest = "[]"]
  hello_ack_message.round_trip [where rest = "[]"]
  error_message.round_trip [where rest = "[]"]
  goodbye_message.round_trip [where rest = "[]"]
  domain_publish_message.round_trip [where rest = "[]"]
  capability_publish_message.round_trip [where rest = "[]"]
  load_update_message.round_trip [where rest = "[]"]
  heartbeat_message.round_trip [where rest = "[]"]
  dispatch_request_message.round_trip [where rest = "[]"]
  dispatch_accepted_message.round_trip [where rest = "[]"]
  dispatch_rejected_message.round_trip [where rest = "[]"]
  completion_message.round_trip [where rest = "[]"]
  failure_report_message.round_trip [where rest = "[]"]
  cancel_request_message.round_trip [where rest = "[]"]
  cancel_result_message.round_trip [where rest = "[]"]
  completion_ack_message.round_trip [where rest = "[]"]
  submit_request_message.round_trip [where rest = "[]"]
  submit_response_message.round_trip [where rest = "[]"]
  query_request_message.round_trip [where rest = "[]"]
  query_response_message.round_trip [where rest = "[]"]
  admin_request_message.round_trip [where rest = "[]"]
  admin_response_message.round_trip [where rest = "[]"]
  shutdown_request_message.round_trip [where rest = "[]"]
  fence_message.round_trip [where rest = "[]"]

lemma message_decodes:
  "sendable_message w \<Longrightarrow> decode_message (message_type w) (calls_bytes (message_calls w)) = Some (wire_message w)"
  using message_round_trips by (cases w) (simp_all add: decoded_def)

lemma message_calls_fit:
  assumes "sendable_message w"
  shows "list_all call_fits (message_calls w)"
proof (cases w)
  case (DomainPublishMsg m)
  with assms show ?thesis by (simp add: put_DomainPublish_def sendable_DomainPublish_def write_domain_fits)
next
  case (CapabilityPublishMsg m)
  with assms show ?thesis
    by (simp add: put_CapabilityPublish_def sendable_CapabilityPublish_def sendable_capability_record_def
        put_capability_record_def write_capability_fits)
next
  case (SubmitRequestMsg m)
  with assms show ?thesis
    by (auto simp: put_SubmitRequest_def sendable_SubmitRequest_def put_operation_request_def sendable_request_def
        put_payload_descriptor_def put_types_def list_all_iff put_locality_def put_compatibility_def
        put_optional_def put_economics_def kMaxTextLength_ge blob_bounds split: option.splits)
next
  case (DispatchRequestMsg m)
  with assms show ?thesis
    by (simp add: put_DispatchRequest_def sendable_DispatchRequest_def put_dispatch_envelope_def sendable_envelope_def
        put_payload_descriptor_def blob_bounds)
qed (use assms in \<open>simp_all add: put_Hello_def sendable_Hello_def put_HelloAck_def sendable_HelloAck_def
  put_Error_def sendable_Error_def put_Goodbye_def sendable_Goodbye_def put_LoadUpdate_def put_load_def
  put_Heartbeat_def put_DispatchAccepted_def put_DispatchRejected_def sendable_DispatchRejected_def
  put_Completion_def sendable_Completion_def put_completion_submission_def sendable_submission_def
  put_FailureReport_def sendable_FailureReport_def put_CancelRequest_def put_cancel_envelope_def
  put_CancelResult_def sendable_CancelResult_def put_CompletionAck_def put_SubmitResponse_def
  sendable_SubmitResponse_def put_QueryRequest_def put_QueryResponse_def sendable_QueryResponse_def
  put_AdminRequest_def sendable_AdminRequest_def put_AdminResponse_def sendable_AdminResponse_def
  put_ShutdownRequest_def sendable_ShutdownRequest_def put_Fence_def sendable_Fence_def kMaxTextLength_ge\<close>)

lemma encode_message_eq:
  assumes "sendable_message w" and "length (calls_bytes (message_calls w)) \<le> kMaxBlobBytes"
  shows "encode_message w = calls_bytes (message_calls w)"
  using assms message_calls_fit [OF assms(1)] unfolding encode_message_def
  by (subst put_calls_ok) (simp_all add: new_writer_def)

section \<open>What a decoder accepts\<close>

text \<open>Every value a reader returns satisfies a predicate; one rule for each way to build a reader.\<close>

definition yields :: "('e, 'a) reader \<Rightarrow> ('a \<Rightarrow> bool) \<Rightarrow> bool" where
  "yields r P \<longleftrightarrow> (\<forall>bs x rest. r bs = Inr (x, rest) \<longrightarrow> P x)"

lemma yieldsD: "yields r P \<Longrightarrow> r bs = Inr (x, rest) \<Longrightarrow> P x"
  unfolding yields_def by blast

lemma yields_bind: "yields r Q \<Longrightarrow> (\<And>x. Q x \<Longrightarrow> yields (k x) P) \<Longrightarrow> yields (rbind r k) P"
  by (fastforce simp: yields_def rbind_def split: sum.splits prod.splits)

lemma yields_skip: "(\<And>x. yields (k x) P) \<Longrightarrow> yields (rbind r k) P"
  by (rule yields_bind [where Q = "\<lambda>_. True"]) (simp_all add: yields_def)

lemma yields_return: "P x \<Longrightarrow> yields (rreturn x) P"
  by (simp add: yields_def)

lemma yields_guard: "(\<not> c \<Longrightarrow> yields r P) \<Longrightarrow> yields (rguard c e r) P"
  by (auto simp: yields_def rguard_def rfail_def)

lemma yields_raw: "yields (reader_raw n) (\<lambda>bs. length bs = n)"
  by (auto simp: yields_def reader_raw_def)

lemma yields_text: "yields (reader_text n) (\<lambda>s. length s \<le> n)"
  unfolding reader_text_def by (rule yields_skip, rule yields_guard, rule yields_bind [OF yields_raw], rule yields_return) simp

lemma yields_blob: "yields (reader_blob n) (\<lambda>bs. length bs \<le> n)"
  unfolding reader_blob_def by (rule yields_skip, rule yields_guard) (use yields_raw in \<open>fastforce simp: yields_def\<close>)

lemma yields_document: "yields take_document (\<lambda>s. length s \<le> kMaxBlobBytes)"
  unfolding take_document_def by (rule yields_bind [OF yields_blob], rule yields_return) simp

lemma yields_list: "yields (read_list n r) (\<lambda>xs. length xs = n)"
proof (induction n)
  case (Suc n)
  then show ?case
    unfolding read_list.simps by (intro yields_skip yields_bind [OF Suc.IH] yields_return) simp
qed (simp add: yields_def)

lemma yields_counted: "yields (take_counted limit r) (\<lambda>xs. length xs \<le> limit)"
  unfolding take_counted_def by (rule yields_skip, rule yields_guard) (use yields_list in \<open>fastforce simp: yields_def\<close>)

lemmas yields_parts = yields_bind [OF yields_text] yields_bind [OF yields_blob] yields_bind [OF yields_document]
  yields_bind [OF yields_counted]

lemma yields_payload: "yields take_payload_descriptor sendable_payload"
  unfolding take_payload_descriptor_def
  by (rule yields_skip | rule yields_guard | rule yields_return)+ (simp add: sendable_payload_def)

lemma yields_compatibility: "yields take_compatibility (\<lambda>c. length (cr_required_backend_family c) \<le> kMaxNameLength)"
  unfolding take_compatibility_def by (rule yields_parts yields_return | rule yields_skip)+ simp

lemma yields_envelope: "yields take_dispatch_envelope sendable_envelope"
  unfolding take_dispatch_envelope_def
  by (rule yields_parts yields_bind [OF yields_payload] yields_guard yields_return | rule yields_skip)+
     (simp add: sendable_envelope_def)

lemma yields_submission: "yields take_completion_submission sendable_submission"
  unfolding take_completion_submission_def
  by (rule yields_guard yields_return | rule yields_skip)+ (simp add: sendable_submission_def)

lemma yields_request: "yields take_operation_request sendable_request"
  unfolding take_operation_request_def
  by (rule yields_parts yields_bind [OF yields_payload] yields_bind [OF yields_compatibility] yields_guard
        yields_return | rule yields_skip)+
     (simp add: sendable_request_def not_less)

lemma yields_operations:
  "yields (read_operations n previous) (\<lambda>xs. length xs = n \<and> list_all valid xs \<and> sorted_wrt (<) xs
     \<and> (\<forall>p. previous = Some p \<longrightarrow> (\<forall>x \<in> set xs. p < x)))"
proof (induction n arbitrary: previous)
  case (Suc n)
  show ?case
    unfolding read_operations.simps
    by (rule yields_skip, rule yields_guard, rule yields_guard, rule yields_bind [OF Suc.IH], rule yields_return)
       (force simp: not_le split: option.splits)
qed (simp add: yields_def)

lemma yields_capability: "yields read_capability storable_capability"
  unfolding read_capability_def
  by (rule yields_parts yields_bind [OF yields_operations] yields_guard yields_return | rule yields_skip)+
     (simp add: storable_capability_def)

lemma yields_capability_record: "yields take_capability_record sendable_capability_record"
  unfolding take_capability_record_def
  by (rule yields_bind [OF yields_capability] yields_return | rule yields_skip)+
     (simp add: sendable_capability_record_def)

lemma yields_load: "yields take_load sendable_load"
  unfolding take_load_def by (rule yields_guard yields_return | rule yields_skip)+ (simp add: sendable_load_def not_less)

lemma yields_topology:
  "yields read_topology (\<lambda>t. length (to_host_node t) \<le> kMaxLabelLength \<and> length (to_fabric t) \<le> kMaxLabelLength)"
  unfolding read_topology_def by (rule yields_parts yields_return | rule yields_skip)+ simp

lemma yields_domain_compatibility:
  "yields read_compatibility (\<lambda>c. length (cm_backend_family c) \<le> kMaxNameLength)"
  unfolding read_compatibility_def by (rule yields_parts yields_return | rule yields_skip)+ simp

lemma yields_domain: "yields read_domain (\<lambda>d. storable_domain d \<and> dr_load d = no_load)"
  unfolding read_domain_def
  by (rule yields_parts yields_bind [OF yields_capability] yields_bind [OF yields_topology]
        yields_bind [OF yields_domain_compatibility] yields_return | rule yields_skip)+
     (simp add: storable_domain_def)

lemma yields_rejection:
  "yields (take_enum ord_CompletionRejection CompletionRejection.kProvenanceMismatch all_CompletionRejection)
     (\<lambda>r. r \<noteq> CompletionRejection.kStaleCapabilityGeneration)"
  unfolding take_enum_def
proof (rule yields_skip, rule yields_guard, rule yields_return)
  fix raw :: u8
  assume "\<not> raw > of_nat (ord_CompletionRejection CompletionRejection.kProvenanceMismatch)"
  then have "unat raw < 16" by (simp add: word_less_nat_alt not_less)
  then show "all_CompletionRejection ! unat raw \<noteq> CompletionRejection.kStaleCapabilityGeneration"
    by (auto simp: all_CompletionRejection_def nth_Cons')
qed

lemmas yields_messages = yields_bind [OF yields_domain] yields_bind [OF yields_capability_record]
  yields_bind [OF yields_load] yields_bind [OF yields_envelope] yields_bind [OF yields_submission]
  yields_bind [OF yields_rejection] yields_bind [OF yields_request] yields_return

lemma yields_Hello: "yields take_Hello sendable_Hello"
  unfolding take_Hello_def by (rule yields_parts yields_messages | rule yields_skip)+ (simp add: sendable_Hello_def)

lemma yields_HelloAck: "yields take_HelloAck sendable_HelloAck"
  unfolding take_HelloAck_def by (rule yields_parts yields_messages | rule yields_skip)+ (simp add: sendable_HelloAck_def)

lemma yields_Error: "yields take_Error sendable_Error"
  unfolding take_Error_def by (rule yields_parts yields_messages | rule yields_skip)+ (simp add: sendable_Error_def)

lemma yields_Goodbye: "yields take_Goodbye sendable_Goodbye"
  unfolding take_Goodbye_def by (rule yields_parts yields_messages | rule yields_skip)+ (simp add: sendable_Goodbye_def)

lemma yields_DomainPublish: "yields take_DomainPublish sendable_DomainPublish"
  unfolding take_DomainPublish_def by (rule yields_parts yields_messages | rule yields_skip)+ (simp add: sendable_DomainPublish_def)

lemma yields_CapabilityPublish: "yields take_CapabilityPublish sendable_CapabilityPublish"
  unfolding take_CapabilityPublish_def by (rule yields_parts yields_messages | rule yields_skip)+ (simp add: sendable_CapabilityPublish_def)

lemma yields_LoadUpdate: "yields take_LoadUpdate sendable_LoadUpdate"
  unfolding take_LoadUpdate_def by (rule yields_parts yields_messages | rule yields_skip)+ (simp add: sendable_LoadUpdate_def)

lemma yields_DispatchRequest: "yields take_DispatchRequest sendable_DispatchRequest"
  unfolding take_DispatchRequest_def by (rule yields_parts yields_messages | rule yields_skip)+ (simp add: sendable_DispatchRequest_def)

lemma yields_DispatchRejected: "yields take_DispatchRejected sendable_DispatchRejected"
  unfolding take_DispatchRejected_def by (rule yields_parts yields_messages | rule yields_skip)+ (simp add: sendable_DispatchRejected_def)

lemma yields_Completion: "yields take_Completion sendable_Completion"
  unfolding take_Completion_def by (rule yields_parts yields_messages | rule yields_skip)+ (simp add: sendable_Completion_def)

lemma yields_FailureReport: "yields take_FailureReport sendable_FailureReport"
  unfolding take_FailureReport_def by (rule yields_parts yields_messages | rule yields_skip)+ (simp add: sendable_FailureReport_def)

lemma yields_CancelResult: "yields take_CancelResult sendable_CancelResult"
  unfolding take_CancelResult_def by (rule yields_parts yields_messages | rule yields_skip)+ (simp add: sendable_CancelResult_def)

lemma yields_CompletionAck: "yields take_CompletionAck sendable_CompletionAck"
  unfolding take_CompletionAck_def by (rule yields_parts yields_messages | rule yields_skip)+ (simp add: sendable_CompletionAck_def)

lemma yields_SubmitRequest: "yields take_SubmitRequest sendable_SubmitRequest"
  unfolding take_SubmitRequest_def by (rule yields_parts yields_messages | rule yields_skip)+ (simp add: sendable_SubmitRequest_def)

lemma yields_SubmitResponse: "yields take_SubmitResponse sendable_SubmitResponse"
  unfolding take_SubmitResponse_def by (rule yields_parts yields_messages | rule yields_skip)+ (simp add: sendable_SubmitResponse_def)

lemma yields_QueryResponse: "yields take_QueryResponse sendable_QueryResponse"
  unfolding take_QueryResponse_def by (rule yields_parts yields_messages | rule yields_skip)+ (simp add: sendable_QueryResponse_def)

lemma yields_AdminRequest: "yields take_AdminRequest sendable_AdminRequest"
  unfolding take_AdminRequest_def by (rule yields_parts yields_messages | rule yields_skip)+ (simp add: sendable_AdminRequest_def)

lemma yields_AdminResponse: "yields take_AdminResponse sendable_AdminResponse"
  unfolding take_AdminResponse_def by (rule yields_parts yields_messages | rule yields_skip)+ (simp add: sendable_AdminResponse_def)

lemma yields_ShutdownRequest: "yields take_ShutdownRequest sendable_ShutdownRequest"
  unfolding take_ShutdownRequest_def by (rule yields_parts yields_messages | rule yields_skip)+ (simp add: sendable_ShutdownRequest_def)

lemma yields_Fence: "yields take_Fence sendable_Fence"
  unfolding take_Fence_def by (rule yields_parts yields_messages | rule yields_skip)+ (simp add: sendable_Fence_def)

lemmas yields_all =
  yields_Hello yields_HelloAck yields_Error yields_Goodbye yields_DomainPublish
  yields_CapabilityPublish yields_LoadUpdate yields_DispatchRequest yields_DispatchRejected
  yields_Completion yields_FailureReport yields_CancelResult yields_CompletionAck
  yields_SubmitRequest yields_SubmitResponse yields_QueryResponse yields_AdminRequest
  yields_AdminResponse yields_ShutdownRequest yields_Fence


lemma decoded_Some:
  "decoded message r payload = Some w \<longleftrightarrow> (\<exists>m. r payload = Inr (m, []) \<and> w = message m)"
  by (auto simp: decoded_def split: sum.splits prod.splits if_splits)

lemma decoded_sendable:
  assumes "decode_message t payload = Some w"
  shows "message_type w = t \<and> sendable_message w"
  using assms yields_all [THEN yieldsD, of payload _ "[]"] by (cases t) (auto simp: decoded_Some)

section \<open>Properties\<close>


definition demo_ack :: "CompletionRejection \<Rightarrow> CompletionAckMessage" where
  "demo_ack r = \<lparr>ck_attempt = 7, ck_rejection = r, ck_committed = False, ck_idempotent = False\<rparr>"




text \<open>
  The acknowledgement of a completion refused for a stale capability generation cannot be read.
  The coordinator frames it like any other, but the decoder bounds the reason by
  \<open>kProvenanceMismatch\<close>, which is not the last one, and drops the message; every other reason is
  delivered.
\<close>

theorem stale_capability_ack_is_lost:
  "decode_message MessageType.kCompletionAck (encode_message (CompletionAckMsg m)) =
     (if ck_rejection m = CompletionRejection.kStaleCapabilityGeneration then None else Some (CompletionAckMsg m))"
proof (cases "ck_rejection m = CompletionRejection.kStaleCapabilityGeneration")
  case True
  have "bw_data (put_calls (new_writer kMaxBlobBytes) (put_CompletionAck m)) = calls_bytes (put_CompletionAck m)"
    by (subst put_calls_ok) (simp_all add: new_writer_def put_CompletionAck_def kMaxBlobBytes_def)
  moreover have "take_CompletionAck (calls_bytes (put_CompletionAck m)) = Inl ''protocol.enum_out_of_range''"
    by (simp add: take_CompletionAck_def put_CompletionAck_def True take_enum_def put_enum_def rbind_assoc rfail_def
        rbind_def [of "rfail _"] word_less_nat_alt)
  ultimately show ?thesis using True by (simp add: encode_message_def decoded_def)
next
  case False
  then have "sendable_message (CompletionAckMsg m)" by (simp add: sendable_CompletionAck_def)
  moreover from this have "encode_message (CompletionAckMsg m) = calls_bytes (put_CompletionAck m)"
    by (subst encode_message_eq) (simp_all add: put_CompletionAck_def kMaxBlobBytes_def)
  ultimately show ?thesis using message_decodes [of "CompletionAckMsg m"] False by simp
qed

end
