(* ===== verification/Tos_Stream.thy ===== *)
theory Tos_Stream
  imports Tos_Messages
begin

text \<open>
  Reading one frame from a connection, the sequence that the session loop of the coordinator, the
  worker and the client share: receive the header, check it, receive the body, check the frame. A
  connection is the list of the bytes still to come; \<^verbatim>\<open>recv_exact\<close> fails when the peer closes before
  enough of them arrived.
\<close>

datatype FrameRead =
    Lost
  | HeaderRejected DecodeError "u8 list"
  | FrameRejected Status "u8 list"
  | Arrived Frame "u8 list"

definition read_frame :: "nat \<Rightarrow> u8 list \<Rightarrow> FrameRead" where
  "read_frame max_frame input =
     (if length input < kFrameHeaderBytes then Lost
      else
        let header = take kFrameHeaderBytes input; rest = drop kFrameHeaderBytes input in
        case decode_header header max_frame of
          Inl e \<Rightarrow> HeaderRejected e rest
        | Inr parsed \<Rightarrow>
            let n = unat (fh_length parsed) in
            if length rest < n then Lost
            else case decode_frame (header @ take n rest) max_frame of
                   Bad st \<Rightarrow> FrameRejected st (drop n rest)
                 | Good frame \<Rightarrow> Arrived frame (drop n rest))"

text \<open>\<^verbatim>\<open>decode(payload, message)\<close> with both ways to go on.\<close>

definition decoding :: "(string, 'a) reader \<Rightarrow> u8 list \<Rightarrow> 'b \<Rightarrow> ('a \<Rightarrow> 'b) \<Rightarrow> 'b" where
  "decoding r payload malformed f =
     (case r payload of Inl _ \<Rightarrow> malformed | Inr (m, rest) \<Rightarrow> if rest = [] then f m else malformed)"

lemma decodingI: "P malformed \<Longrightarrow> (\<And>m. P (f m)) \<Longrightarrow> P (decoding r payload malformed f)"
  by (simp add: decoding_def split: sum.split prod.split)

text \<open>A frame that arrives uses up bytes, so a loop over frames ends with the connection.\<close>

lemma read_frame_shorter: "read_frame max_frame input = Arrived frame rest \<Longrightarrow> length rest < length input"
  by (auto simp: read_frame_def Let_def kFrameHeaderBytes_def split: if_splits sum.splits Checked.splits)

lemma decode_header_take:
  "kFrameHeaderBytes \<le> length input \<Longrightarrow>
     decode_header (take kFrameHeaderBytes input) max_frame = decode_header input max_frame"
  by (simp add: decode_header_def header_field_def kFrameHeaderBytes_def drop_take min_def Let_def)

lemma decode_header_append:
  "kFrameHeaderBytes \<le> length bytes \<Longrightarrow> decode_header (bytes @ rest) max_frame = decode_header bytes max_frame"
  using decode_header_take [of "bytes @ rest" max_frame] decode_header_take [of bytes max_frame] by simp

text \<open>A frame that the receiver would accept on its own is read off the front of the stream.\<close>

lemma read_accepted:
  assumes "decode_frame bytes max_frame = Good frame"
  shows "read_frame max_frame (bytes @ rest) = Arrived frame rest"
proof -
  obtain parsed where h: "decode_header bytes max_frame = Inr parsed"
      "length bytes = kFrameHeaderBytes + unat (fh_length parsed)"
    using assms by (auto simp: decode_frame_def Let_def bad_def split: if_splits sum.splits)
  then have n: "kFrameHeaderBytes \<le> length bytes" by simp
  have "take kFrameHeaderBytes (bytes @ rest) @ take (unat (fh_length parsed)) (drop kFrameHeaderBytes (bytes @ rest)) = bytes"
    using h(2) n by (metis append_eq_append_conv_if append_take_drop_id diff_add_inverse take_add take_all_iff
        le_refl append_Nil2 diff_self_eq_0 take_append take0)
  moreover have "drop (unat (fh_length parsed)) (drop kFrameHeaderBytes (bytes @ rest)) = rest"
    using h(2) by (simp add: add.commute)
  ultimately show ?thesis
    using assms h n by (simp add: read_frame_def Let_def decode_header_append [OF n] decode_header_take del: take_append drop_append)
qed

text \<open>A message within its bounds and those of the frame, the bytes sent for it and the frame they hold.\<close>

definition deliverable :: "nat \<Rightarrow> WireMessage \<Rightarrow> bool" where
  "deliverable max_frame w \<longleftrightarrow>
     sendable_message w \<and> kFrameHeaderBytes + length (calls_bytes (message_calls w)) \<le> max_frame
     \<and> max_frame \<le> kMaxBlobBytes"

definition sent_frame :: "WireMessage \<Rightarrow> Frame" where
  "sent_frame w = \<lparr>fm_type = message_type w, fm_flags = 0, fm_payload = calls_bytes (message_calls w)\<rparr>"

definition sent_bytes :: "WireMessage \<Rightarrow> u8 list" where
  "sent_bytes w = frame_bytes (message_type w) (calls_bytes (message_calls w))"

lemma sent_frame_type [simp]: "fm_type (sent_frame w) = message_type w"
  by (simp add: sent_frame_def)

lemma delivered:
  assumes "deliverable max_frame w"
  shows "send_message w max_frame = Good (sent_bytes w)"
    and "read_frame max_frame (sent_bytes w @ rest) = Arrived (sent_frame w) rest"
    and "decode_message (message_type w) (fm_payload (sent_frame w)) = Some (wire_message w)"
proof -
  let ?payload = "calls_bytes (message_calls w)"
  note w = assms [unfolded deliverable_def]
  have e: "encode_message w = ?payload" using w by (intro encode_message_eq) simp_all
  have t: "message_type w \<in> set all_MessageType" by (cases w) (simp_all add: all_MessageType_def)
  show "send_message w max_frame = Good (sent_bytes w)"
    using w by (auto simp: send_message_def e encode_frame_eq kMinFrameBytes_def sent_bytes_def)
  have "length ?payload < 2 ^ 32" using w by (simp add: kMaxBlobBytes_def kFrameHeaderBytes_def)
  then have "decode_frame (sent_bytes w) max_frame = Good (sent_frame w)"
    unfolding sent_bytes_def sent_frame_def using t w by (intro decode_encoded_frame) simp_all
  then show "read_frame max_frame (sent_bytes w @ rest) = Arrived (sent_frame w) rest" by (rule read_accepted)
  show "decode_message (message_type w) (fm_payload (sent_frame w)) = Some (wire_message w)"
    using message_decodes w by (simp add: sent_frame_def)
qed

text \<open>The decoder of the right type yields the message; the other way to go on is not taken.\<close>

lemma delivered_decoding:
  assumes "deliverable max_frame w" and "wire_message w = c m"
    and "decode_message (message_type w) (fm_payload (sent_frame w)) = decoded c r (fm_payload (sent_frame w))"
    and "\<And>m m'. c m = c m' \<Longrightarrow> m = m'"
  shows "decoding r (fm_payload (sent_frame w)) malformed f = f m"
proof -
  have "decoded c r (fm_payload (sent_frame w)) = Some (c m)"
    using delivered(3) [OF assms(1)] assms(2,3) by simp
  then show ?thesis
    using assms(4) by (auto simp: decoded_def decoding_def split: sum.splits prod.splits if_splits)
qed

end
