(* ===== verification/Tos_Coordinator.thy ===== *)
theory Tos_Coordinator
  imports Tos_Durability Tos_Stream Tos_Render
begin

text \<open>
  The coordinator process (\<^verbatim>\<open>src/src/dist/coordinator.cpp\<close>): the scheduler behind a session server. A
  session is a connection with its registered identity and the domains it published. The sockets are
  parameters: the bytes a peer sent are the input of \<open>session_loop\<close>, the answer of \<^verbatim>\<open>send_all\<close> is
  \<open>nw_send\<close>, and the frames handed to the sockets are the outputs of the operations. The frame counters
  of a session are written and never read; they are left out.
\<close>

section \<open>Data\<close>

record CoordinatorConfig =
  cc_bind_host :: string
  cc_port :: u16
  cc_scheduler :: SchedulerOptions
  cc_max_sessions :: nat
  cc_max_frame_bytes :: nat

record SessionView =
  sv_session_id :: u64
  sv_peer :: string
  sv_role :: PeerRole
  sv_name :: string
  sv_worker :: u64
  sv_boot :: u64
  sv_registered :: bool
  sv_closed :: bool

record Session =
  se_id :: u64
  se_max_frame :: nat
  se_closed :: bool
  se_view :: SessionView
  se_domains :: "u64 list"

record Coordinator =
  co_config :: CoordinatorConfig
  co_scheduler :: Scheduler
  co_channel_set :: bool
  co_running :: bool
  co_stopping :: bool
  co_next_session_id :: u64
  co_sessions :: "(u64 \<times> Session) list"
  co_stop_signalled :: bool

text \<open>
  The network as the coordinator meets it: the answer of a send on a session, and the completions
  that other session threads hand to the scheduler while a dispatch is being sent.
\<close>

record Network =
  nw_send :: "u64 \<Rightarrow> u8 list \<Rightarrow> Status"
  nw_arrivals :: "DispatchEnvelope \<Rightarrow> CompletionSubmission list"

type_synonym outgoing = "u64 \<times> u8 list"

text \<open>The ordered map of the sessions: assignment to a key.\<close>

fun session_put :: "u64 \<Rightarrow> Session \<Rightarrow> (u64 \<times> Session) list \<Rightarrow> (u64 \<times> Session) list" where
  "session_put k v [] = [(k, v)]"
| "session_put k v ((k', v') # rest) =
     (if k < k' then (k, v) # (k', v') # rest
      else if k = k' then (k, v) # rest
      else (k', v') # session_put k v rest)"

definition new_coordinator :: "CoordinatorConfig \<Rightarrow> Coordinator" where
  "new_coordinator config =
     \<lparr>co_config = config, co_scheduler = new_scheduler (cc_scheduler config), co_channel_set = False,
      co_running = False, co_stopping = False, co_next_session_id = 0, co_sessions = [],
      co_stop_signalled = False\<rparr>"

definition is_worker :: "Session \<Rightarrow> bool" where
  "is_worker se \<longleftrightarrow> sv_role (se_view se) = PeerRole.kWorker \<and> sv_registered (se_view se)"

section \<open>Sending\<close>

definition send_frame :: "Network \<Rightarrow> Session \<Rightarrow> WireMessage \<Rightarrow> Status" where
  "send_frame nw se w =
     (case send_message w (se_max_frame se) of
        Bad st \<Rightarrow> st
      | Good bytes \<Rightarrow> if se_closed se then failure ''session.closed'' [] else nw_send nw (se_id se) bytes)"

definition emit :: "Session \<Rightarrow> WireMessage \<Rightarrow> outgoing list" where
  "emit se w =
     (case send_message w (se_max_frame se) of
        Bad st \<Rightarrow> []
      | Good bytes \<Rightarrow> if se_closed se then [] else [(se_id se, bytes)])"

definition emit_error :: "Session \<Rightarrow> string \<Rightarrow> string \<Rightarrow> outgoing list" where
  "emit_error se code detail = emit se (ErrorMsg \<lparr>er_code = code, er_detail = detail\<rparr>)"

definition session_close :: "Session \<Rightarrow> Session" where
  "session_close se = se\<lparr>se_closed := True\<rparr>"

definition put_session :: "Coordinator \<Rightarrow> Session \<Rightarrow> Coordinator" where
  "put_session co se = co\<lparr>co_sessions := session_put (se_id se) se (co_sessions co)\<rparr>"

definition session_for_domain :: "Coordinator \<Rightarrow> u64 \<Rightarrow> Session option" where
  "session_for_domain co domain =
     map_option snd (find (\<lambda>(_, se). \<not> se_closed se \<and> is_worker se \<and> domain \<in> set (se_domains se))
                       (co_sessions co))"

section \<open>The remote channel\<close>

definition remote_send :: "Network \<Rightarrow> Coordinator \<Rightarrow> DispatchEnvelope \<Rightarrow> Status" where
  "remote_send nw co e =
     (case session_for_domain co (en_domain e) of
        None \<Rightarrow> failure ''channel.no_worker''
                  (''no live worker session owns domain '' @ format_id (en_domain e))
      | Some se \<Rightarrow> send_frame nw se (DispatchRequestMsg \<lparr>dq_envelope = e\<rparr>))"

definition remote_cancel :: "Network \<Rightarrow> Coordinator \<Rightarrow> CancelEnvelope \<Rightarrow> bool" where
  "remote_cancel nw co e =
     (case session_for_domain co (cv_domain e) of
        None \<Rightarrow> False
      | Some se \<Rightarrow> st_ok (send_frame nw se (CancelRequestMsg \<lparr>cq_envelope = e\<rparr>)))"

definition remote_channel :: "Network \<Rightarrow> Coordinator \<Rightarrow> DispatchChannel" where
  "remote_channel nw co =
     \<lparr>ch_send = (\<lambda>e s. (remote_send nw co e, complete_all s (nw_arrivals nw e))),
      ch_request_cancel = (\<lambda>e s. (remote_cancel nw co e, s)),
      ch_shutdown = id\<rparr>"

text \<open>The channel the scheduler holds: installed by the first successful \<^verbatim>\<open>start\<close>.\<close>

definition dispatch_channel_of :: "Network \<Rightarrow> Coordinator \<Rightarrow> DispatchChannel option" where
  "dispatch_channel_of nw co = (if co_channel_set co then Some (remote_channel nw co) else None)"

section \<open>Handlers\<close>

definition session_owns_domain :: "Session \<Rightarrow> u64 \<Rightarrow> bool" where
  "session_owns_domain se domain \<longleftrightarrow> domain \<in> set (se_domains se)"

definition validate_worker_identity :: "Session \<Rightarrow> u64 \<Rightarrow> u64 \<Rightarrow> Status" where
  "validate_worker_identity se worker boot =
     (if \<not> is_worker se then failure ''session.not_registered'' []
      else if sv_worker (se_view se) \<noteq> worker \<or> sv_boot (se_view se) \<noteq> boot
      then failure ''session.identity_mismatch'' ''frame identity does not match the registered incarnation''
      else success)"

definition handle_hello :: "Coordinator \<Rightarrow> Session \<Rightarrow> HelloMessage \<Rightarrow> outgoing list \<times> Coordinator" where
  "handle_hello co se hello =
     (let epoch = sc_epoch (co_scheduler co); view = se_view se;
          accepted = \<lparr>ha_accepted = True, ha_epoch = epoch, ha_code = ''ok'', ha_detail = []\<rparr>
      in if hm_role hello = PeerRole.kWorker
         then case register_worker_boot (co_scheduler co) (hm_worker hello) (hm_boot hello) (hm_name hello) of
                (registered, s) \<Rightarrow>
                  let co1 = co\<lparr>co_scheduler := s\<rparr> in
                  if \<not> st_ok registered
                  then (emit se (HelloAckMsg \<lparr>ha_accepted = False, ha_epoch = epoch,
                                  ha_code = st_code registered, ha_detail = st_message registered\<rparr>),
                        put_session co1 (session_close se))
                  else (emit se (HelloAckMsg accepted),
                        put_session co1 (se\<lparr>se_view := view\<lparr>sv_role := PeerRole.kWorker,
                          sv_name := hm_name hello, sv_worker := hm_worker hello,
                          sv_boot := hm_boot hello, sv_registered := True\<rparr>\<rparr>))
         else (emit se (HelloAckMsg accepted),
               put_session co (se\<lparr>se_view := view\<lparr>sv_role := hm_role hello, sv_name := hm_name hello,
                 sv_registered := True\<rparr>\<rparr>)))"

definition handle_domain_publish ::
    "Coordinator \<Rightarrow> Session \<Rightarrow> DomainPublishMessage \<Rightarrow> outgoing list \<times> Coordinator" where
  "handle_domain_publish co se m =
     (let r = dp_record m; identity = validate_worker_identity se (dr_worker r) (dr_worker_boot r) in
      if \<not> st_ok identity then (emit_error se (st_code identity) (st_message identity), co)
      else case update_domain (co_scheduler co) r of
             (Bad st, s) \<Rightarrow> (emit_error se (st_code st) (st_message st), co\<lparr>co_scheduler := s\<rparr>)
           | (Good _, s) \<Rightarrow>
               ([], put_session (co\<lparr>co_scheduler := s\<rparr>)
                      (se\<lparr>se_domains := List.insert (dr_id r) (se_domains se)\<rparr>)))"

text \<open>Publications and reports answer with an error frame or with nothing.\<close>

definition on_scheduler ::
    "Coordinator \<Rightarrow> Session \<Rightarrow> Status \<times> Scheduler \<Rightarrow> outgoing list \<times> Coordinator" where
  "on_scheduler co se r =
     (case r of (st, s) \<Rightarrow>
        (if st_ok st then [] else emit_error se (st_code st) (st_message st), co\<lparr>co_scheduler := s\<rparr>))"

definition handle_capability_publish ::
    "Coordinator \<Rightarrow> Session \<Rightarrow> CapabilityPublishMessage \<Rightarrow> outgoing list \<times> Coordinator" where
  "handle_capability_publish co se m =
     (if \<not> session_owns_domain se (cap_domain (cp_capability m))
      then (emit_error se ''session.domain_not_owned''
              ''this session does not own the domain it published capability for'', co)
      else on_scheduler co se (scheduler_publish_capability (co_scheduler co) (cp_capability m)))"

definition handle_load_update ::
    "Coordinator \<Rightarrow> Session \<Rightarrow> LoadUpdateMessage \<Rightarrow> outgoing list \<times> Coordinator" where
  "handle_load_update co se m =
     (if \<not> session_owns_domain se (lu_domain m)
      then (emit_error se ''session.domain_not_owned''
              ''this session does not own the domain it published load for'', co)
      else on_scheduler co se (scheduler_publish_load (co_scheduler co) (lu_domain m) (lu_load m)))"

definition handle_heartbeat ::
    "Coordinator \<Rightarrow> Session \<Rightarrow> HeartbeatMessage \<Rightarrow> outgoing list \<times> Coordinator" where
  "handle_heartbeat co se m =
     (let identity = validate_worker_identity se (hb_worker m) (hb_boot m) in
      if \<not> st_ok identity
      then (emit_error se (st_code identity) (st_message identity), put_session co (session_close se))
      else if hb_epoch m \<noteq> sc_epoch (co_scheduler co)
      then (emit_error se ''coordinator.stale_epoch''
              ''heartbeat epoch does not match the current coordinator epoch'',
            put_session co (session_close se))
      else ([], co))"

definition handle_completion ::
    "Coordinator \<Rightarrow> Session \<Rightarrow> CompletionMessage \<Rightarrow> outgoing list \<times> Coordinator" where
  "handle_completion co se m =
     (let submission = cl_submission m;
          identity = validate_worker_identity se (sub_worker submission) (sub_worker_boot submission)
      in if \<not> st_ok identity then (emit_error se (st_code identity) (st_message identity), co)
         else case complete (co_scheduler co) submission of
                (outcome, s) \<Rightarrow>
                  (emit se (CompletionAckMsg \<lparr>ck_attempt = sub_attempt submission,
                     ck_rejection = co_rejection outcome, ck_committed = co_committed outcome,
                     ck_idempotent = co_idempotent outcome\<rparr>), co\<lparr>co_scheduler := s\<rparr>))"

definition handle_failure_report ::
    "Coordinator \<Rightarrow> Session \<Rightarrow> FailureReportMessage \<Rightarrow> outgoing list \<times> Coordinator" where
  "handle_failure_report co se m =
     (let identity = validate_worker_identity se (sv_worker (se_view se)) (fr_boot m) in
      if \<not> st_ok identity then (emit_error se (st_code identity) (st_message identity), co)
      else if fr_epoch m \<noteq> sc_epoch (co_scheduler co)
      then (emit_error se ''coordinator.stale_epoch'' ''failure report carries a stale epoch'', co)
      else on_scheduler co se (report_failure (co_scheduler co) (fr_attempt m) (fr_kind m) (fr_detail m)))"

definition handle_dispatch_rejected ::
    "Coordinator \<Rightarrow> Session \<Rightarrow> DispatchRejectedMessage \<Rightarrow> outgoing list \<times> Coordinator" where
  "handle_dispatch_rejected co se m =
     (case report_failure (co_scheduler co) (dj_attempt m) FailureKind.kPreDispatchRejection
             (dj_code m @ '' '' @ dj_detail m) of
        (reported, s) \<Rightarrow>
          (if \<not> st_ok reported \<and> st_code reported \<noteq> ''attempt.not_found''
           then emit_error se (st_code reported) (st_message reported) else [],
           co\<lparr>co_scheduler := s\<rparr>))"

subsection \<open>Submissions\<close>

definition plan_response :: "PlanResult \<Rightarrow> SubmitResponseMessage" where
  "plan_response planned =
     \<lparr>sr_planned = pr_planned planned, sr_dispatched = False,
      sr_outcome = ex_outcome (pr_explanation planned), sr_operation = pl_operation (pr_plan planned),
      sr_domain = pl_domain (pr_plan planned), sr_domain_type = pl_domain_type (pr_plan planned),
      sr_provenance = pl_provenance (pr_plan planned), sr_attempt = pl_attempt (pr_plan planned),
      sr_attempt_generation = pl_attempt_generation (pr_plan planned),
      sr_attempt_state = AttemptState.kPlanned, sr_dispatch_rejection = DispatchRejection.kNone,
      sr_code = (if st_ok (pr_status planned) then ''planned'' else st_code (pr_status planned)),
      sr_detail = st_message (pr_status planned),
      sr_explanation_json = render_explanation_json (pr_explanation planned)\<rparr>"

definition dispatch_response :: "DispatchOutcome \<Rightarrow> SubmitResponseMessage" where
  "dispatch_response outcome =
     (let planned = dc_plan_result outcome; sent = dc_dispatch_result outcome in
      (plan_response planned)
        \<lparr>sr_dispatched := dp_dispatched sent, sr_attempt_state := dp_state sent,
         sr_dispatch_rejection := dp_rejection sent,
         sr_code := (if dp_dispatched sent then ''dispatched''
                     else if st_ok (pr_status planned) then st_code (dp_status sent)
                     else st_code (pr_status planned)),
         sr_detail := (if dp_dispatched sent then [] else st_message (dp_status sent))\<rparr>)"

definition handle_submit ::
    "Network \<Rightarrow> Coordinator \<Rightarrow> Session \<Rightarrow> SubmitRequestMessage \<Rightarrow> outgoing list \<times> Coordinator" where
  "handle_submit nw co se m =
     (if sq_dispatch_now m
      then case plan_reserve_dispatch (dispatch_channel_of nw co) (co_scheduler co) (sq_request m) (sq_payload m) of
             (outcome, s) \<Rightarrow>
               (emit se (SubmitResponseMsg (dispatch_response outcome)), co\<lparr>co_scheduler := s\<rparr>)
      else case plan (co_scheduler co) (sq_request m) (sq_payload m) of
             (planned, s) \<Rightarrow>
               (emit se (SubmitResponseMsg (plan_response planned)), co\<lparr>co_scheduler := s\<rparr>))"

subsection \<open>Queries\<close>

definition kProjectName :: string where "kProjectName = ''Transport Offload Scheduler''"

definition kVersionString :: string where "kVersionString = ''1.0.0''"

definition version_text :: "Scheduler \<Rightarrow> string" where
  "version_text s =
     kProjectName @ '' '' @ kVersionString @ '' protocol='' @ decimal (unat kProtocolVersion)
       @ '' epoch='' @ to_string_u64 (sc_epoch s)"

definition accounting_text :: "ReservationAudit \<Rightarrow> AttemptAudit \<Rightarrow> string" where
  "accounting_text audit attempts =
     ''reservations consistent='' @ yes_no (au_consistent audit)
       @ '' outstanding='' @ to_string_u64 (au_outstanding audit)
       @ '' committed='' @ to_string_u64 (au_committed audit)
       @ '' held_not_dispatched='' @ to_string_u64 (au_leaked audit) @ newline
       @ ''attempts total='' @ to_string_u64 (aa_total attempts)
       @ '' live='' @ to_string_u64 (aa_live attempts)
       @ '' completed='' @ to_string_u64 (aa_completed attempts)
       @ '' failed='' @ to_string_u64 (aa_failed attempts)
       @ '' ambiguous='' @ to_string_u64 (aa_ambiguous attempts)
       @ '' fenced='' @ to_string_u64 (aa_fenced attempts)
       @ '' conflicting_duplicates='' @ to_string_u64 (aa_multiple_completions attempts) @ newline"

definition attempt_line :: "ExecutionAttempt \<Rightarrow> string" where
  "attempt_line a =
     ''attempt '' @ format_id (att_id a) @ '' state '' @ to_string_AttemptState (att_state a)
       @ '' resolution '' @ to_string_AttemptResolution (att_resolution a)
       @ '' generation '' @ to_string_u64 (att_generation a)
       @ '' digest '' @ to_string_u64 (rp_result_digest (att_result a))
       @ '' committed '' @ yes_no (att_completion_committed a)"

definition operation_line :: "ExecutionAttempt \<Rightarrow> string" where
  "operation_line a =
     ''attempt '' @ format_id (att_id a) @ '' gen '' @ to_string_u64 (att_generation a) @ '' ''
       @ to_string_AttemptState (att_state a) @ newline"

definition query :: "Scheduler \<Rightarrow> QueryRequestMessage \<Rightarrow> QueryResponseMessage \<times> Scheduler" where
  "query s m =
     (let ok = (\<lambda>body. \<lparr>qs_ok = True, qs_code = ''ok'', qs_body = body\<rparr>) in
      case qr_kind m of
        QueryKind.kSnapshot \<Rightarrow> (case snapshot s of (taken, s') \<Rightarrow> (ok (render_json taken), s'))
      | QueryKind.kReconcile \<Rightarrow> (case reconcile s of (report, s') \<Rightarrow> (ok (render_report_text report), s'))
      | QueryKind.kVersion \<Rightarrow> (ok (version_text s), s)
      | QueryKind.kAccounting \<Rightarrow>
          (ok (accounting_text (audit_reservations (sc_reservations s)) (audit_attempts (sc_attempts s))), s)
      | QueryKind.kAttempt \<Rightarrow>
          (case get_attempt (sc_attempts s) (qr_id m) of
             None \<Rightarrow> (\<lparr>qs_ok = False, qs_code = ''attempt.not_found'', qs_body = []\<rparr>, s)
           | Some a \<Rightarrow> (ok (attempt_line a), s))
      | QueryKind.kOperation \<Rightarrow>
          (ok (concat (map operation_line (list_by_operation (sc_attempts s) (qr_id m) 64))), s))"

definition handle_query ::
    "Coordinator \<Rightarrow> Session \<Rightarrow> QueryRequestMessage \<Rightarrow> outgoing list \<times> Coordinator" where
  "handle_query co se m =
     (case query (co_scheduler co) m of
        (response, s) \<Rightarrow> (emit se (QueryResponseMsg response), co\<lparr>co_scheduler := s\<rparr>))"

subsection \<open>Administration\<close>

text \<open>
  The cast of the requested number to \<^verbatim>\<open>OffloadRequirement\<close>, an enumeration over \<^verbatim>\<open>std::uint8_t\<close>. A number
  without an enumerator equals none of them; the tests and the switch of the code then behave as for
  \<^verbatim>\<open>kAny\<close>, which stands for it here.
\<close>

definition cast_OffloadRequirement :: "u64 \<Rightarrow> OffloadRequirement" where
  "cast_OffloadRequirement v =
     (let low = v mod 256 in
      if low = 1 then OffloadRequirement.kPreferOffload
      else if low = 2 then OffloadRequirement.kOffloadRequired
      else if low = 3 then OffloadRequirement.kHostRequired
      else OffloadRequirement.kAny)"

definition admin_status :: "Status \<Rightarrow> AdminResponseMessage" where
  "admin_status st = \<lparr>as_ok = st_ok st, as_code = st_code st, as_detail = st_message st, as_body = []\<rparr>"

definition administer ::
    "store_save \<Rightarrow> Scheduler \<Rightarrow> AdminRequestMessage \<Rightarrow> AdminResponseMessage \<times> Scheduler" where
  "administer save s m =
     (let answer = (\<lambda>(st, s'). (admin_status st, s')) in
      case ar_action m of
        AdminAction.kFenceDomain \<Rightarrow> answer (fence_domain save s (ar_id m) (ar_reason m))
      | AdminAction.kFenceBoot \<Rightarrow> answer (fence_worker_boot save s (ar_id m) (ar_reason m))
      | AdminAction.kReconcile \<Rightarrow>
          (case reconcile s of
             (report, s') \<Rightarrow>
               (\<lparr>as_ok = True, as_code = ''ok'', as_detail = [], as_body = render_report_text report\<rparr>, s'))
      | AdminAction.kSaveState \<Rightarrow> answer (save_state save s)
      | AdminAction.kSetOffloadRequirement \<Rightarrow>
          answer (set_policy s ((sc_policy s)\<lparr>pol_offload_requirement := cast_OffloadRequirement (ar_value m)\<rparr>))
      | AdminAction.kShutdownCoordinator \<Rightarrow>
          (\<lparr>as_ok = True, as_code = ''ok'', as_detail = ''coordinator shutting down'', as_body = []\<rparr>, s))"

definition request_stop :: "Coordinator \<Rightarrow> Coordinator" where
  "request_stop co = co\<lparr>co_stop_signalled := True, co_stopping := True\<rparr>"

definition handle_admin ::
    "store_save \<Rightarrow> Coordinator \<Rightarrow> Session \<Rightarrow> AdminRequestMessage \<Rightarrow> outgoing list \<times> Coordinator" where
  "handle_admin save co se m =
     (case administer save (co_scheduler co) m of
        (response, s) \<Rightarrow>
          let co1 = co\<lparr>co_scheduler := s\<rparr> in
          (emit se (AdminResponseMsg response),
           if ar_action m = AdminAction.kShutdownCoordinator then request_stop co1 else co1))"

section \<open>Frames\<close>

definition handle_frame ::
    "Network \<Rightarrow> store_save \<Rightarrow> Coordinator \<Rightarrow> Session \<Rightarrow> Frame \<Rightarrow> outgoing list \<times> Coordinator" where
  "handle_frame nw save co se frame =
     (let payload = fm_payload frame;
          refuse = (\<lambda>code detail. (emit_error se code detail, co)) in
      case fm_type frame of
        MessageType.kHello \<Rightarrow> decoding take_Hello payload
          (emit_error se ''protocol.malformed_hello'' ''hello payload rejected'',
           put_session co (session_close se)) (handle_hello co se)
      | MessageType.kDomainPublish \<Rightarrow> decoding take_DomainPublish payload
          (refuse ''protocol.malformed_domain'' ''domain record rejected'') (handle_domain_publish co se)
      | MessageType.kCapabilityPublish \<Rightarrow> decoding take_CapabilityPublish payload
          (refuse ''protocol.malformed_capability'' ''capability record rejected'')
          (handle_capability_publish co se)
      | MessageType.kLoadUpdate \<Rightarrow> decoding take_LoadUpdate payload
          (refuse ''protocol.malformed_load'' ''load evidence rejected'') (handle_load_update co se)
      | MessageType.kHeartbeat \<Rightarrow> decoding take_Heartbeat payload
          (refuse ''protocol.malformed_heartbeat'' ''heartbeat rejected'') (handle_heartbeat co se)
      | MessageType.kCompletion \<Rightarrow> decoding take_Completion payload
          (refuse ''protocol.malformed_completion'' ''completion rejected'') (handle_completion co se)
      | MessageType.kFailureReport \<Rightarrow> decoding take_FailureReport payload
          (refuse ''protocol.malformed_failure'' ''failure report rejected'') (handle_failure_report co se)
      | MessageType.kSubmitRequest \<Rightarrow> decoding take_SubmitRequest payload
          (refuse ''protocol.malformed_submit'' ''submit request rejected'') (handle_submit nw co se)
      | MessageType.kQueryRequest \<Rightarrow> decoding take_QueryRequest payload
          (refuse ''protocol.malformed_query'' ''query rejected'') (handle_query co se)
      | MessageType.kAdminRequest \<Rightarrow> decoding take_AdminRequest payload
          (refuse ''protocol.malformed_admin'' ''admin request rejected'') (handle_admin save co se)
      | MessageType.kDispatchAccepted \<Rightarrow> decoding take_DispatchAccepted payload
          (refuse ''protocol.malformed_dispatch_ack'' ''dispatch acknowledgement rejected'') (\<lambda>_. ([], co))
      | MessageType.kDispatchRejected \<Rightarrow> decoding take_DispatchRejected payload
          (refuse ''protocol.malformed_dispatch_rejection'' ''dispatch rejection rejected'')
          (handle_dispatch_rejected co se)
      | MessageType.kCancelResult \<Rightarrow> decoding take_CancelResult payload
          (refuse ''protocol.malformed_cancel_result'' ''cancel result rejected'') (\<lambda>_. ([], co))
      | MessageType.kGoodbye \<Rightarrow> ([], put_session co (session_close se))
      | _ \<Rightarrow> refuse ''protocol.unexpected_message_type''
               (''coordinator does not accept message type '' @ decimal (unat (message_code (fm_type frame)))))"

section \<open>Sessions\<close>

definition on_session_closed :: "store_save \<Rightarrow> Coordinator \<Rightarrow> u64 \<Rightarrow> Coordinator" where
  "on_session_closed save co sid =
     (case map_of (co_sessions co) sid of
        None \<Rightarrow> co
      | Some se \<Rightarrow>
          let co1 = co\<lparr>co_sessions := AList.delete sid (co_sessions co)\<rparr> in
          if is_worker se
          then co1\<lparr>co_scheduler :=
                 snd (fence_worker_boot save (co_scheduler co) (sv_boot (se_view se)) ''worker session closed'')\<rparr>
          else co1)"

text \<open>
  One turn of \<^verbatim>\<open>session_loop\<close> on the bytes still to be read: whether the loop goes on, the frames sent,
  the state and the bytes left.
\<close>

definition session_turn ::
    "Network \<Rightarrow> store_save \<Rightarrow> Coordinator \<Rightarrow> u64 \<Rightarrow> u8 list \<Rightarrow> bool \<times> outgoing list \<times> Coordinator \<times> u8 list" where
  "session_turn nw save co sid input =
     (case map_of (co_sessions co) sid of
        None \<Rightarrow> (False, [], co, input)
      | Some se \<Rightarrow>
          if co_stopping co \<or> se_closed se then (False, [], co, input)
          else case read_frame (se_max_frame se) input of
                 Lost \<Rightarrow> (False, [], co, [])
               | HeaderRejected e rest \<Rightarrow>
                   (False, emit_error se (''protocol.'' @ to_string_DecodeError e) ''frame header rejected'', co, rest)
               | FrameRejected st rest \<Rightarrow> (False, emit_error se (st_code st) ''frame rejected'', co, rest)
               | Arrived frame rest \<Rightarrow>
                   (case handle_frame nw save co se frame of (out, co') \<Rightarrow> (True, out, co', rest)))"

lemma session_turn_reads:
  "session_turn nw save co sid input = (True, out, co', rest) \<Longrightarrow> length rest < length input"
  by (auto simp: session_turn_def dest: read_frame_shorter split: option.splits if_splits FrameRead.splits prod.splits)

function session_loop ::
    "Network \<Rightarrow> store_save \<Rightarrow> Coordinator \<Rightarrow> u64 \<Rightarrow> u8 list \<Rightarrow> outgoing list \<times> Coordinator" where
  "session_loop nw save co sid input =
     (case session_turn nw save co sid input of
        (again, out, co', rest) \<Rightarrow>
          if again
          then (case session_loop nw save co' sid rest of (later, co'') \<Rightarrow> (out @ later, co''))
          else (out, on_session_closed save co' sid))"
  by pat_completeness auto

termination
  by (relation "measure (\<lambda>(nw, save, co, sid, input). length input)")
     (auto dest: session_turn_reads [OF sym] session_turn_reads)

declare session_loop.simps [simp del]

section \<open>Admission, start and stop\<close>

definition new_session :: "Coordinator \<Rightarrow> string \<Rightarrow> Session" where
  "new_session co peer =
     (let i = co_next_session_id co + 1 in
      \<lparr>se_id = i, se_max_frame = cc_max_frame_bytes (co_config co), se_closed = False,
       se_view = \<lparr>sv_session_id = i, sv_peer = peer, sv_role = PeerRole.kClient, sv_name = [],
                  sv_worker = 0, sv_boot = 0, sv_registered = False, sv_closed = False\<rparr>,
       se_domains = []\<rparr>)"

text \<open>One turn of \<^verbatim>\<open>accept_loop\<close>; the argument is the answer of \<^verbatim>\<open>accept_one\<close> with the peer's address.\<close>

definition accept_turn :: "Coordinator \<Rightarrow> string Checked \<Rightarrow> bool \<times> outgoing list \<times> Coordinator" where
  "accept_turn co accepted =
     (if co_stopping co then (False, [], co)
      else case accepted of
             Bad st \<Rightarrow> (st_code st \<noteq> ''net.listener_closed'', [], co)
           | Good peer \<Rightarrow>
               let se = new_session co peer; co1 = co\<lparr>co_next_session_id := se_id se\<rparr> in
               if length (co_sessions co) \<ge> cc_max_sessions (co_config co)
               then (True, emit_error se ''coordinator.session_limit'' ''too many sessions'', co1)
               else (True, [], put_session co1 se))"

definition coordinator_start ::
    "Network \<Rightarrow> store_save \<Rightarrow> Coordinator \<Rightarrow> stored_state \<Rightarrow> u64 \<Rightarrow> u64 \<Rightarrow> Status \<Rightarrow> Status \<times> Coordinator" where
  "coordinator_start nw save co stored worker boot listening =
     (if co_running co then (failure ''coordinator.already_running'' [], co)
      else
        let co0 = co\<lparr>co_stopping := False\<rparr> in
        case start (co_scheduler co0) stored worker boot of
          (started, s) \<Rightarrow>
            if \<not> st_ok started then (started, co0\<lparr>co_scheduler := s\<rparr>)
            else if \<not> st_ok listening
            then (listening, co0\<lparr>co_scheduler := snd (shutdown save (dispatch_channel_of nw co0) s)\<rparr>)
            else (success, co0\<lparr>co_scheduler := s, co_channel_set := True, co_running := True\<rparr>))"

definition stop_session :: "Session \<Rightarrow> outgoing list" where
  "stop_session se =
     (if is_worker se
      then emit se (ShutdownRequestMsg \<lparr>sh_reason = ''coordinator shutting down''\<rparr>) else [])"

text \<open>
  The session threads end when their sockets are closed and run their epilogues, in the order of the
  session identities here, before the scheduler is shut down.
\<close>

definition coordinator_stop ::
    "Network \<Rightarrow> store_save \<Rightarrow> Coordinator \<Rightarrow> Status \<times> outgoing list \<times> Coordinator" where
  "coordinator_stop nw save co =
     (if \<not> co_running co then (success, [], co)
      else
        let open_sessions = co_sessions co;
            co1 = co\<lparr>co_stopping := True,
                     co_sessions := map (\<lambda>(k, se). (k, session_close se)) open_sessions\<rparr>;
            co2 = foldl (on_session_closed save) co1 (map fst open_sessions);
            co3 = co2\<lparr>co_sessions := []\<rparr>
        in case shutdown save (dispatch_channel_of nw co3) (co_scheduler co3) of
             (stopped, s) \<Rightarrow>
               (stopped, concat (map (stop_session \<circ> snd) open_sessions),
                co3\<lparr>co_scheduler := s, co_running := False\<rparr>))"

section \<open>Inspection\<close>

definition coordinator_sessions :: "Coordinator \<Rightarrow> SessionView list" where
  "coordinator_sessions co = sort_by sv_session_id (map (se_view \<circ> snd) (co_sessions co))"

definition session_count :: "Coordinator \<Rightarrow> nat" where
  "session_count co = length (co_sessions co)"

definition registered_worker_count :: "Coordinator \<Rightarrow> nat" where
  "registered_worker_count co = length (filter (is_worker \<circ> snd) (co_sessions co))"

definition stop_requested :: "Coordinator \<Rightarrow> bool" where
  "stop_requested co = co_stop_signalled co"

section \<open>The coordinator as a transition system\<close>

text \<open>
  A step is one turn of the accept loop or of a session thread, the end of a session, the start or the
  stop, or a call of the embedding program on the scheduler. The network may answer differently in
  every step, and a peer may be gone at any time.
\<close>

inductive coordinator_step :: "store_save \<Rightarrow> Coordinator \<Rightarrow> Coordinator \<Rightarrow> bool"
  for save where
  accepts: "accept_turn co accepted = (again, out, co') \<Longrightarrow> coordinator_step save co co'"
| turns: "(\<And>d. reservation_ids_left (co_scheduler co) d) \<Longrightarrow>
    session_turn nw save co sid input = (again, out, co', rest) \<Longrightarrow> coordinator_step save co co'"
| closes: "coordinator_step save co (on_session_closed save co sid)"
| starts: "stored_ok stored \<Longrightarrow>
    coordinator_step save co (snd (coordinator_start nw save co stored worker boot listening))"
| stops: "coordinator_step save co (snd (snd (coordinator_stop nw save co)))"
| calls: "scheduler_step (dispatch_channel_of nw co) save (co_scheduler co) s \<Longrightarrow>
    coordinator_step save co (co\<lparr>co_scheduler := s\<rparr>)"

inductive_cases coordinator_stepE: "coordinator_step save co co'"

abbreviation coordinator_run :: "store_save \<Rightarrow> Coordinator \<Rightarrow> Coordinator \<Rightarrow> bool" where
  "coordinator_run save \<equiv> (coordinator_step save)\<^sup>*\<^sup>*"

interpretation remote: dispatch_channel "dispatch_channel_of nw co" for nw co
  by unfold_locales (auto simp: dispatch_channel_of_def remote_channel_def complete_all_run split: if_splits)

section \<open>The scheduler behind the sessions\<close>

lemma put_session_frame [simp]:
  "co_scheduler (put_session co se) = co_scheduler co" "co_config (put_session co se) = co_config co"
  "co_channel_set (put_session co se) = co_channel_set co"
  "co_stopping (put_session co se) = co_stopping co" "co_running (put_session co se) = co_running co"
  by (simp_all add: put_session_def)

lemma request_stop_frame [simp]:
  "co_scheduler (request_stop co) = co_scheduler co" "co_config (request_stop co) = co_config co"
  "co_channel_set (request_stop co) = co_channel_set co" "co_sessions (request_stop co) = co_sessions co"
  by (simp_all add: request_stop_def)

lemma shutdown_remote: "shutdown save (dispatch_channel_of nw co) s = shutdown save None s"
  unfolding shutdown_def by (simp add: dispatch_channel_of_def remote_channel_def cong del: if_weak_cong)

abbreviation serves :: "Network \<Rightarrow> store_save \<Rightarrow> Coordinator \<Rightarrow> outgoing list \<times> Coordinator \<Rightarrow> bool" where
  "serves nw save co r \<equiv>
     (scheduler_step (dispatch_channel_of nw co) save)\<^sup>=\<^sup>= (co_scheduler co) (co_scheduler (snd r))"

lemma on_scheduler_frame [simp]:
  "co_scheduler (snd (on_scheduler co se r)) = snd r" "co_sessions (snd (on_scheduler co se r)) = co_sessions co"
  "co_config (snd (on_scheduler co se r)) = co_config co"
  by (simp_all add: on_scheduler_def split_beta)

lemma handlers_serve:
  "serves nw save co (handle_hello co se m1)" "serves nw save co (handle_domain_publish co se m2)"
  "serves nw save co (handle_capability_publish co se m3)" "serves nw save co (handle_load_update co se m4)"
  "serves nw save co (handle_heartbeat co se m5)" "serves nw save co (handle_completion co se m6)"
  "serves nw save co (handle_failure_report co se m7)" "serves nw save co (handle_dispatch_rejected co se m8)"
  by (simp_all add: handle_hello_def handle_domain_publish_def handle_capability_publish_def
      handle_load_update_def handle_heartbeat_def handle_completion_def handle_failure_report_def
      handle_dispatch_rejected_def Let_def split_beta Checked.case_distrib [of "\<lambda>r. co_scheduler (snd r)"]
      scheduler_step.intros split: Checked.split)

lemma query_step:
  "(scheduler_step channel save)\<^sup>=\<^sup>= s (snd (query s m))"
  by (simp add: query_def Let_def split_beta scheduler_step.intros split: QueryKind.split option.split)

lemma administer_step:
  "(scheduler_step channel save)\<^sup>=\<^sup>= s (snd (administer save s m))"
  by (simp add: administer_def Let_def split_beta scheduler_step.intros split: AdminAction.split)

lemma requests_serve:
  "serves nw save co (handle_query co se m1)" "serves nw save co (handle_admin save co se m2)"
  "(\<And>d. reservation_ids_left (co_scheduler co) d) \<Longrightarrow> serves nw save co (handle_submit nw co se m3)"
  using query_step [where s = "co_scheduler co" and m = m1]
    administer_step [where s = "co_scheduler co" and m = m2]
  by (simp_all add: handle_query_def handle_admin_def handle_submit_def Let_def split_beta
      scheduler_step.intros)

lemma handle_frame_serves:
  assumes "\<And>d. reservation_ids_left (co_scheduler co) d"
  shows "serves nw save co (handle_frame nw save co se frame)"
  unfolding handle_frame_def Let_def
  by (cases "fm_type frame"; simp only: MessageType.case;
      ((rule decodingI [where P = "\<lambda>r. serves nw save co r"])?; (simp only: handlers_serve requests_serve assms)?)?)
     simp_all

lemma session_turn_serves:
  assumes "\<And>d. reservation_ids_left (co_scheduler co) d"
    and "session_turn nw save co sid input = (again, out, co', rest)"
  shows "serves nw save co (out, co')"
  using assms(2) handle_frame_serves [OF assms(1)]
  by (auto simp: session_turn_def split: option.splits if_splits FrameRead.splits prod.splits)
     (metis snd_conv)+

lemma on_session_closed_step:
  "(scheduler_step channel save)\<^sup>=\<^sup>= (co_scheduler co) (co_scheduler (on_session_closed save co sid))"
  by (simp add: on_session_closed_def Let_def scheduler_step.do_fence_boot split: option.split)

lemma close_all_run:
  "scheduler_run channel save (co_scheduler co) (co_scheduler (foldl (on_session_closed save) co sids))"
proof (induction sids arbitrary: co)
  case (Cons sid sids)
  have "scheduler_run channel save (co_scheduler co) (co_scheduler (on_session_closed save co sid))"
    using on_session_closed_step [of channel save co sid] by auto
  with Cons show ?case by (metis foldl_Cons rtranclp_trans)
qed simp

lemma shutdown_step: "scheduler_step (dispatch_channel_of nw co) save s (snd (shutdown save None s))"
  using scheduler_step.do_shutdown [of "dispatch_channel_of nw co" save s] by (simp add: shutdown_remote)

lemma coordinator_start_run:
  assumes "stored_ok stored"
  shows "scheduler_run (dispatch_channel_of nw co) save (co_scheduler co)
           (co_scheduler (snd (coordinator_start nw save co stored worker boot listening)))"
proof -
  let ?s = "snd (start (co_scheduler co) stored worker boot)"
  have start: "scheduler_step (dispatch_channel_of nw co) save (co_scheduler co) ?s"
    using assms by (rule scheduler_step.do_start)
  from start shutdown_step [of nw co save ?s] show ?thesis
    by (auto simp: coordinator_start_def Let_def split_beta shutdown_remote)
qed

lemma coordinator_stop_run:
  "scheduler_run (dispatch_channel_of nw co) save (co_scheduler co)
     (co_scheduler (snd (snd (coordinator_stop nw save co))))"
proof (cases "co_running co")
  case True
  let ?co = "co\<lparr>co_stopping := True, co_sessions := map (\<lambda>(k, se). (k, session_close se)) (co_sessions co)\<rparr>"
  let ?closed = "foldl (on_session_closed save) ?co (map fst (co_sessions co))"
  have "scheduler_run (dispatch_channel_of nw co) save (co_scheduler co) (co_scheduler ?closed)"
    using close_all_run [of "dispatch_channel_of nw co" save ?co] by simp
  with shutdown_step [of nw co save "co_scheduler ?closed"] True show ?thesis
    by (simp add: coordinator_stop_def Let_def split_beta shutdown_remote)
qed (simp add: coordinator_stop_def)

lemma coordinator_step_run:
  assumes "coordinator_step save co co'"
  shows "\<exists>nw. scheduler_run (dispatch_channel_of nw co) save (co_scheduler co) (co_scheduler co')"
  using assms
proof cases
  case (accepts accepted again out)
  then have "co_scheduler co' = co_scheduler co"
    by (auto simp: accept_turn_def Let_def split: if_splits Checked.splits)
  then show ?thesis by simp
next
  case (turns nw sid input again out rest)
  from session_turn_serves [OF turns] show ?thesis by auto
next
  case (closes sid)
  then show ?thesis
    using on_session_closed_step [of _ save co sid] by (metis r_into_rtranclp rtranclp_reflclp)
qed (auto intro: coordinator_start_run coordinator_stop_run)

lemma coordinator_step_components: "coordinator_step save co co' \<Longrightarrow> component_run (co_scheduler co) (co_scheduler co')"
  using coordinator_step_run remote.scheduler_steps_run by blast

lemma coordinator_run_components: "coordinator_run save co co' \<Longrightarrow> component_run (co_scheduler co) (co_scheduler co')"
  by (induction rule: rtranclp_induct) (auto intro: component_run_trans coordinator_step_components)

section \<open>The table of sessions\<close>

lemma map_of_session_put [simp]: "map_of (session_put k v m) = (map_of m)(k \<mapsto> v)"
  by (induction k v m rule: session_put.induct) auto

lemma keys_session_put: "fst ` set (session_put k v m) = insert k (fst ` set m)"
  by (induction k v m rule: session_put.induct) auto

lemma set_session_put: "set (session_put k v m) \<subseteq> insert (k, v) (set m)"
  by (induction k v m rule: session_put.induct) auto

lemma sorted_session_put:
  "sorted_wrt (<) (map fst m) \<Longrightarrow> sorted_wrt (<) (map fst (session_put k v m))"
proof (induction k v m rule: session_put.induct)
  case (2 k v k' v' rest)
  then show ?case by (auto simp: keys_session_put simp flip: image_set)
qed simp

lemma length_session_put:
  "sorted_wrt (<) (map fst m) \<Longrightarrow>
     length (session_put k v m) = (if k \<in> fst ` set m then length m else Suc (length m))"
  by (induction k v m rule: session_put.induct) force+

definition session_ok :: "Coordinator \<Rightarrow> u64 \<times> Session \<Rightarrow> bool" where
  "session_ok co e \<longleftrightarrow>
     se_id (snd e) = fst e \<and> sv_session_id (se_view (snd e)) = fst e
     \<and> se_max_frame (snd e) = cc_max_frame_bytes (co_config co)
     \<and> (se_domains (snd e) \<noteq> [] \<longrightarrow> sv_registered (se_view (snd e)))"

definition sessions_ok :: "Coordinator \<Rightarrow> bool" where
  "sessions_ok co \<longleftrightarrow>
     sorted_wrt (<) (map fst (co_sessions co)) \<and> list_all (session_ok co) (co_sessions co)
     \<and> length (co_sessions co) \<le> cc_max_sessions (co_config co)"

lemma sessions_okD:
  assumes "sessions_ok co"
  shows "map_of (co_sessions co) sid = Some se \<Longrightarrow> session_ok co (sid, se)"
    and "distinct (map fst (co_sessions co))"
  using assms by (auto simp: sessions_ok_def list_all_iff strict_sorted_iff dest: map_of_SomeD)

text \<open>A handler rewrites at most the session it serves, keeping its identity.\<close>

definition touches :: "Coordinator \<Rightarrow> Session \<Rightarrow> outgoing list \<times> Coordinator \<Rightarrow> bool" where
  "touches co se r \<longleftrightarrow>
     co_config (snd r) = co_config co
     \<and> (co_sessions (snd r) = co_sessions co
        \<or> (\<exists>se'. co_sessions (snd r) = session_put (se_id se) se' (co_sessions co)
              \<and> se_id se' = se_id se \<and> sv_session_id (se_view se') = sv_session_id (se_view se)
              \<and> se_max_frame se' = se_max_frame se
              \<and> (sv_registered (se_view se') \<or> se_domains se' = se_domains se
                                                \<and> sv_registered (se_view se') = sv_registered (se_view se))))"

lemma touches_same [simp]: "co_config co' = co_config co \<Longrightarrow> co_sessions co' = co_sessions co \<Longrightarrow> touches co se (out, co')"
  by (simp add: touches_def)

lemma touches_put:
  assumes "co_config co' = co_config co" and "co_sessions co' = co_sessions co"
    and "se_id se' = se_id se" and "sv_session_id (se_view se') = sv_session_id (se_view se)"
    and "se_max_frame se' = se_max_frame se"
    and "sv_registered (se_view se') \<or> se_domains se' = se_domains se \<and> sv_registered (se_view se') = sv_registered (se_view se)"
  shows "touches co se (out, put_session co' se')"
  using assms by (auto simp: touches_def put_session_def)

lemma touches_close [simp]: "touches co se (out, put_session co (session_close se))"
  by (rule touches_put) (simp_all add: session_close_def)

lemma identity_registered: "st_ok (validate_worker_identity se w b) \<Longrightarrow> is_worker se"
  by (simp add: validate_worker_identity_def split: if_splits)

lemma handle_hello_touches: "touches co se (handle_hello co se m)"
  by (auto simp: handle_hello_def Let_def split_beta session_close_def intro!: touches_put)

lemma handle_domain_publish_touches: "touches co se (handle_domain_publish co se m)"
  using identity_registered [of se "dr_worker (dp_record m)" "dr_worker_boot (dp_record m)"]
  by (auto simp: handle_domain_publish_def Let_def split_beta is_worker_def intro!: touches_put split: Checked.split)

lemma handlers_touch:
  "touches co se (on_scheduler co se r)"
  "touches co se (handle_capability_publish co se m3)" "touches co se (handle_load_update co se m4)"
  "touches co se (handle_heartbeat co se m5)" "touches co se (handle_completion co se m6)"
  "touches co se (handle_failure_report co se m7)" "touches co se (handle_dispatch_rejected co se m8)"
  "touches co se (handle_query co se m9)" "touches co se (handle_admin save co se m10)"
  "touches co se (handle_submit nw co se m11)"
  by (simp_all add: on_scheduler_def handle_capability_publish_def handle_load_update_def handle_heartbeat_def
      handle_completion_def handle_failure_report_def handle_dispatch_rejected_def handle_query_def
      handle_admin_def handle_submit_def Let_def split_beta)

lemma handle_frame_touches: "touches co se (handle_frame nw save co se frame)"
  unfolding handle_frame_def Let_def
  by (cases "fm_type frame"; simp only: MessageType.case;
      ((rule decodingI [where P = "touches co se"])?;
       (simp only: handle_hello_touches handle_domain_publish_touches handlers_touch)?)?)
     simp_all

lemma touches_sessions_ok:
  assumes "touches co se (out, co')" and "sessions_ok co" and "map_of (co_sessions co) sid = Some se"
  shows "sessions_ok co'"
proof -
  have ok: "session_ok co (sid, se)" using sessions_okD(1) [OF assms(2,3)] .
  have "sid \<in> fst ` set (co_sessions co)" using assms(3) by (force dest: map_of_SomeD)
  then have "length (session_put sid se' (co_sessions co)) = length (co_sessions co)" for se'
    using assms(2) by (simp add: length_session_put sessions_ok_def)
  moreover have "list_all (session_ok co) (session_put sid se' (co_sessions co))" if "session_ok co (sid, se')" for se'
    using that assms(2) set_session_put [of sid se' "co_sessions co"]
    by (auto simp: sessions_ok_def list_all_iff)
  moreover have "session_ok co' e = session_ok co e" if "co_config co' = co_config co" for e
    using that by (simp add: session_ok_def)
  ultimately show ?thesis
    using assms(1,2) ok by (auto simp: touches_def sessions_ok_def session_ok_def sorted_session_put cong: list.pred_cong)
qed

lemma sessions_ok_frame:
  "sessions_ok (co\<lparr>co_scheduler := s\<rparr>) = sessions_ok co" "sessions_ok (co\<lparr>co_stopping := b\<rparr>) = sessions_ok co"
  "sessions_ok (co\<lparr>co_next_session_id := n\<rparr>) = sessions_ok co"
  "sessions_ok (co\<lparr>co_channel_set := b\<rparr>) = sessions_ok co" "sessions_ok (co\<lparr>co_running := b\<rparr>) = sessions_ok co"
  by (simp_all add: sessions_ok_def session_ok_def [abs_def])

lemma session_turn_ok:
  assumes "session_turn nw save co sid input = (again, out, co', rest)" and "sessions_ok co"
  shows "sessions_ok co'"
proof (cases "map_of (co_sessions co) sid")
  case (Some se)
  have "sessions_ok (snd (handle_frame nw save co se frame))" for frame
    using touches_sessions_ok [of co se _ _ sid] handle_frame_touches [of co se nw save frame] assms(2) Some
    by (metis prod.collapse)
  with assms Some show ?thesis
    by (auto simp: session_turn_def split: if_splits FrameRead.splits prod.splits) (metis snd_conv)+
qed (use assms in \<open>simp add: session_turn_def\<close>)

lemma accept_turn_ok:
  assumes "accept_turn co accepted = (again, out, co')" and "sessions_ok co"
  shows "sessions_ok co'"
proof -
  let ?se = "\<lambda>peer. new_session co peer"
  have "sessions_ok (put_session (co\<lparr>co_next_session_id := n\<rparr>) (?se peer))"
    if "length (co_sessions co) < cc_max_sessions (co_config co)" for peer n
  proof -
    have "session_ok co' (se_id (?se peer), ?se peer)" if "co_config co' = co_config co" for co'
      using that by (simp add: session_ok_def new_session_def Let_def)
    then show ?thesis
      using assms(2) that set_session_put [of "se_id (?se peer)" "?se peer" "co_sessions co"]
      by (auto simp: sessions_ok_def put_session_def sorted_session_put length_session_put list_all_iff)
         (fastforce simp: session_ok_def)+
  qed
  moreover have "sessions_ok (co\<lparr>co_next_session_id := n\<rparr>)" for n
    using assms(2) by (simp add: sessions_ok_frame)
  ultimately show ?thesis
    using assms by (auto simp: accept_turn_def Let_def not_le split: if_splits Checked.splits)
qed

lemma on_session_closed_frame [simp]:
  "co_config (on_session_closed save co sid) = co_config co"
  "co_sessions (on_session_closed save co sid) = AList.delete sid (co_sessions co)"
  by (auto simp: on_session_closed_def Let_def delete_id [symmetric] split: option.split
      dest: map_of_eq_None_iff [THEN iffD1])

lemma on_session_closed_ok: "sessions_ok co \<Longrightarrow> sessions_ok (on_session_closed save co sid)"
  by (auto simp: sessions_ok_def session_ok_def AList.delete_eq list_all_iff sorted_wrt_map sorted_wrt_filter
      intro: order.trans [OF length_filter_le])

lemma coordinator_step_ok: "coordinator_step save co co' \<Longrightarrow> sessions_ok co \<Longrightarrow> sessions_ok co'"
proof (erule coordinator_stepE)
  fix nw stored worker boot listening
  assume "sessions_ok co" and "co' = snd (coordinator_start nw save co stored worker boot listening)"
  then show "sessions_ok co'"
    by (auto simp: coordinator_start_def Let_def split_beta sessions_ok_frame)
next
  fix nw
  assume ok: "sessions_ok co" and co': "co' = snd (snd (coordinator_stop nw save co))"
  then show "sessions_ok co'"
    by (auto simp: coordinator_stop_def Let_def sessions_ok_def split_beta)
qed (auto intro: accept_turn_ok session_turn_ok on_session_closed_ok simp: sessions_ok_frame)

lemma new_coordinator_ok: "sessions_ok (new_coordinator config)"
  by (simp add: sessions_ok_def new_coordinator_def)

lemma coordinator_run_ok: "coordinator_run save (new_coordinator config) co \<Longrightarrow> sessions_ok co"
  by (induction rule: rtranclp_induct) (auto intro: new_coordinator_ok coordinator_step_ok)

lemma coordinator_run_inv:
  assumes "coordinator_run save (new_coordinator config) co"
  shows "scheduler_inv (co_scheduler co)"
  using coordinator_run_components [OF assms] component_run_inv new_scheduler_inv
  by (fastforce simp: new_coordinator_def)

section \<open>What fencing an incarnation achieves\<close>

lemma transition_other:
  assumes "attempts_inv l" and "j \<noteq> i"
  shows "get_attempt (snd (transition l i state rs k detail True)) j = get_attempt l j"
proof (cases rule: transition_cases [of l i state rs k detail True])
  case (moved a)
  with replace_attempt(2) [OF assms(1) moved(1)] assms(2) show ?thesis by (simp add: attempt_ok_def)
qed simp

lemma transition_closes:
  assumes "attempts_inv l" and "is_terminal state"
    and "get_attempt (snd (transition l i state rs k detail True)) i = Some b"
  shows "is_terminal (att_state b)"
proof (cases rule: transition_cases [of l i state rs k detail True])
  case (moved a)
  with replace_attempt(2) [OF assms(1) moved(1)] assms(2,3) show ?thesis by (auto simp: attempt_ok_def)
next
  case (refused c)
  then have "get_attempt l i = Some b" using assms(3) by simp
  with refused get_attempt_ok(2) [OF assms(1) this] show ?thesis
    by (auto simp: transition_def attempt_ok_def success_def failure_def split: if_splits)
qed

lemma close_live_is_transition:
  obtains st rs k where "close_live_attempt reason l a = snd (transition l (att_id a) st rs k reason True)"
    and "is_terminal st"
proof (cases "in_flight a")
  case True
  then show ?thesis by (intro that [of AttemptState.kOutcomeUnknown]) (simp_all add: close_live_attempt_def mark_ambiguous_def)
next
  case False
  then show ?thesis by (intro that [of AttemptState.kFenced]) (simp_all add: close_live_attempt_def mark_fenced_def)
qed

lemma close_live_get:
  assumes "attempts_inv l"
  shows "j \<noteq> att_id a \<Longrightarrow> get_attempt (close_live_attempt reason l a) j = get_attempt l j"
    and "get_attempt (close_live_attempt reason l a) (att_id a) = Some b \<Longrightarrow> is_terminal (att_state b)"
  using transition_other [OF assms] transition_closes [OF assms] close_live_is_transition [of reason l a] by metis+

lemma close_all_get:
  assumes "attempts_inv l" and "get_attempt (foldl (close_live_attempt reason) l as) j = Some b"
  shows "is_terminal (att_state b) \<or> get_attempt l j = Some b \<and> j \<notin> att_id ` set as"
  using assms
proof (induction as arbitrary: l)
  case (Cons a as)
  have "attempts_inv (close_live_attempt reason l a)"
    using attempt_step_inv [OF Cons.prems(1) close_live_attempt_step] .
  from Cons.IH [OF this] Cons.prems close_live_get [OF Cons.prems(1)] show ?case by (cases "j = att_id a") auto
qed simp

lemma fence_attempts_ledger:
  "sc_attempts (foldl (fence_attempt reason) s as) = foldl (close_live_attempt reason) (sc_attempts s) as"
  "sc_workers (foldl (fence_attempt reason) s as) = sc_workers s"
  "sc_domains (foldl (fence_attempt reason) s as) = sc_domains s"
  by (induction as arbitrary: s) (simp_all add: fence_attempt_def)

lemma invalidate_ledger:
  "sc_attempts (foldl (invalidate_reservations reason) s ds) = sc_attempts s"
  "sc_workers (foldl (invalidate_reservations reason) s ds) = sc_workers s"
  "sc_domains (foldl (invalidate_reservations reason) s ds) = sc_domains s"
  by (induction ds arbitrary: s) (simp_all add: invalidate_reservations_def)

lemma save_on_mutation_frame:
  "sc_attempts (save_on_mutation save s) = sc_attempts s" "sc_workers (save_on_mutation save s) = sc_workers s"
  "sc_domains (save_on_mutation save s) = sc_domains s"
  by (simp_all add: save_on_mutation_def save_state_def save_state_to_def Let_def split_beta)

lemma fenced_domains:
  assumes "find_domain (snd (fence_registry_boot g boot reason)) d = Some r" and "dr_worker_boot r = boot"
  shows "dr_fenced r"
proof -
  let ?f = "\<lambda>r. if dr_worker_boot r = boot \<and> \<not> dr_fenced r then fenced_record reason r else r"
  have "find_domain (snd (fence_registry_boot g boot reason)) d = map_option ?f (find_domain g d)"
    by (simp add: fence_registry_boot_def find_domain_def Let_def map_of_map_values [where f = ?f])
  moreover have "dr_fenced (fenced_record reason r)" for r by (simp add: fenced_record_def bump_def)
  ultimately show ?thesis using assms by (cases "find_domain g d") (auto split: if_splits)
qed

definition boot_fenced :: "Scheduler \<Rightarrow> u64 \<Rightarrow> bool" where
  "boot_fenced s boot \<longleftrightarrow>
     boot \<in> set (wa_fenced (sc_workers s))
     \<and> (\<forall>worker. \<not> is_current (sc_workers s) worker boot)
     \<and> (\<forall>d r. find_domain (sc_domains s) d = Some r \<and> dr_worker_boot r = boot \<longrightarrow> dr_fenced r)
     \<and> (\<forall>i a. get_attempt (sc_attempts s) i = Some a \<and> att_worker_boot a = boot \<longrightarrow> is_terminal (att_state a))"

lemma fence_worker_boot_fences:
  assumes "attempts_inv (sc_attempts s)"
  shows "boot_fenced (snd (fence_worker_boot save s boot reason)) boot"
proof -
  have st: "st_ok (fst (fence_boot (sc_workers s) boot reason))" by (simp add: fence_boot_def Let_def)
  let ?s = "snd (fence_worker_boot save s boot reason)"
  let ?s1 = "s\<lparr>sc_workers := snd (fence_boot (sc_workers s) boot reason),
                sc_domains := snd (fence_registry_boot (sc_domains s) boot reason)\<rparr>"
  obtain ds where s': "?s = save_on_mutation save (foldl (fence_attempt (''worker incarnation fenced: '' @ reason))
      (foldl (invalidate_reservations reason) ?s1 ds)
      (filter (\<lambda>a. att_worker_boot a = boot) (list_live (sc_attempts (foldl (invalidate_reservations reason) ?s1 ds)))))"
    using st by (simp only: fence_worker_boot_def split_beta Let_def if_False not_True_eq_False snd_conv)
  have w: "sc_workers ?s = snd (fence_boot (sc_workers s) boot reason)"
    and d: "sc_domains ?s = snd (fence_registry_boot (sc_domains s) boot reason)"
    and a: "sc_attempts ?s = foldl (close_live_attempt (''worker incarnation fenced: '' @ reason)) (sc_attempts s)
              (filter (\<lambda>a. att_worker_boot a = boot) (list_live (sc_attempts s)))"
    unfolding s' save_on_mutation_frame fence_attempts_ledger invalidate_ledger by simp_all
  have "is_terminal (att_state b)" if "get_attempt (sc_attempts ?s) i = Some b" "att_worker_boot b = boot" for i b
  proof (rule ccontr)
    assume live: "\<not> is_terminal (att_state b)"
    then have b: "get_attempt (sc_attempts s) i = Some b"
        "i \<notin> att_id ` set (filter (\<lambda>a. att_worker_boot a = boot) (list_live (sc_attempts s)))"
      using close_all_get [OF assms that(1) [unfolded a]] by simp_all
    have "att_id b = i" using get_attempt_ok(1) [OF assms b(1)] .
    with b live that(2) get_attempt_listed [OF assms b(1)] show False by (force simp: list_live_def)
  qed
  moreover have "boot \<in> set (wa_fenced (sc_workers ?s))" unfolding w fence_boot_fenced by simp
  moreover have "dr_fenced r" if "find_domain (sc_domains ?s) dom = Some r" "dr_worker_boot r = boot" for dom r
    using that fenced_domains unfolding d by blast
  ultimately show ?thesis unfolding boot_fenced_def is_current_def by auto
qed

section \<open>Completions that arrive on a session\<close>

lemma complete_changes:
  assumes "attempts_inv (sc_attempts s)"
    and "get_attempt (sc_attempts (snd (complete s submission))) i \<noteq> get_attempt (sc_attempts s) i"
  obtains a where "i = sub_attempt submission" and "get_attempt (sc_attempts s) i = Some a"
    and "completion_verdict False submission a = CompletionRejection.kAccepted"
    and "sub_coordinator_epoch submission = sc_epoch s"
    and "get_attempt (sc_attempts (snd (complete s submission))) i = Some (completed_attempt a (sub_result submission))"
proof -
  have e: "sub_coordinator_epoch submission = sc_epoch s" using assms(2) by (auto simp: complete_def split: if_splits)
  then have l: "sc_attempts (snd (complete s submission)) = snd (commit_completion (sc_attempts s) submission False)"
    by (simp add: complete_def split_beta Let_def release_held_def erase_plan_def)
  show thesis
  proof (cases rule: completion_cases [of "sc_attempts s" submission False])
    case unchanged
    with assms(2) l show ?thesis by simp
  next
    case (accepted a)
    then have g: "get_attempt (sc_attempts (snd (complete s submission))) =
        (get_attempt (sc_attempts s))(sub_attempt submission \<mapsto> completed_attempt a (sub_result submission))"
      using replace_attempt(2) [OF assms(1) accepted(1)] l by simp
    with assms(2) have "i = sub_attempt submission" by (auto split: if_splits)
    with that accepted e g show ?thesis by simp
  qed
qed

lemma handle_completion_changes:
  assumes "attempts_inv (sc_attempts (co_scheduler co))"
    and "get_attempt (sc_attempts (co_scheduler (snd (handle_completion co se m)))) i
           \<noteq> get_attempt (sc_attempts (co_scheduler co)) i"
  shows "st_ok (validate_worker_identity se (sub_worker (cl_submission m)) (sub_worker_boot (cl_submission m)))
         \<and> get_attempt (sc_attempts (snd (complete (co_scheduler co) (cl_submission m)))) i
             \<noteq> get_attempt (sc_attempts (co_scheduler co)) i"
  using assms(2) by (auto simp: handle_completion_def Let_def split_beta split: if_splits)

section \<open>Properties\<close>

text \<open>The coordinator of the witnesses: one registered worker session with an attempt in flight.\<close>

definition demo_config :: CoordinatorConfig where
  "demo_config =
     \<lparr>cc_bind_host = ''127.0.0.1'', cc_port = 0, cc_scheduler = default_options, cc_max_sessions = 32,
      cc_max_frame_bytes = kMaxFrameBytes\<rparr>"

definition demo_session :: Session where
  "demo_session =
     \<lparr>se_id = 1, se_max_frame = kMaxFrameBytes, se_closed = False,
      se_view = \<lparr>sv_session_id = 1, sv_peer = [], sv_role = PeerRole.kWorker, sv_name = ''worker'',
                 sv_worker = 11, sv_boot = 9, sv_registered = True, sv_closed = False\<rparr>,
      se_domains = [7]\<rparr>"

definition demo_coordinator :: Coordinator where
  "demo_coordinator =
     (new_coordinator demo_config)
       \<lparr>co_scheduler := (new_scheduler default_options)\<lparr>sc_attempts := attempts_2, sc_epoch := 1\<rparr>,
        co_channel_set := True, co_running := True, co_sessions := [(1, demo_session)],
        co_next_session_id := 1\<rparr>"

definition demo_network :: Network where
  "demo_network = \<lparr>nw_send = (\<lambda>_ _. success), nw_arrivals = (\<lambda>_. [])\<rparr>"

lemma demo_coordinator_inv: "scheduler_inv (co_scheduler demo_coordinator)"
  using new_scheduler_inv [of default_options] sample_attempts_inv [OF attempts_reachable(3)]
  by (simp add: demo_coordinator_def scheduler_inv_def)

lemma demo_frame:
  "decode_message MessageType.kCompletion (calls_bytes (message_calls (CompletionMsg \<lparr>cl_submission = sample_submission\<rparr>)))
     = Some (CompletionMsg \<lparr>cl_submission = sample_submission\<rparr>)"
proof -
  have "sendable_message (CompletionMsg \<lparr>cl_submission = sample_submission\<rparr>)"
    by (simp add: sendable_Completion_def sendable_submission_def sample_submission_def sample_payload_def valid_def)
  from message_decodes [OF this] show ?thesis
    by (simp add: wire_submission_def sample_submission_def sample_payload_def)
qed





text \<open>
  C9. Losing the connection of a worker ends its authority, whatever it sent before. When the session
  of a registered worker closes, the session is gone and receives nothing more, its incarnation is
  fenced and current for no worker, every domain it published is fenced and none of its attempts is
  live; and the loop that serves a connection always ends by closing its session.
\<close>

theorem lost_worker_is_fenced:
  assumes "scheduler_inv (co_scheduler co)" and "sessions_ok co"
    and "map_of (co_sessions co) sid = Some se" and "is_worker se"
  shows "boot_fenced (co_scheduler (on_session_closed save co sid)) (sv_boot (se_view se))
         \<and> (\<forall>d se'. session_for_domain (on_session_closed save co sid) d = Some se' \<longrightarrow> se_id se' \<noteq> sid)
         \<and> map_of (co_sessions (snd (session_loop nw save co sid input))) sid = None"
proof (intro conjI allI impI)
  show "boot_fenced (co_scheduler (on_session_closed save co sid)) (sv_boot (se_view se))"
    using assms fence_worker_boot_fences [of "co_scheduler co"]
    by (simp add: on_session_closed_def Let_def scheduler_inv_def)
  show "se_id se' \<noteq> sid" if found: "session_for_domain (on_session_closed save co sid) d = Some se'" for d se'
  proof -
    obtain k where "(k, se') \<in> set (AList.delete sid (co_sessions co))"
      using found unfolding session_for_domain_def on_session_closed_frame map_option_eq_Some find_Some_iff
      by (metis nth_mem prod.collapse)
    then have "(k, se') \<in> set (co_sessions co)" "k \<noteq> sid" by (auto simp: AList.delete_eq)
    with assms(2) show ?thesis by (auto simp: sessions_ok_def list_all_iff session_ok_def)
  qed
  show "map_of (co_sessions (snd (session_loop nw save co sid input))) sid = None"
    by (induction nw save co sid input rule: session_loop.induct)
       (subst session_loop.simps, auto simp: delete_conv' split: prod.splits)
qed

theorem lost_worker_is_fenced_witness:
  "boot_fenced (co_scheduler (on_session_closed demo_save demo_coordinator 1)) 9"
proof -
  have "sessions_ok demo_coordinator"
    by (simp add: sessions_ok_def session_ok_def demo_coordinator_def new_coordinator_def demo_config_def demo_session_def)
  moreover have "map_of (co_sessions demo_coordinator) 1 = Some demo_session" "is_worker demo_session"
    "sv_boot (se_view demo_session) = 9"
    by (simp_all add: demo_coordinator_def is_worker_def demo_session_def)
  ultimately show ?thesis using lost_worker_is_fenced [OF demo_coordinator_inv] by metis
qed

text \<open>
  C40. A worker session that greets a second time as another role escapes the fence: the greeting is
  accepted, the incarnation it had registered stays as it was, and closing the connection afterwards
  leaves the scheduler untouched.
\<close>

theorem second_hello_escapes_fencing:
  assumes "map_of (co_sessions co) sid = Some se" and "se_id se = sid" and "is_worker se"
    and "hm_role hello \<noteq> PeerRole.kWorker"
  shows "co_scheduler (on_session_closed save (snd (handle_hello co se hello)) sid) = co_scheduler co"
  using assms by (simp add: handle_hello_def Let_def on_session_closed_def put_session_def is_worker_def)

theorem second_hello_escapes_fencing_witness:
  "co_scheduler (on_session_closed demo_save (snd (handle_hello demo_coordinator demo_session
     \<lparr>hm_role = PeerRole.kClient, hm_name = ''worker'', hm_worker = 0, hm_boot = 0, hm_host = [], hm_pid = 0, hm_version = []\<rparr>)) 1)
   = co_scheduler demo_coordinator"
  using second_hello_escapes_fencing [of demo_coordinator 1 demo_session]
  by (simp add: demo_coordinator_def is_worker_def demo_session_def)

text \<open>
  A dispatch rejection is acted on without asking who sent it: on any session, registered or not, it
  fails a live attempt of any worker.
\<close>

theorem any_session_can_fail_an_attempt:
  assumes "attempts_inv (sc_attempts (co_scheduler co))"
    and "get_attempt (sc_attempts (co_scheduler co)) (dj_attempt m) = Some a"
    and "\<not> is_terminal (att_state a)"
  shows "\<exists>b. get_attempt (sc_attempts (co_scheduler (snd (handle_dispatch_rejected co se m)))) (dj_attempt m) = Some b
             \<and> att_state b = AttemptState.kFailed"
proof -
  have c: "\<not> att_completion_committed a"
    using get_attempt_ok(2) [OF assms(1,2)] assms(3) by (auto simp: attempt_ok_def split: if_splits)
  have "sc_attempts (co_scheduler (snd (handle_dispatch_rejected co se m))) =
      snd (mark_failed (sc_attempts (co_scheduler co)) (dj_attempt m) FailureKind.kPreDispatchRejection
             (dj_code m @ '' '' @ dj_detail m))"
    using assms(2) by (simp add: handle_dispatch_rejected_def split_beta report_failure_def Let_def release_held_def)
  also have "get_attempt \<dots> (dj_attempt m) = Some (transitioned a AttemptState.kFailed
      AttemptResolution.kAuthoritativeFailure FailureKind.kPreDispatchRejection (dj_code m @ '' '' @ dj_detail m))"
    using assms c replace_attempt(2) [OF assms(1,2)] by (simp add: mark_failed_def transition_def attempt_ok_def)
  finally show ?thesis by simp
qed

end
