(* ===== verification/Tos_Worker.thy ===== *)
theory Tos_Worker
  imports Tos_Coordinator
begin

text \<open>
  The worker process (\<^verbatim>\<open>src/src/dist/worker.cpp\<close>) and the client of the coordinator
  (\<^verbatim>\<open>src/src/dist/client.cpp\<close>). The backend of a worker is a parameter: what it discovers, executes and
  cancels. The socket is a parameter too: the bytes the coordinator sent are an argument, the answer of
  \<^verbatim>\<open>send_all\<close> is the function \<open>answer\<close>, and the frames handed to it are part of the result. The random
  identities drawn on construction are arguments.
\<close>

section \<open>Faults\<close>

datatype WorkerFault =
    kNone
  | kRejectDispatch
  | kDropCompletion
  | kAmbiguousCompletion
  | kFailureReport
  | kDieAfterApply
  | kStaleDomainGeneration

fun to_string_WorkerFault :: "WorkerFault \<Rightarrow> string" where
  "to_string_WorkerFault WorkerFault.kNone = ''none''"
| "to_string_WorkerFault WorkerFault.kRejectDispatch = ''reject_dispatch''"
| "to_string_WorkerFault WorkerFault.kDropCompletion = ''drop_completion''"
| "to_string_WorkerFault WorkerFault.kAmbiguousCompletion = ''ambiguous_completion''"
| "to_string_WorkerFault WorkerFault.kFailureReport = ''failure_report''"
| "to_string_WorkerFault WorkerFault.kDieAfterApply = ''die_after_apply''"
| "to_string_WorkerFault WorkerFault.kStaleDomainGeneration = ''stale_domain_generation''"

definition parse_worker_fault :: "string \<Rightarrow> WorkerFault option" where
  "parse_worker_fault s =
     map_of
       [(''none'', WorkerFault.kNone), (''reject-dispatch'', WorkerFault.kRejectDispatch),
        (''drop-completion'', WorkerFault.kDropCompletion),
        (''ambiguous-completion'', WorkerFault.kAmbiguousCompletion),
        (''failure-report'', WorkerFault.kFailureReport), (''die-after-apply'', WorkerFault.kDieAfterApply),
        (''stale-domain-generation'', WorkerFault.kStaleDomainGeneration)] s"

section \<open>State\<close>

record WorkerConfig =
  wc_name :: string
  wc_host :: string
  wc_domain_id_base :: u64
  wc_provenance :: Provenance
  wc_fault :: WorkerFault
  wc_fault_after_executions :: u32
  wc_max_frame_bytes :: nat
  wc_publish_domains :: bool

record OffloadWorker =
  ow_config :: WorkerConfig
  ow_worker :: u64
  ow_boot :: u64
  ow_epoch :: u64
  ow_stopping :: bool
  ow_connected :: bool
  ow_executions :: u64
  ow_accepted :: u64
  ow_domains :: "ExecutionDomainRecord list"
  ow_backend_identity :: "(u64 \<times> u64) list"

record ExecutionBackend =
  be_discover :: "ExecutionDomainRecord list"
  be_execute :: "ExecutionInvocation \<Rightarrow> ExecutionOutcome"
  be_cancel :: "u64 \<Rightarrow> Status"

definition new_worker :: "WorkerConfig \<Rightarrow> u64 \<Rightarrow> u64 \<Rightarrow> OffloadWorker" where
  "new_worker config worker boot =
     \<lparr>ow_config = config, ow_worker = worker, ow_boot = boot, ow_epoch = 0, ow_stopping = False,
      ow_connected = False, ow_executions = 0, ow_accepted = 0, ow_domains = [],
      ow_backend_identity = []\<rparr>"

type_synonym frames = "u8 list list"

definition worker_emit :: "OffloadWorker \<Rightarrow> WireMessage \<Rightarrow> frames" where
  "worker_emit wk w =
     (case send_message w (wc_max_frame_bytes (ow_config wk)) of Bad st \<Rightarrow> [] | Good bytes \<Rightarrow> [bytes])"

definition worker_send :: "(u8 list \<Rightarrow> Status) \<Rightarrow> OffloadWorker \<Rightarrow> WireMessage \<Rightarrow> Status" where
  "worker_send answer wk w =
     (case send_message w (wc_max_frame_bytes (ow_config wk)) of Bad st \<Rightarrow> st | Good bytes \<Rightarrow> answer bytes)"

definition worker_emit_error :: "OffloadWorker \<Rightarrow> string \<Rightarrow> string \<Rightarrow> frames" where
  "worker_emit_error wk code detail = worker_emit wk (ErrorMsg \<lparr>er_code = code, er_detail = detail\<rparr>)"

definition emit_rejection :: "OffloadWorker \<Rightarrow> DispatchEnvelope \<Rightarrow> string \<Rightarrow> string \<Rightarrow> frames" where
  "emit_rejection wk e code detail =
     worker_emit wk (DispatchRejectedMsg \<lparr>dj_attempt = en_attempt e, dj_dispatch = en_dispatch e,
       dj_code = code, dj_detail = detail\<rparr>)"

definition emit_failure :: "OffloadWorker \<Rightarrow> DispatchEnvelope \<Rightarrow> FailureKind \<Rightarrow> string \<Rightarrow> frames" where
  "emit_failure wk e kind detail =
     worker_emit wk (FailureReportMsg \<lparr>fr_attempt = en_attempt e, fr_generation = en_attempt_generation e,
       fr_dispatch = en_dispatch e, fr_boot = ow_boot wk, fr_epoch = ow_epoch wk, fr_kind = kind,
       fr_detail = detail\<rparr>)"

definition local_domain :: "OffloadWorker \<Rightarrow> u64 \<Rightarrow> u64" where
  "local_domain wk domain = get_or domain (ow_backend_identity wk) domain"

definition worker_find_domain :: "OffloadWorker \<Rightarrow> u64 \<Rightarrow> ExecutionDomainRecord option" where
  "worker_find_domain wk i = find (\<lambda>r. dr_id r = i) (ow_domains wk)"

definition fault_active :: "OffloadWorker \<Rightarrow> bool" where
  "fault_active wk \<longleftrightarrow>
     wc_fault (ow_config wk) \<noteq> WorkerFault.kNone
     \<and> ow_executions wk \<ge> ucast (wc_fault_after_executions (ow_config wk))"

definition worker_request_stop :: "OffloadWorker \<Rightarrow> OffloadWorker" where
  "worker_request_stop wk = wk\<lparr>ow_stopping := True\<rparr>"

text \<open>The destructor says goodbye on a live connection.\<close>

definition worker_farewell :: "OffloadWorker \<Rightarrow> frames" where
  "worker_farewell wk =
     (if ow_connected wk then worker_emit wk (GoodbyeMsg \<lparr>gb_reason = ''worker exiting''\<rparr>) else [])"

section \<open>Registration\<close>

definition published_record ::
    "OffloadWorker \<Rightarrow> u64 \<Rightarrow> ExecutionDomainRecord \<Rightarrow> ExecutionDomainRecord" where
  "published_record wk i r =
     (let host = (if wc_host (ow_config wk) = [] then dr_parent_host r else wc_host (ow_config wk));
          given = wc_provenance (ow_config wk);
          provenance = (\<lambda>p. if given \<noteq> Provenance.kReal then given else p)
      in r\<lparr>dr_id := i, dr_worker := ow_worker wk, dr_worker_boot := ow_boot wk, dr_parent_host := host,
           dr_provenance := provenance (dr_provenance r),
           dr_capability := (dr_capability r)
             \<lparr>cap_provenance := provenance (cap_provenance (dr_capability r)), cap_domain := i,
              cap_generation := gen_first, cap_evidence := gen_first, cap_publisher := ow_boot wk\<rparr>,
           dr_generation := gen_first, dr_locality := (dr_locality r)\<lparr>lo_generation := gen_first\<rparr>,
           dr_topology := (dr_topology r)\<lparr>to_generation := gen_first, to_host_node := host\<rparr>,
           dr_compatibility := (dr_compatibility r)\<lparr>cm_generation := gen_first\<rparr>,
           dr_backend_generation := gen_first\<rparr>)"

text \<open>A list of sends in order, stopping at the first that fails: the status and the frames sent.\<close>

fun send_all_of :: "(u8 list \<Rightarrow> Status) \<Rightarrow> OffloadWorker \<Rightarrow> WireMessage list \<Rightarrow> Status \<times> frames" where
  "send_all_of answer wk [] = (success, [])"
| "send_all_of answer wk (w # ws) =
     (let st = worker_send answer wk w in
      if \<not> st_ok st then (st, worker_emit wk w)
      else case send_all_of answer wk ws of (st', out) \<Rightarrow> (st', worker_emit wk w @ out))"

fun publish_discovered ::
    "(u8 list \<Rightarrow> Status) \<Rightarrow> OffloadWorker \<Rightarrow> u64 \<Rightarrow> ExecutionDomainRecord list \<Rightarrow>
       Status \<times> frames \<times> OffloadWorker" where
  "publish_discovered answer wk i [] = (success, [], wk)"
| "publish_discovered answer wk i (r # rs) =
     (let p = published_record wk i r;
          wk1 = wk\<lparr>ow_backend_identity := AList.update i (dr_id r) (ow_backend_identity wk),
                   ow_domains := ow_domains wk @ [p]\<rparr>
      in case send_all_of answer wk1 [DomainPublishMsg \<lparr>dp_record = p\<rparr>,
                CapabilityPublishMsg \<lparr>cp_capability = dr_capability p\<rparr>,
                LoadUpdateMsg \<lparr>lu_domain = i, lu_load = dr_load p\<rparr>] of
           (st, out) \<Rightarrow>
             if \<not> st_ok st then (st, out, wk1)
             else case publish_discovered answer wk1 (i + 1) rs of (st', out', wk') \<Rightarrow> (st', out @ out', wk'))"

definition domain_base :: "OffloadWorker \<Rightarrow> u64 \<Rightarrow> u64" where
  "domain_base wk random =
     (if wc_domain_id_base (ow_config wk) \<noteq> 0 then wc_domain_id_base (ow_config wk)
      else push_bit 16 (random AND 0x0000FFFFFFFF))"

definition hello_of :: "OffloadWorker \<Rightarrow> HelloMessage" where
  "hello_of wk =
     \<lparr>hm_role = PeerRole.kWorker, hm_name = wc_name (ow_config wk), hm_worker = ow_worker wk,
      hm_boot = ow_boot wk, hm_host = wc_host (ow_config wk), hm_pid = 0, hm_version = kVersionString\<rparr>"

text \<open>
  \<^verbatim>\<open>connect_and_register\<close>: \<open>connected\<close> is the answer of the connection attempts, \<open>valid_socket\<close> whether the
  socket is still valid after the greeting, \<open>lost\<close> the status of a failed \<^verbatim>\<open>recv_exact\<close>, \<open>input\<close> what the
  coordinator sent and \<open>random\<close> the number drawn for the domain identities.
\<close>

definition accept_ack :: "HelloAckMessage \<Rightarrow> Status" where
  "accept_ack ack =
     (if ha_accepted ack then success
      else failure (if ha_code ack = [] then ''worker.rejected'' else ha_code ack) (ha_detail ack))"

definition handshake :: "OffloadWorker \<Rightarrow> Status \<Rightarrow> u8 list \<Rightarrow> Status + HelloAckMessage" where
  "handshake wk lost input =
     (case read_frame (wc_max_frame_bytes (ow_config wk)) input of
        Lost \<Rightarrow> Inl lost
      | HeaderRejected e rest \<Rightarrow> Inl (failure (''protocol.'' @ to_string_DecodeError e) [])
      | FrameRejected st rest \<Rightarrow> Inl st
      | Arrived frame rest \<Rightarrow>
          if fm_type frame \<noteq> MessageType.kHelloAck
          then Inl (failure ''worker.unexpected_handshake'' (decimal (unat (message_code (fm_type frame)))))
          else decoding take_HelloAck (fm_payload frame) (Inl (failure ''worker.malformed_hello_ack'' []))
                 (\<lambda>ack. let st = accept_ack ack in if st_ok st then Inr ack else Inl st))"

definition connect_and_register ::
    "(u8 list \<Rightarrow> Status) \<Rightarrow> ExecutionBackend option \<Rightarrow> Status \<Rightarrow> bool \<Rightarrow> Status \<Rightarrow> u8 list \<Rightarrow> u64 \<Rightarrow> OffloadWorker \<Rightarrow>
       Status \<times> frames \<times> OffloadWorker" where
  "connect_and_register answer backend connected valid_socket lost input random wk =
     (case backend of
        None \<Rightarrow> (failure ''worker.no_backend'' [], [], wk)
      | Some be \<Rightarrow>
          if \<not> st_ok connected then (connected, [], wk)
          else
            let hello = HelloMsg (hello_of wk); sent = worker_send answer wk hello; out = worker_emit wk hello in
            if \<not> st_ok sent then (sent, out, wk)
            else if \<not> valid_socket then (failure ''worker.socket_closed'' [], out, wk)
            else case handshake wk lost input of
                   Inl st \<Rightarrow> (st, out, wk)
                 | Inr ack \<Rightarrow>
                     let wk1 = wk\<lparr>ow_epoch := ha_epoch ack, ow_connected := True\<rparr> in
                     if wc_publish_domains (ow_config wk1)
                     then case publish_discovered answer wk1 (domain_base wk1 random) (be_discover be) of
                            (st, out', wk2) \<Rightarrow> (st, out @ out', wk2)
                     else (success, out, wk1))"

text \<open>\<^verbatim>\<open>publish_load\<close> sends the next generations of the stored evidence; the stored evidence stays as it is.\<close>

definition next_load :: "ExecutionDomainRecord \<Rightarrow> WireMessage" where
  "next_load r =
     LoadUpdateMsg \<lparr>lu_domain = dr_id r,
       lu_load = (dr_load r)\<lparr>ld_load_generation := ld_load_generation (dr_load r) + 1,
         ld_queue_generation := ld_queue_generation (dr_load r) + 1,
         ld_health_generation := ld_health_generation (dr_load r) + 1,
         ld_evidence := ld_evidence (dr_load r) + 1\<rparr>\<rparr>"

definition worker_publish_load :: "(u8 list \<Rightarrow> Status) \<Rightarrow> OffloadWorker \<Rightarrow> Status \<times> frames" where
  "worker_publish_load answer wk = send_all_of answer wk (map next_load (ow_domains wk))"

section \<open>Serving dispatches\<close>

text \<open>How the identity checks answer an envelope: the code and text of a rejection, or nothing.\<close>

definition dispatch_refusal :: "OffloadWorker \<Rightarrow> DispatchEnvelope \<Rightarrow> (string \<times> string) option" where
  "dispatch_refusal wk e =
     (if en_coordinator_epoch e \<noteq> ow_epoch wk
      then Some (''worker.stale_epoch'', ''dispatch carries a coordinator epoch this worker does not serve'')
      else if en_worker_boot e \<noteq> ow_boot wk
      then Some (''worker.stale_boot'', ''dispatch targets a different worker incarnation'')
      else if worker_find_domain wk (en_domain e) = None
      then Some (''worker.unknown_domain'', ''this worker does not own the requested domain'')
      else if \<not> published (en_domain_generation e)
      then Some (''worker.unpublished_domain_generation'',
                 ''dispatch does not name the domain generation it was planned against'')
      else if wc_fault (ow_config wk) = WorkerFault.kRejectDispatch \<and> fault_active wk
      then Some (''worker.injected_rejection'', ''worker is configured to refuse dispatches'')
      else None)"

definition worker_invocation :: "OffloadWorker \<Rightarrow> DispatchEnvelope \<Rightarrow> ExecutionInvocation" where
  "worker_invocation wk e = (invocation_of e)\<lparr>iv_domain := local_domain wk (en_domain e)\<rparr>"

definition worker_completion :: "OffloadWorker \<Rightarrow> DispatchEnvelope \<Rightarrow> ExecutionOutcome \<Rightarrow> CompletionSubmission" where
  "worker_completion wk e outcome =
     \<lparr>sub_attempt = en_attempt e, sub_generation = en_attempt_generation e, sub_dispatch = en_dispatch e,
      sub_completion = en_attempt e, sub_worker = ow_worker wk, sub_worker_boot = ow_boot wk,
      sub_coordinator_epoch = ow_epoch wk, sub_domain_generation = en_domain_generation e,
      sub_capability_generation = en_capability_generation e, sub_operation = en_operation e,
      sub_provenance = en_provenance e,
      sub_result = \<lparr>rp_success = eo_success outcome, rp_result_digest = eo_result_digest outcome,
                    rp_bytes_processed = eo_bytes_processed outcome,
                    rp_duration_ns = eo_duration_ns outcome,
                    rp_failure = (if eo_success outcome then FailureKind.kNone else eo_failure outcome),
                    rp_backend_detail = (if eo_detail outcome = [] then ''worker'' else eo_detail outcome)\<rparr>\<rparr>"

text \<open>What is reported of an execution, before the completion itself is sent.\<close>

datatype Report = Silence | Failed FailureKind string | Completed

definition report_of :: "OffloadWorker \<Rightarrow> ExecutionOutcome \<Rightarrow> Report" where
  "report_of wk outcome =
     (let fault = wc_fault (ow_config wk); faulted = fault_active wk; detail = eo_detail outcome in
      if faulted \<and> fault = WorkerFault.kDropCompletion then Silence
      else if faulted \<and> fault = WorkerFault.kAmbiguousCompletion
      then Failed FailureKind.kAmbiguousOutcome ''worker applied the operation but cannot confirm the outcome''
      else if faulted \<and> fault = WorkerFault.kFailureReport
      then Failed FailureKind.kExecutionFailure ''worker reported a definitive execution failure (injected)''
      else if eo_ambiguous outcome
      then Failed FailureKind.kAmbiguousOutcome (if detail = [] then ''worker cannot confirm the outcome'' else detail)
      else if \<not> eo_executed outcome
      then Failed (if eo_failure outcome = FailureKind.kNone then FailureKind.kBackendRejection else eo_failure outcome)
             (if detail = [] then ''backend rejected the operation'' else detail)
      else Completed)"

text \<open>The first component is false when the process is ended by \<^verbatim>\<open>std::_Exit\<close>.\<close>

definition handle_dispatch ::
    "(u8 list \<Rightarrow> Status) \<Rightarrow> (ExecutionInvocation \<Rightarrow> ExecutionOutcome) \<Rightarrow> OffloadWorker \<Rightarrow> DispatchRequestMessage \<Rightarrow>
       bool \<times> frames \<times> OffloadWorker" where
  "handle_dispatch answer execute wk m =
     (let e = dq_envelope m in
      case dispatch_refusal wk e of
        Some (code, detail) \<Rightarrow> (True, emit_rejection wk e code detail, wk)
      | None \<Rightarrow>
          let accepted = DispatchAcceptedMsg \<lparr>da_attempt = en_attempt e, da_generation = en_attempt_generation e,
                           da_dispatch = en_dispatch e, da_boot = ow_boot wk\<rparr>;
              out = worker_emit wk accepted
          in if \<not> st_ok (worker_send answer wk accepted) then (True, out, wk\<lparr>ow_stopping := True\<rparr>)
             else
               let outcome = execute (worker_invocation wk e);
                   wk1 = wk\<lparr>ow_accepted := ow_accepted wk + 1, ow_executions := ow_executions wk + 1\<rparr>
               in if fault_active wk1 \<and> wc_fault (ow_config wk1) = WorkerFault.kDieAfterApply then (False, out, wk1)
                  else case report_of wk1 outcome of
                         Silence \<Rightarrow> (True, out, wk1)
                       | Failed kind detail \<Rightarrow> (True, out @ emit_failure wk1 e kind detail, wk1)
                       | Completed \<Rightarrow>
                           let completion = CompletionMsg \<lparr>cl_submission = worker_completion wk1 e outcome\<rparr> in
                           (True, out @ worker_emit wk1 completion,
                            if st_ok (worker_send answer wk1 completion) then wk1 else wk1\<lparr>ow_stopping := True\<rparr>))"

definition handle_cancel :: "(u64 \<Rightarrow> Status) \<Rightarrow> OffloadWorker \<Rightarrow> CancelRequestMessage \<Rightarrow> frames" where
  "handle_cancel backend_cancel wk m =
     (let e = cq_envelope m; cancelled = backend_cancel (cv_attempt e) in
      worker_emit wk (CancelResultMsg \<lparr>cx_attempt = cv_attempt e, cx_cancelled = st_ok cancelled,
        cx_may_have_executed = (\<not> st_ok cancelled \<or> cv_may_have_executed e),
        cx_detail = (if st_ok cancelled then ''cancellation honoured'' else st_code cancelled)\<rparr>))"

definition worker_handle ::
    "(u8 list \<Rightarrow> Status) \<Rightarrow> ExecutionBackend \<Rightarrow> OffloadWorker \<Rightarrow> Frame \<Rightarrow> bool \<times> frames \<times> OffloadWorker" where
  "worker_handle answer be wk frame =
     (let payload = fm_payload frame in
      case fm_type frame of
        MessageType.kDispatchRequest \<Rightarrow> decoding take_DispatchRequest payload
          (True, worker_emit_error wk ''protocol.malformed_dispatch'' ''dispatch rejected'', wk)
          (handle_dispatch answer (be_execute be) wk)
      | MessageType.kCancelRequest \<Rightarrow> decoding take_CancelRequest payload
          (True, worker_emit_error wk ''protocol.malformed_cancel'' ''cancel rejected'', wk)
          (\<lambda>m. (True, handle_cancel (be_cancel be) wk m, wk))
      | MessageType.kShutdownRequest \<Rightarrow>
          (True, worker_emit wk (GoodbyeMsg \<lparr>gb_reason = ''worker acknowledged shutdown''\<rparr>),
           wk\<lparr>ow_stopping := True\<rparr>)
      | MessageType.kFence \<Rightarrow> (True, [], wk)
      | MessageType.kError \<Rightarrow> (True, [], wk)
      | MessageType.kCompletionAck \<Rightarrow> (True, [], wk)
      | _ \<Rightarrow> (True, worker_emit_error wk ''protocol.unexpected_message_type''
                 (decimal (unat (message_code (fm_type frame)))), wk))"

text \<open>The loop of \<^verbatim>\<open>run\<close> over the bytes of the connection; no status is returned when the process died.\<close>

function worker_loop ::
    "(u8 list \<Rightarrow> Status) \<Rightarrow> ExecutionBackend \<Rightarrow> OffloadWorker \<Rightarrow> u8 list \<Rightarrow> bool \<times> frames \<times> OffloadWorker" where
  "worker_loop answer be wk input =
     (if ow_stopping wk then (True, [], wk)
      else case read_frame (wc_max_frame_bytes (ow_config wk)) input of
             Lost \<Rightarrow> (True, [], wk)
           | HeaderRejected e rest \<Rightarrow>
               (True, worker_emit_error wk (''protocol.'' @ to_string_DecodeError e) ''frame header rejected'', wk)
           | FrameRejected st rest \<Rightarrow> (True, worker_emit_error wk (st_code st) ''frame rejected'', wk)
           | Arrived frame rest \<Rightarrow>
               (case worker_handle answer be wk frame of
                  (alive, out, wk1) \<Rightarrow>
                    if \<not> alive then (False, out, wk1)
                    else case worker_loop answer be wk1 rest of
                           (alive', later, wk2) \<Rightarrow> (alive', out @ later, wk2)))"
  by pat_completeness auto

termination
  by (relation "measure (\<lambda>(answer, be, wk, input). length input)") (auto dest: read_frame_shorter)

declare worker_loop.simps [simp del]

definition worker_run ::
    "(u8 list \<Rightarrow> Status) \<Rightarrow> ExecutionBackend \<Rightarrow> OffloadWorker \<Rightarrow> u8 list \<Rightarrow> Status option \<times> frames \<times> OffloadWorker" where
  "worker_run answer be wk input =
     (if \<not> ow_connected wk then (Some (failure ''worker.not_connected'' []), [], wk)
      else case worker_loop answer be wk input of
             (alive, out, wk') \<Rightarrow>
               if alive then (Some success, out, wk'\<lparr>ow_connected := False\<rparr>) else (None, out, wk'))"

section \<open>The client\<close>

record ClientConfig =
  cf_host :: string
  cf_port :: u16
  cf_name :: string
  cf_connect_attempts :: int
  cf_max_frame_bytes :: nat

record CoordinatorClient =
  cl_config :: ClientConfig
  cl_epoch :: u64
  cl_connected :: bool

definition new_client :: "ClientConfig \<Rightarrow> CoordinatorClient" where
  "new_client config = \<lparr>cl_config = config, cl_epoch = 0, cl_connected = False\<rparr>"

text \<open>
  \<^verbatim>\<open>exchange\<close>: send one frame and read one. The results are the frame read or the error, what was sent
  and the bytes left on the connection.
\<close>

definition exchange ::
    "(u8 list \<Rightarrow> Status) \<Rightarrow> Status \<Rightarrow> CoordinatorClient \<Rightarrow> WireMessage \<Rightarrow> u8 list \<Rightarrow> Frame Checked \<times> frames \<times> u8 list" where
  "exchange answer lost cl w input =
     (let limit = cf_max_frame_bytes (cl_config cl) in
      case send_message w limit of
        Bad st \<Rightarrow> (bad (st_code st) (st_message st), [], input)
      | Good bytes \<Rightarrow>
          let sent = answer bytes in
          if \<not> st_ok sent then (bad (st_code sent) (st_message sent), [bytes], input)
          else case read_frame limit input of
                 Lost \<Rightarrow> (bad (st_code lost) (st_message lost), [bytes], [])
               | HeaderRejected e rest \<Rightarrow> (bad (''protocol.'' @ to_string_DecodeError e) [], [bytes], rest)
               | FrameRejected st rest \<Rightarrow> (Bad st, [bytes], rest)
               | Arrived frame rest \<Rightarrow> (Good frame, [bytes], rest))"

text \<open>An error frame in place of the expected response carries its code to the caller.\<close>

definition error_response :: "Frame \<Rightarrow> string \<Rightarrow> Status" where
  "error_response frame otherwise_code =
     (if fm_type frame = MessageType.kError
      then decoding take_Error (fm_payload frame) (failure otherwise_code []) (\<lambda>m. failure (er_code m) (er_detail m))
      else failure otherwise_code [])"

definition client_hello :: "CoordinatorClient \<Rightarrow> HelloMessage" where
  "client_hello cl =
     \<lparr>hm_role = PeerRole.kClient, hm_name = cf_name (cl_config cl), hm_worker = 0, hm_boot = 0,
      hm_host = cf_host (cl_config cl), hm_pid = 0, hm_version = []\<rparr>"

definition connect_and_hello ::
    "(u8 list \<Rightarrow> Status) \<Rightarrow> Status \<Rightarrow> Status \<Rightarrow> CoordinatorClient \<Rightarrow> u8 list \<Rightarrow> Status \<times> frames \<times> CoordinatorClient" where
  "connect_and_hello answer connected lost cl input =
     (if \<not> st_ok connected then (connected, [], cl)
      else case exchange answer lost cl (HelloMsg (client_hello cl)) input of
             (Bad st, out, _) \<Rightarrow> (st, out, cl)
           | (Good frame, out, _) \<Rightarrow>
               if fm_type frame \<noteq> MessageType.kHelloAck
               then (error_response frame ''client.unexpected_handshake'', out, cl)
               else decoding take_HelloAck (fm_payload frame) (failure ''client.malformed_hello_ack'' [], out, cl)
                      (\<lambda>ack. if \<not> ha_accepted ack then (failure (ha_code ack) (ha_detail ack), out, cl)
                             else (success, out, cl\<lparr>cl_epoch := ha_epoch ack, cl_connected := True\<rparr>)))"

definition client_close :: "CoordinatorClient \<Rightarrow> Status \<times> frames \<times> CoordinatorClient" where
  "client_close cl =
     (if \<not> cl_connected cl then (success, [], cl)
      else (success,
            (case send_message (GoodbyeMsg \<lparr>gb_reason = ''client closing''\<rparr>) (cf_max_frame_bytes (cl_config cl)) of
               Bad st \<Rightarrow> [] | Good bytes \<Rightarrow> [bytes]),
            cl\<lparr>cl_connected := False\<rparr>))"

definition submit_message :: "OperationRequest \<Rightarrow> u8 list \<Rightarrow> bool \<Rightarrow> bool \<Rightarrow> WireMessage" where
  "submit_message request payload dispatch_now reserve_first =
     SubmitRequestMsg \<lparr>sq_request = request, sq_payload = payload, sq_dispatch_now = dispatch_now,
       sq_reserve_first = reserve_first\<rparr>"

definition client_submit ::
    "(u8 list \<Rightarrow> Status) \<Rightarrow> Status \<Rightarrow> CoordinatorClient \<Rightarrow> OperationRequest \<Rightarrow> u8 list \<Rightarrow> bool \<Rightarrow> bool \<Rightarrow> u8 list \<Rightarrow>
       SubmitResponseMessage Checked \<times> frames" where
  "client_submit answer lost cl request payload dispatch_now reserve_first input =
     (case exchange answer lost cl (submit_message request payload dispatch_now reserve_first) input of
        (Bad st, out, _) \<Rightarrow> (bad (st_code st) (st_message st), out)
      | (Good frame, out, _) \<Rightarrow>
          if fm_type frame \<noteq> MessageType.kSubmitResponse
          then (Bad (error_response frame ''client.unexpected_response''), out)
          else decoding take_SubmitResponse (fm_payload frame)
                 (bad ''client.malformed_submit_response'' [], out) (\<lambda>m. (Good m, out)))"

definition client_query ::
    "(u8 list \<Rightarrow> Status) \<Rightarrow> Status \<Rightarrow> CoordinatorClient \<Rightarrow> QueryKind \<Rightarrow> u64 \<Rightarrow> u8 list \<Rightarrow>
       QueryResponseMessage Checked \<times> frames" where
  "client_query answer lost cl kind i input =
     (case exchange answer lost cl (QueryRequestMsg \<lparr>qr_kind = kind, qr_id = i\<rparr>) input of
        (Bad st, out, _) \<Rightarrow> (bad (st_code st) (st_message st), out)
      | (Good frame, out, _) \<Rightarrow>
          if fm_type frame \<noteq> MessageType.kQueryResponse then (bad ''client.unexpected_response'' [], out)
          else decoding take_QueryResponse (fm_payload frame)
                 (bad ''client.malformed_query_response'' [], out) (\<lambda>m. (Good m, out)))"

definition client_admin ::
    "(u8 list \<Rightarrow> Status) \<Rightarrow> Status \<Rightarrow> CoordinatorClient \<Rightarrow> AdminAction \<Rightarrow> u64 \<Rightarrow> string \<Rightarrow> u64 \<Rightarrow> u8 list \<Rightarrow>
       AdminResponseMessage Checked \<times> frames" where
  "client_admin answer lost cl action i reason v input =
     (case exchange answer lost cl
             (AdminRequestMsg \<lparr>ar_action = action, ar_id = i, ar_reason = reason, ar_value = v\<rparr>) input of
        (Bad st, out, _) \<Rightarrow> (bad (st_code st) (st_message st), out)
      | (Good frame, out, _) \<Rightarrow>
          if fm_type frame \<noteq> MessageType.kAdminResponse then (bad ''client.unexpected_response'' [], out)
          else decoding take_AdminResponse (fm_payload frame)
                 (bad ''client.malformed_admin_response'' [], out) (\<lambda>m. (Good m, out)))"

section \<open>Dispatch, execution and completion together\<close>

lemma emit_deliverable: "deliverable (wc_max_frame_bytes (ow_config wk)) w \<Longrightarrow> worker_emit wk w = [sent_bytes w]"
  by (simp add: worker_emit_def delivered)

lemma send_deliverable:
  "deliverable (wc_max_frame_bytes (ow_config wk)) w \<Longrightarrow> worker_send answer wk w = answer (sent_bytes w)"
  by (simp add: worker_send_def delivered)

lemma worker_reads:
  assumes "\<not> ow_stopping wk" and "deliverable (wc_max_frame_bytes (ow_config wk)) w"
  shows "worker_loop answer be wk (sent_bytes w @ rest) =
           (case worker_handle answer be wk (sent_frame w) of
              (alive, out, wk1) \<Rightarrow>
                if \<not> alive then (False, out, wk1)
                else case worker_loop answer be wk1 rest of (alive', later, wk2) \<Rightarrow> (alive', out @ later, wk2))"
  using assms by (subst worker_loop.simps) (simp add: delivered)

lemma worker_idle: "worker_loop answer be wk [] = (True, [], wk)"
  by (subst worker_loop.simps) (simp add: read_frame_def kFrameHeaderBytes_def)

lemma session_reads:
  assumes "map_of (co_sessions co) sid = Some se" and "\<not> se_closed se" and "\<not> co_stopping co"
    and "deliverable (se_max_frame se) w"
  shows "session_turn nw save co sid (sent_bytes w @ rest) =
           (case handle_frame nw save co se (sent_frame w) of (out, co') \<Rightarrow> (True, out, co', rest))"
  using assms by (simp add: session_turn_def delivered)

lemma request_decodes:
  assumes "deliverable n (DispatchRequestMsg m)"
  shows "decoding take_DispatchRequest (fm_payload (sent_frame (DispatchRequestMsg m))) malformed f = f m"
  by (rule delivered_decoding [OF assms, where c = DispatchRequestMsg]) simp_all

lemma acceptance_decodes:
  assumes "deliverable n (DispatchAcceptedMsg m)"
  shows "decoding take_DispatchAccepted (fm_payload (sent_frame (DispatchAcceptedMsg m))) malformed f = f m"
  by (rule delivered_decoding [OF assms, where c = DispatchAcceptedMsg]) simp_all

lemma completion_decodes:
  assumes "deliverable n (CompletionMsg m)"
  shows "decoding take_Completion (fm_payload (sent_frame (CompletionMsg m))) malformed f
           = f (m\<lparr>cl_submission := wire_submission (cl_submission m)\<rparr>)"
  by (rule delivered_decoding [OF assms, where c = CompletionMsg]) simp_all

lemma query_decodes:
  assumes "deliverable n (QueryRequestMsg m)"
  shows "decoding take_QueryRequest (fm_payload (sent_frame (QueryRequestMsg m))) malformed f = f m"
  by (rule delivered_decoding [OF assms, where c = QueryRequestMsg]) simp_all

lemma response_decodes:
  assumes "deliverable n (QueryResponseMsg m)"
  shows "decoding take_QueryResponse (fm_payload (sent_frame (QueryResponseMsg m))) malformed f = f m"
  by (rule delivered_decoding [OF assms, where c = QueryResponseMsg]) simp_all

text \<open>The attempt an envelope was made for, as the coordinator's ledger holds it.\<close>

definition envelope_for :: "ExecutionAttempt \<Rightarrow> DispatchEnvelope \<Rightarrow> bool" where
  "envelope_for a e \<longleftrightarrow>
     att_id a = en_attempt e \<and> att_generation a = en_attempt_generation e
     \<and> (valid (att_dispatch a) \<longrightarrow> att_dispatch a = en_dispatch e) \<and> att_worker a = en_worker e
     \<and> att_worker_boot a = en_worker_boot e \<and> att_coordinator_epoch a = en_coordinator_epoch e
     \<and> att_domain_generation a = en_domain_generation e
     \<and> att_capability_generation a = en_capability_generation e
     \<and> att_operation a = en_operation e \<and> att_provenance a = en_provenance e"

lemma wire_submission_simps [simp]:
  "sub_attempt (wire_submission s) = sub_attempt s" "sub_generation (wire_submission s) = sub_generation s"
  "sub_dispatch (wire_submission s) = sub_dispatch s" "sub_worker (wire_submission s) = sub_worker s"
  "sub_worker_boot (wire_submission s) = sub_worker_boot s"
  "sub_coordinator_epoch (wire_submission s) = sub_coordinator_epoch s"
  "sub_domain_generation (wire_submission s) = sub_domain_generation s"
  "sub_capability_generation (wire_submission s) = sub_capability_generation s"
  "sub_operation (wire_submission s) = sub_operation s" "sub_provenance (wire_submission s) = sub_provenance s"
  "rp_success (sub_result (wire_submission s)) = rp_success (sub_result s)"
  "rp_result_digest (sub_result (wire_submission s)) = rp_result_digest (sub_result s)"
  "rp_bytes_processed (sub_result (wire_submission s)) = rp_bytes_processed (sub_result s)"
  by (simp_all add: wire_submission_def)

lemma completion_commits:
  assumes "attempts_inv (sc_attempts s)" and "get_attempt (sc_attempts s) (sub_attempt submission) = Some a"
    and "completion_verdict False submission a = CompletionRejection.kAccepted"
    and "sub_coordinator_epoch submission = sc_epoch s"
  shows "get_attempt (sc_attempts (snd (complete s submission))) (sub_attempt submission)
           = Some (completed_attempt a (sub_result submission))"
proof -
  have "snd (commit_completion (sc_attempts s) submission False) =
      put_attempt (sc_attempts s) (sub_attempt submission) (completed_attempt a (sub_result submission))"
    using assms(2,3) by (simp add: commit_completion_def Let_def)
  then have "sc_attempts (snd (complete s submission)) =
      put_attempt (sc_attempts s) (sub_attempt submission) (completed_attempt a (sub_result submission))"
    using assms(4) by (simp add: complete_def split_beta Let_def release_held_def erase_plan_def)
  with replace_attempt(2) [OF assms(1,2)] show ?thesis by simp
qed

text \<open>The worker that serves an envelope without a fault and with an answering connection.\<close>

definition serves_envelope :: "OffloadWorker \<Rightarrow> DispatchEnvelope \<Rightarrow> bool" where
  "serves_envelope wk e \<longleftrightarrow>
     dispatch_refusal wk e = None \<and> wc_fault (ow_config wk) = WorkerFault.kNone \<and> \<not> ow_stopping wk
     \<and> ow_worker wk = en_worker e"

definition acceptance_of :: "OffloadWorker \<Rightarrow> DispatchEnvelope \<Rightarrow> WireMessage" where
  "acceptance_of wk e =
     DispatchAcceptedMsg \<lparr>da_attempt = en_attempt e, da_generation = en_attempt_generation e,
       da_dispatch = en_dispatch e, da_boot = ow_boot wk\<rparr>"

definition completion_of :: "OffloadWorker \<Rightarrow> DispatchEnvelope \<Rightarrow> ExecutionOutcome \<Rightarrow> WireMessage" where
  "completion_of wk e outcome = CompletionMsg \<lparr>cl_submission = worker_completion wk e outcome\<rparr>"

lemma worker_completion_frame [simp]:
  "worker_completion (wk\<lparr>ow_accepted := n, ow_executions := k\<rparr>) e outcome = worker_completion wk e outcome"
  by (simp add: worker_completion_def)

lemma dispatch_completes:
  assumes "serves_envelope wk e" and "\<And>bytes. st_ok (answer bytes)"
    and "outcome = execute (worker_invocation wk e)" and "eo_executed outcome" and "\<not> eo_ambiguous outcome"
    and "deliverable (wc_max_frame_bytes (ow_config wk)) (acceptance_of wk e)"
    and "deliverable (wc_max_frame_bytes (ow_config wk)) (completion_of wk e outcome)"
  shows "handle_dispatch answer execute wk \<lparr>dq_envelope = e\<rparr> =
           (True, [sent_bytes (acceptance_of wk e), sent_bytes (completion_of wk e outcome)],
            wk\<lparr>ow_accepted := ow_accepted wk + 1, ow_executions := ow_executions wk + 1\<rparr>)"
proof -
  let ?wk = "wk\<lparr>ow_accepted := ow_accepted wk + 1, ow_executions := ow_executions wk + 1\<rparr>"
  have f: "\<not> fault_active ?wk" "dispatch_refusal wk e = None"
    using assms(1) by (simp_all add: fault_active_def serves_envelope_def)
  have "report_of ?wk outcome = Completed" using f(1) assms(4,5) by (simp add: report_of_def Let_def)
  moreover have "worker_emit ?wk (completion_of wk e outcome) = [sent_bytes (completion_of wk e outcome)]"
    "st_ok (worker_send answer ?wk (completion_of wk e outcome))"
    using assms(2,7) by (simp_all add: emit_deliverable send_deliverable)
  moreover have "worker_emit wk (acceptance_of wk e) = [sent_bytes (acceptance_of wk e)]"
    "st_ok (worker_send answer wk (acceptance_of wk e))"
    using assms(2,6) by (simp_all add: emit_deliverable send_deliverable)
  ultimately show ?thesis
    using f assms(3) unfolding handle_dispatch_def acceptance_of_def completion_of_def by (simp add: Let_def)
qed

lemma worker_completion_accepted:
  assumes "envelope_for a e" and "serves_envelope wk e" and "in_flight a" and "\<not> att_completion_committed a"
    and "eo_bytes_processed outcome \<le> kMaxPayloadBytes"
  shows "completion_verdict False (wire_submission (worker_completion wk e outcome)) a = CompletionRejection.kAccepted"
proof -
  have "en_coordinator_epoch e = ow_epoch wk" "en_worker_boot e = ow_boot wk" "ow_worker wk = en_worker e"
    using assms(2) by (auto simp: serves_envelope_def dispatch_refusal_def split: if_splits)
  with assms show ?thesis
    by (intro verdict_acceptedI) (auto simp: worker_completion_def envelope_for_def in_flight_def)
qed

section \<open>Properties\<close>

text \<open>
  C8. A dispatched operation comes back as a committed result. When the frame of an in-flight attempt
  reaches the worker it is bound to, and the worker serves it, the worker executes it once and sends
  its acceptance and its completion; the coordinator reads both off the session, ignores the first as
  evidence and commits the second: the attempt is then settled with the success, the digest and the
  byte count the backend returned.
\<close>

theorem remote_execution_commits:
  assumes "attempts_inv (sc_attempts (co_scheduler co))"
    and "map_of (co_sessions co) sid = Some se" and "\<not> se_closed se" and "\<not> co_stopping co"
    and "is_worker se" and "sv_worker (se_view se) = en_worker e" and "sv_boot (se_view se) = en_worker_boot e"
    and "get_attempt (sc_attempts (co_scheduler co)) (en_attempt e) = Some a"
    and "envelope_for a e" and "in_flight a" and "att_coordinator_epoch a = sc_epoch (co_scheduler co)"
    and "serves_envelope wk e" and "\<And>bytes. st_ok (answer bytes)"
    and "outcome = be_execute be (worker_invocation wk e)" and "eo_executed outcome" and "\<not> eo_ambiguous outcome"
    and "eo_bytes_processed outcome \<le> kMaxPayloadBytes"
    and "se_max_frame se = wc_max_frame_bytes (ow_config wk)"
    and "deliverable (se_max_frame se) (DispatchRequestMsg \<lparr>dq_envelope = e\<rparr>)"
    and "deliverable (se_max_frame se) (acceptance_of wk e)"
    and "deliverable (se_max_frame se) (completion_of wk e outcome)"
  shows "\<exists>out co' b.
           worker_loop answer be wk (sent_bytes (DispatchRequestMsg \<lparr>dq_envelope = e\<rparr>)) =
             (True, [sent_bytes (acceptance_of wk e), sent_bytes (completion_of wk e outcome)],
              wk\<lparr>ow_accepted := ow_accepted wk + 1, ow_executions := ow_executions wk + 1\<rparr>)
           \<and> session_turn nw save co sid (sent_bytes (acceptance_of wk e) @ sent_bytes (completion_of wk e outcome)) =
               (True, [], co, sent_bytes (completion_of wk e outcome))
           \<and> session_turn nw save co sid (sent_bytes (completion_of wk e outcome)) = (True, out, co', [])
           \<and> get_attempt (sc_attempts (co_scheduler co')) (en_attempt e) = Some b
           \<and> att_completion_committed b
           \<and> att_state b = (if eo_success outcome then AttemptState.kCompleted else AttemptState.kFailed)
           \<and> rp_result_digest (att_result b) = eo_result_digest outcome
           \<and> rp_bytes_processed (att_result b) = eo_bytes_processed outcome"
proof -
  let ?submission = "wire_submission (worker_completion wk e outcome)"
  have run: "\<not> ow_stopping wk" using assms(12) by (simp add: serves_envelope_def)
  have "worker_handle answer be wk (sent_frame (DispatchRequestMsg \<lparr>dq_envelope = e\<rparr>)) =
      handle_dispatch answer (be_execute be) wk \<lparr>dq_envelope = e\<rparr>"
    by (simp add: worker_handle_def request_decodes [OF assms(19)])
  then have worker: "worker_loop answer be wk (sent_bytes (DispatchRequestMsg \<lparr>dq_envelope = e\<rparr>)) =
      (True, [sent_bytes (acceptance_of wk e), sent_bytes (completion_of wk e outcome)],
       wk\<lparr>ow_accepted := ow_accepted wk + 1, ow_executions := ow_executions wk + 1\<rparr>)"
    using worker_reads [OF run assms(19) [unfolded assms(18)], of answer be "[]"]
      dispatch_completes [of wk e answer outcome "be_execute be", OF assms(12,13,14,15,16) assms(20) [unfolded assms(18)] assms(21) [unfolded assms(18)]]
    by (simp add: worker_idle)
  have accepted: "session_turn nw save co sid (sent_bytes (acceptance_of wk e) @ rest) = (True, [], co, rest)" for rest
    using session_reads [OF assms(2,3,4,20), of nw save rest]
    by (simp add: handle_frame_def acceptance_of_def acceptance_decodes [OF assms(20) [unfolded acceptance_of_def]])
  have turn: "session_turn nw save co sid (sent_bytes (completion_of wk e outcome)) =
      (True, fst (handle_completion co se \<lparr>cl_submission = ?submission\<rparr>),
       snd (handle_completion co se \<lparr>cl_submission = ?submission\<rparr>), [])"
    using session_reads [OF assms(2,3,4,21), of nw save "[]"]
    by (simp add: handle_frame_def completion_of_def split_beta completion_decodes [OF assms(21) [unfolded completion_of_def]])
  have ids: "ow_worker wk = en_worker e" "ow_boot wk = en_worker_boot e" "ow_epoch wk = en_coordinator_epoch e"
    using assms(12) by (auto simp: serves_envelope_def dispatch_refusal_def split: if_splits)
  have "\<not> att_completion_committed a"
    using get_attempt_ok(2) [OF assms(1,8)] assms(10) by (auto simp: attempt_ok_def in_flight_def split: if_splits)
  then have verdict: "completion_verdict False ?submission a = CompletionRejection.kAccepted"
    using worker_completion_accepted assms(9,10,12,17) by blast
  have epoch: "sub_coordinator_epoch ?submission = sc_epoch (co_scheduler co)"
    using assms(9,11) ids by (simp add: worker_completion_def envelope_for_def)
  have attempt: "sub_attempt ?submission = en_attempt e" by (simp add: worker_completion_def)
  have "st_ok (validate_worker_identity se (sub_worker ?submission) (sub_worker_boot ?submission))"
    using assms(5,6,7) ids by (simp add: validate_worker_identity_def worker_completion_def)
  then have "co_scheduler (snd (handle_completion co se \<lparr>cl_submission = ?submission\<rparr>)) =
      snd (complete (co_scheduler co) ?submission)"
    by (simp add: handle_completion_def Let_def split_beta)
  with completion_commits [OF assms(1) _ verdict epoch] assms(8) attempt
  have "get_attempt (sc_attempts (co_scheduler (snd (handle_completion co se \<lparr>cl_submission = ?submission\<rparr>)))) (en_attempt e)
      = Some (completed_attempt a (sub_result ?submission))" by simp
  with worker accepted turn show ?thesis
    by (auto simp: completed_attempt_def worker_completion_def wire_submission_def)
qed

definition demo_envelope :: DispatchEnvelope where
  "demo_envelope =
     \<lparr>en_attempt = 0x0100000000000001, en_attempt_generation = 1, en_dispatch = 21, en_coordinator_epoch = 1,
      en_worker = 11, en_worker_boot = 9, en_domain = 7, en_domain_generation = 3, en_capability_generation = 2,
      en_policy_generation = 1, en_operation = 5, en_operation_class = 2, en_side_effect = SideEffectClass.kPure,
      en_provenance = Provenance.kReal, en_payload = default_payload, en_bytes = [], en_fallback = False,
      en_fallback_depth = 0, en_retry_index = 0\<rparr>"

definition demo_worker :: OffloadWorker where
  "demo_worker =
     (new_worker \<lparr>wc_name = ''worker'', wc_host = [], wc_domain_id_base = 7, wc_provenance = Provenance.kReal,
        wc_fault = WorkerFault.kNone, wc_fault_after_executions = 0, wc_max_frame_bytes = kMaxFrameBytes,
        wc_publish_domains = True\<rparr> 11 9)
       \<lparr>ow_epoch := 1, ow_connected := True, ow_domains := [empty_domain\<lparr>dr_id := 7\<rparr>]\<rparr>"

definition demo_outcome :: ExecutionOutcome where
  "demo_outcome =
     \<lparr>eo_executed = True, eo_success = True, eo_ambiguous = False, eo_failure = FailureKind.kNone,
      eo_result_digest = 77, eo_bytes_processed = 64, eo_duration_ns = 5, eo_output = [], eo_detail = []\<rparr>"

definition demo_backend :: ExecutionBackend where
  "demo_backend =
     \<lparr>be_discover = [], be_execute = (\<lambda>_. demo_outcome), be_cancel = (\<lambda>_. failure ''backend.unsupported'' [])\<rparr>"

lemma demo_deliverable:
  "deliverable kMaxFrameBytes (DispatchRequestMsg \<lparr>dq_envelope = demo_envelope\<rparr>)"
  "deliverable kMaxFrameBytes (acceptance_of demo_worker demo_envelope)"
  "deliverable kMaxFrameBytes (completion_of demo_worker demo_envelope demo_outcome)"
  "deliverable kMaxFrameBytes (QueryRequestMsg \<lparr>qr_kind = QueryKind.kAttempt, qr_id = 3\<rparr>)"
  "deliverable kMaxFrameBytes (QueryResponseMsg \<lparr>qs_ok = False, qs_code = ''attempt.not_found'', qs_body = []\<rparr>)"
  by (simp_all add: deliverable_def sendable_DispatchRequest_def sendable_envelope_def sendable_payload_def
      put_DispatchRequest_def put_dispatch_envelope_def put_payload_descriptor_def demo_envelope_def default_payload_def
      valid_def acceptance_of_def put_DispatchAccepted_def completion_of_def worker_completion_def
      sendable_Completion_def sendable_submission_def put_Completion_def put_completion_submission_def
      demo_outcome_def put_QueryRequest_def put_QueryResponse_def sendable_QueryResponse_def call_bytes.simps
      kMaxNameLength_def kMaxTextLength_def kMaxProtocolPayloadBytes_def
      kFrameHeaderBytes_def kMaxFrameBytes_def kMaxBlobBytes_def)

theorem remote_execution_commits_witness:
  "\<exists>out co' b.
     session_turn demo_network demo_save demo_coordinator 1
       (sent_bytes (completion_of demo_worker demo_envelope demo_outcome)) = (True, out, co', [])
     \<and> get_attempt (sc_attempts (co_scheduler co')) 0x0100000000000001 = Some b
     \<and> att_state b = AttemptState.kCompleted \<and> rp_result_digest (att_result b) = 77"
proof -
  have co: "map_of (co_sessions demo_coordinator) 1 = Some demo_session" "\<not> se_closed demo_session"
      "\<not> co_stopping demo_coordinator" "is_worker demo_session" "sv_worker (se_view demo_session) = en_worker demo_envelope"
      "sv_boot (se_view demo_session) = en_worker_boot demo_envelope"
      "se_max_frame demo_session = wc_max_frame_bytes (ow_config demo_worker)" "se_max_frame demo_session = kMaxFrameBytes"
    by (simp_all add: demo_coordinator_def new_coordinator_def demo_session_def is_worker_def demo_envelope_def
        demo_worker_def new_worker_def)
  have a: "get_attempt (sc_attempts (co_scheduler demo_coordinator)) (en_attempt demo_envelope) = Some sample_dispatched"
      "envelope_for sample_dispatched demo_envelope" "in_flight sample_dispatched"
      "att_coordinator_epoch sample_dispatched = sc_epoch (co_scheduler demo_coordinator)"
    by (simp_all add: demo_coordinator_def attempts_2_get demo_envelope_def envelope_for_def sample_bindings in_flight_def)
  have w: "serves_envelope demo_worker demo_envelope"
    by (simp add: serves_envelope_def dispatch_refusal_def demo_worker_def new_worker_def demo_envelope_def
        worker_find_domain_def valid_def)
  have inv: "attempts_inv (sc_attempts (co_scheduler demo_coordinator))"
    using demo_coordinator_inv by (simp add: scheduler_inv_def)
  have o: "demo_outcome = be_execute demo_backend (worker_invocation demo_worker demo_envelope)"
      "eo_executed demo_outcome" "\<not> eo_ambiguous demo_outcome" "eo_bytes_processed demo_outcome \<le> kMaxPayloadBytes"
    by (simp_all add: demo_backend_def demo_outcome_def kMaxPayloadBytes_def word_le_nat_alt)
  have answers: "\<And>bytes. st_ok ((\<lambda>_. success) bytes)" by simp
  show ?thesis
    using remote_execution_commits [OF inv co(1-6) a w answers o co(7) demo_deliverable(1-3) [folded co(8)],
        of demo_network demo_save]
    by (auto simp: demo_envelope_def demo_outcome_def)
qed





text \<open>The fault that should answer with a stale domain generation has no effect on what a worker does.\<close>

theorem stale_generation_fault_is_inert:
  assumes "wc_fault (ow_config wk) = WorkerFault.kStaleDomainGeneration"
  shows "fst (snd (handle_dispatch answer execute wk m)) =
           fst (snd (handle_dispatch answer execute
             (wk\<lparr>ow_config := (ow_config wk)\<lparr>wc_fault := WorkerFault.kNone\<rparr>\<rparr>) m))"
  using assms
  by (auto simp: handle_dispatch_def Let_def dispatch_refusal_def emit_rejection_def emit_failure_def worker_emit_def
      worker_send_def worker_find_domain_def worker_invocation_def local_domain_def report_of_def fault_active_def
      worker_completion_def split: Report.split)

end
