(* ===== verification/Tos_Nic.thy ===== *)
theory Tos_Nic
  imports Tos_Backends Tos_Buffer
begin

text \<open>
  \<^verbatim>\<open>src/src/backends/nic_probe.cpp\<close>: the inventory of network adapters, their text, and the domain record of
  an adapter. What the operating system lists of an adapter is an argument; a name or a description it
  does not have is empty. A build for another system lists none.
\<close>

section \<open>Inventory\<close>

record NicInfo =
  ni_index :: u32
  ni_name :: string
  ni_description :: string
  ni_link_speed_bps :: u64
  ni_mac :: string
  ni_up :: bool
  ni_loopback :: bool

record Adapter =
  ad_if_index :: u32
  ad_friendly_name :: string
  ad_description :: string
  ad_transmit_link_speed :: u64
  ad_oper_status_up :: bool
  ad_software_loopback :: bool
  ad_physical_address :: "u8 list"

definition sanitized_char :: "char \<Rightarrow> bool" where
  "sanitized_char c =
     (let n = of_char c :: nat in
      97 \<le> n \<and> n \<le> 122 \<or> 65 \<le> n \<and> n \<le> 90 \<or> 48 \<le> n \<and> n \<le> 57
      \<or> c = CHR ''.'' \<or> c = CHR ''-'' \<or> c = CHR ''_'')"

definition sanitize_name :: "string \<Rightarrow> string" where
  "sanitize_name t =
     (let out = take kMaxNameLength (map (\<lambda>c. if sanitized_char c then c else CHR ''.'') t)
      in if out = [] then ''nic'' else out)"

definition mac_text :: "u8 list \<Rightarrow> string" where
  "mac_text address =
     (if length address = 6
      then concat (map (\<lambda>i. (if i = 0 then [] else '':'') @ to_hex [address ! i]) [0..<6])
      else [])"

text \<open>The counter is advanced for an adapter without an index, and for every adapter.\<close>

definition nic_of :: "Adapter \<Rightarrow> u32 \<Rightarrow> NicInfo" where
  "nic_of a counter =
     \<lparr>ni_index = (if ad_if_index a \<noteq> 0 then ad_if_index a else counter + 1),
      ni_name = (if ad_friendly_name a = [] then ''nic.'' @ to_string_u64 (ucast (ad_if_index a))
                 else sanitize_name (ad_friendly_name a)),
      ni_description = bounded_text (ad_description a) kMaxNameLength,
      ni_link_speed_bps = (if ad_transmit_link_speed a = 0xFFFFFFFFFFFFFFFF then 0 else ad_transmit_link_speed a),
      ni_mac = mac_text (ad_physical_address a), ni_up = ad_oper_status_up a,
      ni_loopback = ad_software_loopback a\<rparr>"

fun enumerate_loop :: "Adapter list \<Rightarrow> u32 \<Rightarrow> NicInfo list \<Rightarrow> NicInfo list" where
  "enumerate_loop [] counter nics = nics"
| "enumerate_loop (a # rest) counter nics =
     (if length nics < 256
      then let info = nic_of a counter;
               counter' = (if ad_if_index a \<noteq> 0 then counter else counter + 1)
           in enumerate_loop rest (counter' + 1) (if ad_software_loopback a then nics else nics @ [info])
      else nics)"

definition enumerate_nics :: "Adapter list option \<Rightarrow> NicInfo list" where
  "enumerate_nics listed = (case listed of None \<Rightarrow> [] | Some adapters \<Rightarrow> enumerate_loop adapters 0 [])"

definition nic_line :: "NicInfo \<Rightarrow> string" where
  "nic_line nic =
     ''  nic.'' @ ni_name nic @ '' speed='' @ to_string_u64 (ni_link_speed_bps nic) @ ''bps up='' @
     (if ni_up nic then ''yes'' else ''no'') @ '' mac='' @ (if ni_mac nic = [] then ''unknown'' else ni_mac nic) @
     '' desc='' @ ni_description nic @ [CHR 0x0A]"

definition describe_nic_inventory :: "NicInfo list \<Rightarrow> string" where
  "describe_nic_inventory nics =
     (let out = concat (map nic_line nics)
      in if out = [] then ''  no network adapters discovered'' @ [CHR 0x0A] else out)"

section \<open>The domain of an adapter\<close>

definition unproven_nic_flags :: "CapabilityFlag list" where
  "unproven_nic_flags =
     [CapabilityFlag.kChecksum, CapabilityFlag.kCompression, CapabilityFlag.kDecompression,
      CapabilityFlag.kEncryption, CapabilityFlag.kDecryption, CapabilityFlag.kDma,
      CapabilityFlag.kScatterGather, CapabilityFlag.kRdma, CapabilityFlag.kGpudirectAddressable,
      CapabilityFlag.kPacketProcessing, CapabilityFlag.kHeaderProcessing,
      CapabilityFlag.kProtocolTransform, CapabilityFlag.kIntegrityVerify, CapabilityFlag.kSegmentation,
      CapabilityFlag.kReassembly]"

definition nic_capability :: "u64 \<Rightarrow> CapabilitySet" where
  "nic_capability max_payload_bytes =
     canonicalize (empty_capability_set\<lparr>
       cs_operations := [], cs_flags := 0, cs_unproven_flags := flag_mask unproven_nic_flags,
       cs_memory_domains := memory_bit MemoryDomain.kHost, cs_min_payload_bytes := 0,
       cs_max_payload_bytes := max_payload_bytes, cs_alignment_bytes := 64, cs_max_concurrency := 1,
       cs_queue_capacity := 0,
       cs_transport_classes := transport_bit TransportClass.kRawFrames OR transport_bit TransportClass.kStreamBytes,
       cs_payload_classes := payload_bit PayloadClass.kOpaqueBytes, cs_protocol_version := 1,
       cs_backend_family := ''nic.discovery''\<rparr>)"

definition make_nic_domain ::
    "string \<Rightarrow> NicInfo \<Rightarrow> u64 \<Rightarrow> string \<Rightarrow> u64 \<Rightarrow> u64 \<Rightarrow> u64 \<Rightarrow> ExecutionDomainRecord" where
  "make_nic_domain host nic i parent_host worker worker_boot max_payload_bytes =
     (let parent = (if parent_host = [] then host else parent_host) in
      empty_domain\<lparr>
        dr_id := i, dr_generation := gen_first, dr_type := ExecutionDomainType.kNic,
        dr_name := take kMaxNameLength (''nic.'' @ ni_name nic),
        dr_parent_device := (if ni_description nic = [] then ni_name nic else ni_description nic),
        dr_parent_host := parent, dr_worker := worker, dr_worker_boot := worker_boot,
        dr_provenance := Provenance.kReal, dr_registration_sequence := i,
        dr_capability := empty_capability_record\<lparr>
          cap_domain := i, cap_generation := gen_first, cap_evidence := gen_first,
          cap_provenance := Provenance.kReal, cap_authoritative := False,
          cap_capability := nic_capability max_payload_bytes\<rparr>,
        dr_load := no_load\<lparr>
          ld_load_generation := gen_first, ld_queue_generation := gen_first,
          ld_health_generation := gen_first, ld_evidence := gen_first, ld_provenance := Provenance.kReal,
          ld_healthy := ni_up nic, ld_ready := ni_up nic, ld_accepting := ni_up nic\<rparr>,
        dr_locality := (dr_locality empty_domain)\<lparr>
          lo_generation := gen_first, lo_class_to_payload := LocalityClass.kSameHost,
          lo_host_index := ni_index nic, lo_numa_node := 0, lo_pcie_root_complex := 0, lo_pcie_switch := 0,
          lo_has_local_nic := True\<rparr>,
        dr_topology := (dr_topology empty_domain)\<lparr>to_generation := gen_first, to_host_node := parent\<rparr>,
        dr_compatibility := (dr_compatibility empty_domain)\<lparr>
          cm_generation := gen_first, cm_driver_backend_version := 1, cm_protocol_version := 1,
          cm_backend_family := ''nic.discovery''\<rparr>,
        dr_isolation := IsolationClass.kUnknown,
        dr_capacity := no_amounts(ResourceKind.kExecutionSlot := 0),
        dr_backend_generation := gen_first\<rparr>)"

section \<open>Properties\<close>

lemma nic_capability_operations [simp]: "cs_operations (nic_capability n) = []"
  by (simp add: nic_capability_def canonicalize_def Let_def)

text \<open>
  Discovering an adapter proves that it exists and nothing else: whatever the policy, the registry and
  the request, an adapter's domain is never eligible, even when the policy accepts evidence that is not
  positive.\<close>

theorem discovered_adapter_is_never_eligible:
  "\<not> ce_eligible (evaluate workers registry reservations
       (make_nic_domain host nic i parent worker boot max_payload) request policy desc)"
proof
  let ?d = "make_nic_domain host nic i parent worker boot max_payload"
  assume "ce_eligible (evaluate workers registry reservations ?d request policy desc)"
  then have "cc_supported (check_capability (dr_capability ?d) registry request (pol_require_positive_evidence policy))"
    by (rule eligibility_facts)
  moreover have "cap_capability (dr_capability ?d) = nic_capability max_payload"
    by (simp add: make_nic_domain_def Let_def)
  then have "\<not> supports_operation (cap_capability (dr_capability ?d)) k" for k
    by (simp add: supports_operation_def binary_search_def lower_bound.simps Let_def)
  ultimately show False
    by (auto simp: check_capability_def check_fails_def split: if_splits option.splits)
qed

lemma sanitized_name_bounded: "sanitize_name t \<noteq> [] \<and> length (sanitize_name t) \<le> kMaxNameLength"
  by (simp add: sanitize_name_def kMaxNameLength_def Let_def)

lemma enumerate_loop_bounded: "length nics \<le> 256 \<Longrightarrow> length (enumerate_loop as counter nics) \<le> 256"
  by (induction as counter nics rule: enumerate_loop.induct) (auto simp: Let_def)

lemma nic_of_loopback [simp]: "ni_loopback (nic_of a counter) = ad_software_loopback a"
  by (simp add: nic_of_def)

lemma enumerate_loop_sound:
  "list_all (\<lambda>n. \<not> ni_loopback n) nics \<Longrightarrow> list_all (\<lambda>n. \<not> ni_loopback n) (enumerate_loop as counter nics)"
  by (induction as arbitrary: counter nics) (simp_all add: Let_def)

text \<open>The inventory has at most 256 adapters, none of them the loopback interface.\<close>

theorem inventory_is_bounded:
  "length (enumerate_nics listed) \<le> 256 \<and> list_all (\<lambda>n. \<not> ni_loopback n) (enumerate_nics listed)"
  using enumerate_loop_bounded [of "[]"] enumerate_loop_sound [of "[]"]
  by (simp add: enumerate_nics_def split: option.split)

end
