(* ===== verification/Tos_Apps.thy ===== *)
theory Tos_Apps
  imports Tos_Worker Tos_Nic
begin

text \<open>
  The command-line programs under \<^verbatim>\<open>src/apps\<close>: the shared parser of arguments (\<^verbatim>\<open>cli_support.hpp\<close>), the
  configurations that \<^verbatim>\<open>tos_coordinator\<close> and \<^verbatim>\<open>tos_worker\<close> build from them, and the commands of
  \<^verbatim>\<open>tos_inspect\<close> with their session to a coordinator. What is printed is left out.
\<close>

section \<open>Arguments\<close>

record Arguments =
  ag_positional :: "string list"
  ag_options :: "(string \<times> string) list"

definition has_option :: "Arguments \<Rightarrow> string \<Rightarrow> bool" where
  "has_option args name = list_ex (\<lambda>(k, _). k = name) (ag_options args)"

definition get_option :: "Arguments \<Rightarrow> string \<Rightarrow> string \<Rightarrow> string" where
  "get_option args name otherwise =
     (case find (\<lambda>(k, _). k = name) (ag_options args) of None \<Rightarrow> otherwise | Some (_, v) \<Rightarrow> v)"

text \<open>The base of \<^verbatim>\<open>std::strtoull\<close> when it is asked for base 0.\<close>

definition detected_base :: "string \<Rightarrow> nat" where
  "detected_base buffer =
     (let s = dropWhile is_space buffer;
          s = (if s \<noteq> [] \<and> (hd s = CHR ''-'' \<or> hd s = CHR ''+'') then tl s else s)
      in if length s > 2 \<and> s ! 0 = CHR ''0'' \<and> (s ! 1 = CHR ''x'' \<or> s ! 1 = CHR ''X'') \<and> digit_value (s ! 2) < 16
         then 16 else if s \<noteq> [] \<and> hd s = CHR ''0'' then 8 else 10)"

definition get_u64 :: "Arguments \<Rightarrow> string \<Rightarrow> u64 \<Rightarrow> u64" where
  "get_u64 args name otherwise =
     (let t = get_option args name [] in
      if t = [] then otherwise
      else case strtoull (detected_base t) t of None \<Rightarrow> 0 | Some (v, _) \<Rightarrow> v)"

definition get_u16 :: "Arguments \<Rightarrow> string \<Rightarrow> u16 \<Rightarrow> u16" where
  "get_u16 args name otherwise = ucast (get_u64 args name (ucast otherwise))"

definition is_option :: "string \<Rightarrow> bool" where
  "is_option token = (take 2 token = ''--'')"

definition add_option :: "string \<Rightarrow> string \<Rightarrow> Arguments \<Rightarrow> Arguments" where
  "add_option name v args = args\<lparr>ag_options := ag_options args @ [(name, v)]\<rparr>"

fun parse_arguments :: "string list \<Rightarrow> Arguments \<Rightarrow> Arguments" where
  "parse_arguments [] args = args"
| "parse_arguments (token # rest) args =
     (if is_option token
      then
        if CHR ''='' \<in> set token
        then parse_arguments rest
               (add_option (drop 2 (takeWhile (\<lambda>c. c \<noteq> CHR ''='') token))
                           (tl (dropWhile (\<lambda>c. c \<noteq> CHR ''='') token)) args)
        else case rest of
               [] \<Rightarrow> parse_arguments rest (add_option (drop 2 token) [] args)
             | v # rest' \<Rightarrow>
                 if is_option v then parse_arguments rest (add_option (drop 2 token) [] args)
                 else parse_arguments rest' (add_option (drop 2 token) v args)
      else parse_arguments rest (args\<lparr>ag_positional := ag_positional args @ [token]\<rparr>))"

definition cli_parse :: "string list \<Rightarrow> Arguments" where
  "cli_parse argv = parse_arguments (tl argv) \<lparr>ag_positional = [], ag_options = []\<rparr>"

section \<open>Logging\<close>

datatype LogLevel = kError | kWarn | kInfo | kDebug

fun ord_LogLevel :: "LogLevel \<Rightarrow> nat" where
  "ord_LogLevel LogLevel.kError = 0"
| "ord_LogLevel LogLevel.kWarn = 1"
| "ord_LogLevel LogLevel.kInfo = 2"
| "ord_LogLevel LogLevel.kDebug = 3"

fun level_token :: "LogLevel \<Rightarrow> string" where
  "level_token LogLevel.kError = ''error''"
| "level_token LogLevel.kWarn = ''warn''"
| "level_token LogLevel.kInfo = ''info''"
| "level_token LogLevel.kDebug = ''debug''"

text \<open>The line that is written to the error stream, if any.\<close>

definition log_write :: "LogLevel \<Rightarrow> LogLevel \<Rightarrow> string \<Rightarrow> string \<Rightarrow> string option" where
  "log_write threshold level component message =
     (if ord_LogLevel level > ord_LogLevel threshold then None
      else Some (level_token level @ '' ['' @ component @ ''] '' @ bounded_text message kMaxTextLength @ [CHR 0x0A]))"

definition requested_level :: "Arguments \<Rightarrow> LogLevel" where
  "requested_level args =
     (let token = get_option args ''log-level'' [] in
      if token = ''error'' then LogLevel.kError else if token = ''warn'' then LogLevel.kWarn
      else if token = ''debug'' then LogLevel.kDebug else LogLevel.kInfo)"

section \<open>The coordinator program\<close>

text \<open>A program ends with an exit code or goes on with what it has parsed.\<close>

type_synonym 'a parsed = "nat + 'a"

lemma after_separator: "c \<in> set s \<Longrightarrow> length (dropWhile (\<lambda>x. x \<noteq> c) s) - Suc 0 < length s"
  using length_dropWhile_le [of "\<lambda>x. x \<noteq> c" s] by (cases s) auto

function preference_loop :: "string \<Rightarrow> ExecutionDomainType list \<Rightarrow> ExecutionDomainType list option" where
  "preference_loop s order =
     (let token = takeWhile (\<lambda>c. c \<noteq> CHR '','') s; rest = dropWhile (\<lambda>c. c \<noteq> CHR '','') s in
      case (if token = [] then Some order
            else map_option (\<lambda>t. order @ [t]) (parse_enum_ExecutionDomainType token)) of
        None \<Rightarrow> None
      | Some order' \<Rightarrow> if rest = [] then Some order' else preference_loop (tl rest) order')"
  by auto

termination
  by (relation "measure (\<lambda>(s, order). length s)") (auto simp: after_separator)

declare preference_loop.simps [simp del]

definition offload_option :: "Arguments \<Rightarrow> SchedulerPolicy \<Rightarrow> SchedulerPolicy parsed" where
  "offload_option args policy =
     (if has_option args ''offload-requirement''
      then case parse_enum_OffloadRequirement (get_option args ''offload-requirement'' []) of
             None \<Rightarrow> Inl 2 | Some r \<Rightarrow> Inr (policy\<lparr>pol_offload_requirement := r\<rparr>)
      else Inr policy)"

definition preference_option :: "Arguments \<Rightarrow> SchedulerPolicy \<Rightarrow> SchedulerPolicy parsed" where
  "preference_option args policy =
     (if has_option args ''preference''
      then case preference_loop (get_option args ''preference'' []) [] of
             None \<Rightarrow> Inl 2
           | Some order \<Rightarrow> Inr (if order = [] then policy else policy\<lparr>pol_preference_order := order\<rparr>)
      else Inr policy)"

definition reserve_option :: "Arguments \<Rightarrow> SchedulerPolicy \<Rightarrow> SchedulerPolicy" where
  "reserve_option args policy =
     (if has_option args ''reserve''
      then policy\<lparr>pol_reservation := (pol_reservation policy)\<lparr>rsp_enabled := True,
             rsp_per_operation := (rsp_per_operation (pol_reservation policy))
               (ResourceKind.kExecutionSlot := get_u64 args ''slots'' 1)\<rparr>\<rparr>
      else policy)"

definition coordinator_config :: "Arguments \<Rightarrow> CoordinatorConfig parsed" where
  "coordinator_config args =
     (if has_option args ''help'' then Inl 0
      else case offload_option args (reserve_option args make_default_policy) of
             Inl code \<Rightarrow> Inl code
           | Inr policy1 \<Rightarrow>
               case preference_option args policy1 of
                 Inl code \<Rightarrow> Inl code
               | Inr policy \<Rightarrow>
                   Inr \<lparr>cc_bind_host = get_option args ''bind'' ''127.0.0.1'', cc_port = get_u16 args ''port'' 0,
                        cc_scheduler = default_options\<lparr>so_policy := policy,
                          so_host_node := get_option args ''host-node'' ''local.host'',
                          so_enable_persistence := has_option args ''persist'' \<and> \<not> has_option args ''no-recovery'',
                          so_state_path := get_option args ''state'' ''transport_offload_scheduler.state''\<rparr>,
                        cc_max_sessions = unat (get_u64 args ''max-sessions'' 32),
                        cc_max_frame_bytes = kMaxFrameBytes\<rparr>)"

section \<open>The worker program\<close>

datatype LocalBackend = Cpu CpuBackend | Synthetic SyntheticBackend

definition worker_domain ::
    "string \<Rightarrow> string \<Rightarrow> string \<Rightarrow> string \<Rightarrow> Provenance \<Rightarrow> ExecutionDomainType \<Rightarrow> u32 \<Rightarrow> SyntheticDomainConfig" where
  "worker_domain host name node type_token provenance type i =
     (let config = make_synthetic_domain host (ucast (i + 1)) type
            (name @ ''.'' @ type_token @ ''.'' @ to_string_u64 (ucast i)) (provenance \<noteq> Provenance.kUnsupported);
          family = name @ ''.'' @ type_token;
          capability = (if provenance = Provenance.kUnsupported
                        then (sd_capability config)\<lparr>cs_operations := [], cs_flags := 0, cs_unproven_flags := 0\<rparr>
                        else make_host_executor_capability (of_nat kMaxDispatchPayloadBytes) 256 8 family
                               (memory_domain_mask_for type) 1)
      in config\<lparr>sd_provenance := provenance, sd_parent_host := node,
           sd_topology := (sd_topology config)\<lparr>to_host_node := node\<rparr>,
           sd_compatibility := (sd_compatibility config)\<lparr>cm_backend_family := family\<rparr>,
           sd_authoritative := provenance \<noteq> Provenance.kUnsupported, sd_capability := capability\<rparr>)"

fun add_worker_domains :: "(u32 \<Rightarrow> SyntheticDomainConfig) \<Rightarrow> nat list \<Rightarrow> SyntheticBackend \<Rightarrow> SyntheticBackend option" where
  "add_worker_domains config [] b = Some b"
| "add_worker_domains config (i # rest) b =
     (case add_domain b (config (of_nat i)) of
        (st, b') \<Rightarrow> if st_ok st then add_worker_domains config rest b' else None)"

definition make_backend ::
    "HostFacts \<Rightarrow> Arguments \<Rightarrow> Provenance \<Rightarrow> string \<Rightarrow> ExecutionDomainType \<Rightarrow> u32 \<Rightarrow> LocalBackend option" where
  "make_backend host args provenance type_token type wanted =
     (let name = get_option args ''name'' ''worker''; node = get_option args ''node'' ''local.host'' in
      if type = ExecutionDomainType.kCpu \<and> provenance = Provenance.kReal
      then Some (Cpu (new_cpu_backend host
             \<lparr>cb_domain_id = 1, cb_name = name @ ''.cpu'',
              cb_max_payload_bytes = of_nat kMaxDispatchPayloadBytes, cb_queue_capacity = 4096,
              cb_max_concurrency = 0, cb_worker = 0, cb_worker_boot = 0, cb_parent_host = node\<rparr>))
      else map_option Synthetic
             (add_worker_domains (worker_domain (hf_host_name host) name node type_token provenance type)
                [0..<unat wanted] (new_synthetic_backend (name @ ''.'' @ type_token))))"

definition worker_provenance :: "Arguments \<Rightarrow> ExecutionDomainType \<Rightarrow> Provenance option" where
  "worker_provenance args type =
     (if has_option args ''provenance'' then parse_enum_Provenance (get_option args ''provenance'' [])
      else Some (if type = ExecutionDomainType.kCpu then Provenance.kReal else Provenance.kSynthetic))"

definition worker_fault_option :: "Arguments \<Rightarrow> WorkerFault option" where
  "worker_fault_option args =
     (if has_option args ''fault'' then parse_worker_fault (get_option args ''fault'' []) else Some WorkerFault.kNone)"

text \<open>Everything up to the connection: the address, the backend and the configuration of the worker.\<close>

definition worker_setup :: "HostFacts \<Rightarrow> Arguments \<Rightarrow> (string \<times> u16 \<times> LocalBackend \<times> WorkerConfig) parsed" where
  "worker_setup host args =
     (let type_token = get_option args ''type'' ''cpu''; port = get_u16 args ''port'' 0;
          domains = ucast (get_u64 args ''domains'' 1) :: u32 in
      if has_option args ''help'' then Inl 0
      else case parse_enum_ExecutionDomainType type_token of
        None \<Rightarrow> Inl 2
      | Some type \<Rightarrow>
          case worker_provenance args type of
            None \<Rightarrow> Inl 2
          | Some provenance \<Rightarrow>
              if port = 0 then Inl 2
              else case make_backend host args provenance type_token type (if domains = 0 then 1 else domains) of
                None \<Rightarrow> Inl 1
              | Some backend \<Rightarrow>
                  case worker_fault_option args of
                    None \<Rightarrow> Inl 2
                  | Some fault \<Rightarrow>
                      Inr (get_option args ''host'' ''127.0.0.1'', port, backend,
                           \<lparr>wc_name = get_option args ''name'' ''worker'',
                            wc_host = get_option args ''node'' ''local.host'',
                            wc_domain_id_base = get_u64 args ''domain-base'' 0, wc_provenance = provenance,
                            wc_fault = fault,
                            wc_fault_after_executions = ucast (get_u64 args ''fault-after'' 0),
                            wc_max_frame_bytes = kMaxFrameBytes, wc_publish_domains = True\<rparr>))"

section \<open>The inspection program\<close>

record RemoteSession =
  rs_client :: CoordinatorClient
  rs_lag_checked :: bool
  rs_lagged :: bool

definition new_remote_session :: "string \<Rightarrow> u16 \<Rightarrow> RemoteSession" where
  "new_remote_session host port =
     \<lparr>rs_client = new_client \<lparr>cf_host = host, cf_port = port, cf_name = ''tos_inspect'', cf_connect_attempts = 4,
        cf_max_frame_bytes = kMaxFrameBytes\<rparr>,
      rs_lag_checked = False, rs_lagged = False\<rparr>"

text \<open>
  The results of an exchange are its outcome, what was written and the bytes left on the connection, as
  for the client it is built on.
\<close>

definition open_remote ::
    "(u8 list \<Rightarrow> Status) \<Rightarrow> Status \<Rightarrow> Status \<Rightarrow> RemoteSession \<Rightarrow> u8 list \<Rightarrow> Status \<times> frames \<times> u8 list \<times> RemoteSession" where
  "open_remote answer connected lost rs input =
     (case connect_and_hello answer connected lost (rs_client rs) input of
        (hello, out, cl) \<Rightarrow>
          (if st_ok hello then success
           else failure ''inspect.connect_failed'' (st_code hello @ '': '' @ st_message hello),
           out,
           if st_ok connected
           then snd (snd (exchange answer lost (rs_client rs) (HelloMsg (client_hello (rs_client rs))) input))
           else input,
           rs\<lparr>rs_client := cl\<rparr>))"

definition frame_type_text :: "MessageType \<Rightarrow> string" where
  "frame_type_text t = decimal (unat (message_code t))"

definition unexpected_frame :: "MessageType \<Rightarrow> MessageType \<Rightarrow> 'a Checked" where
  "unexpected_frame expected received =
     bad ''inspect.unexpected_frame''
       (''expected frame type '' @ frame_type_text expected @ '', received '' @ frame_type_text received)"

definition version_probe :: WireMessage where
  "version_probe = QueryRequestMsg \<lparr>qr_kind = QueryKind.kVersion, qr_id = 0\<rparr>"

definition exchange_request ::
    "(u8 list \<Rightarrow> Status) \<Rightarrow> Status \<Rightarrow> RemoteSession \<Rightarrow> WireMessage \<Rightarrow> MessageType \<Rightarrow> u8 list \<Rightarrow>
       Frame Checked \<times> frames \<times> RemoteSession" where
  "exchange_request answer lost rs w expected input =
     (case exchange answer lost (rs_client rs) w input of
        (Bad st, out, _) \<Rightarrow> (bad (st_code st) (st_message st), out, rs)
      | (Good first, out, rest) \<Rightarrow>
          let rs' = (if rs_lag_checked rs then rs
                     else rs\<lparr>rs_lag_checked := True, rs_lagged := fm_type first \<noteq> expected\<rparr>)
          in if \<not> rs_lagged rs'
             then (if fm_type first \<noteq> expected then unexpected_frame expected (fm_type first) else Good first, out, rs')
             else case exchange answer lost (rs_client rs') version_probe rest of
                    (Bad st, out', _) \<Rightarrow> (bad (st_code st) (st_message st), out @ out', rs')
                  | (Good second, out', _) \<Rightarrow>
                      (if fm_type second \<noteq> expected then unexpected_frame expected (fm_type second)
                       else Good second, out @ out', rs'))"

definition remote_query ::
    "(u8 list \<Rightarrow> Status) \<Rightarrow> Status \<Rightarrow> RemoteSession \<Rightarrow> QueryKind \<Rightarrow> u64 \<Rightarrow> u8 list \<Rightarrow>
       QueryResponseMessage Checked \<times> frames \<times> RemoteSession" where
  "remote_query answer lost rs kind i input =
     (case exchange_request answer lost rs (QueryRequestMsg \<lparr>qr_kind = kind, qr_id = i\<rparr>)
             MessageType.kQueryResponse input of
        (Bad st, out, rs') \<Rightarrow> (bad (st_code st) (st_message st), out, rs')
      | (Good frame, out, rs') \<Rightarrow>
          (decoding take_QueryResponse (fm_payload frame) (bad ''protocol.malformed_query_response'' []) Good,
           out, rs'))"

definition remote_admin ::
    "(u8 list \<Rightarrow> Status) \<Rightarrow> Status \<Rightarrow> RemoteSession \<Rightarrow> AdminAction \<Rightarrow> u64 \<Rightarrow> string \<Rightarrow> u64 \<Rightarrow> u8 list \<Rightarrow>
       AdminResponseMessage Checked \<times> frames \<times> RemoteSession" where
  "remote_admin answer lost rs action i reason v input =
     (case exchange_request answer lost rs
             (AdminRequestMsg \<lparr>ar_action = action, ar_id = i, ar_reason = reason, ar_value = v\<rparr>)
             MessageType.kAdminResponse input of
        (Bad st, out, rs') \<Rightarrow> (bad (st_code st) (st_message st), out, rs')
      | (Good frame, out, rs') \<Rightarrow>
          (decoding take_AdminResponse (fm_payload frame) (bad ''protocol.malformed_admin_response'' []) Good,
           out, rs'))"

definition remote_endpoint :: "Arguments \<Rightarrow> (string \<times> u16) option" where
  "remote_endpoint args =
     (let port = get_u16 args ''port'' 0
      in if port = 0 then None else Some (get_option args ''host'' ''127.0.0.1'', port))"

text \<open>What a command line asks for, before anything is sent.\<close>

datatype InspectAction =
    Ends nat
  | Inspects_locally string
  | Asks string u16 QueryKind u64
  | Administers string u16 AdminAction u64 string u64

record AdministrativeCommand =
  am_name :: string
  am_action :: AdminAction
  am_requires_identity :: bool
  am_requires_reason :: bool
  am_requires_token :: bool

definition kAdministrativeCommands :: "AdministrativeCommand list" where
  "kAdministrativeCommands =
     [\<lparr>am_name = ''fence-domain'', am_action = AdminAction.kFenceDomain, am_requires_identity = True,
       am_requires_reason = True, am_requires_token = False\<rparr>,
      \<lparr>am_name = ''fence-boot'', am_action = AdminAction.kFenceBoot, am_requires_identity = True,
       am_requires_reason = True, am_requires_token = False\<rparr>,
      \<lparr>am_name = ''save-state'', am_action = AdminAction.kSaveState, am_requires_identity = False,
       am_requires_reason = False, am_requires_token = False\<rparr>,
      \<lparr>am_name = ''set-offload-requirement'', am_action = AdminAction.kSetOffloadRequirement,
       am_requires_identity = False, am_requires_reason = False, am_requires_token = True\<rparr>,
      \<lparr>am_name = ''shutdown'', am_action = AdminAction.kShutdownCoordinator, am_requires_identity = False,
       am_requires_reason = False, am_requires_token = False\<rparr>]"

definition find_administrative :: "string \<Rightarrow> AdministrativeCommand option" where
  "find_administrative name = find (\<lambda>command. am_name command = name) kAdministrativeCommands"

definition is_administrative :: "string \<Rightarrow> bool" where
  "is_administrative name \<longleftrightarrow> find_administrative name \<noteq> None"

text \<open>The argument after the command.\<close>

definition operand :: "Arguments \<Rightarrow> string option" where
  "operand args = (if length (ag_positional args) < 2 then None else Some (ag_positional args ! 1))"

definition dispatch_administrative :: "string \<Rightarrow> Arguments \<Rightarrow> InspectAction" where
  "dispatch_administrative command args =
     (case find_administrative command of
        None \<Rightarrow> Ends 2
      | Some spec \<Rightarrow>
          let reason = get_option args ''reason'' [] in
          case (if am_requires_identity spec then Option.bind (operand args) parse_id else Some 0) of
            None \<Rightarrow> Ends 2
          | Some i \<Rightarrow>
              if am_requires_reason spec \<and> reason = [] then Ends 2
              else case (if am_requires_token spec
                         then map_option (\<lambda>r. of_nat (ord_OffloadRequirement r))
                                (Option.bind (operand args) parse_enum_OffloadRequirement)
                         else Some 0) of
                     None \<Rightarrow> Ends 2
                   | Some v \<Rightarrow>
                       case remote_endpoint args of
                         None \<Rightarrow> Ends 2
                       | Some (host, port) \<Rightarrow> Administers host port (am_action spec) i reason v)"

definition command_remote_query :: "string \<Rightarrow> Arguments \<Rightarrow> InspectAction" where
  "command_remote_query command args =
     (case remote_endpoint args of
        None \<Rightarrow> Ends 2
      | Some (host, port) \<Rightarrow>
          if command = ''snapshot'' then Asks host port QueryKind.kSnapshot 0
          else if command = ''accounting'' then Asks host port QueryKind.kAccounting 0
          else if command = ''reconcile'' then Asks host port QueryKind.kReconcile 0
          else if command = ''attempt'' \<or> command = ''operation''
          then case Option.bind (operand args) parse_id of
                 None \<Rightarrow> Ends 2
               | Some i \<Rightarrow> Asks host port (if command = ''attempt'' then QueryKind.kAttempt else QueryKind.kOperation) i
          else Ends 2)"

definition command_version :: "Arguments \<Rightarrow> InspectAction" where
  "command_version args =
     (if \<not> has_option args ''port'' \<and> \<not> has_option args ''host'' then Ends 0
      else case remote_endpoint args of
             None \<Rightarrow> Ends 2 | Some (host, port) \<Rightarrow> Asks host port QueryKind.kVersion 0)"

definition dispatch_read_only :: "string \<Rightarrow> Arguments \<Rightarrow> InspectAction" where
  "dispatch_read_only command args =
     (if command = ''version'' then command_version args
      else if command \<in> {''cpu'', ''nics'', ''explain''} then Inspects_locally command
      else if command \<in> {''snapshot'', ''accounting'', ''reconcile'', ''attempt'', ''operation''}
      then command_remote_query command args
      else Ends 2)"

definition inspect_action :: "Arguments \<Rightarrow> InspectAction" where
  "inspect_action args =
     (if has_option args ''help'' \<or> ag_positional args = []
      then Ends (if ag_positional args = [] \<and> \<not> has_option args ''help'' then 2 else 0)
      else let command = ag_positional args ! 0 in
           if is_administrative command then dispatch_administrative command args
           else dispatch_read_only command args)"

text \<open>
  A remote action opens a session, makes its one request and closes the session when it leaves its scope.
  The result is the exit code and everything that was written to the coordinator. The local commands
  have no session; what they end with is an argument.
\<close>

definition in_session ::
    "(u8 list \<Rightarrow> Status) \<Rightarrow> Status \<Rightarrow> Status \<Rightarrow> string \<Rightarrow> u16 \<Rightarrow> u8 list \<Rightarrow>
       (RemoteSession \<Rightarrow> u8 list \<Rightarrow> nat \<times> frames) \<Rightarrow> nat \<times> frames" where
  "in_session answer connected lost host port input request =
     (case open_remote answer connected lost (new_remote_session host port) input of
        (opened, out, rest, rs) \<Rightarrow>
          let closing = fst (snd (client_close (rs_client rs))) in
          if \<not> st_ok opened then (1, out @ closing)
          else case request rs rest of (code, out') \<Rightarrow> (code, out @ out' @ closing))"

definition inspect_run ::
    "(string \<Rightarrow> nat) \<Rightarrow> (u8 list \<Rightarrow> Status) \<Rightarrow> Status \<Rightarrow> Status \<Rightarrow> InspectAction \<Rightarrow> u8 list \<Rightarrow> nat \<times> frames" where
  "inspect_run local_code answer connected lost action input =
     (case action of
        Ends code \<Rightarrow> (code, [])
      | Inspects_locally command \<Rightarrow> (local_code command, [])
      | Asks host port kind i \<Rightarrow>
          in_session answer connected lost host port input (\<lambda>rs rest.
            case remote_query answer lost rs kind i rest of
              (Bad st, out, _) \<Rightarrow> (1, out)
            | (Good m, out, _) \<Rightarrow> (if kind = QueryKind.kVersion \<or> qs_ok m then 0 else 1, out))
      | Administers host port act i reason v \<Rightarrow>
          in_session answer connected lost host port input (\<lambda>rs rest.
            case remote_admin answer lost rs act i reason v rest of
              (Bad st, out, _) \<Rightarrow> (1, out) | (Good m, out, _) \<Rightarrow> (if as_ok m then 0 else 1, out)))"

section \<open>Properties\<close>

subsection \<open>What the inspection program writes\<close>

definition read_only_message :: "WireMessage \<Rightarrow> bool" where
  "read_only_message w \<longleftrightarrow>
     (case w of HelloMsg hello \<Rightarrow> hm_role hello = PeerRole.kClient | QueryRequestMsg _ \<Rightarrow> True
      | GoodbyeMsg _ \<Rightarrow> True | _ \<Rightarrow> False)"

text \<open>The bytes of the messages that a predicate admits, within the frame limit of the program.\<close>

definition writes :: "(WireMessage \<Rightarrow> bool) \<Rightarrow> frames \<Rightarrow> bool" where
  "writes P out \<longleftrightarrow> (\<forall>bytes \<in> set out. \<exists>w. P w \<and> send_message w kMaxFrameBytes = Good bytes)"

definition bounded_client :: "CoordinatorClient \<Rightarrow> bool" where
  "bounded_client cl \<longleftrightarrow> cf_max_frame_bytes (cl_config cl) = kMaxFrameBytes"

lemma writes_append [simp]: "writes P (a @ b) \<longleftrightarrow> writes P a \<and> writes P b" "writes P []"
  by (auto simp: writes_def)

lemma exchange_writes:
  "bounded_client cl \<Longrightarrow> P w \<Longrightarrow> writes P (fst (snd (exchange answer lost cl w input)))"
  by (auto simp: exchange_def bounded_client_def writes_def Let_def split: Checked.splits FrameRead.splits)

lemma hello_client: "hm_role (client_hello cl) = PeerRole.kClient"
  by (simp add: client_hello_def)

lemma hello_keeps_config: "cl_config (snd (snd (connect_and_hello answer connected lost cl input))) = cl_config cl"
  by (auto simp: connect_and_hello_def decoding_def split: prod.splits Checked.splits sum.splits)

lemma hello_writes:
  assumes "bounded_client cl" and "P (HelloMsg (client_hello cl))"
  shows "writes P (fst (snd (connect_and_hello answer connected lost cl input)))"
    and "length (fst (snd (connect_and_hello answer connected lost cl input))) \<le> 1"
proof -
  have "fst (snd (connect_and_hello answer connected lost cl input)) =
      (if st_ok connected then fst (snd (exchange answer lost cl (HelloMsg (client_hello cl)) input)) else [])"
    by (auto simp: connect_and_hello_def decoding_def split: prod.splits Checked.splits sum.splits)
  moreover have "length (fst (snd (exchange answer lost cl w input))) \<le> 1" for w
    by (simp add: exchange_def Let_def split: Checked.split FrameRead.split)
  ultimately show "writes P (fst (snd (connect_and_hello answer connected lost cl input)))"
    and "length (fst (snd (connect_and_hello answer connected lost cl input))) \<le> 1"
    using exchange_writes [of cl P "HelloMsg (client_hello cl)"] assms by simp_all
qed

lemma close_writes:
  "bounded_client cl \<Longrightarrow> (\<And>m. P (GoodbyeMsg m)) \<Longrightarrow> writes P (fst (snd (client_close cl)))"
  by (auto simp: client_close_def bounded_client_def writes_def split: Checked.splits)

lemma exchange_request_writes:
  assumes "bounded_client (rs_client rs)" and "P w" and "P version_probe"
  shows "writes P (fst (snd (exchange_request answer lost rs w expected input)))"
proof -
  obtain first out rest where first: "exchange answer lost (rs_client rs) w input = (first, out, rest)"
    by (metis prod.exhaust)
  obtain second out' rest' where second: "exchange answer lost (rs_client rs) version_probe rest = (second, out', rest')"
    by (metis prod.exhaust)
  have "writes P out" "writes P out'"
    using exchange_writes [where P = P, OF assms(1) assms(2), of answer lost input]
      exchange_writes [where P = P, OF assms(1) assms(3), of answer lost rest] first second by simp_all
  then show ?thesis
    using first second by (auto simp: exchange_request_def Let_def split: Checked.split)
qed

lemma in_session_writes:
  assumes "\<And>h. hm_role h = PeerRole.kClient \<Longrightarrow> P (HelloMsg h)" and "\<And>m. P (GoodbyeMsg m)"
    and "\<And>rs rest. bounded_client (rs_client rs) \<Longrightarrow> writes P (snd (request rs rest))"
  shows "writes P (snd (in_session answer connected lost host port input request))"
proof -
  let ?cl = "rs_client (new_remote_session host port)"
  have b: "bounded_client ?cl" by (simp add: bounded_client_def new_remote_session_def new_client_def)
  then have b': "bounded_client (snd (snd (connect_and_hello answer connected lost ?cl input)))"
    by (simp add: bounded_client_def hello_keeps_config)
  note facts = hello_writes(1) [where P = P, OF b assms(1) [OF hello_client]] close_writes [where P = P, OF b' assms(2)]
    assms(3)
  show ?thesis
    using facts b'
    by (auto simp: in_session_def open_remote_def Let_def split_beta)
qed

lemma asking_is_read_only:
  "writes read_only_message (snd (inspect_run local_code answer connected lost (Asks host port kind i) input))"
  unfolding inspect_run_def InspectAction.case
proof (rule in_session_writes)
  fix rs :: RemoteSession and rest assume "bounded_client (rs_client rs)"
  then have "writes read_only_message (fst (snd (exchange_request answer lost rs
      (QueryRequestMsg \<lparr>qr_kind = kind, qr_id = i\<rparr>) MessageType.kQueryResponse rest)))"
    by (rule exchange_request_writes) (simp_all add: read_only_message_def version_probe_def)
  then show "writes read_only_message (snd (case remote_query answer lost rs kind i rest of
      (Bad st, out, _) \<Rightarrow> (1, out)
    | (Good m, out, _) \<Rightarrow> (if kind = QueryKind.kVersion \<or> qs_ok m then 0 else 1, out)))"
    by (auto simp: remote_query_def split: prod.splits Checked.splits)
qed (simp_all add: read_only_message_def)

lemma read_only_action:
  assumes "\<not> is_administrative (ag_positional args ! 0)"
  shows "(\<exists>code. inspect_action args = Ends code) \<or> (\<exists>command. inspect_action args = Inspects_locally command)
    \<or> (\<exists>host port kind i. inspect_action args = Asks host port kind i)"
  using assms
  by (simp add: inspect_action_def dispatch_read_only_def command_version_def command_remote_query_def Let_def
      split: option.split prod.split)

text \<open>A query moves the counter of snapshots and the kept reports, and nothing else.\<close>

definition authority_of :: "Scheduler \<Rightarrow> Scheduler" where
  "authority_of s = s\<lparr>sc_snapshot_counter := 0, sc_reports := []\<rparr>"

lemma query_keeps_authority: "authority_of (snd (query s m)) = authority_of s"
  by (simp add: query_def authority_of_def snapshot_def reconcile_def Let_def split_beta
      split: QueryKind.split option.split)

lemma read_only_frame_keeps_authority:
  assumes "read_only_message w" and "deliverable n w"
  shows "authority_of (co_scheduler (snd (handle_frame nw save co se (sent_frame w)))) = authority_of (co_scheduler co)"
proof (cases w)
  case (HelloMsg hello)
  have "decoding take_Hello (fm_payload (sent_frame w)) malformed f = f hello" for malformed :: "outgoing list \<times> Coordinator" and f
    by (rule delivered_decoding [OF assms(2), where c = HelloMsg]) (simp_all add: HelloMsg)
  then show ?thesis
    using assms(1) HelloMsg by (simp add: handle_frame_def handle_hello_def read_only_message_def put_session_def Let_def)
next
  case (QueryRequestMsg q)
  show ?thesis
    using assms(2) query_keeps_authority [of "co_scheduler co" q]
    by (simp add: handle_frame_def handle_query_def QueryRequestMsg query_decodes split_beta)
next
  case (GoodbyeMsg m)
  then show ?thesis by (simp add: handle_frame_def put_session_def)
qed (use assms(1) in \<open>simp_all add: read_only_message_def\<close>)

text \<open>
  C14. A read-only command of the inspection program never mutates a coordinator: whatever the network
  delivers, everything it writes is a greeting as a client, a query or a farewell, and the coordinator
  that handles such a frame keeps its scheduler but for the counter and the reports of snapshots.\<close>

theorem read_only_commands_do_not_mutate:
  assumes "\<not> is_administrative (ag_positional args ! 0)"
    and "bytes \<in> set (snd (inspect_run local_code answer connected lost (inspect_action args) input))"
  shows "\<exists>w. send_message w kMaxFrameBytes = Good bytes \<and> read_only_message w
    \<and> (\<forall>n nw save co se. deliverable n w \<longrightarrow>
         authority_of (co_scheduler (snd (handle_frame nw save co se (sent_frame w)))) = authority_of (co_scheduler co))"
proof -
  obtain host port kind i where "inspect_action args = Asks host port kind i"
    using read_only_action [OF assms(1)] assms(2) by (auto simp: inspect_run_def)
  then have "writes read_only_message
      (snd (inspect_run local_code answer connected lost (inspect_action args) input))"
    by (simp add: asking_is_read_only)
  then show ?thesis using assms(2) read_only_frame_keeps_authority unfolding writes_def by blast
qed

definition demo_arguments :: Arguments where
  "demo_arguments = cli_parse [''tos_inspect'', ''snapshot'', ''--port'', ''9000'']"

lemma demo_arguments_parsed:
  "demo_arguments = \<lparr>ag_positional = [''snapshot''], ag_options = [(''port'', ''9000'')]\<rparr>"
  by (simp add: demo_arguments_def cli_parse_def is_option_def add_option_def)

lemma demo_not_administrative: "\<not> is_administrative (ag_positional demo_arguments ! 0)"
  by (simp add: demo_arguments_parsed is_administrative_def find_administrative_def kAdministrativeCommands_def)

lemma demo_port: "get_u16 demo_arguments ''port'' 0 = 9000"
  by (simp add: demo_arguments_parsed get_u16_def get_u64_def get_option_def detected_base_def strtoull_def
      skip_hex_prefix_def digits_value_def digit_value_def is_space_def)

lemma demo_action: "inspect_action demo_arguments = Asks ''127.0.0.1'' 9000 QueryKind.kSnapshot 0"
  using demo_not_administrative
  by (simp add: demo_arguments_parsed inspect_action_def dispatch_read_only_def command_remote_query_def
      remote_endpoint_def demo_port [unfolded demo_arguments_parsed] has_option_def get_option_def)

definition demo_greeting :: WireMessage where
  "demo_greeting = HelloMsg (client_hello (rs_client (new_remote_session ''127.0.0.1'' 9000)))"

lemma demo_greeting_deliverable: "deliverable kMaxFrameBytes demo_greeting"
  by (simp add: demo_greeting_def deliverable_def sendable_Hello_def client_hello_def new_remote_session_def new_client_def
      put_Hello_def put_enum_def call_bytes.simps kMaxFrameBytes_def kMaxBlobBytes_def kFrameHeaderBytes_def kMaxNameLength_def
      kMaxLabelLength_def)

theorem read_only_commands_do_not_mutate_witness:
  "\<exists>w. send_message w kMaxFrameBytes = Good (sent_bytes demo_greeting) \<and> read_only_message w"
proof -
  have "sent_bytes demo_greeting \<in> set (snd (inspect_run (\<lambda>_. 0) (\<lambda>_. success) success
      (failure ''net.closed'' []) (inspect_action demo_arguments) []))"
    using delivered(1) [OF demo_greeting_deliverable]
    by (simp add: demo_action inspect_run_def in_session_def open_remote_def connect_and_hello_def exchange_def Let_def
        demo_greeting_def read_frame_def kFrameHeaderBytes_def new_remote_session_def new_client_def bad_def)
  from read_only_commands_do_not_mutate [OF demo_not_administrative this] show ?thesis by blast
qed

subsection \<open>Pairing of requests and answers\<close>

lemma exchange_delivered:
  assumes "bounded_client cl" and "\<And>bytes. st_ok (answer bytes)"
    and "deliverable kMaxFrameBytes w" and "deliverable kMaxFrameBytes reply"
  shows "exchange answer lost cl w (sent_bytes reply @ rest) = (Good (sent_frame reply), [sent_bytes w], rest)"
  using assms(1,2) delivered(1) [OF assms(3)] delivered(2) [OF assms(4), of rest]
  by (simp add: exchange_def bounded_client_def Let_def)

text \<open>In a new session the answer to a query is what the program gets, with the query as its only frame.\<close>

theorem inspection_gets_its_answer:
  assumes "bounded_client (rs_client rs)" and "\<not> rs_lag_checked rs" and "\<not> rs_lagged rs"
    and "\<And>bytes. st_ok (answer bytes)"
    and "deliverable kMaxFrameBytes (QueryRequestMsg \<lparr>qr_kind = kind, qr_id = i\<rparr>)"
    and "deliverable kMaxFrameBytes (QueryResponseMsg response)"
  shows "remote_query answer lost rs kind i (sent_bytes (QueryResponseMsg response)) =
    (Good response, [sent_bytes (QueryRequestMsg \<lparr>qr_kind = kind, qr_id = i\<rparr>)], rs\<lparr>rs_lag_checked := True\<rparr>)"
proof -
  have "rs\<lparr>rs_lag_checked := True, rs_lagged := False\<rparr> = rs\<lparr>rs_lag_checked := True\<rparr>" using assms(3) by simp
  then show ?thesis
    using exchange_delivered [OF assms(1) _ assms(5,6), of answer lost "[]"] assms(2,3,4)
    by (simp add: remote_query_def exchange_request_def response_decodes [OF assms(6)] Let_def)
qed

definition demo_remote :: RemoteSession where
  "demo_remote = new_remote_session ''127.0.0.1'' 9000"

theorem inspection_gets_its_answer_witness:
  "fst (remote_query (\<lambda>_. success) success demo_remote QueryKind.kAttempt 3
     (sent_bytes (QueryResponseMsg \<lparr>qs_ok = False, qs_code = ''attempt.not_found'', qs_body = []\<rparr>))) =
   Good \<lparr>qs_ok = False, qs_code = ''attempt.not_found'', qs_body = []\<rparr>"
  using inspection_gets_its_answer [of demo_remote "\<lambda>_. success" QueryKind.kAttempt 3
      "\<lparr>qs_ok = False, qs_code = ''attempt.not_found'', qs_body = []\<rparr>" success] demo_deliverable(4,5)
  by (simp add: demo_remote_def new_remote_session_def new_client_def bounded_client_def)

text \<open>
  The session is written for a client that greets twice, but the client greets once: an answer of
  another type is therefore taken for a lag. When a coordinator refuses a query with an error frame,
  the program asks for the version and reports the version as the answer to the query.\<close>

theorem refusal_is_reported_as_version:
  assumes "bounded_client (rs_client rs)" and "\<not> rs_lag_checked rs" and "\<And>bytes. st_ok (answer bytes)"
    and "deliverable kMaxFrameBytes (QueryRequestMsg \<lparr>qr_kind = kind, qr_id = i\<rparr>)"
    and "deliverable kMaxFrameBytes version_probe"
    and "deliverable kMaxFrameBytes (ErrorMsg refusal)" and "deliverable kMaxFrameBytes (QueryResponseMsg version)"
  shows "length (fst (snd (connect_and_hello answer connected lost (rs_client rs) input))) \<le> 1
    \<and> fst (remote_query answer lost rs kind i (sent_bytes (ErrorMsg refusal) @ sent_bytes (QueryResponseMsg version))) =
        Good version"
proof -
  have first: "exchange answer lost (rs_client rs) (QueryRequestMsg \<lparr>qr_kind = kind, qr_id = i\<rparr>)
      (sent_bytes (ErrorMsg refusal) @ sent_bytes (QueryResponseMsg version)) =
      (Good (sent_frame (ErrorMsg refusal)), [sent_bytes (QueryRequestMsg \<lparr>qr_kind = kind, qr_id = i\<rparr>)],
       sent_bytes (QueryResponseMsg version))"
    using exchange_delivered [OF assms(1) _ assms(4,6), of answer lost] assms(3) by simp
  have second: "exchange answer lost (rs_client rs) version_probe (sent_bytes (QueryResponseMsg version)) =
      (Good (sent_frame (QueryResponseMsg version)), [sent_bytes version_probe], [])"
    using exchange_delivered [OF assms(1) _ assms(5,7), of answer lost "[]"] assms(3) by simp
  have "length (fst (snd (connect_and_hello answer connected lost (rs_client rs) input))) \<le> 1"
    using hello_writes(2) [OF assms(1), where P = "\<lambda>_. True"] by simp
  then show ?thesis
    using first second assms(2)
    by (simp add: remote_query_def exchange_request_def response_decodes [OF assms(7)] Let_def)
qed

lemma demo_refusal_deliverable:
  "deliverable kMaxFrameBytes version_probe"
  "deliverable kMaxFrameBytes (ErrorMsg \<lparr>er_code = ''protocol.malformed_query'', er_detail = ''query rejected''\<rparr>)"
  "deliverable kMaxFrameBytes (QueryResponseMsg \<lparr>qs_ok = True, qs_code = ''ok'', qs_body = ''1.0''\<rparr>)"
  by (simp_all add: deliverable_def version_probe_def put_QueryRequest_def put_QueryResponse_def sendable_QueryResponse_def
      sendable_Error_def put_Error_def put_enum_def call_bytes.simps kMaxNameLength_def kMaxTextLength_def
      kMaxProtocolPayloadBytes_def kFrameHeaderBytes_def kMaxFrameBytes_def kMaxBlobBytes_def)

theorem refusal_is_reported_as_version_witness:
  "fst (remote_query (\<lambda>_. success) success demo_remote QueryKind.kAttempt 3
     (sent_bytes (ErrorMsg \<lparr>er_code = ''protocol.malformed_query'', er_detail = ''query rejected''\<rparr>)
      @ sent_bytes (QueryResponseMsg \<lparr>qs_ok = True, qs_code = ''ok'', qs_body = ''1.0''\<rparr>))) =
   Good \<lparr>qs_ok = True, qs_code = ''ok'', qs_body = ''1.0''\<rparr>"
  using refusal_is_reported_as_version [OF _ _ _ demo_deliverable(4) demo_refusal_deliverable, of demo_remote
      "\<lambda>_. success" success success "[]"]
  by (simp add: demo_remote_def new_remote_session_def new_client_def bounded_client_def)

subsection \<open>Parsing\<close>

definition option_token :: "string \<times> string \<Rightarrow> string" where
  "option_token = (\<lambda>(name, v). ''--'' @ name @ ''='' @ v)"

lemma option_token_split:
  assumes "CHR ''='' \<notin> set name"
  shows "drop 2 (takeWhile (\<lambda>c. c \<noteq> CHR ''='') (option_token (name, v))) = name"
    and "tl (dropWhile (\<lambda>c. c \<noteq> CHR ''='') (option_token (name, v))) = v"
    and "is_option (option_token (name, v))" and "CHR ''='' \<in> set (option_token (name, v))"
proof -
  have "\<forall>c \<in> set name. c \<noteq> CHR ''=''" using assms by auto
  then show "drop 2 (takeWhile (\<lambda>c. c \<noteq> CHR ''='') (option_token (name, v))) = name"
    and "tl (dropWhile (\<lambda>c. c \<noteq> CHR ''='') (option_token (name, v))) = v"
    by (simp_all add: option_token_def takeWhile_append2 dropWhile_append2)
qed (simp_all add: option_token_def is_option_def)

lemma parse_positional:
  "list_all (\<lambda>t. \<not> is_option t) ps \<Longrightarrow>
     parse_arguments ps args = args\<lparr>ag_positional := ag_positional args @ ps\<rparr>"
  by (induction ps arbitrary: args) simp_all

lemma parse_options:
  "list_all (\<lambda>(name, _). CHR ''='' \<notin> set name) opts \<Longrightarrow>
     parse_arguments (map option_token opts @ rest) args =
     parse_arguments rest (args\<lparr>ag_options := ag_options args @ opts\<rparr>)"
  by (induction opts arbitrary: args) (auto simp: option_token_split add_option_def)

text \<open>
  A command line made of \<^verbatim>\<open>--name=value\<close> tokens and positional arguments is parsed back into exactly those
  options and arguments, in order, whatever the values contain.\<close>

theorem arguments_round_trip:
  assumes "list_all (\<lambda>(name, _). CHR ''='' \<notin> set name) opts" and "list_all (\<lambda>t. \<not> is_option t) ps"
  shows "cli_parse (program # map option_token opts @ ps) = \<lparr>ag_positional = ps, ag_options = opts\<rparr>"
  using parse_options [OF assms(1)] parse_positional [OF assms(2)] by (simp add: cli_parse_def)

theorem arguments_round_trip_witness:
  "cli_parse (''tos_worker'' # map option_token [(''name'', ''a=--b''), (''port'', ''1'')] @ [''x'']) =
   \<lparr>ag_positional = [''x''], ag_options = [(''name'', ''a=--b''), (''port'', ''1'')]\<rparr>"
  using arguments_round_trip [of "[(''name'', ''a=--b''), (''port'', ''1'')]" "[''x'']" "''tos_worker''"]
  by (simp add: is_option_def)

subsection \<open>What a worker claims\<close>

lemma worker_domain_record:
  "dr_provenance (record_of (ensure_generations (worker_domain host name node token provenance type i))) = provenance"
  "dr_type (record_of (ensure_generations (worker_domain host name node token provenance type i))) = type"
  "cap_authoritative (dr_capability (record_of (ensure_generations (worker_domain host name node token provenance type i))))
     = (provenance \<noteq> Provenance.kUnsupported)"
  "provenance = Provenance.kUnsupported \<Longrightarrow>
     cs_operations (cap_capability (dr_capability
       (record_of (ensure_generations (worker_domain host name node token provenance type i))))) = []"
  by (simp_all add: record_of_def ensure_generations_def worker_domain_def make_synthetic_domain_def canonicalize_def Let_def)

lemma in_updated: "e \<in> set (AList.update k v m) \<Longrightarrow> e = (k, v) \<or> e \<in> set m"
  by (induction m) (auto split: if_splits)

lemma added_domains:
  assumes "add_worker_domains config is b = Some b'"
    and "\<And>k c. (k, c) \<in> set (sb_domains b) \<Longrightarrow> \<exists>i. c = ensure_generations (config i)"
    and "(k, c) \<in> set (sb_domains b')"
  shows "\<exists>i. c = ensure_generations (config i)"
  using assms
proof (induction "is" arbitrary: b)
  case (Cons i "is")
  obtain st b1 where added: "add_domain b (config (of_nat i)) = (st, b1)" by fastforce
  with Cons.prems(1) have rest: "add_worker_domains config is b1 = Some b'" by (auto split: if_splits)
  have "\<exists>i. c = ensure_generations (config i)" if "(k, c) \<in> set (sb_domains b1)" for k c
    using added that Cons.prems(2)
    by (auto simp: add_domain_def Let_def split: if_splits dest!: in_updated)
  from Cons.IH [OF rest this Cons.prems(3)] show ?case .
qed simp

text \<open>
  The domains that the worker program publishes over a synthetic backend carry the provenance of the
  command line unchecked: \<^verbatim>\<open>unsupported\<close> claims nothing, while \<^verbatim>\<open>real\<close> publishes a domain of any class, which no
  device stands behind, as real and authoritative.\<close>

theorem worker_domains_carry_the_given_provenance:
  assumes "make_backend host args provenance token type wanted = Some (Synthetic b)"
    and "r \<in> set (fst (synthetic_discover b))"
  shows "dr_provenance r = provenance \<and> dr_type r = type
    \<and> cap_authoritative (dr_capability r) = (provenance \<noteq> Provenance.kUnsupported)
    \<and> (provenance = Provenance.kUnsupported \<longrightarrow> cs_operations (cap_capability (dr_capability r)) = [])"
proof -
  let ?config = "worker_domain (hf_host_name host) (get_option args ''name'' ''worker'')
    (get_option args ''node'' ''local.host'') token provenance type"
  obtain k c where c: "(k, c) \<in> set (sb_domains b)" "r = record_of c"
    using assms(2) by (auto simp: synthetic_discover_def synthetic_configs_def)
  have "add_worker_domains ?config [0..<unat wanted]
      (new_synthetic_backend (get_option args ''name'' ''worker'' @ ''.'' @ token)) = Some b"
    using assms(1) by (auto simp: make_backend_def Let_def split: if_splits)
  from added_domains [OF this _ c(1)] obtain i where i: "c = ensure_generations (?config i)"
    by (auto simp: new_synthetic_backend_def)
  show ?thesis unfolding c(2) i by (intro conjI impI worker_domain_record)
qed

definition demo_host_facts :: HostFacts where
  "demo_host_facts = \<lparr>hf_threads = 4, hf_cpu_brand = ''demo'', hf_host_name = ''host'', hf_physical_memory = 0\<rparr>"

theorem worker_domains_carry_the_given_provenance_witness:
  "\<exists>b. make_backend demo_host_facts demo_arguments Provenance.kReal ''accelerator'' ExecutionDomainType.kAccelerator 1 =
         Some (Synthetic b)
     \<and> list_all (\<lambda>r. dr_provenance r = Provenance.kReal \<and> cap_authoritative (dr_capability r)) (fst (synthetic_discover b))
     \<and> fst (synthetic_discover b) \<noteq> []"
proof -
  let ?c = "worker_domain ''host'' ''worker'' ''local.host'' ''accelerator'' Provenance.kReal ExecutionDomainType.kAccelerator 0"
  let ?b = "snd (add_domain (new_synthetic_backend ''worker.accelerator'') ?c)"
  have made: "make_backend demo_host_facts demo_arguments Provenance.kReal ''accelerator'' ExecutionDomainType.kAccelerator 1 =
      Some (Synthetic ?b)"
    by (simp add: make_backend_def demo_host_facts_def demo_arguments_parsed get_option_def add_domain_def
        new_synthetic_backend_def kMaxExecutionDomains_def Let_def)
  moreover have "fst (synthetic_discover ?b) \<noteq> []"
    by (simp add: synthetic_discover_def synthetic_configs_def add_domain_def new_synthetic_backend_def
        kMaxExecutionDomains_def Let_def)
  ultimately show ?thesis
    using worker_domains_carry_the_given_provenance [OF made] by (auto simp: list_all_iff)
qed

subsection \<open>Numbers\<close>

text \<open>
  A number on the command line that is not one is zero, and a port wraps at 2 ^ 16: 65536 is the
  missing port and 65537 is port 1.\<close>

theorem option_numbers_are_unchecked:
  "get_u64 (cli_parse [''p'', ''--max-sessions=many'']) ''max-sessions'' 32 = 0
   \<and> get_u16 (cli_parse [''p'', ''--port=65536'']) ''port'' 0 = 0
   \<and> get_u16 (cli_parse [''p'', ''--port=65537'']) ''port'' 0 = 1"
  by (simp add: cli_parse_def is_option_def add_option_def get_u16_def get_u64_def get_option_def detected_base_def
      strtoull_def skip_hex_prefix_def digits_value_def digit_value_def is_space_def)

end
