(* ===== verification/Tos_Random.thy ===== *)
theory Tos_Random
  imports Tos_Prelude
begin

text \<open>
  \<^verbatim>\<open>src/src/util/random.cpp\<close>: the finaliser both generators share, the identities a process draws and the
  deterministic generator. The counter, the clock, the entropy and the process number are arguments of a
  draw.
\<close>

section \<open>Definitions\<close>

definition golden :: u64 where "golden = 0x9E3779B97F4A7C15"

definition mix :: "u64 \<Rightarrow> u64" where
  "mix x =
     (let x = x + golden;
          x = (x XOR drop_bit 30 x) * 0xBF58476D1CE4E5B9;
          x = (x XOR drop_bit 27 x) * 0x94D049BB133111EB
      in x XOR drop_bit 31 x)"

text \<open>The counter of the process is returned advanced.\<close>

definition process_unique_u64 :: "u32 \<Rightarrow> u64 \<Rightarrow> u64 \<Rightarrow> u64 \<Rightarrow> u64 \<times> u64" where
  "process_unique_u64 pid clock entropy counter =
     (let counter = counter + 1;
          v = mix (counter XOR push_bit 32 (ucast pid));
          v = v XOR mix clock;
          v = v XOR mix entropy;
          v = mix v
      in (if v = 0 then 1 else v, counter))"

definition next_u64 :: "u64 \<Rightarrow> u64 \<times> u64" where
  "next_u64 state =
     (let state = state + golden; z = state;
          z = (z XOR drop_bit 30 z) * 0xBF58476D1CE4E5B9;
          z = (z XOR drop_bit 27 z) * 0x94D049BB133111EB
      in (z XOR drop_bit 31 z, state))"

definition below :: "u32 \<Rightarrow> u64 \<Rightarrow> u32 \<times> u64" where
  "below bound state =
     (if bound = 0 then (0, state)
      else case next_u64 state of (v, state') \<Rightarrow> (ucast (v mod ucast bound), state'))"

definition chance :: "u32 \<Rightarrow> u32 \<Rightarrow> u64 \<Rightarrow> bool \<times> u64" where
  "chance numerator denominator state =
     (if denominator = 0 then (False, state)
      else case below denominator state of (v, state') \<Rightarrow> (v < numerator, state'))"

text \<open>The value of a draw after a number of draws.\<close>

primrec drawn :: "nat \<Rightarrow> u64 \<Rightarrow> u64" where
  "drawn 0 state = fst (next_u64 state)"
| "drawn (Suc n) state = drawn n (snd (next_u64 state))"

section \<open>The finaliser loses nothing\<close>

lemma word_xor_cancel: "x XOR y = (0 :: u64) \<Longrightarrow> x = y"
  by (metis xor.assoc xor.left_neutral xor.right_neutral xor_self_eq)

lemma xor_cancel:
  assumes "a XOR c = b XOR (c :: u64)"
  shows "a = b"
proof -
  have "(a XOR c) XOR c = (b XOR c) XOR c" using assms by simp
  then show ?thesis by (simp add: xor.assoc)
qed

lemma shift_fixpoint:
  assumes "0 < s" and "z = drop_bit s z"
  shows "z = (0 :: u64)"
proof -
  have "unat z = unat z div 2 ^ s" by (metis assms(2) unat_drop_bit_eq drop_bit_eq_div)
  moreover have "unat z div 2 ^ s < unat z" if "0 < unat z"
    using that assms(1) one_less_power [of "2 :: nat" s] by (intro div_less_dividend) simp_all
  ultimately have "unat z = 0" by fastforce
  then show ?thesis by (simp add: unat_eq_0)
qed

lemma xorshift_injective:
  assumes "0 < s" and "x XOR drop_bit s x = y XOR drop_bit s y"
  shows "x = (y :: u64)"
proof -
  let ?z = "x XOR y"
  have "?z XOR drop_bit s ?z = (x XOR drop_bit s x) XOR (y XOR drop_bit s y)"
    by (simp add: ac_simps)
  then have "?z XOR drop_bit s ?z = 0" using assms(2) by simp
  then show ?thesis using shift_fixpoint [OF assms(1)] word_xor_cancel by blast
qed

lemma times_injective:
  assumes "c * i = (1 :: u64)" and "x * c = y * c"
  shows "x = y"
proof -
  have "x * (c * i) = y * (c * i)" using assms(2) by (simp flip: mult.assoc)
  then show ?thesis using assms(1) by simp
qed

lemma round_injective:
  "0 < s \<Longrightarrow> c * i = (1 :: u64) \<Longrightarrow> (x XOR drop_bit s x) * c = (y XOR drop_bit s y) * c \<Longrightarrow> x = y"
  using times_injective xorshift_injective by blast

theorem mix_injective: "mix x = mix y \<Longrightarrow> x = y"
proof -
  assume eq: "mix x = mix y"
  have inverses: "(0xBF58476D1CE4E5B9 :: u64) * 0x96de1b173f119089 = 1"
      "(0x94D049BB133111EB :: u64) * 0x319642b2d24d8ec3 = 1"
    by simp_all
  note last = xorshift_injective [OF zero_less_numeral eq [unfolded mix_def Let_def]]
  note second = round_injective [OF zero_less_numeral inverses(2) last]
  note first = round_injective [OF zero_less_numeral inverses(1) second]
  then show ?thesis by simp
qed

lemma next_is_mix: "next_u64 state = (mix state, state + golden)"
  by (simp add: next_u64_def mix_def Let_def)

lemma drawn_closed: "drawn n state = mix (state + of_nat n * golden)"
  by (induction n arbitrary: state) (simp_all add: next_is_mix algebra_simps)

section \<open>Properties\<close>

text \<open>
  The deterministic generator has the full period: the first 2 ^ 64 values it draws are pairwise
  different, so each 64-bit value is drawn exactly once in a period.\<close>

theorem generator_has_full_period:
  assumes "i < 2 ^ 64" and "j < 2 ^ 64" and "drawn i seed = drawn j seed"
  shows "i = j"
proof -
  have "golden * 0xF1DE83E19937733D = 1" by (simp add: golden_def)
  then have "(of_nat i :: u64) = of_nat j"
    using assms(3) times_injective mix_injective unfolding drawn_closed by (metis add_left_imp_eq)
  then show ?thesis using assms(1,2) by (simp add: word_of_nat_eq_iff take_bit_nat_eq_self)
qed

theorem generator_has_full_period_witness: "drawn 0 7 \<noteq> drawn 1 7"
  using generator_has_full_period [of 0 1 7] by auto

text \<open>A bounded draw is below its bound, and a certain chance always happens.\<close>

theorem draws_are_bounded:
  assumes "bound \<noteq> 0"
  shows "fst (below bound state) < bound \<and> fst (chance bound bound state) \<and> \<not> fst (chance 0 bound state)"
proof -
  have small: "unat bound < 2 ^ 32" using unsigned_less [of bound] by simp
  then have widened: "unat (ucast bound :: u64) = unat bound" by (simp add: unsigned_ucast_eq take_bit_nat_eq_self)
  have "unat v mod unat bound < unat bound" for v :: u64 using assms by (simp add: unat_gt_0)
  moreover have "unat (ucast (v mod ucast bound :: u64) :: u32) = unat v mod unat bound" for v :: u64
  proof -
    have "unat (v mod ucast bound) = unat v mod unat bound" by (simp only: unat_mod widened)
    moreover have "unat v mod unat bound < 2 ^ 32"
      using assms small by (meson less_trans mod_less_divisor unat_gt_0 word_neq_0_conv)
    ultimately show ?thesis by (simp add: unsigned_ucast_eq take_bit_nat_eq_self)
  qed
  ultimately have "fst (below bound state) < bound"
    using assms by (simp add: below_def split_beta word_less_nat_alt)
  then show ?thesis using assms by (simp add: chance_def split_beta)
qed

theorem draws_are_bounded_witness: "fst (below 10 7) < 10"
  using draws_are_bounded [of 10 7] by simp

text \<open>
  An identity that a process draws is never the invalid zero, and two draws that see the same clock and
  the same entropy differ by their counters alone; only the replacement of zero could make them meet.\<close>

theorem process_identities_are_valid_and_distinct:
  "fst (process_unique_u64 pid clock entropy counter) \<noteq> 0
   \<and> (fst (process_unique_u64 pid clock entropy counter) = fst (process_unique_u64 pid clock entropy counter')
        \<longrightarrow> counter = counter' \<or> fst (process_unique_u64 pid clock entropy counter) = 1)"
proof -
  define f where "f = (\<lambda>c. mix ((mix ((c + 1) XOR push_bit 32 (ucast pid)) XOR mix clock) XOR mix entropy))"
  have "inj f"
  proof (rule injI)
    fix c c' assume same: "f c = f c'"
    show "c = c'"
      using xor_cancel [OF mix_injective [OF xor_cancel [OF xor_cancel [OF mix_injective [OF same [unfolded f_def]]]]]]
      by simp
  qed
  moreover have "fst (process_unique_u64 pid clock entropy c) = (if f c = 0 then 1 else f c)" for c
    by (simp add: process_unique_u64_def f_def Let_def)
  ultimately show ?thesis by (simp add: inj_eq)
qed

theorem process_identities_are_valid_and_distinct_witness:
  "fst (process_unique_u64 1 2 3 4) = fst (process_unique_u64 1 2 3 5) \<longrightarrow> fst (process_unique_u64 1 2 3 4) = 1"
  using process_identities_are_valid_and_distinct [of 1 2 3 4 5] by simp

end
