(* ===== verification/Spec2Isabelle.thy ===== *)
theory Spec2Isabelle
  imports Tos_Cuda Tos_Apps Tos_Random
begin

text \<open>
  \<^bold>\<open>Transport Offload Scheduler: verification development.\<close>

  The program plans transport operations (checksum, compression, copying, segmentation) onto execution
  domains (host processor, accelerator, network card, data processing unit), reserves capacity on the
  chosen domain, dispatches the operation over a channel and decides which completion is authoritative.
  Its promises are about authority: no plan is dispatched on stale evidence, no capacity is handed out
  twice, at most one completion commits per attempt, an operation whose outcome is unknown is never
  replayed, and a restart never believes what it cannot prove.

  \<^bold>\<open>Parts and theories.\<close> Each theory models one part of the sources under
  \<^verbatim>\<open>src/include/tos\<close> and \<^verbatim>\<open>src/src\<close>; the definitions keep the names of the code.

  \<^item> \<^verbatim>\<open>Tos_Prelude\<close>: statuses, bounded text, identities and generations (\<^verbatim>\<open>status.hpp\<close>,
    \<^verbatim>\<open>identities.hpp\<close>), association lists for the unordered maps, and the shared lemmas.
  \<^item> \<^verbatim>\<open>Tos_Enums\<close>: the enumerations of \<^verbatim>\<open>enums.hpp\<close> with their names and parsers.
  \<^item> \<^verbatim>\<open>Tos_Reservation\<close>: the sharded ledger of \<^verbatim>\<open>reservation.cpp\<close>; \<^verbatim>\<open>Tos_Attempt\<close>: the attempt ledger of
    \<^verbatim>\<open>attempt.cpp\<close>, which holds the completion authority.
  \<^item> \<^verbatim>\<open>Tos_Operation\<close>, \<^verbatim>\<open>Tos_Capability\<close>, \<^verbatim>\<open>Tos_Domain\<close>, \<^verbatim>\<open>Tos_Registry\<close>, \<^verbatim>\<open>Tos_Policy\<close>, \<^verbatim>\<open>Tos_Ranking\<close>,
    \<^verbatim>\<open>Tos_Authority\<close>, \<^verbatim>\<open>Tos_Planner\<close>: operation classes and requests, capability checks, domain
    records and their registry (\<^verbatim>\<open>state.cpp\<close>), policy validation, candidate order, binding validation
    with the worker incarnations, and the ranking factors.
  \<^item> \<^verbatim>\<open>Tos_Eligibility\<close>, \<^verbatim>\<open>Tos_Plan\<close>, \<^verbatim>\<open>Tos_Dispatch\<close>, \<^verbatim>\<open>Tos_Recovery\<close>: \<^verbatim>\<open>scheduler.cpp\<close>. The record
    \<^verbatim>\<open>Scheduler\<close> is \<^verbatim>\<open>Scheduler::Impl\<close>; every public method is a function from the state to its result
    and the new state, with every early return as a branch.
  \<^item> \<^verbatim>\<open>Tos_Bytes\<close>, \<^verbatim>\<open>Tos_Executor\<close>: the checksums of \<^verbatim>\<open>crc32c.cpp\<close>, the host transforms of
    \<^verbatim>\<open>backend.cpp\<close> and the described processor domain. \<^verbatim>\<open>Tos_Backends\<close>: the synthetic backend with its
    injected faults (\<^verbatim>\<open>synthetic.cpp\<close>) and the processor backend object (\<^verbatim>\<open>cpu_backend.cpp\<close>).
    \<^verbatim>\<open>Tos_Publisher\<close>: \<^verbatim>\<open>local_publisher.cpp\<close>, which keeps a scheduler in step with a backend.
  \<^item> \<^verbatim>\<open>Tos_Device\<close>, \<^verbatim>\<open>Tos_Cuda\<close>: the accelerator. The kernels, their shift operators over GF(2), the
    chunking and the bridge of \<^verbatim>\<open>cuda_kernels.cu\<close>, and the backend over it (\<^verbatim>\<open>cuda_backend.cpp\<close>, and
    \<^verbatim>\<open>cuda_bridge_stub.cpp\<close> for a build without a toolkit). \<^verbatim>\<open>Tos_Nic\<close>: the inventory of network adapters and
    their domains (\<^verbatim>\<open>nic_probe.cpp\<close>).
  \<^item> \<^verbatim>\<open>Tos_Channel\<close>: the local dispatch channel with its injected faults and the task queue of the pool.
  \<^item> \<^verbatim>\<open>Tos_Buffer\<close>, \<^verbatim>\<open>Tos_Codec\<close>, \<^verbatim>\<open>Tos_Store\<close>: the bounded writer and the sticky-error reader of
    \<^verbatim>\<open>bytes.cpp\<close> with its files, and the image of the persisted state (\<^verbatim>\<open>codec.cpp\<close>, \<^verbatim>\<open>store.cpp\<close>).
    \<^verbatim>\<open>Tos_Durability\<close> joins them with the scheduler: what survives a restart.
  \<^item> \<^verbatim>\<open>Tos_Wire\<close>, \<^verbatim>\<open>Tos_Messages\<close>: the frames and messages of \<^verbatim>\<open>protocol.cpp\<close>; \<^verbatim>\<open>Tos_Stream\<close>: reading
    them back from the bytes of a connection. \<^verbatim>\<open>Tos_Coordinator\<close>: \<^verbatim>\<open>coordinator.cpp\<close>, its sessions, the
    handler of every message and the remote dispatch channel; \<^verbatim>\<open>Tos_Worker\<close>: \<^verbatim>\<open>worker.cpp\<close> and
    \<^verbatim>\<open>client.cpp\<close>, and the exchanges of both with the coordinator.
  \<^item> \<^verbatim>\<open>Tos_Apps\<close>: the programs under \<^verbatim>\<open>src/apps\<close>: their arguments, the configurations and backends they
    build, and what the inspection program writes to a coordinator. \<^verbatim>\<open>Tos_Random\<close>: the identities of a
    process and the deterministic generator (\<^verbatim>\<open>random.cpp\<close>).
  \<^item> \<^verbatim>\<open>Tos_Render\<close>: the renderings of snapshots, explanations and reports, with a reader for the JSON
    grammar that the renderings are proved against.
  \<^item> \<^verbatim>\<open>Tos_System\<close>, \<^verbatim>\<open>Tos_Safety\<close>, \<^verbatim>\<open>Tos_Guarantees\<close>: the composition. A scheduler run is the reflexive
    transitive closure of its public operations; \<^verbatim>\<open>component_run\<close> is the abstract specification it
    refines, in which each ledger and registry moves by its own operations only.

  \<^bold>\<open>Interfaces.\<close> The ledgers, the shard arrays and the registries state their laws as locales that are
  interpreted on the definitions of the code; the dispatch channel is the locale
  \<^verbatim>\<open>dispatch_channel\<close>: a channel may complete attempts of the scheduler while it is called, and may do
  nothing else to it. It is interpreted on the local channel for every executor, fault plan and timing,
  on the remote channel of the coordinator for every behaviour of its connections, and on the absent
  channel. A backend is the locale \<^verbatim>\<open>execution_backend\<close>, interpreted on the processor, the synthetic and
  the accelerator backend.

  \<^bold>\<open>What is shown.\<close> For the ledgers and registries: their invariants over every run and the finality of
  what they decide. For the scheduler: that it refines its components, when it plans, dispatches,
  retries and falls back, and what a restart recovers. For the formats: round trips and the refusal of
  damaged input. For the processes: that the coordinator only acts through the scheduler whatever bytes
  arrive, that only the bound incarnation completes, that a lost worker is fenced, and that a dispatch
  to a healthy worker commits. For the backends: that the publisher only acts through the scheduler,
  and that the parallel checksum of the device, and with it an execution on the accelerator, agrees with
  the host. For the programs: that a command line is parsed back, and that a read-only command of the
  inspection program leaves the scheduler of a coordinator as it is. Some theorems state where the code departs from its documentation.

  \<^bold>\<open>Conventions.\<close> Identities, generations and counters of the code are 64-bit words and wrap as the code
  does; container sizes are natural numbers; arrays indexed by an enumeration are functions; a lock
  scope of the code is one atomic step, so an interleaving of threads is a sequence of steps. Loops are
  structural or carry a termination proof; the depth-first search of the fallback graph has fuel one
  above the number of domain types, proved sufficient. In a kernel the barriers separate phases in
  which no thread writes what another reads, so a phase is one step on the shared array.

  \<^bold>\<open>Not modelled.\<close> Sockets and child processes (the bytes a connection delivers and whether a send
  succeeds are arguments), the CUDA runtime and the listing of adapters by the operating system (their
  answers are arguments), the instrumentation hooks, which only observe, and what the command-line
  programs print, with the local commands of the inspection program. The clock, the entropy and measured
  durations are arguments of the operations that read them.
\<close>

end
